(* ===== verification/Prelude.thy ===== *)
theory Prelude
  imports Main "HOL-Library.Sublist" "HOL-Library.AList"
begin

text \<open>
  Shared vocabulary of the development: Go strings (byte lists) and the functions of the packages
  strings, strconv and slices that the service calls, Go maps, error results, and the collections
  of rewrite rules the component theories use.

  A Go map is a list of its entries in some iteration order. Go leaves that order unspecified, so
  a statement about a map is a statement about every such list.
\<close>

named_theorems go_simps \<open>rewrite rules for the Go library functions\<close>
named_theorems stm_simps \<open>rewrite rules for storage computations\<close>
named_theorems enum_simps \<open>rewrite rules for the enumerations of the API\<close>

type_synonym 'v gomap = "(string \<times> 'v) list"

section \<open>Maps\<close>

definition gomap_get :: "'v gomap \<Rightarrow> string \<Rightarrow> 'v option" where
  "gomap_get m k = map_of m k"

definition gomap_put :: "string \<Rightarrow> 'v \<Rightarrow> 'v gomap \<Rightarrow> 'v gomap" where
  "gomap_put k v m = AList.update k v m"

definition gomap_delete :: "string \<Rightarrow> 'v gomap \<Rightarrow> 'v gomap" where
  "gomap_delete k m = AList.delete k m"

definition gomap_has :: "'v gomap \<Rightarrow> string \<Rightarrow> bool" where
  "gomap_has m k \<longleftrightarrow> k \<in> set (map fst m)"

definition gomap_wf :: "'v gomap \<Rightarrow> bool" where
  "gomap_wf m \<longleftrightarrow> distinct (map fst m)"

lemma gomap_get_put [simp]: "gomap_get (gomap_put k v m) k' = (if k = k' then Some v else gomap_get m k')"
  by (simp add: gomap_get_def gomap_put_def update_conv')

lemma gomap_get_delete [simp]: "gomap_get (gomap_delete k m) k' = (if k = k' then None else gomap_get m k')"
  by (simp add: gomap_get_def gomap_delete_def AList.delete_conv')

lemma gomap_get_Nil [simp]: "gomap_get [] k = None"
  by (simp add: gomap_get_def)

lemma gomap_get_Cons [simp]: "gomap_get (e # m) k = (if fst e = k then Some (snd e) else gomap_get m k)"
  by (cases e) (simp add: gomap_get_def)

lemma gomap_wf_put [simp, intro]: "gomap_wf m \<Longrightarrow> gomap_wf (gomap_put k v m)"
  by (simp add: gomap_wf_def gomap_put_def distinct_update)

lemma gomap_wf_delete [simp, intro]: "gomap_wf m \<Longrightarrow> gomap_wf (gomap_delete k m)"
  by (simp add: gomap_wf_def gomap_delete_def distinct_delete)

lemma gomap_wf_Nil [simp, intro]: "gomap_wf []"
  by (simp add: gomap_wf_def)

lemma gomap_wf_Cons [simp]: "gomap_wf (e # m) \<longleftrightarrow> gomap_get m (fst e) = None \<and> gomap_wf m"
  by (auto simp: gomap_wf_def gomap_get_def map_of_eq_None_iff)

lemma gomap_has_get: "gomap_has m k \<longleftrightarrow> gomap_get m k \<noteq> None"
  by (simp add: gomap_has_def gomap_get_def map_of_eq_None_iff)

section \<open>Strings\<close>

definition HasPrefix :: "string \<Rightarrow> string \<Rightarrow> bool" where
  "HasPrefix s p = prefix p s"

definition HasSuffix :: "string \<Rightarrow> string \<Rightarrow> bool" where
  "HasSuffix s p = suffix p s"

fun Contains :: "string \<Rightarrow> string \<Rightarrow> bool" where
  "Contains [] p = (p = [])"
| "Contains (c # s) p = (prefix p (c # s) \<or> Contains s p)"

lemma Contains_sublist: "Contains s p \<longleftrightarrow> sublist p s"
  by (induction s) (auto simp: sublist_Cons_right)

lemma Contains_append [intro]: "Contains s p \<Longrightarrow> Contains (a @ s @ b) p"
  unfolding Contains_sublist by (meson sublist_appendI sublist_order.order_trans)

text \<open>The UTF-8 encodings of the Unicode white space that strings.TrimSpace removes.\<close>

definition white_space :: "string list" where
  "white_space = map (map char_of)
     [[0x09], [0x0A], [0x0B], [0x0C], [0x0D], [0x20], [0xC2, 0x85], [0xC2, 0xA0 :: nat],
      [0xE1, 0x9A, 0x80],
      [0xE2, 0x80, 0x80], [0xE2, 0x80, 0x81], [0xE2, 0x80, 0x82], [0xE2, 0x80, 0x83],
      [0xE2, 0x80, 0x84], [0xE2, 0x80, 0x85], [0xE2, 0x80, 0x86], [0xE2, 0x80, 0x87],
      [0xE2, 0x80, 0x88], [0xE2, 0x80, 0x89], [0xE2, 0x80, 0x8A], [0xE2, 0x80, 0xA8],
      [0xE2, 0x80, 0xA9], [0xE2, 0x80, 0xAF], [0xE2, 0x81, 0x9F], [0xE3, 0x80, 0x80]]"

fun trim_left :: "string list \<Rightarrow> nat \<Rightarrow> string \<Rightarrow> string" where
  "trim_left ws 0 s = s"
| "trim_left ws (Suc n) s =
     (case find (\<lambda>w. prefix w s) ws of
        None \<Rightarrow> s
      | Some w \<Rightarrow> trim_left ws n (drop (length w) s))"

definition TrimSpace :: "string \<Rightarrow> string" where
  "TrimSpace s =
     (let l = trim_left white_space (length s) s
      in rev (trim_left (map rev white_space) (length l) (rev l)))"

lemma trim_left_suffix: "suffix (trim_left ws n s) s"
  by (induction ws n s rule: trim_left.induct)
     (auto split: option.splits intro: suffix_order.trans[OF _ suffix_drop])

lemma TrimSpace_sublist: "sublist (TrimSpace s) s"
proof -
  let ?l = "trim_left white_space (length s) s"
  let ?r = "trim_left (map rev white_space) (length ?l) (rev ?l)"
  have "suffix ?r (rev ?l)" by (rule trim_left_suffix)
  then have "sublist (rev ?r) ?l"
    by (metis prefix_imp_sublist rev_rev_ident suffix_to_prefix)
  moreover have "sublist ?l s" by (simp add: suffix_imp_sublist trim_left_suffix)
  ultimately show ?thesis
    unfolding TrimSpace_def Let_def by (rule sublist_order.order_trans)
qed

lemma TrimSpace_Nil [simp]: "TrimSpace [] = []"
  by (simp add: TrimSpace_def)

text \<open>A text that begins and ends with a visible ASCII character has no white space to trim.\<close>

definition visible :: "char \<Rightarrow> bool" where
  "visible c \<longleftrightarrow> 33 \<le> (of_char c :: nat) \<and> (of_char c :: nat) < 127"

lemma white_space_visible: "list_all (\<lambda>w. w \<noteq> [] \<and> \<not> visible (hd w) \<and> \<not> visible (last w)) white_space"
  by (simp add: white_space_def visible_def)

lemma trim_left_visible:
  assumes "list_all (\<lambda>w. w \<noteq> [] \<and> \<not> visible (hd w)) ws" "s = [] \<or> visible (hd s)"
  shows "trim_left ws n s = s"
proof (cases n)
  case (Suc m)
  have "\<not> prefix w s" if "w \<in> set ws" for w
  proof -
    from assms(1) that have "w \<noteq> []" "\<not> visible (hd w)" by (simp_all add: list_all_iff)
    with assms(2) show ?thesis by (cases w; cases s) auto
  qed
  then have "find (\<lambda>w. prefix w s) ws = None" by (simp add: find_None_iff)
  then show ?thesis by (simp add: Suc)
qed simp

lemma TrimSpace_visible:
  assumes "s = [] \<or> visible (hd s) \<and> visible (last s)"
  shows "TrimSpace s = s"
proof -
  have "list_all (\<lambda>w. w \<noteq> [] \<and> \<not> visible (hd w)) white_space" "list_all (\<lambda>w. w \<noteq> [] \<and> \<not> visible (hd w)) (map rev white_space)"
    using white_space_visible by (auto simp: list_all_iff hd_rev)
  then show ?thesis
    using assms trim_left_visible[of white_space s "length s"] trim_left_visible[of "map rev white_space" "rev s" "length s"]
    by (auto simp: TrimSpace_def Let_def hd_rev)
qed

text \<open>strings.Split for a one-byte separator: never empty, one more piece than separators.\<close>

fun Split :: "char \<Rightarrow> string \<Rightarrow> string list" where
  "Split c [] = [[]]"
| "Split c (x # s) =
     (if x = c then [] # Split c s
      else (case Split c s of [] \<Rightarrow> [[x]] | p # ps \<Rightarrow> (x # p) # ps))"

fun Join :: "string list \<Rightarrow> string \<Rightarrow> string" where
  "Join [] sep = []"
| "Join [x] sep = x"
| "Join (x # y # xs) sep = x @ sep @ Join (y # xs) sep"

lemma Split_ne [simp]: "Split c s \<noteq> []"
  by (cases s) (auto split: list.splits)

lemma Join_Split: "Join (Split c s) [c] = s"
proof (induction s)
  case (Cons x s)
  obtain p ps where "Split c s = p # ps" by (meson Split_ne list.exhaust)
  with Cons show ?case by (cases ps) auto
qed simp

text \<open>strconv.Itoa.\<close>

fun digits_of :: "nat \<Rightarrow> string" where
  "digits_of n = (if n < 10 then [char_of (48 + n)] else digits_of (n div 10) @ [char_of (48 + n mod 10)])"

declare digits_of.simps [simp del]

definition Itoa :: "int \<Rightarrow> string" where
  "Itoa i = (if i < 0 then ''-'' @ digits_of (nat (- i)) else digits_of (nat i))"

text \<open>
  strconv.Quote, the verb \<open>%q\<close> of package fmt. Bytes outside ASCII are kept as they are, which is
  what Go does for printable runes.
\<close>

definition hex_digit :: "nat \<Rightarrow> char" where
  "hex_digit n = (if n < 10 then char_of (48 + n) else char_of (87 + n))"

definition quote_char :: "char \<Rightarrow> string" where
  "quote_char c =
     (let n = (of_char c :: nat); bs = CHR 0x5C
      in if n = 0x22 \<or> n = 0x5C then [bs, c]
         else if n = 7 then [bs, CHR ''a''] else if n = 8 then [bs, CHR ''b'']
         else if n = 9 then [bs, CHR ''t''] else if n = 10 then [bs, CHR ''n'']
         else if n = 11 then [bs, CHR ''v''] else if n = 12 then [bs, CHR ''f'']
         else if n = 13 then [bs, CHR ''r'']
         else if n < 32 \<or> n = 127 then [bs, CHR ''x'', hex_digit (n div 16), hex_digit (n mod 16)]
         else [c])"

definition Quote :: "string \<Rightarrow> string" where
  "Quote s = [CHR 0x22] @ concat (map quote_char s) @ [CHR 0x22]"

section \<open>Results\<close>

text \<open>A fallible call returns a sum: the error on the left, the value on the right.\<close>

definition ebind :: "'e + 'a \<Rightarrow> ('a \<Rightarrow> 'e + 'b) \<Rightarrow> 'e + 'b" where
  "ebind r f = (case r of Inl e \<Rightarrow> Inl e | Inr x \<Rightarrow> f x)"

lemma ebind_simps [simp]: "ebind (Inl e) f = Inl e" "ebind (Inr x) f = f x"
  by (simp_all add: ebind_def)

lemma ebind_Inr_iff: "ebind r f = Inr y \<longleftrightarrow> (\<exists>x. r = Inr x \<and> f x = Inr y)"
  by (cases r) auto

text \<open>A loop that stops at the first error.\<close>

fun efirst :: "('a \<Rightarrow> 'e option) \<Rightarrow> 'a list \<Rightarrow> 'e option" where
  "efirst f [] = None"
| "efirst f (x # xs) = (case f x of Some e \<Rightarrow> Some e | None \<Rightarrow> efirst f xs)"

lemma efirst_None_iff: "efirst f xs = None \<longleftrightarrow> (\<forall>x \<in> set xs. f x = None)"
  by (induction xs) (auto split: option.splits)

section \<open>Keyed replacement in a list\<close>

text \<open>
  The loop that looks for the first entry with a key and overwrites it, or appends when there is
  none. Two operations of the job store have this shape.
\<close>

fun upsert :: "('a \<Rightarrow> bool) \<Rightarrow> ('a \<Rightarrow> 'a) \<Rightarrow> 'a \<Rightarrow> 'a list \<Rightarrow> 'a list" where
  "upsert p f x [] = [x]"
| "upsert p f x (y # ys) = (if p y then f y # ys else y # upsert p f x ys)"

lemma set_upsert: "set (upsert p f x ys) \<subseteq> insert x (set ys \<union> f ` {y \<in> set ys. p y})"
  by (induction ys) auto

lemma upsert_filter_other:
  "(\<And>y. p y \<Longrightarrow> \<not> q y) \<Longrightarrow> (\<And>y. p y \<Longrightarrow> \<not> q (f y)) \<Longrightarrow> \<not> q x \<Longrightarrow>
   filter q (upsert p f x ys) = filter q ys"
  by (induction ys) auto

lemma upsert_keys:
  assumes "\<And>y. p y \<longleftrightarrow> k y = k x" and "\<And>y. p y \<Longrightarrow> k (f y) = k x"
  shows "map k (upsert p f x ys) = (if k x \<in> k ` set ys then map k ys else map k ys @ [k x])"
  using assms by (induction ys) auto

lemma upsert_distinct_keys:
  assumes "\<And>y. p y \<longleftrightarrow> k y = k x" and "\<And>y. p y \<Longrightarrow> k (f y) = k x" and "distinct (map k ys)"
  shows "distinct (map k (upsert p f x ys))"
  using assms(3) by (auto simp: upsert_keys[OF assms(1,2)])

lemma find_cong_set: "(\<And>x. x \<in> set xs \<Longrightarrow> p x = q x) \<Longrightarrow> find p xs = find q xs"
  by (induction xs) auto

lemma map_nth_index: "i < length xs \<Longrightarrow> map f xs ! i = f (xs ! i)"
  by simp

end
