(* ===== verification/Float32.thy ===== *)
theory Float32
  imports Prelude Complex_Main "HOL-Library.Log_Nat"
begin

text \<open>
  Go's float32: IEEE 754 binary32 with rounding to nearest, ties to even. A finite value is its
  rational value, so the two zeros are one; the service never divides by a zero it has not tested
  for and never prints a zero's sign. Go may fuse a multiplication and an addition on some
  architectures; the model is the unfused arithmetic of amd64.

  The locale \<open>rounding\<close> states what the score computations use of a rounding function; it is
  interpreted on \<open>rnd32\<close>.
\<close>

datatype f32 = F32NaN | F32Inf bool | F32 rat

section \<open>Rounding a rational\<close>

text \<open>The floor of the binary logarithm of a positive rational.\<close>

definition ilog2 :: "rat \<Rightarrow> int" where
  "ilog2 r =
     (let (p, q) = quotient_of r; k = bitlen p - bitlen q
      in if 2 powi k \<le> r then k else k - 1)"

text \<open>The exponent of the unit in the last place of a positive value; -149 in the subnormal range.\<close>

definition ulp_exp :: "rat \<Rightarrow> int" where
  "ulp_exp r = max (ilog2 r - 23) (- 149)"

definition round_half_even :: "rat \<Rightarrow> int" where
  "round_half_even q =
     (let n = \<lfloor>q\<rfloor>; d = q - of_int n
      in if d < 1 / 2 then n else if d > 1 / 2 then n + 1 else if even n then n else n + 1)"

definition rnd_pos :: "rat \<Rightarrow> rat" where
  "rnd_pos r = (let u = 2 powi (ulp_exp r) in of_int (round_half_even (r / u)) * u)"

definition rnd32 :: "rat \<Rightarrow> rat" where
  "rnd32 r = (if r = 0 then 0 else if r > 0 then rnd_pos r else - rnd_pos (- r))"

definition f32_max_bound :: rat where
  "f32_max_bound = 2 ^ 128"

definition f32_of_rat :: "rat \<Rightarrow> f32" where
  "f32_of_rat r = (if \<bar>rnd32 r\<bar> \<ge> f32_max_bound then F32Inf (r < 0) else F32 (rnd32 r))"

section \<open>Operations\<close>

fun f32_neg :: "f32 \<Rightarrow> f32" where
  "f32_neg F32NaN = F32NaN"
| "f32_neg (F32Inf s) = F32Inf (\<not> s)"
| "f32_neg (F32 x) = F32 (- x)"

fun f32_add :: "f32 \<Rightarrow> f32 \<Rightarrow> f32" where
  "f32_add (F32 x) (F32 y) = f32_of_rat (x + y)"
| "f32_add F32NaN _ = F32NaN"
| "f32_add _ F32NaN = F32NaN"
| "f32_add (F32Inf s) (F32Inf t) = (if s = t then F32Inf s else F32NaN)"
| "f32_add (F32Inf s) (F32 _) = F32Inf s"
| "f32_add (F32 _) (F32Inf t) = F32Inf t"

definition f32_sub :: "f32 \<Rightarrow> f32 \<Rightarrow> f32" where
  "f32_sub x y = f32_add x (f32_neg y)"

fun f32_mul :: "f32 \<Rightarrow> f32 \<Rightarrow> f32" where
  "f32_mul (F32 x) (F32 y) = f32_of_rat (x * y)"
| "f32_mul F32NaN _ = F32NaN"
| "f32_mul _ F32NaN = F32NaN"
| "f32_mul (F32Inf s) (F32Inf t) = F32Inf (s \<noteq> t)"
| "f32_mul (F32Inf s) (F32 y) = (if y = 0 then F32NaN else F32Inf (s \<noteq> (y < 0)))"
| "f32_mul (F32 x) (F32Inf t) = (if x = 0 then F32NaN else F32Inf (t \<noteq> (x < 0)))"

fun f32_div :: "f32 \<Rightarrow> f32 \<Rightarrow> f32" where
  "f32_div (F32 x) (F32 y) =
     (if y = 0 then (if x = 0 then F32NaN else F32Inf (x < 0)) else f32_of_rat (x / y))"
| "f32_div F32NaN _ = F32NaN"
| "f32_div _ F32NaN = F32NaN"
| "f32_div (F32Inf s) (F32Inf t) = F32NaN"
| "f32_div (F32Inf s) (F32 y) = F32Inf (s \<noteq> (y < 0))"
| "f32_div (F32 x) (F32Inf t) = F32 0"

fun f32_le :: "f32 \<Rightarrow> f32 \<Rightarrow> bool" where
  "f32_le (F32 x) (F32 y) = (x \<le> y)"
| "f32_le F32NaN _ = False"
| "f32_le _ F32NaN = False"
| "f32_le (F32Inf s) (F32Inf t) = (s \<or> \<not> t)"
| "f32_le (F32Inf s) (F32 _) = s"
| "f32_le (F32 _) (F32Inf t) = (\<not> t)"

fun f32_eq :: "f32 \<Rightarrow> f32 \<Rightarrow> bool" where
  "f32_eq F32NaN _ = False"
| "f32_eq _ F32NaN = False"
| "f32_eq x y = (x = y)"

fun f32_finite :: "f32 \<Rightarrow> bool" where
  "f32_finite (F32 _) = True"
| "f32_finite _ = False"

text \<open>A finite float32 is a value that rounding does not change, below the overflow bound.\<close>

fun f32_valid :: "f32 \<Rightarrow> bool" where
  "f32_valid (F32 x) = (rnd32 x = x \<and> \<bar>x\<bar> < f32_max_bound)"
| "f32_valid _ = True"

section \<open>The interface of a rounding function\<close>

locale rounding =
  fixes rnd :: "rat \<Rightarrow> rat"
  assumes rnd_mono: "x \<le> y \<Longrightarrow> rnd x \<le> rnd y"
    and rnd_zero: "rnd 0 = 0"
    and rnd_one: "rnd 1 = 1"
begin

lemma rnd_nonneg: "0 \<le> x \<Longrightarrow> 0 \<le> rnd x"
  using rnd_mono[of 0 x] by (simp add: rnd_zero)

lemma rnd_unit: "0 \<le> x \<Longrightarrow> x \<le> 1 \<Longrightarrow> 0 \<le> rnd x \<and> rnd x \<le> 1"
  using rnd_mono[of x 1] by (simp add: rnd_nonneg rnd_one)

lemma weighted_le: 
  assumes "0 \<le> w" "rnd w = w" "s \<le> 1" 
  shows "rnd (w * s) \<le> w"
proof -
  have "w * s \<le> w" using assms by (simp add: mult_left_le)
  with rnd_mono[of "w * s" w] assms(2) show ?thesis by simp
qed

lemma accumulate_le:
  assumes "0 \<le> w" "rnd w = w" "s \<le> 1" "a \<le> b"
  shows "rnd (a + rnd (w * s)) \<le> rnd (b + w)"
  by (rule rnd_mono) (use weighted_le[OF assms(1-3)] assms(4) in linarith)

lemma accumulate_nonneg: "0 \<le> a \<Longrightarrow> 0 \<le> w \<Longrightarrow> 0 \<le> s \<Longrightarrow> 0 \<le> rnd (a + rnd (w * s))"
  by (intro rnd_nonneg add_nonneg_nonneg) simp_all

lemma average_unit: "0 \<le> a \<Longrightarrow> a \<le> b \<Longrightarrow> 0 < b \<Longrightarrow> 0 \<le> rnd (a / b) \<and> rnd (a / b) \<le> 1"
  by (intro rnd_unit) simp_all

end

section \<open>Rounding to binary32 satisfies the interface\<close>

lemma bitlen_powi:
  assumes "p > 0"
  shows "(2::rat) powi (bitlen p - 1) \<le> of_int p" and "of_int p < (2::rat) powi bitlen p"
proof -
  have b: "bitlen p \<ge> 1" using assms by (auto simp: bitlen_alt_def)
  have "(of_int (2 ^ nat (bitlen p - 1)) :: rat) \<le> of_int p"
    using bitlen_bounds[OF assms] by (simp only: of_int_le_iff)
  then show "(2::rat) powi (bitlen p - 1) \<le> of_int p" using b by (simp add: power_int_def)
  have "(of_int p :: rat) < of_int (2 ^ nat (bitlen p))"
    using bitlen_bounds[OF assms] by (simp only: of_int_less_iff)
  then show "of_int p < (2::rat) powi bitlen p" using b by (simp add: power_int_def)
qed

lemma ilog2_bounds:
  assumes "r > 0"
  shows "2 powi (ilog2 r) \<le> r" and "r < 2 powi (ilog2 r + 1)"
proof -
  obtain p q where pq: "quotient_of r = (p, q)" by (cases "quotient_of r")
  have r: "r = of_int p / of_int q" and q: "q > 0"
    using quotient_of_div[OF pq] quotient_of_denom_pos[OF pq] by simp_all
  have p: "p > 0"
    using assms q by (auto simp: r zero_less_divide_iff)
  define a b where "a = bitlen p" and "b = bitlen q"
  note lo = bitlen_powi(1)[OF p, folded a_def] bitlen_powi(1)[OF q, folded b_def]
  note hi = bitlen_powi(2)[OF p, folded a_def] bitlen_powi(2)[OF q, folded b_def]
  have "2 powi (a - b - 1) * of_int q \<le> 2 powi (a - b - 1) * (2 powi b :: rat)"
    using hi(2) by (intro mult_left_mono) auto
  also have "\<dots> = 2 powi (a - 1)"
    by (simp flip: power_int_add)
  finally have l: "2 powi (a - b - 1) \<le> r"
    using lo(1) q by (simp add: r pos_le_divide_eq)
  have "of_int p < 2 powi (a - b + 1) * (2 powi (b - 1) :: rat)"
    using hi(1) by (simp flip: power_int_add)
  also have "\<dots> \<le> 2 powi (a - b + 1) * of_int q"
    using lo(2) by (intro mult_left_mono) auto
  finally have h: "r < 2 powi (a - b + 1)"
    using q by (simp add: r pos_divide_less_eq)
  show "2 powi (ilog2 r) \<le> r" "r < 2 powi (ilog2 r + 1)"
    using l h by (auto simp: ilog2_def pq Let_def a_def b_def)
qed

lemma powi_less_iff: "(2::rat) powi i < 2 powi j \<longleftrightarrow> i < j"
  using power_int_strict_increasing[of i j "2::rat"] power_int_increasing[of j i "2::rat"]
  by (cases "i < j") auto

lemma powi_mono_iff: "(2::rat) powi i \<le> 2 powi j \<longleftrightarrow> i \<le> j"
  using powi_less_iff[of j i] by (auto simp: not_less[symmetric])

lemma powi_quotient:
  assumes "e \<le> k"
  shows "(2::rat) powi k / 2 powi e = of_int (2 ^ nat (k - e))"
proof -
  have "(2::rat) powi k / 2 powi e = 2 powi (k - e)"
    by (rule power_int_diff[symmetric]) simp
  with assms show ?thesis by (simp add: power_int_def)
qed

lemma ulp_exp_mono: "0 < r \<Longrightarrow> r \<le> s \<Longrightarrow> ulp_exp r \<le> ulp_exp s"
proof -
  assume rs: "0 < r" "r \<le> s"
  have "(2::rat) powi (ilog2 r) < 2 powi (ilog2 s + 1)"
    using ilog2_bounds(1)[of r] ilog2_bounds(2)[of s] rs by linarith
  then show ?thesis by (simp add: ulp_exp_def powi_less_iff)
qed

lemma ulp_upper: "0 < r \<Longrightarrow> r < 2 powi (ulp_exp r + 24)"
proof -
  assume r: "0 < r"
  have "r < 2 powi (ilog2 r + 1)" using ilog2_bounds(2)[OF r] .
  also have "\<dots> \<le> 2 powi (ulp_exp r + 24)" by (simp add: powi_mono_iff ulp_exp_def)
  finally show ?thesis .
qed

lemma ulp_lower: "0 < r \<Longrightarrow> ulp_exp r \<noteq> - 149 \<Longrightarrow> 2 powi (ulp_exp r + 23) \<le> r"
  using ilog2_bounds(1)[of r] by (auto simp: ulp_exp_def max_def split: if_splits)

lemma round_half_even_bounds: "\<lfloor>q\<rfloor> \<le> round_half_even q" "round_half_even q \<le> \<lfloor>q\<rfloor> + 1"
  by (auto simp: round_half_even_def Let_def)

lemma round_half_even_int [simp]: "round_half_even (of_int n) = n"
  by (simp add: round_half_even_def)

lemma round_half_even_mono: "q \<le> r \<Longrightarrow> round_half_even q \<le> round_half_even r"
proof -
  assume qr: "q \<le> r"
  show ?thesis
  proof (cases "\<lfloor>q\<rfloor> = \<lfloor>r\<rfloor>")
    case True
    with qr show ?thesis by (auto simp: round_half_even_def Let_def)
  next
    case False
    with floor_mono[OF qr] have "\<lfloor>q\<rfloor> + 1 \<le> \<lfloor>r\<rfloor>" by linarith
    with round_half_even_bounds[of q] round_half_even_bounds[of r] show ?thesis by linarith
  qed
qed

lemma rnd_pos_le: 
  assumes "0 < r" "r \<le> 2 powi k" "ulp_exp r \<le> k"
  shows "rnd_pos r \<le> 2 powi k"
proof -
  let ?u = "(2::rat) powi (ulp_exp r)"
  have eq: "(2::rat) powi k / ?u = of_int (2 ^ nat (k - ulp_exp r))"
    by (rule powi_quotient[OF assms(3)])
  have "r / ?u \<le> of_int (2 ^ nat (k - ulp_exp r))"
    unfolding eq[symmetric] using assms(2) by (intro divide_right_mono) simp_all
  from round_half_even_mono[OF this]
  have "round_half_even (r / ?u) \<le> 2 ^ nat (k - ulp_exp r)" 
    by (simp only: round_half_even_int)
  then have "of_int (round_half_even (r / ?u)) \<le> (2::rat) powi k / ?u"
    by (simp only: eq of_int_le_iff)
  then show ?thesis by (simp add: rnd_pos_def Let_def pos_le_divide_eq)
qed

lemma rnd_pos_ge:
  assumes "0 < r" "2 powi k \<le> r" "ulp_exp r \<le> k"
  shows "2 powi k \<le> rnd_pos r"
proof -
  let ?u = "(2::rat) powi (ulp_exp r)"
  have eq: "(2::rat) powi k / ?u = of_int (2 ^ nat (k - ulp_exp r))"
    by (rule powi_quotient[OF assms(3)])
  have "of_int (2 ^ nat (k - ulp_exp r)) \<le> r / ?u"
    unfolding eq[symmetric] using assms(2) by (intro divide_right_mono) simp_all
  from round_half_even_mono[OF this]
  have "2 ^ nat (k - ulp_exp r) \<le> round_half_even (r / ?u)" 
    by (simp only: round_half_even_int)
  then have "(2::rat) powi k / ?u \<le> of_int (round_half_even (r / ?u))"
    by (simp only: eq of_int_le_iff)
  then show ?thesis by (simp add: rnd_pos_def Let_def pos_divide_le_eq)
qed

lemma rnd_pos_mono:
  assumes "0 < r" "r \<le> s"
  shows "rnd_pos r \<le> rnd_pos s"
proof (cases "ulp_exp r = ulp_exp s")
  case True
  have "r / 2 powi ulp_exp s \<le> s / 2 powi ulp_exp s"
    using assms by (intro divide_right_mono) auto
  from round_half_even_mono[OF this] show ?thesis
    by (simp add: rnd_pos_def True Let_def)
next
  case False
  then have e: "ulp_exp r + 1 \<le> ulp_exp s" using ulp_exp_mono[OF assms] by linarith
  have s: "0 < s" using assms by linarith
  have "rnd_pos r \<le> 2 powi (ulp_exp r + 24)"
    using ulp_upper[OF assms(1)] by (intro rnd_pos_le assms(1)) simp_all
  also have "\<dots> \<le> 2 powi (ulp_exp s + 23)"
    using e by (simp add: powi_mono_iff)
  also have "\<dots> \<le> rnd_pos s"
    using e s by (intro rnd_pos_ge ulp_lower s) (auto simp: ulp_exp_def)
  finally show ?thesis .
qed

lemma rnd_pos_nonneg: "0 < r \<Longrightarrow> 0 \<le> rnd_pos r"
proof -
  assume "0 < r"
  then have "0 \<le> round_half_even (r / 2 powi ulp_exp r)"
    using round_half_even_mono[of 0 "r / 2 powi ulp_exp r"] round_half_even_int[of 0] by simp
  then show ?thesis by (simp add: rnd_pos_def Let_def)
qed

lemma rnd32_mono: "x \<le> y \<Longrightarrow> rnd32 x \<le> rnd32 y"
  using rnd_pos_mono[of x y] rnd_pos_mono[of "- y" "- x"] rnd_pos_nonneg[of y] rnd_pos_nonneg[of "- x"]
  by (auto simp: rnd32_def)

lemma rnd_pos_power:
  assumes "- 149 \<le> k"
  shows "rnd_pos (2 powi k) = 2 powi k"
proof -
  have "ilog2 (2 powi k) \<le> k"
    using ilog2_bounds(1)[of "2 powi k"] by (simp add: powi_mono_iff)
  with assms have "ulp_exp (2 powi k) \<le> k" by (simp add: ulp_exp_def)
  then show ?thesis
    using rnd_pos_le[of "2 powi k" k] rnd_pos_ge[of "2 powi k" k] by simp
qed

interpretation r32: rounding rnd32
proof unfold_locales
  show "rnd32 0 = 0" by (simp add: rnd32_def)
  show "rnd32 1 = 1" using rnd_pos_power[of 0] by (simp add: rnd32_def)
qed (rule rnd32_mono)

end
