(* ===== verification/Api.thy ===== *)
theory Api
  imports Float32
begin

text \<open>
  The data model of the service (pkg/api): the enumerations, the configuration and resource
  structures of evaluation jobs, collections and providers, and the pure functions of the package.

  A pointer to a structure is an \<open>option\<close>; a slice is a list, so a nil slice and an empty one are
  the same value, which no modelled operation tells apart. A string-valued enumeration is a
  datatype with one constructor per constant and one for every other string, since Go's string
  types admit any string. Times are integers (nanoseconds), 0 being Go's zero time.
\<close>

type_synonym time = int

text \<open>Values of Go's type any, as they occur in decoded JSON documents and in metrics.\<close>

datatype go_any =
    ANil
  | ABool bool
  | AFloat64 rat
  | AFloat32 f32
  | AInt int
  | AInt32 int
  | AInt64 int
  | AString string
  | AArray "go_any list"
  | AMap "(string \<times> go_any) list"

section \<open>Common structures (common.go)\<close>

type_synonym Tenant = string
type_synonym User = string

definition Tenant_IsEmpty :: "Tenant \<Rightarrow> bool" where
  "Tenant_IsEmpty t \<longleftrightarrow> t = ''''"

datatype PatchOp = PatchOpReplace | PatchOpAdd | PatchOpRemove | PatchOpOther string

record PatchOperation =
  po_Op :: PatchOp
  po_Path :: string
  po_Value :: go_any

record Resource =
  r_ID :: string
  r_Tenant :: Tenant
  r_CreatedAt :: time
  r_UpdatedAt :: time
  r_Owner :: User

definition IsSystemResource :: "Resource \<Rightarrow> bool" where
  "IsSystemResource r \<longleftrightarrow> r_Owner r = ''system''"

record Page =
  pg_First :: "string option"
  pg_Next :: "string option"
  pg_Limit :: int
  pg_TotalCount :: int

record EnvVar =
  ev_Name :: string
  ev_Value :: string

section \<open>Enumerations (evaluations.go)\<close>

datatype ResultType =
    ResultTypeNumeric | ResultTypeCategorical | ResultTypeArrayOrdered | ResultTypeArrayUnordered
  | ResultTypeTimeSeries | ResultTypeOther string

definition DefaultResultType :: ResultType where
  "DefaultResultType = ResultTypeNumeric"

record MetricSchema =
  ms_Name :: string
  ms_Type :: ResultType

datatype State =
    StatePending | StateRunning | StateCompleted | StateFailed | StateCancelled | StateOther string

definition IsBenchmarkTerminalState :: "State \<Rightarrow> bool" where
  "IsBenchmarkTerminalState s \<longleftrightarrow> s = StateCompleted \<or> s = StateFailed \<or> s = StateCancelled"

datatype JobPhase =
    JobPhaseInitializing | JobPhaseLoadingData | JobPhaseRunningEvaluation | JobPhasePostProcessing
  | JobPhasePersistingArtifacts | JobPhaseCompleted | JobPhaseOther string

datatype OverallState =
    OverallStatePending | OverallStateRunning | OverallStateCompleted | OverallStateFailed
  | OverallStateCancelled | OverallStatePartiallyFailed | OverallStateOther string

fun OverallState_String :: "OverallState \<Rightarrow> string" where
  "OverallState_String OverallStatePending = ''pending''"
| "OverallState_String OverallStateRunning = ''running''"
| "OverallState_String OverallStateCompleted = ''completed''"
| "OverallState_String OverallStateFailed = ''failed''"
| "OverallState_String OverallStateCancelled = ''cancelled''"
| "OverallState_String OverallStatePartiallyFailed = ''partially_failed''"
| "OverallState_String (OverallStateOther s) = s"

definition IsTerminalState :: "OverallState \<Rightarrow> bool" where
  "IsTerminalState s \<longleftrightarrow>
     s = OverallStateCompleted \<or> s = OverallStateFailed \<or> s = OverallStateCancelled \<or>
     s = OverallStatePartiallyFailed"

text \<open>GetOverallState returns the state together with the error for an unknown name.\<close>

definition GetOverallState :: "string \<Rightarrow> OverallState \<times> string option" where
  "GetOverallState s =
     (if s = ''pending'' then (OverallStatePending, None)
      else if s = ''running'' then (OverallStateRunning, None)
      else if s = ''completed'' then (OverallStateCompleted, None)
      else if s = ''failed'' then (OverallStateFailed, None)
      else if s = ''cancelled'' then (OverallStateCancelled, None)
      else if s = ''partially_failed'' then (OverallStatePartiallyFailed, None)
      else (OverallStateOther s, Some (''invalid overall state: '' @ s)))"

fun State_String :: "State \<Rightarrow> string" where
  "State_String StatePending = ''pending''"
| "State_String StateRunning = ''running''"
| "State_String StateCompleted = ''completed''"
| "State_String StateFailed = ''failed''"
| "State_String StateCancelled = ''cancelled''"
| "State_String (StateOther s) = s"

datatype MessageOrigin =
    MessageOriginServer | MessageOriginRuntime | MessageOriginAdapter | MessageOriginSDK
  | MessageOriginUnset | MessageOriginOther string

record MessageInfo =
  mi_Message :: string
  mi_MessageCode :: string
  mi_MessageOrigin :: MessageOrigin

definition WithMessageOrigin :: "MessageInfo option \<Rightarrow> MessageOrigin \<Rightarrow> MessageInfo option" where
  "WithMessageOrigin m origin = map_option (\<lambda>i. i\<lparr>mi_MessageOrigin := origin\<rparr>) m"

definition DefaultMessageOrigin :: "MessageInfo option \<Rightarrow> MessageOrigin \<Rightarrow> MessageInfo option" where
  "DefaultMessageOrigin m origin =
     map_option (\<lambda>i. if mi_MessageOrigin i = MessageOriginUnset then i\<lparr>mi_MessageOrigin := origin\<rparr> else i) m"

section \<open>Benchmark configuration\<close>

record ModelAuth =
  ma_SecretRef :: string

record ModelRef =
  mr_URL :: string
  mr_Name :: string
  mr_Auth :: "ModelAuth option"
  mr_Parameters :: "go_any gomap"
  mr_CardURL :: string

record PrimaryScore =
  ps_Metric :: string
  ps_LowerIsBetter :: bool

record PassCriteria =
  pc_Threshold :: "f32 option"

record S3TestDataRef =
  s3_Bucket :: string
  s3_Key :: string
  s3_SecretRef :: string

record PVCTestDataRef =
  pvc_ClaimName :: string
  pvc_SubPath :: string

record GitTestDataRef =
  git_URL :: string
  git_Ref :: string
  git_SubPath :: string
  git_SecretRef :: string

record HFTestDataRef =
  hf_RepoID :: string
  hf_Revision :: string
  hf_SubPath :: string
  hf_SecretRef :: string

record TestDataRef =
  td_S3 :: "S3TestDataRef option"
  td_PVC :: "PVCTestDataRef option"
  td_Git :: "GitTestDataRef option"
  td_HF :: "HFTestDataRef option"
  td_Type :: string
  td_ResolvedSHA :: string

record QueueConfig =
  q_Kind :: string
  q_Name :: string

record HardwareResourceQuantity =
  hq_Request :: string
  hq_Limit :: string

record HardwareGPUConfig =
  hg_Name :: string
  hg_Count :: int

record HardwareDRAConfig =
  hd_ResourceClaimTemplate :: string
  hd_ClaimName :: string

record BenchmarkHardwareConfig =
  hw_HardwareProfileName :: string
  hw_Queue :: "QueueConfig option"
  hw_CPU :: "HardwareResourceQuantity option"
  hw_Memory :: "HardwareResourceQuantity option"
  hw_GPU :: "HardwareGPUConfig option"
  hw_DRA :: "HardwareDRAConfig option"

definition HasDirectFields :: "BenchmarkHardwareConfig option \<Rightarrow> bool" where
  "HasDirectFields h =
     (case h of None \<Rightarrow> False
      | Some c \<Rightarrow> hw_Queue c \<noteq> None \<or> hw_CPU c \<noteq> None \<or> hw_Memory c \<noteq> None \<or>
                  hw_GPU c \<noteq> None \<or> hw_DRA c \<noteq> None)"

record EvaluationBenchmarkConfig =
  eb_ID :: string
  eb_ProviderID :: string
  eb_Weight :: f32
  eb_PrimaryScore :: "PrimaryScore option"
  eb_PassCriteria :: "PassCriteria option"
  eb_HardwareConfig :: "BenchmarkHardwareConfig option"
  eb_Parameters :: "go_any gomap"
  eb_TestDataRef :: "TestDataRef option"

section \<open>Evaluation jobs\<close>

record ExperimentTag =
  et_Key :: string
  et_Value :: string

record ExperimentConfig =
  ex_Name :: string
  ex_Tags :: "ExperimentTag list"
  ex_ArtifactLocation :: string

record BenchmarkStatus =
  bs_ProviderID :: string
  bs_ID :: string
  bs_BenchmarkIndex :: int
  bs_Status :: State
  bs_Phase :: JobPhase
  bs_ErrorMessage :: "MessageInfo option"
  bs_WarningMessage :: "MessageInfo option"
  bs_StartedAt :: string
  bs_CompletedAt :: string

record JobMeta =
  jm_ResolvedSHA :: string

record BenchmarkStatusEvent =
  be_ProviderID :: string
  be_ID :: string
  be_BenchmarkIndex :: int
  be_Status :: State
  be_Phase :: JobPhase
  be_Metrics :: "go_any gomap"
  be_MetricsSchema :: "MetricSchema list"
  be_PrimaryScore :: "PrimaryScore option"
  be_AdditionalInfo :: "go_any gomap"
  be_Artifacts :: "go_any gomap"
  be_ErrorMessage :: "MessageInfo option"
  be_WarningMessage :: "MessageInfo option"
  be_StartedAt :: string
  be_CompletedAt :: string
  be_MLFlowRunID :: string
  be_LogsPath :: string
  be_JobMeta :: "JobMeta option"

definition StampRuntimeMessageOrigins :: "BenchmarkStatusEvent \<Rightarrow> BenchmarkStatusEvent" where
  "StampRuntimeMessageOrigins e =
     e\<lparr>be_ErrorMessage := DefaultMessageOrigin (be_ErrorMessage e) MessageOriginRuntime,
       be_WarningMessage := DefaultMessageOrigin (be_WarningMessage e) MessageOriginRuntime\<rparr>"

record EvaluationTest =
  jt_Score :: f32
  jt_Threshold :: f32
  jt_Pass :: bool

record BenchmarkTest =
  bt_PrimaryScore :: f32
  bt_PrimaryScoreMetric :: string
  bt_LowerIsBetter :: "bool option"
  bt_Threshold :: f32
  bt_Pass :: bool

record BenchmarkResult =
  br_ID :: string
  br_ProviderID :: string
  br_Contacts :: "string list"
  br_BenchmarkIndex :: int
  br_Metrics :: "go_any gomap"
  br_MetricsSchema :: "MetricSchema list"
  br_AdditionalInfo :: "go_any gomap"
  br_Artifacts :: "go_any gomap"
  br_MLFlowRunID :: string
  br_LogsPath :: string
  br_Test :: "BenchmarkTest option"

section \<open>OCI exports (oci.go)\<close>

record OCICoordinates =
  oc_OCIHost :: string
  oc_OCIRepository :: string
  oc_OCITag :: string
  oc_Annotations :: "string gomap"

record OCIConnectionConfig =
  ok_Connection :: string

record OCISigningConfig =
  os_Type :: string
  os_SecretRef :: "string option"

record EvaluationExportsOCI =
  eo_Coordinates :: OCICoordinates
  eo_K8s :: "OCIConnectionConfig option"
  eo_Signing :: "OCISigningConfig option"

record EvaluationExports =
  ee_OCI :: "EvaluationExportsOCI option"

record OCIArtifactReference =
  oa_OCIDigest :: string
  oa_OCIReference :: string

datatype OCIProcessingState =
  OCIProcessingRunning | OCIProcessingFailed | OCIProcessingCompleted | OCIProcessingOther string

fun OCIProcessingState_String :: "OCIProcessingState \<Rightarrow> string" where
  "OCIProcessingState_String OCIProcessingRunning = ''running''"
| "OCIProcessingState_String OCIProcessingFailed = ''failed''"
| "OCIProcessingState_String OCIProcessingCompleted = ''completed''"
| "OCIProcessingState_String (OCIProcessingOther s) = s"

definition IsOCIProcessingTerminalState :: "OCIProcessingState \<Rightarrow> bool" where
  "IsOCIProcessingTerminalState s \<longleftrightarrow> s = OCIProcessingFailed \<or> s = OCIProcessingCompleted"

record OCIProcessingStatus =
  op_State :: OCIProcessingState
  op_Message :: "MessageInfo option"

record OCISigningResult =
  or_Type :: string

record EvaluationOCIResults =
  oi_Status :: "OCIProcessingStatus option"
  oi_EvaluationCard :: "OCIArtifactReference option"
  oi_EvaluationBundle :: "OCIArtifactReference option"
  oi_Signing :: "OCISigningResult option"

record EvaluationJobResults =
  rs_OCI :: "EvaluationOCIResults option"
  rs_Test :: "EvaluationTest option"
  rs_Benchmarks :: "BenchmarkResult list"
  rs_MLFlowExperimentURL :: string

definition empty_results :: EvaluationJobResults where
  "empty_results = \<lparr>rs_OCI = None, rs_Test = None, rs_Benchmarks = [], rs_MLFlowExperimentURL = ''''\<rparr>"

definition empty_oci_results :: EvaluationOCIResults where
  "empty_oci_results = \<lparr>oi_Status = None, oi_EvaluationCard = None, oi_EvaluationBundle = None, oi_Signing = None\<rparr>"

definition UpdateOCIResults ::
  "EvaluationJobResults option \<Rightarrow> OCIProcessingStatus option \<Rightarrow> OCIArtifactReference option \<Rightarrow>
   EvaluationJobResults option" where
  "UpdateOCIResults results status crd =
     (if status = None \<and> crd = None then results
      else
        let res = (case results of None \<Rightarrow> empty_results | Some r \<Rightarrow> r);
            oci = (case rs_OCI res of None \<Rightarrow> empty_oci_results | Some o' \<Rightarrow> o');
            oci1 = (case status of None \<Rightarrow> oci | Some s \<Rightarrow> oci\<lparr>oi_Status := Some s\<rparr>);
            oci2 = (case crd of None \<Rightarrow> oci1 | Some c \<Rightarrow> oci1\<lparr>oi_EvaluationCard := Some c\<rparr>)
        in Some (res\<lparr>rs_OCI := Some oci2\<rparr>))"

section \<open>Job resources\<close>

record CollectionRef =
  cr_ID :: string
  cr_Benchmarks :: "EvaluationBenchmarkConfig list"
  cr_CollectionUpdatedAt :: "time option"

record EvaluationJobConfig =
  ec_Name :: string
  ec_Description :: "string option"
  ec_Tags :: "string list"
  ec_Model :: "ModelRef option"
  ec_PassCriteria :: "PassCriteria option"
  ec_Benchmarks :: "EvaluationBenchmarkConfig list"
  ec_Collection :: "CollectionRef option"
  ec_Experiment :: "ExperimentConfig option"
  ec_Custom :: "go_any gomap option"
  ec_Exports :: "EvaluationExports option"
  ec_HardwareConfig :: "BenchmarkHardwareConfig option"
  ec_Queue :: "QueueConfig option"

definition EffectiveHardwareConfig ::
  "EvaluationBenchmarkConfig option \<Rightarrow> EvaluationJobConfig option \<Rightarrow> BenchmarkHardwareConfig option" where
  "EffectiveHardwareConfig benchmark evaluation =
     (case benchmark of
        Some b \<Rightarrow> (case eb_HardwareConfig b of
            Some h \<Rightarrow> Some h
          | None \<Rightarrow> (case evaluation of None \<Rightarrow> None | Some e \<Rightarrow> ec_HardwareConfig e))
      | None \<Rightarrow> (case evaluation of None \<Rightarrow> None | Some e \<Rightarrow> ec_HardwareConfig e))"

record EvaluationJobStatus =
  js_State :: OverallState
  js_Message :: "MessageInfo option"
  js_Benchmarks :: "BenchmarkStatus list"

record EvaluationJobResource =
  ej_Resource :: Resource
  ej_MLFlowExperimentID :: string
  ej_Status :: "EvaluationJobStatus option"
  ej_Results :: "EvaluationJobResults option"
  ej_Config :: EvaluationJobConfig

definition IsResultsExportEligible :: "EvaluationJobResource \<Rightarrow> bool" where
  "IsResultsExportEligible job =
     (case ej_Status job of None \<Rightarrow> False
      | Some s \<Rightarrow> js_State s = OverallStateCompleted \<or> js_State s = OverallStatePartiallyFailed)"

definition IsOCIExportEnabled :: "EvaluationJobResource \<Rightarrow> bool" where
  "IsOCIExportEnabled job =
     (case ec_Exports (ej_Config job) of None \<Rightarrow> False | Some e \<Rightarrow> ee_OCI e \<noteq> None)"

section \<open>Collections (collections.go)\<close>

record CollectionBenchmarkConfig =
  cb_ID :: string
  cb_ProviderID :: string
  cb_URL :: string
  cb_Weight :: f32
  cb_PrimaryScore :: "PrimaryScore option"
  cb_PassCriteria :: "PassCriteria option"
  cb_Parameters :: "go_any gomap"
  cb_TestDataRef :: "TestDataRef option"

definition ToEvaluationBenchmark :: "CollectionBenchmarkConfig \<Rightarrow> EvaluationBenchmarkConfig" where
  "ToEvaluationBenchmark b =
     \<lparr>eb_ID = cb_ID b, eb_ProviderID = cb_ProviderID b, eb_Weight = cb_Weight b,
      eb_PrimaryScore = cb_PrimaryScore b, eb_PassCriteria = cb_PassCriteria b,
      eb_HardwareConfig = None, eb_Parameters = cb_Parameters b, eb_TestDataRef = cb_TestDataRef b\<rparr>"

record CollectionAgentMetadata =
  ca_Evaluates :: "string list"
  ca_RecommendedWhen :: "string list"
  ca_Summary :: string
  ca_Complements :: "string list"
  ca_Hints :: "string list"
  ca_ResultInterpretation :: "string list"

record CollectionConfig =
  cc_Name :: string
  cc_Description :: string
  cc_Category :: string
  cc_Tags :: "string list"
  cc_Custom :: "go_any gomap option"
  cc_PassCriteria :: "PassCriteria option"
  cc_Benchmarks :: "CollectionBenchmarkConfig list"
  cc_Agent :: "CollectionAgentMetadata option"
  cc_CurationOrder :: int
  cc_Domains :: "string list"
  cc_Tasks :: "string list"
  cc_Modalities :: "string list"
  cc_Industries :: "string list"
  cc_EvaluationTargets :: "string list"

record CollectionStatus =
  cs_RunCount :: int

record CollectionResource =
  co_Resource :: Resource
  co_DerivedFrom :: string
  co_PinnedOrder :: int
  co_Config :: CollectionConfig
  co_Status :: "CollectionStatus option"

definition ApplyOverrides :: "CollectionConfig \<Rightarrow> CollectionConfig option \<Rightarrow> CollectionConfig" where
  "ApplyOverrides c overrides =
     (case overrides of
        None \<Rightarrow> c
      | Some ov \<Rightarrow>
          c\<lparr>cc_Name := (if cc_Name ov \<noteq> '''' then cc_Name ov else cc_Name c),
            cc_Description := (if cc_Description ov \<noteq> '''' then cc_Description ov else cc_Description c),
            cc_Category := (if cc_Category ov \<noteq> '''' then cc_Category ov else cc_Category c),
            cc_Tags := (if cc_Tags ov \<noteq> [] then cc_Tags ov else cc_Tags c),
            cc_PassCriteria := (if cc_PassCriteria ov \<noteq> None then cc_PassCriteria ov else cc_PassCriteria c),
            cc_Benchmarks := (if cc_Benchmarks ov \<noteq> [] then cc_Benchmarks ov else cc_Benchmarks c),
            cc_Domains := (if cc_Domains ov \<noteq> [] then cc_Domains ov else cc_Domains c),
            cc_Tasks := (if cc_Tasks ov \<noteq> [] then cc_Tasks ov else cc_Tasks c),
            cc_Modalities := (if cc_Modalities ov \<noteq> [] then cc_Modalities ov else cc_Modalities c),
            cc_Industries := (if cc_Industries ov \<noteq> [] then cc_Industries ov else cc_Industries c),
            cc_EvaluationTargets :=
              (if cc_EvaluationTargets ov \<noteq> [] then cc_EvaluationTargets ov else cc_EvaluationTargets c),
            cc_Custom := (if cc_Custom ov \<noteq> None then cc_Custom ov else cc_Custom c),
            cc_Agent := (if cc_Agent ov \<noteq> None then cc_Agent ov else cc_Agent c),
            cc_CurationOrder := 0\<rparr>)"

section \<open>Providers (providers.go)\<close>

record AgentMetadata =
  am_Evaluates :: "string list"
  am_RecommendedWhen :: "string list"
  am_TargetType :: string
  am_Summary :: string
  am_Complements :: "string list"
  am_Hints :: "string list"
  am_ResultInterpretation :: "string list"

record ScoreRange =
  sr_Range :: string
  sr_Meaning :: string

record BenchmarkAgentMetadata =
  ba_ResultInterpretation :: string
  ba_ScoreRanges :: "ScoreRange list"

record BenchmarkResource =
  b_ID :: string
  b_URL :: string
  b_Name :: string
  b_Description :: string
  b_Category :: string
  b_Metrics :: "string list"
  b_NumFewShot :: int
  b_DatasetSize :: int
  b_Tags :: "string list"
  b_PrimaryScore :: "PrimaryScore option"
  b_PassCriteria :: "PassCriteria option"
  b_Agent :: "BenchmarkAgentMetadata option"
  b_Domains :: "string list"
  b_Tasks :: "string list"
  b_Modalities :: "string list"
  b_EvaluationTargets :: "string list"

record GPUConfig =
  gc_Resource :: string
  gc_Count :: int
  gc_NodeSelector :: "string gomap"

record DRAConfig =
  dc_ResourceClaimTemplate :: string
  dc_ClaimName :: string

record K8sRuntime =
  kr_Image :: string
  kr_Entrypoint :: "string list"
  kr_CPURequest :: string
  kr_MemoryRequest :: string
  kr_CPULimit :: string
  kr_MemoryLimit :: string
  kr_GPU :: "GPUConfig option"
  kr_DRA :: "DRAConfig option"
  kr_Env :: "EnvVar list"
  kr_ImagePullPolicy :: string

record LocalRuntime =
  lr_Command :: string
  lr_Env :: "EnvVar list"

record Runtime =
  rt_K8s :: "K8sRuntime option"
  rt_Local :: "LocalRuntime option"

record ProviderConfig =
  pv_Name :: string
  pv_Description :: string
  pv_Title :: string
  pv_Tags :: "string list"
  pv_Benchmarks :: "BenchmarkResource list"
  pv_Runtime :: "Runtime option"
  pv_Agent :: "AgentMetadata option"

record ProviderResource =
  pr_Resource :: Resource
  pr_Config :: ProviderConfig

section \<open>Hardware profiles (info.go)\<close>

record QueueInfo =
  qi_Status :: string
  qi_Name :: string
  qi_Active :: bool
  qi_Reason :: string
  qi_Message :: string

record HardwareProfileIdentifier =
  hi_Identifier :: string
  hi_DisplayName :: string
  hi_ResourceType :: string
  hi_MinCount :: string
  hi_DefaultCount :: string
  hi_MaxCount :: string

record QueueAvailability =
  qa_Status :: string
  qa_Reason :: string
  qa_Message :: string

record HardwareProfileInfo =
  hp_PriorityClassName :: string
  hp_QueueName :: string
  hp_Name :: string
  hp_DisplayName :: string
  hp_Description :: string
  hp_SchedulingType :: string
  hp_Identifiers :: "HardwareProfileIdentifier list"
  hp_QueueAvailability :: "QueueAvailability option"

section \<open>Commit hashes (git.go)\<close>

text \<open>
  Go ranges over the runes of the string; a byte of a multi-byte or an invalid sequence decodes to
  a rune that is no ASCII hexadecimal digit, so the test is the same byte by byte.
\<close>

definition is_hex_digit :: "char \<Rightarrow> bool" where
  "is_hex_digit c =
     (let n = (of_char c :: nat)
      in \<not> ((n < 48 \<or> n > 57) \<and> (n < 97 \<or> n > 102) \<and> (n < 65 \<or> n > 70)))"

definition LooksLikeHexSHA :: "string \<Rightarrow> bool" where
  "LooksLikeHexSHA s \<longleftrightarrow> \<not> (length s < 7 \<or> length s > 40) \<and> list_all is_hex_digit s"

definition ValidateResolvedSHA :: "string \<Rightarrow> string option" where
  "ValidateResolvedSHA sha =
     (if sha = '''' then None
      else if \<not> LooksLikeHexSHA sha then Some (''resolved_sha '' @ Quote sha @ '' must be 7-40 hex characters'')
      else None)"

section \<open>Lemmas\<close>

lemma IsTerminalState_simps [simp, enum_simps]:
  "IsTerminalState OverallStateCompleted" "IsTerminalState OverallStateFailed"
  "IsTerminalState OverallStateCancelled" "IsTerminalState OverallStatePartiallyFailed"
  "\<not> IsTerminalState OverallStatePending" "\<not> IsTerminalState OverallStateRunning"
  "\<not> IsTerminalState (OverallStateOther s)"
  by (simp_all add: IsTerminalState_def)

lemma IsBenchmarkTerminalState_simps [simp, enum_simps]:
  "IsBenchmarkTerminalState StateCompleted" "IsBenchmarkTerminalState StateFailed"
  "IsBenchmarkTerminalState StateCancelled"
  "\<not> IsBenchmarkTerminalState StatePending" "\<not> IsBenchmarkTerminalState StateRunning"
  "\<not> IsBenchmarkTerminalState (StateOther s)"
  by (simp_all add: IsBenchmarkTerminalState_def)

text \<open>A state name that is one of the constants parses back to the state.\<close>

definition known_state :: "OverallState \<Rightarrow> bool" where
  "known_state s = (case s of OverallStateOther _ \<Rightarrow> False | _ \<Rightarrow> True)"

lemma GetOverallState_String: "known_state s \<Longrightarrow> GetOverallState (OverallState_String s) = (s, None)"
  by (cases s) (simp_all add: known_state_def GetOverallState_def)

lemma GetOverallState_known: "snd (GetOverallState n) = None \<Longrightarrow> OverallState_String (fst (GetOverallState n)) = n"
  by (auto simp: GetOverallState_def split: if_splits)

lemma WithMessageOrigin_simps [simp]:
  "WithMessageOrigin None o' = None"
  "WithMessageOrigin (Some m) o' = Some (m\<lparr>mi_MessageOrigin := o'\<rparr>)"
  by (simp_all add: WithMessageOrigin_def)

end
