(* ===== verification/Errors.thy ===== *)
theory Errors
  imports Prelude "HOL-Library.Word" "HOL-Library.Signed_Division"
begin

text \<open>
  Errors of the service: the message catalogue (messages/messages.go), the service error with its
  rollback flag (serviceerrors/error.go), Go's error values as the storage layer meets them, the
  recognition of a serialization failure and the delays between the attempts of a transaction
  (storage/sql/serialization_failure.go).
\<close>

section \<open>The message catalogue\<close>

datatype message_code =
    MissingPathParameter
  | ResourceNotFound
  | QueryParameterRequired
  | QueryParameterValueInvalid
  | QueryParameterInvalid
  | QueryBadParameter
  | QueryParameterMismatch
  | JobCanNotBeUpdated
  | PostProcessingSourceNotCompleted
  | RequestBodyTooLarge
  | InvalidJSONRequest
  | InvalidPatchOperation
  | UnallowedPatch
  | RequestValidationFailed
  | ResourceDoesNotExist
  | ModelURLRequired
  | LocalRuntimeNotEnabled
  | ProviderIDNotUnique
  | ReadOnlyProvider
  | ReadOnlyCollection
  | MLFlowRequiredForExperiment
  | MLFlowRequestFailed
  | ConfigurationFailed
  | JSONUnmarshalFailed
  | DatabaseOperationFailed
  | QueryFailed
  | CollectionEmpty
  | EvaluationJobEmpty
  | InternalServerError
  | MethodNotAllowed
  | NotImplemented
  | UnknownError
  | MissingTenantHeader
  | MissingUserHeader
  | HardwareProfileDisabled
  | HardwareProfileNotFound
  | HardwareProfileFetchFailed
  | HardwareProfileInvalid
  | InvalidSecretRefURIParse
  | InvalidSecretRefURI
  | ResolvedSHAReadOnly

text \<open>
  A template of package text/template as the catalogue uses it: literal text and the placeholders
  \<open>{{.Name}}\<close>.
\<close>

datatype seg = Lit string | Var string

definition sq :: seg where
  "sq = Lit [CHR 0x27]"

primrec message_status :: "message_code \<Rightarrow> nat" where
  "message_status MissingPathParameter = 400"
| "message_status ResourceNotFound = 404"
| "message_status QueryParameterRequired = 400"
| "message_status QueryParameterValueInvalid = 400"
| "message_status QueryParameterInvalid = 400"
| "message_status QueryBadParameter = 400"
| "message_status QueryParameterMismatch = 400"
| "message_status JobCanNotBeUpdated = 409"
| "message_status PostProcessingSourceNotCompleted = 409"
| "message_status RequestBodyTooLarge = 413"
| "message_status InvalidJSONRequest = 400"
| "message_status InvalidPatchOperation = 400"
| "message_status UnallowedPatch = 400"
| "message_status RequestValidationFailed = 400"
| "message_status ResourceDoesNotExist = 400"
| "message_status ModelURLRequired = 400"
| "message_status LocalRuntimeNotEnabled = 400"
| "message_status ProviderIDNotUnique = 400"
| "message_status ReadOnlyProvider = 400"
| "message_status ReadOnlyCollection = 403"
| "message_status MLFlowRequiredForExperiment = 400"
| "message_status MLFlowRequestFailed = 400"
| "message_status ConfigurationFailed = 500"
| "message_status JSONUnmarshalFailed = 500"
| "message_status DatabaseOperationFailed = 500"
| "message_status QueryFailed = 500"
| "message_status CollectionEmpty = 400"
| "message_status EvaluationJobEmpty = 400"
| "message_status InternalServerError = 500"
| "message_status MethodNotAllowed = 405"
| "message_status NotImplemented = 501"
| "message_status UnknownError = 500"
| "message_status MissingTenantHeader = 400"
| "message_status MissingUserHeader = 400"
| "message_status HardwareProfileDisabled = 400"
| "message_status HardwareProfileNotFound = 404"
| "message_status HardwareProfileFetchFailed = 500"
| "message_status HardwareProfileInvalid = 400"
| "message_status InvalidSecretRefURIParse = 400"
| "message_status InvalidSecretRefURI = 400"
| "message_status ResolvedSHAReadOnly = 400"

primrec message_one :: "message_code \<Rightarrow> seg list" where
  "message_one MissingPathParameter =
     [Lit ''The path parameter '', sq, Var ''ParameterName'', sq, Lit '' is required.'']"
| "message_one ResourceNotFound =
     [Lit ''The '', Var ''Type'', Lit '' resource '', sq, Var ''ResourceId'', sq, Lit '' was not found.'']"
| "message_one QueryParameterRequired =
     [Lit ''The query parameter '', sq, Var ''ParameterName'', sq, Lit '' is required.'']"
| "message_one QueryParameterValueInvalid =
     [Lit ''The query parameter '', sq, Var ''ParameterName'', sq, Lit '' is not valid. Allowed values are: '', sq, Var ''AllowedValues'', sq, Lit ''.'']"
| "message_one QueryParameterInvalid =
     [Lit ''The query parameter '', sq, Var ''ParameterName'', sq, Lit '' is not a valid '', Var ''Type'', Lit '': '', sq, Var ''Value'', sq, Lit ''.'']"
| "message_one QueryBadParameter =
     [Lit ''The parameter '', sq, Var ''ParameterName'', sq, Lit '' is not a valid query parameter. Allowed parameters are: '', Var ''AllowedParameters'', Lit ''.'']"
| "message_one QueryParameterMismatch =
     [Lit ''The query parameters '', sq, Var ''ParameterNames'', sq, Lit '' are mutually exclusive.'']"
| "message_one JobCanNotBeUpdated =
     [Lit ''The job '', Var ''Id'', Lit '' can not be '', Var ''NewStatus'', Lit '' because it is '', sq, Var ''Status'', sq, Lit ''.'']"
| "message_one PostProcessingSourceNotCompleted =
     [Lit ''The evaluation job '', sq, Var ''Id'', sq, Lit '' must be completed before post-processing.'']"
| "message_one RequestBodyTooLarge =
     [Lit ''The request body exceeds the maximum allowed size of '', Var ''Limit'', Lit '' bytes.'']"
| "message_one InvalidJSONRequest =
     [Lit ''The request JSON is invalid: '', sq, Var ''Error'', sq, Lit ''. Please check the request and try again.'']"
| "message_one InvalidPatchOperation =
     [Lit ''The patch operation '', sq, Var ''Operation'', sq, Lit '' is not valid. Allowed operations are: '', Var ''AllowedOperations'', Lit ''.'']"
| "message_one UnallowedPatch =
     [Lit ''The operation '', sq, Var ''Operation'', sq, Lit '' is not allowed for the path '', sq, Var ''Path'', sq, Lit ''.'']"
| "message_one RequestValidationFailed =
     [Lit ''The request validation failed: '', sq, Var ''Error'', sq, Lit ''. Please check the request and try again.'']"
| "message_one ResourceDoesNotExist =
     [Lit ''The '', Var ''Type'', Lit '' with id '', sq, Var ''ResourceID'', sq, Lit '' does not exist.'']"
| "message_one ModelURLRequired =
     [Lit ''The model URL is required when not all benchmarks have pre-recorded data.'']"
| "message_one LocalRuntimeNotEnabled =
     [Lit ''Local runtime is not enabled for provider '', sq, Var ''ProviderID'', sq, Lit ''. Please configure a local runtime command for this provider and try again.'']"
| "message_one ProviderIDNotUnique =
     [Lit ''The provider ID '', sq, Var ''ProviderID'', sq, Lit '' is not unique.'']"
| "message_one ReadOnlyProvider =
     [Lit ''Provider '', sq, Var ''ProviderID'', sq, Lit '' cannot be modified or deleted.'']"
| "message_one ReadOnlyCollection =
     [Lit ''Collection '', sq, Var ''CollectionID'', sq, Lit '' cannot be modified or deleted.'']"
| "message_one MLFlowRequiredForExperiment =
     [Lit ''MLflow is required for experiment tracking. Please configure MLflow in the service configuration and try again.'']"
| "message_one MLFlowRequestFailed =
     [Lit ''The MLflow request failed: '', sq, Var ''Error'', sq, Lit ''. Please check the MLflow configuration and try again.'']"
| "message_one ConfigurationFailed =
     [Lit ''The service startup failed: '', sq, Var ''Error'', sq, Lit ''.'']"
| "message_one JSONUnmarshalFailed =
     [Lit ''The JSON un-marshalling failed for the '', Var ''Type'', Lit '': '', sq, Var ''Error'', sq, Lit ''.'']"
| "message_one DatabaseOperationFailed =
     [Lit ''The request for the '', Var ''Type'', Lit '' resource '', Var ''ResourceId'', Lit '' failed: '', sq, Var ''Error'', sq, Lit ''.'']"
| "message_one QueryFailed =
     [Lit ''The request for the '', Var ''Type'', Lit '' failed: '', sq, Var ''Error'', sq, Lit ''.'']"
| "message_one CollectionEmpty =
     [Lit ''The collection '', Var ''CollectionID'', Lit '' does not have any benchmarks.'']"
| "message_one EvaluationJobEmpty =
     [Lit ''The evaluation job '', Var ''EvaluationJobID'', Lit '' does not have any benchmarks.'']"
| "message_one InternalServerError =
     [Lit ''An internal server error occurred: '', sq, Var ''Error'', sq, Lit ''.'']"
| "message_one MethodNotAllowed =
     [Lit ''The HTTP method '', Var ''Method'', Lit '' is not allowed for the API '', Var ''Api'', Lit ''.'']"
| "message_one NotImplemented =
     [Lit ''The API '', Var ''Api'', Lit '' is not yet implemented.'']"
| "message_one UnknownError =
     [Lit ''An unknown error occurred: '', Var ''Error'', Lit ''.'']"
| "message_one MissingTenantHeader =
     [Lit ''The request is missing a required header '', Var ''Header'', Lit ''.'']"
| "message_one MissingUserHeader =
     [Lit ''The request is missing a required header '', Var ''Header'', Lit ''.'']"
| "message_one HardwareProfileDisabled =
     [Lit ''The hardware profile '', sq, Var ''Name'', sq, Lit '' is disabled.'']"
| "message_one HardwareProfileNotFound =
     [Lit ''The hardware profile '', sq, Var ''Name'', sq, Lit '' was not found.'']"
| "message_one HardwareProfileFetchFailed =
     [Lit ''Failed to fetch hardware profile '', sq, Var ''Name'', sq, Lit ''.'']"
| "message_one HardwareProfileInvalid =
     [Lit ''The hardware profile '', sq, Var ''Name'', sq, Lit '' is invalid: '', sq, Var ''Error'', sq, Lit ''.'']"
| "message_one InvalidSecretRefURIParse =
     [Lit ''The model.auth.secret_ref '', sq, Var ''SecretRef'', sq, Lit '' is not a valid URI: '', Var ''Detail'', Lit ''.'']"
| "message_one InvalidSecretRefURI =
     [Lit ''The model.auth.secret_ref '', sq, Var ''SecretRef'', sq, Lit '' must use the file:///path form (e.g. file:///home/user/secret) in local mode.'']"
| "message_one ResolvedSHAReadOnly =
     [Lit ''The field '', sq, Lit ''resolved_sha'', sq, Lit '' is read-only and must not be set on create.'']"

primrec message_id :: "message_code \<Rightarrow> string" where
  "message_id MissingPathParameter = ''missing_path_parameter''"
| "message_id ResourceNotFound = ''resource_not_found''"
| "message_id QueryParameterRequired = ''query_parameter_required''"
| "message_id QueryParameterValueInvalid = ''query_parameter_value_invalid''"
| "message_id QueryParameterInvalid = ''query_parameter_invalid''"
| "message_id QueryBadParameter = ''query_bad_parameter''"
| "message_id QueryParameterMismatch = ''query_parameter_mismatch''"
| "message_id JobCanNotBeUpdated = ''job_can_not_be_updated''"
| "message_id PostProcessingSourceNotCompleted = ''post_processing_source_not_completed''"
| "message_id RequestBodyTooLarge = ''request_body_too_large''"
| "message_id InvalidJSONRequest = ''invalid_json_request''"
| "message_id InvalidPatchOperation = ''invalid_patch_operation''"
| "message_id UnallowedPatch = ''unallowed_patch''"
| "message_id RequestValidationFailed = ''request_validation_failed''"
| "message_id ResourceDoesNotExist = ''resource_does_not_exist''"
| "message_id ModelURLRequired = ''model_url_required''"
| "message_id LocalRuntimeNotEnabled = ''local_runtime_not_enabled''"
| "message_id ProviderIDNotUnique = ''provider_id_not_unique''"
| "message_id ReadOnlyProvider = ''read_only_provider''"
| "message_id ReadOnlyCollection = ''read_only_collection''"
| "message_id MLFlowRequiredForExperiment = ''mlflow_required_for_experiment''"
| "message_id MLFlowRequestFailed = ''mlflow_request_failed''"
| "message_id ConfigurationFailed = ''configuration_failed''"
| "message_id JSONUnmarshalFailed = ''json_unmarshalling_failed''"
| "message_id DatabaseOperationFailed = ''database_operation_failed''"
| "message_id QueryFailed = ''query_failed''"
| "message_id CollectionEmpty = ''collection_empty''"
| "message_id EvaluationJobEmpty = ''evaluation_job_empty''"
| "message_id InternalServerError = ''internal_server_error''"
| "message_id MethodNotAllowed = ''method_not_allowed''"
| "message_id NotImplemented = ''not_implemented''"
| "message_id UnknownError = ''unknown_error''"
| "message_id MissingTenantHeader = ''missing_tenant_header''"
| "message_id MissingUserHeader = ''missing_user_header''"
| "message_id HardwareProfileDisabled = ''hardware_profile_disabled''"
| "message_id HardwareProfileNotFound = ''hardware_profile_not_found''"
| "message_id HardwareProfileFetchFailed = ''hardware_profile_fetch_failed''"
| "message_id HardwareProfileInvalid = ''hardware_profile_invalid''"
| "message_id InvalidSecretRefURIParse = ''invalid_secret_ref_uri_parse''"
| "message_id InvalidSecretRefURI = ''invalid_secret_ref_uri''"
| "message_id ResolvedSHAReadOnly = ''resolved_sha_read_only''"

text \<open>The loop of GetErrorMessage that pairs the parameters up; a later pair overwrites an earlier one.\<close>

fun message_params :: "string list \<Rightarrow> string gomap" where
  "message_params [] = []"
| "message_params [p] = [(p, ''NOT_DEFINED'')]"
| "message_params (p # v # rest) = (p, v) # message_params rest"

fun render_seg :: "string gomap \<Rightarrow> seg \<Rightarrow> string" where
  "render_seg ps (Lit t) = t"
| "render_seg ps (Var x) = (case gomap_get (rev ps) x of Some v \<Rightarrow> v | None \<Rightarrow> ''<no value>'')"

definition GetErrorMessage :: "message_code \<Rightarrow> string list \<Rightarrow> string" where
  "GetErrorMessage c ps = concat (map (render_seg (message_params ps)) (message_one c))"

section \<open>Service errors\<close>

record ServiceError =
  messageCode :: message_code
  messageParams :: "string list"
  rollback :: bool

text \<open>
  Go's error interface: a service error, an error of the PostgreSQL driver (its SQLSTATE code and
  its text), or any other error by its text.
\<close>

datatype go_error = ServiceErr ServiceError | PgErr string string | PlainErr string

fun err_text :: "go_error \<Rightarrow> string" where
  "err_text (ServiceErr e) = GetErrorMessage (messageCode e) (messageParams e)"
| "err_text (PgErr code text) = text"
| "err_text (PlainErr text) = text"

definition NewServiceError :: "message_code \<Rightarrow> string list \<Rightarrow> go_error" where
  "NewServiceError c ps = ServiceErr \<lparr>messageCode = c, messageParams = ps, rollback = False\<rparr>"

fun WithRollback :: "go_error \<Rightarrow> go_error" where
  "WithRollback (ServiceErr e) = ServiceErr (e\<lparr>rollback := True\<rparr>)"
| "WithRollback e =
     ServiceErr \<lparr>messageCode = InternalServerError, messageParams = [''Error'', err_text e], rollback = True\<rparr>"

fun ShouldRollback :: "go_error \<Rightarrow> bool" where
  "ShouldRollback (ServiceErr e) = rollback e"
| "ShouldRollback _ = True"

fun has_code :: "message_code \<Rightarrow> go_error \<Rightarrow> bool" where
  "has_code c (ServiceErr e) = (messageCode e = c)"
| "has_code c _ = False"

section \<open>Serialization failures\<close>

definition isSerializationFailure :: "go_error \<Rightarrow> bool" where
  "isSerializationFailure err =
     ((case err of PgErr code _ \<Rightarrow> code = ''40001'' | _ \<Rightarrow> False) \<or>
      (let msg = err_text err
       in Contains msg ''SQLSTATE 40001'' \<or>
          Contains msg ''could not serialize access due to read/write dependencies among transactions''))"

definition serializationFailureMaxAttempts :: nat where
  "serializationFailureMaxAttempts = 5"

text \<open>Durations are int64 nanoseconds.\<close>

type_synonym duration = "64 word"

definition serializationRetryBaseDelay :: duration where
  "serializationRetryBaseDelay = 10000000"

definition serializationRetryMaxDelay :: duration where
  "serializationRetryMaxDelay = 250000000"

text \<open>
  The random number generator is the parameter \<open>rnd\<close>: it takes the exclusive bound and returns a
  number below it, or nothing when reading the random source failed.
\<close>

definition serializationRetryJitter :: "(int \<Rightarrow> int option) \<Rightarrow> int \<Rightarrow> int option" where
  "serializationRetryJitter rnd delay =
     (let mx = delay sdiv 4 + 1 in if mx \<le> 0 then Some 0 else rnd mx)"

definition serializationFailureBackoff :: "(int \<Rightarrow> int option) \<Rightarrow> int \<Rightarrow> int" where
  "serializationFailureBackoff rnd attempt =
     (if attempt < 1 then 0
      else
        let shifted = push_bit (nat (attempt - 1)) serializationRetryBaseDelay;
            delay = (if sint shifted > sint serializationRetryMaxDelay
                     then sint serializationRetryMaxDelay else sint shifted)
        in (case serializationRetryJitter rnd delay of None \<Rightarrow> delay | Some j \<Rightarrow> delay + j))"

section \<open>Lemmas\<close>

lemma NewServiceError_simps [simp]:
  "ShouldRollback (NewServiceError c ps) = False"
  "has_code c (NewServiceError c' ps) = (c' = c)"
  by (simp_all add: NewServiceError_def)

lemma WithRollback_rolls_back [simp]: "ShouldRollback (WithRollback e)"
  by (cases e) simp_all

lemma WithRollback_code [simp]: "has_code c (WithRollback (NewServiceError c' ps)) = (c' = c)"
  by (simp add: NewServiceError_def)

lemma WithRollback_text [simp]: "err_text (WithRollback (NewServiceError c ps)) = err_text (NewServiceError c ps)"
  by (simp add: NewServiceError_def)

text \<open>
  A serialization failure that a storage operation wraps into a service error is still recognised,
  because every template used for wrapping prints the text of the cause.
\<close>

definition serialization_text :: "string \<Rightarrow> bool" where
  "serialization_text t \<longleftrightarrow>
     Contains t ''SQLSTATE 40001'' \<or>
     Contains t ''could not serialize access due to read/write dependencies among transactions''"

lemma serialization_text_append [intro]: "serialization_text t \<Longrightarrow> serialization_text (a @ t @ b)"
  unfolding serialization_text_def by (blast intro: Contains_append)

lemma isSerializationFailure_text: "serialization_text (err_text e) \<Longrightarrow> isSerializationFailure e"
  by (simp add: isSerializationFailure_def serialization_text_def Let_def)

lemma concat_split_nth: "i < length xs \<Longrightarrow> concat xs = concat (take i xs) @ xs ! i @ concat (drop (Suc i) xs)"
  by (metis concat.simps(2) concat_append id_take_nth_drop)

lemma rendered_error:
  assumes "Var ''Error'' \<in> set (message_one c)" and "gomap_get (rev (message_params ps)) ''Error'' = Some t"
  shows "\<exists>a b. err_text (NewServiceError c ps) = a @ t @ b"
proof -
  let ?r = "map (render_seg (message_params ps)) (message_one c)"
  from assms(1) obtain i where "i < length (message_one c)" "message_one c ! i = Var ''Error''"
    by (auto simp: in_set_conv_nth)
  then have "i < length ?r" "?r ! i = t" using assms(2) by simp_all
  then show ?thesis
    using concat_split_nth[of i ?r] by (auto simp: NewServiceError_def GetErrorMessage_def)
qed

lemma wrapped_serialization_failure:
  assumes "Var ''Error'' \<in> set (message_one c)"
    and "gomap_get (rev (message_params ps)) ''Error'' = Some t" and "serialization_text t"
  shows "isSerializationFailure (NewServiceError c ps)"
  using rendered_error[OF assms(1,2)] assms(3)
  by (metis isSerializationFailure_text serialization_text_append)

end
