(* ===== verification/Benchmarks.thy ===== *)
theory Benchmarks
  imports Api Errors
begin

text \<open>
  The effective benchmarks of a job: the merge of a collection's benchmarks with the overrides of a
  job (handlers/helpers.go), the validation of overrides (validation/validator.go), and the
  normalisation and checks of a job configuration before it is stored (handlers/evaluations.go).
\<close>

type_synonym benchmark_key = "string \<times> string"

definition cb_key :: "CollectionBenchmarkConfig \<Rightarrow> benchmark_key" where
  "cb_key b = (cb_ProviderID b, cb_ID b)"

definition eb_key :: "EvaluationBenchmarkConfig \<Rightarrow> benchmark_key" where
  "eb_key b = (eb_ProviderID b, eb_ID b)"

section \<open>Merging one benchmark\<close>

fun isEmpty :: "go_any \<Rightarrow> bool" where
  "isEmpty ANil = True"
| "isEmpty (AString s) = (s = '''')"
| "isEmpty _ = False"

definition apply_parameter :: "string \<times> go_any \<Rightarrow> go_any gomap \<Rightarrow> go_any gomap" where
  "apply_parameter e ps =
     (if isEmpty (snd e) then gomap_delete (fst e) ps else gomap_put (fst e) (snd e) ps)"

definition applyParameters :: "go_any gomap \<Rightarrow> go_any gomap \<Rightarrow> go_any gomap" where
  "applyParameters source ps = fold apply_parameter source ps"

definition exact_override :: "CollectionBenchmarkConfig \<Rightarrow> EvaluationBenchmarkConfig \<Rightarrow> bool" where
  "exact_override b jb \<longleftrightarrow> eb_ProviderID jb = cb_ProviderID b \<and> eb_ID jb = cb_ID b"

definition mergeBenchmarkParameters ::
  "CollectionBenchmarkConfig \<Rightarrow> EvaluationBenchmarkConfig list \<Rightarrow> EvaluationBenchmarkConfig" where
  "mergeBenchmarkParameters b jobBenchmarks =
     (let parameters0 = applyParameters (cb_Parameters b) [];
          parameters = fold (\<lambda>jb ps. if exact_override b jb \<and> eb_ID jb \<noteq> ''''
                                      then applyParameters (eb_Parameters jb) ps else ps)
                            jobBenchmarks parameters0;
          match = find (exact_override b) jobBenchmarks;
          testDataRef = (case match of
              Some jb \<Rightarrow> (if eb_TestDataRef jb \<noteq> None then eb_TestDataRef jb else cb_TestDataRef b)
            | None \<Rightarrow> cb_TestDataRef b);
          hardware0 = (case match of Some jb \<Rightarrow> eb_HardwareConfig jb | None \<Rightarrow> None);
          hardware = (if hardware0 = None
            then (case find (\<lambda>jb. eb_ProviderID jb = cb_ProviderID b \<and> eb_ID jb = '''' \<and>
                                   eb_HardwareConfig jb \<noteq> None) jobBenchmarks of
                    Some jb \<Rightarrow> eb_HardwareConfig jb | None \<Rightarrow> None)
            else hardware0)
      in \<lparr>eb_ID = cb_ID b, eb_ProviderID = cb_ProviderID b, eb_Weight = cb_Weight b,
          eb_PrimaryScore = cb_PrimaryScore b, eb_PassCriteria = cb_PassCriteria b,
          eb_HardwareConfig = hardware, eb_Parameters = parameters, eb_TestDataRef = testDataRef\<rparr>)"

section \<open>The effective benchmarks of a job\<close>

definition group_count :: "CollectionBenchmarkConfig list \<Rightarrow> benchmark_key \<Rightarrow> nat" where
  "group_count cbs k = length (filter (\<lambda>b. cb_key b = k) cbs)"

definition group_overrides :: "EvaluationBenchmarkConfig list \<Rightarrow> benchmark_key \<Rightarrow> EvaluationBenchmarkConfig list" where
  "group_overrides ovs k = filter (\<lambda>jb. eb_ID jb \<noteq> '''' \<and> eb_key jb = k) ovs"

definition provider_overrides :: "EvaluationBenchmarkConfig list \<Rightarrow> EvaluationBenchmarkConfig list" where
  "provider_overrides ovs = filter (\<lambda>jb. eb_ID jb = '''') ovs"

definition by_occurrence :: "CollectionBenchmarkConfig list \<Rightarrow> EvaluationBenchmarkConfig list \<Rightarrow> benchmark_key \<Rightarrow> bool" where
  "by_occurrence cbs ovs k \<longleftrightarrow> group_count cbs k > 1 \<and> length (group_overrides ovs k) = group_count cbs k"

text \<open>The loop over the collection's benchmarks; \<open>next'\<close> is the field next of each group.\<close>

fun merge_collection ::
  "CollectionBenchmarkConfig list \<Rightarrow> EvaluationBenchmarkConfig list \<Rightarrow> (benchmark_key \<Rightarrow> nat) \<Rightarrow>
   CollectionBenchmarkConfig list \<Rightarrow> EvaluationBenchmarkConfig list" where
  "merge_collection cbs ovs next' [] = []"
| "merge_collection cbs ovs next' (b # bs) =
     (let k = cb_key b
      in if by_occurrence cbs ovs k
         then mergeBenchmarkParameters b (group_overrides ovs k ! next' k # provider_overrides ovs)
                # merge_collection cbs ovs (next'(k := Suc (next' k))) bs
         else mergeBenchmarkParameters b ovs # merge_collection cbs ovs next' bs)"

definition job_collection_id :: "EvaluationJobConfig \<Rightarrow> string" where
  "job_collection_id cfg = (case ec_Collection cfg of None \<Rightarrow> '''' | Some c \<Rightarrow> cr_ID c)"

definition job_overrides :: "EvaluationJobConfig \<Rightarrow> EvaluationBenchmarkConfig list" where
  "job_overrides cfg = (case ec_Collection cfg of None \<Rightarrow> [] | Some c \<Rightarrow> cr_Benchmarks c)"

definition GetJobBenchmarks ::
  "EvaluationJobResource \<Rightarrow> CollectionResource option \<Rightarrow> go_error + EvaluationBenchmarkConfig list" where
  "GetJobBenchmarks job collection =
     (let cfg = ej_Config job; cid = job_collection_id cfg
      in if cid \<noteq> ''''
         then (case collection of
             None \<Rightarrow> Inl (NewServiceError InternalServerError [''Error'', ''Failed to resolve collection '' @ cid])
           | Some c \<Rightarrow>
               (let cbs = cc_Benchmarks (co_Config c)
                in if cbs = [] then Inl (NewServiceError CollectionEmpty [''CollectionID'', cid])
                   else Inr (merge_collection cbs (job_overrides cfg) (\<lambda>_. 0) cbs)))
         else if ec_Benchmarks cfg = []
              then Inl (NewServiceError EvaluationJobEmpty [''EvaluationJobID'', r_ID (ej_Resource job)])
              else Inr (ec_Benchmarks cfg))"

text \<open>
  The test data of an effective benchmark is a pointer: to the object of the collection's benchmark,
  to the one of an override, or to the one of the job's own benchmark. Two effective benchmarks share
  an object when they take it from the same override. The positions count the benchmarks of the
  collection and the overrides of the job.
\<close>

datatype ref_source = RefCollection nat | RefOverride nat | RefOwn nat

definition override_positions :: "EvaluationBenchmarkConfig list \<Rightarrow> benchmark_key \<Rightarrow> nat list" where
  "override_positions ovs k = filter (\<lambda>j. eb_ID (ovs ! j) \<noteq> '''' \<and> eb_key (ovs ! j) = k) [0..<length ovs]"

definition override_source :: "EvaluationBenchmarkConfig list \<Rightarrow> nat \<Rightarrow> nat option \<Rightarrow> ref_source" where
  "override_source ovs i j =
     (case j of None \<Rightarrow> RefCollection i
      | Some j \<Rightarrow> if eb_TestDataRef (ovs ! j) \<noteq> None then RefOverride j else RefCollection i)"

fun merge_sources ::
  "CollectionBenchmarkConfig list \<Rightarrow> EvaluationBenchmarkConfig list \<Rightarrow> (benchmark_key \<Rightarrow> nat) \<Rightarrow>
   nat \<Rightarrow> CollectionBenchmarkConfig list \<Rightarrow> ref_source list" where
  "merge_sources cbs ovs next' i [] = []"
| "merge_sources cbs ovs next' i (b # bs) =
     (let k = cb_key b
      in if by_occurrence cbs ovs k
         then override_source ovs i (Some (override_positions ovs k ! next' k))
                # merge_sources cbs ovs (next'(k := Suc (next' k))) (Suc i) bs
         else override_source ovs i (find (\<lambda>j. exact_override b (ovs ! j)) [0..<length ovs])
                # merge_sources cbs ovs next' (Suc i) bs)"

definition job_ref_sources :: "EvaluationJobResource \<Rightarrow> CollectionResource option \<Rightarrow> ref_source list" where
  "job_ref_sources job collection =
     (if job_collection_id (ej_Config job) \<noteq> ''''
      then (case collection of
              None \<Rightarrow> []
            | Some c \<Rightarrow> (let cbs = cc_Benchmarks (co_Config c)
                          in merge_sources cbs (job_overrides (ej_Config job)) (\<lambda>_. 0) 0 cbs))
      else map RefOwn [0..<length (ec_Benchmarks (ej_Config job))])"

section \<open>Validation of overrides\<close>

definition override_error :: "CollectionBenchmarkConfig list \<Rightarrow> EvaluationBenchmarkConfig \<Rightarrow> go_error option" where
  "override_error cbs ov =
     (if eb_ProviderID ov \<notin> set (map cb_ProviderID cbs)
      then Some (NewServiceError ResourceDoesNotExist [''Type'', ''provider'', ''ResourceID'', eb_ProviderID ov])
      else if eb_ID ov \<noteq> '''' \<and> group_count cbs (eb_key ov) = 0
      then Some (NewServiceError ResourceDoesNotExist [''Type'', ''benchmark'', ''ResourceID'', eb_ID ov])
      else None)"

definition override_count_error ::
  "CollectionBenchmarkConfig list \<Rightarrow> EvaluationBenchmarkConfig list \<Rightarrow> CollectionBenchmarkConfig \<Rightarrow> go_error option" where
  "override_count_error cbs ovs b =
     (let k = cb_key b; n = group_count cbs k; m = length (group_overrides ovs k)
      in if n > 1 \<and> m > 1 \<and> m \<noteq> n
         then Some (NewServiceError RequestValidationFailed
           [''Error'', ''benchmark '' @ Quote (cb_ID b) @ '' ('' @ cb_ProviderID b @ '') occurs '' @
              Itoa (int n) @ '' times: provide one shared override or exactly '' @ Itoa (int n) @
              '' overrides in collection occurrence order; got '' @ Itoa (int m)])
         else None)"

definition ValidateCollectionOverrides ::
  "EvaluationBenchmarkConfig list \<Rightarrow> CollectionBenchmarkConfig list \<Rightarrow> go_error option" where
  "ValidateCollectionOverrides ovs cbs =
     (if ovs = [] then None
      else (case efirst (override_error cbs) ovs of
              Some e \<Rightarrow> Some e
            | None \<Rightarrow> efirst (override_count_error cbs ovs) cbs))"

definition judge_benchmark :: "CollectionResource \<Rightarrow> EvaluationBenchmarkConfig \<Rightarrow> bool" where
  "judge_benchmark c b =
     list_ex (\<lambda>cb. gomap_has (cb_Parameters cb) ''judge_model'' \<and> cb_key cb = eb_key b) (cc_Benchmarks (co_Config c))"

definition ValidateCollectionJudgeParameters ::
  "CollectionResource option \<Rightarrow> EvaluationBenchmarkConfig list \<Rightarrow> go_error option" where
  "ValidateCollectionJudgeParameters collection benchmarks =
     (case collection of
        None \<Rightarrow> None
      | Some c \<Rightarrow>
          efirst (\<lambda>b. if \<not> judge_benchmark c b then None
                      else
                        let bad = Some (NewServiceError RequestValidationFailed
                              [''Error'', ''benchmark '' @ Quote (eb_ID b) @ '' ('' @ eb_ProviderID b @
                                 ''): judge_model must be a non-empty model name''])
                        in (case gomap_get (eb_Parameters b) ''judge_model'' of
                              Some (AString name) \<Rightarrow> if TrimSpace name = '''' then bad else None
                            | _ \<Rightarrow> bad))
                 benchmarks)"

section \<open>Normalising and checking a job configuration\<close>

definition queue_defaults :: "QueueConfig \<Rightarrow> QueueConfig" where
  "queue_defaults q =
     (let kind = TrimSpace (q_Kind q)
      in q\<lparr>q_Name := TrimSpace (q_Name q), q_Kind := (if kind = '''' then ''kueue'' else kind)\<rparr>)"

definition applyQueueDefaults :: "BenchmarkHardwareConfig option \<Rightarrow> BenchmarkHardwareConfig option" where
  "applyQueueDefaults hw = map_option (\<lambda>h. h\<lparr>hw_Queue := map_option queue_defaults (hw_Queue h)\<rparr>) hw"

definition bench_queue_defaults :: "EvaluationBenchmarkConfig \<Rightarrow> EvaluationBenchmarkConfig" where
  "bench_queue_defaults b = b\<lparr>eb_HardwareConfig := applyQueueDefaults (eb_HardwareConfig b)\<rparr>"

definition ApplyHardwareConfigQueueDefaults :: "EvaluationJobConfig \<Rightarrow> EvaluationJobConfig" where
  "ApplyHardwareConfigQueueDefaults cfg =
     cfg\<lparr>ec_Benchmarks := map bench_queue_defaults (ec_Benchmarks cfg),
         ec_Collection := map_option (\<lambda>c. c\<lparr>cr_Benchmarks := map bench_queue_defaults (cr_Benchmarks c)\<rparr>)
                            (ec_Collection cfg),
         ec_HardwareConfig := applyQueueDefaults (ec_HardwareConfig cfg),
         ec_Queue := map_option queue_defaults (ec_Queue cfg)\<rparr>"

definition benchmarksWithHardwareConfigFallback ::
  "EvaluationBenchmarkConfig list \<Rightarrow> BenchmarkHardwareConfig option \<Rightarrow> EvaluationBenchmarkConfig list" where
  "benchmarksWithHardwareConfigFallback benchmarks fallback =
     (if fallback = None then benchmarks
      else map (\<lambda>b. if eb_HardwareConfig b = None then b\<lparr>eb_HardwareConfig := fallback\<rparr> else b) benchmarks)"

definition allBenchmarksHavePreRecordedData :: "EvaluationBenchmarkConfig list \<Rightarrow> bool" where
  "allBenchmarksHavePreRecordedData benchmarks =
     (benchmarks \<noteq> [] \<and>
      list_all (\<lambda>b. case eb_TestDataRef b of None \<Rightarrow> False | Some t \<Rightarrow> td_Type t = ''pre_recorded_data'') benchmarks)"

definition sha_set :: "EvaluationBenchmarkConfig \<Rightarrow> bool" where
  "sha_set b = (case eb_TestDataRef b of None \<Rightarrow> False | Some t \<Rightarrow> td_ResolvedSHA t \<noteq> '''')"

definition ValidateReadOnlyResolvedSHA :: "EvaluationJobConfig \<Rightarrow> go_error option" where
  "ValidateReadOnlyResolvedSHA cfg =
     (if list_ex sha_set (ec_Benchmarks cfg) then Some (NewServiceError ResolvedSHAReadOnly [])
      else if list_ex sha_set (job_overrides cfg) then Some (NewServiceError ResolvedSHAReadOnly [])
      else None)"

text \<open>The loop that keeps the first occurrence of each provider.\<close>

fun dedup_first :: "string list \<Rightarrow> string list \<Rightarrow> string list" where
  "dedup_first seen [] = []"
| "dedup_first seen (x # xs) = (if x \<in> set seen then dedup_first seen xs else x # dedup_first (x # seen) xs)"

definition jobProviderIDs :: "EvaluationBenchmarkConfig list \<Rightarrow> EvaluationJobConfig \<Rightarrow> string list" where
  "jobProviderIDs benchmarks cfg =
     (let bs1 = (if benchmarks = [] then ec_Benchmarks cfg else benchmarks);
          bs2 = (if bs1 = [] then job_overrides cfg else bs1)
      in dedup_first [] (map eb_ProviderID bs2))"

section \<open>Lemmas on parameters\<close>

lemma gomap_wf_applyParameters [intro]: "gomap_wf ps \<Longrightarrow> gomap_wf (applyParameters src ps)"
  unfolding applyParameters_def
  by (induction src arbitrary: ps) (auto simp: apply_parameter_def)

text \<open>
  The value of a parameter after a source map is applied. The source has each key once, so Go's
  iteration order does not matter.
\<close>

definition applied :: "go_any option \<Rightarrow> go_any option \<Rightarrow> go_any option" where
  "applied new old = (case new of None \<Rightarrow> old | Some v \<Rightarrow> if isEmpty v then None else Some v)"

lemma get_applyParameters:
  "gomap_wf src \<Longrightarrow> gomap_get (applyParameters src ps) k = applied (gomap_get src k) (gomap_get ps k)"
  unfolding applyParameters_def
proof (induction src arbitrary: ps)
  case (Cons e src)
  then show ?case by (auto simp: apply_parameter_def applied_def split: option.splits)
qed (simp add: applied_def)

lemma applied_idem [simp]: "applied x (applied x y) = applied x y"
  by (simp add: applied_def split: option.splits)

lemma merge_parameters_fold:
  assumes "\<And>jb. jb \<in> set jbs \<Longrightarrow> gomap_wf (eb_Parameters jb)"
  shows "gomap_get (fold (\<lambda>jb ps. if q jb then applyParameters (eb_Parameters jb) ps else ps) jbs ps) k =
         fold (\<lambda>jb v. applied (gomap_get (eb_Parameters jb) k) v) (filter q jbs) (gomap_get ps k)"
  using assms by (induction jbs arbitrary: ps) (auto simp: get_applyParameters)

lemma mergeBenchmarkParameters_fields [simp]:
  "eb_ID (mergeBenchmarkParameters b jbs) = cb_ID b"
  "eb_ProviderID (mergeBenchmarkParameters b jbs) = cb_ProviderID b"
  "eb_Weight (mergeBenchmarkParameters b jbs) = cb_Weight b"
  "eb_PrimaryScore (mergeBenchmarkParameters b jbs) = cb_PrimaryScore b"
  "eb_PassCriteria (mergeBenchmarkParameters b jbs) = cb_PassCriteria b"
  by (simp_all add: mergeBenchmarkParameters_def Let_def)

lemma mergeBenchmarkParameters_key [simp]: "eb_key (mergeBenchmarkParameters b jbs) = cb_key b"
  by (simp add: eb_key_def cb_key_def)

lemma filter_if_True: "filter p (if c then xs else ys) = (if c then filter p xs else filter p ys)"
  by simp

lemma exact_override_key: "exact_override b jb \<longleftrightarrow> eb_key jb = cb_key b"
  by (auto simp: exact_override_def eb_key_def cb_key_def)

lemma fold_if_filter: "fold (\<lambda>x s. if q x then f x s else s) xs s = fold f (filter q xs) s"
  by (induction xs arbitrary: s) auto

lemma find_filter_irrelevant: "(\<And>x. p x \<Longrightarrow> r x) \<Longrightarrow> find p (filter r xs) = find p xs"
  by (induction xs) auto

section \<open>Lemmas on the merge of a collection\<close>

lemma length_merge_collection [simp]: "length (merge_collection cbs ovs nx bs) = length bs"
  by (induction bs arbitrary: nx) (auto simp: Let_def)

lemma map_key_merge_collection: "map eb_key (merge_collection cbs ovs nx bs) = map cb_key bs"
  by (induction bs arbitrary: nx) (auto simp: Let_def)

definition occurrences_before :: "CollectionBenchmarkConfig list \<Rightarrow> nat \<Rightarrow> nat" where
  "occurrences_before bs i = length (filter (\<lambda>b. cb_key b = cb_key (bs ! i)) (take i bs))"

lemma nth_merge_collection:
  "i < length bs \<Longrightarrow>
   merge_collection cbs ovs nx bs ! i =
     (let k = cb_key (bs ! i)
      in if by_occurrence cbs ovs k
         then mergeBenchmarkParameters (bs ! i)
                (group_overrides ovs k ! (nx k + occurrences_before bs i) # provider_overrides ovs)
         else mergeBenchmarkParameters (bs ! i) ovs)"
proof (induction bs arbitrary: nx i)
  case (Cons b bs)
  show ?case
  proof (cases i)
    case 0
    then show ?thesis by (simp add: Let_def occurrences_before_def)
  next
    case (Suc j)
    with Cons.prems have "j < length bs" by simp
    with Suc Cons.IH show ?thesis
      by (auto simp: Let_def occurrences_before_def)
  qed
qed simp

lemma occurrences_before_less:
  assumes "i < length bs"
  shows "occurrences_before bs i < group_count bs (cb_key (bs ! i))"
proof -
  have "bs = take i bs @ bs ! i # drop (Suc i) bs" by (rule id_take_nth_drop[OF assms])
  then have "group_count bs (cb_key (bs ! i)) =
      group_count (take i bs @ bs ! i # drop (Suc i) bs) (cb_key (bs ! i))" by simp
  also have "\<dots> = occurrences_before bs i + 1 + group_count (drop (Suc i) bs) (cb_key (bs ! i))"
    by (simp add: group_count_def occurrences_before_def)
  finally show ?thesis by simp
qed

lemma dedup_first_props:
  "distinct (dedup_first seen xs)" "set (dedup_first seen xs) = set xs - set seen"
  by (induction seen xs rule: dedup_first.induct) auto

lemma length_merge_sources [simp]: "length (merge_sources cbs ovs nx i bs) = length bs"
  by (induction bs arbitrary: nx i) (auto simp: Let_def)

lemma length_job_ref_sources:
  "GetJobBenchmarks job coll = Inr bs \<Longrightarrow> length (job_ref_sources job coll) = length bs"
  by (auto simp: GetJobBenchmarks_def job_ref_sources_def Let_def split: if_splits option.splits)

end
