(* ===== verification/Samples.thy ===== *)
theory Samples
  imports Benchmarks
begin

text \<open>Small concrete values on which the witnesses evaluate the model.\<close>

definition sample_resource :: "string \<Rightarrow> string \<Rightarrow> string \<Rightarrow> Resource" where
  "sample_resource i tenant owner =
     \<lparr>r_ID = i, r_Tenant = tenant, r_CreatedAt = 1, r_UpdatedAt = 1, r_Owner = owner\<rparr>"

definition sample_cb :: "string \<Rightarrow> string \<Rightarrow> go_any gomap \<Rightarrow> CollectionBenchmarkConfig" where
  "sample_cb provider i params =
     \<lparr>cb_ID = i, cb_ProviderID = provider, cb_URL = '''', cb_Weight = F32 0, cb_PrimaryScore = None,
      cb_PassCriteria = None, cb_Parameters = params, cb_TestDataRef = None\<rparr>"

definition sample_eb :: "string \<Rightarrow> string \<Rightarrow> go_any gomap \<Rightarrow> EvaluationBenchmarkConfig" where
  "sample_eb provider i params =
     \<lparr>eb_ID = i, eb_ProviderID = provider, eb_Weight = F32 0, eb_PrimaryScore = None, eb_PassCriteria = None,
      eb_HardwareConfig = None, eb_Parameters = params, eb_TestDataRef = None\<rparr>"

definition sample_collection_config :: "CollectionBenchmarkConfig list \<Rightarrow> CollectionConfig" where
  "sample_collection_config bs =
     \<lparr>cc_Name = ''c'', cc_Description = '''', cc_Category = '''', cc_Tags = [], cc_Custom = None, cc_PassCriteria = None,
      cc_Benchmarks = bs, cc_Agent = None, cc_CurationOrder = 0, cc_Domains = [], cc_Tasks = [], cc_Modalities = [],
      cc_Industries = [], cc_EvaluationTargets = []\<rparr>"

definition sample_collection :: "CollectionBenchmarkConfig list \<Rightarrow> CollectionResource" where
  "sample_collection bs =
     \<lparr>co_Resource = sample_resource ''c1'' ''t1'' ''u1'', co_DerivedFrom = '''', co_PinnedOrder = 0,
      co_Config = sample_collection_config bs, co_Status = None\<rparr>"

definition sample_config :: "EvaluationBenchmarkConfig list \<Rightarrow> CollectionRef option \<Rightarrow> EvaluationJobConfig" where
  "sample_config bs coll =
     \<lparr>ec_Name = ''job'', ec_Description = None, ec_Tags = [], ec_Model = None, ec_PassCriteria = None,
      ec_Benchmarks = bs, ec_Collection = coll, ec_Experiment = None, ec_Custom = None, ec_Exports = None,
      ec_HardwareConfig = None, ec_Queue = None\<rparr>"

definition sample_job :: "string \<Rightarrow> EvaluationJobConfig \<Rightarrow> OverallState \<Rightarrow> EvaluationJobResource" where
  "sample_job i cfg st =
     \<lparr>ej_Resource = sample_resource i ''t1'' ''u1'', ej_MLFlowExperimentID = '''',
      ej_Status = Some \<lparr>js_State = st, js_Message = None, js_Benchmarks = []\<rparr>, ej_Results = None, ej_Config = cfg\<rparr>"

definition sample_ref :: "EvaluationBenchmarkConfig list \<Rightarrow> CollectionRef" where
  "sample_ref ovs = \<lparr>cr_ID = ''c1'', cr_Benchmarks = ovs, cr_CollectionUpdatedAt = None\<rparr>"

lemmas sample_defs =
  sample_resource_def sample_cb_def sample_eb_def sample_collection_config_def sample_collection_def sample_config_def
  sample_job_def sample_ref_def

end
