(* ===== verification/Merge_Properties.thy ===== *)
theory Merge_Properties
  imports Samples
begin

text \<open>
  What the effective benchmark list of a job is, for every collection and every list of overrides.
\<close>

section \<open>Lemmas\<close>

lemma GetJobBenchmarks_collection:
  "job_collection_id (ej_Config job) \<noteq> '''' \<Longrightarrow> cc_Benchmarks (co_Config c) \<noteq> [] \<Longrightarrow>
   GetJobBenchmarks job (Some c) =
     Inr (merge_collection (cc_Benchmarks (co_Config c)) (job_overrides (ej_Config job)) (\<lambda>_. 0) (cc_Benchmarks (co_Config c)))"
  by (simp add: GetJobBenchmarks_def Let_def)

text \<open>The overrides that reach the benchmark at position \<open>i\<close> of the collection.\<close>

definition effective_overrides ::
  "CollectionBenchmarkConfig list \<Rightarrow> EvaluationBenchmarkConfig list \<Rightarrow> nat \<Rightarrow> EvaluationBenchmarkConfig list" where
  "effective_overrides cbs ovs i =
     (let mine = filter (\<lambda>jb. eb_key jb = cb_key (cbs ! i) \<and> eb_ID jb \<noteq> '''') ovs
      in if group_count cbs (cb_key (cbs ! i)) > 1 \<and> length mine = group_count cbs (cb_key (cbs ! i))
         then [mine ! occurrences_before cbs i] else mine)"

lemma group_overrides_alt: "group_overrides ovs k = filter (\<lambda>jb. eb_key jb = k \<and> eb_ID jb \<noteq> '''') ovs"
  unfolding group_overrides_def by (rule filter_cong) auto

lemma effective_overrides_alt:
  "effective_overrides cbs ovs i =
     (let k = cb_key (cbs ! i)
      in if by_occurrence cbs ovs k then [group_overrides ovs k ! occurrences_before cbs i] else group_overrides ovs k)"
  by (simp add: effective_overrides_def by_occurrence_def group_overrides_alt Let_def)

lemma merge_fold_parameters:
  "eb_Parameters (mergeBenchmarkParameters b jbs) =
     fold (\<lambda>jb. applyParameters (eb_Parameters jb)) (filter (\<lambda>jb. exact_override b jb \<and> eb_ID jb \<noteq> '''') jbs)
       (applyParameters (cb_Parameters b) [])"
  by (simp add: mergeBenchmarkParameters_def Let_def fold_if_filter)

lemma filter_group_provider:
  assumes "eb_key o' = cb_key b" "eb_ID o' \<noteq> ''''"
  shows "filter (\<lambda>jb. exact_override b jb \<and> eb_ID jb \<noteq> '''') (o' # provider_overrides ovs) = [o']"
  using assms by (auto simp: exact_override_key provider_overrides_def filter_empty_conv)

lemma group_overrides_nth:
  assumes "by_occurrence cbs ovs (cb_key (cbs ! i))" "i < length cbs"
  shows "eb_key (group_overrides ovs (cb_key (cbs ! i)) ! occurrences_before cbs i) = cb_key (cbs ! i)"
    "eb_ID (group_overrides ovs (cb_key (cbs ! i)) ! occurrences_before cbs i) \<noteq> ''''"
    "group_overrides ovs (cb_key (cbs ! i)) ! occurrences_before cbs i \<in> set ovs"
proof -
  let ?g = "group_overrides ovs (cb_key (cbs ! i))"
  have "occurrences_before cbs i < length ?g"
    using occurrences_before_less[OF assms(2)] assms(1) by (simp add: by_occurrence_def)
  then have "?g ! occurrences_before cbs i \<in> set ?g" by (rule nth_mem)
  then show "eb_key (?g ! occurrences_before cbs i) = cb_key (cbs ! i)" "eb_ID (?g ! occurrences_before cbs i) \<noteq> ''''"
    "?g ! occurrences_before cbs i \<in> set ovs"
    by (auto simp: group_overrides_def)
qed

lemma merged_parameters:
  assumes "i < length cbs"
  shows "eb_Parameters (merge_collection cbs ovs (\<lambda>_. 0) cbs ! i) =
    fold (\<lambda>jb. applyParameters (eb_Parameters jb)) (effective_overrides cbs ovs i) (applyParameters (cb_Parameters (cbs ! i)) [])"
proof (cases "by_occurrence cbs ovs (cb_key (cbs ! i))")
  case True
  with group_overrides_nth[OF True assms] filter_group_provider show ?thesis
    by (simp add: nth_merge_collection[OF assms] effective_overrides_alt merge_fold_parameters Let_def del: filter.simps)
next
  case False
  then show ?thesis
    by (simp add: nth_merge_collection[OF assms] effective_overrides_alt merge_fold_parameters group_overrides_alt
          exact_override_key Let_def)
qed

lemma effective_overrides_subset: "i < length cbs \<Longrightarrow> set (effective_overrides cbs ovs i) \<subseteq> set ovs"
  using group_overrides_nth(3)[of cbs ovs i] by (auto simp: effective_overrides_alt Let_def group_overrides_def)

lemma applied_fold:
  assumes "\<forall>jb \<in> set jbs. gomap_wf (eb_Parameters jb)"
  shows "gomap_get (fold (\<lambda>jb. applyParameters (eb_Parameters jb)) jbs ps) k =
    fold (\<lambda>jb. applied (gomap_get (eb_Parameters jb) k)) jbs (gomap_get ps k)"
  using assms by (induction jbs arbitrary: ps) (auto simp: get_applyParameters)

lemma overrides_ok_iff:
  "override_error cbs ov = None \<longleftrightarrow>
   eb_ProviderID ov \<in> cb_ProviderID ` set cbs \<and> (eb_ID ov = '''' \<or> eb_key ov \<in> cb_key ` set cbs)"
  by (auto simp: override_error_def group_count_def filter_empty_conv image_iff dest: sym)

lemma override_count_ok_iff:
  "override_count_error cbs ovs b = None \<longleftrightarrow>
   (let n = group_count cbs (cb_key b); m = length (group_overrides ovs (cb_key b)) in n \<le> 1 \<or> m \<le> 1 \<or> m = n)"
  by (auto simp: override_count_error_def Let_def)

section \<open>Properties\<close>



text \<open>
  C4: The value of a parameter of an effective benchmark: the collection's value, overwritten in turn
  by the overrides that reach this benchmark, where an empty value removes the parameter. When a
  benchmark occurs several times and the job overrides it exactly as often, the n-th occurrence is
  reached by the n-th override only; otherwise by all of its overrides. Overrides of other benchmarks
  and provider-level overrides contribute nothing.
\<close>

theorem effective_parameter_value:
  assumes "job_collection_id (ej_Config job) \<noteq> ''''" "GetJobBenchmarks job (Some c) = Inr bs" "i < length bs"
    and "\<forall>cb \<in> set (cc_Benchmarks (co_Config c)). gomap_wf (cb_Parameters cb)"
    and "\<forall>jb \<in> set (job_overrides (ej_Config job)). gomap_wf (eb_Parameters jb)"
  shows "gomap_get (eb_Parameters (bs ! i)) k =
    fold (\<lambda>jb. applied (gomap_get (eb_Parameters jb) k))
      (effective_overrides (cc_Benchmarks (co_Config c)) (job_overrides (ej_Config job)) i)
      (applied (gomap_get (cb_Parameters (cc_Benchmarks (co_Config c) ! i)) k) None)"
proof -
  let ?cbs = "cc_Benchmarks (co_Config c)" and ?ovs = "job_overrides (ej_Config job)"
  have ne: "?cbs \<noteq> []" using assms(1,2) by (auto simp: GetJobBenchmarks_def Let_def split: if_splits)
  then have bs: "bs = merge_collection ?cbs ?ovs (\<lambda>_. 0) ?cbs"
    using assms(2) by (simp add: GetJobBenchmarks_collection[OF assms(1) ne])
  then have i: "i < length ?cbs" using assms(3) by simp
  have "\<forall>jb \<in> set (effective_overrides ?cbs ?ovs i). gomap_wf (eb_Parameters jb)"
    using effective_overrides_subset[OF i] assms(5) by blast
  then show ?thesis
    unfolding bs merged_parameters[OF i] using assms(4) i
    by (simp add: applied_fold get_applyParameters)
qed

theorem effective_parameter_value_witness:
  "\<exists>bs. GetJobBenchmarks
      (sample_job ''j'' (sample_config [] (Some (sample_ref
          [sample_eb ''p'' ''b'' [(''n'', AString ''1'')], sample_eb ''p'' ''b'' [(''n'', AString '''')]]))) OverallStatePending)
      (Some (sample_collection [sample_cb ''p'' ''b'' [(''n'', AString ''0'')], sample_cb ''p'' ''b'' [(''n'', AString ''0'')]]))
      = Inr bs \<and> gomap_get (eb_Parameters (bs ! 0)) ''n'' = Some (AString ''1'') \<and>
      gomap_get (eb_Parameters (bs ! 1)) ''n'' = None"
proof -
  let ?job = "sample_job ''j'' (sample_config [] (Some (sample_ref
          [sample_eb ''p'' ''b'' [(''n'', AString ''1'')], sample_eb ''p'' ''b'' [(''n'', AString '''')]]))) OverallStatePending"
  let ?c = "sample_collection [sample_cb ''p'' ''b'' [(''n'', AString ''0'')], sample_cb ''p'' ''b'' [(''n'', AString ''0'')]]"
  obtain bs where bs: "GetJobBenchmarks ?job (Some ?c) = Inr bs" "length bs = 2"
    by (simp add: GetJobBenchmarks_def sample_defs job_collection_id_def Let_def)
  have hyps: "job_collection_id (ej_Config ?job) \<noteq> ''''"
    "\<forall>cb \<in> set (cc_Benchmarks (co_Config ?c)). gomap_wf (cb_Parameters cb)"
    "\<forall>jb \<in> set (job_overrides (ej_Config ?job)). gomap_wf (eb_Parameters jb)"
    by (simp_all add: sample_defs job_collection_id_def job_overrides_def)
  have "gomap_get (eb_Parameters (bs ! 0)) ''n'' = Some (AString ''1'')"
    using effective_parameter_value[OF hyps(1) bs(1) _ hyps(2,3), of 0 "''n''"] bs(2)
    by (simp add: sample_defs job_overrides_def effective_overrides_def group_count_def occurrences_before_def applied_def
          cb_key_def eb_key_def)
  moreover have "gomap_get (eb_Parameters (bs ! 1)) ''n'' = None"
    using effective_parameter_value[OF hyps(1) bs(1) _ hyps(2,3), of 1 "''n''"] bs(2)
    by (simp add: sample_defs job_overrides_def effective_overrides_def group_count_def occurrences_before_def applied_def
          cb_key_def eb_key_def)
  ultimately show ?thesis using bs(1) by blast
qed

text \<open>
  C5: Validation accepts a list of overrides exactly when every override names a provider of the
  collection, every override with a benchmark names one of the collection's benchmarks, and a
  repeated benchmark has at most one override or one for each of its occurrences.
\<close>

theorem overrides_accepted_iff:
  "ValidateCollectionOverrides ovs cbs = None \<longleftrightarrow>
     ovs = [] \<or>
     ((\<forall>ov \<in> set ovs. eb_ProviderID ov \<in> cb_ProviderID ` set cbs \<and>
         (eb_ID ov = '''' \<or> (eb_ProviderID ov, eb_ID ov) \<in> cb_key ` set cbs)) \<and>
      (\<forall>b \<in> set cbs. group_count cbs (cb_key b) \<le> 1 \<or> length (group_overrides ovs (cb_key b)) \<le> 1 \<or>
         length (group_overrides ovs (cb_key b)) = group_count cbs (cb_key b)))"
proof -
  have "efirst (override_error cbs) ovs = None \<longleftrightarrow>
      (\<forall>ov \<in> set ovs. eb_ProviderID ov \<in> cb_ProviderID ` set cbs \<and>
         (eb_ID ov = '''' \<or> (eb_ProviderID ov, eb_ID ov) \<in> cb_key ` set cbs))"
    by (simp add: efirst_None_iff overrides_ok_iff eb_key_def)
  moreover have "efirst (override_count_error cbs ovs) cbs = None \<longleftrightarrow>
      (\<forall>b \<in> set cbs. group_count cbs (cb_key b) \<le> 1 \<or> length (group_overrides ovs (cb_key b)) \<le> 1 \<or>
         length (group_overrides ovs (cb_key b)) = group_count cbs (cb_key b))"
    by (simp add: efirst_None_iff override_count_ok_iff Let_def)
  ultimately show ?thesis by (auto simp: ValidateCollectionOverrides_def split: option.splits)
qed

theorem overrides_accepted_iff_witness:
  "ValidateCollectionOverrides [sample_eb ''p'' ''b'' []] [sample_cb ''p'' ''b'' [], sample_cb ''p'' ''b'' []] = None"
  using overrides_accepted_iff[of "[sample_eb ''p'' ''b'' []]" "[sample_cb ''p'' ''b'' [], sample_cb ''p'' ''b'' []]"]
  by (simp add: sample_defs group_count_def group_overrides_def cb_key_def eb_key_def)

end
