(* ===== verification/Workloads.thy ===== *)
theory Workloads
  imports Api
begin

text \<open>
  The registry of server-managed workloads (workloads/workloads.go). The package variable registry
  is an argument of the functions that read it. A function-valued field that may be nil is an
  \<open>option\<close>; a registered workload has both of them. The mutex around the registry makes every
  operation atomic.
\<close>

type_synonym workload_type = string

definition Evaluation :: workload_type where
  "Evaluation = ''evaluation''"

definition PostProcessing :: workload_type where
  "PostProcessing = ''post-processing''"

record Workload =
  wl_Type :: workload_type
  wl_ProviderID :: string
  wl_BenchmarkID :: string
  wl_Internal :: bool
  wl_MatchesJob :: "(EvaluationJobConfig \<Rightarrow> bool) option"
  wl_RuntimeProvider :: "ProviderResource option"

definition complete_workload :: "Workload \<Rightarrow> bool" where
  "complete_workload w \<longleftrightarrow>
     \<not> (wl_Type w = '''' \<or> wl_ProviderID w = '''' \<or> wl_BenchmarkID w = '''' \<or>
        wl_MatchesJob w = None \<or> wl_RuntimeProvider w = None)"

definition same_workload :: "Workload \<Rightarrow> Workload \<Rightarrow> bool" where
  "same_workload registered w \<longleftrightarrow>
     wl_Type registered = wl_Type w \<or>
     (wl_ProviderID registered = wl_ProviderID w \<and> wl_BenchmarkID registered = wl_BenchmarkID w)"

definition Register :: "Workload \<Rightarrow> Workload list \<Rightarrow> Workload list" where
  "Register w registry =
     (if wl_Type w = Evaluation then registry
      else if \<not> complete_workload w then registry
      else if list_ex (\<lambda>r. same_workload r w) registry then registry
      else registry @ [w])"

definition matches_job :: "EvaluationJobConfig \<Rightarrow> Workload \<Rightarrow> bool" where
  "matches_job cfg w = (case wl_MatchesJob w of None \<Rightarrow> False | Some m \<Rightarrow> m cfg)"

definition ForJob :: "Workload list \<Rightarrow> EvaluationJobConfig \<Rightarrow> Workload option" where
  "ForJob registry cfg = find (matches_job cfg) registry"

definition TypeForJob :: "Workload list \<Rightarrow> EvaluationJobConfig \<Rightarrow> workload_type" where
  "TypeForJob registry cfg = (case ForJob registry cfg of Some w \<Rightarrow> wl_Type w | None \<Rightarrow> Evaluation)"

definition ByType :: "Workload list \<Rightarrow> workload_type \<Rightarrow> Workload option" where
  "ByType registry t = find (\<lambda>w. wl_Type w = t) registry"

definition IsInternalProviderID :: "Workload list \<Rightarrow> string \<Rightarrow> bool" where
  "IsInternalProviderID registry i = list_ex (\<lambda>w. wl_Internal w \<and> wl_ProviderID w = i) registry"

section \<open>The registry invariant\<close>

definition registry_ok :: "Workload list \<Rightarrow> bool" where
  "registry_ok registry \<longleftrightarrow>
     list_all complete_workload registry \<and> distinct (map wl_Type registry) \<and>
     distinct (map (\<lambda>w. (wl_ProviderID w, wl_BenchmarkID w)) registry) \<and>
     list_all (\<lambda>w. wl_Type w \<noteq> Evaluation) registry"

lemma registry_ok_Nil [simp]: "registry_ok []"
  by (simp add: registry_ok_def)

lemma registry_ok_Register: "registry_ok registry \<Longrightarrow> registry_ok (Register w registry)"
  by (auto simp: registry_ok_def Register_def same_workload_def list_all_iff list_ex_iff)

lemma ByType_Register_fresh:
  assumes "complete_workload w" "wl_Type w \<noteq> Evaluation" "\<not> list_ex (\<lambda>r. same_workload r w) registry"
  shows "ByType (Register w registry) (wl_Type w) = Some w"
proof -
  have "find (\<lambda>r. wl_Type r = wl_Type w) (registry @ [w]) = Some w"
    using assms(3) by (induction registry) (auto simp: same_workload_def)
  with assms show ?thesis by (simp add: ByType_def Register_def)
qed

lemma Register_twice: "Register w (Register w registry) = Register w registry"
  by (auto simp: Register_def same_workload_def)

lemma find_distinct_map:
  "distinct (map f xs) \<Longrightarrow> x \<in> set xs \<Longrightarrow> find (\<lambda>y. f y = f x) xs = Some x"
  by (induction xs) (auto simp: image_iff)

lemma ForJob_registered: "ForJob registry cfg = Some w \<Longrightarrow> w \<in> set registry \<and> matches_job cfg w"
  by (auto simp: ForJob_def find_Some_iff)

lemma ByType_ForJob: "registry_ok registry \<Longrightarrow> ForJob registry cfg = Some w \<Longrightarrow> ByType registry (wl_Type w) = Some w"
  unfolding ByType_def ForJob_def registry_ok_def
  by (rule find_distinct_map) (auto simp: find_Some_iff)

lemma TypeForJob_evaluation_iff: "registry_ok registry \<Longrightarrow> TypeForJob registry cfg = Evaluation \<longleftrightarrow> ForJob registry cfg = None"
  by (auto simp: TypeForJob_def registry_ok_def list_all_iff dest: ForJob_registered split: option.splits)

end
