(* ===== verification/Database.thy ===== *)
theory Database
  imports Api Errors Workloads
begin

text \<open>
  The database below the job store: the rows of the three tables (storage/sql/sqlite/statements.go,
  storage/sql/postgres/statements.go), the WHERE clauses of the single-row statements, and
  transactions with their retries (storage/sql/transaction.go, storage/sql/serialization_failure.go).

  A storage computation takes the state of the connection and returns its result with the new
  state. The state counts the calls to the database. The environment \<open>env\<close> says for every call
  whether the driver returns an error and what the clock of the server shows, so a theorem about
  all environments covers every pattern of failures. Statements between BEGIN and COMMIT run on
  the state alone: transactions are serialised, as SQLite's single connection makes them. A rolled
  back transaction, and one whose COMMIT fails, leaves the tables as BEGIN found them.
\<close>

section \<open>Rows\<close>

text \<open>
  The column entity holds a JSON text: the document it decodes to, or the text of the decoding
  error. Values of type any in stored documents are themselves JSON values, for which encoding and
  decoding are inverse.
\<close>

datatype 'e json_column = Json 'e | NotJson string

record 'e row =
  rw_id :: string
  rw_created_at :: time
  rw_updated_at :: time
  rw_tenant_id :: string
  rw_owner :: string
  rw_entity :: "'e json_column"

record EvaluationJobEntity =
  en_Config :: "EvaluationJobConfig option"
  en_Status :: "EvaluationJobStatus option"
  en_Results :: "EvaluationJobResults option"

record evaluation_row = "EvaluationJobEntity row" +
  rw_status :: string
  rw_experiment_id :: string
  rw_workload_type :: string

record collectionStoredEntity =
  ce_Config :: CollectionConfig
  ce_DerivedFrom :: string
  ce_PinnedOrder :: int
  ce_Status :: "CollectionStatus option"

type_synonym collection_row = "collectionStoredEntity row"
type_synonym provider_row = "ProviderConfig row"

record database =
  evaluations :: "evaluation_row list"
  collections :: "collection_row list"
  providers :: "provider_row list"

section \<open>Encoding of documents\<close>

text \<open>json.Marshal fails on a float that is not finite, and on nothing else the documents contain.\<close>

fun any_ok :: "go_any \<Rightarrow> bool" where
  "any_ok (AFloat32 x) = f32_finite x"
| "any_ok (AArray xs) = list_all any_ok xs"
| "any_ok (AMap es) = list_all (\<lambda>e. any_ok (snd e)) es"
| "any_ok _ = True"

definition anys_ok :: "go_any gomap \<Rightarrow> bool" where
  "anys_ok m = list_all (\<lambda>e. any_ok (snd e)) m"

definition criteria_ok :: "PassCriteria option \<Rightarrow> bool" where
  "criteria_ok p = (case p of None \<Rightarrow> True | Some c \<Rightarrow> (case pc_Threshold c of None \<Rightarrow> True | Some t \<Rightarrow> f32_finite t))"

definition eval_bench_ok :: "EvaluationBenchmarkConfig \<Rightarrow> bool" where
  "eval_bench_ok b \<longleftrightarrow> f32_finite (eb_Weight b) \<and> criteria_ok (eb_PassCriteria b) \<and> anys_ok (eb_Parameters b)"

definition coll_bench_ok :: "CollectionBenchmarkConfig \<Rightarrow> bool" where
  "coll_bench_ok b \<longleftrightarrow> f32_finite (cb_Weight b) \<and> criteria_ok (cb_PassCriteria b) \<and> anys_ok (cb_Parameters b)"

definition job_config_ok :: "EvaluationJobConfig \<Rightarrow> bool" where
  "job_config_ok c \<longleftrightarrow>
     (case ec_Model c of None \<Rightarrow> True | Some m \<Rightarrow> anys_ok (mr_Parameters m)) \<and> criteria_ok (ec_PassCriteria c) \<and>
     list_all eval_bench_ok (ec_Benchmarks c) \<and>
     (case ec_Collection c of None \<Rightarrow> True | Some r \<Rightarrow> list_all eval_bench_ok (cr_Benchmarks r)) \<and>
     (case ec_Custom c of None \<Rightarrow> True | Some m \<Rightarrow> anys_ok m)"

definition bench_test_ok :: "BenchmarkTest option \<Rightarrow> bool" where
  "bench_test_ok t = (case t of None \<Rightarrow> True | Some x \<Rightarrow> f32_finite (bt_PrimaryScore x) \<and> f32_finite (bt_Threshold x))"

definition bench_result_ok :: "BenchmarkResult \<Rightarrow> bool" where
  "bench_result_ok r \<longleftrightarrow>
     anys_ok (br_Metrics r) \<and> anys_ok (br_AdditionalInfo r) \<and> anys_ok (br_Artifacts r) \<and> bench_test_ok (br_Test r)"

definition results_ok :: "EvaluationJobResults \<Rightarrow> bool" where
  "results_ok r \<longleftrightarrow>
     (case rs_Test r of None \<Rightarrow> True | Some t \<Rightarrow> f32_finite (jt_Score t) \<and> f32_finite (jt_Threshold t)) \<and>
     list_all bench_result_ok (rs_Benchmarks r)"

definition job_entity_ok :: "EvaluationJobEntity \<Rightarrow> bool" where
  "job_entity_ok e \<longleftrightarrow>
     (case en_Config e of None \<Rightarrow> True | Some c \<Rightarrow> job_config_ok c) \<and>
     (case en_Results e of None \<Rightarrow> True | Some r \<Rightarrow> results_ok r)"

definition collection_config_ok :: "CollectionConfig \<Rightarrow> bool" where
  "collection_config_ok c \<longleftrightarrow>
     criteria_ok (cc_PassCriteria c) \<and> list_all coll_bench_ok (cc_Benchmarks c) \<and>
     (case cc_Custom c of None \<Rightarrow> True | Some m \<Rightarrow> anys_ok m)"

definition provider_config_ok :: "ProviderConfig \<Rightarrow> bool" where
  "provider_config_ok p \<longleftrightarrow> list_all (\<lambda>b. criteria_ok (b_PassCriteria b)) (pv_Benchmarks p)"

definition json_Marshal :: "('a \<Rightarrow> bool) \<Rightarrow> 'a \<Rightarrow> string + 'a json_column" where
  "json_Marshal ok x = (if ok x then Inr (Json x) else Inl ''json: unsupported value'')"

lemma json_Marshal_simps [simp]:
  "ok x \<Longrightarrow> json_Marshal ok x = Inr (Json x)"
  "\<not> ok x \<Longrightarrow> json_Marshal ok x = Inl ''json: unsupported value''"
  by (simp_all add: json_Marshal_def)

section \<open>Storage computations\<close>

text \<open>
  The environment: the error of the n-th call to the database, the server's clock at that call, and
  the driver's error for a duplicate primary key of a table.
\<close>

record env =
  env_fault :: "nat \<Rightarrow> go_error option"
  env_now :: "nat \<Rightarrow> time"
  env_duplicate :: "string \<Rightarrow> go_error"

record conn =
  cn_db :: database
  cn_calls :: nat

type_synonym 'a stm = "conn \<Rightarrow> (go_error + 'a) \<times> conn"

definition sreturn :: "'a \<Rightarrow> 'a stm" where
  "sreturn x c = (Inr x, c)"

definition sthrow :: "go_error \<Rightarrow> 'a stm" where
  "sthrow e c = (Inl e, c)"

definition sbind :: "'a stm \<Rightarrow> ('a \<Rightarrow> 'b stm) \<Rightarrow> 'b stm" where
  "sbind m f c = (case m c of (Inl e, c') \<Rightarrow> (Inl e, c') | (Inr x, c') \<Rightarrow> f x c')"

text \<open>\<open>scatch\<close> hands the error of a computation to a handler, as in \<open>if err != nil\<close>.\<close>

definition scatch :: "'a stm \<Rightarrow> (go_error \<Rightarrow> 'a stm) \<Rightarrow> 'a stm" where
  "scatch m h c = (case m c of (Inl e, c') \<Rightarrow> h e c' | (Inr x, c') \<Rightarrow> (Inr x, c'))"

definition smap_err :: "(go_error \<Rightarrow> go_error) \<Rightarrow> 'a stm \<Rightarrow> 'a stm" where
  "smap_err g m = scatch m (\<lambda>e. sthrow (g e))"

definition slift :: "go_error + 'a \<Rightarrow> 'a stm" where
  "slift r c = (r, c)"

definition sguard :: "go_error option \<Rightarrow> unit stm" where
  "sguard r c = (case r of None \<Rightarrow> (Inr (), c) | Some e \<Rightarrow> (Inl e, c))"

lemma stm_bind_simps [simp, stm_simps]:
  "sbind (sreturn x) f = f x" "sbind (sthrow e) f = sthrow e"
  by (auto simp: sbind_def sreturn_def sthrow_def)

lemma sbind_assoc: "sbind (sbind m f) g = sbind m (\<lambda>x. sbind (f x) g)"
  by (auto simp: sbind_def split: prod.splits sum.splits)

lemma sbind_return [simp]: "sbind m sreturn = m"
  by (auto simp: sbind_def sreturn_def fun_eq_iff split: prod.splits sum.splits)

section \<open>Calls to the database\<close>

definition db_call :: "env \<Rightarrow> (time \<Rightarrow> database \<Rightarrow> go_error + 'a \<times> database) \<Rightarrow> 'a stm" where
  "db_call env f c =
     (let c' = c\<lparr>cn_calls := Suc (cn_calls c)\<rparr>
      in (case env_fault env (cn_calls c) of
            Some e \<Rightarrow> (Inl e, c')
          | None \<Rightarrow> (case f (env_now env (cn_calls c)) (cn_db c) of
                Inl e \<Rightarrow> (Inl e, c')
              | Inr (x, db) \<Rightarrow> (Inr x, c'\<lparr>cn_db := db\<rparr>))))"

definition db_query :: "env \<Rightarrow> (database \<Rightarrow> 'a) \<Rightarrow> 'a stm" where
  "db_query env q = db_call env (\<lambda>now db. Inr (q db, db))"

text \<open>An UPDATE or DELETE returns the number of rows it affected.\<close>

definition update_rows :: "('r \<Rightarrow> bool) \<Rightarrow> ('r \<Rightarrow> 'r) \<Rightarrow> 'r list \<Rightarrow> nat \<times> 'r list" where
  "update_rows wh f rows = (length (filter wh rows), map (\<lambda>r. if wh r then f r else r) rows)"

definition delete_rows :: "('r \<Rightarrow> bool) \<Rightarrow> 'r list \<Rightarrow> nat \<times> 'r list" where
  "delete_rows wh rows = (length (filter wh rows), filter (\<lambda>r. \<not> wh r) rows)"

definition insert_row ::
  "go_error \<Rightarrow> ('e, 'm) row_scheme \<Rightarrow> ('e, 'm) row_scheme list \<Rightarrow> go_error + ('e, 'm) row_scheme list" where
  "insert_row duplicate r rows = (if rw_id r \<in> set (map rw_id rows) then Inl duplicate else Inr (rows @ [r]))"

definition exec_evaluations :: "env \<Rightarrow> (time \<Rightarrow> evaluation_row list \<Rightarrow> nat \<times> evaluation_row list) \<Rightarrow> nat stm" where
  "exec_evaluations env f =
     db_call env (\<lambda>now db. let (n, rows) = f now (evaluations db) in Inr (n, db\<lparr>evaluations := rows\<rparr>))"

definition exec_collections :: "env \<Rightarrow> (time \<Rightarrow> collection_row list \<Rightarrow> nat \<times> collection_row list) \<Rightarrow> nat stm" where
  "exec_collections env f =
     db_call env (\<lambda>now db. let (n, rows) = f now (collections db) in Inr (n, db\<lparr>collections := rows\<rparr>))"

definition exec_providers :: "env \<Rightarrow> (time \<Rightarrow> provider_row list \<Rightarrow> nat \<times> provider_row list) \<Rightarrow> nat stm" where
  "exec_providers env f =
     db_call env (\<lambda>now db. let (n, rows) = f now (providers db) in Inr (n, db\<lparr>providers := rows\<rparr>))"

section \<open>WHERE clauses\<close>

datatype dialect = SQLite | Postgres

definition OwnerSystem :: string where
  "OwnerSystem = ''system''"

definition getWhereStatement :: "Tenant \<Rightarrow> string \<Rightarrow> ('e, 'm) row_scheme \<Rightarrow> bool" where
  "getWhereStatement tenant i r \<longleftrightarrow>
     (i \<noteq> '''' \<longrightarrow> rw_id r = i) \<and>
     (\<not> Tenant_IsEmpty tenant \<longrightarrow> rw_tenant_id r = tenant \<or> rw_owner r = OwnerSystem)"

definition CreateEvaluationGetEntityStatement ::
  "dialect \<Rightarrow> Tenant \<Rightarrow> string \<Rightarrow> workload_type \<Rightarrow> evaluation_row \<Rightarrow> bool" where
  "CreateEvaluationGetEntityStatement d tenant i wt r \<longleftrightarrow>
     (case d of
        SQLite \<Rightarrow> getWhereStatement tenant i r
      | Postgres \<Rightarrow> rw_id r = i \<and> (\<not> Tenant_IsEmpty tenant \<longrightarrow> rw_tenant_id r = tenant)) \<and>
     (wt \<noteq> '''' \<longrightarrow> rw_workload_type r = wt)"

text \<open>The WHERE clause that UPDATE and DELETE statements share.\<close>

definition own_row :: "Tenant \<Rightarrow> string \<Rightarrow> ('e, 'm) row_scheme \<Rightarrow> bool" where
  "own_row tenant i r \<longleftrightarrow> rw_id r = i \<and> (\<not> Tenant_IsEmpty tenant \<longrightarrow> rw_tenant_id r = tenant)"

definition CreateUpdateEntityStatement ::
  "Tenant \<Rightarrow> string \<Rightarrow> 'e json_column \<Rightarrow> time \<Rightarrow> ('e, 'm) row_scheme list \<Rightarrow> nat \<times> ('e, 'm) row_scheme list" where
  "CreateUpdateEntityStatement tenant i doc now =
     update_rows (own_row tenant i) (\<lambda>r. r\<lparr>rw_entity := doc, rw_updated_at := now\<rparr>)"

definition CreateUpdateEvaluationStatement ::
  "Tenant \<Rightarrow> string \<Rightarrow> EvaluationJobEntity json_column \<Rightarrow> OverallState \<Rightarrow> time \<Rightarrow>
   evaluation_row list \<Rightarrow> nat \<times> evaluation_row list" where
  "CreateUpdateEvaluationStatement tenant i doc status now =
     update_rows (own_row tenant i)
       (\<lambda>r. r\<lparr>rw_entity := doc, rw_updated_at := now, rw_status := OverallState_String status\<rparr>)"

definition CreateDeleteEntityStatement ::
  "Tenant \<Rightarrow> string \<Rightarrow> ('e, 'm) row_scheme list \<Rightarrow> nat \<times> ('e, 'm) row_scheme list" where
  "CreateDeleteEntityStatement tenant i = delete_rows (own_row tenant i)"

definition CreateDeleteSystemEntitiesStatement ::
  "('e, 'm) row_scheme list \<Rightarrow> nat \<times> ('e, 'm) row_scheme list" where
  "CreateDeleteSystemEntitiesStatement = delete_rows (\<lambda>r. rw_owner r = OwnerSystem)"

section \<open>Transactions\<close>

definition txn_error :: "string \<Rightarrow> string \<Rightarrow> string \<Rightarrow> go_error \<Rightarrow> go_error" where
  "txn_error what name i e =
     NewServiceError DatabaseOperationFailed [''Type'', what @ '' transaction '' @ name, ''ResourceId'', i, ''Error'', err_text e]"

definition runTransaction :: "env \<Rightarrow> string \<Rightarrow> string \<Rightarrow> 'a stm \<Rightarrow> 'a stm" where
  "runTransaction env name i fn c =
     (case db_query env (\<lambda>_. ()) c of
        (Inl e, c1) \<Rightarrow> (Inl (txn_error ''begin'' name i e), c1)
      | (Inr _, c1) \<Rightarrow>
          (case fn c1 of (res, c2) \<Rightarrow>
             (let commit = (case res of Inl e \<Rightarrow> \<not> ShouldRollback e | Inr _ \<Rightarrow> True)
              in if commit
                 then (case db_query env (\<lambda>_. ()) c2 of
                         (Inl e, c3) \<Rightarrow> (Inl (txn_error ''commit'' name i e), c3\<lparr>cn_db := cn_db c1\<rparr>)
                       | (Inr _, c3) \<Rightarrow> (res, c3))
                 else (case db_query env (\<lambda>_. ()) (c2\<lparr>cn_db := cn_db c1\<rparr>) of
                         (Inl e, c3) \<Rightarrow> (Inl (txn_error ''rollback'' name i e), c3)
                       | (Inr _, c3) \<Rightarrow> (res, c3)))))"

text \<open>
  The loop of retryOnSerializationFailure with \<open>n\<close> attempts left; the pause between two attempts has
  no effect on the state.
\<close>

fun retry_loop :: "nat \<Rightarrow> 'a stm \<Rightarrow> 'a stm" where
  "retry_loop 0 run c = run c"
| "retry_loop (Suc n) run c =
     (case run c of
        (Inr x, c') \<Rightarrow> (Inr x, c')
      | (Inl e, c') \<Rightarrow> if \<not> isSerializationFailure e then (Inl e, c') else retry_loop n run c')"

definition retryOnSerializationFailure :: "nat \<Rightarrow> 'a stm \<Rightarrow> 'a stm" where
  "retryOnSerializationFailure maxAttempts run = retry_loop (maxAttempts - 1) run"

definition withTransaction :: "env \<Rightarrow> string \<Rightarrow> string \<Rightarrow> 'a stm \<Rightarrow> 'a stm" where
  "withTransaction env name i fn =
     retryOnSerializationFailure serializationFailureMaxAttempts (runTransaction env name i fn)"

section \<open>The handle of a request\<close>

record sqlStorage =
  st_dialect :: dialect
  st_tenant :: Tenant
  st_owner :: User
  st_workload_type :: workload_type
  st_registry :: "Workload list"
  st_env :: env
  st_json_error :: string

definition isVisibleResource :: "sqlStorage \<Rightarrow> Resource \<Rightarrow> bool" where
  "isVisibleResource s r \<longleftrightarrow> (\<not> IsSystemResource r \<longrightarrow> r_Tenant r = st_tenant s)"

definition row_resource :: "('e, 'm) row_scheme \<Rightarrow> Resource" where
  "row_resource r =
     \<lparr>r_ID = rw_id r, r_Tenant = rw_tenant_id r, r_CreatedAt = rw_created_at r, r_UpdatedAt = rw_updated_at r,
      r_Owner = rw_owner r\<rparr>"

end
