(* ===== verification/Transactions.thy ===== *)
theory Transactions
  imports Database
begin

text \<open>
  The logic of storage computations: which of them leave the tables alone, which ones leave them
  alone when they fail, and what a transaction with retries makes of its body. The locale
  \<open>transaction\<close> states what a body has to promise; the stores interpret it for each operation.
\<close>

section \<open>Inversion of computations\<close>

lemma sbind_Inr_iff: "sbind m f c = (Inr y, c') \<longleftrightarrow> (\<exists>x c1. m c = (Inr x, c1) \<and> f x c1 = (Inr y, c'))"
  by (auto simp: sbind_def split: prod.splits sum.splits)

lemma sbind_Inl_iff:
  "sbind m f c = (Inl e, c') \<longleftrightarrow> m c = (Inl e, c') \<or> (\<exists>x c1. m c = (Inr x, c1) \<and> f x c1 = (Inl e, c'))"
  by (auto simp: sbind_def split: prod.splits sum.splits)

lemma scatch_Inr_iff:
  "scatch m h c = (Inr y, c') \<longleftrightarrow> m c = (Inr y, c') \<or> (\<exists>e c1. m c = (Inl e, c1) \<and> h e c1 = (Inr y, c'))"
  by (auto simp: scatch_def split: prod.splits sum.splits)

lemma smap_err_Inr_iff [simp]: "smap_err g m c = (Inr y, c') \<longleftrightarrow> m c = (Inr y, c')"
  by (auto simp: smap_err_def scatch_def sthrow_def split: prod.splits sum.splits)

lemma smap_err_Inl_iff: "smap_err g m c = (Inl e, c') \<longleftrightarrow> (\<exists>e0. m c = (Inl e0, c') \<and> e = g e0)"
  by (auto simp: smap_err_def scatch_def sthrow_def split: prod.splits sum.splits)

lemma leaf_iff [simp]:
  "sreturn x c = (r, c') \<longleftrightarrow> r = Inr x \<and> c' = c"
  "sthrow e c = (r, c') \<longleftrightarrow> r = Inl e \<and> c' = c"
  "slift v c = (r, c') \<longleftrightarrow> v = r \<and> c' = c"
  by (auto simp: sreturn_def sthrow_def slift_def)

lemma sguard_iff [simp]:
  "sguard g c = (Inr u, c') \<longleftrightarrow> g = None \<and> c' = c"
  "sguard g c = (Inl e, c') \<longleftrightarrow> g = Some e \<and> c' = c"
  by (auto simp: sguard_def split: option.splits)

lemmas stm_inv = sbind_Inr_iff sbind_Inl_iff scatch_Inr_iff smap_err_Inl_iff

lemma db_query_Inr:
  "db_query env q c = (Inr x, c') \<longleftrightarrow>
     env_fault env (cn_calls c) = None \<and> x = q (cn_db c) \<and> c' = c\<lparr>cn_calls := Suc (cn_calls c)\<rparr>"
  by (auto simp: db_query_def db_call_def Let_def split: option.splits)

lemma db_query_Inl:
  "db_query env q c = (Inl e, c') \<longleftrightarrow>
     env_fault env (cn_calls c) = Some e \<and> c' = c\<lparr>cn_calls := Suc (cn_calls c)\<rparr>"
  by (auto simp: db_query_def db_call_def Let_def split: option.splits)

lemma db_call_Inl: "db_call env f c = (Inl e, c') \<Longrightarrow> cn_db c' = cn_db c"
  by (auto simp: db_call_def Let_def split: option.splits sum.splits)

lemma db_call_Inr:
  "db_call env f c = (Inr x, c') \<Longrightarrow>
     \<exists>db. f (env_now env (cn_calls c)) (cn_db c) = Inr (x, db) \<and> cn_db c' = db"
  by (auto simp: db_call_def Let_def split: option.splits sum.splits)

lemma exec_Inr:
  "exec_evaluations env f c = (Inr n, c') \<Longrightarrow>
     \<exists>rows. f (env_now env (cn_calls c)) (evaluations (cn_db c)) = (n, rows) \<and> cn_db c' = (cn_db c)\<lparr>evaluations := rows\<rparr>"
  "exec_collections env f' c = (Inr n, c') \<Longrightarrow>
     \<exists>rows. f' (env_now env (cn_calls c)) (collections (cn_db c)) = (n, rows) \<and> cn_db c' = (cn_db c)\<lparr>collections := rows\<rparr>"
  "exec_providers env f'' c = (Inr n, c') \<Longrightarrow>
     \<exists>rows. f'' (env_now env (cn_calls c)) (providers (cn_db c)) = (n, rows) \<and> cn_db c' = (cn_db c)\<lparr>providers := rows\<rparr>"
  unfolding exec_evaluations_def exec_collections_def exec_providers_def
  by (drule db_call_Inr; auto simp: Let_def split: prod.splits)+

section \<open>The invariant of the tables\<close>

text \<open>
  Every table has one row per identifier, and every document it holds can be encoded again.
\<close>

definition column_ok :: "('e \<Rightarrow> bool) \<Rightarrow> 'e json_column \<Rightarrow> bool" where
  "column_ok ok d = (case d of Json e \<Rightarrow> ok e | NotJson t \<Rightarrow> True)"

definition table_ok :: "('e \<Rightarrow> bool) \<Rightarrow> ('e, 'm) row_scheme list \<Rightarrow> bool" where
  "table_ok ok rows \<longleftrightarrow> distinct (map rw_id rows) \<and> list_all (\<lambda>r. column_ok ok (rw_entity r)) rows"

definition collection_entity_ok :: "collectionStoredEntity \<Rightarrow> bool" where
  "collection_entity_ok e = collection_config_ok (ce_Config e)"

definition db_ok :: "database \<Rightarrow> bool" where
  "db_ok db \<longleftrightarrow>
     table_ok job_entity_ok (evaluations db) \<and> table_ok collection_entity_ok (collections db) \<and>
     table_ok provider_config_ok (providers db)"

lemma column_ok_simps [simp]: "column_ok ok (Json e) = ok e" "column_ok ok (NotJson t)"
  by (simp_all add: column_ok_def)

lemma table_ok_Nil [simp]: "table_ok ok []"
  by (simp add: table_ok_def)

lemma table_ok_update_rows:
  assumes "table_ok ok rows" "\<And>r. rw_id (f r) = rw_id r" "\<And>r. column_ok ok (rw_entity (f r))"
  shows "table_ok ok (snd (update_rows wh f rows))"
proof -
  have "map rw_id (map (\<lambda>r. if wh r then f r else r) rows) = map rw_id rows" by (simp add: assms(2))
  with assms(1) have "distinct (map rw_id (map (\<lambda>r. if wh r then f r else r) rows))"
    by (simp only: table_ok_def)
  with assms(1,3) show ?thesis
    unfolding table_ok_def update_rows_def snd_conv by (auto simp add: list_all_iff simp del: map_map distinct_map)
qed

lemma table_ok_delete_rows: "table_ok ok rows \<Longrightarrow> table_ok ok (snd (delete_rows wh rows))"
  by (auto simp: table_ok_def delete_rows_def list_all_iff distinct_map_filter)

lemma table_ok_insert_row:
  "table_ok ok rows \<Longrightarrow> column_ok ok (rw_entity r) \<Longrightarrow> insert_row dup r rows = Inr rows' \<Longrightarrow> table_ok ok rows'"
  by (auto simp: table_ok_def insert_row_def split: if_splits)

section \<open>Effects\<close>

definition keeps_db :: "'a stm \<Rightarrow> bool" where
  "keeps_db m \<longleftrightarrow> (\<forall>c. cn_db (snd (m c)) = cn_db c)"

text \<open>A clean computation has changed nothing when it fails with an error that commits.\<close>

definition clean :: "'a stm \<Rightarrow> bool" where
  "clean m \<longleftrightarrow> (\<forall>c e c'. m c = (Inl e, c') \<longrightarrow> \<not> ShouldRollback e \<longrightarrow> cn_db c' = cn_db c)"

text \<open>The same for the states that satisfy an invariant.\<close>

definition clean_on :: "(database \<Rightarrow> bool) \<Rightarrow> 'a stm \<Rightarrow> bool" where
  "clean_on ok m \<longleftrightarrow> (\<forall>c e c'. ok (cn_db c) \<longrightarrow> m c = (Inl e, c') \<longrightarrow> \<not> ShouldRollback e \<longrightarrow> cn_db c' = cn_db c)"


definition atomic :: "'a stm \<Rightarrow> bool" where
  "atomic m \<longleftrightarrow> (\<forall>c e c'. m c = (Inl e, c') \<longrightarrow> cn_db c' = cn_db c)"

definition rolls_back :: "'a stm \<Rightarrow> bool" where
  "rolls_back m \<longleftrightarrow> (\<forall>c e c'. m c = (Inl e, c') \<longrightarrow> ShouldRollback e)"

definition bounded_calls :: "nat \<Rightarrow> 'a stm \<Rightarrow> bool" where
  "bounded_calls k m \<longleftrightarrow> (\<forall>c. cn_calls (snd (m c)) \<le> cn_calls c + k)"

lemma keeps_db_iff: "keeps_db m \<longleftrightarrow> (\<forall>c r c'. m c = (r, c') \<longrightarrow> cn_db c' = cn_db c)"
  unfolding keeps_db_def by (metis prod.collapse snd_conv)

lemma keeps_dbD: "keeps_db m \<Longrightarrow> m c = (r, c') \<Longrightarrow> cn_db c' = cn_db c"
  by (auto simp: keeps_db_iff)

lemma keeps_db_leaf [simp, intro]:
  "keeps_db (sreturn x)" "keeps_db (sthrow e)" "keeps_db (slift v)" "keeps_db (sguard g)" "keeps_db (db_query env q)"
  by (auto simp: keeps_db_def sreturn_def sthrow_def slift_def sguard_def db_query_def db_call_def Let_def
           split: option.splits)

lemma keeps_db_sbind [intro]: "keeps_db m \<Longrightarrow> (\<And>x. keeps_db (f x)) \<Longrightarrow> keeps_db (sbind m f)"
  by (auto simp: keeps_db_iff sbind_def split: prod.splits sum.splits)

lemma keeps_db_scatch [intro]: "keeps_db m \<Longrightarrow> (\<And>e. keeps_db (h e)) \<Longrightarrow> keeps_db (scatch m h)"
  by (auto simp: keeps_db_iff scatch_def split: prod.splits sum.splits)

lemma keeps_db_smap_err [intro]: "keeps_db m \<Longrightarrow> keeps_db (smap_err g m)"
  unfolding smap_err_def by (rule keeps_db_scatch) auto

lemma keeps_db_if [intro]: "keeps_db a \<Longrightarrow> keeps_db b \<Longrightarrow> keeps_db (if p then a else b)"
  by simp

lemma clean_keeps [intro]: "keeps_db m \<Longrightarrow> clean m"
  by (auto simp: clean_def dest: keeps_dbD)

lemma clean_rolls_back [intro]: "rolls_back m \<Longrightarrow> clean m"
  by (auto simp: clean_def rolls_back_def)

lemma clean_atomic [intro]: "atomic m \<Longrightarrow> clean m"
  by (auto simp: clean_def atomic_def)

lemma clean_clean_on: "clean m \<Longrightarrow> clean_on ok m"
  by (simp add: clean_def clean_on_def)

lemma clean_read_then: "keeps_db m \<Longrightarrow> (\<And>x. clean (f x)) \<Longrightarrow> clean (sbind m f)"
  unfolding clean_def sbind_Inl_iff by (metis keeps_dbD)

lemma clean_write_then: "clean m \<Longrightarrow> (\<And>x. rolls_back (f x)) \<Longrightarrow> clean (sbind m f)"
  unfolding clean_def rolls_back_def sbind_Inl_iff by blast

lemma clean_if [intro]: "clean a \<Longrightarrow> clean b \<Longrightarrow> clean (if p then a else b)"
  by simp

lemma rolls_back_leaf [simp, intro]: "rolls_back (sreturn x)" "ShouldRollback e \<Longrightarrow> rolls_back (sthrow e)"
  by (auto simp: rolls_back_def)

lemma rolls_back_smap_err [intro]: "(\<And>e. ShouldRollback (g e)) \<Longrightarrow> rolls_back (smap_err g m)"
  by (auto simp: rolls_back_def smap_err_Inl_iff)

lemma rolls_back_sbind [intro]: "rolls_back m \<Longrightarrow> (\<And>x. rolls_back (f x)) \<Longrightarrow> rolls_back (sbind m f)"
  unfolding rolls_back_def sbind_Inl_iff by blast

lemma rolls_back_if [intro]: "rolls_back a \<Longrightarrow> rolls_back b \<Longrightarrow> rolls_back (if p then a else b)"
  by simp

lemma atomic_exec [simp, intro]:
  "atomic (exec_evaluations env f)" "atomic (exec_collections env f')" "atomic (exec_providers env f'')"
  "atomic (db_call env g)"
  by (auto simp: atomic_def exec_evaluations_def exec_collections_def exec_providers_def dest: db_call_Inl)

lemma atomic_smap_err [intro]: "atomic m \<Longrightarrow> atomic (smap_err g m)"
  by (auto simp: atomic_def smap_err_Inl_iff)

lemma atomic_keeps [intro]: "keeps_db m \<Longrightarrow> atomic m"
  by (auto simp: atomic_def dest: keeps_dbD)

lemma atomic_bind_return: "atomic m \<Longrightarrow> atomic (sbind m (\<lambda>x. sreturn (f x)))"
  by (auto simp: atomic_def sbind_Inl_iff)

section \<open>Transactions\<close>

lemma runTransaction_cases:
  obtains (aborted) "isl (fst (runTransaction env name i fn c))"
      "cn_db (snd (runTransaction env name i fn c)) = cn_db c"
  | (committed) c1 r c2 where "cn_db c1 = cn_db c" "fn c1 = (r, c2)" "\<forall>e. r = Inl e \<longrightarrow> \<not> ShouldRollback e"
      "runTransaction env name i fn c = (r, c2\<lparr>cn_calls := Suc (cn_calls c2)\<rparr>)"
proof -
  let ?c1 = "c\<lparr>cn_calls := Suc (cn_calls c)\<rparr>"
  obtain r c2 where fn: "fn ?c1 = (r, c2)" by fastforce
  show ?thesis
  proof (cases "env_fault env (cn_calls c)")
    case (Some e)
    then show ?thesis
      by (intro aborted) (simp_all add: runTransaction_def db_query_def db_call_def Let_def)
  next
    case None
    show ?thesis
    proof (cases "env_fault env (cn_calls c2) = None \<and> (\<forall>e. r = Inl e \<longrightarrow> \<not> ShouldRollback e)")
      case True
      with None fn show ?thesis
        by (intro committed[of ?c1 r c2])
           (auto simp: runTransaction_def db_query_def db_call_def Let_def split: sum.splits)
    next
      case False
      with None fn show ?thesis
        by (cases "env_fault env (cn_calls c2)"; cases r)
           (auto intro!: aborted simp: runTransaction_def db_query_def db_call_def Let_def split: if_splits)
    qed
  qed
qed

section \<open>The contract of a transaction body\<close>

locale transaction =
  fixes env :: env and name :: string and i :: string and ok :: "database \<Rightarrow> bool" and body :: "'a stm"
  assumes body_clean: "clean_on ok body"
    and body_keeps: "ok (cn_db c) \<Longrightarrow> body c = (Inr x, c') \<Longrightarrow> ok (cn_db c')"
begin

abbreviation run :: "'a stm" where "run \<equiv> runTransaction env name i body"

lemma run_error:
  assumes "ok (cn_db c)" "run c = (Inl e, c')" shows "cn_db c' = cn_db c"
proof (cases rule: runTransaction_cases[of env name i body c])
  case aborted
  with assms(2) show ?thesis by simp
next
  case (committed c1 r c2)
  with assms(2) have "body c1 = (Inl e, c2)" "\<not> ShouldRollback e" "cn_db c' = cn_db c2" by auto
  moreover have "ok (cn_db c1)" using assms(1) committed(1) by simp
  ultimately have "cn_db c2 = cn_db c1" using body_clean unfolding clean_on_def by blast
  with committed(1) \<open>cn_db c' = cn_db c2\<close> show ?thesis by simp
qed

lemma run_success:
  assumes "run c = (Inr x, c')"
  shows "\<exists>c1 c2. cn_db c1 = cn_db c \<and> body c1 = (Inr x, c2) \<and> cn_db c' = cn_db c2"
proof (cases rule: runTransaction_cases[of env name i body c])
  case aborted
  with assms show ?thesis by simp
next
  case (committed c1 r c2)
  with assms have "body c1 = (Inr x, c2)" "cn_db c' = cn_db c2" by auto
  with committed(1) show ?thesis by blast
qed

lemma retry_outcome:
  "ok (cn_db c) \<Longrightarrow> retry_loop n run c = (r, c') \<Longrightarrow>
   (case r of Inl e \<Rightarrow> cn_db c' = cn_db c
    | Inr x \<Rightarrow> \<exists>c1 c2. cn_db c1 = cn_db c \<and> body c1 = (Inr x, c2) \<and> cn_db c' = cn_db c2)"
proof (induction n arbitrary: c)
  case 0
  then show ?case using run_error[of c _ c'] run_success[of c _ c'] by (cases r) simp_all
next
  case (Suc n)
  obtain q c1 where q: "run c = (q, c1)" by fastforce
  show ?case
  proof (cases q)
    case (Inl e)
    with q Suc.prems have same: "cn_db c1 = cn_db c" using run_error by blast
    show ?thesis
    proof (cases "isSerializationFailure e")
      case True
      with q Inl Suc.prems(2) have "retry_loop n run c1 = (r, c')" by simp
      from Suc.IH[OF _ this] Suc.prems(1) same show ?thesis by (simp only: same)
    qed (use q Inl Suc.prems(2) same in auto)
  next
    case (Inr x)
    with q Suc.prems(2) have "r = Inr x" "c1 = c'" by simp_all
    with q Inr run_success[of c x c1] show ?thesis by simp
  qed
qed

theorem error_keeps_db: "ok (cn_db c) \<Longrightarrow> withTransaction env name i body c = (Inl e, c') \<Longrightarrow> cn_db c' = cn_db c"
  unfolding withTransaction_def retryOnSerializationFailure_def by (drule (1) retry_outcome) simp

theorem success:
  assumes "ok (cn_db c)" "withTransaction env name i body c = (Inr x, c')"
  obtains c1 c2 where "cn_db c1 = cn_db c" "body c1 = (Inr x, c2)" "cn_db c' = cn_db c2"
  using retry_outcome[of c "serializationFailureMaxAttempts - 1" "Inr x" c'] assms
  unfolding withTransaction_def retryOnSerializationFailure_def by auto


text \<open>Whatever a successful body establishes between the tables, the operation establishes.\<close>

theorem relates:
  assumes "ok (cn_db c)" "\<And>d. R d d" "\<And>c1 x c2. ok (cn_db c1) \<Longrightarrow> body c1 = (Inr x, c2) \<Longrightarrow> R (cn_db c1) (cn_db c2)"
  shows "R (cn_db c) (cn_db (snd (withTransaction env name i body c)))"
proof -
  obtain r c' where w: "withTransaction env name i body c = (r, c')" by fastforce
  show ?thesis
  proof (cases r)
    case (Inl e)
    with w assms(1) have "cn_db c' = cn_db c" using error_keeps_db by blast
    with w assms(2) show ?thesis by simp
  next
    case (Inr x)
    with w assms(1) obtain c1 c2 where "cn_db c1 = cn_db c" "body c1 = (Inr x, c2)" "cn_db c' = cn_db c2"
      using success by blast
    with w assms(1,3) show ?thesis by (metis snd_conv)
  qed
qed

theorem keeps_ok: "ok (cn_db c) \<Longrightarrow> ok (cn_db (snd (withTransaction env name i body c)))"
  using relates[of c "\<lambda>d d'. ok d \<longrightarrow> ok d'"] body_keeps by blast

end

section \<open>Progress and attempts\<close>

definition fault_free :: "env \<Rightarrow> bool" where
  "fault_free env \<longleftrightarrow> (\<forall>n. env_fault env n = None)"

text \<open>Without driver errors a transaction runs its body once and returns what it returns.\<close>

lemma withTransaction_fault_free:
  assumes "fault_free env" and "fn (c\<lparr>cn_calls := Suc (cn_calls c)\<rparr>) = (r, c2)"
    and "\<And>e. r = Inl e \<Longrightarrow> \<not> isSerializationFailure e"
  shows "withTransaction env name i fn c =
    (r, c2\<lparr>cn_db := (case r of Inl e \<Rightarrow> if ShouldRollback e then cn_db c else cn_db c2 | Inr _ \<Rightarrow> cn_db c2),
          cn_calls := Suc (cn_calls c2)\<rparr>)"
proof -
  have "runTransaction env name i fn c =
    (r, c2\<lparr>cn_db := (case r of Inl e \<Rightarrow> if ShouldRollback e then cn_db c else cn_db c2 | Inr _ \<Rightarrow> cn_db c2),
          cn_calls := Suc (cn_calls c2)\<rparr>)"
    using assms(1,2)
    by (cases r) (auto simp: runTransaction_def db_query_def db_call_def Let_def fault_free_def)
  with assms(3) show ?thesis
    by (cases r) (simp_all add: withTransaction_def retryOnSerializationFailure_def
                     serializationFailureMaxAttempts_def numeral_eq_Suc)
qed

lemma bounded_calls_runTransaction:
  assumes "bounded_calls k fn" shows "bounded_calls (k + 2) (runTransaction env name i fn)"
  unfolding bounded_calls_def
proof
  fix c
  obtain r c2 where fn: "fn (c\<lparr>cn_calls := Suc (cn_calls c)\<rparr>) = (r, c2)" by fastforce
  with assms have "cn_calls c2 \<le> Suc (cn_calls c) + k"
    unfolding bounded_calls_def by (metis conn.select_convs(2) conn.surjective conn.update_convs(2) snd_conv)
  with fn show "cn_calls (snd (runTransaction env name i fn c)) \<le> cn_calls c + (k + 2)"
    by (auto simp: runTransaction_def db_query_def db_call_def Let_def split: option.splits sum.splits)
qed

lemma bounded_calls_retry_loop:
  assumes "bounded_calls k run" shows "bounded_calls (Suc n * k) (retry_loop n run)"
proof -
  have "cn_calls (snd (retry_loop n run c)) \<le> cn_calls c + Suc n * k" for c
  proof (induction n arbitrary: c)
    case 0
    then show ?case using assms by (simp add: bounded_calls_def)
  next
    case (Suc n)
    obtain r c1 where run: "run c = (r, c1)" by fastforce
    with assms have "cn_calls c1 \<le> cn_calls c + k" unfolding bounded_calls_def by (metis snd_conv)
    with Suc[of c1] run show ?case by (auto split: sum.splits)
  qed
  then show ?thesis by (simp add: bounded_calls_def)
qed

lemma bounded_calls_withTransaction:
  "bounded_calls k fn \<Longrightarrow> bounded_calls (5 * (k + 2)) (withTransaction env name i fn)"
  unfolding withTransaction_def retryOnSerializationFailure_def serializationFailureMaxAttempts_def
  using bounded_calls_retry_loop[OF bounded_calls_runTransaction, of k fn 4 env name i] by simp

lemma bounded_calls_leaf [simp, intro]:
  "bounded_calls k (sreturn x)" "bounded_calls k (sthrow e)" "bounded_calls k (slift v)" "bounded_calls k (sguard g)"
  by (auto simp: bounded_calls_def sreturn_def sthrow_def slift_def sguard_def split: option.splits)

lemma bounded_calls_db [simp, intro]: "bounded_calls (Suc 0) (db_call env f)" "bounded_calls (Suc 0) (db_query env q)"
  by (auto simp: bounded_calls_def db_query_def db_call_def Let_def split: option.splits sum.splits)

lemma bounded_calls_sbind:
  assumes "bounded_calls a m" "\<And>x. bounded_calls b (f x)" shows "bounded_calls (a + b) (sbind m f)"
proof -
  have "cn_calls (snd (sbind m f c)) \<le> cn_calls c + (a + b)" for c
  proof -
    obtain r c1 where m: "m c = (r, c1)" by fastforce
    with assms(1) have "cn_calls c1 \<le> cn_calls c + a" unfolding bounded_calls_def by (metis snd_conv)
    moreover have "cn_calls (snd (f x c1)) \<le> cn_calls c1 + b" for x
      using assms(2) by (simp add: bounded_calls_def)
    ultimately have "cn_calls (snd (f x c1)) \<le> cn_calls c + (a + b)" for x
      by (metis add.assoc add_le_mono1 le_trans)
    with m \<open>cn_calls c1 \<le> cn_calls c + a\<close> show ?thesis by (cases r) (simp_all add: sbind_def)
  qed
  then show ?thesis by (simp add: bounded_calls_def)
qed

end
