(* ===== verification/Storage_Catalog.thy ===== *)
theory Storage_Catalog
  imports Transactions
begin

text \<open>
  The store of collections and providers (storage/sql/collections.go, storage/sql/providers.go).
  Applying a JSON patch is the work of a third-party package: it is the argument \<open>patch\<close>, which takes
  the stored document and the operations and returns an error text or the patched text.
\<close>

type_synonym 'e patcher = "'e \<Rightarrow> PatchOperation list \<Rightarrow> string + 'e json_column"

definition time_Now :: "env \<Rightarrow> time stm" where
  "time_Now env c = (Inr (env_now env (cn_calls c)), c)"

definition applyPatches :: "'e patcher \<Rightarrow> 'e \<Rightarrow> PatchOperation list \<Rightarrow> string + 'e json_column" where
  "applyPatches patch doc patches = (if patches = [] then Inr (Json doc) else patch doc patches)"

text \<open>CreatedAt and UpdatedAt of a resource that is about to be inserted.\<close>

definition stamp_times :: "env \<Rightarrow> Resource \<Rightarrow> Resource stm" where
  "stamp_times env r =
     sbind (if r_CreatedAt r = 0 then sbind (time_Now env) (\<lambda>now. sreturn (r\<lparr>r_CreatedAt := now\<rparr>)) else sreturn r)
       (\<lambda>r1. sreturn (if r_UpdatedAt r1 = 0 then r1\<lparr>r_UpdatedAt := r_CreatedAt r1\<rparr> else r1))"

definition not_found :: "string \<Rightarrow> string \<Rightarrow> go_error" where
  "not_found typ i = NewServiceError ResourceNotFound [''Type'', typ, ''ResourceId'', i]"

definition db_failed :: "string \<Rightarrow> string \<Rightarrow> go_error \<Rightarrow> go_error" where
  "db_failed typ i e =
     NewServiceError DatabaseOperationFailed [''Type'', typ, ''ResourceId'', i, ''Error'', err_text e]"

definition internal_error :: "string \<Rightarrow> go_error" where
  "internal_error t = NewServiceError InternalServerError [''Error'', t]"

definition unmarshal_failed :: "string \<Rightarrow> string \<Rightarrow> go_error" where
  "unmarshal_failed typ t = NewServiceError JSONUnmarshalFailed [''Type'', typ, ''Error'', t]"

section \<open>Collections\<close>

definition collection_entity :: "CollectionResource \<Rightarrow> collectionStoredEntity" where
  "collection_entity c =
     \<lparr>ce_Config = co_Config c, ce_DerivedFrom = co_DerivedFrom c, ce_PinnedOrder = co_PinnedOrder c,
      ce_Status = co_Status c\<rparr>"

definition createCollectionEntity :: "CollectionResource \<Rightarrow> go_error + collectionStoredEntity json_column" where
  "createCollectionEntity c =
     (case json_Marshal collection_entity_ok (collection_entity c) of
        Inl t \<Rightarrow> Inl (internal_error t)
      | Inr doc \<Rightarrow> Inr doc)"

definition row_of :: "Resource \<Rightarrow> 'e json_column \<Rightarrow> 'e row" where
  "row_of r doc =
     \<lparr>rw_id = r_ID r, rw_created_at = r_CreatedAt r, rw_updated_at = r_UpdatedAt r, rw_tenant_id = r_Tenant r,
      rw_owner = r_Owner r, rw_entity = doc\<rparr>"

definition insert_collection :: "env \<Rightarrow> collection_row \<Rightarrow> unit stm" where
  "insert_collection env r =
     db_call env (\<lambda>now db. map_sum id (\<lambda>rows. ((), db\<lparr>collections := rows\<rparr>))
                    (insert_row (env_duplicate env ''collections'') r (collections db)))"

definition createCollectionTxn :: "sqlStorage \<Rightarrow> CollectionResource \<Rightarrow> unit stm" where
  "createCollectionTxn s collection =
     sbind (stamp_times (st_env s) (co_Resource collection)) (\<lambda>r.
     sbind (smap_err (\<lambda>e. internal_error (err_text e)) (slift (createCollectionEntity collection))) (\<lambda>doc.
       smap_err (\<lambda>e. internal_error (err_text e)) (insert_collection (st_env s) (row_of r doc))))"

definition CreateCollection :: "sqlStorage \<Rightarrow> CollectionResource \<Rightarrow> unit stm" where
  "CreateCollection s collection = createCollectionTxn s collection"

definition collection_resource :: "Resource \<Rightarrow> collectionStoredEntity \<Rightarrow> CollectionResource" where
  "collection_resource r e =
     \<lparr>co_Resource = r, co_DerivedFrom = ce_DerivedFrom e, co_PinnedOrder = ce_PinnedOrder e,
      co_Config = ce_Config e, co_Status = ce_Status e\<rparr>"

definition getCollectionTransactionalWithLock :: "sqlStorage \<Rightarrow> string \<Rightarrow> CollectionResource stm" where
  "getCollectionTransactionalWithLock s i =
     sbind (smap_err (db_failed ''collection'' i)
              (db_query (st_env s) (\<lambda>db. find (getWhereStatement (st_tenant s) i) (collections db)))) (\<lambda>found.
       (case found of
          None \<Rightarrow> sthrow (not_found ''collection'' i)
        | Some row \<Rightarrow>
            if \<not> isVisibleResource s (row_resource row) then sthrow (not_found ''collection'' i)
            else (case rw_entity row of
                NotJson t \<Rightarrow> sthrow (unmarshal_failed ''collection'' t)
              | Json e \<Rightarrow> sreturn (collection_resource (row_resource row) e))))"

text \<open>FOR UPDATE takes a row lock; with serialised transactions the two reads are the same.\<close>

definition getCollectionTransactional :: "sqlStorage \<Rightarrow> string \<Rightarrow> CollectionResource stm" where
  "getCollectionTransactional s i = getCollectionTransactionalWithLock s i"

definition getCollectionTransactionalForUpdate :: "sqlStorage \<Rightarrow> string \<Rightarrow> CollectionResource stm" where
  "getCollectionTransactionalForUpdate s i = getCollectionTransactionalWithLock s i"

definition GetCollection :: "sqlStorage \<Rightarrow> string \<Rightarrow> CollectionResource stm" where
  "GetCollection s i = getCollectionTransactional s i"

definition updateCollectionTransactional :: "sqlStorage \<Rightarrow> string \<Rightarrow> CollectionResource \<Rightarrow> unit stm" where
  "updateCollectionTransactional s i collection =
     sbind (smap_err (\<lambda>e. internal_error (err_text e)) (slift (createCollectionEntity collection))) (\<lambda>doc.
     sbind (smap_err WithRollback (exec_collections (st_env s) (CreateUpdateEntityStatement (st_tenant s) i doc)))
       (\<lambda>n. sreturn ()))"

definition read_only_collection :: "string \<Rightarrow> go_error" where
  "read_only_collection i = NewServiceError ReadOnlyCollection [''CollectionID'', i]"

definition curated :: "CollectionResource \<Rightarrow> bool" where
  "curated c \<longleftrightarrow> IsSystemResource (co_Resource c) \<or> cc_CurationOrder (co_Config c) > 0"

definition update_collection_body :: "sqlStorage \<Rightarrow> string \<Rightarrow> CollectionConfig \<Rightarrow> CollectionResource stm" where
  "update_collection_body s i config =
     sbind (getCollectionTransactionalForUpdate s i) (\<lambda>persisted.
       if curated persisted then sthrow (read_only_collection i)
       else sbind (updateCollectionTransactional s i (persisted\<lparr>co_Config := config\<rparr>)) (\<lambda>_.
              getCollectionTransactional s i))"

definition UpdateCollection :: "sqlStorage \<Rightarrow> string \<Rightarrow> CollectionConfig \<Rightarrow> CollectionResource stm" where
  "UpdateCollection s i config = withTransaction (st_env s) ''update collection'' i (update_collection_body s i config)"

definition deleteCollectionTxn :: "sqlStorage \<Rightarrow> string \<Rightarrow> unit stm" where
  "deleteCollectionTxn s i =
     sbind (smap_err (db_failed ''collection'' i)
              (exec_collections (st_env s) (\<lambda>now. CreateDeleteEntityStatement (st_tenant s) i)))
       (\<lambda>n. sreturn ())"

definition delete_collection_body :: "sqlStorage \<Rightarrow> string \<Rightarrow> unit stm" where
  "delete_collection_body s i =
     sbind (getCollectionTransactional s i) (\<lambda>persisted.
       if IsSystemResource (co_Resource persisted) then sthrow (read_only_collection (r_ID (co_Resource persisted)))
       else deleteCollectionTxn s (r_ID (co_Resource persisted)))"

definition DeleteCollection :: "sqlStorage \<Rightarrow> string \<Rightarrow> unit stm" where
  "DeleteCollection s i = withTransaction (st_env s) ''delete collection'' i (delete_collection_body s i)"

definition update_collection_status_body ::
  "sqlStorage \<Rightarrow> string \<Rightarrow> CollectionStatus option \<Rightarrow> CollectionResource stm" where
  "update_collection_status_body s i state =
     sbind (getCollectionTransactionalForUpdate s i) (\<lambda>coll.
     sbind (updateCollectionTransactional s i (coll\<lparr>co_Status := state\<rparr>)) (\<lambda>_.
       getCollectionTransactional s i))"

definition UpdateCollectionStatus :: "sqlStorage \<Rightarrow> string \<Rightarrow> CollectionStatus option \<Rightarrow> CollectionResource stm" where
  "UpdateCollectionStatus s i state =
     withTransaction (st_env s) ''update collection state'' i (update_collection_status_body s i state)"

definition patch_collection_body ::
  "collectionStoredEntity patcher \<Rightarrow> sqlStorage \<Rightarrow> string \<Rightarrow> PatchOperation list \<Rightarrow> CollectionResource stm" where
  "patch_collection_body patch s i patches =
     sbind (getCollectionTransactionalForUpdate s i) (\<lambda>persisted.
       if r_Owner (co_Resource persisted) = ''system'' \<or> cc_CurationOrder (co_Config persisted) > 0
       then sthrow (read_only_collection i)
       else
         sbind (slift (createCollectionEntity persisted)) (\<lambda>_.
           (case applyPatches patch (collection_entity persisted) patches of
              Inl t \<Rightarrow> sthrow (PlainErr t)
            | Inr (NotJson t) \<Rightarrow> sthrow (PlainErr t)
            | Inr (Json patched) \<Rightarrow>
                if ce_PinnedOrder patched < 0
                then sthrow (NewServiceError RequestValidationFailed [''Error'', ''pinned_order must be 0 or positive''])
                else sbind (updateCollectionTransactional s i (collection_resource (co_Resource persisted) patched)) (\<lambda>_.
                       getCollectionTransactional s i))))"

definition PatchCollection ::
  "collectionStoredEntity patcher \<Rightarrow> sqlStorage \<Rightarrow> string \<Rightarrow> PatchOperation list \<Rightarrow> CollectionResource stm" where
  "PatchCollection patch s i patches =
     withTransaction (st_env s) ''patch collection'' i (patch_collection_body patch s i patches)"

section \<open>Providers\<close>

definition createProviderEntity :: "ProviderResource \<Rightarrow> go_error + ProviderConfig json_column" where
  "createProviderEntity p =
     (case json_Marshal provider_config_ok (pr_Config p) of
        Inl t \<Rightarrow> Inl (internal_error t)
      | Inr doc \<Rightarrow> Inr doc)"

definition insert_provider :: "env \<Rightarrow> provider_row \<Rightarrow> unit stm" where
  "insert_provider env r =
     db_call env (\<lambda>now db. map_sum id (\<lambda>rows. ((), db\<lparr>providers := rows\<rparr>))
                    (insert_row (env_duplicate env ''providers'') r (providers db)))"

definition createProviderTxn :: "sqlStorage \<Rightarrow> ProviderResource \<Rightarrow> unit stm" where
  "createProviderTxn s provider =
     sbind (stamp_times (st_env s) (pr_Resource provider)) (\<lambda>r.
     sbind (smap_err (\<lambda>e. internal_error (err_text e)) (slift (createProviderEntity provider))) (\<lambda>doc.
       smap_err (\<lambda>e. internal_error (err_text e)) (insert_provider (st_env s) (row_of r doc))))"

definition CreateProvider :: "sqlStorage \<Rightarrow> ProviderResource \<Rightarrow> unit stm" where
  "CreateProvider s provider = createProviderTxn s provider"

definition getUserProviderTransactional :: "sqlStorage \<Rightarrow> string \<Rightarrow> ProviderResource stm" where
  "getUserProviderTransactional s i =
     sbind (smap_err (db_failed ''provider'' i)
              (db_query (st_env s) (\<lambda>db. find (getWhereStatement (st_tenant s) i) (providers db)))) (\<lambda>found.
       (case found of
          None \<Rightarrow> sthrow (not_found ''provider'' i)
        | Some row \<Rightarrow>
            if \<not> isVisibleResource s (row_resource row) then sthrow (not_found ''provider'' i)
            else (case rw_entity row of
                NotJson t \<Rightarrow> sthrow (unmarshal_failed ''provider'' t)
              | Json cfg \<Rightarrow> sreturn \<lparr>pr_Resource = row_resource row, pr_Config = cfg\<rparr>)))"

definition GetProvider :: "sqlStorage \<Rightarrow> string \<Rightarrow> ProviderResource stm" where
  "GetProvider s i = getUserProviderTransactional s i"

definition deleteProviderTxn :: "sqlStorage \<Rightarrow> string \<Rightarrow> unit stm" where
  "deleteProviderTxn s i =
     sbind (smap_err (db_failed ''provider'' i)
              (exec_providers (st_env s) (\<lambda>now. CreateDeleteEntityStatement (st_tenant s) i)))
       (\<lambda>n. sreturn ())"

definition read_only_provider :: "string \<Rightarrow> go_error" where
  "read_only_provider i = NewServiceError ReadOnlyProvider [''ProviderID'', i]"

definition delete_provider_body :: "sqlStorage \<Rightarrow> string \<Rightarrow> unit stm" where
  "delete_provider_body s i =
     sbind (getUserProviderTransactional s i) (\<lambda>persisted.
       if IsSystemResource (pr_Resource persisted) then sthrow (read_only_provider i)
       else deleteProviderTxn s (r_ID (pr_Resource persisted)))"

definition DeleteProvider :: "sqlStorage \<Rightarrow> string \<Rightarrow> unit stm" where
  "DeleteProvider s i = withTransaction (st_env s) ''delete provider'' i (delete_provider_body s i)"

definition updateProviderTransactional :: "sqlStorage \<Rightarrow> string \<Rightarrow> ProviderResource \<Rightarrow> unit stm" where
  "updateProviderTransactional s i provider =
     sbind (smap_err (\<lambda>e. internal_error (err_text e)) (slift (createProviderEntity provider))) (\<lambda>doc.
     sbind (smap_err (\<lambda>e. WithRollback (db_failed ''provider'' i e))
              (exec_providers (st_env s) (CreateUpdateEntityStatement (st_tenant s) i doc)))
       (\<lambda>n. sreturn ()))"

definition update_provider_body :: "sqlStorage \<Rightarrow> string \<Rightarrow> ProviderConfig \<Rightarrow> ProviderResource stm" where
  "update_provider_body s i config =
     sbind (getUserProviderTransactional s i) (\<lambda>persisted.
       if IsSystemResource (pr_Resource persisted) then sthrow (read_only_provider i)
       else sbind (updateProviderTransactional s i (persisted\<lparr>pr_Config := config\<rparr>)) (\<lambda>_.
              getUserProviderTransactional s i))"

definition UpdateProvider :: "sqlStorage \<Rightarrow> string \<Rightarrow> ProviderConfig \<Rightarrow> ProviderResource stm" where
  "UpdateProvider s i config = withTransaction (st_env s) ''update provider'' i (update_provider_body s i config)"

definition patch_provider_body ::
  "ProviderConfig patcher \<Rightarrow> sqlStorage \<Rightarrow> string \<Rightarrow> PatchOperation list \<Rightarrow> ProviderResource stm" where
  "patch_provider_body patch s i patches =
     sbind (getUserProviderTransactional s i) (\<lambda>persisted.
       if IsSystemResource (pr_Resource persisted) then sthrow (read_only_provider i)
       else
         sbind (slift (createProviderEntity persisted)) (\<lambda>_.
           (case applyPatches patch (pr_Config persisted) patches of
              Inl t \<Rightarrow> sthrow (PlainErr t)
            | Inr (NotJson t) \<Rightarrow> sthrow (unmarshal_failed ''provider'' t)
            | Inr (Json patched) \<Rightarrow>
                sbind (updateProviderTransactional s i (persisted\<lparr>pr_Config := patched\<rparr>)) (\<lambda>_.
                  getUserProviderTransactional s i))))"

definition PatchProvider ::
  "ProviderConfig patcher \<Rightarrow> sqlStorage \<Rightarrow> string \<Rightarrow> PatchOperation list \<Rightarrow> ProviderResource stm" where
  "PatchProvider patch s i patches =
     withTransaction (st_env s) ''patch provider'' i (patch_provider_body patch s i patches)"

end
