(* ===== verification/Scoring.thy ===== *)
theory Scoring
  imports Benchmarks Storage_Catalog
begin

text \<open>
  The scores of a job (storage/sql/evaluations_results.go): the result of one benchmark, with the
  primary score chosen among the job's, the adapter's and the catalog's, and the weighted average
  of a completed job.
\<close>

section \<open>Primary scores\<close>

fun castAnyToFloat32 :: "go_any \<Rightarrow> f32 option" where
  "castAnyToFloat32 (AFloat64 q) = Some (f32_of_rat q)"
| "castAnyToFloat32 (AFloat32 x) = Some x"
| "castAnyToFloat32 (AInt n) = Some (f32_of_rat (of_int n))"
| "castAnyToFloat32 (AInt32 n) = Some (f32_of_rat (of_int n))"
| "castAnyToFloat32 (AInt64 n) = Some (f32_of_rat (of_int n))"
| "castAnyToFloat32 _ = None"

fun selectPrimaryScore :: "PrimaryScore list \<Rightarrow> go_any gomap \<Rightarrow> (PrimaryScore \<times> f32) option" where
  "selectPrimaryScore [] metrics = None"
| "selectPrimaryScore (cand # cands) metrics =
     (if ps_Metric cand = '''' then selectPrimaryScore cands metrics
      else (case gomap_get metrics (ps_Metric cand) of
              None \<Rightarrow> selectPrimaryScore cands metrics
            | Some v \<Rightarrow> (case castAnyToFloat32 v of
                           None \<Rightarrow> selectPrimaryScore cands metrics
                         | Some f \<Rightarrow> Some (cand, f))))"

definition opt_list :: "'a option \<Rightarrow> 'a list" where
  "opt_list o' = (case o' of None \<Rightarrow> [] | Some x \<Rightarrow> [x])"

text \<open>The provider's entry for a benchmark; an error while loading it counts as no entry.\<close>

definition loadProviderBench :: "sqlStorage \<Rightarrow> EvaluationBenchmarkConfig \<Rightarrow> BenchmarkResource option stm" where
  "loadProviderBench s benchmark =
     (if eb_ProviderID benchmark = '''' then sreturn None
      else scatch
        (sbind (getUserProviderTransactional s (eb_ProviderID benchmark)) (\<lambda>provider.
           sreturn (find (\<lambda>b. b_ID b = eb_ID benchmark) (pv_Benchmarks (pr_Config provider)))))
        (\<lambda>e. sreturn None))"

definition threshold_of :: "PassCriteria option \<Rightarrow> f32 option" where
  "threshold_of p = (case p of None \<Rightarrow> None | Some c \<Rightarrow> pc_Threshold c)"

definition benchmark_test :: "PrimaryScore \<Rightarrow> f32 \<Rightarrow> f32 \<Rightarrow> BenchmarkTest" where
  "benchmark_test primary value threshold =
     \<lparr>bt_PrimaryScore = value, bt_PrimaryScoreMetric = ps_Metric primary,
      bt_LowerIsBetter = Some (ps_LowerIsBetter primary), bt_Threshold = threshold,
      bt_Pass = (if ps_LowerIsBetter primary then f32_le value threshold else f32_le threshold value)\<rparr>"

text \<open>The threshold of the benchmark; \<open>loaded\<close> is the catalog entry when it has been read before.\<close>

definition finish_benchmark_test ::
  "sqlStorage \<Rightarrow> EvaluationBenchmarkConfig \<Rightarrow> BenchmarkResource option option \<Rightarrow> PrimaryScore \<Rightarrow> f32 \<Rightarrow>
   BenchmarkTest option stm" where
  "finish_benchmark_test s benchmark loaded primary value =
     (case threshold_of (eb_PassCriteria benchmark) of
        Some t \<Rightarrow> sreturn (Some (benchmark_test primary value t))
      | None \<Rightarrow>
          sbind (case loaded of Some pb \<Rightarrow> sreturn pb | None \<Rightarrow> loadProviderBench s benchmark) (\<lambda>pb.
            sreturn (case pb of None \<Rightarrow> None
              | Some b \<Rightarrow> map_option (benchmark_test primary value) (threshold_of (b_PassCriteria b)))))"

definition computeBenchmarkTestResult ::
  "sqlStorage \<Rightarrow> EvaluationJobResource \<Rightarrow> BenchmarkStatusEvent \<Rightarrow> CollectionResource option \<Rightarrow> BenchmarkTest option stm" where
  "computeBenchmarkTestResult s job event collection =
     (case GetJobBenchmarks job collection of
        Inl e \<Rightarrow> sreturn None
      | Inr benchmarks \<Rightarrow>
          (case find (\<lambda>b. \<not> (eb_ID b \<noteq> be_ID event \<or> eb_ProviderID b \<noteq> be_ProviderID event)) benchmarks of
             None \<Rightarrow> sreturn None
           | Some benchmark \<Rightarrow>
               (let candidates = opt_list (eb_PrimaryScore benchmark) @ opt_list (be_PrimaryScore event)
                in (case selectPrimaryScore candidates (be_Metrics event) of
                      Some (primary, value) \<Rightarrow> finish_benchmark_test s benchmark None primary value
                    | None \<Rightarrow>
                        sbind (loadProviderBench s benchmark) (\<lambda>pb.
                          (case pb of
                             None \<Rightarrow> sreturn None
                           | Some b \<Rightarrow>
                               (case b_PrimaryScore b of
                                  None \<Rightarrow> sreturn None
                                | Some catalog \<Rightarrow>
                                    (case selectPrimaryScore (candidates @ [catalog]) (be_Metrics event) of
                                       None \<Rightarrow> sreturn None
                                     | Some (primary, value) \<Rightarrow>
                                         finish_benchmark_test s benchmark (Some pb) primary value))))))))"

section \<open>The score of a job\<close>

definition getPassCriteriaThreshold :: "EvaluationJobConfig \<Rightarrow> CollectionResource option \<Rightarrow> f32" where
  "getPassCriteriaThreshold cfg collection =
     (case threshold_of (ec_PassCriteria cfg) of
        Some t \<Rightarrow> t
      | None \<Rightarrow>
          (case collection of
             None \<Rightarrow> F32 (1 / 2)
           | Some c \<Rightarrow> (case threshold_of (cc_PassCriteria (co_Config c)) of Some t \<Rightarrow> t | None \<Rightarrow> F32 (1 / 2))))"

definition benchmark_weight :: "EvaluationBenchmarkConfig \<Rightarrow> f32" where
  "benchmark_weight b = (if f32_eq (eb_Weight b) (F32 0) then F32 1 else eb_Weight b)"

definition lower_is_better :: "EvaluationBenchmarkConfig \<Rightarrow> BenchmarkTest \<Rightarrow> bool" where
  "lower_is_better b t =
     (case bt_LowerIsBetter t of
        Some l \<Rightarrow> l
      | None \<Rightarrow> (case eb_PrimaryScore b of Some p \<Rightarrow> ps_LowerIsBetter p | None \<Rightarrow> False))"

definition oriented_score :: "EvaluationBenchmarkConfig \<Rightarrow> BenchmarkTest \<Rightarrow> f32" where
  "oriented_score b t =
     (if lower_is_better b t then f32_sub (F32 1) (bt_PrimaryScore t) else bt_PrimaryScore t)"

text \<open>One round of the loop of computeJobTestResult on the two sums.\<close>

definition add_score :: "EvaluationBenchmarkConfig list \<Rightarrow> BenchmarkResult \<Rightarrow> f32 \<times> f32 \<Rightarrow> f32 \<times> f32" where
  "add_score resolved r acc =
     (case br_Test r of
        None \<Rightarrow> acc
      | Some t \<Rightarrow>
          if br_BenchmarkIndex r < 0 \<or> br_BenchmarkIndex r \<ge> int (length resolved) then acc
          else
            let b = resolved ! nat (br_BenchmarkIndex r); w = benchmark_weight b
            in (f32_add (fst acc) (f32_mul w (oriented_score b t)), f32_add (snd acc) w))"

definition score_sums :: "EvaluationBenchmarkConfig list \<Rightarrow> BenchmarkResult list \<Rightarrow> f32 \<times> f32" where
  "score_sums resolved rs = fold (add_score resolved) rs (F32 0, F32 0)"

definition computeJobTestResult ::
  "EvaluationJobResource \<Rightarrow> CollectionResource option \<Rightarrow> EvaluationJobResource" where
  "computeJobTestResult job collection =
     (case ej_Results job of
        None \<Rightarrow> job
      | Some results \<Rightarrow>
          if rs_Benchmarks results = [] then job
          else (case GetJobBenchmarks job collection of
                  Inl e \<Rightarrow> job
                | Inr resolved \<Rightarrow>
                    (let acc = score_sums resolved (rs_Benchmarks results)
                     in if f32_eq (snd acc) (F32 0) then job
                        else
                          let score = f32_div (fst acc) (snd acc);
                              threshold = getPassCriteriaThreshold (ej_Config job) collection
                          in job\<lparr>ej_Results := Some (results\<lparr>rs_Test :=
                               Some \<lparr>jt_Score = score, jt_Threshold = threshold, jt_Pass = f32_le threshold score\<rparr>\<rparr>)\<rparr>)))"

section \<open>Lemmas\<close>

lemma selectPrimaryScore_Some:
  "selectPrimaryScore cands metrics = Some (p, v) \<Longrightarrow>
   p \<in> set cands \<and> ps_Metric p \<noteq> '''' \<and>
   (\<exists>x. gomap_get metrics (ps_Metric p) = Some x \<and> castAnyToFloat32 x = Some v)"
  by (induction cands metrics rule: selectPrimaryScore.induct) (auto split: if_splits option.splits)

lemma keeps_db_getUserProvider [simp, intro]: "keeps_db (getUserProviderTransactional s i)"
  unfolding getUserProviderTransactional_def
  by (intro keeps_db_sbind keeps_db_smap_err keeps_db_leaf) (auto split: option.splits json_column.splits)

lemma keeps_db_loadProviderBench [simp, intro]: "keeps_db (loadProviderBench s b)"
  unfolding loadProviderBench_def by (auto intro!: keeps_db_scatch keeps_db_sbind)

lemma keeps_db_finish [simp, intro]: "keeps_db (finish_benchmark_test s b loaded p v)"
  unfolding finish_benchmark_test_def by (auto split: option.splits intro!: keeps_db_sbind)

lemma keeps_db_computeBenchmarkTestResult [simp, intro]: "keeps_db (computeBenchmarkTestResult s job e coll)"
  unfolding computeBenchmarkTestResult_def Let_def
  by (auto split: option.splits sum.splits prod.splits intro!: keeps_db_sbind)

lemma computeJobTestResult_frame [simp]:
  "ej_Resource (computeJobTestResult job coll) = ej_Resource job"
  "ej_Config (computeJobTestResult job coll) = ej_Config job"
  "ej_Status (computeJobTestResult job coll) = ej_Status job"
  by (auto simp: computeJobTestResult_def Let_def split: option.splits sum.splits)

section \<open>The score of a job lies between 0 and 1\<close>

text \<open>What the inputs of the average have to satisfy: weights and scores as the API validates them.\<close>

definition unit_score :: "f32 \<Rightarrow> bool" where
  "unit_score x = (case x of F32 q \<Rightarrow> 0 \<le> q \<and> q \<le> 1 | _ \<Rightarrow> False)"

definition weight_ok :: "f32 \<Rightarrow> bool" where
  "weight_ok x = (case x of F32 q \<Rightarrow> 0 \<le> q \<and> f32_valid x | _ \<Rightarrow> False)"

definition scored_in_unit :: "BenchmarkResult \<Rightarrow> bool" where
  "scored_in_unit r = (case br_Test r of None \<Rightarrow> True | Some t \<Rightarrow> unit_score (bt_PrimaryScore t))"

text \<open>The two sums stay ordered, until the sum of the weights overflows.\<close>

definition ordered_sums :: "f32 \<times> f32 \<Rightarrow> bool" where
  "ordered_sums acc \<longleftrightarrow>
     snd acc = F32Inf False \<or> (\<exists>a b. acc = (F32 a, F32 b) \<and> 0 \<le> a \<and> a \<le> b \<and> b < f32_max_bound)"

lemma unit_score_oriented:
  assumes "unit_score (bt_PrimaryScore t)" shows "unit_score (oriented_score b t)"
proof -
  from assms obtain q where q: "bt_PrimaryScore t = F32 q" "0 \<le> q" "q \<le> 1"
    by (auto simp: unit_score_def split: f32.splits)
  have u: "0 \<le> rnd32 (1 - q) \<and> rnd32 (1 - q) \<le> 1" using q by (intro r32.rnd_unit) simp_all
  then have "\<bar>rnd32 (1 - q)\<bar> < f32_max_bound" by (simp add: f32_max_bound_def abs_less_iff)
  with u q show ?thesis
    by (simp add: oriented_score_def unit_score_def f32_sub_def f32_of_rat_def)
qed

lemma weight_ok_default: "weight_ok (eb_Weight b) \<Longrightarrow> weight_ok (benchmark_weight b)"
  by (cases "eb_Weight b") (auto simp: benchmark_weight_def weight_ok_def r32.rnd_one f32_max_bound_def)

lemma f32_add_pos:
  assumes "0 \<le> x + y"
  shows "f32_add (F32 x) (F32 y) = (if rnd32 (x + y) < f32_max_bound then F32 (rnd32 (x + y)) else F32Inf False)"
  using r32.rnd_nonneg[OF assms] assms by (auto simp: f32_of_rat_def)

lemma ordered_sums_step:
  assumes "ordered_sums acc" "weight_ok w" "unit_score s"
  shows "ordered_sums (f32_add (fst acc) (f32_mul w s), f32_add (snd acc) w)"
proof -
  from assms(2) obtain v where v: "w = F32 v" "0 \<le> v" "rnd32 v = v" "v < f32_max_bound"
    by (auto simp: weight_ok_def split: f32.splits)
  from assms(3) obtain q where q: "s = F32 q" "0 \<le> q" "q \<le> 1"
    by (auto simp: unit_score_def split: f32.splits)
  have le: "rnd32 (v * q) \<le> v" and ge: "0 \<le> rnd32 (v * q)"
    using r32.weighted_le v q by (simp_all add: r32.rnd_nonneg)
  then have mul: "f32_mul w s = F32 (rnd32 (v * q))"
    using v q by (simp add: f32_of_rat_def abs_if not_le)
  show ?thesis
  proof (cases "snd acc = F32Inf False")
    case True
    with v show ?thesis by (simp add: ordered_sums_def)
  next
    case False
    with assms(1) obtain a b where ab: "acc = (F32 a, F32 b)" "0 \<le> a" "a \<le> b"
      by (auto simp: ordered_sums_def)
    have "rnd32 (a + rnd32 (v * q)) \<le> rnd32 (b + v)" using v q ab by (intro r32.accumulate_le)
    moreover have "0 \<le> rnd32 (a + rnd32 (v * q))" using v q ab by (intro r32.accumulate_nonneg)
    moreover have "f32_add (F32 a) (f32_mul w s) =
        (if rnd32 (a + rnd32 (v * q)) < f32_max_bound then F32 (rnd32 (a + rnd32 (v * q))) else F32Inf False)"
      unfolding mul using ab ge by (intro f32_add_pos) simp
    moreover have "f32_add (F32 b) w = (if rnd32 (b + v) < f32_max_bound then F32 (rnd32 (b + v)) else F32Inf False)"
      unfolding v(1) using ab v by (intro f32_add_pos) simp
    ultimately show ?thesis using ab by (simp add: ordered_sums_def)
  qed
qed

lemma ordered_sums_add_score:
  assumes "ordered_sums acc" "scored_in_unit r" "list_all (\<lambda>b. weight_ok (eb_Weight b)) resolved"
  shows "ordered_sums (add_score resolved r acc)"
proof -
  have "weight_ok (benchmark_weight (resolved ! n))" if "n < length resolved" for n
    using assms(3) that by (intro weight_ok_default) (simp add: list_all_length)
  then show ?thesis
    using assms(1,2) ordered_sums_step unit_score_oriented
    by (auto simp: add_score_def scored_in_unit_def Let_def split: option.splits)
qed

lemma ordered_sums_score_sums:
  assumes "list_all scored_in_unit rs" "list_all (\<lambda>b. weight_ok (eb_Weight b)) resolved"
  shows "ordered_sums (score_sums resolved rs)"
proof -
  have "ordered_sums (fold (add_score resolved) rs acc)" if "ordered_sums acc" for acc
    using that assms(1)
    by (induction rs arbitrary: acc) (simp_all add: ordered_sums_add_score assms(2))
  moreover have "ordered_sums (F32 0, F32 0)" by (simp add: ordered_sums_def f32_max_bound_def)
  ultimately show ?thesis by (simp add: score_sums_def)
qed

lemma score_unit:
  assumes "ordered_sums acc" "snd acc = F32 b" "b \<noteq> 0"
  shows "unit_score (f32_div (fst acc) (snd acc))"
proof -
  from assms obtain a where a: "acc = (F32 a, F32 b)" "0 \<le> a" "a \<le> b" by (auto simp: ordered_sums_def)
  with assms have "0 \<le> rnd32 (a / b) \<and> rnd32 (a / b) \<le> 1" by (intro r32.average_unit) simp_all
  moreover from this have "\<bar>rnd32 (a / b)\<bar> < f32_max_bound" by (simp add: f32_max_bound_def abs_less_iff)
  ultimately show ?thesis using a assms by (simp add: unit_score_def f32_of_rat_def)
qed

end
