(* ===== verification/Postprocessing.thy ===== *)
theory Postprocessing
  imports Workloads Errors
begin

text \<open>
  Post-processing computations (pkg/api/post_processing.go, pkg/api/results_data_config.go,
  postprocessing/mapping.go). A computation is stored as an evaluation job with one internal
  benchmark whose parameters carry the requested operations.

  The operations are decoded from a JSON document. A document is a value of \<open>go_any\<close>; the entries of
  an object stand in the order json.Marshal writes them. A decoder takes the document and the value
  decoded so far, as json.Unmarshal does, and returns nothing for a type error.
\<close>

section \<open>Decoding JSON documents (encoding/json)\<close>

type_synonym 'a decoder = "go_any \<Rightarrow> 'a \<Rightarrow> 'a option"

fun ascii_lower :: "char \<Rightarrow> char" where
  "ascii_lower c = (let n = (of_char c :: nat) in if 65 \<le> n \<and> n \<le> 90 then char_of (n + 32) else c)"

definition same_fold :: "string \<Rightarrow> string \<Rightarrow> bool" where
  "same_fold a b \<longleftrightarrow> map ascii_lower a = map ascii_lower b"

text \<open>The field of a key: the field with that name, or else the first with that name up to case.\<close>

definition find_field :: "(string \<times> 'a decoder) list \<Rightarrow> string \<Rightarrow> 'a decoder option" where
  "find_field fs k =
     (case map_of fs k of
        Some d \<Rightarrow> Some d
      | None \<Rightarrow> map_option snd (find (\<lambda>f. same_fold (fst f) k) fs))"

fun dec_entries :: "(string \<times> 'a decoder) list \<Rightarrow> (string \<times> go_any) list \<Rightarrow> 'a \<Rightarrow> 'a option" where
  "dec_entries fs [] x = Some x"
| "dec_entries fs ((k, v) # es) x =
     (case find_field fs k of
        None \<Rightarrow> dec_entries fs es x
      | Some d \<Rightarrow> (case d v x of None \<Rightarrow> None | Some y \<Rightarrow> dec_entries fs es y))"

definition dec_struct :: "(string \<times> 'a decoder) list \<Rightarrow> 'a decoder" where
  "dec_struct fs v x =
     (case v of ANil \<Rightarrow> Some x | AMap es \<Rightarrow> dec_entries fs es x | _ \<Rightarrow> None)"

definition dec_ptr :: "'a \<Rightarrow> 'a decoder \<Rightarrow> 'a option decoder" where
  "dec_ptr zero d v p =
     (case v of ANil \<Rightarrow> Some None
      | _ \<Rightarrow> map_option Some (d v (case p of None \<Rightarrow> zero | Some x \<Rightarrow> x)))"

fun dec_list :: "'a \<Rightarrow> 'a decoder \<Rightarrow> go_any list \<Rightarrow> 'a list option" where
  "dec_list zero d [] = Some []"
| "dec_list zero d (v # vs) =
     (case d v zero of None \<Rightarrow> None | Some x \<Rightarrow> map_option ((#) x) (dec_list zero d vs))"

definition dec_slice :: "'a \<Rightarrow> 'a decoder \<Rightarrow> 'a list decoder" where
  "dec_slice zero d v xs =
     (case v of ANil \<Rightarrow> Some [] | AArray vs \<Rightarrow> dec_list zero d vs | _ \<Rightarrow> None)"

fun dec_pairs :: "'a \<Rightarrow> 'a decoder \<Rightarrow> (string \<times> go_any) list \<Rightarrow> 'a gomap \<Rightarrow> 'a gomap option" where
  "dec_pairs zero d [] m = Some m"
| "dec_pairs zero d ((k, v) # es) m =
     (case d v zero of None \<Rightarrow> None | Some x \<Rightarrow> dec_pairs zero d es (gomap_put k x m))"

definition dec_map :: "'a \<Rightarrow> 'a decoder \<Rightarrow> 'a gomap decoder" where
  "dec_map zero d v m =
     (case v of ANil \<Rightarrow> Some [] | AMap es \<Rightarrow> dec_pairs zero d es m | _ \<Rightarrow> None)"

definition dec_string :: "string decoder" where
  "dec_string v x = (case v of ANil \<Rightarrow> Some x | AString s \<Rightarrow> Some s | _ \<Rightarrow> None)"

definition dec_bool :: "bool decoder" where
  "dec_bool v x = (case v of ANil \<Rightarrow> Some x | ABool b \<Rightarrow> Some b | _ \<Rightarrow> None)"

definition dec_float64 :: "rat decoder" where
  "dec_float64 v x = (case v of ANil \<Rightarrow> Some x | AFloat64 q \<Rightarrow> Some q | _ \<Rightarrow> None)"

text \<open>An integer field takes a number without a fraction and within int64.\<close>

definition dec_int :: "int decoder" where
  "dec_int v x =
     (case v of ANil \<Rightarrow> Some x
      | AFloat64 q \<Rightarrow> if of_int \<lfloor>q\<rfloor> = q \<and> - (2 ^ 63) \<le> \<lfloor>q\<rfloor> \<and> \<lfloor>q\<rfloor> < 2 ^ 63 then Some \<lfloor>q\<rfloor> else None
      | _ \<Rightarrow> None)"

text \<open>A field of a structure, given by its getter and its setter.\<close>

definition field :: "('a \<Rightarrow> 'b) \<Rightarrow> (('b \<Rightarrow> 'b) \<Rightarrow> 'a \<Rightarrow> 'a) \<Rightarrow> 'b decoder \<Rightarrow> 'a decoder" where
  "field get upd d v r = map_option (\<lambda>y. upd (\<lambda>_. y) r) (d v (get r))"

section \<open>The post-processing API\<close>

record EvaluationJobDataRef =
  ed_ID :: string
  ed_NumParallelThreads :: "int option"

record MLflowDataRef =
  ml_RunID :: string
  ml_ArtifactPath :: string

record OCIDataRef =
  od_Coordinates :: OCICoordinates
  od_Digest :: string
  od_ArtifactPath :: string
  od_K8s :: "OCIConnectionConfig option"

record ResultsDataConfigEntry =
  rd_Format :: string
  rd_Path :: string
  rd_Columns :: "string gomap"
  rd_Selection :: "string gomap"
  rd_ValueMappings :: "rat option gomap gomap"

record ResultsDataConfig =
  rc_Single :: "ResultsDataConfigEntry option"
  rc_PerBenchmark :: "ResultsDataConfigEntry list"

record PostProcessingResultsDataRef =
  pd_DataConfig :: "ResultsDataConfig option"
  pd_EvalJob :: "EvaluationJobDataRef option"
  pd_S3 :: "S3TestDataRef option"
  pd_PVC :: "PVCTestDataRef option"
  pd_Git :: "GitTestDataRef option"
  pd_HF :: "HFTestDataRef option"
  pd_MLFlow :: "MLflowDataRef option"
  pd_OCI :: "OCIDataRef option"

record CalibrationDataColumns =
  cl_SampleID :: string
  cl_Label :: string
  cl_Prediction :: string
  cl_BenchmarkID :: string
  cl_ProviderID :: string

record CalibrationDataSelection =
  cn_Metric :: string

record CalibrationDataConfig =
  cf_Format :: string
  cf_Columns :: CalibrationDataColumns
  cf_Selection :: "CalibrationDataSelection option"

record CalibrationDataRef =
  cd_S3 :: "S3TestDataRef option"
  cd_PVC :: "PVCTestDataRef option"
  cd_Git :: "GitTestDataRef option"
  cd_HF :: "HFTestDataRef option"
  cd_DataConfig :: CalibrationDataConfig

record StandaloneConfidenceIntervalConfig =
  sc_CalibrationDataRef :: "CalibrationDataRef list"
  sc_SignificanceLevel :: rat
  sc_ResultsDataRef :: "PostProcessingResultsDataRef option"
  sc_PrimaryScore :: "PrimaryScore option"

record StandalonePostProcessingOperations =
  so_ConfidenceInterval :: "StandaloneConfidenceIntervalConfig option"

record PostProcessingCommon =
  pp_Name :: string
  pp_HardwareConfig :: "BenchmarkHardwareConfig option"
  pp_OperationOrder :: "string list option"

record StandalonePostProcessingRequest =
  pq_Common :: PostProcessingCommon
  pq_Operations :: StandalonePostProcessingOperations

record ConfidenceInterval =
  ci_Lower :: rat
  ci_Upper :: rat
  ci_PointEstimate :: "rat option"
  ci_NLabeled :: "int option"
  ci_NUnlabeled :: "int option"
  ci_Alpha :: "rat option"
  ci_Method :: "string option"
  ci_Lambda :: "rat option"

record PostProcessingBenchmarkResult =
  pb_ID :: string
  pb_ProviderID :: string
  pb_BenchmarkIndex :: int
  pb_ConfidenceInterval :: ConfidenceInterval

record PostProcessingResults =
  pt_Benchmarks :: "PostProcessingBenchmarkResult list"
  pt_ConfidenceInterval :: "ConfidenceInterval option"

record PostProcessingStatus =
  pst_State :: string
  pst_ErrorMessage :: "MessageInfo option"
  pst_WarningMessage :: "MessageInfo option"
  pst_StartedAt :: string
  pst_CompletedAt :: string

record PostProcessingResource =
  prs_Resource :: Resource
  prs_Common :: PostProcessingCommon
  prs_Operations :: StandalonePostProcessingOperations
  prs_Status :: PostProcessingStatus
  prs_Results :: "PostProcessingResults option"

definition HasOperation :: "StandalonePostProcessingOperations \<Rightarrow> bool" where
  "HasOperation ops \<longleftrightarrow> so_ConfidenceInterval ops \<noteq> None"

definition OperationNames :: "StandalonePostProcessingOperations \<Rightarrow> string list" where
  "OperationNames ops = (if so_ConfidenceInterval ops = None then [] else [''confidence_interval''])"

section \<open>Zero values, decoders and encoders of the operations\<close>

text \<open>
  One decoder and one encoder per structure, with the names of its JSON tags; a field tagged
  omitempty is left out when it has its zero value.
\<close>

definition enc_int :: "int \<Rightarrow> go_any" where
  "enc_int i = AFloat64 (of_int i)"

definition enc_ptr :: "('a \<Rightarrow> go_any) \<Rightarrow> 'a option \<Rightarrow> go_any" where
  "enc_ptr e p = (case p of None \<Rightarrow> ANil | Some x \<Rightarrow> e x)"

definition enc_slice :: "('a \<Rightarrow> go_any) \<Rightarrow> 'a list \<Rightarrow> go_any" where
  "enc_slice e xs = AArray (map e xs)"

definition enc_map :: "('a \<Rightarrow> go_any) \<Rightarrow> 'a gomap \<Rightarrow> go_any" where
  "enc_map e m = AMap (map (\<lambda>(k, v). (k, e v)) m)"

definition entry :: "bool \<Rightarrow> string \<Rightarrow> go_any \<Rightarrow> (string \<times> go_any) list" where
  "entry omit k v = (if omit then [] else [(k, v)])"

definition zero_OCICoordinates :: OCICoordinates where
  "zero_OCICoordinates = \<lparr>oc_OCIHost = '''', oc_OCIRepository = '''', oc_OCITag = '''', oc_Annotations = []\<rparr>"

definition dec_OCICoordinates :: "OCICoordinates decoder" where
  "dec_OCICoordinates = dec_struct
     [(''oci_host'', field oc_OCIHost oc_OCIHost_update dec_string),
      (''oci_repository'', field oc_OCIRepository oc_OCIRepository_update dec_string),
      (''oci_tag'', field oc_OCITag oc_OCITag_update dec_string),
      (''annotations'', field oc_Annotations oc_Annotations_update (dec_map '''' dec_string))]"

definition enc_OCICoordinates :: "OCICoordinates \<Rightarrow> go_any" where
  "enc_OCICoordinates r = AMap
     (entry False ''oci_host'' (AString (oc_OCIHost r)) @
      entry False ''oci_repository'' (AString (oc_OCIRepository r)) @
      entry (oc_OCITag r = '''') ''oci_tag'' (AString (oc_OCITag r)) @
      entry (oc_Annotations r = []) ''annotations'' (enc_map AString (oc_Annotations r)))"

definition zero_OCIConnectionConfig :: OCIConnectionConfig where
  "zero_OCIConnectionConfig = \<lparr>ok_Connection = ''''\<rparr>"

definition dec_OCIConnectionConfig :: "OCIConnectionConfig decoder" where
  "dec_OCIConnectionConfig = dec_struct
     [(''connection'', field ok_Connection ok_Connection_update dec_string)]"

definition enc_OCIConnectionConfig :: "OCIConnectionConfig \<Rightarrow> go_any" where
  "enc_OCIConnectionConfig r = AMap
     (entry False ''connection'' (AString (ok_Connection r)))"

definition zero_S3TestDataRef :: S3TestDataRef where
  "zero_S3TestDataRef = \<lparr>s3_Bucket = '''', s3_Key = '''', s3_SecretRef = ''''\<rparr>"

definition dec_S3TestDataRef :: "S3TestDataRef decoder" where
  "dec_S3TestDataRef = dec_struct
     [(''bucket'', field s3_Bucket s3_Bucket_update dec_string),
      (''key'', field s3_Key s3_Key_update dec_string),
      (''secret_ref'', field s3_SecretRef s3_SecretRef_update dec_string)]"

definition enc_S3TestDataRef :: "S3TestDataRef \<Rightarrow> go_any" where
  "enc_S3TestDataRef r = AMap
     (entry False ''bucket'' (AString (s3_Bucket r)) @
      entry False ''key'' (AString (s3_Key r)) @
      entry False ''secret_ref'' (AString (s3_SecretRef r)))"

definition zero_PVCTestDataRef :: PVCTestDataRef where
  "zero_PVCTestDataRef = \<lparr>pvc_ClaimName = '''', pvc_SubPath = ''''\<rparr>"

definition dec_PVCTestDataRef :: "PVCTestDataRef decoder" where
  "dec_PVCTestDataRef = dec_struct
     [(''claim_name'', field pvc_ClaimName pvc_ClaimName_update dec_string),
      (''sub_path'', field pvc_SubPath pvc_SubPath_update dec_string)]"

definition enc_PVCTestDataRef :: "PVCTestDataRef \<Rightarrow> go_any" where
  "enc_PVCTestDataRef r = AMap
     (entry False ''claim_name'' (AString (pvc_ClaimName r)) @
      entry (pvc_SubPath r = '''') ''sub_path'' (AString (pvc_SubPath r)))"

definition zero_GitTestDataRef :: GitTestDataRef where
  "zero_GitTestDataRef = \<lparr>git_URL = '''', git_Ref = '''', git_SubPath = '''', git_SecretRef = ''''\<rparr>"

definition dec_GitTestDataRef :: "GitTestDataRef decoder" where
  "dec_GitTestDataRef = dec_struct
     [(''url'', field git_URL git_URL_update dec_string),
      (''ref'', field git_Ref git_Ref_update dec_string),
      (''sub_path'', field git_SubPath git_SubPath_update dec_string),
      (''secret_ref'', field git_SecretRef git_SecretRef_update dec_string)]"

definition enc_GitTestDataRef :: "GitTestDataRef \<Rightarrow> go_any" where
  "enc_GitTestDataRef r = AMap
     (entry False ''url'' (AString (git_URL r)) @
      entry False ''ref'' (AString (git_Ref r)) @
      entry (git_SubPath r = '''') ''sub_path'' (AString (git_SubPath r)) @
      entry (git_SecretRef r = '''') ''secret_ref'' (AString (git_SecretRef r)))"

definition zero_HFTestDataRef :: HFTestDataRef where
  "zero_HFTestDataRef = \<lparr>hf_RepoID = '''', hf_Revision = '''', hf_SubPath = '''', hf_SecretRef = ''''\<rparr>"

definition dec_HFTestDataRef :: "HFTestDataRef decoder" where
  "dec_HFTestDataRef = dec_struct
     [(''repo_id'', field hf_RepoID hf_RepoID_update dec_string),
      (''revision'', field hf_Revision hf_Revision_update dec_string),
      (''sub_path'', field hf_SubPath hf_SubPath_update dec_string),
      (''secret_ref'', field hf_SecretRef hf_SecretRef_update dec_string)]"

definition enc_HFTestDataRef :: "HFTestDataRef \<Rightarrow> go_any" where
  "enc_HFTestDataRef r = AMap
     (entry False ''repo_id'' (AString (hf_RepoID r)) @
      entry (hf_Revision r = '''') ''revision'' (AString (hf_Revision r)) @
      entry (hf_SubPath r = '''') ''sub_path'' (AString (hf_SubPath r)) @
      entry (hf_SecretRef r = '''') ''secret_ref'' (AString (hf_SecretRef r)))"

definition zero_PrimaryScore :: PrimaryScore where
  "zero_PrimaryScore = \<lparr>ps_Metric = '''', ps_LowerIsBetter = False\<rparr>"

definition dec_PrimaryScore :: "PrimaryScore decoder" where
  "dec_PrimaryScore = dec_struct
     [(''metric'', field ps_Metric ps_Metric_update dec_string),
      (''lower_is_better'', field ps_LowerIsBetter ps_LowerIsBetter_update dec_bool)]"

definition enc_PrimaryScore :: "PrimaryScore \<Rightarrow> go_any" where
  "enc_PrimaryScore r = AMap
     (entry False ''metric'' (AString (ps_Metric r)) @
      entry (\<not> ps_LowerIsBetter r) ''lower_is_better'' (ABool (ps_LowerIsBetter r)))"

definition zero_EvaluationJobDataRef :: EvaluationJobDataRef where
  "zero_EvaluationJobDataRef = \<lparr>ed_ID = '''', ed_NumParallelThreads = None\<rparr>"

definition dec_EvaluationJobDataRef :: "EvaluationJobDataRef decoder" where
  "dec_EvaluationJobDataRef = dec_struct
     [(''id'', field ed_ID ed_ID_update dec_string),
      (''num_parallel_threads'', field ed_NumParallelThreads ed_NumParallelThreads_update (dec_ptr 0 dec_int))]"

definition enc_EvaluationJobDataRef :: "EvaluationJobDataRef \<Rightarrow> go_any" where
  "enc_EvaluationJobDataRef r = AMap
     (entry False ''id'' (AString (ed_ID r)) @
      entry (ed_NumParallelThreads r = None) ''num_parallel_threads'' (enc_ptr enc_int (ed_NumParallelThreads r)))"

definition zero_MLflowDataRef :: MLflowDataRef where
  "zero_MLflowDataRef = \<lparr>ml_RunID = '''', ml_ArtifactPath = ''''\<rparr>"

definition dec_MLflowDataRef :: "MLflowDataRef decoder" where
  "dec_MLflowDataRef = dec_struct
     [(''run_id'', field ml_RunID ml_RunID_update dec_string),
      (''artifact_path'', field ml_ArtifactPath ml_ArtifactPath_update dec_string)]"

definition enc_MLflowDataRef :: "MLflowDataRef \<Rightarrow> go_any" where
  "enc_MLflowDataRef r = AMap
     (entry False ''run_id'' (AString (ml_RunID r)) @
      entry False ''artifact_path'' (AString (ml_ArtifactPath r)))"

definition zero_OCIDataRef :: OCIDataRef where
  "zero_OCIDataRef = \<lparr>od_Coordinates = zero_OCICoordinates, od_Digest = '''', od_ArtifactPath = '''', od_K8s = None\<rparr>"

definition dec_OCIDataRef :: "OCIDataRef decoder" where
  "dec_OCIDataRef = dec_struct
     [(''coordinates'', field od_Coordinates od_Coordinates_update dec_OCICoordinates),
      (''digest'', field od_Digest od_Digest_update dec_string),
      (''artifact_path'', field od_ArtifactPath od_ArtifactPath_update dec_string),
      (''k8s'', field od_K8s od_K8s_update (dec_ptr zero_OCIConnectionConfig dec_OCIConnectionConfig))]"

definition enc_OCIDataRef :: "OCIDataRef \<Rightarrow> go_any" where
  "enc_OCIDataRef r = AMap
     (entry False ''coordinates'' (enc_OCICoordinates (od_Coordinates r)) @
      entry (od_Digest r = '''') ''digest'' (AString (od_Digest r)) @
      entry False ''artifact_path'' (AString (od_ArtifactPath r)) @
      entry (od_K8s r = None) ''k8s'' (enc_ptr enc_OCIConnectionConfig (od_K8s r)))"

definition zero_ResultsDataConfigEntry :: ResultsDataConfigEntry where
  "zero_ResultsDataConfigEntry = \<lparr>rd_Format = '''', rd_Path = '''', rd_Columns = [], rd_Selection = [], rd_ValueMappings = []\<rparr>"

definition dec_ResultsDataConfigEntry :: "ResultsDataConfigEntry decoder" where
  "dec_ResultsDataConfigEntry = dec_struct
     [(''format'', field rd_Format rd_Format_update dec_string),
      (''path'', field rd_Path rd_Path_update dec_string),
      (''columns'', field rd_Columns rd_Columns_update (dec_map '''' dec_string)),
      (''selection'', field rd_Selection rd_Selection_update (dec_map '''' dec_string)),
      (''value_mappings'', field rd_ValueMappings rd_ValueMappings_update (dec_map [] (dec_map None (dec_ptr 0 dec_float64))))]"

definition enc_ResultsDataConfigEntry :: "ResultsDataConfigEntry \<Rightarrow> go_any" where
  "enc_ResultsDataConfigEntry r = AMap
     (entry (rd_Format r = '''') ''format'' (AString (rd_Format r)) @
      entry (rd_Path r = '''') ''path'' (AString (rd_Path r)) @
      entry (rd_Columns r = []) ''columns'' (enc_map AString (rd_Columns r)) @
      entry (rd_Selection r = []) ''selection'' (enc_map AString (rd_Selection r)) @
      entry (rd_ValueMappings r = []) ''value_mappings'' (enc_map (enc_map (enc_ptr AFloat64)) (rd_ValueMappings r)))"

definition zero_ResultsDataConfig :: ResultsDataConfig where
  "zero_ResultsDataConfig = \<lparr>rc_Single = None, rc_PerBenchmark = []\<rparr>"

text \<open>ResultsDataConfig has its own UnmarshalJSON and MarshalJSON: an object or a nonempty array.\<close>

definition dec_ResultsDataConfig :: "ResultsDataConfig decoder" where
  "dec_ResultsDataConfig v x =
     (case v of
        AMap _ \<Rightarrow> map_option (\<lambda>e. \<lparr>rc_Single = Some e, rc_PerBenchmark = []\<rparr>)
                    (dec_ResultsDataConfigEntry v zero_ResultsDataConfigEntry)
      | AArray vs \<Rightarrow>
          (case dec_list zero_ResultsDataConfigEntry dec_ResultsDataConfigEntry vs of
             None \<Rightarrow> None
           | Some es \<Rightarrow> if es = [] \<or> list_ex (\<lambda>e. rd_Selection e = []) es then None
                         else Some \<lparr>rc_Single = None, rc_PerBenchmark = es\<rparr>)
      | _ \<Rightarrow> None)"

definition enc_ResultsDataConfig :: "ResultsDataConfig \<Rightarrow> go_any" where
  "enc_ResultsDataConfig c =
     (case rc_Single c of Some e \<Rightarrow> enc_ResultsDataConfigEntry e
      | None \<Rightarrow> enc_slice enc_ResultsDataConfigEntry (rc_PerBenchmark c))"

definition zero_PostProcessingResultsDataRef :: PostProcessingResultsDataRef where
  "zero_PostProcessingResultsDataRef = \<lparr>pd_DataConfig = None, pd_EvalJob = None, pd_S3 = None, pd_PVC = None, pd_Git = None, pd_HF = None, pd_MLFlow = None, pd_OCI = None\<rparr>"

definition dec_PostProcessingResultsDataRef :: "PostProcessingResultsDataRef decoder" where
  "dec_PostProcessingResultsDataRef = dec_struct
     [(''data_config'', field pd_DataConfig pd_DataConfig_update (dec_ptr zero_ResultsDataConfig dec_ResultsDataConfig)),
      (''eval_job'', field pd_EvalJob pd_EvalJob_update (dec_ptr zero_EvaluationJobDataRef dec_EvaluationJobDataRef)),
      (''s3'', field pd_S3 pd_S3_update (dec_ptr zero_S3TestDataRef dec_S3TestDataRef)),
      (''pvc'', field pd_PVC pd_PVC_update (dec_ptr zero_PVCTestDataRef dec_PVCTestDataRef)),
      (''git'', field pd_Git pd_Git_update (dec_ptr zero_GitTestDataRef dec_GitTestDataRef)),
      (''hf'', field pd_HF pd_HF_update (dec_ptr zero_HFTestDataRef dec_HFTestDataRef)),
      (''mlflow'', field pd_MLFlow pd_MLFlow_update (dec_ptr zero_MLflowDataRef dec_MLflowDataRef)),
      (''oci'', field pd_OCI pd_OCI_update (dec_ptr zero_OCIDataRef dec_OCIDataRef))]"

definition enc_PostProcessingResultsDataRef :: "PostProcessingResultsDataRef \<Rightarrow> go_any" where
  "enc_PostProcessingResultsDataRef r = AMap
     (entry (pd_DataConfig r = None) ''data_config'' (enc_ptr enc_ResultsDataConfig (pd_DataConfig r)) @
      entry (pd_EvalJob r = None) ''eval_job'' (enc_ptr enc_EvaluationJobDataRef (pd_EvalJob r)) @
      entry (pd_S3 r = None) ''s3'' (enc_ptr enc_S3TestDataRef (pd_S3 r)) @
      entry (pd_PVC r = None) ''pvc'' (enc_ptr enc_PVCTestDataRef (pd_PVC r)) @
      entry (pd_Git r = None) ''git'' (enc_ptr enc_GitTestDataRef (pd_Git r)) @
      entry (pd_HF r = None) ''hf'' (enc_ptr enc_HFTestDataRef (pd_HF r)) @
      entry (pd_MLFlow r = None) ''mlflow'' (enc_ptr enc_MLflowDataRef (pd_MLFlow r)) @
      entry (pd_OCI r = None) ''oci'' (enc_ptr enc_OCIDataRef (pd_OCI r)))"

definition zero_CalibrationDataColumns :: CalibrationDataColumns where
  "zero_CalibrationDataColumns = \<lparr>cl_SampleID = '''', cl_Label = '''', cl_Prediction = '''', cl_BenchmarkID = '''', cl_ProviderID = ''''\<rparr>"

definition dec_CalibrationDataColumns :: "CalibrationDataColumns decoder" where
  "dec_CalibrationDataColumns = dec_struct
     [(''sample_id'', field cl_SampleID cl_SampleID_update dec_string),
      (''label'', field cl_Label cl_Label_update dec_string),
      (''prediction'', field cl_Prediction cl_Prediction_update dec_string),
      (''benchmark_id'', field cl_BenchmarkID cl_BenchmarkID_update dec_string),
      (''provider_id'', field cl_ProviderID cl_ProviderID_update dec_string)]"

definition enc_CalibrationDataColumns :: "CalibrationDataColumns \<Rightarrow> go_any" where
  "enc_CalibrationDataColumns r = AMap
     (entry (cl_SampleID r = '''') ''sample_id'' (AString (cl_SampleID r)) @
      entry False ''label'' (AString (cl_Label r)) @
      entry False ''prediction'' (AString (cl_Prediction r)) @
      entry (cl_BenchmarkID r = '''') ''benchmark_id'' (AString (cl_BenchmarkID r)) @
      entry (cl_ProviderID r = '''') ''provider_id'' (AString (cl_ProviderID r)))"

definition zero_CalibrationDataSelection :: CalibrationDataSelection where
  "zero_CalibrationDataSelection = \<lparr>cn_Metric = ''''\<rparr>"

definition dec_CalibrationDataSelection :: "CalibrationDataSelection decoder" where
  "dec_CalibrationDataSelection = dec_struct
     [(''metric'', field cn_Metric cn_Metric_update dec_string)]"

definition enc_CalibrationDataSelection :: "CalibrationDataSelection \<Rightarrow> go_any" where
  "enc_CalibrationDataSelection r = AMap
     (entry False ''metric'' (AString (cn_Metric r)))"

definition zero_CalibrationDataConfig :: CalibrationDataConfig where
  "zero_CalibrationDataConfig = \<lparr>cf_Format = '''', cf_Columns = zero_CalibrationDataColumns, cf_Selection = None\<rparr>"

definition dec_CalibrationDataConfig :: "CalibrationDataConfig decoder" where
  "dec_CalibrationDataConfig = dec_struct
     [(''format'', field cf_Format cf_Format_update dec_string),
      (''columns'', field cf_Columns cf_Columns_update dec_CalibrationDataColumns),
      (''selection'', field cf_Selection cf_Selection_update (dec_ptr zero_CalibrationDataSelection dec_CalibrationDataSelection))]"

definition enc_CalibrationDataConfig :: "CalibrationDataConfig \<Rightarrow> go_any" where
  "enc_CalibrationDataConfig r = AMap
     (entry False ''format'' (AString (cf_Format r)) @
      entry False ''columns'' (enc_CalibrationDataColumns (cf_Columns r)) @
      entry (cf_Selection r = None) ''selection'' (enc_ptr enc_CalibrationDataSelection (cf_Selection r)))"

definition zero_CalibrationDataRef :: CalibrationDataRef where
  "zero_CalibrationDataRef = \<lparr>cd_S3 = None, cd_PVC = None, cd_Git = None, cd_HF = None, cd_DataConfig = zero_CalibrationDataConfig\<rparr>"

definition dec_CalibrationDataRef :: "CalibrationDataRef decoder" where
  "dec_CalibrationDataRef = dec_struct
     [(''s3'', field cd_S3 cd_S3_update (dec_ptr zero_S3TestDataRef dec_S3TestDataRef)),
      (''pvc'', field cd_PVC cd_PVC_update (dec_ptr zero_PVCTestDataRef dec_PVCTestDataRef)),
      (''git'', field cd_Git cd_Git_update (dec_ptr zero_GitTestDataRef dec_GitTestDataRef)),
      (''hf'', field cd_HF cd_HF_update (dec_ptr zero_HFTestDataRef dec_HFTestDataRef)),
      (''data_config'', field cd_DataConfig cd_DataConfig_update dec_CalibrationDataConfig)]"

definition enc_CalibrationDataRef :: "CalibrationDataRef \<Rightarrow> go_any" where
  "enc_CalibrationDataRef r = AMap
     (entry (cd_S3 r = None) ''s3'' (enc_ptr enc_S3TestDataRef (cd_S3 r)) @
      entry (cd_PVC r = None) ''pvc'' (enc_ptr enc_PVCTestDataRef (cd_PVC r)) @
      entry (cd_Git r = None) ''git'' (enc_ptr enc_GitTestDataRef (cd_Git r)) @
      entry (cd_HF r = None) ''hf'' (enc_ptr enc_HFTestDataRef (cd_HF r)) @
      entry False ''data_config'' (enc_CalibrationDataConfig (cd_DataConfig r)))"

definition zero_StandaloneConfidenceIntervalConfig :: StandaloneConfidenceIntervalConfig where
  "zero_StandaloneConfidenceIntervalConfig = \<lparr>sc_CalibrationDataRef = [], sc_SignificanceLevel = 0, sc_ResultsDataRef = None, sc_PrimaryScore = None\<rparr>"

definition dec_StandaloneConfidenceIntervalConfig :: "StandaloneConfidenceIntervalConfig decoder" where
  "dec_StandaloneConfidenceIntervalConfig = dec_struct
     [(''calibration_data_ref'', field sc_CalibrationDataRef sc_CalibrationDataRef_update (dec_slice zero_CalibrationDataRef dec_CalibrationDataRef)),
      (''significance_level'', field sc_SignificanceLevel sc_SignificanceLevel_update dec_float64),
      (''results_data_ref'', field sc_ResultsDataRef sc_ResultsDataRef_update (dec_ptr zero_PostProcessingResultsDataRef dec_PostProcessingResultsDataRef)),
      (''primary_score'', field sc_PrimaryScore sc_PrimaryScore_update (dec_ptr zero_PrimaryScore dec_PrimaryScore))]"

definition enc_StandaloneConfidenceIntervalConfig :: "StandaloneConfidenceIntervalConfig \<Rightarrow> go_any" where
  "enc_StandaloneConfidenceIntervalConfig r = AMap
     (entry False ''calibration_data_ref'' (enc_slice enc_CalibrationDataRef (sc_CalibrationDataRef r)) @
      entry False ''significance_level'' (AFloat64 (sc_SignificanceLevel r)) @
      entry False ''results_data_ref'' (enc_ptr enc_PostProcessingResultsDataRef (sc_ResultsDataRef r)) @
      entry (sc_PrimaryScore r = None) ''primary_score'' (enc_ptr enc_PrimaryScore (sc_PrimaryScore r)))"

definition zero_StandalonePostProcessingOperations :: StandalonePostProcessingOperations where
  "zero_StandalonePostProcessingOperations = \<lparr>so_ConfidenceInterval = None\<rparr>"

definition dec_StandalonePostProcessingOperations :: "StandalonePostProcessingOperations decoder" where
  "dec_StandalonePostProcessingOperations = dec_struct
     [(''confidence_interval'', field so_ConfidenceInterval so_ConfidenceInterval_update (dec_ptr zero_StandaloneConfidenceIntervalConfig dec_StandaloneConfidenceIntervalConfig))]"

definition enc_StandalonePostProcessingOperations :: "StandalonePostProcessingOperations \<Rightarrow> go_any" where
  "enc_StandalonePostProcessingOperations r = AMap
     (entry (so_ConfidenceInterval r = None) ''confidence_interval'' (enc_ptr enc_StandaloneConfidenceIntervalConfig (so_ConfidenceInterval r)))"

definition zero_ConfidenceInterval :: ConfidenceInterval where
  "zero_ConfidenceInterval = \<lparr>ci_Lower = 0, ci_Upper = 0, ci_PointEstimate = None, ci_NLabeled = None, ci_NUnlabeled = None, ci_Alpha = None, ci_Method = None, ci_Lambda = None\<rparr>"

definition dec_ConfidenceInterval :: "ConfidenceInterval decoder" where
  "dec_ConfidenceInterval = dec_struct
     [(''lower'', field ci_Lower ci_Lower_update dec_float64),
      (''upper'', field ci_Upper ci_Upper_update dec_float64),
      (''point_estimate'', field ci_PointEstimate ci_PointEstimate_update (dec_ptr 0 dec_float64)),
      (''n_labeled'', field ci_NLabeled ci_NLabeled_update (dec_ptr 0 dec_int)),
      (''n_unlabeled'', field ci_NUnlabeled ci_NUnlabeled_update (dec_ptr 0 dec_int)),
      (''alpha'', field ci_Alpha ci_Alpha_update (dec_ptr 0 dec_float64)),
      (''method'', field ci_Method ci_Method_update (dec_ptr '''' dec_string)),
      (''lambda'', field ci_Lambda ci_Lambda_update (dec_ptr 0 dec_float64))]"

definition zero_PostProcessingBenchmarkResult :: PostProcessingBenchmarkResult where
  "zero_PostProcessingBenchmarkResult = \<lparr>pb_ID = '''', pb_ProviderID = '''', pb_BenchmarkIndex = 0, pb_ConfidenceInterval = zero_ConfidenceInterval\<rparr>"

definition dec_PostProcessingBenchmarkResult :: "PostProcessingBenchmarkResult decoder" where
  "dec_PostProcessingBenchmarkResult = dec_struct
     [(''id'', field pb_ID pb_ID_update dec_string),
      (''provider_id'', field pb_ProviderID pb_ProviderID_update dec_string),
      (''benchmark_index'', field pb_BenchmarkIndex pb_BenchmarkIndex_update dec_int),
      (''confidence_interval'', field pb_ConfidenceInterval pb_ConfidenceInterval_update dec_ConfidenceInterval)]"

definition zero_PostProcessingResults :: PostProcessingResults where
  "zero_PostProcessingResults = \<lparr>pt_Benchmarks = [], pt_ConfidenceInterval = None\<rparr>"

definition dec_PostProcessingResults :: "PostProcessingResults decoder" where
  "dec_PostProcessingResults = dec_struct
     [(''benchmarks'', field pt_Benchmarks pt_Benchmarks_update (dec_slice zero_PostProcessingBenchmarkResult dec_PostProcessingBenchmarkResult)),
      (''confidence_interval'', field pt_ConfidenceInterval pt_ConfidenceInterval_update (dec_ptr zero_ConfidenceInterval dec_ConfidenceInterval))]"

section \<open>Mapping to evaluation jobs (mapping.go)\<close>

definition ProviderID :: string where "ProviderID = ''evalhub-internal''"
definition BenchmarkID :: string where "BenchmarkID = ''evaluation-post-processor''"
definition defaultAdapterImage :: string where
  "defaultAdapterImage = ''quay.io/evalhub/evalhub-post-processor:latest''"
definition localAdapterDir :: string where
  "localAdapterDir = ''../eval-hub-contrib/adapters/evalhub-post-processor''"
definition defaultLocalCommand :: string where
  "defaultLocalCommand = localAdapterDir @ ''/.venv/bin/python '' @ localAdapterDir @ ''/main.py''"

text \<open>The values of the two environment variables are arguments.\<close>

definition zero_resource :: Resource where
  "zero_resource = \<lparr>r_ID = '''', r_Tenant = '''', r_CreatedAt = 0, r_UpdatedAt = 0, r_Owner = ''''\<rparr>"

definition zero_benchmark :: BenchmarkResource where
  "zero_benchmark =
     \<lparr>b_ID = '''', b_URL = '''', b_Name = '''', b_Description = '''', b_Category = '''', b_Metrics = [],
      b_NumFewShot = 0, b_DatasetSize = 0, b_Tags = [], b_PrimaryScore = None, b_PassCriteria = None,
      b_Agent = None, b_Domains = [], b_Tasks = [], b_Modalities = [], b_EvaluationTargets = []\<rparr>"

definition zero_k8s_runtime :: K8sRuntime where
  "zero_k8s_runtime =
     \<lparr>kr_Image = '''', kr_Entrypoint = [], kr_CPURequest = '''', kr_MemoryRequest = '''', kr_CPULimit = '''',
      kr_MemoryLimit = '''', kr_GPU = None, kr_DRA = None, kr_Env = [], kr_ImagePullPolicy = ''''\<rparr>"

definition RuntimeProvider :: "string \<Rightarrow> string \<Rightarrow> ProviderResource" where
  "RuntimeProvider imageEnv commandEnv =
     (let image = (if TrimSpace imageEnv = '''' then defaultAdapterImage else TrimSpace imageEnv);
          pullPolicy = (if HasSuffix image '':latest'' then ''always'' else '''');
          localCommand = (if TrimSpace commandEnv = '''' then defaultLocalCommand else TrimSpace commandEnv)
      in \<lparr>pr_Resource = zero_resource\<lparr>r_ID := ProviderID\<rparr>,
          pr_Config =
            \<lparr>pv_Name = ''EvalHub Internal'', pv_Description = '''', pv_Title = ''EvalHub Internal'', pv_Tags = [],
             pv_Benchmarks = [zero_benchmark\<lparr>b_ID := BenchmarkID\<rparr>],
             pv_Runtime = Some
               \<lparr>rt_K8s = Some (zero_k8s_runtime\<lparr>kr_Image := image, kr_ImagePullPolicy := pullPolicy\<rparr>),
                rt_Local = Some \<lparr>lr_Command = localCommand, lr_Env = []\<rparr>\<rparr>,
             pv_Agent = None\<rparr>\<rparr>)"

definition IsPostProcessingJob :: "EvaluationJobConfig \<Rightarrow> bool" where
  "IsPostProcessingJob cfg \<longleftrightarrow>
     ec_Collection cfg = None \<and> length (ec_Benchmarks cfg) = 1 \<and>
     eb_ProviderID (ec_Benchmarks cfg ! 0) = ProviderID \<and> eb_ID (ec_Benchmarks cfg ! 0) = BenchmarkID"

definition post_processing_workload :: "string \<Rightarrow> string \<Rightarrow> Workload" where
  "post_processing_workload imageEnv commandEnv =
     \<lparr>wl_Type = PostProcessing, wl_ProviderID = ProviderID, wl_BenchmarkID = BenchmarkID, wl_Internal = True,
      wl_MatchesJob = Some IsPostProcessingJob, wl_RuntimeProvider = Some (RuntimeProvider imageEnv commandEnv)\<rparr>"

definition ToEvaluationJob :: "StandalonePostProcessingRequest \<Rightarrow> EvaluationJobConfig" where
  "ToEvaluationJob request =
     (let common = pq_Common request;
          name = (if pp_Name common = '''' then ''post-processing'' else pp_Name common);
          parameters = [(''operations'', enc_StandalonePostProcessingOperations (pq_Operations request))];
          parameters' = (case pp_OperationOrder common of
              None \<Rightarrow> parameters
            | Some order \<Rightarrow> gomap_put ''operation_order'' (AArray (map AString order)) parameters)
      in \<lparr>ec_Name = name, ec_Description = None, ec_Tags = [],
          ec_Model = Some \<lparr>mr_URL = '''', mr_Name = BenchmarkID, mr_Auth = None, mr_Parameters = [], mr_CardURL = ''''\<rparr>,
          ec_PassCriteria = None,
          ec_Benchmarks =
            [\<lparr>eb_ID = BenchmarkID, eb_ProviderID = ProviderID, eb_Weight = F32 0, eb_PrimaryScore = None,
              eb_PassCriteria = None, eb_HardwareConfig = None, eb_Parameters = parameters', eb_TestDataRef = None\<rparr>],
          ec_Collection = None, ec_Experiment = None, ec_Custom = None, ec_Exports = None,
          ec_HardwareConfig = pp_HardwareConfig common, ec_Queue = None\<rparr>)"

text \<open>The text of a decoding error of encoding/json is the argument \<open>jerr\<close>.\<close>

definition OperationsFromJob :: "string \<Rightarrow> EvaluationJobConfig \<Rightarrow> go_error + StandalonePostProcessingOperations" where
  "OperationsFromJob jerr cfg =
     (if \<not> IsPostProcessingJob cfg then Inl (PlainErr ''job is not a post-processing computation'')
      else (case gomap_get (eb_Parameters (ec_Benchmarks cfg ! 0)) ''operations'' of
          None \<Rightarrow> Inl (PlainErr ''post-processing job has no operations'')
        | Some raw \<Rightarrow>
            (case dec_StandalonePostProcessingOperations raw zero_StandalonePostProcessingOperations of
               None \<Rightarrow> Inl (PlainErr (''decode post-processing operations: '' @ jerr))
             | Some operations \<Rightarrow>
                 if \<not> HasOperation operations then Inl (PlainErr ''post-processing job has no supported operations'')
                 else Inr operations)))"

definition OperationOrderFromJob :: "string \<Rightarrow> EvaluationJobConfig \<Rightarrow> go_error + string list option" where
  "OperationOrderFromJob jerr cfg =
     (if \<not> IsPostProcessingJob cfg then Inl (PlainErr ''job is not a post-processing computation'')
      else (case gomap_get (eb_Parameters (ec_Benchmarks cfg ! 0)) ''operation_order'' of
          None \<Rightarrow> Inr None
        | Some ANil \<Rightarrow> Inr None
        | Some raw \<Rightarrow>
            (case dec_slice '''' dec_string raw [] of
               None \<Rightarrow> Inl (PlainErr (''decode post-processing operation order: '' @ jerr))
             | Some order \<Rightarrow> Inr (Some order))))"

text \<open>The loop over the benchmark results of the backing job.\<close>

fun collect_results :: "string \<Rightarrow> bool \<Rightarrow> BenchmarkResult list \<Rightarrow> PostProcessingResults \<Rightarrow> go_error + PostProcessingResults" where
  "collect_results jerr evalJob [] results = Inr results"
| "collect_results jerr evalJob (b # bs) results =
     (case gomap_get (br_AdditionalInfo b) ''confidence_interval'' of
        None \<Rightarrow> collect_results jerr evalJob bs results
      | Some raw \<Rightarrow>
          (case dec_PostProcessingResults raw zero_PostProcessingResults of
             None \<Rightarrow> Inl (PlainErr (''decode post-processing confidence interval results: '' @ jerr))
           | Some output \<Rightarrow>
               collect_results jerr evalJob bs
                 (if evalJob then results\<lparr>pt_Benchmarks := pt_Benchmarks results @ pt_Benchmarks output\<rparr>
                  else if pt_ConfidenceInterval output \<noteq> None
                       then results\<lparr>pt_ConfidenceInterval := pt_ConfidenceInterval output\<rparr>
                       else results)))"

definition resultsFromJob ::
  "string \<Rightarrow> EvaluationJobResource \<Rightarrow> StandaloneConfidenceIntervalConfig option \<Rightarrow> go_error + PostProcessingResults option" where
  "resultsFromJob jerr job operation =
     (case (ej_Results job, operation) of
        (Some jobResults, Some oper) \<Rightarrow>
          (case sc_ResultsDataRef oper of
             None \<Rightarrow> Inr None
           | Some ref \<Rightarrow>
               (let evalJob = (pd_EvalJob ref \<noteq> None)
                in ebind (collect_results jerr evalJob (rs_Benchmarks jobResults) zero_PostProcessingResults)
                     (\<lambda>results.
                        if evalJob \<and> pt_Benchmarks results \<noteq> [] then Inr (Some results)
                        else if \<not> evalJob \<and> pt_ConfidenceInterval results \<noteq> None then Inr (Some results)
                        else Inr None)))
      | _ \<Rightarrow> Inr None)"

definition post_processing_status :: "EvaluationJobStatus option \<Rightarrow> PostProcessingStatus" where
  "post_processing_status status =
     (let pending = \<lparr>pst_State = ''pending'', pst_ErrorMessage = None, pst_WarningMessage = None,
                     pst_StartedAt = '''', pst_CompletedAt = ''''\<rparr>
      in (case status of
            None \<Rightarrow> pending
          | Some st \<Rightarrow>
              (let s1 = pending\<lparr>pst_State := OverallState_String (js_State st)\<rparr>
               in (case js_Benchmarks st of
                     [b] \<Rightarrow> s1\<lparr>pst_ErrorMessage := bs_ErrorMessage b, pst_WarningMessage := bs_WarningMessage b,
                               pst_StartedAt := bs_StartedAt b, pst_CompletedAt := bs_CompletedAt b\<rparr>
                   | _ \<Rightarrow> s1))))"

definition ResourceFromJob :: "string \<Rightarrow> EvaluationJobResource \<Rightarrow> go_error + PostProcessingResource" where
  "ResourceFromJob jerr job =
     ebind (OperationsFromJob jerr (ej_Config job)) (\<lambda>operations.
     ebind (OperationOrderFromJob jerr (ej_Config job)) (\<lambda>order.
     ebind (resultsFromJob jerr job (so_ConfidenceInterval operations)) (\<lambda>results.
       Inr \<lparr>prs_Resource = ej_Resource job,
            prs_Common = \<lparr>pp_Name = ec_Name (ej_Config job),
                          pp_HardwareConfig = ec_HardwareConfig (ej_Config job), pp_OperationOrder = order\<rparr>,
            prs_Operations = operations,
            prs_Status = post_processing_status (ej_Status job),
            prs_Results = results\<rparr>)))"

end
