(* ===== verification/Storage_Jobs.thy ===== *)
theory Storage_Jobs
  imports Scoring Postprocessing
begin

text \<open>
  The store of evaluation jobs (storage/sql/evaluations_crud.go, evaluations_status.go,
  evaluations_results.go, evaluations_oci.go, post_processing.go, and the reading half of list.go).
  Every operation is the body of one transaction; the body works on the job it has read and writes
  it back with one UPDATE.
\<close>

section \<open>Reading a job\<close>

definition zero_status :: EvaluationJobStatus where
  "zero_status = \<lparr>js_State = OverallStateOther '''', js_Message = None, js_Benchmarks = []\<rparr>"

text \<open>The loop that appends a default entry for each metric without one.\<close>

definition backfill_benchmark :: "BenchmarkResult \<Rightarrow> BenchmarkResult" where
  "backfill_benchmark b =
     (let existing = set (map ms_Name (br_MetricsSchema b));
          missing = filter (\<lambda>k. k \<notin> existing) (map fst (br_Metrics b))
      in b\<lparr>br_MetricsSchema :=
            br_MetricsSchema b @ map (\<lambda>k. \<lparr>ms_Name = k, ms_Type = DefaultResultType\<rparr>) missing\<rparr>)"

definition backfillMetricsSchema :: "EvaluationJobResults option \<Rightarrow> EvaluationJobResults option" where
  "backfillMetricsSchema results =
     map_option (\<lambda>r. r\<lparr>rs_Benchmarks := map backfill_benchmark (rs_Benchmarks r)\<rparr>) results"

definition constructEvaluationResource ::
  "Resource \<Rightarrow> string \<Rightarrow> string \<Rightarrow> EvaluationJobEntity \<Rightarrow> go_error + EvaluationJobResource" where
  "constructEvaluationResource resource experiment status entity =
     (case en_Config entity of
        None \<Rightarrow> Inl (internal_error ''Evaluation config does not exist'')
      | Some config \<Rightarrow>
          (let st = (case en_Status entity of None \<Rightarrow> zero_status | Some x \<Rightarrow> x);
               state = (if status \<noteq> '''' \<and> snd (GetOverallState status) = None
                        then fst (GetOverallState status) else js_State st)
           in Inr \<lparr>ej_Resource = resource, ej_MLFlowExperimentID = experiment,
                   ej_Status = Some (st\<lparr>js_State := state\<rparr>),
                   ej_Results = backfillMetricsSchema (en_Results entity),
                   ej_Config = config\<rparr>))"

definition scanEvaluationJobTransactional :: "sqlStorage \<Rightarrow> string \<Rightarrow> workload_type \<Rightarrow> EvaluationJobResource stm" where
  "scanEvaluationJobTransactional s i wt =
     sbind (smap_err (\<lambda>e. WithRollback (db_failed ''evaluation job'' i e))
              (db_query (st_env s) (\<lambda>db.
                 find (CreateEvaluationGetEntityStatement (st_dialect s) (st_tenant s) i wt) (evaluations db)))) (\<lambda>found.
       (case found of
          None \<Rightarrow> sthrow (not_found ''evaluation job'' i)
        | Some row \<Rightarrow>
            (case rw_entity row of
               NotJson t \<Rightarrow> sthrow (WithRollback (unmarshal_failed ''evaluation job'' t))
             | Json entity \<Rightarrow>
                 smap_err WithRollback
                   (slift (constructEvaluationResource (row_resource row) (rw_experiment_id row) '''' entity)))))"

definition getEvaluationJobTransactional :: "sqlStorage \<Rightarrow> string \<Rightarrow> EvaluationJobResource stm" where
  "getEvaluationJobTransactional s i = scanEvaluationJobTransactional s i (st_workload_type s)"

definition getEvaluationJobTransactionalForUpdate :: "sqlStorage \<Rightarrow> string \<Rightarrow> EvaluationJobResource stm" where
  "getEvaluationJobTransactionalForUpdate s i = scanEvaluationJobTransactional s i (st_workload_type s)"

definition getEvaluationJobTransactionalForUpdateWithType ::
  "sqlStorage \<Rightarrow> string \<Rightarrow> workload_type \<Rightarrow> EvaluationJobResource stm" where
  "getEvaluationJobTransactionalForUpdateWithType s i wt = scanEvaluationJobTransactional s i wt"

definition GetEvaluationJob :: "sqlStorage \<Rightarrow> string \<Rightarrow> EvaluationJobResource stm" where
  "GetEvaluationJob s i = getEvaluationJobTransactional s i"

section \<open>Creating and deleting jobs\<close>

definition job_entity :: "EvaluationJobResource \<Rightarrow> EvaluationJobEntity" where
  "job_entity job = \<lparr>en_Config = Some (ej_Config job), en_Status = ej_Status job, en_Results = ej_Results job\<rparr>"

definition createEvaluationJobEntity :: "EvaluationJobResource \<Rightarrow> go_error + EvaluationJobEntity json_column" where
  "createEvaluationJobEntity job =
     (case json_Marshal job_entity_ok (job_entity job) of
        Inl t \<Rightarrow> Inl (internal_error t)
      | Inr doc \<Rightarrow> Inr doc)"

text \<open>The state of a job; a job without a status, which the handlers never pass, has the empty state.\<close>

definition job_state :: "EvaluationJobResource \<Rightarrow> OverallState" where
  "job_state job = (case ej_Status job of None \<Rightarrow> OverallStateOther '''' | Some st \<Rightarrow> js_State st)"

definition job_benchmarks :: "EvaluationJobResource \<Rightarrow> BenchmarkStatus list" where
  "job_benchmarks job = (case ej_Status job of None \<Rightarrow> [] | Some st \<Rightarrow> js_Benchmarks st)"

text \<open>created_at and updated_at are columns with the default CURRENT_TIMESTAMP.\<close>

definition evaluation_row_of ::
  "EvaluationJobResource \<Rightarrow> workload_type \<Rightarrow> EvaluationJobEntity json_column \<Rightarrow> time \<Rightarrow> evaluation_row" where
  "evaluation_row_of job wt doc now =
     \<lparr>rw_id = r_ID (ej_Resource job), rw_created_at = now, rw_updated_at = now,
      rw_tenant_id = r_Tenant (ej_Resource job), rw_owner = r_Owner (ej_Resource job), rw_entity = doc,
      rw_status = OverallState_String (job_state job), rw_experiment_id = ej_MLFlowExperimentID job,
      rw_workload_type = wt\<rparr>"

definition insert_evaluation :: "env \<Rightarrow> (time \<Rightarrow> evaluation_row) \<Rightarrow> unit stm" where
  "insert_evaluation env r =
     db_call env (\<lambda>now db. map_sum id (\<lambda>rows. ((), db\<lparr>evaluations := rows\<rparr>))
                    (insert_row (env_duplicate env ''evaluations'') (r now) (evaluations db)))"

definition createEvaluationJobTransactional :: "sqlStorage \<Rightarrow> EvaluationJobResource \<Rightarrow> unit stm" where
  "createEvaluationJobTransactional s job =
     sbind (smap_err WithRollback (slift (createEvaluationJobEntity job))) (\<lambda>doc.
       smap_err WithRollback
         (insert_evaluation (st_env s) (evaluation_row_of job (TypeForJob (st_registry s) (ej_Config job)) doc)))"

definition CreateEvaluationJob :: "sqlStorage \<Rightarrow> EvaluationJobResource \<Rightarrow> unit stm" where
  "CreateEvaluationJob s job =
     withTransaction (st_env s) ''create evaluation job'' (r_ID (ej_Resource job))
       (createEvaluationJobTransactional s job)"

definition count_run :: "CollectionResource \<Rightarrow> CollectionResource" where
  "count_run c =
     c\<lparr>co_Status := Some \<lparr>cs_RunCount = (case co_Status c of None \<Rightarrow> 0 | Some st \<Rightarrow> cs_RunCount st) + 1\<rparr>\<rparr>"

definition create_job_and_collection_body :: "sqlStorage \<Rightarrow> EvaluationJobResource \<Rightarrow> string \<Rightarrow> unit stm" where
  "create_job_and_collection_body s job cid =
     sbind (smap_err WithRollback (getCollectionTransactionalForUpdate s cid)) (\<lambda>collection.
     sbind (createEvaluationJobTransactional s job) (\<lambda>_.
       if IsSystemResource (co_Resource collection) then sreturn ()
       else updateCollectionTransactional s (r_ID (co_Resource collection)) (count_run collection)))"

definition CreateEvaluationJobAndUpdateCollection :: "sqlStorage \<Rightarrow> EvaluationJobResource \<Rightarrow> unit stm" where
  "CreateEvaluationJobAndUpdateCollection s job =
     (let cid = job_collection_id (ej_Config job)
      in if cid = '''' then sthrow (NewServiceError RequestValidationFailed [''Error'', ''collection ID is required''])
         else withTransaction (st_env s) ''create evaluation job and update collection'' (r_ID (ej_Resource job))
                (create_job_and_collection_body s job cid))"

text \<open>RowsAffected is one more call to the driver.\<close>

definition evaluationJobDeleteResultError :: "sqlStorage \<Rightarrow> string \<Rightarrow> nat \<Rightarrow> unit stm" where
  "evaluationJobDeleteResultError s i n =
     sbind (smap_err (\<lambda>e. WithRollback (db_failed ''evaluation job'' i e)) (db_query (st_env s) (\<lambda>_. n))) (\<lambda>rows.
       if rows = 0 then sthrow (not_found ''evaluation job'' i) else sreturn ())"

definition delete_job_body :: "sqlStorage \<Rightarrow> string \<Rightarrow> unit stm" where
  "delete_job_body s i =
     sbind (getEvaluationJobTransactionalForUpdate s i) (\<lambda>job.
     sbind (smap_err (\<lambda>e. WithRollback (db_failed ''evaluation job'' i e))
              (exec_evaluations (st_env s) (\<lambda>now. CreateDeleteEntityStatement (st_tenant s) i))) (\<lambda>n.
       evaluationJobDeleteResultError s i n))"

definition DeleteEvaluationJob :: "sqlStorage \<Rightarrow> string \<Rightarrow> unit stm" where
  "DeleteEvaluationJob s i = withTransaction (st_env s) ''delete evaluation job'' i (delete_job_body s i)"

section \<open>The state of a job\<close>

text \<open>The result says whether the state is unchanged, or is the error for a job in a final state.\<close>

definition checkEvaluationJobState :: "string \<Rightarrow> OverallState \<Rightarrow> OverallState \<Rightarrow> go_error + bool" where
  "checkEvaluationJobState i jobState state =
     (if state = jobState then Inr True
      else if jobState \<in> {OverallStateCancelled, OverallStateCompleted, OverallStateFailed, OverallStatePartiallyFailed}
      then Inl (NewServiceError JobCanNotBeUpdated
             [''Id'', i, ''NewStatus'', OverallState_String state, ''Status'', OverallState_String jobState])
      else Inr False)"

definition messageInfosEquivalent :: "MessageInfo option \<Rightarrow> MessageInfo option \<Rightarrow> bool" where
  "messageInfosEquivalent a b =
     (case (a, b) of
        (None, None) \<Rightarrow> True
      | (Some x, Some y) \<Rightarrow> mi_Message x = mi_Message y \<and> mi_MessageCode x = mi_MessageCode y \<and>
                            mi_MessageOrigin x = mi_MessageOrigin y
      | _ \<Rightarrow> False)"

definition updateEvaluationJobTxn :: "sqlStorage \<Rightarrow> string \<Rightarrow> OverallState \<Rightarrow> EvaluationJobEntity \<Rightarrow> unit stm" where
  "updateEvaluationJobTxn s i status entity =
     sbind (slift (case json_Marshal job_entity_ok entity of
                     Inl t \<Rightarrow> Inl (WithRollback (internal_error t)) | Inr doc \<Rightarrow> Inr doc)) (\<lambda>doc.
     sbind (smap_err (\<lambda>e. WithRollback (db_failed ''evaluation job'' i e))
              (exec_evaluations (st_env s) (CreateUpdateEvaluationStatement (st_tenant s) i doc status)))
       (\<lambda>n. sreturn ()))"

definition cancel_benchmark :: "MessageInfo option \<Rightarrow> BenchmarkStatus \<Rightarrow> BenchmarkStatus" where
  "cancel_benchmark message b =
     (if \<not> IsBenchmarkTerminalState (bs_Status b)
      then b\<lparr>bs_Status := StateCancelled, bs_ErrorMessage := message\<rparr> else b)"

definition update_status_body :: "sqlStorage \<Rightarrow> string \<Rightarrow> OverallState \<Rightarrow> MessageInfo option \<Rightarrow> unit stm" where
  "update_status_body s i state message =
     sbind (getEvaluationJobTransactionalForUpdate s i) (\<lambda>job.
     sbind (slift (checkEvaluationJobState (r_ID (ej_Resource job)) (job_state job) state)) (\<lambda>sameState.
       if sameState
       then if message = None \<or> messageInfosEquivalent (case ej_Status job of None \<Rightarrow> None | Some st \<Rightarrow> js_Message st) message
            then sreturn ()
            else updateEvaluationJobTxn s i (job_state job)
                   \<lparr>en_Config = Some (ej_Config job),
                    en_Status = Some \<lparr>js_State = job_state job, js_Message = message, js_Benchmarks = job_benchmarks job\<rparr>,
                    en_Results = ej_Results job\<rparr>
       else
         let benchmarks = (if state = OverallStateCancelled then map (cancel_benchmark message) (job_benchmarks job)
                           else job_benchmarks job)
         in updateEvaluationJobTxn s i state
              \<lparr>en_Config = Some (ej_Config job),
               en_Status = Some \<lparr>js_State = state, js_Message = message, js_Benchmarks = benchmarks\<rparr>,
               en_Results = ej_Results job\<rparr>))"

definition UpdateEvaluationJobStatus :: "sqlStorage \<Rightarrow> string \<Rightarrow> OverallState \<Rightarrow> MessageInfo option \<Rightarrow> unit stm" where
  "UpdateEvaluationJobStatus s i state message =
     withTransaction (st_env s) ''update evaluation job status'' i
       (update_status_body s i state (WithMessageOrigin message MessageOriginServer))"

section \<open>Events of the benchmarks\<close>

definition invalid_benchmark :: "string \<Rightarrow> go_error" where
  "invalid_benchmark i =
     NewServiceError ResourceNotFound
       [''Type'', ''benchmark'', ''ResourceId'', i, ''Error'', ''Invalid Benchmark for the evaluation job'']"

definition event_at :: "BenchmarkStatusEvent \<Rightarrow> EvaluationBenchmarkConfig list \<Rightarrow> nat \<Rightarrow> bool" where
  "event_at event benchmarks index \<longleftrightarrow>
     eb_ID (benchmarks ! index) = be_ID event \<and> eb_ProviderID (benchmarks ! index) = be_ProviderID event \<and>
     int index = be_BenchmarkIndex event"

definition validateBenchmarkExists ::
  "EvaluationJobResource \<Rightarrow> BenchmarkStatusEvent \<Rightarrow> CollectionResource option \<Rightarrow> go_error option" where
  "validateBenchmarkExists job event collection =
     (case GetJobBenchmarks job collection of
        Inl e \<Rightarrow> Some e
      | Inr benchmarks \<Rightarrow>
          if benchmarks = [] then Some (invalid_benchmark (be_ID event))
          else if list_ex (event_at event benchmarks) [0..<length benchmarks] then None
          else Some (invalid_benchmark (be_ID event)))"

definition count_state :: "State \<Rightarrow> BenchmarkStatus list \<Rightarrow> nat" where
  "count_state st bs = length (filter (\<lambda>b. bs_Status b = st) bs)"

definition newline :: string where "newline = [CHR 0x0A]"

definition failure_message :: "BenchmarkStatus list \<Rightarrow> string" where
  "failure_message bs =
     concat (map (\<lambda>b. case bs_ErrorMessage b of
                        None \<Rightarrow> ''''
                      | Some m \<Rightarrow> if bs_Status b = StateFailed
                          then ''Benchmark '' @ bs_ID b @ '' failed with message: '' @ mi_Message m @ newline else '''') bs)"

definition server_message :: "string \<Rightarrow> MessageInfo" where
  "server_message t =
     \<lparr>mi_Message = t, mi_MessageCode = ''evaluation_job_updated'', mi_MessageOrigin = MessageOriginServer\<rparr>"

text \<open>The switch of getOverallJobStatus on the numbers of benchmarks per state.\<close>

definition overall_of :: "nat \<Rightarrow> BenchmarkStatus list \<Rightarrow> OverallState \<times> string" where
  "overall_of total' bs =
     (let completed = count_state StateCompleted bs; failed = count_state StateFailed bs;
          running = count_state StateRunning bs; cancelled = count_state StateCancelled bs
      in if completed = total' then (OverallStateCompleted, ''Evaluation job is completed'')
         else if failed = total'
         then (OverallStateFailed, ''Evaluation job is failed. '' @ newline @ failure_message bs)
         else if completed + failed = total'
         then (OverallStatePartiallyFailed, ''Some of the benchmarks failed. '' @ newline @ failure_message bs)
         else if cancelled = total' then (OverallStateCancelled, ''Evaluation job is cancelled'')
         else if completed + failed + cancelled = total'
         then (OverallStatePartiallyFailed, ''Some of the benchmarks failed or cancelled. '' @ newline @ failure_message bs)
         else if running > 0 \<or> completed > 0 \<or> failed > 0 \<or> cancelled > 0
         then (OverallStateRunning, ''Evaluation job is running'')
         else (OverallStatePending, ''Evaluation job is pending''))"

text \<open>The collection of a job, when it has one.\<close>

definition job_collection :: "sqlStorage \<Rightarrow> EvaluationJobResource \<Rightarrow> CollectionResource option stm" where
  "job_collection s job =
     (let cid = job_collection_id (ej_Config job)
      in if cid = '''' then sreturn None
         else sbind (getCollectionTransactional s cid) (\<lambda>c. sreturn (Some c)))"

definition getOverallJobStatus :: "sqlStorage \<Rightarrow> EvaluationJobResource \<Rightarrow> (OverallState \<times> MessageInfo option) stm" where
  "getOverallJobStatus s job =
     (if IsTerminalState (job_state job)
      then sreturn (job_state job, case ej_Status job of None \<Rightarrow> None | Some st \<Rightarrow> js_Message st)
      else
        sbind (job_collection s job) (\<lambda>collection.
          (case GetJobBenchmarks job collection of
             Inl e \<Rightarrow> sthrow e
           | Inr benchmarks \<Rightarrow>
               if benchmarks = [] then sreturn (OverallStatePending, Some (server_message ''Evaluation job is pending''))
               else
                 let (state, text) = overall_of (length benchmarks) (job_benchmarks job)
                 in sreturn (state, Some (server_message text)))))"

definition same_event :: "BenchmarkStatusEvent \<Rightarrow> BenchmarkStatus \<Rightarrow> bool" where
  "same_event event b \<longleftrightarrow>
     bs_ID b = be_ID event \<and> bs_ProviderID b = be_ProviderID event \<and> bs_BenchmarkIndex b = be_BenchmarkIndex event"

definition overwrite_status :: "BenchmarkStatus \<Rightarrow> BenchmarkStatus \<Rightarrow> BenchmarkStatus" where
  "overwrite_status new old =
     (if IsBenchmarkTerminalState (bs_Status old) \<and> \<not> IsBenchmarkTerminalState (bs_Status new) then old else new)"

definition updateBenchmarkStatus ::
  "EvaluationJobResource \<Rightarrow> BenchmarkStatusEvent \<Rightarrow> BenchmarkStatus \<Rightarrow> EvaluationJobResource" where
  "updateBenchmarkStatus job event new =
     (let st = (case ej_Status job of
                  None \<Rightarrow> \<lparr>js_State = OverallStatePending, js_Message = None, js_Benchmarks = []\<rparr> | Some x \<Rightarrow> x)
      in job\<lparr>ej_Status :=
           Some (st\<lparr>js_Benchmarks := upsert (same_event event) (overwrite_status new) new (js_Benchmarks st)\<rparr>)\<rparr>)"

definition same_event_result :: "BenchmarkStatusEvent \<Rightarrow> BenchmarkResult \<Rightarrow> bool" where
  "same_event_result event r \<longleftrightarrow>
     br_ID r = be_ID event \<and> br_ProviderID r = be_ProviderID event \<and> br_BenchmarkIndex r = be_BenchmarkIndex event"

definition updateBenchmarkResults ::
  "EvaluationJobResource \<Rightarrow> BenchmarkStatusEvent \<Rightarrow> BenchmarkResult \<Rightarrow> EvaluationJobResource" where
  "updateBenchmarkResults job event new =
     (let rs = (case ej_Results job of None \<Rightarrow> empty_results | Some x \<Rightarrow> x)
      in job\<lparr>ej_Results :=
           Some (rs\<lparr>rs_Benchmarks := upsert (same_event_result event) (\<lambda>old. new) new (rs_Benchmarks rs)\<rparr>)\<rparr>)"

definition event_status :: "BenchmarkStatusEvent \<Rightarrow> BenchmarkStatus" where
  "event_status e =
     \<lparr>bs_ProviderID = be_ProviderID e, bs_ID = be_ID e, bs_BenchmarkIndex = be_BenchmarkIndex e, bs_Status = be_Status e,
      bs_Phase = be_Phase e, bs_ErrorMessage = be_ErrorMessage e, bs_WarningMessage = be_WarningMessage e,
      bs_StartedAt = be_StartedAt e, bs_CompletedAt = be_CompletedAt e\<rparr>"

definition event_result :: "BenchmarkStatusEvent \<Rightarrow> BenchmarkTest option \<Rightarrow> BenchmarkResult" where
  "event_result e outcome =
     \<lparr>br_ID = be_ID e, br_ProviderID = be_ProviderID e, br_Contacts = [], br_BenchmarkIndex = be_BenchmarkIndex e,
      br_Metrics = be_Metrics e, br_MetricsSchema = be_MetricsSchema e, br_AdditionalInfo = be_AdditionalInfo e,
      br_Artifacts = be_Artifacts e, br_MLFlowRunID = be_MLFlowRunID e, br_LogsPath = be_LogsPath e, br_Test = outcome\<rparr>"

definition validatePostProcessingSourceCompletion :: "sqlStorage \<Rightarrow> EvaluationJobResource \<Rightarrow> unit stm" where
  "validatePostProcessingSourceCompletion s job =
     (if \<not> IsPostProcessingJob (ej_Config job) then sreturn ()
      else sbind (slift (OperationsFromJob (st_json_error s) (ej_Config job))) (\<lambda>operations.
        (case Option.bind (so_ConfidenceInterval operations) (\<lambda>oper.
              Option.bind (sc_ResultsDataRef oper) pd_EvalJob) of
           None \<Rightarrow> sreturn ()
         | Some ref \<Rightarrow>
             if ed_ID ref = r_ID (ej_Resource job)
             then sthrow (NewServiceError RequestValidationFailed [''Error'', ''post-processing cannot reference itself''])
             else
               sbind (scatch
                  (sbind (getEvaluationJobTransactionalForUpdateWithType s (ed_ID ref) Evaluation) (\<lambda>src. sreturn (Some src)))
                  (\<lambda>e. if has_code ResourceNotFound e then sreturn None else sthrow e)) (\<lambda>found.
                 (case found of
                    None \<Rightarrow> sreturn ()
                  | Some src \<Rightarrow>
                      if ej_Status src = None \<or> job_state src \<noteq> OverallStateCompleted
                      then sthrow (NewServiceError PostProcessingSourceNotCompleted [''Id'', ed_ID ref])
                      else sreturn ())))))"

text \<open>The job after an event, before its overall state is known.\<close>

definition record_event ::
  "EvaluationJobResource \<Rightarrow> BenchmarkStatusEvent \<Rightarrow> BenchmarkTest option \<Rightarrow> EvaluationJobResource" where
  "record_event job event outcome =
     (let job1 = updateBenchmarkStatus job event (event_status event)
      in if IsBenchmarkTerminalState (be_Status event)
         then updateBenchmarkResults job1 event (event_result event outcome) else job1)"

definition set_overall :: "OverallState \<Rightarrow> MessageInfo option \<Rightarrow> EvaluationJobResource \<Rightarrow> EvaluationJobResource" where
  "set_overall state message job =
     job\<lparr>ej_Status := map_option (\<lambda>st. st\<lparr>js_State := state, js_Message := message\<rparr>) (ej_Status job)\<rparr>"

text \<open>The last part of UpdateEvaluationJob, with the overall state at hand.\<close>

definition store_event ::
  "sqlStorage \<Rightarrow> string \<Rightarrow> EvaluationJobResource \<Rightarrow> CollectionResource option \<Rightarrow> OverallState \<times> MessageInfo option \<Rightarrow> unit stm" where
  "store_event s i job2 collection overall =
     (let state = fst overall; job3 = set_overall state (snd overall) job2;
          job4 = (if state = OverallStateCompleted then computeJobTestResult job3 collection else job3)
      in sbind (updateEvaluationJobTxn s i state (job_entity job4)) (\<lambda>_.
           if state = OverallStateCompleted
           then smap_err WithRollback (validatePostProcessingSourceCompletion s job4)
           else sreturn ()))"

definition update_job_body :: "sqlStorage \<Rightarrow> string \<Rightarrow> BenchmarkStatusEvent \<Rightarrow> unit stm" where
  "update_job_body s i event =
     sbind (getEvaluationJobTransactionalForUpdate s i) (\<lambda>job.
     sbind (slift (checkEvaluationJobState (r_ID (ej_Resource job)) (job_state job) OverallStateRunning)) (\<lambda>_.
     sbind (job_collection s job) (\<lambda>collection.
     sbind (sguard (validateBenchmarkExists job event collection)) (\<lambda>_.
     sbind (computeBenchmarkTestResult s (updateBenchmarkStatus job event (event_status event)) event collection) (\<lambda>outcome.
     sbind (getOverallJobStatus s (record_event job event outcome))
       (store_event s i (record_event job event outcome) collection))))))"

definition UpdateEvaluationJob :: "sqlStorage \<Rightarrow> string \<Rightarrow> BenchmarkStatusEvent \<Rightarrow> unit stm" where
  "UpdateEvaluationJob s i event = withTransaction (st_env s) ''update evaluation job'' i (update_job_body s i event)"

section \<open>Resolved commit hashes\<close>

definition stamp_ref :: "string \<Rightarrow> EvaluationBenchmarkConfig \<Rightarrow> EvaluationBenchmarkConfig" where
  "stamp_ref sha b = b\<lparr>eb_TestDataRef := map_option (\<lambda>t. t\<lparr>td_ResolvedSHA := sha\<rparr>) (eb_TestDataRef b)\<rparr>"

text \<open>
  The closure stamp: nothing when the index is out of range, the benchmark has no test data or the
  hash is set. The hash is written through a pointer, so it reaches every benchmark of the list whose
  test data is the same object: \<open>refs\<close> gives the object of each one.
\<close>

definition stamp ::
  "int \<Rightarrow> string \<Rightarrow> ref_source list \<Rightarrow> EvaluationBenchmarkConfig list \<Rightarrow> EvaluationBenchmarkConfig list option" where
  "stamp index sha refs benchmarks =
     (if index < 0 \<or> index \<ge> int (length benchmarks) then None
      else (case eb_TestDataRef (benchmarks ! nat index) of
              None \<Rightarrow> None
            | Some t \<Rightarrow>
                if td_ResolvedSHA t \<noteq> '''' then None
                else Some (map (\<lambda>(r, b). if r = refs ! nat index then stamp_ref sha b else b) (zip refs benchmarks))))"

text \<open>The stamped list becomes the job's own list, or the list of its collection.\<close>

definition sha_config :: "EvaluationJobConfig \<Rightarrow> EvaluationBenchmarkConfig list \<Rightarrow> EvaluationJobConfig" where
  "sha_config cfg stamped =
     (let cfg1 = (if job_collection_id cfg = '''' then cfg\<lparr>ec_Benchmarks := stamped\<rparr> else cfg)
      in cfg1\<lparr>ec_Collection := map_option (\<lambda>c. c\<lparr>cr_Benchmarks := stamped\<rparr>) (ec_Collection cfg1)\<rparr>)"

definition resolved_sha_body :: "sqlStorage \<Rightarrow> string \<Rightarrow> int \<Rightarrow> string \<Rightarrow> unit stm" where
  "resolved_sha_body s i index sha =
     sbind (getEvaluationJobTransactionalForUpdate s i) (\<lambda>job.
     sbind (job_collection s job) (\<lambda>collection.
     sbind (slift (GetJobBenchmarks job collection)) (\<lambda>benchmarks.
       (case stamp index sha (job_ref_sources job collection) benchmarks of
          None \<Rightarrow> sreturn ()
        | Some stamped \<Rightarrow>
            updateEvaluationJobTxn s i (job_state job)
              (job_entity (job\<lparr>ej_Config := sha_config (ej_Config job) stamped\<rparr>))))))"

definition UpdateEvaluationJobResolvedSHA :: "sqlStorage \<Rightarrow> string \<Rightarrow> int \<Rightarrow> string \<Rightarrow> unit stm" where
  "UpdateEvaluationJobResolvedSHA s i index sha =
     (if sha = '''' then sreturn ()
      else (case ValidateResolvedSHA sha of
              Some t \<Rightarrow> sthrow (PlainErr t)
            | None \<Rightarrow> withTransaction (st_env s) ''update evaluation job resolved sha'' i (resolved_sha_body s i index sha)))"

section \<open>OCI export\<close>

definition ociArtifactReferencesEquivalent :: "OCIArtifactReference option \<Rightarrow> OCIArtifactReference option \<Rightarrow> bool" where
  "ociArtifactReferencesEquivalent a b =
     (case (a, b) of
        (None, None) \<Rightarrow> True
      | (Some x, Some y) \<Rightarrow> oa_OCIDigest x = oa_OCIDigest y \<and> oa_OCIReference x = oa_OCIReference y
      | _ \<Rightarrow> False)"

definition job_oci :: "EvaluationJobResource \<Rightarrow> EvaluationOCIResults option" where
  "job_oci job = Option.bind (ej_Results job) rs_OCI"

text \<open>What the stored OCI results say about an update: already there, refused, or to be written.\<close>

datatype oci_decision = OCIUnchanged | OCIRefused OCIProcessingState | OCIAccepted

definition oci_decide ::
  "EvaluationOCIResults option \<Rightarrow> OCIProcessingStatus \<Rightarrow> OCIArtifactReference option \<Rightarrow> oci_decision" where
  "oci_decide results status crd =
     (case results of
        None \<Rightarrow> OCIAccepted
      | Some r \<Rightarrow>
          (case oi_Status r of
             None \<Rightarrow> OCIAccepted
           | Some old \<Rightarrow>
               if op_State old = op_State status \<and> messageInfosEquivalent (op_Message old) (op_Message status) \<and>
                  (crd = None \<or> ociArtifactReferencesEquivalent (oi_EvaluationCard r) crd)
               then OCIUnchanged
               else if op_State old \<noteq> op_State status \<and> IsOCIProcessingTerminalState (op_State old)
               then OCIRefused (op_State old)
               else OCIAccepted))"

definition oci_body ::
  "sqlStorage \<Rightarrow> string \<Rightarrow> OCIProcessingStatus \<Rightarrow> OCIArtifactReference option \<Rightarrow> unit stm" where
  "oci_body s i status crd =
     sbind (getEvaluationJobTransactionalForUpdate s i) (\<lambda>job.
       if \<not> IsResultsExportEligible job \<or> \<not> IsOCIExportEnabled job
       then sthrow (NewServiceError JobCanNotBeUpdated
              [''Id'', i, ''NewStatus'', ''updated with OCI processing results'', ''Status'',
               ''not completed or partially failed with OCI exports enabled''])
       else (case oci_decide (job_oci job) status crd of
               OCIUnchanged \<Rightarrow> sreturn ()
             | OCIRefused old \<Rightarrow>
                 sthrow (NewServiceError JobCanNotBeUpdated
                   [''Id'', i, ''NewStatus'', OCIProcessingState_String (op_State status),
                    ''Status'', OCIProcessingState_String old])
             | OCIAccepted \<Rightarrow>
                 updateEvaluationJobTxn s i (job_state job)
                   (job_entity (job\<lparr>ej_Results := UpdateOCIResults (ej_Results job) (Some status) crd\<rparr>))))"

definition UpdateEvaluationJobOCI ::
  "sqlStorage \<Rightarrow> string \<Rightarrow> OCIProcessingStatus option \<Rightarrow> OCIArtifactReference option \<Rightarrow> unit stm" where
  "UpdateEvaluationJobOCI s i status crd =
     (case status of
        None \<Rightarrow> sthrow (internal_error ''OCI processing status is required'')
      | Some st \<Rightarrow>
          withTransaction (st_env s) ''update evaluation job OCI results'' i
            (oci_body s i (st\<lparr>op_Message := WithMessageOrigin (op_Message st) MessageOriginServer\<rparr>) crd))"

end
