(* ===== verification/Keyed_Lists.thy ===== *)
theory Keyed_Lists
  imports Prelude
begin

text \<open>
  The interface of a list that holds one entry per key: an update looks an entry up by the key of
  the new one and replaces it, or appends. The store keeps the statuses and the results of the
  benchmarks of a job in such lists.
\<close>

locale keyed_update =
  fixes key :: "'a \<Rightarrow> 'k" and upd :: "'a \<Rightarrow> 'a list \<Rightarrow> 'a list"
  assumes keys: "map key (upd x xs) = (if key x \<in> key ` set xs then map key xs else map key xs @ [key x])"
    and other: "k \<noteq> key x \<Longrightarrow> find (\<lambda>y. key y = k) (upd x xs) = find (\<lambda>y. key y = k) xs"
begin

lemma distinct_upd: "distinct (map key xs) \<Longrightarrow> distinct (map key (upd x xs))"
  by (auto simp: keys)

lemma key_set_upd: "key ` set (upd x xs) = insert (key x) (key ` set xs)"
proof -
  have "key ` set (upd x xs) = set (map key (upd x xs))" by simp
  then show ?thesis by (auto simp: keys)
qed

lemma distinct_fold: "distinct (map key xs) \<Longrightarrow> distinct (map key (fold upd ys xs))"
  by (induction ys arbitrary: xs) (auto intro: distinct_upd)

lemma key_set_fold: "key ` set (fold upd ys xs) = key ` set ys \<union> key ` set xs"
  by (induction ys arbitrary: xs) (auto simp: key_set_upd)

lemma other_fold: "k \<notin> key ` set ys \<Longrightarrow> find (\<lambda>y. key y = k) (fold upd ys xs) = find (\<lambda>y. key y = k) xs"
  by (induction ys arbitrary: xs) (auto simp: other)

end

text \<open>An update that always replaces the entry.\<close>

locale overwriting_update = keyed_update +
  assumes own: "find (\<lambda>y. key y = key x) (upd x xs) = Some x"
begin

lemma last_write_wins: "key y = key x \<Longrightarrow> find (\<lambda>z. key z = key x) (upd y (upd x xs)) = Some y"
  using own[of y] by simp

lemma fold_lookup:
  "find (\<lambda>z. key z = k) (fold upd ys xs) =
     (case find (\<lambda>z. key z = k) (rev ys) of Some y \<Rightarrow> Some y | None \<Rightarrow> find (\<lambda>z. key z = k) xs)"
proof (induction ys rule: rev_induct)
  case (snoc y ys)
  then show ?case using own[of y] other[of k y] by auto
qed simp

end

text \<open>\<open>upsert\<close> keeps this interface when it selects by key.\<close>

lemma find_upsert_other:
  assumes "\<And>y. p y \<longleftrightarrow> key y = key x" "\<And>y. p y \<Longrightarrow> key (f y) = key x" "k \<noteq> key x"
  shows "find (\<lambda>y. key y = k) (upsert p f x xs) = find (\<lambda>y. key y = k) xs"
  using assms by (induction xs) auto

lemma find_upsert_own:
  assumes "\<And>y. p y \<longleftrightarrow> key y = key x" "\<And>y. p y \<Longrightarrow> key (f y) = key x"
  shows "find (\<lambda>y. key y = key x) (upsert p f x xs) =
    (case find (\<lambda>y. key y = key x) xs of Some y \<Rightarrow> Some (f y) | None \<Rightarrow> Some x)"
  using assms by (induction xs) auto

end
