(* ===== verification/Job_Invariants.thy ===== *)
theory Job_Invariants
  imports Storage_Jobs Keyed_Lists
begin

text \<open>
  What every operation of the job store keeps. Each body is interpreted as a \<open>transaction\<close>, its
  effect on the tables is given by one lemma, and the invariants follow from the effects: one row
  per job, documents that can be encoded, a status column that agrees with the stored document, one
  status and one result per benchmark, and final states.
\<close>

section \<open>Reads\<close>

lemma keeps_db_getCollection [simp, intro]:
  "keeps_db (getCollectionTransactionalWithLock s i)" "keeps_db (getCollectionTransactional s i)"
  "keeps_db (getCollectionTransactionalForUpdate s i)"
  unfolding getCollectionTransactional_def getCollectionTransactionalForUpdate_def getCollectionTransactionalWithLock_def
  by (intro keeps_db_sbind keeps_db_smap_err keeps_db_leaf; auto split: option.splits json_column.splits)+

lemma keeps_db_scan [simp, intro]:
  "keeps_db (scanEvaluationJobTransactional s i wt)" "keeps_db (getEvaluationJobTransactional s i)"
  "keeps_db (getEvaluationJobTransactionalForUpdate s i)" "keeps_db (getEvaluationJobTransactionalForUpdateWithType s i wt)"
  unfolding getEvaluationJobTransactional_def getEvaluationJobTransactionalForUpdate_def
    getEvaluationJobTransactionalForUpdateWithType_def scanEvaluationJobTransactional_def
  by (intro keeps_db_sbind keeps_db_smap_err keeps_db_leaf;
      auto split: option.splits json_column.splits intro: keeps_db_smap_err)+

lemma keeps_db_job_collection [simp, intro]: "keeps_db (job_collection s job)"
  unfolding job_collection_def Let_def by (auto intro: keeps_db_sbind)

lemma keeps_db_getOverallJobStatus [simp, intro]: "keeps_db (getOverallJobStatus s job)"
  unfolding getOverallJobStatus_def
  by (auto intro!: keeps_db_sbind split: sum.splits prod.splits)

lemma keeps_db_validatePostProcessing [simp, intro]: "keeps_db (validatePostProcessingSourceCompletion s job)"
  unfolding validatePostProcessingSourceCompletion_def
  by (auto intro!: keeps_db_sbind keeps_db_scatch split: option.splits)

text \<open>The job that a read under the handle \<open>s\<close> finds in the tables.\<close>

definition reads_as :: "sqlStorage \<Rightarrow> workload_type \<Rightarrow> string \<Rightarrow> database \<Rightarrow> EvaluationJobResource \<Rightarrow> bool" where
  "reads_as s wt i d job \<longleftrightarrow>
     (\<exists>row entity.
        find (CreateEvaluationGetEntityStatement (st_dialect s) (st_tenant s) i wt) (evaluations d) = Some row \<and>
        rw_entity row = Json entity \<and>
        constructEvaluationResource (row_resource row) (rw_experiment_id row) '''' entity = Inr job)"

lemma scan_Inr:
  "scanEvaluationJobTransactional s i wt c = (Inr job, c') \<Longrightarrow> reads_as s wt i (cn_db c) job \<and> cn_db c' = cn_db c"
  by (auto simp: scanEvaluationJobTransactional_def sbind_Inr_iff db_query_Inr reads_as_def
           split: option.splits json_column.splits)

lemma getForUpdate_Inr:
  "getEvaluationJobTransactionalForUpdate s i c = (Inr job, c') \<Longrightarrow>
   reads_as s (st_workload_type s) i (cn_db c) job \<and> cn_db c' = cn_db c"
  unfolding getEvaluationJobTransactionalForUpdate_def by (rule scan_Inr)

lemma find_own_row:
  assumes "find p rows = Some row" "\<And>r. p r \<Longrightarrow> rw_id r = i" "distinct (map rw_id rows)" "r \<in> set rows" "rw_id r = i"
  shows "r = row"
proof -
  from assms(1) have "row \<in> set rows" "p row" by (auto simp: find_Some_iff)
  with assms show ?thesis by (metis distinct_map inj_onD)
qed

lemma evaluation_where_id: "i \<noteq> '''' \<Longrightarrow> CreateEvaluationGetEntityStatement d t i wt r \<Longrightarrow> rw_id r = i"
  by (auto simp: CreateEvaluationGetEntityStatement_def getWhereStatement_def split: dialect.splits)

lemma reads_as_row:
  assumes "reads_as s wt i d job" "i \<noteq> ''''" "distinct (map rw_id (evaluations d))"
    and "r \<in> set (evaluations d)" "rw_id r = i"
  obtains entity where "rw_entity r = Json entity"
    "constructEvaluationResource (row_resource r) (rw_experiment_id r) '''' entity = Inr job"
proof -
  from assms(1) obtain row entity where
    row: "find (CreateEvaluationGetEntityStatement (st_dialect s) (st_tenant s) i wt) (evaluations d) = Some row"
    and entity: "rw_entity row = Json entity"
      "constructEvaluationResource (row_resource row) (rw_experiment_id row) '''' entity = Inr job"
    unfolding reads_as_def by blast
  have "r = row" using find_own_row[OF row _ assms(3,4,5)] evaluation_where_id[OF assms(2)] by blast
  with entity show thesis using that by blast
qed

section \<open>The write of a job\<close>

definition write_job ::
  "Tenant \<Rightarrow> string \<Rightarrow> OverallState \<Rightarrow> EvaluationJobEntity \<Rightarrow> time \<Rightarrow> evaluation_row \<Rightarrow> evaluation_row" where
  "write_job t i st en now r =
     (if own_row t i r
      then r\<lparr>rw_entity := Json en, rw_updated_at := now, rw_status := OverallState_String st\<rparr> else r)"

lemma write_job_eta:
  "write_job t i st en now =
     (\<lambda>r. if own_row t i r
          then r\<lparr>rw_entity := Json en, rw_updated_at := now, rw_status := OverallState_String st\<rparr> else r)"
  by (rule ext) (simp add: write_job_def)

lemma write_job_frame [simp]:
  "rw_id (write_job t i st en now r) = rw_id r" "rw_tenant_id (write_job t i st en now r) = rw_tenant_id r"
  "rw_owner (write_job t i st en now r) = rw_owner r" "rw_created_at (write_job t i st en now r) = rw_created_at r"
  "rw_workload_type (write_job t i st en now r) = rw_workload_type r"
  "rw_experiment_id (write_job t i st en now r) = rw_experiment_id r"
  by (simp_all add: write_job_def)

text \<open>The tables \<open>d'\<close> are \<open>d\<close> with the document and the status of job \<open>i\<close> replaced.\<close>

definition writes :: "Tenant \<Rightarrow> string \<Rightarrow> OverallState \<Rightarrow> EvaluationJobEntity \<Rightarrow> database \<Rightarrow> database \<Rightarrow> bool" where
  "writes t i st en d d' \<longleftrightarrow>
     job_entity_ok en \<and> (\<exists>now. d' = d\<lparr>evaluations := map (write_job t i st en now) (evaluations d)\<rparr>)"

lemma rolls_back_updateEvaluationJobTxn [simp, intro]: "rolls_back (updateEvaluationJobTxn s i st en)"
  unfolding updateEvaluationJobTxn_def
  by (intro rolls_back_sbind rolls_back_smap_err rolls_back_leaf)
     (auto simp: rolls_back_def json_Marshal_def)

lemma updateEvaluationJobTxn_Inr:
  assumes "updateEvaluationJobTxn s i st en c = (Inr u, c')"
  shows "writes (st_tenant s) i st en (cn_db c) (cn_db c')"
proof -
  from assms obtain n where ok: "job_entity_ok en"
    and "exec_evaluations (st_env s) (CreateUpdateEvaluationStatement (st_tenant s) i (Json en) st) c = (Inr n, c')"
    by (auto simp: updateEvaluationJobTxn_def sbind_Inr_iff json_Marshal_def split: if_splits)
  from exec_Inr(1)[OF this(2)] show ?thesis
    by (auto simp: writes_def ok CreateUpdateEvaluationStatement_def update_rows_def write_job_eta)
qed

lemma column_ok_write_job:
  "job_entity_ok en \<Longrightarrow> column_ok job_entity_ok (rw_entity r) \<Longrightarrow> column_ok job_entity_ok (rw_entity (write_job t i st en now r))"
  by (simp add: write_job_def)

lemma table_ok_writes: "table_ok job_entity_ok (evaluations d) \<Longrightarrow> writes t i st en d d' \<Longrightarrow> table_ok job_entity_ok (evaluations d')"
  by (auto simp: writes_def table_ok_def list_all_iff o_def column_ok_write_job)

lemma db_ok_writes: "db_ok d \<Longrightarrow> writes t i st en d d' \<Longrightarrow> db_ok d'"
  unfolding db_ok_def using table_ok_writes[of d t i st en d'] by (auto simp: writes_def)

section \<open>The effect of each body\<close>

text \<open>
  A body that succeeds has written nothing, or has written a document that it derived from the job it
  read; \<open>P\<close> relates the job, the new state and the new document.
\<close>

definition job_update ::
  "sqlStorage \<Rightarrow> string \<Rightarrow> (EvaluationJobResource \<Rightarrow> OverallState \<Rightarrow> EvaluationJobEntity \<Rightarrow> bool) \<Rightarrow>
   database \<Rightarrow> database \<Rightarrow> bool" where
  "job_update s i P d d' \<longleftrightarrow>
     d' = d \<or> (\<exists>job st en. reads_as s (st_workload_type s) i d job \<and> P job st en \<and> writes (st_tenant s) i st en d d')"

lemma job_update_refl [simp, intro]: "job_update s i P d d"
  by (simp add: job_update_def)

lemma job_update_db_ok: "job_update s i P d d' \<Longrightarrow> db_ok d \<Longrightarrow> db_ok d'"
  by (auto simp: job_update_def intro: db_ok_writes)

lemma checkEvaluationJobState_Inr:
  "checkEvaluationJobState i old new = Inr same \<longleftrightarrow> same = (new = old) \<and> (IsTerminalState old \<longrightarrow> new = old)"
  by (auto simp: checkEvaluationJobState_def IsTerminalState_def)

definition status_entity :: "OverallState \<Rightarrow> MessageInfo option \<Rightarrow> EvaluationJobResource \<Rightarrow> EvaluationJobEntity" where
  "status_entity state message job =
     \<lparr>en_Config = Some (ej_Config job),
      en_Status = Some \<lparr>js_State = state, js_Message = message,
        js_Benchmarks = (if state = OverallStateCancelled \<and> state \<noteq> job_state job
                         then map (cancel_benchmark message) (job_benchmarks job) else job_benchmarks job)\<rparr>,
      en_Results = ej_Results job\<rparr>"

definition status_step :: "OverallState \<Rightarrow> MessageInfo option \<Rightarrow> EvaluationJobResource \<Rightarrow> OverallState \<Rightarrow> EvaluationJobEntity \<Rightarrow> bool" where
  "status_step state message job st en \<longleftrightarrow>
     st = state \<and> en = status_entity state message job \<and> (IsTerminalState (job_state job) \<longrightarrow> state = job_state job)"

lemma status_body_effect:
  assumes "update_status_body s i state message c = (Inr u, c')"
  obtains job where "reads_as s (st_workload_type s) i (cn_db c) job"
    "IsTerminalState (job_state job) \<longrightarrow> state = job_state job"
    "(cn_db c' = cn_db c \<and> state = job_state job) \<or>
     writes (st_tenant s) i state (status_entity state message job) (cn_db c) (cn_db c')"
proof -
  from assms obtain job c1 where job: "getEvaluationJobTransactionalForUpdate s i c = (Inr job, c1)"
    and rest: "IsTerminalState (job_state job) \<longrightarrow> state = job_state job"
      "(c' = c1 \<and> state = job_state job) \<or>
       updateEvaluationJobTxn s i state (status_entity state message job) c1 = (Inr u, c')"
    by (auto simp: update_status_body_def sbind_Inr_iff checkEvaluationJobState_Inr status_entity_def Let_def
             split: if_splits)
  from getForUpdate_Inr[OF job] rest updateEvaluationJobTxn_Inr that show thesis by metis
qed

lemma status_body_update:
  "update_status_body s i state message c = (Inr u, c') \<Longrightarrow> job_update s i (status_step state message) (cn_db c) (cn_db c')"
  by (erule status_body_effect) (auto simp: job_update_def status_step_def)

definition finds_collection :: "sqlStorage \<Rightarrow> database \<Rightarrow> EvaluationJobResource \<Rightarrow> CollectionResource option \<Rightarrow> bool" where
  "finds_collection s d job coll \<longleftrightarrow>
     (let cid = job_collection_id (ej_Config job)
      in if cid = '''' then coll = None
         else (\<exists>row e. find (getWhereStatement (st_tenant s) cid) (collections d) = Some row \<and>
                       isVisibleResource s (row_resource row) \<and> rw_entity row = Json e \<and>
                       coll = Some (collection_resource (row_resource row) e)))"

lemma finds_collection_unique: "finds_collection s d job coll \<Longrightarrow> finds_collection s d job coll' \<Longrightarrow> coll' = coll"
  by (auto simp: finds_collection_def Let_def split: if_splits)

lemma finds_collection_cong: "ej_Config job' = ej_Config job \<Longrightarrow> finds_collection s d job' = finds_collection s d job"
  by (auto simp: finds_collection_def fun_eq_iff)

lemma job_collection_Inr:
  "job_collection s job c = (Inr coll, c') \<Longrightarrow> finds_collection s (cn_db c) job coll \<and> cn_db c' = cn_db c"
  by (auto simp: job_collection_def Let_def sbind_Inr_iff getCollectionTransactional_def
        getCollectionTransactionalWithLock_def db_query_Inr finds_collection_def
        split: if_splits option.splits json_column.splits)

lemma GetJobBenchmarks_cong:
  "ej_Config job' = ej_Config job \<Longrightarrow> ej_Resource job' = ej_Resource job \<Longrightarrow> GetJobBenchmarks job' coll = GetJobBenchmarks job coll"
  by (simp add: GetJobBenchmarks_def Let_def)

lemma GetJobBenchmarks_ne: "GetJobBenchmarks job coll = Inr bs \<Longrightarrow> bs \<noteq> []"
proof -
  have "merge_collection cbs ovs nx cbs \<noteq> []" if "cbs \<noteq> []" for cbs ovs nx
    using length_merge_collection[of cbs ovs nx cbs] that by (metis length_0_conv)
  then show "GetJobBenchmarks job coll = Inr bs \<Longrightarrow> bs \<noteq> []"
    by (auto simp: GetJobBenchmarks_def Let_def split: if_splits option.splits)
qed

lemma record_event_frame [simp]:
  "ej_Config (record_event job event outcome) = ej_Config job"
  "ej_Resource (record_event job event outcome) = ej_Resource job"
  "ej_Config (set_overall st m job) = ej_Config job" "ej_Resource (set_overall st m job) = ej_Resource job"
  "ej_Results (set_overall st m job) = ej_Results job"
  by (simp_all add: record_event_def updateBenchmarkStatus_def updateBenchmarkResults_def set_overall_def Let_def)

text \<open>The job that an event makes of \<open>job\<close>, given the collection and the outcome of the benchmark's test.\<close>

definition after_event ::
  "BenchmarkStatusEvent \<Rightarrow> EvaluationBenchmarkConfig list \<Rightarrow> CollectionResource option \<Rightarrow> BenchmarkTest option \<Rightarrow>
   EvaluationJobResource \<Rightarrow> OverallState \<Rightarrow> EvaluationJobResource \<Rightarrow> bool" where
  "after_event event bs coll outcome job st job' \<longleftrightarrow>
     (let job2 = record_event job event outcome; (state, text) = overall_of (length bs) (job_benchmarks job2);
          job3 = set_overall state (Some (server_message text)) job2
      in st = state \<and> job' = (if state = OverallStateCompleted then computeJobTestResult job3 coll else job3))"

definition event_step ::
  "sqlStorage \<Rightarrow> database \<Rightarrow> BenchmarkStatusEvent \<Rightarrow> EvaluationJobResource \<Rightarrow> OverallState \<Rightarrow> EvaluationJobEntity \<Rightarrow> bool" where
  "event_step s d event job st en \<longleftrightarrow>
     \<not> IsTerminalState (job_state job) \<and>
     (\<exists>coll bs outcome job'. finds_collection s d job coll \<and> GetJobBenchmarks job coll = Inr bs \<and>
        validateBenchmarkExists job event coll = None \<and> after_event event bs coll outcome job st job' \<and>
        en = job_entity job')"

lemma job_state_record_event [simp]:
  "ej_Status job \<noteq> None \<Longrightarrow> job_state (record_event job event outcome) = job_state job"
  by (auto simp: job_state_def record_event_def updateBenchmarkStatus_def updateBenchmarkResults_def Let_def)

lemma reads_as_status: "reads_as s wt i d job \<Longrightarrow> ej_Status job \<noteq> None"
  by (auto simp: reads_as_def constructEvaluationResource_def Let_def split: option.splits)

lemma getOverallJobStatus_Inr:
  assumes "getOverallJobStatus s job c = (Inr (state, message), c')" "\<not> IsTerminalState (job_state job)"
  shows "\<exists>coll bs. finds_collection s (cn_db c) job coll \<and> GetJobBenchmarks job coll = Inr bs \<and>
    state = fst (overall_of (length bs) (job_benchmarks job)) \<and>
    message = Some (server_message (snd (overall_of (length bs) (job_benchmarks job)))) \<and> cn_db c' = cn_db c"
proof -
  let ?k = "\<lambda>coll. case GetJobBenchmarks job coll of
             Inl e \<Rightarrow> sthrow e
           | Inr benchmarks \<Rightarrow>
               if benchmarks = [] then sreturn (OverallStatePending, Some (server_message ''Evaluation job is pending''))
               else
                 let (state, text) = overall_of (length benchmarks) (job_benchmarks job)
                 in sreturn (state, Some (server_message text))"
  from assms obtain coll c1 where jc: "job_collection s job c = (Inr coll, c1)" and k: "?k coll c1 = (Inr (state, message), c')"
    unfolding getOverallJobStatus_def sbind_Inr_iff by (auto simp only: if_False sbind_Inr_iff)
  then obtain bs where bs: "GetJobBenchmarks job coll = Inr bs" by (cases "GetJobBenchmarks job coll") auto
  with k GetJobBenchmarks_ne[OF bs] show ?thesis
    using job_collection_Inr[OF jc] by (auto split: prod.splits)
qed

text \<open>A completed post-processing job has a completed source, unless the source is gone.\<close>

definition source_completed :: "sqlStorage \<Rightarrow> database \<Rightarrow> EvaluationJobConfig \<Rightarrow> bool" where
  "source_completed s d cfg \<longleftrightarrow>
     (IsPostProcessingJob cfg \<longrightarrow>
      (\<exists>operations. OperationsFromJob (st_json_error s) cfg = Inr operations \<and>
         (\<forall>oper ref src source. so_ConfidenceInterval operations = Some oper \<longrightarrow> sc_ResultsDataRef oper = Some ref \<longrightarrow>
            pd_EvalJob ref = Some src \<longrightarrow> reads_as s Evaluation (ed_ID src) d source \<longrightarrow>
            job_state source = OverallStateCompleted)))"

lemma scan_Inl_not_found:
  "scanEvaluationJobTransactional s i wt c = (Inl e, c') \<Longrightarrow> has_code ResourceNotFound e \<Longrightarrow> \<not> reads_as s wt i (cn_db c) job"
  by (auto simp: scanEvaluationJobTransactional_def sbind_Inl_iff smap_err_Inl_iff db_query_Inr reads_as_def
        db_failed_def unmarshal_failed_def internal_error_def constructEvaluationResource_def Let_def
        split: option.splits json_column.splits)

lemma reads_as_unique: "reads_as s wt i d job \<Longrightarrow> reads_as s wt i d job' \<Longrightarrow> job' = job"
  by (auto simp: reads_as_def)

lemma validate_source:
  assumes "validatePostProcessingSourceCompletion s job c = (Inr u, c')"
  shows "source_completed s (cn_db c) (ej_Config job)"
proof (cases "IsPostProcessingJob (ej_Config job)")
  case False
  then show ?thesis by (simp add: source_completed_def)
next
  case True
  with assms obtain operations where ops: "OperationsFromJob (st_json_error s) (ej_Config job) = Inr operations"
    by (auto simp: validatePostProcessingSourceCompletion_def sbind_Inr_iff)
  have "job_state source = OverallStateCompleted"
    if "so_ConfidenceInterval operations = Some oper" "sc_ResultsDataRef oper = Some ref" "pd_EvalJob ref = Some src"
      and source: "reads_as s Evaluation (ed_ID src) (cn_db c) source" for oper ref src source
  proof -
    from assms True ops that(1-3) obtain found c1 where
      "(getEvaluationJobTransactionalForUpdateWithType s (ed_ID src) Evaluation c = (Inr found, c1) \<and>
        job_state found = OverallStateCompleted) \<or>
       (\<exists>e. getEvaluationJobTransactionalForUpdateWithType s (ed_ID src) Evaluation c = (Inl e, c1) \<and> has_code ResourceNotFound e)"
      by (auto simp: validatePostProcessingSourceCompletion_def sbind_Inr_iff sbind_Inl_iff scatch_Inr_iff split: if_splits option.splits)
    with source scan_Inr scan_Inl_not_found reads_as_unique show ?thesis
      unfolding getEvaluationJobTransactionalForUpdateWithType_def by metis
  qed
  with ops show ?thesis unfolding source_completed_def by blast
qed

lemma store_event_Inr:
  assumes "store_event s i job2 coll (state, message) c = (Inr u, c')"
  shows "\<exists>job4. job4 = (if state = OverallStateCompleted then computeJobTestResult (set_overall state message job2) coll
                 else set_overall state message job2) \<and>
    writes (st_tenant s) i state (job_entity job4) (cn_db c) (cn_db c') \<and>
    (state = OverallStateCompleted \<longrightarrow> source_completed s (cn_db c') (ej_Config job4))"
proof -
  let ?job4 = "if state = OverallStateCompleted then computeJobTestResult (set_overall state message job2) coll
                 else set_overall state message job2"
  from assms obtain c1 where upd: "updateEvaluationJobTxn s i state (job_entity ?job4) c = (Inr (), c1)"
    and rest: "(if state = OverallStateCompleted
                then smap_err WithRollback (validatePostProcessingSourceCompletion s ?job4) else sreturn ()) c1 = (Inr u, c')"
    unfolding store_event_def Let_def fst_conv snd_conv sbind_Inr_iff by auto
  have db: "cn_db c' = cn_db c1"
    using rest keeps_dbD[OF keeps_db_validatePostProcessing] by (auto split: if_splits)
  have "state = OverallStateCompleted \<longrightarrow> source_completed s (cn_db c1) (ej_Config ?job4)"
    using rest validate_source[of s ?job4 c1 u c'] by (cases "state = OverallStateCompleted") simp_all
  with updateEvaluationJobTxn_Inr[OF upd] db show ?thesis by auto
qed

lemma update_job_body_effect:
  assumes "update_job_body s i event c = (Inr u, c')"
  obtains job st en where "reads_as s (st_workload_type s) i (cn_db c) job" "event_step s (cn_db c) event job st en"
    "writes (st_tenant s) i st en (cn_db c) (cn_db c')"
    "st = OverallStateCompleted \<longrightarrow> source_completed s (cn_db c') (ej_Config job)"
proof -
  from assms obtain job c1 coll c2 outcome c4 state message c5 where
    job: "getEvaluationJobTransactionalForUpdate s i c = (Inr job, c1)"
    and open': "IsTerminalState (job_state job) \<longrightarrow> OverallStateRunning = job_state job"
    and coll: "job_collection s job c1 = (Inr coll, c2)"
    and valid: "validateBenchmarkExists job event coll = None"
    and test: "computeBenchmarkTestResult s (updateBenchmarkStatus job event (event_status event)) event coll c2 = (Inr outcome, c4)"
    and overall: "getOverallJobStatus s (record_event job event outcome) c4 = (Inr (state, message), c5)"
    and store: "store_event s i (record_event job event outcome) coll (state, message) c5 = (Inr u, c')"
    by (auto simp: update_job_body_def sbind_Inr_iff checkEvaluationJobState_Inr)
  from store_event_Inr[OF store] obtain job4 where
    job4: "job4 = (if state = OverallStateCompleted
         then computeJobTestResult (set_overall state message (record_event job event outcome)) coll
         else set_overall state message (record_event job event outcome))"
    and upd: "writes (st_tenant s) i state (job_entity job4) (cn_db c5) (cn_db c')"
    and src: "state = OverallStateCompleted \<longrightarrow> source_completed s (cn_db c') (ej_Config job4)" by blast
  from job4 have cfg: "ej_Config job4 = ej_Config job" by simp
  from getForUpdate_Inr[OF job] have read: "reads_as s (st_workload_type s) i (cn_db c) job" and d1: "cn_db c1 = cn_db c" by auto
  from job_collection_Inr[OF coll] d1 have fc: "finds_collection s (cn_db c) job coll" and d2: "cn_db c2 = cn_db c" by auto
  have d4: "cn_db c4 = cn_db c"
    using keeps_dbD[OF keeps_db_computeBenchmarkTestResult test] d2 by simp
  have nt: "\<not> IsTerminalState (job_state job)" using open' by (auto simp: IsTerminalState_def)
  with reads_as_status[OF read] have "\<not> IsTerminalState (job_state (record_event job event outcome))" by simp
  from getOverallJobStatus_Inr[OF overall this] obtain coll' bs where
    fc': "finds_collection s (cn_db c4) (record_event job event outcome) coll'"
    and bs: "GetJobBenchmarks (record_event job event outcome) coll' = Inr bs"
    and st: "state = fst (overall_of (length bs) (job_benchmarks (record_event job event outcome)))"
      "message = Some (server_message (snd (overall_of (length bs) (job_benchmarks (record_event job event outcome)))))"
    and d5: "cn_db c5 = cn_db c4" by blast
  have "coll' = coll"
    using fc fc' d4 finds_collection_unique finds_collection_cong[of "record_event job event outcome" job] by auto
  with bs have "GetJobBenchmarks job coll = Inr bs"
    using GetJobBenchmarks_cong[of "record_event job event outcome" job coll] by simp
  moreover have "after_event event bs coll outcome job state job4"
    unfolding after_event_def using st job4 by (simp add: Let_def case_prod_beta)
  ultimately have "event_step s (cn_db c) event job state (job_entity job4)"
    unfolding event_step_def using nt fc valid by blast
  moreover have "writes (st_tenant s) i state (job_entity job4) (cn_db c) (cn_db c')"
    using upd d5 d4 by simp
  ultimately show thesis using read src that unfolding cfg by blast
qed

lemma update_job_body_update:
  "update_job_body s i event c = (Inr u, c') \<Longrightarrow> job_update s i (event_step s (cn_db c) event) (cn_db c) (cn_db c')"
  by (erule update_job_body_effect) (auto simp: job_update_def)

definition sha_step ::
  "sqlStorage \<Rightarrow> database \<Rightarrow> int \<Rightarrow> string \<Rightarrow> EvaluationJobResource \<Rightarrow> OverallState \<Rightarrow> EvaluationJobEntity \<Rightarrow> bool" where
  "sha_step s d index sha job st en \<longleftrightarrow>
     st = job_state job \<and>
     (\<exists>coll bs stamped. finds_collection s d job coll \<and> GetJobBenchmarks job coll = Inr bs \<and>
        stamp index sha (job_ref_sources job coll) bs = Some stamped \<and>
        en = job_entity (job\<lparr>ej_Config := sha_config (ej_Config job) stamped\<rparr>))"

lemma sha_body_update:
  assumes "resolved_sha_body s i index sha c = (Inr u, c')"
  shows "job_update s i (sha_step s (cn_db c) index sha) (cn_db c) (cn_db c')"
proof -
  from assms obtain job c1 coll c2 bs where
    job: "getEvaluationJobTransactionalForUpdate s i c = (Inr job, c1)"
    and coll: "job_collection s job c1 = (Inr coll, c2)" and bs: "GetJobBenchmarks job coll = Inr bs"
    and rest: "(case stamp index sha (job_ref_sources job coll) bs of None \<Rightarrow> sreturn ()
        | Some stamped \<Rightarrow> updateEvaluationJobTxn s i (job_state job)
            (job_entity (job\<lparr>ej_Config := sha_config (ej_Config job) stamped\<rparr>))) c2 = (Inr u, c')"
    by (auto simp: resolved_sha_body_def sbind_Inr_iff)
  from getForUpdate_Inr[OF job] job_collection_Inr[OF coll]
  have "reads_as s (st_workload_type s) i (cn_db c) job" "finds_collection s (cn_db c) job coll" "cn_db c2 = cn_db c" by auto
  with rest bs updateEvaluationJobTxn_Inr show ?thesis
    by (cases "stamp index sha (job_ref_sources job coll) bs") (fastforce simp: job_update_def sha_step_def)+
qed

definition oci_step ::
  "OCIProcessingStatus \<Rightarrow> OCIArtifactReference option \<Rightarrow> EvaluationJobResource \<Rightarrow> OverallState \<Rightarrow> EvaluationJobEntity \<Rightarrow> bool" where
  "oci_step status crd job st en \<longleftrightarrow>
     st = job_state job \<and> IsResultsExportEligible job \<and> IsOCIExportEnabled job \<and>
     oci_decide (job_oci job) status crd = OCIAccepted \<and>
     en = job_entity (job\<lparr>ej_Results := UpdateOCIResults (ej_Results job) (Some status) crd\<rparr>)"

lemma oci_body_update:
  assumes "oci_body s i status crd c = (Inr u, c')"
  shows "job_update s i (oci_step status crd) (cn_db c) (cn_db c')"
proof -
  from assms obtain job c1 where job: "getEvaluationJobTransactionalForUpdate s i c = (Inr job, c1)"
    and elig: "IsResultsExportEligible job" "IsOCIExportEnabled job"
    and rest: "(oci_decide (job_oci job) status crd = OCIUnchanged \<and> c' = c1) \<or>
      (oci_decide (job_oci job) status crd = OCIAccepted \<and>
       updateEvaluationJobTxn s i (job_state job)
         (job_entity (job\<lparr>ej_Results := UpdateOCIResults (ej_Results job) (Some status) crd\<rparr>)) c1 = (Inr u, c'))"
    by (auto simp: oci_body_def sbind_Inr_iff split: if_splits oci_decision.splits)
  from getForUpdate_Inr[OF job] rest elig updateEvaluationJobTxn_Inr show ?thesis
    unfolding job_update_def oci_step_def by metis
qed

section \<open>The bodies are transactions\<close>

lemma clean_job_bodies:
  "clean (createEvaluationJobTransactional s job)" "clean (delete_job_body s i)" "clean (update_status_body s i state m)"
  "clean (update_job_body s i event)" "clean (resolved_sha_body s i index sha)" "clean (oci_body s i status crd)"
proof -
  show "clean (createEvaluationJobTransactional s job)"
    unfolding createEvaluationJobTransactional_def by (intro clean_rolls_back rolls_back_sbind rolls_back_smap_err) simp_all

  show "clean (update_status_body s i state m)"
    unfolding update_status_body_def Let_def by (intro clean_read_then) auto
  show "clean (update_job_body s i event)"
    unfolding update_job_body_def store_event_def Let_def
    by (intro clean_read_then clean_rolls_back rolls_back_sbind rolls_back_if rolls_back_smap_err) auto
  show "clean (resolved_sha_body s i index sha)"
    unfolding resolved_sha_body_def Let_def by (intro clean_read_then) (auto split: option.splits)
  show "clean (oci_body s i status crd)"
    unfolding oci_body_def by (intro clean_read_then clean_if) (auto split: oci_decision.splits)
  show "clean (delete_job_body s i)"
    unfolding clean_def
  proof (intro allI impI)
    fix c e c'
    assume body: "delete_job_body s i c = (Inl e, c')" and commits: "\<not> ShouldRollback e"
    then consider "getEvaluationJobTransactionalForUpdate s i c = (Inl e, c')"
      | job c1 n c2 where "getEvaluationJobTransactionalForUpdate s i c = (Inr job, c1)"
        "exec_evaluations (st_env s) (\<lambda>now. CreateDeleteEntityStatement (st_tenant s) i) c1 = (Inr n, c2)"
        "evaluationJobDeleteResultError s i n c2 = (Inl e, c')"
      unfolding delete_job_body_def sbind_Inl_iff smap_err_Inl_iff smap_err_Inr_iff by fastforce
    then show "cn_db c' = cn_db c"
    proof cases
      case 1
      then show ?thesis using keeps_dbD[OF keeps_db_scan(3)] by blast
    next
      case 2
      have "cn_db c' = cn_db c2" "n = 0"
        using 2(3) commits unfolding evaluationJobDeleteResultError_def sbind_Inl_iff smap_err_Inl_iff
        by (auto simp: db_query_Inr db_query_Inl split: if_splits)
      with 2(2) show ?thesis
        using getForUpdate_Inr[OF 2(1)]
        by (auto dest!: exec_Inr(1) simp: CreateDeleteEntityStatement_def delete_rows_def filter_empty_conv filter_id_conv)
    qed
  qed
qed

lemma insert_evaluation_Inr:
  assumes "insert_evaluation env r c = (Inr u, c')"
  obtains now where "rw_id (r now) \<notin> rw_id ` set (evaluations (cn_db c))"
    "cn_db c' = (cn_db c)\<lparr>evaluations := evaluations (cn_db c) @ [r now]\<rparr>"
  using db_call_Inr[OF assms[unfolded insert_evaluation_def]]
  by (auto simp: insert_row_def split: if_splits)

lemma createEvaluationJobTransactional_Inr:
  assumes "createEvaluationJobTransactional s job c = (Inr u, c')"
  obtains now where "job_entity_ok (job_entity job)" "r_ID (ej_Resource job) \<notin> rw_id ` set (evaluations (cn_db c))"
    "cn_db c' = (cn_db c)\<lparr>evaluations := evaluations (cn_db c) @
       [evaluation_row_of job (TypeForJob (st_registry s) (ej_Config job)) (Json (job_entity job)) now]\<rparr>"
proof -
  from assms have ok: "job_entity_ok (job_entity job)"
    and "insert_evaluation (st_env s)
      (evaluation_row_of job (TypeForJob (st_registry s) (ej_Config job)) (Json (job_entity job))) c = (Inr u, c')"
    by (auto simp: createEvaluationJobTransactional_def sbind_Inr_iff createEvaluationJobEntity_def json_Marshal_def
             split: if_splits)
  from insert_evaluation_Inr[OF this(2)] ok that show thesis by (auto simp: evaluation_row_of_def)
qed

lemma db_ok_create:
  assumes "db_ok (cn_db c)" "createEvaluationJobTransactional s job c = (Inr u, c')" shows "db_ok (cn_db c')"
proof -
  from createEvaluationJobTransactional_Inr[OF assms(2)] obtain now where
    "job_entity_ok (job_entity job)" "r_ID (ej_Resource job) \<notin> rw_id ` set (evaluations (cn_db c))"
    and db: "cn_db c' = (cn_db c)\<lparr>evaluations := evaluations (cn_db c) @
       [evaluation_row_of job (TypeForJob (st_registry s) (ej_Config job)) (Json (job_entity job)) now]\<rparr>" .
  with assms(1) show ?thesis unfolding db db_ok_def table_ok_def by (simp add: evaluation_row_of_def)
qed

lemma rolls_back_create [simp, intro]: "rolls_back (createEvaluationJobTransactional s job)"
  unfolding createEvaluationJobTransactional_def by (intro rolls_back_sbind rolls_back_smap_err) simp_all

lemma delete_job_body_Inr:
  assumes "delete_job_body s i c = (Inr u, c')"
  shows "cn_db c' = (cn_db c)\<lparr>evaluations := filter (\<lambda>r. \<not> own_row (st_tenant s) i r) (evaluations (cn_db c))\<rparr>"
    and "\<exists>r \<in> set (evaluations (cn_db c)). own_row (st_tenant s) i r"
proof -
  from assms obtain job c1 n c2 where job: "getEvaluationJobTransactionalForUpdate s i c = (Inr job, c1)"
    and del: "exec_evaluations (st_env s) (\<lambda>now. CreateDeleteEntityStatement (st_tenant s) i) c1 = (Inr n, c2)"
    and "cn_db c' = cn_db c2" "n \<noteq> 0"
    by (auto simp: delete_job_body_def evaluationJobDeleteResultError_def sbind_Inr_iff db_query_Inr split: if_splits)
  with getForUpdate_Inr[OF job] exec_Inr(1)[OF del]
  show "cn_db c' = (cn_db c)\<lparr>evaluations := filter (\<lambda>r. \<not> own_row (st_tenant s) i r) (evaluations (cn_db c))\<rparr>"
    "\<exists>r \<in> set (evaluations (cn_db c)). own_row (st_tenant s) i r"
    by (auto simp: CreateDeleteEntityStatement_def delete_rows_def filter_empty_conv)
qed

lemma db_ok_delete: "db_ok (cn_db c) \<Longrightarrow> delete_job_body s i c = (Inr u, c') \<Longrightarrow> db_ok (cn_db c')"
  using table_ok_delete_rows[of job_entity_ok "evaluations (cn_db c)" "own_row (st_tenant s) i"]
  by (auto simp: db_ok_def delete_rows_def dest!: delete_job_body_Inr(1))

lemma getCollectionForUpdate_Inr:
  assumes "getCollectionTransactionalForUpdate s i c = (Inr coll, c')"
  obtains row e where "find (getWhereStatement (st_tenant s) i) (collections (cn_db c)) = Some row"
    "isVisibleResource s (row_resource row)" "rw_entity row = Json e" "coll = collection_resource (row_resource row) e"
    "cn_db c' = cn_db c"
  using assms that
  by (auto simp: getCollectionTransactionalForUpdate_def getCollectionTransactionalWithLock_def sbind_Inr_iff db_query_Inr
           split: option.splits if_splits json_column.splits)

lemma collection_entity_resource [simp]: "collection_entity (collection_resource r e) = e"
  by (simp add: collection_entity_def collection_resource_def)

lemma updateCollectionTransactional_Inr:
  assumes "updateCollectionTransactional s i coll c = (Inr u, c')"
  obtains now where "collection_entity_ok (collection_entity coll)"
    "cn_db c' = (cn_db c)\<lparr>collections := map (\<lambda>r. if own_row (st_tenant s) i r
        then r\<lparr>rw_entity := Json (collection_entity coll), rw_updated_at := now\<rparr> else r) (collections (cn_db c))\<rparr>"
proof -
  from assms obtain n where ok: "collection_entity_ok (collection_entity coll)"
    and "exec_collections (st_env s)
           (CreateUpdateEntityStatement (st_tenant s) i (Json (collection_entity coll))) c = (Inr n, c')"
    by (auto simp: updateCollectionTransactional_def sbind_Inr_iff createCollectionEntity_def json_Marshal_def
             split: if_splits)
  from exec_Inr(2)[OF this(2)] ok that show thesis
    by (auto simp: CreateUpdateEntityStatement_def update_rows_def)
qed

lemma rolls_back_updateCollection:
  "collection_entity_ok (collection_entity coll) \<Longrightarrow> rolls_back (updateCollectionTransactional s i coll)"
  unfolding updateCollectionTransactional_def rolls_back_def sbind_Inl_iff smap_err_Inl_iff
  by (auto simp: createCollectionEntity_def)

lemma stored_collection_ok:
  "db_ok d \<Longrightarrow> find p (collections d) = Some row \<Longrightarrow> rw_entity row = Json e \<Longrightarrow> collection_entity_ok e"
  by (auto simp: db_ok_def table_ok_def find_Some_iff list_all_length)

lemma count_run_ok [simp]:
  "collection_entity_ok (collection_entity (count_run c)) = collection_entity_ok (collection_entity c)"
  by (simp add: count_run_def collection_entity_def collection_entity_ok_def)

lemma clean_on_create_job_and_collection: "clean_on db_ok (create_job_and_collection_body s job cid)"
  unfolding clean_on_def
proof (intro allI impI)
  fix c e c'
  assume ok: "db_ok (cn_db c)" and body: "create_job_and_collection_body s job cid c = (Inl e, c')"
    and commits: "\<not> ShouldRollback e"
  have created: "\<not> createEvaluationJobTransactional s job c1 = (Inl e, c')" for c1
    using rolls_back_create commits unfolding rolls_back_def by blast
  from body created commits obtain coll c1 c2 where coll: "getCollectionTransactionalForUpdate s cid c = (Inr coll, c1)"
    and "(if IsSystemResource (co_Resource coll) then sreturn ()
          else updateCollectionTransactional s (r_ID (co_Resource coll)) (count_run coll)) c2 = (Inl e, c')"
    unfolding create_job_and_collection_body_def sbind_Inl_iff smap_err_Inl_iff smap_err_Inr_iff
    using WithRollback_rolls_back by blast
  then have upd: "updateCollectionTransactional s (r_ID (co_Resource coll)) (count_run coll) c2 = (Inl e, c')"
    by (simp split: if_splits)
  from getCollectionForUpdate_Inr[OF coll] obtain row en where
    "find (getWhereStatement (st_tenant s) cid) (collections (cn_db c)) = Some row" "rw_entity row = Json en"
    "coll = collection_resource (row_resource row) en" .
  with stored_collection_ok[OF ok] have "collection_entity_ok (collection_entity (count_run coll))" by simp
  from rolls_back_updateCollection[OF this] upd commits show "cn_db c' = cn_db c" unfolding rolls_back_def by blast
qed

lemma db_ok_create_job_and_collection:
  assumes "db_ok (cn_db c)" "create_job_and_collection_body s job cid c = (Inr u, c')" shows "db_ok (cn_db c')"
proof -
  from assms(2) obtain coll c1 c2 where coll: "getCollectionTransactionalForUpdate s cid c = (Inr coll, c1)"
    and job: "createEvaluationJobTransactional s job c1 = (Inr (), c2)"
    and upd: "(if IsSystemResource (co_Resource coll) then sreturn ()
          else updateCollectionTransactional s (r_ID (co_Resource coll)) (count_run coll)) c2 = (Inr (), c')"
    by (auto simp: create_job_and_collection_body_def sbind_Inr_iff)
  have "cn_db c1 = cn_db c" using keeps_dbD[OF keeps_db_getCollection(3) coll] .
  with db_ok_create[OF _ job] assms(1) have ok2: "db_ok (cn_db c2)" by simp
  show ?thesis
  proof (cases "IsSystemResource (co_Resource coll)")
    case True
    with upd ok2 show ?thesis by simp
  next
    case False
    with upd have "updateCollectionTransactional s (r_ID (co_Resource coll)) (count_run coll) c2 = (Inr (), c')" by simp
    from updateCollectionTransactional_Inr[OF this] obtain now where
      ok: "collection_entity_ok (collection_entity (count_run coll))"
      and db: "cn_db c' = (cn_db c2)\<lparr>collections := map (\<lambda>r. if own_row (st_tenant s) (r_ID (co_Resource coll)) r
        then r\<lparr>rw_entity := Json (collection_entity (count_run coll)), rw_updated_at := now\<rparr> else r) (collections (cn_db c2))\<rparr>" .
    have "table_ok collection_entity_ok (snd (update_rows (own_row (st_tenant s) (r_ID (co_Resource coll)))
       (\<lambda>r. r\<lparr>rw_entity := Json (collection_entity (count_run coll)), rw_updated_at := now\<rparr>) (collections (cn_db c2))))"
      using ok2 ok by (intro table_ok_update_rows) (auto simp: db_ok_def)
    with ok2 show ?thesis unfolding db by (simp add: db_ok_def update_rows_def)
  qed
qed

interpretation create_txn: transaction env name i db_ok "createEvaluationJobTransactional s job" for env name i s job
  by unfold_locales (auto intro: clean_clean_on clean_job_bodies db_ok_create)

interpretation create_count_txn: transaction env name i db_ok "create_job_and_collection_body s job cid" for env name i s job cid
  by unfold_locales (auto intro: clean_on_create_job_and_collection db_ok_create_job_and_collection)

interpretation delete_txn: transaction env name i db_ok "delete_job_body s j" for env name i s j
  by unfold_locales (auto intro: clean_clean_on clean_job_bodies db_ok_delete)

interpretation status_txn: transaction env name i db_ok "update_status_body s j state m" for env name i s j state m
  by unfold_locales (auto intro: clean_clean_on clean_job_bodies dest: status_body_update job_update_db_ok)

interpretation event_txn: transaction env name i db_ok "update_job_body s j event" for env name i s j event
  by unfold_locales (auto intro: clean_clean_on clean_job_bodies dest: update_job_body_update job_update_db_ok)

interpretation sha_txn: transaction env name i db_ok "resolved_sha_body s j index sha" for env name i s j index sha
  by unfold_locales (auto intro: clean_clean_on clean_job_bodies dest: sha_body_update job_update_db_ok)

interpretation oci_txn: transaction env name i db_ok "oci_body s j status crd" for env name i s j status crd
  by unfold_locales (auto intro: clean_clean_on clean_job_bodies dest: oci_body_update job_update_db_ok)

section \<open>Statuses and results by key\<close>

definition status_key :: "BenchmarkStatus \<Rightarrow> string \<times> string \<times> int" where
  "status_key b = (bs_ProviderID b, bs_ID b, bs_BenchmarkIndex b)"

definition result_key :: "BenchmarkResult \<Rightarrow> string \<times> string \<times> int" where
  "result_key r = (br_ProviderID r, br_ID r, br_BenchmarkIndex r)"

definition put_status :: "BenchmarkStatus \<Rightarrow> BenchmarkStatus list \<Rightarrow> BenchmarkStatus list" where
  "put_status new = upsert (\<lambda>b. status_key b = status_key new) (overwrite_status new) new"

definition put_result :: "BenchmarkResult \<Rightarrow> BenchmarkResult list \<Rightarrow> BenchmarkResult list" where
  "put_result new = upsert (\<lambda>b. result_key b = result_key new) (\<lambda>old. new) new"

lemma overwrite_status_key: "status_key b = status_key new \<Longrightarrow> status_key (overwrite_status new b) = status_key new"
  by (simp add: overwrite_status_def)

interpretation statuses: keyed_update status_key put_status
  by unfold_locales
     (auto simp: put_status_def upsert_keys find_upsert_other overwrite_status_key)

interpretation results: overwriting_update result_key put_result
  by unfold_locales
     (auto simp: put_result_def upsert_keys find_upsert_other find_upsert_own split: option.splits)

lemma same_event_key: "same_event event = (\<lambda>b. status_key b = status_key (event_status event))"
  by (auto simp: same_event_def status_key_def event_status_def fun_eq_iff)

lemma same_event_result_key:
  "same_event_result event = (\<lambda>r. result_key r = result_key (event_result event outcome))"
  by (auto simp: same_event_result_def result_key_def event_result_def fun_eq_iff)

lemma job_benchmarks_record_event:
  "ej_Status job \<noteq> None \<Longrightarrow>
   job_benchmarks (record_event job event outcome) = put_status (event_status event) (job_benchmarks job)"
  by (auto simp: job_benchmarks_def record_event_def updateBenchmarkStatus_def updateBenchmarkResults_def put_status_def
        same_event_key Let_def)

definition job_results :: "EvaluationJobResource \<Rightarrow> BenchmarkResult list" where
  "job_results job = (case ej_Results job of None \<Rightarrow> [] | Some r \<Rightarrow> rs_Benchmarks r)"

lemma job_results_record_event:
  "job_results (record_event job event outcome) =
   (if IsBenchmarkTerminalState (be_Status event) then put_result (event_result event outcome) (job_results job)
    else job_results job)"
  by (auto simp: job_results_def record_event_def updateBenchmarkStatus_def updateBenchmarkResults_def put_result_def
        same_event_result_key[of event outcome] empty_results_def Let_def split: option.splits)

end
