(* ===== verification/Job_Lifecycle.thy ===== *)
theory Job_Lifecycle
  imports Job_Invariants
begin

text \<open>
  The life of a job: the invariant of its row, the states it can move to, and the sequences of
  operations on the store as a step relation. The locale \<open>transition_system\<close> carries invariants from
  single steps to every reachable state.
\<close>

section \<open>Documents and rows\<close>

definition entity_state :: "EvaluationJobEntity \<Rightarrow> OverallState" where
  "entity_state en = (case en_Status en of None \<Rightarrow> OverallStateOther '''' | Some st \<Rightarrow> js_State st)"

definition entity_statuses :: "EvaluationJobEntity \<Rightarrow> BenchmarkStatus list" where
  "entity_statuses en = (case en_Status en of None \<Rightarrow> [] | Some st \<Rightarrow> js_Benchmarks st)"

definition entity_results :: "EvaluationJobEntity \<Rightarrow> BenchmarkResult list" where
  "entity_results en = (case en_Results en of None \<Rightarrow> [] | Some r \<Rightarrow> rs_Benchmarks r)"

definition keys_ok :: "BenchmarkStatus list \<Rightarrow> BenchmarkResult list \<Rightarrow> bool" where
  "keys_ok sts rs \<longleftrightarrow> distinct (map status_key sts) \<and> distinct (map result_key rs)"

definition row_ok :: "evaluation_row \<Rightarrow> bool" where
  "row_ok r =
     (case rw_entity r of
        NotJson t \<Rightarrow> True
      | Json en \<Rightarrow> rw_status r = OverallState_String (entity_state en) \<and> keys_ok (entity_statuses en) (entity_results en))"

text \<open>The invariant of the store.\<close>

definition store_ok :: "database \<Rightarrow> bool" where
  "store_ok d \<longleftrightarrow> db_ok d \<and> list_all row_ok (evaluations d)"

lemma backfill_key [simp]: "result_key (backfill_benchmark b) = result_key b"
  by (simp add: backfill_benchmark_def result_key_def Let_def)

lemma construct_facts:
  assumes "constructEvaluationResource res ex '''' en = Inr job"
  shows "job_state job = entity_state en" "job_benchmarks job = entity_statuses en"
    "map result_key (job_results job) = map result_key (entity_results en)" "ej_Resource job = res"
    "en_Config en = Some (ej_Config job)" "job_oci job = Option.bind (en_Results en) rs_OCI"
  using assms
  by (cases "en_Results en"; auto simp: constructEvaluationResource_def Let_def job_state_def entity_state_def
        job_benchmarks_def entity_statuses_def job_results_def entity_results_def zero_status_def backfillMetricsSchema_def
        job_oci_def split: option.splits)+

text \<open>A step that keeps keys apart, records the state it reports, and does not leave a final state.\<close>

definition good_step :: "(EvaluationJobResource \<Rightarrow> OverallState \<Rightarrow> EvaluationJobEntity \<Rightarrow> bool) \<Rightarrow> bool" where
  "good_step P \<longleftrightarrow>
     (\<forall>job st en. ej_Status job \<noteq> None \<longrightarrow> P job st en \<longrightarrow>
        entity_state en = st \<and>
        (keys_ok (job_benchmarks job) (job_results job) \<longrightarrow> keys_ok (entity_statuses en) (entity_results en)) \<and>
        (IsTerminalState (job_state job) \<longrightarrow> st = job_state job))"

lemma entity_of_job [simp]:
  "entity_state (job_entity job) = job_state job" "entity_statuses (job_entity job) = job_benchmarks job"
  "entity_results (job_entity job) = job_results job"
  by (simp_all add: entity_state_def job_state_def entity_statuses_def job_benchmarks_def entity_results_def job_results_def
        job_entity_def)

lemma cancel_benchmark_key [simp]: "status_key (cancel_benchmark m b) = status_key b"
  by (simp add: cancel_benchmark_def status_key_def)

lemma good_status_step: "good_step (status_step state m)"
  by (auto simp: good_step_def status_step_def status_entity_def entity_state_def entity_statuses_def entity_results_def
        keys_ok_def job_results_def o_def)

lemma job_of_set_overall [simp]:
  "ej_Status job \<noteq> None \<Longrightarrow> job_state (set_overall st m job) = st"
  "job_benchmarks (set_overall st m job) = job_benchmarks job" "job_results (set_overall st m job) = job_results job"
  by (auto simp: job_state_def set_overall_def job_benchmarks_def job_results_def split: option.splits)

lemma job_of_computeJobTestResult [simp]:
  "job_state (computeJobTestResult job coll) = job_state job"
  "job_benchmarks (computeJobTestResult job coll) = job_benchmarks job"
  "job_results (computeJobTestResult job coll) = job_results job"
  by (auto simp: job_state_def job_benchmarks_def job_results_def computeJobTestResult_def Let_def
        split: option.splits sum.splits)

lemma record_event_status [simp]: "ej_Status job \<noteq> None \<Longrightarrow> ej_Status (record_event job event outcome) \<noteq> None"
  by (auto simp: record_event_def updateBenchmarkStatus_def updateBenchmarkResults_def Let_def)

lemma after_event_facts:
  assumes "after_event event bs coll outcome job st job'" "ej_Status job \<noteq> None"
  shows "job_state job' = st"
    "job_benchmarks job' = put_status (event_status event) (job_benchmarks job)"
    "job_results job' = job_results (record_event job event outcome)"
    "st = fst (overall_of (length bs) (job_benchmarks job'))" "ej_Config job' = ej_Config job"
  using assms record_event_status[OF assms(2)]
  by (auto simp: after_event_def Let_def case_prod_beta job_benchmarks_record_event split: if_splits)

lemma keys_ok_record_event:
  assumes "keys_ok (job_benchmarks job) (job_results job)"
  shows "keys_ok (put_status (event_status event) (job_benchmarks job)) (job_results (record_event job event outcome))"
  using assms by (auto simp: keys_ok_def job_results_record_event statuses.distinct_upd results.distinct_upd)

lemma good_event_step: "good_step (event_step s d event)"
  unfolding good_step_def event_step_def
  using after_event_facts keys_ok_record_event by (fastforce simp: entity_of_job)

lemma job_of_config_update [simp]:
  "job_state (job\<lparr>ej_Config := cfg\<rparr>) = job_state job" "job_benchmarks (job\<lparr>ej_Config := cfg\<rparr>) = job_benchmarks job"
  "job_results (job\<lparr>ej_Config := cfg\<rparr>) = job_results job"
  "job_state (job\<lparr>ej_Results := rs\<rparr>) = job_state job" "job_benchmarks (job\<lparr>ej_Results := rs\<rparr>) = job_benchmarks job"
  by (simp_all add: job_state_def job_benchmarks_def job_results_def)

lemma good_sha_step: "good_step (sha_step s d index sha)"
  by (auto simp: good_step_def sha_step_def)

lemma job_results_oci [simp]: "job_results (job\<lparr>ej_Results := UpdateOCIResults (ej_Results job) status crd\<rparr>) = job_results job"
  by (auto simp: job_results_def UpdateOCIResults_def Let_def empty_results_def split: option.splits)

lemma good_oci_step: "good_step (oci_step status crd)"
  by (auto simp: good_step_def oci_step_def)

section \<open>Rows after an update\<close>

lemma update_row:
  assumes "job_update s i P d d'" "i \<noteq> ''''" "db_ok d" "r' \<in> set (evaluations d')"
  obtains (same) "r' \<in> set (evaluations d)"
  | (written) r job st en old where "r \<in> set (evaluations d)" "own_row (st_tenant s) i r" "rw_entity r = Json old"
      "constructEvaluationResource (row_resource r) (rw_experiment_id r) '''' old = Inr job" "P job st en"
      "rw_entity r' = Json en" "rw_status r' = OverallState_String st" "rw_id r' = rw_id r" "rw_tenant_id r' = rw_tenant_id r"
proof -
  from assms(1) consider "d' = d" | job st en where "reads_as s (st_workload_type s) i d job" "P job st en"
    "writes (st_tenant s) i st en d d'" unfolding job_update_def by blast
  then show thesis
  proof cases
    case 1
    with assms(4) same show thesis by simp
  next
    case 2
    then obtain now r where r: "r \<in> set (evaluations d)" "r' = write_job (st_tenant s) i st en now r"
      using assms(4) by (auto simp: writes_def)
    show thesis
    proof (cases "own_row (st_tenant s) i r")
      case False
      with r same show thesis by (simp add: write_job_def)
    next
      case True
      with reads_as_row[OF 2(1) assms(2) _ r(1)] assms(3) obtain old where "rw_entity r = Json old"
        "constructEvaluationResource (row_resource r) (rw_experiment_id r) '''' old = Inr job"
        by (auto simp: own_row_def db_ok_def table_ok_def)
      with r True 2(2) written show thesis by (simp add: write_job_def)
    qed
  qed
qed

lemma construct_status: "constructEvaluationResource res ex st en = Inr job \<Longrightarrow> ej_Status job \<noteq> None"
  by (auto simp: constructEvaluationResource_def Let_def split: option.splits)

lemma job_update_store_ok:
  assumes "job_update s i P d d'" "good_step P" "i \<noteq> ''''" "store_ok d"
  shows "store_ok d'"
proof -
  have db: "db_ok d" using assms(4) by (simp add: store_ok_def)
  have "row_ok r'" if r': "r' \<in> set (evaluations d')" for r'
    using assms(1,3) db r'
  proof (cases rule: update_row)
    case same
    with assms(4) show ?thesis by (simp add: store_ok_def list_all_iff)
  next
    case (written r job st en old)
    have "row_ok r" using written(1) assms(4) by (simp add: store_ok_def list_all_iff)
    with written(3) have "keys_ok (entity_statuses old) (entity_results old)" by (simp add: row_ok_def)
    then have "keys_ok (job_benchmarks job) (job_results job)"
      using construct_facts[OF written(4)] by (simp add: keys_ok_def)
    with assms(2) written(5) construct_status[OF written(4)]
    have "entity_state en = st" "keys_ok (entity_statuses en) (entity_results en)" by (auto simp: good_step_def)
    with written(6,7) show ?thesis by (simp add: row_ok_def)
  qed
  with job_update_db_ok[OF assms(1) db] show ?thesis by (simp add: store_ok_def list_all_iff)
qed

text \<open>The state that the row of a job records.\<close>

definition row_state :: "evaluation_row \<Rightarrow> OverallState option" where
  "row_state r = (case rw_entity r of Json en \<Rightarrow> Some (entity_state en) | NotJson t \<Rightarrow> None)"

definition has_state :: "database \<Rightarrow> string \<Rightarrow> OverallState \<Rightarrow> bool" where
  "has_state d j st \<longleftrightarrow> (\<exists>r \<in> set (evaluations d). rw_id r = j \<and> row_state r = Some st)"

definition job_ids :: "database \<Rightarrow> string set" where
  "job_ids d = rw_id ` set (evaluations d)"

lemma has_state_unique: "db_ok d \<Longrightarrow> has_state d j st \<Longrightarrow> r \<in> set (evaluations d) \<Longrightarrow> rw_id r = j \<Longrightarrow> row_state r = Some st"
  unfolding has_state_def db_ok_def table_ok_def by (metis distinct_map inj_onD)

lemma job_update_ids: "job_update s i P d d' \<Longrightarrow> job_ids d' = job_ids d"
  by (auto simp: job_update_def writes_def job_ids_def image_image)

lemma job_update_final:
  assumes "job_update s i P d d'" "good_step P" "i \<noteq> ''''" "db_ok d" "has_state d j st" "IsTerminalState st"
  shows "has_state d' j st"
proof -
  from assms(5) have "j \<in> job_ids d" by (auto simp: has_state_def job_ids_def)
  then have "j \<in> job_ids d'" using job_update_ids[OF assms(1)] by simp
  then obtain r' where r': "r' \<in> set (evaluations d')" "rw_id r' = j" by (auto simp: job_ids_def)
  have "row_state r' = Some st" using assms(1,3,4) r'(1)
  proof (cases rule: update_row)
    case same
    with has_state_unique[OF assms(4,5)] r' show ?thesis by simp
  next
    case (written r job st' en old)
    with has_state_unique[OF assms(4,5), of r] r' have "entity_state old = st" by (simp add: row_state_def)
    with construct_facts(1)[OF written(4)] have "job_state job = st" by simp
    with assms(2,6) written(5) construct_status[OF written(4)] have "entity_state en = st" by (auto simp: good_step_def)
    with written(6) show ?thesis by (simp add: row_state_def)
  qed
  with r' show ?thesis by (auto simp: has_state_def)
qed

section \<open>Sequences of operations\<close>

datatype job_op =
    OpCreate EvaluationJobResource
  | OpCreateAndCount EvaluationJobResource
  | OpDelete string
  | OpStatus string OverallState "MessageInfo option"
  | OpEvent string BenchmarkStatusEvent
  | OpResolvedSHA string int string
  | OpOCI string "OCIProcessingStatus option" "OCIArtifactReference option"

fun run_op :: "sqlStorage \<Rightarrow> job_op \<Rightarrow> unit stm" where
  "run_op s (OpCreate job) = CreateEvaluationJob s job"
| "run_op s (OpCreateAndCount job) = CreateEvaluationJobAndUpdateCollection s job"
| "run_op s (OpDelete i) = DeleteEvaluationJob s i"
| "run_op s (OpStatus i state m) = UpdateEvaluationJobStatus s i state m"
| "run_op s (OpEvent i event) = UpdateEvaluationJob s i event"
| "run_op s (OpResolvedSHA i index sha) = UpdateEvaluationJobResolvedSHA s i index sha"
| "run_op s (OpOCI i status crd) = UpdateEvaluationJobOCI s i status crd"

text \<open>
  What the handlers guarantee of the arguments: identifiers are not empty, and a new job has one
  status per benchmark and no two results for one.
\<close>

fun op_ok :: "job_op \<Rightarrow> bool" where
  "op_ok (OpCreate job) = (r_ID (ej_Resource job) \<noteq> '''' \<and> keys_ok (job_benchmarks job) (job_results job))"
| "op_ok (OpCreateAndCount job) = (r_ID (ej_Resource job) \<noteq> '''' \<and> keys_ok (job_benchmarks job) (job_results job))"
| "op_ok (OpDelete i) = (i \<noteq> '''')"
| "op_ok (OpStatus i state m) = (i \<noteq> '''')"
| "op_ok (OpEvent i event) = (i \<noteq> '''')"
| "op_ok (OpResolvedSHA i index sha) = (i \<noteq> '''')"
| "op_ok (OpOCI i status crd) = (i \<noteq> '''')"

lemma run_op_relates:
  assumes "db_ok (cn_db c)" "\<And>d. R d d"
    and create: "\<And>job c1 c2. op = OpCreate job \<Longrightarrow> db_ok (cn_db c1) \<Longrightarrow>
          createEvaluationJobTransactional s job c1 = (Inr (), c2) \<Longrightarrow> R (cn_db c1) (cn_db c2)"
    and count: "\<And>job cid c1 c2. op = OpCreateAndCount job \<Longrightarrow> db_ok (cn_db c1) \<Longrightarrow>
          create_job_and_collection_body s job cid c1 = (Inr (), c2) \<Longrightarrow> R (cn_db c1) (cn_db c2)"
    and delete: "\<And>i c1 c2. op = OpDelete i \<Longrightarrow> db_ok (cn_db c1) \<Longrightarrow> delete_job_body s i c1 = (Inr (), c2) \<Longrightarrow>
          R (cn_db c1) (cn_db c2)"
    and update: "\<And>i P d d'. op_ok op \<longrightarrow> i \<noteq> '''' \<Longrightarrow> good_step P \<Longrightarrow> db_ok d \<Longrightarrow> job_update s i P d d' \<Longrightarrow> R d d'"
  shows "R (cn_db c) (cn_db (snd (run_op s op c)))"
proof (cases op)
  case (OpCreate job)
  then show ?thesis using create_txn.relates[of c R] assms(1,2) create by (simp add: CreateEvaluationJob_def)
next
  case (OpCreateAndCount job)
  then show ?thesis
    using create_count_txn.relates[of c R] assms(1,2) count
    by (simp add: CreateEvaluationJobAndUpdateCollection_def Let_def sthrow_def)
next
  case (OpDelete i)
  then show ?thesis using delete_txn.relates[of c R] assms(1,2) delete by (simp add: DeleteEvaluationJob_def)
next
  case (OpStatus i state m)
  have "R (cn_db c1) (cn_db c2)" if "db_ok (cn_db c1)" "update_status_body s i state m' c1 = (Inr u, c2)" for c1 m' u c2
    using OpStatus update[OF _ good_status_step that(1) status_body_update[OF that(2)]] by simp
  then show ?thesis using status_txn.relates[of c R] assms(1,2) OpStatus by (simp add: UpdateEvaluationJobStatus_def)
next
  case (OpEvent i event)
  have "R (cn_db c1) (cn_db c2)" if "db_ok (cn_db c1)" "update_job_body s i event c1 = (Inr u, c2)" for c1 u c2
    using OpEvent update[OF _ good_event_step that(1) update_job_body_update[OF that(2)]] by simp
  then show ?thesis using event_txn.relates[of c R] assms(1,2) OpEvent by (simp add: UpdateEvaluationJob_def)
next
  case (OpResolvedSHA i index sha)
  have "R (cn_db c1) (cn_db c2)" if "db_ok (cn_db c1)" "resolved_sha_body s i index sha c1 = (Inr u, c2)" for c1 u c2
    using OpResolvedSHA update[OF _ good_sha_step that(1) sha_body_update[OF that(2)]] by simp
  then show ?thesis using sha_txn.relates[of c R] assms(1,2) OpResolvedSHA
    by (simp add: UpdateEvaluationJobResolvedSHA_def sreturn_def sthrow_def split: option.split)
next
  case (OpOCI i status crd)
  have "R (cn_db c1) (cn_db c2)" if "db_ok (cn_db c1)" "oci_body s i st crd c1 = (Inr u, c2)" for c1 st u c2
    using OpOCI update[OF _ good_oci_step that(1) oci_body_update[OF that(2)]] by simp
  then show ?thesis using oci_txn.relates[of c R] assms(1,2) OpOCI
    by (simp add: UpdateEvaluationJobOCI_def sthrow_def split: option.split)
qed

lemma create_store_ok:
  assumes "store_ok (cn_db c)" "keys_ok (job_benchmarks job) (job_results job)"
    and "createEvaluationJobTransactional s job c = (Inr u, c')"
  shows "store_ok (cn_db c')"
proof -
  have row: "row_ok (evaluation_row_of job wt (Json (job_entity job)) now)" for wt now
    using assms(2) by (simp add: row_ok_def evaluation_row_of_def)
  have "list_all row_ok (evaluations (cn_db c'))"
    by (rule createEvaluationJobTransactional_Inr[OF assms(3)]) (use assms(1) row in \<open>simp add: store_ok_def\<close>)
  with db_ok_create[OF _ assms(3)] assms(1) show ?thesis by (simp add: store_ok_def)
qed

lemma create_job_and_collection_evaluations:
  assumes "create_job_and_collection_body s job cid c = (Inr u, c')"
  obtains c1 c2 where "cn_db c1 = cn_db c" "createEvaluationJobTransactional s job c1 = (Inr (), c2)"
    "evaluations (cn_db c') = evaluations (cn_db c2)"
proof -
  from assms obtain coll c1 c2 where coll: "getCollectionTransactionalForUpdate s cid c = (Inr coll, c1)"
    and job: "createEvaluationJobTransactional s job c1 = (Inr (), c2)"
    and upd: "(if IsSystemResource (co_Resource coll) then sreturn ()
          else updateCollectionTransactional s (r_ID (co_Resource coll)) (count_run coll)) c2 = (Inr (), c')"
    by (auto simp: create_job_and_collection_body_def sbind_Inr_iff)
  have "cn_db c1 = cn_db c" using keeps_dbD[OF keeps_db_getCollection(3) coll] .
  moreover have "evaluations (cn_db c') = evaluations (cn_db c2)"
    using upd by (auto split: if_splits elim!: updateCollectionTransactional_Inr)
  ultimately show thesis using job that by blast
qed

theorem run_op_store_ok:
  assumes "store_ok (cn_db c)" "op_ok op" shows "store_ok (cn_db (snd (run_op s op c)))"
proof -
  have "store_ok (cn_db c) \<longrightarrow> store_ok (cn_db (snd (run_op s op c)))"
  proof (rule run_op_relates[where R = "\<lambda>d d'. store_ok d \<longrightarrow> store_ok d'"])
    show "db_ok (cn_db c)" using assms(1) by (simp add: store_ok_def)
  next
    fix job c1 c2
    assume "op = OpCreate job" "createEvaluationJobTransactional s job c1 = (Inr (), c2)"
    then show "store_ok (cn_db c1) \<longrightarrow> store_ok (cn_db c2)" using create_store_ok assms(2) by auto
  next
    fix job cid c1 c2
    assume op: "op = OpCreateAndCount job" and ok: "db_ok (cn_db c1)"
      and body: "create_job_and_collection_body s job cid c1 = (Inr (), c2)"
    from create_job_and_collection_evaluations[OF body] obtain d1 d2 where
      "cn_db d1 = cn_db c1" "createEvaluationJobTransactional s job d1 = (Inr (), d2)"
      "evaluations (cn_db c2) = evaluations (cn_db d2)" .
    with create_store_ok[of d1 job s "()" d2] db_ok_create_job_and_collection[OF ok body] op assms(2)
    show "store_ok (cn_db c1) \<longrightarrow> store_ok (cn_db c2)" by (auto simp: store_ok_def)
  next
    fix i c1 c2
    assume "db_ok (cn_db c1)" "delete_job_body s i c1 = (Inr (), c2)"
    then show "store_ok (cn_db c1) \<longrightarrow> store_ok (cn_db c2)"
      using db_ok_delete[of c1 s i "()" c2] delete_job_body_Inr(1)[of s i c1 "()" c2] by (auto simp: store_ok_def list_all_iff)
  qed (use job_update_store_ok assms(2) in auto)
  with assms(1) show ?thesis by blast
qed

section \<open>Final states\<close>

lemma create_keeps_states:
  assumes "createEvaluationJobTransactional s job c = (Inr u, c')" "has_state (cn_db c) j st"
  shows "has_state (cn_db c') j st"
  by (rule createEvaluationJobTransactional_Inr[OF assms(1)]) (use assms(2) in \<open>auto simp: has_state_def\<close>)

theorem run_op_final:
  assumes "db_ok (cn_db c)" "op_ok op" "has_state (cn_db c) j st" "IsTerminalState st"
    and "j \<in> job_ids (cn_db (snd (run_op s op c)))"
  shows "has_state (cn_db (snd (run_op s op c))) j st"
proof -
  let ?R = "\<lambda>d d'. has_state d j st \<longrightarrow> j \<in> job_ids d' \<longrightarrow> has_state d' j st"
  have "?R (cn_db c) (cn_db (snd (run_op s op c)))"
  proof (rule run_op_relates[where R = ?R])
    fix job cid c1 c2
    assume body: "create_job_and_collection_body s job cid c1 = (Inr (), c2)"
    from create_job_and_collection_evaluations[OF body] obtain d1 d2 where
      "cn_db d1 = cn_db c1" "createEvaluationJobTransactional s job d1 = (Inr (), d2)"
      "evaluations (cn_db c2) = evaluations (cn_db d2)" .
    with create_keeps_states[of s job d1 "()" d2 j st] show "?R (cn_db c1) (cn_db c2)"
      by (auto simp: has_state_def)
  next
    fix i c1 c2
    assume ok: "db_ok (cn_db c1)" and body: "delete_job_body s i c1 = (Inr (), c2)"
    show "?R (cn_db c1) (cn_db c2)"
    proof (intro impI)
      assume "has_state (cn_db c1) j st" "j \<in> job_ids (cn_db c2)"
      then obtain r where "r \<in> set (evaluations (cn_db c2))" "rw_id r = j" "row_state r = Some st"
        using has_state_unique[OF ok] delete_job_body_Inr(1)[OF body] by (auto simp: job_ids_def)
      then show "has_state (cn_db c2) j st" by (auto simp: has_state_def)
    qed
  qed (use assms(1,2,4) job_update_final create_keeps_states in auto)
  with assms(3,5) show ?thesis by blast
qed

lemma run_op_error:
  assumes "db_ok (cn_db c)" "run_op s op c = (Inl e, c')" shows "cn_db c' = cn_db c"
proof (cases op)
  case (OpCreate job)
  with assms show ?thesis by (auto simp: CreateEvaluationJob_def intro: create_txn.error_keeps_db)
next
  case (OpCreateAndCount job)
  with assms show ?thesis
    by (auto simp: CreateEvaluationJobAndUpdateCollection_def Let_def intro: create_count_txn.error_keeps_db split: if_splits)
next
  case (OpDelete i)
  with assms show ?thesis by (auto simp: DeleteEvaluationJob_def intro: delete_txn.error_keeps_db)
next
  case (OpStatus i st m)
  with assms show ?thesis by (auto simp: UpdateEvaluationJobStatus_def intro: status_txn.error_keeps_db)
next
  case (OpEvent i ev)
  with assms show ?thesis by (auto simp: UpdateEvaluationJob_def intro: event_txn.error_keeps_db)
next
  case (OpResolvedSHA i idx sha)
  with assms show ?thesis
    by (auto simp: UpdateEvaluationJobResolvedSHA_def intro: sha_txn.error_keeps_db split: if_splits option.splits)
next
  case (OpOCI i st crd)
  with assms show ?thesis by (auto simp: UpdateEvaluationJobOCI_def intro: oci_txn.error_keeps_db split: option.splits)
qed

section \<open>Reachable states\<close>

text \<open>
  One step of the store: an operation under any handle, in any environment, or a change of the
  catalog of collections and providers, which leaves the jobs alone.
\<close>

inductive store_step :: "database \<Rightarrow> database \<Rightarrow> bool" where
  operation: "op_ok op \<Longrightarrow> cn_db c = d \<Longrightarrow> store_step d (cn_db (snd (run_op s op c)))"
| catalog: "db_ok d' \<Longrightarrow> evaluations d' = evaluations d \<Longrightarrow> store_step d d'"

inductive_cases store_stepE: "store_step d d'"

locale transition_system =
  fixes step :: "'s \<Rightarrow> 's \<Rightarrow> bool" and inv :: "'s \<Rightarrow> bool"
  assumes inv_step: "inv s \<Longrightarrow> step s t \<Longrightarrow> inv t"
begin

lemma inv_steps: "step\<^sup>*\<^sup>* s t \<Longrightarrow> inv s \<Longrightarrow> inv t"
  by (induction rule: rtranclp_induct) (auto intro: inv_step)

end

lemma store_step_ok: "store_ok d \<Longrightarrow> store_step d d' \<Longrightarrow> store_ok d'"
  by (erule store_stepE) (auto simp: store_ok_def run_op_store_ok[unfolded store_ok_def])

interpretation store_sys: transition_system store_step store_ok
  by unfold_locales (rule store_step_ok)

definition empty_db :: database where
  "empty_db = \<lparr>evaluations = [], collections = [], providers = []\<rparr>"

lemma store_ok_empty [simp]: "store_ok empty_db"
  by (simp add: store_ok_def empty_db_def db_ok_def)

text \<open>The steps during which a job is not deleted.\<close>

definition keeping_step :: "string \<Rightarrow> database \<Rightarrow> database \<Rightarrow> bool" where
  "keeping_step j d d' \<longleftrightarrow> store_step d d' \<and> j \<in> job_ids d'"

definition settled :: "string \<Rightarrow> OverallState \<Rightarrow> database \<Rightarrow> bool" where
  "settled j st d \<longleftrightarrow> store_ok d \<and> has_state d j st \<and> IsTerminalState st"

lemma settled_step: "settled j st d \<Longrightarrow> keeping_step j d d' \<Longrightarrow> settled j st d'"
  unfolding settled_def keeping_step_def
proof (elim conjE, intro conjI)
  assume ok: "store_ok d" and st: "has_state d j st" "IsTerminalState st" and step: "store_step d d'" and j: "j \<in> job_ids d'"
  show "store_ok d'" using store_step_ok[OF ok step] .
  from step show "has_state d' j st"
  proof (cases rule: store_step.cases)
    case (operation op c s)
    with run_op_final[of c op j st s] ok st j show ?thesis by (auto simp: store_ok_def)
  next
    case catalog
    with st show ?thesis by (simp add: has_state_def)
  qed
qed

interpretation final_sys: transition_system "keeping_step j" "settled j st" for j st
  by unfold_locales (rule settled_step)

section \<open>Tenants\<close>

text \<open>The rows of the evaluations table that a handle may not write.\<close>

definition foreign_rows :: "Tenant \<Rightarrow> database \<Rightarrow> evaluation_row list" where
  "foreign_rows t d = filter (\<lambda>r. rw_tenant_id r \<noteq> t) (evaluations d)"

lemma foreign_writes: "t \<noteq> '''' \<Longrightarrow> writes t i st en d d' \<Longrightarrow> foreign_rows t d' = foreign_rows t d"
proof -
  assume t: "t \<noteq> ''''" and "writes t i st en d d'"
  then obtain now where d': "d' = d\<lparr>evaluations := map (write_job t i st en now) (evaluations d)\<rparr>"
    by (auto simp: writes_def)
  have "filter (\<lambda>r. rw_tenant_id r \<noteq> t) (map (write_job t i st en now) rows) = filter (\<lambda>r. rw_tenant_id r \<noteq> t) rows" for rows
    by (induction rows) (auto simp: write_job_def own_row_def Tenant_IsEmpty_def t)
  then show ?thesis by (simp add: d' foreign_rows_def)
qed

fun op_tenant_ok :: "Tenant \<Rightarrow> job_op \<Rightarrow> bool" where
  "op_tenant_ok t (OpCreate job) = (r_Tenant (ej_Resource job) = t)"
| "op_tenant_ok t (OpCreateAndCount job) = (r_Tenant (ej_Resource job) = t)"
| "op_tenant_ok t _ = True"

lemma foreign_create:
  assumes "createEvaluationJobTransactional s job c = (Inr u, c')" "r_Tenant (ej_Resource job) = t"
  shows "foreign_rows t (cn_db c') = foreign_rows t (cn_db c)"
  by (rule createEvaluationJobTransactional_Inr[OF assms(1)])
     (use assms(2) in \<open>simp add: foreign_rows_def evaluation_row_of_def\<close>)

theorem run_op_foreign:
  assumes "db_ok (cn_db c)" "st_tenant s \<noteq> ''''" "op_tenant_ok (st_tenant s) op"
  shows "foreign_rows (st_tenant s) (cn_db (snd (run_op s op c))) = foreign_rows (st_tenant s) (cn_db c)"
proof (rule run_op_relates[where R = "\<lambda>d d'. foreign_rows (st_tenant s) d' = foreign_rows (st_tenant s) d"])
  fix job cid c1 c2
  assume op: "op = OpCreateAndCount job" and body: "create_job_and_collection_body s job cid c1 = (Inr (), c2)"
  from create_job_and_collection_evaluations[OF body] obtain d1 d2 where
    "cn_db d1 = cn_db c1" "createEvaluationJobTransactional s job d1 = (Inr (), d2)"
    "evaluations (cn_db c2) = evaluations (cn_db d2)" .
  with foreign_create[of s job d1 "()" d2] op assms(3)
  show "foreign_rows (st_tenant s) (cn_db c2) = foreign_rows (st_tenant s) (cn_db c1)" by (simp add: foreign_rows_def)
next
  fix i c1 c2
  assume "delete_job_body s i c1 = (Inr (), c2)"
  from delete_job_body_Inr(1)[OF this] assms(2)
  show "foreign_rows (st_tenant s) (cn_db c2) = foreign_rows (st_tenant s) (cn_db c1)"
    by (auto simp: foreign_rows_def own_row_def Tenant_IsEmpty_def intro: filter_cong)
qed (use assms foreign_create foreign_writes in \<open>auto simp: job_update_def\<close>)

end
