(* ===== verification/Overall_Status.thy ===== *)
theory Overall_Status
  imports Job_Lifecycle
begin

text \<open>
  The overall state of a job against its benchmarks: the counting of getOverallJobStatus decides
  whether every benchmark is done, provided each status belongs to one benchmark of the job.
\<close>

definition statuses_for :: "EvaluationBenchmarkConfig list \<Rightarrow> BenchmarkStatus list \<Rightarrow> bool" where
  "statuses_for bs sts \<longleftrightarrow>
     distinct (map status_key sts) \<and>
     (\<forall>b \<in> set sts. 0 \<le> bs_BenchmarkIndex b \<and> bs_BenchmarkIndex b < int (length bs) \<and>
        bs_ProviderID b = eb_ProviderID (bs ! nat (bs_BenchmarkIndex b)) \<and> bs_ID b = eb_ID (bs ! nat (bs_BenchmarkIndex b)))"

text \<open>The positions of the benchmarks whose status satisfies \<open>P\<close>.\<close>

definition covered :: "EvaluationBenchmarkConfig list \<Rightarrow> BenchmarkStatus list \<Rightarrow> (State \<Rightarrow> bool) \<Rightarrow> nat set" where
  "covered bs sts P = {i. i < length bs \<and> (\<exists>b \<in> set sts. bs_BenchmarkIndex b = int i \<and> P (bs_Status b))}"

lemma statuses_for_distinct_index:
  assumes "statuses_for bs sts" shows "distinct (map bs_BenchmarkIndex sts)"
proof -
  have "inj_on bs_BenchmarkIndex (set sts)"
  proof (rule inj_onI)
    fix a b assume "a \<in> set sts" "b \<in> set sts" "bs_BenchmarkIndex a = bs_BenchmarkIndex b"
    with assms have "status_key a = status_key b" by (auto simp: statuses_for_def status_key_def)
    with assms \<open>a \<in> set sts\<close> \<open>b \<in> set sts\<close> show "a = b"
      unfolding statuses_for_def distinct_map by (auto dest: inj_onD)
  qed
  moreover have "distinct sts" using assms by (simp add: statuses_for_def distinct_map)
  ultimately show ?thesis by (simp add: distinct_map)
qed

lemma card_covered:
  assumes "statuses_for bs sts"
  shows "length (filter (\<lambda>b. P (bs_Status b)) sts) = card (covered bs sts P)"
proof -
  let ?f = "filter (\<lambda>b. P (bs_Status b)) sts"
  have "length ?f = card (set (map bs_BenchmarkIndex ?f))"
    using statuses_for_distinct_index[OF assms] distinct_card[of "map bs_BenchmarkIndex ?f"]
    by (simp add: distinct_map_filter)
  also have "set (map bs_BenchmarkIndex ?f) = int ` covered bs sts P"
  proof (intro equalityI subsetI)
    fix x assume "x \<in> set (map bs_BenchmarkIndex ?f)"
    then obtain b where "b \<in> set sts" "P (bs_Status b)" "x = bs_BenchmarkIndex b" by auto
    moreover from this(1) assms have "0 \<le> bs_BenchmarkIndex b" "bs_BenchmarkIndex b < int (length bs)"
      by (auto simp: statuses_for_def)
    ultimately have "x = int (nat x)" "nat x \<in> covered bs sts P" by (auto simp: covered_def)
    then show "x \<in> int ` covered bs sts P" by blast
  qed (force simp: covered_def image_iff)
  finally show ?thesis by (simp add: card_image)
qed

lemma card_covered_all: "card (covered bs sts P) = length bs \<longleftrightarrow> covered bs sts P = {..<length bs}"
proof
  assume "card (covered bs sts P) = length bs"
  moreover have "covered bs sts P \<subseteq> {..<length bs}" by (auto simp: covered_def)
  ultimately show "covered bs sts P = {..<length bs}" by (intro card_subset_eq) auto
qed simp

lemma count_state_all:
  assumes "statuses_for bs sts"
  shows "count_state st sts = length bs \<longleftrightarrow> (\<forall>i < length bs. \<exists>b \<in> set sts. bs_BenchmarkIndex b = int i \<and> bs_Status b = st)"
  using card_covered[OF assms, of "\<lambda>x. x = st"] card_covered_all[of bs sts "\<lambda>x. x = st"]
  by (auto simp: count_state_def covered_def)

lemma terminal_count:
  "count_state StateCompleted sts + count_state StateFailed sts + count_state StateCancelled sts =
   length (filter (\<lambda>b. IsBenchmarkTerminalState (bs_Status b)) sts)"
  by (induction sts) (auto simp: count_state_def IsBenchmarkTerminalState_def)

lemma terminal_count_all:
  assumes "statuses_for bs sts"
  shows "count_state StateCompleted sts + count_state StateFailed sts + count_state StateCancelled sts = length bs \<longleftrightarrow>
    (\<forall>i < length bs. \<exists>b \<in> set sts. bs_BenchmarkIndex b = int i \<and> IsBenchmarkTerminalState (bs_Status b))"
  using card_covered[OF assms, of IsBenchmarkTerminalState] card_covered_all[of bs sts IsBenchmarkTerminalState]
  by (auto simp: terminal_count covered_def)

lemma terminal_count_le:
  assumes "statuses_for bs sts"
  shows "count_state StateCompleted sts + count_state StateFailed sts + count_state StateCancelled sts \<le> length bs"
proof -
  have "covered bs sts IsBenchmarkTerminalState \<subseteq> {..<length bs}" by (auto simp: covered_def)
  from card_mono[OF _ this] show ?thesis
    by (simp add: terminal_count card_covered[OF assms, of IsBenchmarkTerminalState])
qed

lemma overall_completed:
  "statuses_for bs sts \<Longrightarrow> fst (overall_of (length bs) sts) = OverallStateCompleted \<longleftrightarrow> count_state StateCompleted sts = length bs"
  by (auto simp: overall_of_def Let_def)

lemma overall_terminal:
  assumes "statuses_for bs sts"
  shows "IsTerminalState (fst (overall_of (length bs) sts)) \<longleftrightarrow>
    count_state StateCompleted sts + count_state StateFailed sts + count_state StateCancelled sts = length bs"
  using terminal_count_le[OF assms] by (auto simp: overall_of_def Let_def)

lemma statuses_for_put:
  assumes "statuses_for bs sts" "0 \<le> bs_BenchmarkIndex new" "bs_BenchmarkIndex new < int (length bs)"
    "bs_ProviderID new = eb_ProviderID (bs ! nat (bs_BenchmarkIndex new))" "bs_ID new = eb_ID (bs ! nat (bs_BenchmarkIndex new))"
  shows "statuses_for bs (put_status new sts)"
proof -
  let ?Q = "\<lambda>b. 0 \<le> bs_BenchmarkIndex b \<and> bs_BenchmarkIndex b < int (length bs) \<and>
        bs_ProviderID b = eb_ProviderID (bs ! nat (bs_BenchmarkIndex b)) \<and> bs_ID b = eb_ID (bs ! nat (bs_BenchmarkIndex b))"
  have "?Q b" if "b \<in> set (put_status new sts)" for b
  proof -
    from that have "b = new \<or> b \<in> set sts \<or> (\<exists>y \<in> set sts. b = overwrite_status new y)"
      unfolding put_status_def using set_upsert by fast
    with assms show ?thesis by (auto simp: statuses_for_def overwrite_status_def)
  qed
  with assms(1) show ?thesis by (auto simp: statuses_for_def statuses.distinct_upd)
qed

lemma validated_event:
  assumes "validateBenchmarkExists job event coll = None" "GetJobBenchmarks job coll = Inr bs"
  shows "0 \<le> be_BenchmarkIndex event" "be_BenchmarkIndex event < int (length bs)"
    "be_ProviderID event = eb_ProviderID (bs ! nat (be_BenchmarkIndex event))"
    "be_ID event = eb_ID (bs ! nat (be_BenchmarkIndex event))"
proof -
  from assms obtain x where x: "x < length bs" "eb_ID (bs ! x) = be_ID event" "eb_ProviderID (bs ! x) = be_ProviderID event"
    "be_BenchmarkIndex event = int x"
    by (auto simp: validateBenchmarkExists_def list_ex_iff event_at_def split: if_splits)
  then show "0 \<le> be_BenchmarkIndex event" "be_BenchmarkIndex event < int (length bs)"
    "be_ProviderID event = eb_ProviderID (bs ! nat (be_BenchmarkIndex event))"
    "be_ID event = eb_ID (bs ! nat (be_BenchmarkIndex event))" by simp_all
qed

lemma statuses_for_event:
  assumes "statuses_for bs sts" "validateBenchmarkExists job event coll = None" "GetJobBenchmarks job coll = Inr bs"
  shows "statuses_for bs (put_status (event_status event) sts)"
  using validated_event[OF assms(2,3)] by (intro statuses_for_put[OF assms(1)]) (simp_all add: event_status_def)

end
