(* ===== verification/Store_Samples.thy ===== *)
theory Store_Samples
  imports Job_Lifecycle Samples
begin

text \<open>Small concrete stores, jobs and events on which the witnesses of the job store evaluate the model.\<close>

definition quiet :: env where
  "quiet = \<lparr>env_fault = (\<lambda>n. None), env_now = (\<lambda>n. 7), env_duplicate = (\<lambda>t. PlainErr ''UNIQUE constraint failed'')\<rparr>"

definition sample_storage :: "env \<Rightarrow> sqlStorage" where
  "sample_storage env =
     \<lparr>st_dialect = SQLite, st_tenant = ''t1'', st_owner = ''u1'', st_workload_type = '''', st_registry = [],
      st_env = env, st_json_error = ''''\<rparr>"

definition sample_row :: "EvaluationJobResource \<Rightarrow> evaluation_row" where
  "sample_row job = evaluation_row_of job Evaluation (Json (job_entity job)) 1"

definition sample_db :: "EvaluationJobResource list \<Rightarrow> database" where
  "sample_db jobs = \<lparr>evaluations = map sample_row jobs, collections = [], providers = []\<rparr>"

definition sample_conn :: "EvaluationJobResource list \<Rightarrow> conn" where
  "sample_conn jobs = \<lparr>cn_db = sample_db jobs, cn_calls = 0\<rparr>"

definition direct_job :: "OverallState \<Rightarrow> EvaluationJobResource" where
  "direct_job st = sample_job ''j1'' (sample_config [sample_eb ''p'' ''b'' []] None) st"

definition sample_event :: "State \<Rightarrow> BenchmarkStatusEvent" where
  "sample_event st =
     \<lparr>be_ProviderID = ''p'', be_ID = ''b'', be_BenchmarkIndex = 0, be_Status = st, be_Phase = JobPhaseCompleted,
      be_Metrics = [(''acc'', AFloat64 1)], be_MetricsSchema = [], be_PrimaryScore = None, be_AdditionalInfo = [],
      be_Artifacts = [], be_ErrorMessage = None, be_WarningMessage = None, be_StartedAt = '''', be_CompletedAt = '''',
      be_MLFlowRunID = '''', be_LogsPath = '''', be_JobMeta = None\<rparr>"

definition collection_db :: database where
  "collection_db = \<lparr>evaluations = [],
     collections = [row_of (sample_resource ''c1'' ''t1'' ''u1'')
       (Json (collection_entity (sample_collection [sample_cb ''p'' ''b'' []])))], providers = []\<rparr>"

definition collection_job :: EvaluationJobResource where
  "collection_job = sample_job ''j1'' (sample_config [] (Some (sample_ref []))) OverallStatePending"

definition source_operations :: StandalonePostProcessingOperations where
  "source_operations = \<lparr>so_ConfidenceInterval = Some (zero_StandaloneConfidenceIntervalConfig
     \<lparr>sc_ResultsDataRef := Some (zero_PostProcessingResultsDataRef\<lparr>pd_EvalJob := Some \<lparr>ed_ID = ''j1'', ed_NumParallelThreads = None\<rparr>\<rparr>)\<rparr>)\<rparr>"

definition source_job :: EvaluationJobResource where
  "source_job = sample_job ''pp'' (sample_config
     [sample_eb ProviderID BenchmarkID [(''operations'', enc_StandalonePostProcessingOperations source_operations)]] None)
     OverallStateRunning"

definition source_conn :: conn where
  "source_conn = \<lparr>cn_db = sample_db [direct_job OverallStateCompleted, source_job], cn_calls = 0\<rparr>"

definition source_event :: BenchmarkStatusEvent where
  "source_event = (sample_event StateCompleted)\<lparr>be_ProviderID := ProviderID, be_ID := BenchmarkID\<rparr>"

lemmas store_samples =
  quiet_def sample_storage_def sample_row_def sample_db_def sample_conn_def direct_job_def sample_event_def sample_defs

lemma store_ok_direct: "store_ok (sample_db [direct_job st])"
  by (simp add: store_samples store_ok_def db_ok_def table_ok_def row_ok_def evaluation_row_of_def job_entity_ok_def
        job_config_ok_def criteria_ok_def eval_bench_ok_def anys_ok_def keys_ok_def job_entity_def entity_state_def
        entity_statuses_def entity_results_def job_state_def)

lemma has_state_direct: "has_state (sample_db [direct_job st]) ''j1'' st"
  by (simp add: store_samples has_state_def row_state_def evaluation_row_of_def job_entity_def entity_state_def)

end
