(* ===== verification/Store_Properties.thy ===== *)
theory Store_Properties
  imports Overall_Status Store_Samples
begin

text \<open>
  The guarantees of the job store, for every environment of driver failures, every handle and every
  sequence of operations.
\<close>

text \<open>
  C6: A job that has reached a final state (completed, failed, cancelled, partially failed) keeps that
  state through every sequence of operations on the store, with or without failures of the database,
  for as long as it is not deleted.
\<close>

theorem final_state_is_final:
  assumes "(keeping_step j)\<^sup>*\<^sup>* d d'" "store_ok d" "has_state d j st" "IsTerminalState st"
  shows "has_state d' j st"
  using final_sys.inv_steps[OF assms(1), of st] assms(2-4) by (simp add: settled_def)

theorem final_state_is_final_witness:
  "has_state (cn_db (snd (run_op (sample_storage quiet) (OpStatus ''j1'' OverallStateCancelled None)
     (sample_conn [direct_job OverallStateCompleted])))) ''j1'' OverallStateCompleted"
proof (rule final_state_is_final[OF r_into_rtranclp store_ok_direct has_state_direct])
  let ?c = "sample_conn [direct_job OverallStateCompleted]"
  let ?r = "run_op (sample_storage quiet) (OpStatus ''j1'' OverallStateCancelled None) ?c"
  have "store_step (sample_db [direct_job OverallStateCompleted]) (cn_db (snd ?r))"
    by (rule store_step.operation) (simp_all add: sample_conn_def)
  moreover have "job_ids (cn_db (snd ?r)) = {''j1''}" unfolding run_op.simps by code_simp
  ultimately show "keeping_step ''j1'' (sample_db [direct_job OverallStateCompleted]) (cn_db (snd ?r))"
    by (simp add: keeping_step_def)
qed simp

text \<open>
  C7: In every state that the store can reach from an empty database, each table has one row per
  identifier, every stored document can be encoded, the status column of a job agrees with the state
  in its document, and a job has one status and one result per benchmark.
\<close>

theorem reachable_states_are_consistent:
  assumes "store_step\<^sup>*\<^sup>* empty_db d" shows "store_ok d"
  using store_sys.inv_steps[OF assms] by simp

theorem reachable_states_are_consistent_witness:
  "store_ok (cn_db (snd (run_op (sample_storage quiet) (OpCreate (direct_job OverallStatePending))
     \<lparr>cn_db = empty_db, cn_calls = 0\<rparr>)))"
proof (rule reachable_states_are_consistent, rule r_into_rtranclp, rule store_step.operation)
  show "op_ok (OpCreate (direct_job OverallStatePending))"
    by (simp add: store_samples keys_ok_def job_benchmarks_def job_results_def)
qed simp

text \<open>
  C8: An operation of the job store that returns an error has changed nothing, whichever calls to the
  database failed and however often the transaction was retried. In particular a job is never stored
  without its collection's run count, and a post-processing job is never left completed when the check
  of its source fails.
\<close>

theorem operations_are_all_or_nothing:
  assumes "db_ok (cn_db c)" "run_op s op c = (Inl e, c')" shows "cn_db c' = cn_db c"
  using assms by (rule run_op_error)

theorem operations_are_all_or_nothing_witness:
  "\<exists>e c'. run_op (sample_storage (quiet\<lparr>env_fault := (\<lambda>n. if n = 3 then Some (PlainErr ''disk I/O error'') else None)\<rparr>))
     (OpStatus ''j1'' OverallStateCancelled None) (sample_conn [direct_job OverallStateRunning]) = (Inl e, c') \<and>
     cn_db c' = sample_db [direct_job OverallStateRunning]"
proof -
  let ?s = "sample_storage (quiet\<lparr>env_fault := (\<lambda>n. if n = 3 then Some (PlainErr ''disk I/O error'') else None)\<rparr>)"
  let ?c = "sample_conn [direct_job OverallStateRunning]"
  have "isl (fst (run_op ?s (OpStatus ''j1'' OverallStateCancelled None) ?c))" unfolding run_op.simps by code_simp
  then obtain e c' where r: "run_op ?s (OpStatus ''j1'' OverallStateCancelled None) ?c = (Inl e, c')"
    by (metis isl_def prod.collapse)
  from operations_are_all_or_nothing[OF _ r] store_ok_direct show ?thesis
    using r by (auto simp: sample_conn_def store_ok_def)
qed

text \<open>
  C9: An operation under the handle of a tenant leaves the jobs of all other tenants as they were.
\<close>

theorem tenants_are_isolated:
  assumes "db_ok (cn_db c)" "st_tenant s \<noteq> ''''" "op_tenant_ok (st_tenant s) op"
  shows "filter (\<lambda>r. rw_tenant_id r \<noteq> st_tenant s) (evaluations (cn_db (snd (run_op s op c)))) =
         filter (\<lambda>r. rw_tenant_id r \<noteq> st_tenant s) (evaluations (cn_db c))"
  using run_op_foreign[OF assms] by (simp add: foreign_rows_def)

theorem tenants_are_isolated_witness:
  "filter (\<lambda>r. rw_tenant_id r \<noteq> ''t2'')
     (evaluations (cn_db (snd (run_op ((sample_storage quiet)\<lparr>st_tenant := ''t2''\<rparr>) (OpDelete ''j1'')
        (sample_conn [direct_job OverallStateRunning]))))) =
   [sample_row (direct_job OverallStateRunning)]"
  using tenants_are_isolated[of "sample_conn [direct_job OverallStateRunning]" "(sample_storage quiet)\<lparr>st_tenant := ''t2''\<rparr>"
      "OpDelete ''j1''"] store_ok_direct[of OverallStateRunning]
  by (simp add: store_samples store_ok_def evaluation_row_of_def)



lemma find_put_status:
  "find (\<lambda>b. status_key b = status_key new) (put_status new sts) =
   (case find (\<lambda>b. status_key b = status_key new) sts of Some old \<Rightarrow> Some (overwrite_status new old) | None \<Rightarrow> Some new)"
  unfolding put_status_def by (rule find_upsert_own) (auto intro: overwrite_status_key)

text \<open>
  C11: Recording an event changes the status of its own benchmark only, and a late event that is not
  final does not change a final status.
\<close>

theorem late_event_keeps_final_status:
  assumes "ej_Status job \<noteq> None"
  shows "(k \<noteq> (be_ProviderID event, be_ID event, be_BenchmarkIndex event) \<longrightarrow>
      find (\<lambda>b. status_key b = k) (job_benchmarks (updateBenchmarkStatus job event (event_status event))) =
      find (\<lambda>b. status_key b = k) (job_benchmarks job)) \<and>
    (find (same_event event) (job_benchmarks job) = Some old \<longrightarrow> IsBenchmarkTerminalState (bs_Status old) \<longrightarrow>
      \<not> IsBenchmarkTerminalState (be_Status event) \<longrightarrow>
      find (same_event event) (job_benchmarks (updateBenchmarkStatus job event (event_status event))) = Some old)"
proof (intro conjI impI)
  have put: "job_benchmarks (updateBenchmarkStatus job event (event_status event)) = put_status (event_status event) (job_benchmarks job)"
    using assms by (auto simp: job_benchmarks_def updateBenchmarkStatus_def put_status_def same_event_key Let_def)
  have key: "status_key (event_status event) = (be_ProviderID event, be_ID event, be_BenchmarkIndex event)"
    by (simp add: status_key_def event_status_def)
  show "find (\<lambda>b. status_key b = k) (job_benchmarks (updateBenchmarkStatus job event (event_status event))) =
      find (\<lambda>b. status_key b = k) (job_benchmarks job)"
    if "k \<noteq> (be_ProviderID event, be_ID event, be_BenchmarkIndex event)"
    unfolding put using that key by (intro statuses.other) simp
  show "find (same_event event) (job_benchmarks (updateBenchmarkStatus job event (event_status event))) = Some old"
    if "find (same_event event) (job_benchmarks job) = Some old" "IsBenchmarkTerminalState (bs_Status old)"
      "\<not> IsBenchmarkTerminalState (be_Status event)"
    using that unfolding put same_event_key find_put_status by (simp add: overwrite_status_def event_status_def)
qed

theorem late_event_keeps_final_status_witness:
  "let job = (direct_job OverallStateRunning)\<lparr>ej_Status := Some \<lparr>js_State = OverallStateRunning, js_Message = None,
        js_Benchmarks = [event_status (sample_event StateFailed)]\<rparr>\<rparr>; late = sample_event StateRunning
   in find (same_event late) (job_benchmarks (updateBenchmarkStatus job late (event_status late))) =
      Some (event_status (sample_event StateFailed))"
  using late_event_keeps_final_status
    [of "(direct_job OverallStateRunning)\<lparr>ej_Status := Some \<lparr>js_State = OverallStateRunning, js_Message = None,
        js_Benchmarks = [event_status (sample_event StateFailed)]\<rparr>\<rparr>" _ "sample_event StateRunning" "event_status (sample_event StateFailed)"]
  by (simp add: job_benchmarks_def same_event_def event_status_def sample_event_def Let_def)

text \<open>
  C12: Cancelling a job that is not in a final state stores the state cancelled; every benchmark that
  was not finished becomes cancelled with the message of the request, every finished one keeps its
  status, and the configuration and the results stay as they were.
\<close>

theorem cancel_cascades:
  assumes "db_ok (cn_db c)" "reads_as s (st_workload_type s) i (cn_db c) job" "\<not> IsTerminalState (job_state job)"
    and "UpdateEvaluationJobStatus s i OverallStateCancelled (Some m) c = (Inr (), c')"
  shows "\<exists>en. writes (st_tenant s) i OverallStateCancelled en (cn_db c) (cn_db c') \<and>
    entity_state en = OverallStateCancelled \<and> en_Config en = Some (ej_Config job) \<and> en_Results en = ej_Results job \<and>
    map status_key (entity_statuses en) = map status_key (job_benchmarks job) \<and>
    (\<forall>k < length (job_benchmarks job).
       if IsBenchmarkTerminalState (bs_Status (job_benchmarks job ! k))
       then entity_statuses en ! k = job_benchmarks job ! k
       else bs_Status (entity_statuses en ! k) = StateCancelled \<and>
            bs_ErrorMessage (entity_statuses en ! k) = Some (m\<lparr>mi_MessageOrigin := MessageOriginServer\<rparr>))"
proof -
  let ?m = "Some (m\<lparr>mi_MessageOrigin := MessageOriginServer\<rparr>)"
  from assms(1,4) obtain c1 c2 where c1: "cn_db c1 = cn_db c"
    and body: "update_status_body s i OverallStateCancelled ?m c1 = (Inr (), c2)" and c2: "cn_db c' = cn_db c2"
    unfolding UpdateEvaluationJobStatus_def WithMessageOrigin_simps by (rule status_txn.success)
  from status_body_effect[OF body] obtain job' where "reads_as s (st_workload_type s) i (cn_db c) job'"
    and w: "(cn_db c2 = cn_db c1 \<and> OverallStateCancelled = job_state job') \<or>
      writes (st_tenant s) i OverallStateCancelled (status_entity OverallStateCancelled ?m job') (cn_db c1) (cn_db c2)"
    unfolding c1 by metis
  then have "job' = job" using assms(2) reads_as_unique by blast
  moreover have ne: "OverallStateCancelled \<noteq> job_state job" using assms(3) by auto
  ultimately have "writes (st_tenant s) i OverallStateCancelled (status_entity OverallStateCancelled ?m job) (cn_db c) (cn_db c')"
    using w c1 c2 by simp
  then show ?thesis
    by (intro exI[of _ "status_entity OverallStateCancelled ?m job"])
       (use ne in \<open>auto simp: status_entity_def entity_state_def entity_statuses_def cancel_benchmark_def o_def
          status_key_def\<close>)
qed

theorem cancel_cascades_witness:
  "\<exists>en. writes ''t1'' ''j1'' OverallStateCancelled en (sample_db [direct_job OverallStateRunning])
     (cn_db (snd (UpdateEvaluationJobStatus (sample_storage quiet) ''j1'' OverallStateCancelled
        (Some \<lparr>mi_Message = ''stop'', mi_MessageCode = '''', mi_MessageOrigin = MessageOriginUnset\<rparr>)
        (sample_conn [direct_job OverallStateRunning])))) \<and> entity_state en = OverallStateCancelled"
proof -
  let ?c = "sample_conn [direct_job OverallStateRunning]" and ?s = "sample_storage quiet"
  let ?m = "\<lparr>mi_Message = ''stop'', mi_MessageCode = '''', mi_MessageOrigin = MessageOriginUnset\<rparr>"
  let ?r = "UpdateEvaluationJobStatus ?s ''j1'' OverallStateCancelled (Some ?m) ?c"
  let ?job = "(direct_job OverallStateRunning)\<lparr>ej_Resource := sample_resource ''j1'' ''t1'' ''u1''\<rparr>"
  have ok: "db_ok (cn_db ?c)" using store_ok_direct by (simp add: sample_conn_def store_ok_def)
  have job: "reads_as ?s (st_workload_type ?s) ''j1'' (cn_db ?c) ?job"
    by (simp add: reads_as_def store_samples evaluation_row_of_def CreateEvaluationGetEntityStatement_def
          getWhereStatement_def constructEvaluationResource_def job_entity_def row_resource_def backfillMetricsSchema_def Let_def)
  have run: "\<not> IsTerminalState (job_state ?job)" by (simp add: store_samples job_state_def)
  have "fst ?r = Inr ()" by code_simp
  then have "?r = (Inr (), snd ?r)" by (metis prod.collapse)
  from cancel_cascades[OF ok job run this] show ?thesis by (auto simp: store_samples)
qed




text \<open>
  Creating a job on a collection stores the job and counts the run in one transaction: when it
  succeeds the job's row is appended and the run count of the collection is one higher, unless the
  collection belongs to the system, whose document is left alone; nothing else changes.
\<close>

theorem create_counts_run:
  assumes "db_ok (cn_db c)" "CreateEvaluationJobAndUpdateCollection s job c = (Inr (), c')"
  shows "\<exists>row e now now'.
    find (getWhereStatement (st_tenant s) (job_collection_id (ej_Config job))) (collections (cn_db c)) = Some row \<and>
    rw_entity row = Json e \<and> isVisibleResource s (row_resource row) \<and>
    evaluations (cn_db c') = evaluations (cn_db c) @
      [evaluation_row_of job (TypeForJob (st_registry s) (ej_Config job)) (Json (job_entity job)) now] \<and>
    collections (cn_db c') =
      (if rw_owner row = ''system'' then collections (cn_db c)
       else map (\<lambda>r. if own_row (st_tenant s) (rw_id row) r
              then r\<lparr>rw_entity := Json (e\<lparr>ce_Status := Some \<lparr>cs_RunCount = (case ce_Status e of None \<Rightarrow> 0 | Some x \<Rightarrow> cs_RunCount x) + 1\<rparr>\<rparr>),
                     rw_updated_at := now'\<rparr> else r) (collections (cn_db c))) \<and>
    providers (cn_db c') = providers (cn_db c)"
proof -
  let ?cid = "job_collection_id (ej_Config job)"
  from assms(2) have "withTransaction (st_env s) ''create evaluation job and update collection'' (r_ID (ej_Resource job))
      (create_job_and_collection_body s job ?cid) c = (Inr (), c')"
    by (simp add: CreateEvaluationJobAndUpdateCollection_def Let_def split: if_splits)
  from create_count_txn.success[OF assms(1) this] obtain c1 c4 where c1: "cn_db c1 = cn_db c" and c4: "cn_db c' = cn_db c4"
    and body: "create_job_and_collection_body s job ?cid c1 = (Inr (), c4)" .
  from body obtain coll c2 c3 where coll: "getCollectionTransactionalForUpdate s ?cid c1 = (Inr coll, c2)"
    and job: "createEvaluationJobTransactional s job c2 = (Inr (), c3)"
    and upd: "(if IsSystemResource (co_Resource coll) then sreturn ()
          else updateCollectionTransactional s (r_ID (co_Resource coll)) (count_run coll)) c3 = (Inr (), c4)"
    by (auto simp: create_job_and_collection_body_def sbind_Inr_iff)
  from getCollectionForUpdate_Inr[OF coll] obtain row e where
    row: "find (getWhereStatement (st_tenant s) ?cid) (collections (cn_db c)) = Some row"
    "isVisibleResource s (row_resource row)" "rw_entity row = Json e"
    and res: "coll = collection_resource (row_resource row) e" and c2: "cn_db c2 = cn_db c" unfolding c1 .
  from createEvaluationJobTransactional_Inr[OF job] obtain now where c3: "cn_db c3 = (cn_db c)\<lparr>evaluations := evaluations (cn_db c) @
      [evaluation_row_of job (TypeForJob (st_registry s) (ej_Config job)) (Json (job_entity job)) now]\<rparr>" unfolding c2 .
  have entity: "collection_entity (count_run coll) =
      e\<lparr>ce_Status := Some \<lparr>cs_RunCount = (case ce_Status e of None \<Rightarrow> 0 | Some x \<Rightarrow> cs_RunCount x) + 1\<rparr>\<rparr>"
    by (simp add: res count_run_def collection_entity_def collection_resource_def)
  show ?thesis
  proof (cases "IsSystemResource (co_Resource coll)")
    case True
    then have "rw_owner row = ''system''" by (simp add: res collection_resource_def IsSystemResource_def row_resource_def)
    with upd True c3 c4 row show ?thesis by auto
  next
    case False
    then have sys: "rw_owner row \<noteq> ''system''" by (simp add: res collection_resource_def IsSystemResource_def row_resource_def)
    from upd False have "updateCollectionTransactional s (rw_id row) (count_run coll) c3 = (Inr (), c4)"
      by (simp add: res collection_resource_def row_resource_def)
    from updateCollectionTransactional_Inr[OF this] obtain now' where
      "cn_db c4 = (cn_db c3)\<lparr>collections := map (\<lambda>r. if own_row (st_tenant s) (rw_id row) r
        then r\<lparr>rw_entity := Json (collection_entity (count_run coll)), rw_updated_at := now'\<rparr> else r) (collections (cn_db c3))\<rparr>" .
    with sys c3 c4 row show ?thesis by (auto simp: entity)
  qed
qed

theorem create_counts_run_witness:
  "map rw_entity (collections (cn_db (snd (CreateEvaluationJobAndUpdateCollection (sample_storage quiet) collection_job
       \<lparr>cn_db = collection_db, cn_calls = 0\<rparr>)))) =
     [Json ((collection_entity (sample_collection [sample_cb ''p'' ''b'' []]))\<lparr>ce_Status := Some \<lparr>cs_RunCount = 1\<rparr>\<rparr>)]"
proof -
  let ?s = "sample_storage quiet" and ?c = "\<lparr>cn_db = collection_db, cn_calls = 0\<rparr>"
  let ?r = "CreateEvaluationJobAndUpdateCollection ?s collection_job ?c"
  have ok: "db_ok (cn_db ?c)"
    by (simp add: collection_db_def db_ok_def table_ok_def row_of_def collection_entity_ok_def collection_entity_def
          collection_config_ok_def sample_defs criteria_ok_def coll_bench_ok_def anys_ok_def)
  have "fst ?r = Inr ()" by code_simp
  then have "?r = (Inr (), snd ?r)" by (metis prod.collapse)
  from create_counts_run[OF ok this] show ?thesis
    by (auto simp: collection_db_def collection_job_def sample_defs job_collection_id_def row_of_def sample_storage_def
          getWhereStatement_def own_row_def collection_entity_def split: if_splits)
qed

text \<open>
  C14: A post-processing job that reads the results of an evaluation job is stored as completed only
  when that evaluation job, if it still exists, is itself completed.
\<close>

theorem post_processing_waits_for_source:
  assumes "db_ok (cn_db c)" "UpdateEvaluationJob s i event c = (Inr (), c')"
    and "reads_as s (st_workload_type s) i (cn_db c) job" "IsPostProcessingJob (ej_Config job)"
    and "i \<noteq> ''''" "r \<in> set (evaluations (cn_db c'))" "own_row (st_tenant s) i r" "row_state r = Some OverallStateCompleted"
  shows "\<exists>operations. OperationsFromJob (st_json_error s) (ej_Config job) = Inr operations \<and>
    (\<forall>oper ref src source. so_ConfidenceInterval operations = Some oper \<longrightarrow> sc_ResultsDataRef oper = Some ref \<longrightarrow>
       pd_EvalJob ref = Some src \<longrightarrow> reads_as s Evaluation (ed_ID src) (cn_db c') source \<longrightarrow>
       job_state source = OverallStateCompleted)"
proof -
  from assms(1,2) obtain c1 c2 where c1: "cn_db c1 = cn_db c" and body: "update_job_body s i event c1 = (Inr (), c2)"
    and c2: "cn_db c' = cn_db c2" unfolding UpdateEvaluationJob_def by (rule event_txn.success)
  from update_job_body_effect[OF body] obtain job' st en where job': "reads_as s (st_workload_type s) i (cn_db c) job'"
    and step: "event_step s (cn_db c) event job' st en" and w: "writes (st_tenant s) i st en (cn_db c) (cn_db c')"
    and src: "st = OverallStateCompleted \<longrightarrow> source_completed s (cn_db c') (ej_Config job')" unfolding c1 c2 by metis
  have "job' = job" using job' assms(3) reads_as_unique by blast
  moreover have "st = OverallStateCompleted"
  proof -
    have en: "entity_state en = st" using good_event_step step reads_as_status[OF job'] unfolding good_step_def by blast
    from w obtain now r0 where "r = write_job (st_tenant s) i st en now r0" using assms(6) by (auto simp: writes_def)
    with assms(7,8) en show ?thesis by (auto simp: write_job_def row_state_def own_row_def split: if_splits)
  qed
  ultimately show ?thesis using src assms(4) unfolding source_completed_def by blast
qed

theorem post_processing_waits_for_source_witness:
  "\<exists>c' source. UpdateEvaluationJob (sample_storage quiet) ''pp'' source_event source_conn = (Inr (), c') \<and>
     has_state (cn_db c') ''pp'' OverallStateCompleted \<and>
     reads_as (sample_storage quiet) Evaluation ''j1'' (cn_db c') source \<and> job_state source = OverallStateCompleted"
proof -
  let ?s = "sample_storage quiet" and ?c = source_conn
  let ?r = "UpdateEvaluationJob ?s ''pp'' source_event ?c"
  have "fst ?r = Inr ()" by code_simp
  then have r: "?r = (Inr (), snd ?r)" by (metis prod.collapse)
  have ok: "db_ok (cn_db ?c)" by code_simp
  have rd: "reads_as ?s '''' ''pp'' (cn_db ?c) source_job"
  proof -
    have "find (CreateEvaluationGetEntityStatement SQLite ''t1'' ''pp'' '''') (evaluations (cn_db ?c)) = Some (sample_row source_job)"
      "constructEvaluationResource (row_resource (sample_row source_job)) '''' '''' (job_entity source_job) = Inr source_job"
      by code_simp+
    then show ?thesis by (auto simp: reads_as_def sample_storage_def sample_row_def evaluation_row_of_def source_job_def sample_job_def)
  qed
  have pp: "IsPostProcessingJob (ej_Config source_job)" by code_simp
  have fin: "list_ex (\<lambda>r. own_row ''t1'' ''pp'' r \<and> rw_id r = ''pp'' \<and> row_state r = Some OverallStateCompleted) (evaluations (cn_db (snd ?r)))"
    by code_simp
  then obtain r where "r \<in> set (evaluations (cn_db (snd ?r)))" "own_row (st_tenant ?s) ''pp'' r" "row_state r = Some OverallStateCompleted"
    by (auto simp: list_ex_iff sample_storage_def)
  from post_processing_waits_for_source[OF ok r _ pp _ this] rd
  obtain ops where "OperationsFromJob '''' (ej_Config source_job) = Inr ops"
    "\<And>oper ref src source. so_ConfidenceInterval ops = Some oper \<Longrightarrow> sc_ResultsDataRef oper = Some ref \<Longrightarrow>
       pd_EvalJob ref = Some src \<Longrightarrow> reads_as ?s Evaluation (ed_ID src) (cn_db (snd ?r)) source \<Longrightarrow>
       job_state source = OverallStateCompleted"
    by (auto simp: sample_storage_def)
  moreover have "OperationsFromJob '''' (ej_Config source_job) = Inr source_operations" by code_simp
  ultimately have *: "\<And>source. reads_as ?s Evaluation ''j1'' (cn_db (snd ?r)) source \<Longrightarrow> job_state source = OverallStateCompleted"
    by (auto simp: source_operations_def)
  have "find (CreateEvaluationGetEntityStatement SQLite ''t1'' ''j1'' Evaluation) (evaluations (cn_db (snd ?r))) = Some (sample_row (direct_job OverallStateCompleted))"
    by code_simp
  moreover have "constructEvaluationResource (row_resource (sample_row (direct_job OverallStateCompleted))) '''' ''''
      (job_entity (direct_job OverallStateCompleted)) = Inr (direct_job OverallStateCompleted)" by code_simp
  ultimately have "reads_as ?s Evaluation ''j1'' (cn_db (snd ?r)) (direct_job OverallStateCompleted)"
    by (auto simp: reads_as_def sample_storage_def sample_row_def evaluation_row_of_def direct_job_def sample_job_def)
  with * fin r show ?thesis by (auto simp: list_ex_iff has_state_def)
qed

end
