(* ===== verification/Result_Properties.thy ===== *)
theory Result_Properties
  imports Store_Samples
begin

text \<open>
  Guarantees on the parts of a job that are written after its benchmarks have reported: the export of
  its results to an OCI registry, the commit hashes of its test data, the verdict on a benchmark and
  the score of the job.
\<close>

definition same_but_oci :: "EvaluationJobResults option \<Rightarrow> EvaluationJobResults option \<Rightarrow> bool" where
  "same_but_oci a b \<longleftrightarrow>
     (case a of None \<Rightarrow> empty_results | Some r \<Rightarrow> r)\<lparr>rs_OCI := None\<rparr> =
     (case b of None \<Rightarrow> empty_results | Some r \<Rightarrow> r)\<lparr>rs_OCI := None\<rparr>"

definition without_sha :: "EvaluationBenchmarkConfig \<Rightarrow> EvaluationBenchmarkConfig" where
  "without_sha b = stamp_ref '''' b"

lemma UpdateOCIResults_status:
  "same_but_oci (UpdateOCIResults results (Some st) crd) results"
  "\<exists>r o'. UpdateOCIResults results (Some st) crd = Some r \<and> rs_OCI r = Some o' \<and> oi_Status o' = Some st \<and>
     oi_EvaluationCard o' = (if crd \<noteq> None then crd else Option.bind (Option.bind results rs_OCI) oi_EvaluationCard)"
  by (auto simp: UpdateOCIResults_def same_but_oci_def Let_def empty_results_def empty_oci_results_def split: option.splits)

lemma reads_as_job_update:
  assumes "job_update s i P d d'" "reads_as s (st_workload_type s) i d job"
  shows "d' = d \<or> (\<exists>st en. P job st en \<and> writes (st_tenant s) i st en d d')"
  using assms reads_as_unique unfolding job_update_def by blast

lemma length_stamp: "stamp index sha refs bs = Some bs' \<Longrightarrow> length refs = length bs \<Longrightarrow> length bs' = length bs"
  by (auto simp: stamp_def split: if_splits option.splits)

definition exported_job :: EvaluationJobResource where
  "exported_job = (direct_job OverallStateCompleted)
     \<lparr>ej_Results := Some (empty_results\<lparr>rs_OCI := Some (empty_oci_results
        \<lparr>oi_Status := Some \<lparr>op_State = OCIProcessingCompleted, op_Message = None\<rparr>\<rparr>)\<rparr>),
      ej_Config := (sample_config [sample_eb ''p'' ''b'' []] None)\<lparr>ec_Exports := Some \<lparr>ee_OCI = Some
        \<lparr>eo_Coordinates = zero_OCICoordinates, eo_K8s = None, eo_Signing = None\<rparr>\<rparr>\<rparr>\<rparr>"

definition sha_job :: EvaluationJobResource where
  "sha_job = sample_job ''j1'' (sample_config
     [(sample_eb ''p'' ''b'' [])\<lparr>eb_TestDataRef := Some \<lparr>td_S3 = None, td_PVC = None, td_Git = None, td_HF = None,
        td_Type = '''', td_ResolvedSHA = ''''\<rparr>\<rparr>] None) OverallStateRunning"

definition scored_result :: BenchmarkResult where
  "scored_result = \<lparr>br_ID = ''b'', br_ProviderID = ''p'', br_Contacts = [], br_BenchmarkIndex = 0,
     br_Metrics = [(''acc'', AFloat64 (3/4))], br_MetricsSchema = [], br_AdditionalInfo = [], br_Artifacts = [],
     br_MLFlowRunID = '''', br_LogsPath = '''',
     br_Test = Some \<lparr>bt_PrimaryScore = F32 (3/4), bt_PrimaryScoreMetric = ''acc'', bt_LowerIsBetter = None,
       bt_Threshold = F32 (1/2), bt_Pass = True\<rparr>\<rparr>"

lemma reads_as_sample:
  assumes "r_Tenant (ej_Resource job) = ''t1''" "r_ID (ej_Resource job) = i" "i \<noteq> ''''"
    and "constructEvaluationResource (row_resource (sample_row job)) (rw_experiment_id (sample_row job)) '''' (job_entity job) = Inr job"
  shows "reads_as (sample_storage quiet) '''' i (cn_db (sample_conn [job])) job"
  using assms by (auto simp: reads_as_def sample_conn_def sample_db_def sample_storage_def sample_row_def evaluation_row_of_def
    CreateEvaluationGetEntityStatement_def getWhereStatement_def)

lemma stamp_Some:
  assumes "stamp index sha refs bs = Some bs'" "length refs = length bs"
  shows "map without_sha bs' = map without_sha bs" "0 \<le> index" "nat index < length bs'"
    "map_option td_ResolvedSHA (eb_TestDataRef (bs ! nat index)) = Some ''''"
    "map_option td_ResolvedSHA (eb_TestDataRef (bs' ! nat index)) = Some sha"
proof -
  from assms(1) obtain t where t: "0 \<le> index" "nat index < length bs" "eb_TestDataRef (bs ! nat index) = Some t"
    "td_ResolvedSHA t = ''''"
    and bs': "bs' = map (\<lambda>(r, b). if r = refs ! nat index then stamp_ref sha b else b) (zip refs bs)"
    by (auto simp: stamp_def split: if_splits option.splits)
  have "without_sha (stamp_ref sha b) = without_sha b" for b
    by (simp add: without_sha_def stamp_ref_def option.map_comp comp_def)
  then show "map without_sha bs' = map without_sha bs"
    using assms(2) unfolding bs' by (auto simp: list_eq_iff_nth_eq)
  show "0 \<le> index" "nat index < length bs'" "map_option td_ResolvedSHA (eb_TestDataRef (bs ! nat index)) = Some ''''"
    using t assms(2) by (simp_all add: bs')
  show "map_option td_ResolvedSHA (eb_TestDataRef (bs' ! nat index)) = Some sha"
    using t assms(2) by (simp add: bs' stamp_ref_def)
qed

text \<open>
  C31: Once the export of a job's results has reached a final outcome, no update can move it to
  another outcome: the request is refused and the store is left as it was.
\<close>

theorem oci_outcome_is_final:
  assumes "db_ok (cn_db c)" "reads_as s (st_workload_type s) i (cn_db c) job"
    and "job_oci job = Some r" "oi_Status r = Some old" "IsOCIProcessingTerminalState (op_State old)"
    and "op_State status \<noteq> op_State old"
  shows "\<exists>e c'. UpdateEvaluationJobOCI s i (Some status) crd c = (Inl e, c') \<and> cn_db c' = cn_db c"
proof -
  let ?st = "status\<lparr>op_Message := WithMessageOrigin (op_Message status) MessageOriginServer\<rparr>"
  obtain q c' where q: "UpdateEvaluationJobOCI s i (Some status) crd c = (q, c')" by fastforce
  show ?thesis
  proof (cases q)
    case (Inl e)
    with q assms(1) have "cn_db c' = cn_db c" by (auto simp: UpdateEvaluationJobOCI_def intro: oci_txn.error_keeps_db)
    with q Inl show ?thesis by auto
  next
    case (Inr u)
    with q have "withTransaction (st_env s) ''update evaluation job OCI results'' i (oci_body s i ?st crd) c = (Inr u, c')"
      by (simp add: UpdateEvaluationJobOCI_def)
    from oci_txn.success[OF assms(1) this] obtain c1 c2 where c1: "cn_db c1 = cn_db c" and body: "oci_body s i ?st crd c1 = (Inr u, c2)" .
    from body obtain job' c3 where "getEvaluationJobTransactionalForUpdate s i c1 = (Inr job', c3)"
      and dec: "oci_decide (job_oci job') ?st crd = OCIUnchanged \<or> oci_decide (job_oci job') ?st crd = OCIAccepted"
      by (auto simp: oci_body_def sbind_Inr_iff split: if_splits oci_decision.splits)
    then have "job' = job" using getForUpdate_Inr[of s i c1 job' c3] assms(2) reads_as_unique unfolding c1 by blast
    with dec assms(3-6) show ?thesis by (simp add: oci_decide_def)
  qed
qed

theorem oci_outcome_is_final_witness:
  "\<exists>e c'. UpdateEvaluationJobOCI (sample_storage quiet) ''j1'' (Some \<lparr>op_State = OCIProcessingRunning, op_Message = None\<rparr>) None
     (sample_conn [exported_job]) = (Inl e, c') \<and> cn_db c' = cn_db (sample_conn [exported_job])"
proof (rule oci_outcome_is_final[where old = "\<lparr>op_State = OCIProcessingCompleted, op_Message = None\<rparr>"
      and r = "the (job_oci exported_job)"])
  show "db_ok (cn_db (sample_conn [exported_job]))" by code_simp
  have "constructEvaluationResource (row_resource (sample_row exported_job)) (rw_experiment_id (sample_row exported_job)) ''''
    (job_entity exported_job) = Inr exported_job" by code_simp
  then show "reads_as (sample_storage quiet) (st_workload_type (sample_storage quiet)) ''j1'' (cn_db (sample_conn [exported_job])) exported_job"
    using reads_as_sample[of exported_job "''j1''"] by (simp add: exported_job_def sample_defs direct_job_def sample_storage_def)
qed (simp_all add: exported_job_def job_oci_def IsOCIProcessingTerminalState_def empty_oci_results_def)

text \<open>
  A successful update of the export either finds the outcome already stored and changes nothing,
  or writes it into the job's row and touches nothing of the job but the OCI part of its results: the
  stored status is the given one, its message attributed to the server, and the card is the given one
  or, when none is given, the one stored before.
\<close>

theorem oci_update_touches_only_oci:
  assumes "db_ok (cn_db c)" "reads_as s (st_workload_type s) i (cn_db c) job"
    and "UpdateEvaluationJobOCI s i (Some status) crd c = (Inr (), c')"
  shows "cn_db c' = cn_db c \<or>
    (\<exists>en r o'. writes (st_tenant s) i (job_state job) en (cn_db c) (cn_db c') \<and>
       IsResultsExportEligible job \<and> IsOCIExportEnabled job \<and>
       en_Config en = Some (ej_Config job) \<and> en_Status en = ej_Status job \<and>
       same_but_oci (en_Results en) (ej_Results job) \<and> en_Results en = Some r \<and> rs_OCI r = Some o' \<and>
       oi_Status o' = Some (status\<lparr>op_Message := WithMessageOrigin (op_Message status) MessageOriginServer\<rparr>) \<and>
       oi_EvaluationCard o' = (if crd \<noteq> None then crd else Option.bind (job_oci job) oi_EvaluationCard))"
proof -
  let ?st = "status\<lparr>op_Message := WithMessageOrigin (op_Message status) MessageOriginServer\<rparr>"
  from assms(3) have "withTransaction (st_env s) ''update evaluation job OCI results'' i (oci_body s i ?st crd) c = (Inr (), c')"
    by (simp add: UpdateEvaluationJobOCI_def)
  from oci_txn.success[OF assms(1) this] obtain c1 c2 where "cn_db c1 = cn_db c" "cn_db c' = cn_db c2"
    "oci_body s i ?st crd c1 = (Inr (), c2)" .
  with oci_body_update have "job_update s i (oci_step ?st crd) (cn_db c) (cn_db c')" by metis
  from reads_as_job_update[OF this assms(2)] show ?thesis
    using UpdateOCIResults_status[of "ej_Results job" ?st crd]
    by (fastforce simp: oci_step_def job_entity_def job_oci_def)
qed


theorem oci_update_touches_only_oci_witness:
  "\<exists>c' en r o'. UpdateEvaluationJobOCI (sample_storage quiet) ''j1'' (Some \<lparr>op_State = OCIProcessingCompleted, op_Message = None\<rparr>)
       (Some \<lparr>oa_OCIDigest = ''d'', oa_OCIReference = ''r''\<rparr>) (sample_conn [exported_job]) = (Inr (), c') \<and>
     writes ''t1'' ''j1'' OverallStateCompleted en (cn_db (sample_conn [exported_job])) (cn_db c') \<and>
     en_Results en = Some r \<and> rs_OCI r = Some o' \<and>
     oi_EvaluationCard o' = Some \<lparr>oa_OCIDigest = ''d'', oa_OCIReference = ''r''\<rparr>"
proof -
  let ?c = "sample_conn [exported_job]" and ?s = "sample_storage quiet"
  let ?u = "UpdateEvaluationJobOCI ?s ''j1'' (Some \<lparr>op_State = OCIProcessingCompleted, op_Message = None\<rparr>)
    (Some \<lparr>oa_OCIDigest = ''d'', oa_OCIReference = ''r''\<rparr>) ?c"
  have "fst ?u = Inr ()" by code_simp
  then have u: "?u = (Inr (), snd ?u)" by (metis prod.collapse)
  have "\<not> list_all2 (\<lambda>a b. rw_entity a = rw_entity b) (evaluations (cn_db (snd ?u))) (evaluations (cn_db ?c))" by code_simp
  then have ne: "cn_db (snd ?u) \<noteq> cn_db ?c" by (auto simp: list_all2_same)
  have ok: "db_ok (cn_db ?c)" by code_simp
  have "constructEvaluationResource (row_resource (sample_row exported_job)) (rw_experiment_id (sample_row exported_job)) ''''
    (job_entity exported_job) = Inr exported_job" by code_simp
  then have "reads_as ?s (st_workload_type ?s) ''j1'' (cn_db ?c) exported_job"
    using reads_as_sample[of exported_job "''j1''"] by (simp add: exported_job_def sample_defs direct_job_def sample_storage_def)
  moreover have "job_state exported_job = OverallStateCompleted" by code_simp
  moreover have "st_tenant ?s = ''t1''" by (simp add: sample_storage_def)
  ultimately show ?thesis using oci_update_touches_only_oci[OF ok _ u] u ne
    by (metis option.distinct(1))
qed





text \<open>
  A resolved commit is recorded once: when an index has been stamped, a later stamp at the same
  index finds the list complete and leaves it alone, whatever the commit it carries.
\<close>

theorem resolved_sha_is_recorded_once:
  assumes "stamp index sha (job_ref_sources job coll) bs = Some stamped" "GetJobBenchmarks job coll = Inr bs" "sha \<noteq> ''''"
  shows "stamp index sha' refs stamped = None \<and> length stamped = length bs"
proof -
  have len: "length (job_ref_sources job coll) = length bs" using assms(2) by (rule length_job_ref_sources)
  note st = stamp_Some[OF assms(1) len]
  from st(5) assms(3) have "stamp index sha' refs stamped = None"
    by (auto simp: stamp_def split: option.splits)
  with length_stamp[OF assms(1) len] show ?thesis by simp
qed

theorem resolved_sha_is_recorded_once_witness:
  "\<exists>stamped. stamp 0 ''abcdef0'' (job_ref_sources sha_job None) (ec_Benchmarks (ej_Config sha_job)) = Some stamped \<and>
     stamp 0 ''1234567'' (job_ref_sources sha_job None) stamped = None \<and> length stamped = 1"
proof -
  have g: "GetJobBenchmarks sha_job None = Inr (ec_Benchmarks (ej_Config sha_job))" by code_simp
  have "\<not> Option.is_none (stamp 0 ''abcdef0'' (job_ref_sources sha_job None) (ec_Benchmarks (ej_Config sha_job)))" by code_simp
  then obtain stamped where s: "stamp 0 ''abcdef0'' (job_ref_sources sha_job None) (ec_Benchmarks (ej_Config sha_job)) = Some stamped"
    by (auto simp: Option.is_none_def)
  have "length (ec_Benchmarks (ej_Config sha_job)) = 1" by code_simp
  with resolved_sha_is_recorded_once[OF s g] s show ?thesis by simp
qed


section \<open>Verdicts and scores\<close>

lemma selectPrimaryScore_first:
  "ps_Metric p \<noteq> '''' \<Longrightarrow> gomap_get metrics (ps_Metric p) = Some x \<Longrightarrow> castAnyToFloat32 x = Some v \<Longrightarrow>
   selectPrimaryScore (p # cands) metrics = Some (p, v)"
  by simp







text \<open>
  C34: The score of a job is a weighted average: when every benchmark score lies between 0 and 1 and
  every weight is a finite number that is not negative, the score computed in single precision lies
  between 0 and 1 too, rounding errors included, unless the sum of the weights overflows; the job
  passes exactly when the score reaches the threshold.
\<close>

theorem job_score_in_unit_interval:
  assumes "ej_Results job = Some results" "rs_Benchmarks results \<noteq> []" "GetJobBenchmarks job coll = Inr resolved"
    and "list_all scored_in_unit (rs_Benchmarks results)" "list_all (\<lambda>b. weight_ok (eb_Weight b)) resolved"
    and "snd (score_sums resolved (rs_Benchmarks results)) = F32 w" "w \<noteq> 0"
  shows "\<exists>t. ej_Results (computeJobTestResult job coll) = Some (results\<lparr>rs_Test := Some t\<rparr>) \<and>
    unit_score (jt_Score t) \<and> jt_Threshold t = getPassCriteriaThreshold (ej_Config job) coll \<and>
    (jt_Pass t \<longleftrightarrow> f32_le (jt_Threshold t) (jt_Score t))"
proof -
  let ?acc = "score_sums resolved (rs_Benchmarks results)"
  from assms(6,7) have "\<not> f32_eq (snd ?acc) (F32 0)" by simp
  moreover have "unit_score (f32_div (fst ?acc) (snd ?acc))"
    using ordered_sums_score_sums[OF assms(4,5)] assms(6,7) by (rule score_unit)
  ultimately show ?thesis using assms(1-3)
    by (intro exI[of _ "\<lparr>jt_Score = f32_div (fst ?acc) (snd ?acc), jt_Threshold = getPassCriteriaThreshold (ej_Config job) coll,
      jt_Pass = f32_le (getPassCriteriaThreshold (ej_Config job) coll) (f32_div (fst ?acc) (snd ?acc))\<rparr>"])
      (simp add: computeJobTestResult_def Let_def)
qed

theorem job_score_in_unit_interval_witness:
  "\<exists>t. ej_Results (computeJobTestResult ((direct_job OverallStateRunning)\<lparr>ej_Results := Some (empty_results\<lparr>rs_Benchmarks := [scored_result]\<rparr>)\<rparr>) None)
      = Some ((empty_results\<lparr>rs_Benchmarks := [scored_result]\<rparr>)\<lparr>rs_Test := Some t\<rparr>) \<and> unit_score (jt_Score t)"
proof -
  let ?r = "empty_results\<lparr>rs_Benchmarks := [scored_result]\<rparr>"
  let ?j = "(direct_job OverallStateRunning)\<lparr>ej_Results := Some ?r\<rparr>"
  have "GetJobBenchmarks ?j None = Inr [sample_eb ''p'' ''b'' []]" by code_simp
  moreover have "list_all scored_in_unit (rs_Benchmarks ?r)" by code_simp
  moreover have "list_all (\<lambda>b. weight_ok (eb_Weight b)) [sample_eb ''p'' ''b'' []]" by code_simp
  moreover have "snd (score_sums [sample_eb ''p'' ''b'' []] (rs_Benchmarks ?r)) = F32 1" by code_simp
  ultimately show ?thesis
    using job_score_in_unit_interval[of ?j ?r None "[sample_eb ''p'' ''b'' []]" 1] by auto
qed

text \<open>
  Reading a job completes the metrics schema of its results: afterwards every reported metric has
  an entry, the stored entries come first and unchanged, entries are added for reported metrics only,
  nothing else of the results changes, and completing twice is completing once.
\<close>

theorem metrics_schema_is_complete:
  "\<exists>r'. backfillMetricsSchema (Some r) = Some r' \<and> backfillMetricsSchema (Some r') = Some r' \<and>
     r'\<lparr>rs_Benchmarks := []\<rparr> = r\<lparr>rs_Benchmarks := []\<rparr> \<and>
     list_all2 (\<lambda>b b'. ms_Name ` set (br_MetricsSchema b') = ms_Name ` set (br_MetricsSchema b) \<union> fst ` set (br_Metrics b) \<and>
         take (length (br_MetricsSchema b)) (br_MetricsSchema b') = br_MetricsSchema b \<and>
         b'\<lparr>br_MetricsSchema := []\<rparr> = b\<lparr>br_MetricsSchema := []\<rparr>)
       (rs_Benchmarks r) (rs_Benchmarks r')"
proof -
  have names: "ms_Name ` set (br_MetricsSchema (backfill_benchmark b)) = ms_Name ` set (br_MetricsSchema b) \<union> fst ` set (br_Metrics b)" for b
    by (simp add: backfill_benchmark_def Let_def image_Un image_image) auto
  have "filter (\<lambda>k. k \<notin> set (map ms_Name (br_MetricsSchema (backfill_benchmark b)))) (map fst (br_Metrics (backfill_benchmark b))) = []" for b
    using names[of b] by (auto simp: filter_empty_conv backfill_benchmark_def Let_def)
  then have "backfill_benchmark (backfill_benchmark b) = backfill_benchmark b" for b
    by (simp add: backfill_benchmark_def[of "backfill_benchmark b"] Let_def)
  then have "backfillMetricsSchema (Some (r\<lparr>rs_Benchmarks := map backfill_benchmark (rs_Benchmarks r)\<rparr>)) =
      Some (r\<lparr>rs_Benchmarks := map backfill_benchmark (rs_Benchmarks r)\<rparr>)"
    by (simp add: backfillMetricsSchema_def)
  moreover have "take (length (br_MetricsSchema b)) (br_MetricsSchema (backfill_benchmark b)) = br_MetricsSchema b \<and>
      (backfill_benchmark b)\<lparr>br_MetricsSchema := []\<rparr> = b\<lparr>br_MetricsSchema := []\<rparr>" for b
    by (simp add: backfill_benchmark_def Let_def)
  ultimately show ?thesis using names
    by (intro exI[of _ "r\<lparr>rs_Benchmarks := map backfill_benchmark (rs_Benchmarks r)\<rparr>"])
       (simp add: backfillMetricsSchema_def list_all2_conv_all_nth)
qed

end
