(* ===== verification/Driver_Properties.thy ===== *)
theory Driver_Properties
  imports Store_Samples
begin

text \<open>
  What the transactions do with the failures of the database driver: which failures are retried, how
  often, after which pause, and how much work one operation can cost.
\<close>

section \<open>Attempts\<close>

text \<open>The connection before the n-th repetition of a computation.\<close>

fun after_attempts :: "nat \<Rightarrow> 'a stm \<Rightarrow> conn \<Rightarrow> conn" where
  "after_attempts 0 run c = c"
| "after_attempts (Suc n) run c = after_attempts n run (snd (run c))"

definition serialization_fails :: "'a stm \<Rightarrow> conn \<Rightarrow> bool" where
  "serialization_fails run c = (case fst (run c) of Inl e \<Rightarrow> isSerializationFailure e | Inr _ \<Rightarrow> False)"

lemma retry_loop_after:
  "(\<And>j. j < k \<Longrightarrow> serialization_fails run (after_attempts j run c)) \<Longrightarrow> k \<le> n \<Longrightarrow>
   retry_loop n run c = retry_loop (n - k) run (after_attempts k run c)"
proof (induction k arbitrary: n c)
  case 0
  then show ?case by simp
next
  case (Suc k)
  then obtain n' where n: "n = Suc n'" by (cases n) simp_all
  obtain r c1 where r: "run c = (r, c1)" by fastforce
  with Suc.prems(1)[of 0] obtain e where "r = Inl e" "isSerializationFailure e"
    by (auto simp: serialization_fails_def split: sum.splits)
  moreover have "serialization_fails run (after_attempts j run c1)" if "j < k" for j
    using Suc.prems(1)[of "Suc j"] that r by simp
  ultimately show ?case using Suc.IH[of c1 n'] Suc.prems(2) n r by simp
qed

lemma retry_loop_done: "\<not> serialization_fails run c \<Longrightarrow> retry_loop n run c = run c"
  by (cases n) (auto simp: serialization_fails_def split: prod.splits sum.splits)

text \<open>
  C35: A transaction that fails only for lack of serializability is repeated, up to five times: when
  the first k attempts fail that way, k below five, the operation ends as the attempt after them ends,
  whether that succeeds or fails for another reason; when the first four fail that way, the outcome is
  that of the fifth attempt.
\<close>

theorem serialization_failures_are_retried:
  assumes "\<And>j. j < k \<Longrightarrow> serialization_fails (runTransaction env name i fn) (after_attempts j (runTransaction env name i fn) c)"
    and "k < 5" "k = 4 \<or> \<not> serialization_fails (runTransaction env name i fn) (after_attempts k (runTransaction env name i fn) c)"
  shows "withTransaction env name i fn c = runTransaction env name i fn (after_attempts k (runTransaction env name i fn) c)"
proof -
  let ?run = "runTransaction env name i fn"
  have "withTransaction env name i fn c = retry_loop (4 - k) ?run (after_attempts k ?run c)"
    using retry_loop_after[of k ?run c 4] assms(1,2)
    by (simp add: withTransaction_def retryOnSerializationFailure_def serializationFailureMaxAttempts_def)
  with assms(3) show ?thesis using retry_loop_done by auto
qed

definition busy :: "nat \<Rightarrow> env" where
  "busy n = quiet\<lparr>env_fault := (\<lambda>k. if k < n then Some (PgErr ''40001'' ''could not serialize access due to read/write dependencies among transactions'') else None)\<rparr>"

theorem serialization_failures_are_retried_witness:
  "fst (UpdateEvaluationJobStatus (sample_storage (busy 3)) ''j1'' OverallStateRunning None (sample_conn [direct_job OverallStatePending])) = Inr () \<and>
   UpdateEvaluationJobStatus (sample_storage (busy 3)) ''j1'' OverallStateRunning None (sample_conn [direct_job OverallStatePending]) =
     runTransaction (busy 3) ''update evaluation job status'' ''j1''
       (update_status_body (sample_storage (busy 3)) ''j1'' OverallStateRunning None)
       ((sample_conn [direct_job OverallStatePending])\<lparr>cn_calls := 3\<rparr>)"
proof
  let ?run = "runTransaction (busy 3) ''update evaluation job status'' ''j1''
       (update_status_body (sample_storage (busy 3)) ''j1'' OverallStateRunning None)"
  let ?c = "sample_conn [direct_job OverallStatePending]"
  show "fst (UpdateEvaluationJobStatus (sample_storage (busy 3)) ''j1'' OverallStateRunning None ?c) = Inr ()" by code_simp
  let ?e = "txn_error ''begin'' ''update evaluation job status'' ''j1''
    (PgErr ''40001'' ''could not serialize access due to read/write dependencies among transactions'')"
  have run: "?run (?c\<lparr>cn_calls := n\<rparr>) = (Inl ?e, ?c\<lparr>cn_calls := Suc n\<rparr>)" if "n < 3" for n
    using that by (simp add: runTransaction_def db_query_def db_call_def busy_def Let_def)
  have "isSerializationFailure ?e" by code_simp
  with run have fails: "serialization_fails ?run (?c\<lparr>cn_calls := n\<rparr>)" if "n < 3" for n
    using that by (simp add: serialization_fails_def)
  have c: "?c\<lparr>cn_calls := 0\<rparr> = ?c" by (simp add: sample_conn_def)
  have after: "after_attempts j ?run (?c\<lparr>cn_calls := 0\<rparr>) = ?c\<lparr>cn_calls := j\<rparr>" if "j = 0 \<or> j = 1 \<or> j = 2 \<or> j = 3" for j
    using that run[of 0] run[of 1] run[of 2] by (auto simp: numeral_eq_Suc)
  have "\<not> (case fst (?run (?c\<lparr>cn_calls := 3\<rparr>)) of Inl e \<Rightarrow> isSerializationFailure e | Inr _ \<Rightarrow> False)" by code_simp
  then have "\<not> serialization_fails ?run (after_attempts 3 ?run ?c)" using after[of 3] c by (simp add: serialization_fails_def)
  moreover have "serialization_fails ?run (after_attempts j ?run ?c)" if "j < 3" for j
  proof -
    have "j = 0 \<or> j = 1 \<or> j = 2 \<or> j = 3" using that by auto
    with fails[OF that] after[of j] c show ?thesis by simp
  qed
  ultimately have "withTransaction (busy 3) ''update evaluation job status'' ''j1''
      (update_status_body (sample_storage (busy 3)) ''j1'' OverallStateRunning None) ?c = ?run (after_attempts 3 ?run ?c)"
    by (intro serialization_failures_are_retried) auto
  moreover have "st_env (sample_storage (busy 3)) = busy 3" by (simp add: sample_storage_def)
  ultimately show "UpdateEvaluationJobStatus (sample_storage (busy 3)) ''j1'' OverallStateRunning None ?c = ?run (?c\<lparr>cn_calls := 3\<rparr>)"
    using after[of 3] c by (simp add: UpdateEvaluationJobStatus_def)
qed

section \<open>Bounds\<close>


lemma bounded_calls_mono: "bounded_calls a m \<Longrightarrow> a \<le> b \<Longrightarrow> bounded_calls b m"
  unfolding bounded_calls_def by (meson add_left_mono order_trans)

lemma bounded_calls_scatch:
  assumes "bounded_calls a m" "\<And>e. bounded_calls 0 (h e)" shows "bounded_calls a (scatch m h)"
  unfolding bounded_calls_def
proof
  fix c
  obtain r c1 where m: "m c = (r, c1)" by fastforce
  with assms(1) have "cn_calls c1 \<le> cn_calls c + a" unfolding bounded_calls_def by (metis snd_conv)
  moreover have "cn_calls (snd (h e c1)) \<le> cn_calls c1" for e using assms(2) by (simp add: bounded_calls_def)
  ultimately show "cn_calls (snd (scatch m h c)) \<le> cn_calls c + a"
    using m by (cases r) (auto simp: scatch_def intro: order_trans)
qed

lemma bounded_calls_smap_err [simp, intro]: "bounded_calls k m \<Longrightarrow> bounded_calls k (smap_err f m)"
  unfolding smap_err_def by (rule bounded_calls_scatch) simp_all

lemma bounded_calls_exec [simp, intro]:
  "bounded_calls (Suc 0) (exec_evaluations env f)" "bounded_calls (Suc 0) (exec_collections env g)"
  by (simp_all add: exec_evaluations_def exec_collections_def)


lemma bounded_calls_reads [simp, intro]:
  "bounded_calls (Suc 0) (getEvaluationJobTransactionalForUpdate s i)"
  "bounded_calls (Suc 0) (getEvaluationJobTransactionalForUpdateWithType s i wt)"
  "bounded_calls (Suc 0) (getCollectionTransactional s i)"
  "bounded_calls (Suc 0) (getUserProviderTransactional s i)"
proof -
  note bind0 = bounded_calls_sbind[where a = "Suc 0" and b = 0, simplified]
  have scan: "bounded_calls (Suc 0) (scanEvaluationJobTransactional s i wt)" for wt
    unfolding scanEvaluationJobTransactional_def by (rule bind0) (auto split: option.splits json_column.splits)
  show "bounded_calls (Suc 0) (getEvaluationJobTransactionalForUpdate s i)"
    "bounded_calls (Suc 0) (getEvaluationJobTransactionalForUpdateWithType s i wt)"
    by (simp_all add: scan getEvaluationJobTransactionalForUpdate_def getEvaluationJobTransactionalForUpdateWithType_def)
  show "bounded_calls (Suc 0) (getCollectionTransactional s i)"
    unfolding getCollectionTransactional_def getCollectionTransactionalWithLock_def
    by (rule bind0) (auto split: option.splits json_column.splits)
  show "bounded_calls (Suc 0) (getUserProviderTransactional s i)"
    unfolding getUserProviderTransactional_def by (rule bind0) (auto split: option.splits json_column.splits)
qed

lemma bounded_calls_parts [simp, intro]:
  "bounded_calls (Suc 0) (job_collection s job)"
  "bounded_calls (Suc 0) (loadProviderBench s b)"
  "bounded_calls (Suc 0) (getOverallJobStatus s job)"
  "bounded_calls (Suc 0) (updateEvaluationJobTxn s i st en)"
  "bounded_calls (Suc 0) (validatePostProcessingSourceCompletion s job)"
proof -
  note bind0 = bounded_calls_sbind[where a = "Suc 0" and b = 0, simplified]
  note bind1 = bounded_calls_sbind[where a = 0 and b = "Suc 0", simplified]
  show coll: "bounded_calls (Suc 0) (job_collection s job)" for job
    unfolding job_collection_def Let_def by (auto intro!: bind0)
  show "bounded_calls (Suc 0) (loadProviderBench s b)"
    unfolding loadProviderBench_def by (auto intro!: bounded_calls_scatch bind0)
  show "bounded_calls (Suc 0) (getOverallJobStatus s job)"
    unfolding getOverallJobStatus_def Let_def by (auto intro!: bind0 coll split: sum.splits prod.splits)
  show "bounded_calls (Suc 0) (updateEvaluationJobTxn s i st en)"
    unfolding updateEvaluationJobTxn_def by (intro bind1 bind0 bounded_calls_leaf bounded_calls_smap_err bounded_calls_exec)
  show "bounded_calls (Suc 0) (validatePostProcessingSourceCompletion s job)"
  proof -
    have guarded: "bounded_calls (Suc 0) (if P then sreturn u else sbind (slift x) f)"
      if "\<And>x. bounded_calls (Suc 0) (f x)" for P and x :: "go_error + 'b" and f :: "'b \<Rightarrow> 'c stm" and u
      using that by (auto intro: bind1)
    show ?thesis unfolding validatePostProcessingSourceCompletion_def
      by (rule guarded) (auto intro!: bind0 bounded_calls_scatch split: option.splits)
  qed
qed

lemma bounded_calls_verdict [simp, intro]: "bounded_calls (Suc 0) (computeBenchmarkTestResult s job event coll)"
proof -
  note bind0 = bounded_calls_sbind[where a = "Suc 0" and b = 0, simplified]
  have loaded: "bounded_calls 0 (finish_benchmark_test s b (Some pb) p v)" for b pb p v
    unfolding finish_benchmark_test_def
    using bounded_calls_sbind[where a = 0 and b = 0, simplified] by (auto split: option.splits)
  have "bounded_calls (Suc 0) (finish_benchmark_test s b None p v)" for b p v
    unfolding finish_benchmark_test_def by (auto intro!: bind0 split: option.splits)
  with loaded show ?thesis
    unfolding computeBenchmarkTestResult_def Let_def by (auto intro!: bind0 split: sum.splits option.splits prod.splits)
qed

lemma bounded_calls_store_event: "bounded_calls 2 (store_event s i job coll overall)"
proof -
  have "bounded_calls (Suc 0 + Suc 0) (store_event s i job coll overall)"
    unfolding store_event_def Let_def by (intro bounded_calls_sbind) auto
  then show ?thesis by (simp add: numeral_2_eq_2)
qed

text \<open>
  Handling one event of a benchmark costs at most forty calls to the database driver, whatever
  the driver does: each of the at most five attempts reads the job, the collection of the job twice
  and the provider once, writes the job, reads the source of a post-processing job, and opens and
  closes its transaction.
\<close>

theorem event_cost_is_bounded:
  "cn_calls (snd (UpdateEvaluationJob s i event c)) \<le> cn_calls c + 40"
proof -
  have "bounded_calls (Suc 0 + (0 + (Suc 0 + (0 + (Suc 0 + (Suc 0 + 2)))))) (update_job_body s i event)"
    unfolding update_job_body_def by (intro bounded_calls_sbind bounded_calls_store_event) auto
  then have "bounded_calls 6 (update_job_body s i event)" by (rule bounded_calls_mono) simp
  from bounded_calls_withTransaction[OF this] show ?thesis
    unfolding UpdateEvaluationJob_def by (simp add: bounded_calls_def)
qed

text \<open>
  The pause after a failed attempt doubles with every attempt, starting at 10 ms, and the random
  part added to it is at most a quarter: after attempts one to four it lies between
  10 ms times a power of two and five quarters of that, in nanoseconds, and no arithmetic overflows.
\<close>

theorem backoff_bounds:
  assumes "\<And>m j. rnd m = Some j \<Longrightarrow> 0 \<le> j \<and> j < m" "1 \<le> attempt" "attempt \<le> 4"
  shows "10000000 * 2 ^ nat (attempt - 1) \<le> serializationFailureBackoff rnd attempt \<and>
    serializationFailureBackoff rnd attempt \<le> 12500000 * 2 ^ nat (attempt - 1)"
proof -
  have "attempt \<in> {1, 2, 3, 4}" using assms(2,3) by auto
  moreover have "rnd m = Some j \<longrightarrow> 0 \<le> j \<and> j < m" for m j using assms(1) by blast
  ultimately show ?thesis
    by (fastforce simp: serializationFailureBackoff_def serializationRetryJitter_def serializationRetryBaseDelay_def
      serializationRetryMaxDelay_def Let_def signed_divide_int_def split: option.splits)
qed

theorem backoff_bounds_witness:
  "20000000 \<le> serializationFailureBackoff (\<lambda>m. if 0 < m then Some (m - 1) else None) 2 \<and>
   serializationFailureBackoff (\<lambda>m. if 0 < m then Some (m - 1) else None) 2 \<le> 25000000"
proof -
  have "0 \<le> j \<and> j < m" if "(if 0 < m then Some (m - 1) else None) = Some j" for m j :: int
    using that by (auto split: if_splits)
  from backoff_bounds[of "\<lambda>m. if 0 < m then Some (m - 1) else None" 2, OF this] show ?thesis by simp
qed


lemma wrapped_database_error:
  assumes "serialization_text t" shows "serialization_text (err_text (NewServiceError DatabaseOperationFailed [''Type'', a, ''ResourceId'', b, ''Error'', t]))"
  using rendered_error[of DatabaseOperationFailed "[''Type'', a, ''ResourceId'', b, ''Error'', t]" t] assms by auto

lemma wrapped_internal_error:
  assumes "serialization_text t" shows "serialization_text (err_text (NewServiceError InternalServerError [''Error'', t]))"
  using rendered_error[of InternalServerError "[''Error'', t]" t] assms by auto

text \<open>
  An error text that says serialization failure is still recognised after the store has wrapped
  it, whichever statement of the transaction it comes from: a query, an update, the begin, the commit
  or the rollback; and an error that says so is retried whatever its type.
\<close>

theorem wrapped_serialization_failures_are_recognised:
  assumes "serialization_text (err_text e)"
  shows "isSerializationFailure e \<and> isSerializationFailure (db_failed typ i e) \<and>
    isSerializationFailure (WithRollback (db_failed typ i e)) \<and> isSerializationFailure (internal_error (err_text e)) \<and>
    isSerializationFailure (WithRollback e) \<and> isSerializationFailure (txn_error what name i e)"
proof -
  have "serialization_text (err_text (WithRollback e))"
    using wrapped_internal_error[OF assms] assms by (cases e) (simp_all add: NewServiceError_def)
  with assms wrapped_database_error[OF assms] wrapped_internal_error[OF assms] show ?thesis
    by (simp add: isSerializationFailure_text db_failed_def txn_error_def internal_error_def)
qed

theorem wrapped_serialization_failures_are_recognised_witness:
  "isSerializationFailure (WithRollback (db_failed ''evaluation job'' ''j1'' (PgErr ''40001'' ''ERROR: could not serialize (SQLSTATE 40001)'')))"
proof -
  have "serialization_text (err_text (PgErr ''40001'' ''ERROR: could not serialize (SQLSTATE 40001)''))" by code_simp
  from wrapped_serialization_failures_are_recognised[OF this] show ?thesis by simp
qed

end
