(* ===== verification/Catalog_Invariants.thy ===== *)
theory Catalog_Invariants
  imports Store_Samples
begin

text \<open>
  Effects of the operations on collections and providers. Their transactions may commit although they
  report an error, so the effects are stated as relations between the tables before and after, which
  every statement keeps to and which are closed under repetition.
\<close>

definition moves_by :: "(database \<Rightarrow> database \<Rightarrow> bool) \<Rightarrow> 'a stm \<Rightarrow> bool" where
  "moves_by R m \<longleftrightarrow> (\<forall>c. R (cn_db c) (cn_db (snd (m c))))"

lemma moves_byD: "moves_by R m \<Longrightarrow> m c = (r, c') \<Longrightarrow> R (cn_db c) (cn_db c')"
  unfolding moves_by_def by (metis snd_conv)

locale db_relation =
  fixes R :: "database \<Rightarrow> database \<Rightarrow> bool"
  assumes refl: "R d d" and trans: "R a b \<Longrightarrow> R b c \<Longrightarrow> R a c"
begin

lemma moves_by_keeps: "keeps_db m \<Longrightarrow> moves_by R m"
  by (simp add: moves_by_def keeps_db_def refl)

lemma moves_by_leaf: "moves_by R (sreturn x)" "moves_by R (sthrow e)" "moves_by R (slift v)"
  by (simp_all add: moves_by_keeps)

lemma moves_by_sbind: "moves_by R m \<Longrightarrow> (\<And>x. moves_by R (f x)) \<Longrightarrow> moves_by R (sbind m f)"
proof -
  assume m: "moves_by R m" and f: "\<And>x. moves_by R (f x)"
  have "R (cn_db c) (cn_db (snd (sbind m f c)))" for c
  proof -
    obtain r c1 where r: "m c = (r, c1)" by fastforce
    then have "R (cn_db c) (cn_db c1)" using m by (auto dest: moves_byD)
    moreover have "R (cn_db c1) (cn_db (snd (f x c1)))" for x using f by (simp add: moves_by_def)
    ultimately show ?thesis using r by (cases r) (auto simp: sbind_def intro: trans)
  qed
  then show ?thesis by (simp add: moves_by_def)
qed

lemma moves_by_scatch: "moves_by R m \<Longrightarrow> (\<And>e. moves_by R (h e)) \<Longrightarrow> moves_by R (scatch m h)"
proof -
  assume m: "moves_by R m" and h: "\<And>e. moves_by R (h e)"
  have "R (cn_db c) (cn_db (snd (scatch m h c)))" for c
  proof -
    obtain r c1 where r: "m c = (r, c1)" by fastforce
    then have "R (cn_db c) (cn_db c1)" using m by (auto dest: moves_byD)
    moreover have "R (cn_db c1) (cn_db (snd (h e c1)))" for e using h by (simp add: moves_by_def)
    ultimately show ?thesis using r by (cases r) (auto simp: scatch_def intro: trans)
  qed
  then show ?thesis by (simp add: moves_by_def)
qed

lemma moves_by_smap_err: "moves_by R m \<Longrightarrow> moves_by R (smap_err g m)"
  unfolding smap_err_def by (rule moves_by_scatch) (simp_all add: moves_by_keeps)

lemma moves_by_runTransaction:
  assumes "moves_by R fn" shows "moves_by R (runTransaction env name i fn)"
  unfolding moves_by_def
proof
  fix c
  show "R (cn_db c) (cn_db (snd (runTransaction env name i fn c)))"
  proof (cases rule: runTransaction_cases[of env name i fn c])
    case aborted
    then show ?thesis by (simp add: refl)
  next
    case (committed c1 r c2)
    with moves_byD[OF assms committed(2)] show ?thesis by simp
  qed
qed

lemma moves_by_retry_loop:
  assumes "moves_by R run" shows "moves_by R (retry_loop n run)"
proof (induction n)
  case 0
  then show ?case using assms by (simp add: moves_by_def)
next
  case (Suc n)
  show ?case unfolding moves_by_def
  proof
    fix c
    obtain r c1 where run: "run c = (r, c1)" by fastforce
    have "R (cn_db c) (cn_db c1)" using assms run by (rule moves_byD)
    moreover have "R (cn_db c1) (cn_db (snd (retry_loop n run c1)))" using Suc by (simp add: moves_by_def)
    ultimately show "R (cn_db c) (cn_db (snd (retry_loop (Suc n) run c)))"
      using run by (cases r) (auto intro: trans)
  qed
qed

lemma moves_by_withTransaction: "moves_by R fn \<Longrightarrow> moves_by R (withTransaction env name i fn)"
  unfolding withTransaction_def retryOnSerializationFailure_def
  by (intro moves_by_retry_loop moves_by_runTransaction)

lemma withTransaction_Inr:
  assumes "moves_by R fn" "withTransaction env name i fn c = (Inr x, c')"
  obtains c1 c2 where "R (cn_db c) (cn_db c1)" "fn c1 = (Inr x, c2)" "cn_db c' = cn_db c2"
proof -
  let ?run = "runTransaction env name i fn"
  have committed: "\<exists>c1 c2. R (cn_db c) (cn_db c1) \<and> fn c1 = (Inr x, c2) \<and> cn_db c' = cn_db c2"
    if "?run c = (Inr x, c')" for c
  proof (cases rule: runTransaction_cases[of env name i fn c])
    case aborted
    with that show ?thesis by simp
  next
    case (committed c1 r c2)
    with that have "fn c1 = (Inr x, c2)" "cn_db c' = cn_db c2" by auto
    with committed(1) refl show ?thesis by metis
  qed
  have "\<exists>c1 c2. R (cn_db c) (cn_db c1) \<and> fn c1 = (Inr x, c2) \<and> cn_db c' = cn_db c2"
    if "retry_loop n ?run c = (Inr x, c')" for n c
    using that
  proof (induction n arbitrary: c)
    case 0
    then show ?case by (intro committed) simp
  next
    case (Suc n)
    obtain r c1 where run: "?run c = (r, c1)" by fastforce
    show ?case
    proof (cases r)
      case (Inl e)
      with run Suc.prems have "retry_loop n ?run c1 = (Inr x, c')" by (simp split: if_splits)
      from Suc.IH[OF this] moves_byD[OF moves_by_runTransaction[OF assms(1)] run] show ?thesis by (blast intro: trans)
    next
      case (Inr y)
      with run Suc.prems have "?run c = (Inr x, c')" by simp
      then show ?thesis by (rule committed)
    qed
  qed
  with assms(2) that show thesis
    unfolding withTransaction_def retryOnSerializationFailure_def by blast
qed

end

section \<open>Other tenants\<close>

definition foreign :: "Tenant \<Rightarrow> ('e, 'm) row_scheme list \<Rightarrow> ('e, 'm) row_scheme list" where
  "foreign t rows = filter (\<lambda>r. rw_tenant_id r \<noteq> t) rows"

definition same_elsewhere :: "Tenant \<Rightarrow> database \<Rightarrow> database \<Rightarrow> bool" where
  "same_elsewhere t d d' \<longleftrightarrow>
     evaluations d' = evaluations d \<and> foreign t (collections d') = foreign t (collections d) \<and>
     foreign t (providers d') = foreign t (providers d)"

interpretation elsewhere: db_relation "same_elsewhere t" for t
  by unfold_locales (auto simp: same_elsewhere_def)

text \<open>The operations of the catalog as data, with the JSON patcher as an argument.\<close>

datatype catalog_op =
    OpCreateCollection CollectionResource
  | OpUpdateCollection string CollectionConfig
  | OpDeleteCollection string
  | OpUpdateCollectionStatus string "CollectionStatus option"
  | OpPatchCollection string "PatchOperation list"
  | OpCreateProvider ProviderResource
  | OpUpdateProvider string ProviderConfig
  | OpDeleteProvider string
  | OpPatchProvider string "PatchOperation list"

definition sdrop :: "'a stm \<Rightarrow> unit stm" where
  "sdrop m = sbind m (\<lambda>_. sreturn ())"

fun run_catalog_op ::
  "collectionStoredEntity patcher \<Rightarrow> ProviderConfig patcher \<Rightarrow> sqlStorage \<Rightarrow> catalog_op \<Rightarrow> unit stm" where
  "run_catalog_op pc pp s (OpCreateCollection x) = CreateCollection s x"
| "run_catalog_op pc pp s (OpUpdateCollection i x) = sdrop (UpdateCollection s i x)"
| "run_catalog_op pc pp s (OpDeleteCollection i) = DeleteCollection s i"
| "run_catalog_op pc pp s (OpUpdateCollectionStatus i st) = sdrop (UpdateCollectionStatus s i st)"
| "run_catalog_op pc pp s (OpPatchCollection i ps) = sdrop (PatchCollection pc s i ps)"
| "run_catalog_op pc pp s (OpCreateProvider x) = CreateProvider s x"
| "run_catalog_op pc pp s (OpUpdateProvider i x) = sdrop (UpdateProvider s i x)"
| "run_catalog_op pc pp s (OpDeleteProvider i) = DeleteProvider s i"
| "run_catalog_op pc pp s (OpPatchProvider i ps) = sdrop (PatchProvider pp s i ps)"

fun catalog_tenant_ok :: "Tenant \<Rightarrow> catalog_op \<Rightarrow> bool" where
  "catalog_tenant_ok t (OpCreateCollection x) = (r_Tenant (co_Resource x) = t)"
| "catalog_tenant_ok t (OpCreateProvider x) = (r_Tenant (pr_Resource x) = t)"
| "catalog_tenant_ok t _ = True"

lemma foreign_update: "t \<noteq> '''' \<Longrightarrow> foreign t (snd (CreateUpdateEntityStatement t i doc now rows)) = foreign t rows"
  by (induction rows) (auto simp: foreign_def CreateUpdateEntityStatement_def update_rows_def own_row_def Tenant_IsEmpty_def)

lemma foreign_delete: "t \<noteq> '''' \<Longrightarrow> foreign t (snd (CreateDeleteEntityStatement t i rows)) = foreign t rows"
  by (induction rows) (auto simp: foreign_def CreateDeleteEntityStatement_def delete_rows_def own_row_def Tenant_IsEmpty_def)

lemma exec_elsewhere:
  assumes "t \<noteq> ''''"
  shows "moves_by (same_elsewhere t) (exec_collections env (CreateUpdateEntityStatement t i doc))"
    "moves_by (same_elsewhere t) (exec_providers env (CreateUpdateEntityStatement t i doc'))"
    "moves_by (same_elsewhere t) (exec_collections env (\<lambda>now. CreateDeleteEntityStatement t i))"
    "moves_by (same_elsewhere t) (exec_providers env (\<lambda>now. CreateDeleteEntityStatement t i))"
  using assms foreign_update foreign_delete
  by (auto simp: moves_by_def exec_collections_def exec_providers_def db_call_def Let_def same_elsewhere_def case_prod_beta
      split: option.splits)

lemma insert_elsewhere:
  "rw_tenant_id r = t \<Longrightarrow> moves_by (same_elsewhere t) (insert_collection env r)"
  "rw_tenant_id p = t \<Longrightarrow> moves_by (same_elsewhere t) (insert_provider env p)"
  by (auto simp: moves_by_def insert_collection_def insert_provider_def db_call_def Let_def same_elsewhere_def insert_row_def foreign_def
      split: option.splits sum.splits)

lemma updates_elsewhere:
  assumes "st_tenant s \<noteq> ''''"
  shows "moves_by (same_elsewhere (st_tenant s)) (updateCollectionTransactional s i x)"
    "moves_by (same_elsewhere (st_tenant s)) (updateProviderTransactional s i y)"
    "moves_by (same_elsewhere (st_tenant s)) (deleteCollectionTxn s i)"
    "moves_by (same_elsewhere (st_tenant s)) (deleteProviderTxn s i)"
  unfolding updateCollectionTransactional_def updateProviderTransactional_def deleteCollectionTxn_def deleteProviderTxn_def
  by (intro elsewhere.moves_by_sbind elsewhere.moves_by_smap_err elsewhere.moves_by_leaf exec_elsewhere assms)+

lemmas elsewhere_intros =
  elsewhere.moves_by_sbind elsewhere.moves_by_leaf updates_elsewhere elsewhere.moves_by_keeps[OF keeps_db_getCollection(2)]
  elsewhere.moves_by_keeps[OF keeps_db_getCollection(3)] elsewhere.moves_by_keeps[OF keeps_db_getUserProvider]

lemma bodies_elsewhere:
  assumes "st_tenant s \<noteq> ''''"
  shows "moves_by (same_elsewhere (st_tenant s)) (update_collection_body s i cfg)"
    "moves_by (same_elsewhere (st_tenant s)) (delete_collection_body s i)"
    "moves_by (same_elsewhere (st_tenant s)) (update_collection_status_body s i st)"
    "moves_by (same_elsewhere (st_tenant s)) (patch_collection_body pc s i ps)"
    "moves_by (same_elsewhere (st_tenant s)) (update_provider_body s i pcfg)"
    "moves_by (same_elsewhere (st_tenant s)) (delete_provider_body s i)"
    "moves_by (same_elsewhere (st_tenant s)) (patch_provider_body pp s i ps)"
  unfolding update_collection_body_def delete_collection_body_def update_collection_status_body_def patch_collection_body_def
    update_provider_body_def delete_provider_body_def patch_provider_body_def
  using assms by (auto intro!: elsewhere_intros split: sum.splits json_column.splits)

lemma creates_elsewhere:
  "r_Tenant (co_Resource x) = t \<Longrightarrow> moves_by (same_elsewhere t) (CreateCollection s x)"
  "r_Tenant (pr_Resource y) = t \<Longrightarrow> moves_by (same_elsewhere t) (CreateProvider s y)"
proof -
  have stamped: "moves_by (same_elsewhere t) (sbind (stamp_times env r) f)"
    if "\<And>r'. r_Tenant r' = r_Tenant r \<Longrightarrow> moves_by (same_elsewhere t) (f r')" for env r and f :: "Resource \<Rightarrow> unit stm"
    using that unfolding moves_by_def by (auto simp: stamp_times_def sbind_def time_Now_def sreturn_def)
  show "r_Tenant (co_Resource x) = t \<Longrightarrow> moves_by (same_elsewhere t) (CreateCollection s x)"
    "r_Tenant (pr_Resource y) = t \<Longrightarrow> moves_by (same_elsewhere t) (CreateProvider s y)"
    unfolding CreateCollection_def createCollectionTxn_def CreateProvider_def createProviderTxn_def
    by (intro stamped elsewhere.moves_by_sbind elsewhere.moves_by_smap_err elsewhere.moves_by_leaf insert_elsewhere; simp add: row_of_def)+
qed

lemma catalog_elsewhere:
  assumes "st_tenant s \<noteq> ''''"
  shows "moves_by (same_elsewhere (st_tenant s)) (UpdateCollection s i cfg)"
    "moves_by (same_elsewhere (st_tenant s)) (DeleteCollection s i)"
    "moves_by (same_elsewhere (st_tenant s)) (UpdateCollectionStatus s i st)"
    "moves_by (same_elsewhere (st_tenant s)) (PatchCollection pc s i ps)"
    "moves_by (same_elsewhere (st_tenant s)) (UpdateProvider s i pcfg)"
    "moves_by (same_elsewhere (st_tenant s)) (DeleteProvider s i)"
    "moves_by (same_elsewhere (st_tenant s)) (PatchProvider pp s i ps)"
  unfolding UpdateCollection_def DeleteCollection_def UpdateCollectionStatus_def PatchCollection_def UpdateProvider_def
    DeleteProvider_def PatchProvider_def
  by (intro elsewhere.moves_by_withTransaction bodies_elsewhere assms)+

theorem run_catalog_op_elsewhere:
  assumes "st_tenant s \<noteq> ''''" "catalog_tenant_ok (st_tenant s) op"
  shows "same_elsewhere (st_tenant s) (cn_db c) (cn_db (snd (run_catalog_op pc pp s op c)))"
proof -
  have "moves_by (same_elsewhere (st_tenant s)) (run_catalog_op pc pp s op)"
    using assms
    by (cases op) (auto simp: sdrop_def intro!: elsewhere.moves_by_sbind elsewhere.moves_by_leaf catalog_elsewhere creates_elsewhere)
  then show ?thesis by (simp add: moves_by_def)
qed



section \<open>Read-only resources\<close>

text \<open>The collection that a request finds is owned by the system or curated, or there is none.\<close>

definition frozen_collection :: "sqlStorage \<Rightarrow> string \<Rightarrow> database \<Rightarrow> bool" where
  "frozen_collection s i d =
     (case find (getWhereStatement (st_tenant s) i) (collections d) of
        None \<Rightarrow> True
      | Some row \<Rightarrow> (case rw_entity row of
            NotJson t \<Rightarrow> True
          | Json e \<Rightarrow> rw_owner row = ''system'' \<or> cc_CurationOrder (ce_Config e) > 0))"

definition frozen_provider :: "sqlStorage \<Rightarrow> string \<Rightarrow> database \<Rightarrow> bool" where
  "frozen_provider s i d =
     (case find (getWhereStatement (st_tenant s) i) (providers d) of None \<Rightarrow> True | Some row \<Rightarrow> rw_owner row = ''system'')"

interpretation frozen: db_relation "\<lambda>d d'. F d \<longrightarrow> d' = d" for F
  by unfold_locales auto

text \<open>A body that refuses whenever F holds is refused as a transaction, and changes nothing.\<close>

definition refuses :: "(database \<Rightarrow> bool) \<Rightarrow> 'a stm \<Rightarrow> bool" where
  "refuses F m \<longleftrightarrow> (\<forall>c. F (cn_db c) \<longrightarrow> isl (fst (m c)) \<and> cn_db (snd (m c)) = cn_db c)"

lemma refuses_withTransaction:
  assumes "refuses F fn" shows "refuses F (withTransaction env name i fn)"
  unfolding refuses_def
proof (intro allI impI)
  fix c :: conn assume F: "F (cn_db c)"
  have "moves_by (\<lambda>d d'. F d \<longrightarrow> d' = d) fn" using assms by (simp add: refuses_def moves_by_def)
  note keep = frozen.moves_by_withTransaction[OF this] and succ = frozen.withTransaction_Inr[OF this]
  obtain r c' where w: "withTransaction env name i fn c = (r, c')" by fastforce
  have "isl r"
  proof (cases r)
    case (Inr x)
    from succ[OF w[unfolded Inr]] obtain c1 c2 where "F (cn_db c) \<longrightarrow> cn_db c1 = cn_db c" "fn c1 = (Inr x, c2)" by metis
    with assms F show ?thesis unfolding refuses_def by (metis fst_conv isl_def sum.distinct(1))
  qed simp
  with w F moves_byD[OF keep w] show "isl (fst (withTransaction env name i fn c)) \<and> cn_db (snd (withTransaction env name i fn c)) = cn_db c"
    by simp
qed

lemma refuses_read_then:
  assumes "keeps_db m" "\<And>c x c1. F (cn_db c) \<Longrightarrow> m c = (Inr x, c1) \<Longrightarrow> \<exists>e. f x = sthrow e"
  shows "refuses F (sbind m f)"
  unfolding refuses_def
proof (intro allI impI)
  fix c :: conn assume F: "F (cn_db c)"
  obtain r c1 where m: "m c = (r, c1)" by fastforce
  then have db: "cn_db c1 = cn_db c" using assms(1) by (rule keeps_dbD[rotated])
  show "isl (fst (sbind m f c)) \<and> cn_db (snd (sbind m f c)) = cn_db c"
  proof (cases r)
    case (Inl e)
    with m db show ?thesis by (simp add: sbind_def)
  next
    case (Inr x)
    with m assms(2)[OF F] obtain e where "f x = sthrow e" by blast
    with m db Inr show ?thesis by (simp add: sbind_def sthrow_def)
  qed
qed

lemma refuses_frozen_collection:
  "refuses (frozen_collection s i) (UpdateCollection s i cfg)"
  "refuses (frozen_collection s i) (PatchCollection pc s i ps)"
proof -
  have frz: "IsSystemResource (co_Resource coll) \<or> cc_CurationOrder (co_Config coll) > 0"
    if "frozen_collection s i (cn_db c)" "getCollectionTransactionalForUpdate s i c = (Inr coll, c1)" for c coll c1
    using that(2) by (rule getCollectionForUpdate_Inr)
      (use that(1) in \<open>auto simp: frozen_collection_def collection_resource_def IsSystemResource_def row_resource_def\<close>)
  show "refuses (frozen_collection s i) (UpdateCollection s i cfg)"
    unfolding UpdateCollection_def update_collection_body_def
    by (intro refuses_withTransaction refuses_read_then) (auto dest: frz simp: curated_def)
  show "refuses (frozen_collection s i) (PatchCollection pc s i ps)"
    unfolding PatchCollection_def patch_collection_body_def
    by (intro refuses_withTransaction refuses_read_then) (auto dest: frz simp: IsSystemResource_def)
qed

lemma getUserProvider_Inr:
  assumes "getUserProviderTransactional s i c = (Inr p, c')"
  obtains row cfg where "find (getWhereStatement (st_tenant s) i) (providers (cn_db c)) = Some row"
    "isVisibleResource s (row_resource row)" "rw_entity row = Json cfg" "p = \<lparr>pr_Resource = row_resource row, pr_Config = cfg\<rparr>"
    "cn_db c' = cn_db c"
  using assms that
  by (auto simp: getUserProviderTransactional_def sbind_Inr_iff db_query_Inr split: option.splits if_splits json_column.splits)

lemma refuses_frozen_provider:
  "refuses (frozen_provider s i) (UpdateProvider s i cfg)"
  "refuses (frozen_provider s i) (PatchProvider pp s i ps)"
  "refuses (frozen_provider s i) (DeleteProvider s i)"
proof -
  have frz: "IsSystemResource (pr_Resource p)"
    if "frozen_provider s i (cn_db c)" "getUserProviderTransactional s i c = (Inr p, c1)" for c p c1
    using that(2) by (rule getUserProvider_Inr)
      (use that(1) in \<open>auto simp: frozen_provider_def IsSystemResource_def row_resource_def\<close>)
  show "refuses (frozen_provider s i) (UpdateProvider s i cfg)" "refuses (frozen_provider s i) (PatchProvider pp s i ps)"
    "refuses (frozen_provider s i) (DeleteProvider s i)"
    unfolding UpdateProvider_def update_provider_body_def PatchProvider_def patch_provider_body_def DeleteProvider_def delete_provider_body_def
    by (intro refuses_withTransaction refuses_read_then keeps_db_getUserProvider; auto dest: frz)+
qed


section \<open>Updating a collection\<close>

definition set_config :: "CollectionConfig \<Rightarrow> collectionStoredEntity json_column \<Rightarrow> collectionStoredEntity json_column" where
  "set_config cfg doc = (case doc of Json e \<Rightarrow> Json (e\<lparr>ce_Config := cfg\<rparr>) | NotJson t \<Rightarrow> NotJson t)"

definition configured :: "Tenant \<Rightarrow> string \<Rightarrow> CollectionConfig \<Rightarrow> time \<Rightarrow> collection_row \<Rightarrow> collection_row" where
  "configured t i cfg now r =
     (if own_row t i r then r\<lparr>rw_entity := set_config cfg (rw_entity r), rw_updated_at := now\<rparr> else r)"

definition reconfigured :: "Tenant \<Rightarrow> string \<Rightarrow> CollectionConfig \<Rightarrow> database \<Rightarrow> database \<Rightarrow> bool" where
  "reconfigured t i cfg d d' \<longleftrightarrow>
     (distinct (map rw_id (collections d)) \<longrightarrow>
        d' = d \<or> (\<exists>now. d' = d\<lparr>collections := map (configured t i cfg now) (collections d)\<rparr>))"

lemma configured_twice: "configured t i cfg now (configured t i cfg now' r) = configured t i cfg now r"
  by (auto simp: configured_def own_row_def set_config_def split: json_column.splits)

lemma configured_id [simp]: "rw_id (configured t i cfg now r) = rw_id r"
  by (simp add: configured_def)

interpretation reconf: db_relation "reconfigured t i cfg" for t i cfg
proof
  show "reconfigured t i cfg d d" for d by (simp add: reconfigured_def)
  show "reconfigured t i cfg a c" if "reconfigured t i cfg a b" "reconfigured t i cfg b c" for a b c
    using that by (auto simp: reconfigured_def comp_def configured_twice)
qed

lemma own_row_of_found:
  assumes "find (getWhereStatement (st_tenant s) i) rows = Some row" "isVisibleResource s (row_resource row)"
    "rw_owner row \<noteq> ''system''" "i \<noteq> ''''"
  shows "own_row (st_tenant s) i row" "row \<in> set rows" "rw_id row = i"
  using assms by (auto simp: find_Some_iff getWhereStatement_def own_row_def isVisibleResource_def row_resource_def IsSystemResource_def)

lemma update_collection_step:
  assumes "getCollectionTransactionalForUpdate s i c = (Inr coll, c1)" "\<not> curated coll" "i \<noteq> ''''"
    and "updateCollectionTransactional s i (coll\<lparr>co_Config := cfg\<rparr>) c1 = (Inr u, c2)"
    and "distinct (map rw_id (collections (cn_db c)))"
  shows "\<exists>now. cn_db c2 = (cn_db c)\<lparr>collections := map (configured (st_tenant s) i cfg now) (collections (cn_db c))\<rparr>"
proof -
  from assms(1) obtain row e where row: "find (getWhereStatement (st_tenant s) i) (collections (cn_db c)) = Some row"
    "isVisibleResource s (row_resource row)" "rw_entity row = Json e"
    and coll: "coll = collection_resource (row_resource row) e" and db: "cn_db c1 = cn_db c"
    by (rule getCollectionForUpdate_Inr)
  have "rw_owner row \<noteq> ''system''" using assms(2) coll
    by (auto simp: curated_def IsSystemResource_def collection_resource_def row_resource_def)
  note own = own_row_of_found[OF row(1,2) this assms(3)]
  from updateCollectionTransactional_Inr[OF assms(4)] obtain now where
    c2: "cn_db c2 = (cn_db c)\<lparr>collections := map (\<lambda>r. if own_row (st_tenant s) i r
        then r\<lparr>rw_entity := Json (collection_entity (coll\<lparr>co_Config := cfg\<rparr>)), rw_updated_at := now\<rparr> else r) (collections (cn_db c))\<rparr>"
    unfolding db .
  have ent: "Json (collection_entity (coll\<lparr>co_Config := cfg\<rparr>)) = set_config cfg (rw_entity row)"
    by (simp add: coll row(3) set_config_def collection_entity_def collection_resource_def)
  have "r = row" if "r \<in> set (collections (cn_db c))" "own_row (st_tenant s) i r" for r
    using that own assms(5) by (auto simp: own_row_def distinct_map dest: inj_onD)
  then show ?thesis unfolding c2 ent by (auto simp: configured_def intro!: exI[of _ now])
qed

lemma atomic_updateCollectionTransactional: "atomic (updateCollectionTransactional s i x)"
  unfolding atomic_def
proof (intro allI impI)
  fix c e c' assume "updateCollectionTransactional s i x c = (Inl e, c')"
  then show "cn_db c' = cn_db c"
    using atomic_smap_err[OF atomic_exec(2)] unfolding updateCollectionTransactional_def
    by (auto simp: sbind_Inl_iff smap_err_Inl_iff smap_err_Inr_iff atomic_def slift_def dest: atomic_exec(2)[unfolded atomic_def, rule_format])
qed


lemma find_map_pred: "find P (map f xs) = map_option f (find (P \<circ> f) xs)"
  by (induction xs) auto

lemma update_collection_body_moves:
  assumes "i \<noteq> ''''"
  shows "moves_by (reconfigured (st_tenant s) i cfg) (update_collection_body s i cfg)"
  unfolding moves_by_def
proof
  fix c :: conn
  obtain r c1 where r: "getCollectionTransactionalForUpdate s i c = (r, c1)" by fastforce
  have db: "cn_db c1 = cn_db c" using keeps_dbD[OF keeps_db_getCollection(3) r] .
  let ?R = "reconfigured (st_tenant s) i cfg (cn_db c)"
  show "?R (cn_db (snd (update_collection_body s i cfg c)))"
  proof (cases r)
    case (Inl e)
    with r db show ?thesis by (simp add: update_collection_body_def sbind_def reconf.refl)
  next
    case (Inr coll)
    obtain q c2 where q: "updateCollectionTransactional s i (coll\<lparr>co_Config := cfg\<rparr>) c1 = (q, c2)" by fastforce
    have upd: "?R (cn_db c2)" if "\<not> curated coll"
    proof (cases q)
      case (Inl e)
      with q atomic_updateCollectionTransactional db show ?thesis unfolding atomic_def by (metis reconf.refl)
    next
      case (Inr u)
      then show ?thesis
        using update_collection_step[OF r[unfolded \<open>r = Inr coll\<close>] that assms] q by (auto simp: reconfigured_def)
    qed
    have "cn_db (snd (getCollectionTransactional s i c2)) = cn_db c2"
      using keeps_db_getCollection(2) by (simp add: keeps_db_def)
    with upd r Inr q db show ?thesis
      by (cases q) (auto simp: update_collection_body_def sbind_def sthrow_def reconf.refl)
  qed
qed

lemma UpdateCollection_Inr:
  assumes "distinct (map rw_id (collections (cn_db c)))" "i \<noteq> ''''" "UpdateCollection s i cfg c = (Inr coll, c')"
  shows "co_Config coll = cfg \<and> r_ID (co_Resource coll) = i \<and>
    (\<exists>now. cn_db c' = (cn_db c)\<lparr>collections := map (configured (st_tenant s) i cfg now) (collections (cn_db c))\<rparr>)"
proof -
  from reconf.withTransaction_Inr[OF update_collection_body_moves[OF assms(2)] assms(3)[unfolded UpdateCollection_def]]
  obtain c1 c2 where rel: "reconfigured (st_tenant s) i cfg (cn_db c) (cn_db c1)"
    and body: "update_collection_body s i cfg c1 = (Inr coll, c2)" and c': "cn_db c' = cn_db c2" .
  have dist: "distinct (map rw_id (collections (cn_db c1)))"
    using rel assms(1) by (auto simp: reconfigured_def comp_def)
  from body obtain old c3 c4 where get: "getCollectionTransactionalForUpdate s i c1 = (Inr old, c3)" and nc: "\<not> curated old"
    and upd: "updateCollectionTransactional s i (old\<lparr>co_Config := cfg\<rparr>) c3 = (Inr (), c4)"
    and again: "getCollectionTransactional s i c4 = (Inr coll, c2)"
    by (auto simp: update_collection_body_def sbind_Inr_iff split: if_splits)
  from update_collection_step[OF get nc assms(2) upd dist] obtain now where
    c4: "cn_db c4 = (cn_db c1)\<lparr>collections := map (configured (st_tenant s) i cfg now) (collections (cn_db c1))\<rparr>" ..
  from get obtain row0 e0 where row0: "find (getWhereStatement (st_tenant s) i) (collections (cn_db c1)) = Some row0"
    "isVisibleResource s (row_resource row0)" "old = collection_resource (row_resource row0) e0"
    by (rule getCollectionForUpdate_Inr)
  with nc have "rw_owner row0 \<noteq> ''system''"
    by (auto simp: curated_def IsSystemResource_def collection_resource_def row_resource_def)
  note own = own_row_of_found[OF row0(1,2) this assms(2)]
  have same: "getWhereStatement t j (configured t' i cfg now r) = getWhereStatement t j r" for t j t' r
    by (simp add: getWhereStatement_def configured_def)
  have "find (getWhereStatement (st_tenant s) i) (collections (cn_db c4)) = Some (configured (st_tenant s) i cfg now row0)"
    using row0(1) by (simp add: c4 find_map_pred comp_def same)
  moreover from again have "getCollectionTransactionalForUpdate s i c4 = (Inr coll, c2)"
    by (simp add: getCollectionTransactionalForUpdate_def getCollectionTransactional_def)
  then obtain row e where "find (getWhereStatement (st_tenant s) i) (collections (cn_db c4)) = Some row" "rw_entity row = Json e"
    "coll = collection_resource (row_resource row) e" "cn_db c2 = cn_db c4"
    by (rule getCollectionForUpdate_Inr)
  ultimately have "co_Config coll = cfg" "r_ID (co_Resource coll) = i" and c2: "cn_db c2 = cn_db c4"
    using own by (auto simp: configured_def set_config_def collection_resource_def row_resource_def split: json_column.splits)
  moreover have "\<exists>now. cn_db c' = (cn_db c)\<lparr>collections := map (configured (st_tenant s) i cfg now) (collections (cn_db c))\<rparr>"
    using rel assms(1) unfolding c' c2 c4 by (auto simp: reconfigured_def comp_def configured_twice)
  ultimately show ?thesis by blast
qed

section \<open>The catalog leaves the jobs alone\<close>

definition jobs_kept :: "database \<Rightarrow> database \<Rightarrow> bool" where
  "jobs_kept d d' \<longleftrightarrow> evaluations d' = evaluations d \<and> (db_ok d \<longrightarrow> db_ok d')"

interpretation jobs: db_relation jobs_kept
  by unfold_locales (auto simp: jobs_kept_def)

lemma exec_jobs_kept:
  "(\<And>now rows. table_ok collection_entity_ok rows \<Longrightarrow> table_ok collection_entity_ok (snd (f now rows))) \<Longrightarrow>
   moves_by jobs_kept (exec_collections env f)"
  "(\<And>now rows. table_ok provider_config_ok rows \<Longrightarrow> table_ok provider_config_ok (snd (g now rows))) \<Longrightarrow>
   moves_by jobs_kept (exec_providers env g)"
  by (auto simp: moves_by_def exec_collections_def exec_providers_def db_call_def Let_def jobs_kept_def db_ok_def
      split: option.splits sum.splits prod.splits) (metis snd_conv)+

lemma table_ok_statements:
  "column_ok ok doc \<Longrightarrow> table_ok ok rows \<Longrightarrow> table_ok ok (snd (CreateUpdateEntityStatement t i doc now rows))"
  "table_ok ok rows \<Longrightarrow> table_ok ok (snd (CreateDeleteEntityStatement t i rows))"
  by (auto simp: CreateUpdateEntityStatement_def CreateDeleteEntityStatement_def intro!: table_ok_update_rows table_ok_delete_rows)

lemma insert_jobs_kept:
  "column_ok collection_entity_ok (rw_entity r) \<Longrightarrow> moves_by jobs_kept (insert_collection env r)"
  "column_ok provider_config_ok (rw_entity p) \<Longrightarrow> moves_by jobs_kept (insert_provider env p)"
  by (auto simp: moves_by_def insert_collection_def insert_provider_def db_call_def Let_def jobs_kept_def insert_row_def
      db_ok_def table_ok_def split: option.splits sum.splits)

text \<open>A document that could be encoded can be encoded again.\<close>

lemma moves_by_marshalled:
  "(\<And>doc. column_ok collection_entity_ok doc \<Longrightarrow> moves_by jobs_kept (k doc)) \<Longrightarrow>
   moves_by jobs_kept (sbind (smap_err w (slift (createCollectionEntity x))) k)"
  "(\<And>doc. column_ok provider_config_ok doc \<Longrightarrow> moves_by jobs_kept (l doc)) \<Longrightarrow>
   moves_by jobs_kept (sbind (smap_err w (slift (createProviderEntity y))) l)"
  using jobs.refl
  by (auto simp: moves_by_def sbind_def smap_err_def scatch_def slift_def sthrow_def createCollectionEntity_def createProviderEntity_def
      json_Marshal_def split: sum.splits prod.splits if_splits)

lemma writes_jobs_kept:
  "moves_by jobs_kept (updateCollectionTransactional s i x)" "moves_by jobs_kept (updateProviderTransactional s i y)"
  "moves_by jobs_kept (deleteCollectionTxn s i)" "moves_by jobs_kept (deleteProviderTxn s i)"
  unfolding updateCollectionTransactional_def updateProviderTransactional_def deleteCollectionTxn_def deleteProviderTxn_def
  by (intro moves_by_marshalled jobs.moves_by_sbind jobs.moves_by_smap_err jobs.moves_by_leaf exec_jobs_kept
      table_ok_statements; assumption)+

lemma keeps_db_stamp [intro]: "keeps_db (stamp_times env r)" "keeps_db (time_Now env)"
  by (auto simp: keeps_db_def stamp_times_def sbind_def time_Now_def sreturn_def)

lemma creates_jobs_kept: "moves_by jobs_kept (CreateCollection s x)" "moves_by jobs_kept (CreateProvider s y)"
  unfolding CreateCollection_def createCollectionTxn_def CreateProvider_def createProviderTxn_def
  by (intro moves_by_marshalled jobs.moves_by_sbind jobs.moves_by_smap_err insert_jobs_kept jobs.moves_by_keeps keeps_db_stamp;
      simp add: row_of_def)+

lemmas jobs_kept_intros =
  jobs.moves_by_sbind jobs.moves_by_leaf writes_jobs_kept jobs.moves_by_keeps[OF keeps_db_getCollection(2)]
  jobs.moves_by_keeps[OF keeps_db_getCollection(3)] jobs.moves_by_keeps[OF keeps_db_getUserProvider]

lemma bodies_jobs_kept:
  "moves_by jobs_kept (update_collection_body s i cfg)" "moves_by jobs_kept (delete_collection_body s i)"
  "moves_by jobs_kept (update_collection_status_body s i st)" "moves_by jobs_kept (patch_collection_body pc s i ps)"
  "moves_by jobs_kept (update_provider_body s i pcfg)" "moves_by jobs_kept (delete_provider_body s i)"
  "moves_by jobs_kept (patch_provider_body pp s i ps)"
  unfolding update_collection_body_def delete_collection_body_def update_collection_status_body_def patch_collection_body_def
    update_provider_body_def delete_provider_body_def patch_provider_body_def
  by (auto intro!: jobs_kept_intros split: sum.splits json_column.splits)

lemma catalog_jobs_kept:
  "moves_by jobs_kept (UpdateCollection s i cfg)" "moves_by jobs_kept (DeleteCollection s i)"
  "moves_by jobs_kept (UpdateCollectionStatus s i st)" "moves_by jobs_kept (PatchCollection pc s i ps)"
  "moves_by jobs_kept (UpdateProvider s i pcfg)" "moves_by jobs_kept (DeleteProvider s i)"
  "moves_by jobs_kept (PatchProvider pp s i ps)"
  unfolding UpdateCollection_def DeleteCollection_def UpdateCollectionStatus_def PatchCollection_def UpdateProvider_def
    DeleteProvider_def PatchProvider_def
  by (intro jobs.moves_by_withTransaction bodies_jobs_kept)+

end
