(* ===== verification/Catalog_Properties.thy ===== *)
theory Catalog_Properties
  imports Catalog_Invariants
begin

text \<open>The guarantees of the store of collections and providers.\<close>

definition catalog_provider :: ProviderConfig where
  "catalog_provider =
     \<lparr>pv_Name = ''p'', pv_Description = '''', pv_Title = '''', pv_Tags = [], pv_Benchmarks = [], pv_Runtime = None, pv_Agent = None\<rparr>"

definition catalog_conn :: "string \<Rightarrow> conn" where
  "catalog_conn owner =
     \<lparr>cn_db = \<lparr>evaluations = [],
        collections = [row_of (sample_resource ''c1'' ''t1'' owner) (Json (collection_entity (sample_collection [])))],
        providers = [row_of (sample_resource ''p1'' ''t1'' owner)
          (Json catalog_provider)]\<rparr>, cn_calls = 0\<rparr>"

definition no_patch :: "'e patcher" where
  "no_patch doc ps = Inr (Json doc)"

text \<open>A driver that fails at one call.\<close>

definition failing_at :: "nat \<Rightarrow> env" where
  "failing_at n = quiet\<lparr>env_fault := (\<lambda>k. if k = n then Some (PlainErr ''disk I/O error'') else None)\<rparr>"

lemma co_Resource_collection: "co_Resource (collection_resource r e) = r"
  by (simp add: collection_resource_def)

lemma visible_row:
  assumes "find (getWhereStatement (st_tenant s) i) rows = Some row" "isVisibleResource s (row_resource row)" "i \<noteq> ''''"
  shows "row \<in> set rows \<and> r_ID (row_resource row) = i \<and>
    (r_Owner (row_resource row) = ''system'' \<or> r_Tenant (row_resource row) = st_tenant s)"
  using assms by (auto simp: find_Some_iff getWhereStatement_def isVisibleResource_def IsSystemResource_def row_resource_def)

text \<open>
  C36: An operation on collections or providers under the handle of a tenant, successful or not, and
  whatever the driver does, leaves the collections and providers of all other tenants and every job as
  they were.
\<close>

theorem catalog_tenants_are_isolated:
  assumes "st_tenant s \<noteq> ''''" "catalog_tenant_ok (st_tenant s) op"
  shows "evaluations (cn_db (snd (run_catalog_op pc pp s op c))) = evaluations (cn_db c) \<and>
    filter (\<lambda>r. rw_tenant_id r \<noteq> st_tenant s) (collections (cn_db (snd (run_catalog_op pc pp s op c)))) =
      filter (\<lambda>r. rw_tenant_id r \<noteq> st_tenant s) (collections (cn_db c)) \<and>
    filter (\<lambda>r. rw_tenant_id r \<noteq> st_tenant s) (providers (cn_db (snd (run_catalog_op pc pp s op c)))) =
      filter (\<lambda>r. rw_tenant_id r \<noteq> st_tenant s) (providers (cn_db c))"
  using run_catalog_op_elsewhere[OF assms] by (simp add: same_elsewhere_def foreign_def)

theorem catalog_tenants_are_isolated_witness:
  "filter (\<lambda>r. rw_tenant_id r \<noteq> ''t2'') (collections (cn_db (snd (run_catalog_op no_patch no_patch
      ((sample_storage quiet)\<lparr>st_tenant := ''t2''\<rparr>) (OpDeleteCollection ''c1'') (catalog_conn ''u1''))))) =
   collections (cn_db (catalog_conn ''u1''))"
  using catalog_tenants_are_isolated[of "(sample_storage quiet)\<lparr>st_tenant := ''t2''\<rparr>" "OpDeleteCollection ''c1''" no_patch no_patch "catalog_conn ''u1''"]
  by (simp add: sample_storage_def catalog_conn_def row_of_def sample_resource_def)

text \<open>
  A collection that the system owns or that is curated cannot be changed: replacing or patching
  it reports an error and changes nothing.
\<close>

theorem curated_collections_are_read_only:
  assumes "find (getWhereStatement (st_tenant s) i) (collections (cn_db c)) = Some row" "rw_entity row = Json e"
    and "rw_owner row = ''system'' \<or> cc_CurationOrder (ce_Config e) > 0"
  shows "isl (fst (UpdateCollection s i cfg c)) \<and> cn_db (snd (UpdateCollection s i cfg c)) = cn_db c \<and>
    isl (fst (PatchCollection patch s i ps c)) \<and> cn_db (snd (PatchCollection patch s i ps c)) = cn_db c"
  using refuses_frozen_collection[of s i] assms by (simp add: refuses_def frozen_collection_def)

theorem curated_collections_are_read_only_witness:
  "isl (fst (UpdateCollection (sample_storage quiet) ''c1'' (sample_collection_config []) (catalog_conn ''system''))) \<and>
   cn_db (snd (PatchCollection no_patch (sample_storage quiet) ''c1'' [] (catalog_conn ''system''))) = cn_db (catalog_conn ''system'')"
  using curated_collections_are_read_only[of "sample_storage quiet" "''c1''" "catalog_conn ''system''"
      "row_of (sample_resource ''c1'' ''t1'' ''system'') (Json (collection_entity (sample_collection [])))"
      "collection_entity (sample_collection [])" "sample_collection_config []" no_patch "[]"]
  by (simp add: sample_storage_def catalog_conn_def row_of_def sample_resource_def getWhereStatement_def)

text \<open>
  A provider that the system owns cannot be changed: replacing, patching or deleting it reports
  an error and changes nothing.
\<close>

theorem system_providers_are_read_only:
  assumes "find (getWhereStatement (st_tenant s) i) (providers (cn_db c)) = Some row" "rw_owner row = ''system''"
  shows "isl (fst (UpdateProvider s i cfg c)) \<and> cn_db (snd (UpdateProvider s i cfg c)) = cn_db c \<and>
    isl (fst (PatchProvider patch s i ps c)) \<and> cn_db (snd (PatchProvider patch s i ps c)) = cn_db c \<and>
    isl (fst (DeleteProvider s i c)) \<and> cn_db (snd (DeleteProvider s i c)) = cn_db c"
  using refuses_frozen_provider[of s i] assms by (simp add: refuses_def frozen_provider_def)

theorem system_providers_are_read_only_witness:
  "isl (fst (DeleteProvider (sample_storage quiet) ''p1'' (catalog_conn ''system''))) \<and>
   cn_db (snd (DeleteProvider (sample_storage quiet) ''p1'' (catalog_conn ''system''))) = cn_db (catalog_conn ''system'')"
  using system_providers_are_read_only[of "sample_storage quiet" "''p1''" "catalog_conn ''system''"
      "row_of (sample_resource ''p1'' ''t1'' ''system'') (Json catalog_provider)"
      catalog_provider no_patch "[]"]
  by (simp add: sample_storage_def catalog_conn_def row_of_def sample_resource_def getWhereStatement_def)

text \<open>
  A request for a collection or a provider returns one that the tenant may see, its own or the
  system's, with the requested id and with the stored contents, and changes nothing.
\<close>

theorem reads_return_visible_resources:
  assumes "i \<noteq> ''''"
  shows "(GetCollection s i c = (Inr coll, c') \<longrightarrow>
      cn_db c' = cn_db c \<and> r_ID (co_Resource coll) = i \<and> (r_Owner (co_Resource coll) = ''system'' \<or> r_Tenant (co_Resource coll) = st_tenant s) \<and>
      (\<exists>row \<in> set (collections (cn_db c)). rw_entity row = Json (collection_entity coll) \<and> row_resource row = co_Resource coll)) \<and>
    (GetProvider s i c = (Inr p, c') \<longrightarrow>
      cn_db c' = cn_db c \<and> r_ID (pr_Resource p) = i \<and> (r_Owner (pr_Resource p) = ''system'' \<or> r_Tenant (pr_Resource p) = st_tenant s) \<and>
      (\<exists>row \<in> set (providers (cn_db c)). rw_entity row = Json (pr_Config p) \<and> row_resource row = pr_Resource p))"
proof (rule conjI; rule impI)
  assume "GetCollection s i c = (Inr coll, c')"
  then have "getCollectionTransactionalForUpdate s i c = (Inr coll, c')"
    by (simp add: GetCollection_def getCollectionTransactional_def getCollectionTransactionalForUpdate_def)
  then obtain row e where "find (getWhereStatement (st_tenant s) i) (collections (cn_db c)) = Some row"
    "isVisibleResource s (row_resource row)" "rw_entity row = Json e" "coll = collection_resource (row_resource row) e"
    "cn_db c' = cn_db c" by (rule getCollectionForUpdate_Inr)
  with assms show "cn_db c' = cn_db c \<and> r_ID (co_Resource coll) = i \<and> (r_Owner (co_Resource coll) = ''system'' \<or> r_Tenant (co_Resource coll) = st_tenant s) \<and>
      (\<exists>row \<in> set (collections (cn_db c)). rw_entity row = Json (collection_entity coll) \<and> row_resource row = co_Resource coll)"
    using visible_row by (fastforce simp: co_Resource_collection)
next
  assume "GetProvider s i c = (Inr p, c')"
  then have "getUserProviderTransactional s i c = (Inr p, c')" by (simp add: GetProvider_def)
  then obtain row cfg where "find (getWhereStatement (st_tenant s) i) (providers (cn_db c)) = Some row"
    "isVisibleResource s (row_resource row)" "rw_entity row = Json cfg" "p = \<lparr>pr_Resource = row_resource row, pr_Config = cfg\<rparr>"
    "cn_db c' = cn_db c" by (rule getUserProvider_Inr)
  with assms show "cn_db c' = cn_db c \<and> r_ID (pr_Resource p) = i \<and> (r_Owner (pr_Resource p) = ''system'' \<or> r_Tenant (pr_Resource p) = st_tenant s) \<and>
      (\<exists>row \<in> set (providers (cn_db c)). rw_entity row = Json (pr_Config p) \<and> row_resource row = pr_Resource p)"
    using visible_row by fastforce
qed


theorem reads_return_visible_resources_witness:
  "\<exists>coll c'. GetCollection (sample_storage quiet) ''c1'' (catalog_conn ''u1'') = (Inr coll, c') \<and>
     r_ID (co_Resource coll) = ''c1'' \<and> (r_Owner (co_Resource coll) = ''system'' \<or> r_Tenant (co_Resource coll) = ''t1'')"
proof -
  let ?g = "GetCollection (sample_storage quiet) ''c1'' (catalog_conn ''u1'')"
  have "fst ?g = Inr (sample_collection [])" by code_simp
  then have "?g = (Inr (sample_collection []), snd ?g)" by (metis prod.collapse)
  with reads_return_visible_resources[of "''c1''" "sample_storage quiet" "catalog_conn ''u1''" "sample_collection []" "snd ?g"]
  show ?thesis by (auto simp: sample_storage_def)
qed

text \<open>
  Replacing the configuration of a collection replaces exactly that: the tenant's row with the id
  carries the new configuration and keeps its status, its order and its origin, every other row and
  table stays as it was, and the collection returned carries the new configuration.
\<close>

theorem collection_update_replaces_configuration:
  assumes "db_ok (cn_db c)" "i \<noteq> ''''" "UpdateCollection s i cfg c = (Inr coll, c')"
  shows "co_Config coll = cfg \<and> r_ID (co_Resource coll) = i \<and>
    (\<exists>now. cn_db c' = (cn_db c)\<lparr>collections := map (\<lambda>r. if own_row (st_tenant s) i r
       then r\<lparr>rw_entity := set_config cfg (rw_entity r), rw_updated_at := now\<rparr> else r) (collections (cn_db c))\<rparr>)"
proof -
  have "distinct (map rw_id (collections (cn_db c)))" using assms(1) by (simp add: db_ok_def table_ok_def)
  moreover have "configured t j cfg now = (\<lambda>r. if own_row t j r
       then r\<lparr>rw_entity := set_config cfg (rw_entity r), rw_updated_at := now\<rparr> else r)" for t j now
    by (simp add: configured_def fun_eq_iff)
  ultimately show ?thesis using UpdateCollection_Inr[OF _ assms(2,3)] by auto
qed

theorem collection_update_replaces_configuration_witness:
  "\<exists>coll c'. UpdateCollection (sample_storage quiet) ''c1'' ((sample_collection_config [])\<lparr>cc_Name := ''new''\<rparr>) (catalog_conn ''u1'') = (Inr coll, c') \<and>
     cc_Name (co_Config coll) = ''new'' \<and> r_ID (co_Resource coll) = ''c1''"
proof -
  let ?u = "UpdateCollection (sample_storage quiet) ''c1'' ((sample_collection_config [])\<lparr>cc_Name := ''new''\<rparr>) (catalog_conn ''u1'')"
  have "\<not> isl (fst ?u)" by code_simp
  then obtain coll where "fst ?u = Inr coll" by (metis isl_def sum.exhaust)
  then have u: "?u = (Inr coll, snd ?u)" by (metis prod.collapse)
  have ok: "db_ok (cn_db (catalog_conn ''u1''))" by code_simp
  from collection_update_replaces_configuration[OF ok _ u] u show ?thesis by fastforce
qed

text \<open>
  An error reported by an update of a collection does not mean that nothing was changed: when the
  read that follows the update fails, the update is committed and the error is reported.
\<close>

theorem update_error_may_be_committed:
  "isl (fst (UpdateCollection (sample_storage (failing_at 3)) ''c1'' ((sample_collection_config [])\<lparr>cc_Name := ''new''\<rparr>) (catalog_conn ''u1''))) \<and>
   map rw_entity (collections (cn_db (snd (UpdateCollection (sample_storage (failing_at 3)) ''c1''
     ((sample_collection_config [])\<lparr>cc_Name := ''new''\<rparr>) (catalog_conn ''u1''))))) =
   [Json (collection_entity (sample_collection [])\<lparr>ce_Config := (sample_collection_config [])\<lparr>cc_Name := ''new''\<rparr>\<rparr>)]"
  by code_simp

end
