(* ===== verification/Postprocessing_Roundtrip.thy ===== *)
theory Postprocessing_Roundtrip
  imports Postprocessing Samples
begin

text \<open>
  Encoding the operations of a post-processing request and decoding them from the backing job gives
  them back. A codec is an encoder and a decoder that undo each other on well-formed values; the
  codecs of pointers, slices and maps are derived once from the codec of their elements.
\<close>

section \<open>Codecs\<close>

lemma update_fresh: "k \<notin> fst ` set m \<Longrightarrow> AList.update k v m = m @ [(k, v)]"
  by (induction m) auto

locale round_trip =
  fixes enc :: "'a \<Rightarrow> go_any" and dec :: "'a decoder" and zero :: 'a and ok :: "'a \<Rightarrow> bool"
  assumes round: "ok x \<Longrightarrow> dec (enc x) zero = Some x"
begin

lemma elements: "list_all ok xs \<Longrightarrow> dec_list zero dec (map enc xs) = Some xs"
  by (induction xs) (simp_all add: round)

lemma slice: "list_all ok xs \<Longrightarrow> dec_slice zero dec (enc_slice enc xs) ys = Some xs"
  by (simp add: dec_slice_def enc_slice_def elements)

lemma entries:
  "list_all (\<lambda>e. ok (snd e)) m \<Longrightarrow> distinct (map fst (m0 @ m)) \<Longrightarrow>
   dec_pairs zero dec (map (\<lambda>(k, v). (k, enc v)) m) m0 = Some (m0 @ m)"
proof (induction m arbitrary: m0)
  case (Cons e m)
  obtain k v where e: "e = (k, v)" by fastforce
  with Cons.prems have "gomap_put k v m0 = m0 @ [(k, v)]"
    by (auto simp: gomap_put_def update_fresh)
  with Cons e show ?case by (simp add: round)
qed simp

lemma map_codec: "list_all (\<lambda>e. ok (snd e)) m \<Longrightarrow> gomap_wf m \<Longrightarrow> dec_map zero dec (enc_map enc m) [] = Some m"
  by (simp add: dec_map_def enc_map_def gomap_wf_def entries)

end

text \<open>An encoding that is never null can be told from a missing value, so it can stand behind a pointer.\<close>

locale codec = round_trip +
  assumes not_null: "ok x \<Longrightarrow> enc x \<noteq> ANil"
begin

lemma ptr: "pred_option ok p \<Longrightarrow> dec_ptr zero dec (enc_ptr enc p) None = Some p"
proof (cases p)
  case (Some a)
  assume "pred_option ok p"
  with Some have "ok a" by simp
  with Some round[of a] not_null[of a] show ?thesis by (cases "enc a") (simp_all add: dec_ptr_def enc_ptr_def)
qed (simp add: dec_ptr_def enc_ptr_def)

end

interpretation str: codec AString dec_string "''''" "\<lambda>_. True"
  by unfold_locales (simp_all add: dec_string_def)

interpretation float: codec AFloat64 dec_float64 0 "\<lambda>_. True"
  by unfold_locales (simp_all add: dec_float64_def)

definition int64_ok :: "int \<Rightarrow> bool" where
  "int64_ok n \<longleftrightarrow> - (2 ^ 63) \<le> n \<and> n < 2 ^ 63"

interpretation int: codec enc_int dec_int 0 int64_ok
  by unfold_locales (auto simp: dec_int_def enc_int_def int64_ok_def)

section \<open>Structures\<close>

text \<open>
  Decoding the entry of one field of a structure that is being rebuilt as \<open>r\<close>: the field takes the
  value it has in \<open>r\<close>, or is left out and has that value already.
\<close>

lemma dec_field:
  assumes "map_of fs k = Some (field get upd d)"
    and "dec_entries fs es (upd (\<lambda>_. get r) x) = Some r"
    and "omit \<Longrightarrow> upd (\<lambda>_. get r) x = x" "\<not> omit \<Longrightarrow> d v (get x) = Some (get r)"
  shows "dec_entries fs (entry omit k v @ es) x = Some r"
  using assms by (cases omit) (simp_all add: entry_def field_def find_field_def)

lemma dec_last_field:
  assumes "map_of fs k = Some (field get upd d)"
    and "upd (\<lambda>_. get r) x = r" "omit \<Longrightarrow> upd (\<lambda>_. get r) x = x" "\<not> omit \<Longrightarrow> d v (get x) = Some (get r)"
  shows "dec_entries fs (entry omit k v) x = Some r"
  using assms by (cases omit) (simp_all add: entry_def field_def find_field_def)

lemmas struct_fields = dec_field dec_last_field

definition coordinates_ok :: "OCICoordinates \<Rightarrow> bool" where
  "coordinates_ok r \<longleftrightarrow> gomap_wf (oc_Annotations r)"

interpretation coordinates: codec enc_OCICoordinates dec_OCICoordinates zero_OCICoordinates coordinates_ok
proof
  fix x assume "coordinates_ok x"
  note ok = this[unfolded coordinates_ok_def]
  show "dec_OCICoordinates (enc_OCICoordinates x) zero_OCICoordinates = Some x"
    unfolding dec_OCICoordinates_def enc_OCICoordinates_def zero_OCICoordinates_def dec_struct_def go_any.case
    by (rule struct_fields, (simp; fail))+ (simp_all add: dec_string_def str.map_codec list_all_iff ok)
qed (simp add: enc_OCICoordinates_def)

text \<open>The inner maps of the value mappings: a missing number is null.\<close>

interpretation number: round_trip "enc_ptr AFloat64" "dec_ptr 0 dec_float64" None "\<lambda>_. True"
  by unfold_locales (simp add: float.ptr pred_option_def)

interpretation mappings: codec "enc_map (enc_ptr AFloat64)" "dec_map None (dec_ptr 0 dec_float64)" "[]" gomap_wf
  by unfold_locales (simp_all add: number.map_codec list_all_iff, simp add: enc_map_def)

interpretation conn: codec enc_OCIConnectionConfig dec_OCIConnectionConfig zero_OCIConnectionConfig "\<lambda>_. True"
proof
  fix x assume True
  show "dec_OCIConnectionConfig (enc_OCIConnectionConfig x) zero_OCIConnectionConfig = Some x"
    unfolding dec_OCIConnectionConfig_def enc_OCIConnectionConfig_def zero_OCIConnectionConfig_def dec_struct_def go_any.case
    by (rule struct_fields, (simp; fail))+ (simp_all add: dec_string_def list.pred_True)
qed (simp add: enc_OCIConnectionConfig_def)

interpretation s3: codec enc_S3TestDataRef dec_S3TestDataRef zero_S3TestDataRef "\<lambda>_. True"
proof
  fix x assume True
  show "dec_S3TestDataRef (enc_S3TestDataRef x) zero_S3TestDataRef = Some x"
    unfolding dec_S3TestDataRef_def enc_S3TestDataRef_def zero_S3TestDataRef_def dec_struct_def go_any.case
    by (rule struct_fields, (simp; fail))+ (simp_all add: dec_string_def list.pred_True)
qed (simp add: enc_S3TestDataRef_def)

interpretation pvc: codec enc_PVCTestDataRef dec_PVCTestDataRef zero_PVCTestDataRef "\<lambda>_. True"
proof
  fix x assume True
  show "dec_PVCTestDataRef (enc_PVCTestDataRef x) zero_PVCTestDataRef = Some x"
    unfolding dec_PVCTestDataRef_def enc_PVCTestDataRef_def zero_PVCTestDataRef_def dec_struct_def go_any.case
    by (rule struct_fields, (simp; fail))+ (simp_all add: dec_string_def list.pred_True)
qed (simp add: enc_PVCTestDataRef_def)

interpretation git: codec enc_GitTestDataRef dec_GitTestDataRef zero_GitTestDataRef "\<lambda>_. True"
proof
  fix x assume True
  show "dec_GitTestDataRef (enc_GitTestDataRef x) zero_GitTestDataRef = Some x"
    unfolding dec_GitTestDataRef_def enc_GitTestDataRef_def zero_GitTestDataRef_def dec_struct_def go_any.case
    by (rule struct_fields, (simp; fail))+ (simp_all add: dec_string_def list.pred_True)
qed (simp add: enc_GitTestDataRef_def)

interpretation hf: codec enc_HFTestDataRef dec_HFTestDataRef zero_HFTestDataRef "\<lambda>_. True"
proof
  fix x assume True
  show "dec_HFTestDataRef (enc_HFTestDataRef x) zero_HFTestDataRef = Some x"
    unfolding dec_HFTestDataRef_def enc_HFTestDataRef_def zero_HFTestDataRef_def dec_struct_def go_any.case
    by (rule struct_fields, (simp; fail))+ (simp_all add: dec_string_def list.pred_True)
qed (simp add: enc_HFTestDataRef_def)

interpretation score: codec enc_PrimaryScore dec_PrimaryScore zero_PrimaryScore "\<lambda>_. True"
proof
  fix x assume True
  show "dec_PrimaryScore (enc_PrimaryScore x) zero_PrimaryScore = Some x"
    unfolding dec_PrimaryScore_def enc_PrimaryScore_def zero_PrimaryScore_def dec_struct_def go_any.case
    by (rule struct_fields, (simp; fail))+ (simp_all add: dec_string_def dec_bool_def list.pred_True)
qed (simp add: enc_PrimaryScore_def)

definition evaljob_ok :: "EvaluationJobDataRef \<Rightarrow> bool" where
  "evaljob_ok r \<longleftrightarrow> pred_option int64_ok (ed_NumParallelThreads r)"

interpretation evaljob: codec enc_EvaluationJobDataRef dec_EvaluationJobDataRef zero_EvaluationJobDataRef evaljob_ok
proof
  fix x assume "evaljob_ok x"
  note ok = this[unfolded evaljob_ok_def]
  show "dec_EvaluationJobDataRef (enc_EvaluationJobDataRef x) zero_EvaluationJobDataRef = Some x"
    unfolding dec_EvaluationJobDataRef_def enc_EvaluationJobDataRef_def zero_EvaluationJobDataRef_def dec_struct_def go_any.case
    by (rule struct_fields, (simp; fail))+ (simp_all add: dec_string_def int.ptr list.pred_True ok)
qed (simp add: enc_EvaluationJobDataRef_def)

interpretation mlflow: codec enc_MLflowDataRef dec_MLflowDataRef zero_MLflowDataRef "\<lambda>_. True"
proof
  fix x assume True
  show "dec_MLflowDataRef (enc_MLflowDataRef x) zero_MLflowDataRef = Some x"
    unfolding dec_MLflowDataRef_def enc_MLflowDataRef_def zero_MLflowDataRef_def dec_struct_def go_any.case
    by (rule struct_fields, (simp; fail))+ (simp_all add: dec_string_def list.pred_True)
qed (simp add: enc_MLflowDataRef_def)

definition oci_ref_ok :: "OCIDataRef \<Rightarrow> bool" where
  "oci_ref_ok r \<longleftrightarrow> coordinates_ok (od_Coordinates r)"

interpretation oci: codec enc_OCIDataRef dec_OCIDataRef zero_OCIDataRef oci_ref_ok
proof
  fix x assume "oci_ref_ok x"
  note ok = this[unfolded oci_ref_ok_def]
  show "dec_OCIDataRef (enc_OCIDataRef x) zero_OCIDataRef = Some x"
    unfolding dec_OCIDataRef_def enc_OCIDataRef_def zero_OCIDataRef_def dec_struct_def go_any.case
    by (rule struct_fields, (simp; fail))+ (simp_all add: dec_string_def coordinates.round conn.ptr option.pred_True list.pred_True ok)
qed (simp add: enc_OCIDataRef_def)

definition results_entry_ok :: "ResultsDataConfigEntry \<Rightarrow> bool" where
  "results_entry_ok r \<longleftrightarrow> gomap_wf (rd_Columns r) \<and> gomap_wf (rd_Selection r) \<and> gomap_wf (rd_ValueMappings r) \<and>
     list_all (\<lambda>e. gomap_wf (snd e)) (rd_ValueMappings r)"

interpretation rentry: codec enc_ResultsDataConfigEntry dec_ResultsDataConfigEntry zero_ResultsDataConfigEntry results_entry_ok
proof
  fix x assume "results_entry_ok x"
  note ok = this[unfolded results_entry_ok_def]
  show "dec_ResultsDataConfigEntry (enc_ResultsDataConfigEntry x) zero_ResultsDataConfigEntry = Some x"
    unfolding dec_ResultsDataConfigEntry_def enc_ResultsDataConfigEntry_def zero_ResultsDataConfigEntry_def dec_struct_def go_any.case
    by (rule struct_fields, (simp; fail))+ (simp_all add: dec_string_def str.map_codec mappings.map_codec list.pred_True ok)
qed (simp add: enc_ResultsDataConfigEntry_def)

interpretation columns: codec enc_CalibrationDataColumns dec_CalibrationDataColumns zero_CalibrationDataColumns "\<lambda>_. True"
proof
  fix x assume True
  show "dec_CalibrationDataColumns (enc_CalibrationDataColumns x) zero_CalibrationDataColumns = Some x"
    unfolding dec_CalibrationDataColumns_def enc_CalibrationDataColumns_def zero_CalibrationDataColumns_def dec_struct_def go_any.case
    by (rule struct_fields, (simp; fail))+ (simp_all add: dec_string_def list.pred_True)
qed (simp add: enc_CalibrationDataColumns_def)

interpretation selection: codec enc_CalibrationDataSelection dec_CalibrationDataSelection zero_CalibrationDataSelection "\<lambda>_. True"
proof
  fix x assume True
  show "dec_CalibrationDataSelection (enc_CalibrationDataSelection x) zero_CalibrationDataSelection = Some x"
    unfolding dec_CalibrationDataSelection_def enc_CalibrationDataSelection_def zero_CalibrationDataSelection_def dec_struct_def go_any.case
    by (rule struct_fields, (simp; fail))+ (simp_all add: dec_string_def list.pred_True)
qed (simp add: enc_CalibrationDataSelection_def)

interpretation calconfig: codec enc_CalibrationDataConfig dec_CalibrationDataConfig zero_CalibrationDataConfig "\<lambda>_. True"
proof
  fix x assume True
  show "dec_CalibrationDataConfig (enc_CalibrationDataConfig x) zero_CalibrationDataConfig = Some x"
    unfolding dec_CalibrationDataConfig_def enc_CalibrationDataConfig_def zero_CalibrationDataConfig_def dec_struct_def go_any.case
    by (rule struct_fields, (simp; fail))+ (simp_all add: dec_string_def columns.round selection.ptr option.pred_True list.pred_True)
qed (simp add: enc_CalibrationDataConfig_def)

interpretation calref: codec enc_CalibrationDataRef dec_CalibrationDataRef zero_CalibrationDataRef "\<lambda>_. True"
proof
  fix x assume True
  show "dec_CalibrationDataRef (enc_CalibrationDataRef x) zero_CalibrationDataRef = Some x"
    unfolding dec_CalibrationDataRef_def enc_CalibrationDataRef_def zero_CalibrationDataRef_def dec_struct_def go_any.case
    by (rule struct_fields, (simp; fail))+ (simp_all add: dec_string_def s3.ptr pvc.ptr git.ptr hf.ptr calconfig.round option.pred_True list.pred_True)
qed (simp add: enc_CalibrationDataRef_def)

text \<open>A data configuration is one entry, or a nonempty list of entries that each select something.\<close>

definition results_config_ok :: "ResultsDataConfig \<Rightarrow> bool" where
  "results_config_ok r \<longleftrightarrow>
     (case rc_Single r of
        Some e \<Rightarrow> results_entry_ok e \<and> rc_PerBenchmark r = []
      | None \<Rightarrow> rc_PerBenchmark r \<noteq> [] \<and> list_all results_entry_ok (rc_PerBenchmark r) \<and>
                list_all (\<lambda>e. rd_Selection e \<noteq> []) (rc_PerBenchmark r))"

interpretation rconfig: codec enc_ResultsDataConfig dec_ResultsDataConfig zero_ResultsDataConfig results_config_ok
proof
  fix x assume ok: "results_config_ok x"
  show "dec_ResultsDataConfig (enc_ResultsDataConfig x) zero_ResultsDataConfig = Some x"
  proof (cases "rc_Single x")
    case None
    with ok have "dec_list zero_ResultsDataConfigEntry dec_ResultsDataConfigEntry (map enc_ResultsDataConfigEntry (rc_PerBenchmark x)) =
        Some (rc_PerBenchmark x)" by (simp add: results_config_ok_def rentry.elements)
    moreover have "rc_PerBenchmark x \<noteq> [] \<and> \<not> list_ex (\<lambda>e. rd_Selection e = []) (rc_PerBenchmark x)"
      using ok None by (auto simp: results_config_ok_def list_all_iff list_ex_iff)
    ultimately show ?thesis using None by (simp add: enc_ResultsDataConfig_def dec_ResultsDataConfig_def enc_slice_def)
  next
    case (Some e)
    with ok have "dec_ResultsDataConfigEntry (enc_ResultsDataConfigEntry e) zero_ResultsDataConfigEntry = Some e"
      by (simp add: results_config_ok_def rentry.round)
    with ok Some show ?thesis
      by (simp add: enc_ResultsDataConfig_def dec_ResultsDataConfig_def results_config_ok_def enc_ResultsDataConfigEntry_def)
  qed
next
  fix x show "enc_ResultsDataConfig x \<noteq> ANil"
    by (simp add: enc_ResultsDataConfig_def enc_slice_def enc_ResultsDataConfigEntry_def split: option.splits)
qed


definition data_ref_ok :: "PostProcessingResultsDataRef \<Rightarrow> bool" where
  "data_ref_ok r \<longleftrightarrow> pred_option results_config_ok (pd_DataConfig r) \<and> pred_option evaljob_ok (pd_EvalJob r) \<and>
     pred_option oci_ref_ok (pd_OCI r)"

interpretation dataref: codec enc_PostProcessingResultsDataRef dec_PostProcessingResultsDataRef zero_PostProcessingResultsDataRef data_ref_ok
proof
  fix x assume "data_ref_ok x"
  note ok = this[unfolded data_ref_ok_def]
  show "dec_PostProcessingResultsDataRef (enc_PostProcessingResultsDataRef x) zero_PostProcessingResultsDataRef = Some x"
    unfolding dec_PostProcessingResultsDataRef_def enc_PostProcessingResultsDataRef_def zero_PostProcessingResultsDataRef_def dec_struct_def go_any.case
    by (rule struct_fields, (simp; fail))+ (simp_all add: dec_string_def rconfig.ptr evaljob.ptr s3.ptr pvc.ptr git.ptr hf.ptr mlflow.ptr oci.ptr option.pred_True list.pred_True ok)
qed (simp add: enc_PostProcessingResultsDataRef_def)

definition interval_ok :: "StandaloneConfidenceIntervalConfig \<Rightarrow> bool" where
  "interval_ok r \<longleftrightarrow> pred_option data_ref_ok (sc_ResultsDataRef r)"

interpretation interval: codec enc_StandaloneConfidenceIntervalConfig dec_StandaloneConfidenceIntervalConfig zero_StandaloneConfidenceIntervalConfig interval_ok
proof
  fix x assume "interval_ok x"
  note ok = this[unfolded interval_ok_def]
  show "dec_StandaloneConfidenceIntervalConfig (enc_StandaloneConfidenceIntervalConfig x) zero_StandaloneConfidenceIntervalConfig = Some x"
    unfolding dec_StandaloneConfidenceIntervalConfig_def enc_StandaloneConfidenceIntervalConfig_def zero_StandaloneConfidenceIntervalConfig_def dec_struct_def go_any.case
    by (rule struct_fields, (simp; fail))+ (simp_all add: dec_string_def dec_float64_def calref.slice dataref.ptr score.ptr option.pred_True list.pred_True ok)
qed (simp add: enc_StandaloneConfidenceIntervalConfig_def)

definition operations_ok :: "StandalonePostProcessingOperations \<Rightarrow> bool" where
  "operations_ok r \<longleftrightarrow> pred_option interval_ok (so_ConfidenceInterval r)"

interpretation operations: codec enc_StandalonePostProcessingOperations dec_StandalonePostProcessingOperations zero_StandalonePostProcessingOperations operations_ok
proof
  fix x assume "operations_ok x"
  note ok = this[unfolded operations_ok_def]
  show "dec_StandalonePostProcessingOperations (enc_StandalonePostProcessingOperations x) zero_StandalonePostProcessingOperations = Some x"
    unfolding dec_StandalonePostProcessingOperations_def enc_StandalonePostProcessingOperations_def zero_StandalonePostProcessingOperations_def dec_struct_def go_any.case
    by (rule struct_fields, (simp; fail))+ (simp_all add: dec_string_def interval.ptr list.pred_True ok)
qed (simp add: enc_StandalonePostProcessingOperations_def)

section \<open>Properties\<close>

text \<open>
  C37: A post-processing request survives its translation to an evaluation job: the job is recognised
  as a post-processing job, and reading it back gives the operations, the order of the operations, the
  hardware and the name of the request.
\<close>

theorem post_processing_round_trip:
  assumes "operations_ok (pq_Operations request)" "HasOperation (pq_Operations request)"
    and "ej_Config job = ToEvaluationJob request" "ej_Results job = None"
  shows "IsPostProcessingJob (ej_Config job) \<and>
    OperationsFromJob jerr (ej_Config job) = Inr (pq_Operations request) \<and>
    OperationOrderFromJob jerr (ej_Config job) = Inr (pp_OperationOrder (pq_Common request)) \<and>
    (\<exists>r. ResourceFromJob jerr job = Inr r \<and> prs_Resource r = ej_Resource job \<and> prs_Operations r = pq_Operations request \<and>
       prs_Results r = None \<and>
       prs_Common r = (pq_Common request)\<lparr>pp_Name := (if pp_Name (pq_Common request) = '''' then ''post-processing'' else pp_Name (pq_Common request))\<rparr>)"
proof -
  have pp: "IsPostProcessingJob (ToEvaluationJob request)"
    by (simp add: IsPostProcessingJob_def ToEvaluationJob_def Let_def)
  have "gomap_get (eb_Parameters (ec_Benchmarks (ToEvaluationJob request) ! 0)) ''operations'' =
      Some (enc_StandalonePostProcessingOperations (pq_Operations request))"
    by (auto simp: ToEvaluationJob_def Let_def split: option.splits)
  then have ops: "OperationsFromJob jerr (ToEvaluationJob request) = Inr (pq_Operations request)"
    using pp assms(1,2) by (simp add: OperationsFromJob_def operations.round)
  have "gomap_get (eb_Parameters (ec_Benchmarks (ToEvaluationJob request) ! 0)) ''operation_order'' =
      map_option (enc_slice AString) (pp_OperationOrder (pq_Common request))"
    by (auto simp: ToEvaluationJob_def Let_def enc_slice_def split: option.splits)
  then have order: "OperationOrderFromJob jerr (ToEvaluationJob request) = Inr (pp_OperationOrder (pq_Common request))"
    using pp str.slice[of _ "[]"]
    by (cases "pp_OperationOrder (pq_Common request)") (simp_all add: OperationOrderFromJob_def enc_slice_def list.pred_True)
  have "ResourceFromJob jerr job = Inr \<lparr>prs_Resource = ej_Resource job,
      prs_Common = (pq_Common request)\<lparr>pp_Name := (if pp_Name (pq_Common request) = '''' then ''post-processing'' else pp_Name (pq_Common request))\<rparr>,
      prs_Operations = pq_Operations request, prs_Status = post_processing_status (ej_Status job), prs_Results = None\<rparr>"
    using ops order assms(3,4) by (simp add: ResourceFromJob_def resultsFromJob_def ToEvaluationJob_def Let_def)
  with pp ops order assms(3) show ?thesis by simp
qed

theorem post_processing_round_trip_witness:
  "let request = \<lparr>pq_Common = \<lparr>pp_Name = ''ci'', pp_HardwareConfig = None, pp_OperationOrder = Some [''confidence_interval'']\<rparr>,
        pq_Operations = \<lparr>so_ConfidenceInterval = Some (zero_StandaloneConfidenceIntervalConfig\<lparr>sc_SignificanceLevel := 1/20\<rparr>)\<rparr>\<rparr>
   in OperationsFromJob '''' (ToEvaluationJob request) = Inr (pq_Operations request) \<and>
      OperationOrderFromJob '''' (ToEvaluationJob request) = Inr (Some [''confidence_interval''])"
  using post_processing_round_trip[of "\<lparr>pq_Common = \<lparr>pp_Name = ''ci'', pp_HardwareConfig = None, pp_OperationOrder = Some [''confidence_interval'']\<rparr>,
        pq_Operations = \<lparr>so_ConfidenceInterval = Some (zero_StandaloneConfidenceIntervalConfig\<lparr>sc_SignificanceLevel := 1/20\<rparr>)\<rparr>\<rparr>"
      "(sample_job ''j'' (ToEvaluationJob \<lparr>pq_Common = \<lparr>pp_Name = ''ci'', pp_HardwareConfig = None, pp_OperationOrder = Some [''confidence_interval'']\<rparr>,
        pq_Operations = \<lparr>so_ConfidenceInterval = Some (zero_StandaloneConfidenceIntervalConfig\<lparr>sc_SignificanceLevel := 1/20\<rparr>)\<rparr>\<rparr>) OverallStatePending)" "''''"]
  by (simp add: sample_job_def operations_ok_def interval_ok_def HasOperation_def zero_StandaloneConfidenceIntervalConfig_def)

lemma registry_ok_fold: "registry_ok registry \<Longrightarrow> registry_ok (fold Register ws registry)"
  by (induction ws arbitrary: registry) (simp_all add: registry_ok_Register)

lemma set_fold_Register: "set (fold Register ws registry) \<subseteq> set ws \<union> set registry"
proof (induction ws arbitrary: registry)
  case (Cons w ws)
  have "set (Register w registry) \<subseteq> insert w (set registry)" by (auto simp: Register_def)
  with Cons[of "Register w registry"] show ?case by auto
qed simp

text \<open>
  Whatever is registered, in whatever order, the registry is consistent: when it assigns a
  workload to a job, that workload was registered, claims the job, is complete, and is the one found
  under its type; a job is an ordinary evaluation exactly when no registered workload claims it.
\<close>

theorem registry_is_consistent:
  assumes "registry = fold Register ws []"
  shows "registry_ok registry \<and> (TypeForJob registry cfg = Evaluation \<longleftrightarrow> ForJob registry cfg = None) \<and>
    (\<forall>w. ForJob registry cfg = Some w \<longrightarrow>
       w \<in> set ws \<and> matches_job cfg w \<and> complete_workload w \<and> TypeForJob registry cfg = wl_Type w \<and> ByType registry (wl_Type w) = Some w)"
proof -
  have ok: "registry_ok registry" unfolding assms by (rule registry_ok_fold) simp
  have "w \<in> set ws" if "w \<in> set registry" for w using that set_fold_Register[of ws "[]"] assms by auto
  with ok ForJob_registered[of registry cfg] ByType_ForJob[OF ok] TypeForJob_evaluation_iff[OF ok] show ?thesis
    by (auto simp: TypeForJob_def registry_ok_def list_all_iff)
qed

theorem registry_is_consistent_witness:
  "registry_ok (fold Register [post_processing_workload '''' ''''] []) \<and>
   TypeForJob (fold Register [post_processing_workload '''' ''''] []) (sample_config [] None) = Evaluation"
proof -
  have "ForJob (fold Register [post_processing_workload '''' ''''] []) (sample_config [] None) = None"
    by (auto simp: ForJob_def find_None_iff Register_def matches_job_def post_processing_workload_def IsPostProcessingJob_def
        sample_config_def split: if_splits)
  with registry_is_consistent[of "fold Register [post_processing_workload '''' ''''] []" "[post_processing_workload '''' '''']" "sample_config [] None"]
  show ?thesis by simp
qed


text \<open>
  The names of the overall states can be read back: a name is accepted exactly when it is the
  name of a state, and then that state is returned; every other name is an error.
\<close>

theorem state_names_round_trip:
  "GetOverallState n = (st, None) \<longleftrightarrow> known_state st \<and> n = OverallState_String st"
proof
  assume "GetOverallState n = (st, None)"
  then show "known_state st \<and> n = OverallState_String st"
    by (auto simp: GetOverallState_def known_state_def split: if_splits)
next
  assume "known_state st \<and> n = OverallState_String st"
  then show "GetOverallState n = (st, None)" using GetOverallState_String by simp
qed

end
