(* ===== verification/Sql_Filters.thy ===== *)
theory Sql_Filters
  imports Database "HOL-Library.List_Lexorder" "HOL-Library.Char_ord"
begin

text \<open>
  The statements that list and count entities (storage/sql/shared/helper.go and the statement
  factories of storage/sql/sqlite and storage/sql/postgres): query filters, the clause builder with
  its numbered placeholders, and the meaning of a clause on the rows of a table.

  A clause is the list of tokens the builder writes. It is evaluated as SQL reads it: AND binds
  tighter than OR, parentheses group, a question mark stands for the next argument and \<open>$n\<close> for the
  n-th. A clause that is not well formed, or an argument of a type the comparison cannot take, makes
  the database refuse the statement.
\<close>

section \<open>Query filters\<close>

datatype query_arg = QStr string | QStrs "string list" | QInt int

record QueryFilter =
  qf_Limit :: int
  qf_Offset :: int
  qf_Params :: "query_arg gomap"
  qf_SortBy :: string

definition ScopeSystem :: string where
  "ScopeSystem = ''system''"

definition ScopeTenant :: string where
  "ScopeTenant = ''tenant''"

definition TableEvaluations :: string where
  "TableEvaluations = ''evaluations''"

definition TableCollections :: string where
  "TableCollections = ''collections''"

definition TableProviders :: string where
  "TableProviders = ''providers''"

definition ExtractQueryParams :: "QueryFilter \<Rightarrow> QueryFilter" where
  "ExtractQueryParams f = f\<lparr>qf_Params := filter (\<lambda>e. snd e \<noteq> QStr '''') (qf_Params f)\<rparr>"

definition HasParams :: "QueryFilter \<Rightarrow> string list \<Rightarrow> bool" where
  "HasParams f params = list_all (gomap_has (qf_Params (ExtractQueryParams f))) params"

definition GetAllowedFilterColumns :: "string \<Rightarrow> string list" where
  "GetAllowedFilterColumns tableName =
     (let allColumns = [''owner'', ''name'', ''tags'']
      in if tableName = TableEvaluations then allColumns @ [''status'', ''experiment_id'', ''collection_id'']
         else if tableName = TableProviders then allColumns
         else if tableName = TableCollections
              then allColumns @ [''category'', ''domains'', ''tasks'', ''modalities'', ''industries'', ''evaluation_targets'']
         else [])"

definition ValidateFilter :: "string list \<Rightarrow> string list \<Rightarrow> go_error option" where
  "ValidateFilter keys allowed =
     efirst (\<lambda>key. if key \<in> set allowed then None
                   else Some (NewServiceError QueryBadParameter
                                [''ParameterName'', key, ''AllowedParameters'', Join allowed '', ''])) keys"

text \<open>\<open>fmt.Sprintf("%v", value)\<close> of the values a filter holds.\<close>

fun getString :: "query_arg \<Rightarrow> string" where
  "getString (QStr s) = s"
| "getString (QStrs ss) = ''['' @ Join ss '' '' @ '']''"
| "getString (QInt n) = Itoa n"

datatype bool_op = OpAnd | OpOr

definition GetValues :: "query_arg \<Rightarrow> query_arg list \<times> bool_op" where
  "GetValues values =
     (let s = getString values
      in if Contains s '','' then (map (\<lambda>p. QStr (TrimSpace p)) (Split (CHR '','') s), OpAnd)
         else if Contains s ''|'' then (map (\<lambda>p. QStr (TrimSpace p)) (Split (CHR ''|'') s), OpOr)
         else ([values], OpAnd))"

section \<open>Clauses\<close>

datatype placeholder = Question | Dollar nat

datatype sql_cond =
    PathEq string placeholder
  | PathIsArray string
  | PathHas string placeholder
  | ColumnEq string placeholder
  | ColumnNot string placeholder
  | ColumnIs string string

datatype order_spec = IdDesc | CurationThenIdDesc

datatype tok =
    TWhere
  | TCond sql_cond
  | TAnd
  | TOr
  | TOpen
  | TClose
  | TOrderBy order_spec
  | TLimit placeholder
  | TOffset placeholder

definition ph :: "dialect \<Rightarrow> nat \<Rightarrow> placeholder" where
  "ph d index = (case d of SQLite \<Rightarrow> Question | Postgres \<Rightarrow> Dollar index)"

fun op_tok :: "bool_op \<Rightarrow> tok" where
  "op_tok OpAnd = TAnd"
| "op_tok OpOr = TOr"

definition array_field :: "string \<Rightarrow> bool" where
  "array_field key \<longleftrightarrow> key \<in> set [''domains'', ''tasks'', ''modalities'', ''industries'', ''evaluation_targets'']"

definition member_cond :: "dialect \<Rightarrow> string \<Rightarrow> nat \<Rightarrow> tok list" where
  "member_cond d path index = [TCond (PathIsArray path), TAnd, TCond (PathHas path (ph d index))]"

text \<open>\<open>strings.Join(parts, " AND ")\<close> with the index of every part one further.\<close>

fun member_conds :: "dialect \<Rightarrow> string \<Rightarrow> nat \<Rightarrow> string list \<Rightarrow> tok list" where
  "member_conds d path index [] = []"
| "member_conds d path index [s] = member_cond d path index"
| "member_conds d path index (s # t # ss) =
     member_cond d path index @ TAnd # member_conds d path (Suc index) (t # ss)"

fun string_value :: "query_arg \<Rightarrow> string" where
  "string_value (QStr s) = s"
| "string_value _ = ''''"

definition CreateEntityFilterCondition ::
  "dialect \<Rightarrow> string \<Rightarrow> query_arg \<Rightarrow> nat \<Rightarrow> string \<Rightarrow> tok list \<times> query_arg list" where
  "CreateEntityFilterCondition d key value index tableName =
     (if key = ''name''
      then ([TCond (PathEq (if tableName = TableEvaluations then ''config.name'' else ''name'') (ph d index))], [value])
      else if key = ''collection_id''
      then (if tableName = TableEvaluations
            then ([TCond (PathEq ''config.collection.id'' (ph d index))], [value]) else ([], []))
      else if key = ''category''
      then (if tableName = TableCollections then ([TCond (PathEq ''category'' (ph d index))], [value]) else ([], []))
      else if array_field key
      then (case value of
              QStrs strs \<Rightarrow> (TOpen # member_conds d key index strs @ [TClose], map QStr strs)
            | _ \<Rightarrow> (member_cond d key index, [QStr (string_value value)]))
      else if key = ''tags''
      then (member_cond d (if tableName = TableEvaluations then ''config.tags'' else ''tags'') index,
            [QStr (string_value value)])
      else (case value of
              QStr v \<Rightarrow>
                if HasPrefix v ''!'' then ([TCond (ColumnNot key (ph d index))], [QStr (drop 1 v)])
                else ([TCond (ColumnEq key (ph d index))], [value])
            | _ \<Rightarrow> ([TCond (ColumnEq key (ph d index))], [value])))"

text \<open>The tokens and arguments of getWhereStatement with an empty id: every entity of the tenant.\<close>

definition tenant_where :: "dialect \<Rightarrow> Tenant \<Rightarrow> tok list \<times> query_arg list" where
  "tenant_where d tenant =
     (if \<not> Tenant_IsEmpty tenant
      then ([TOpen, TCond (ColumnEq ''tenant_id'' (ph d 1)), TOr, TCond (ColumnIs ''owner'' OwnerSystem), TClose],
            [QStr tenant])
      else ([], []))"

definition AddEvaluationWorkloadTypeFilter :: "string \<Rightarrow> tok list \<Rightarrow> tok list" where
  "AddEvaluationWorkloadTypeFilter tableName wh =
     (if tableName \<noteq> TableEvaluations then wh
      else (let predicate = [TCond (ColumnIs ''workload_type'' Evaluation)]
            in if wh = [] then predicate else wh @ TAnd # predicate))"

section \<open>The clause builder\<close>

record filter_builder =
  fb_sb :: "tok list"
  fb_args :: "query_arg list"
  fb_index :: nat
  fb_haveWhere :: bool
  fb_writtenFilterKey :: bool

definition fb_write :: "tok list \<Rightarrow> filter_builder \<Rightarrow> filter_builder" where
  "fb_write ts b = b\<lparr>fb_sb := fb_sb b @ ts\<rparr>"

definition fb_cond :: "tok list \<times> query_arg list \<Rightarrow> filter_builder \<Rightarrow> filter_builder" where
  "fb_cond c b =
     b\<lparr>fb_sb := fb_sb b @ fst c, fb_args := fb_args b @ snd c, fb_index := fb_index b + length (snd c)\<rparr>"

fun write_values ::
  "dialect \<Rightarrow> string \<Rightarrow> string \<Rightarrow> bool_op \<Rightarrow> bool \<Rightarrow> query_arg list \<Rightarrow> filter_builder \<Rightarrow> filter_builder" where
  "write_values d tableName key operator first [] b = b"
| "write_values d tableName key operator first (value # values) b =
     (let b1 = (if first then b else fb_write [op_tok operator] b)
      in write_values d tableName key operator False values
           (fb_cond (CreateEntityFilterCondition d key value (fb_index b1) tableName) b1))"

definition write_key :: "dialect \<Rightarrow> string \<Rightarrow> query_arg gomap \<Rightarrow> string \<Rightarrow> filter_builder \<Rightarrow> filter_builder" where
  "write_key d tableName params key b =
     (case gomap_get params key of
        None \<Rightarrow> b
      | Some values \<Rightarrow>
          if key \<in> set (GetAllowedFilterColumns tableName)
          then (let (allValues, operator) = GetValues values;
                    wrapInParens = (operator = OpOr \<and> length allValues > 1);
                    b1 = (if \<not> fb_haveWhere b then (fb_write [TWhere] b)\<lparr>fb_haveWhere := True\<rparr>
                          else if fb_writtenFilterKey b then fb_write [TAnd] b else b);
                    b2 = (if wrapInParens then fb_write [TOpen] b1 else b1);
                    b3 = write_values d tableName key operator True allValues b2;
                    b4 = (if wrapInParens then fb_write [TClose] b3 else b3)
                in b4\<lparr>fb_writtenFilterKey := True\<rparr>)
          else b)"

definition start_builder :: "tok list \<Rightarrow> query_arg list \<Rightarrow> query_arg gomap \<Rightarrow> filter_builder" where
  "start_builder wh whereArgs params =
     (let b = \<lparr>fb_sb = [], fb_args = [], fb_index = 1, fb_haveWhere = False, fb_writtenFilterKey = False\<rparr>
      in if wh \<noteq> []
         then (let b1 = fb_cond (TWhere # wh, whereArgs) b\<lparr>fb_haveWhere := True\<rparr>
               in if params \<noteq> [] then fb_write [TAnd] b1 else b1)
         else b)"

definition CreateFilterStatement ::
  "dialect \<Rightarrow> tok list \<Rightarrow> query_arg list \<Rightarrow> query_arg gomap \<Rightarrow> order_spec option \<Rightarrow> int \<Rightarrow> int \<Rightarrow> string \<Rightarrow>
   tok list \<times> query_arg list" where
  "CreateFilterStatement d wh whereArgs params orderBy limit offset tableName =
     (let b = fold (write_key d tableName params) (sort (map fst params)) (start_builder wh whereArgs params);
          b1 = (case orderBy of None \<Rightarrow> b | Some o1 \<Rightarrow> fb_write [TOrderBy o1] b);
          b2 = (if limit > 0 then fb_cond ([TLimit (ph d (fb_index b1))], [QInt limit]) b1 else b1);
          b3 = (if offset > 0 then fb_cond ([TOffset (ph d (fb_index b2))], [QInt offset]) b2 else b2)
      in (fb_sb b3, fb_args b3))"

definition CreateCountEntitiesStatement ::
  "dialect \<Rightarrow> Tenant \<Rightarrow> string \<Rightarrow> query_arg gomap \<Rightarrow> tok list \<times> query_arg list" where
  "CreateCountEntitiesStatement d tenant tableName params =
     (let (wh, whereArgs) = tenant_where d tenant
      in CreateFilterStatement d (AddEvaluationWorkloadTypeFilter tableName wh) whereArgs params None 0 0 tableName)"

definition list_order :: "string \<Rightarrow> string \<Rightarrow> order_spec" where
  "list_order tableName sortBy =
     (if tableName = TableCollections \<and> sortBy = ''curation_order'' then CurationThenIdDesc else IdDesc)"

definition CreateListEntitiesStatement ::
  "dialect \<Rightarrow> Tenant \<Rightarrow> string \<Rightarrow> int \<Rightarrow> int \<Rightarrow> query_arg gomap \<Rightarrow> string \<Rightarrow> tok list \<times> query_arg list" where
  "CreateListEntitiesStatement d tenant tableName limit offset params sortBy =
     (let (wh, whereArgs) = tenant_where d tenant
      in CreateFilterStatement d (AddEvaluationWorkloadTypeFilter tableName wh) whereArgs params
           (Some (list_order tableName sortBy)) limit offset tableName)"

section \<open>The meaning of a clause\<close>

text \<open>What a condition reads of a row: its columns, and the field of its document at a path.\<close>

datatype json_field = Absent | Text string | Texts "string list" | Number int

record row_view =
  vw_column :: "string \<Rightarrow> string option"
  vw_doc :: "string \<Rightarrow> json_field"

fun bound :: "query_arg list \<Rightarrow> nat \<Rightarrow> placeholder \<Rightarrow> query_arg option" where
  "bound args k Question = (if k < length args then Some (args ! k) else None)"
| "bound args k (Dollar n) = (if 1 \<le> n \<and> n \<le> length args then Some (args ! (n - 1)) else None)"

definition compare_arg :: "query_arg option \<Rightarrow> (string \<Rightarrow> bool option) \<Rightarrow> bool option" where
  "compare_arg a f = (case a of Some (QStr s) \<Rightarrow> f s | _ \<Rightarrow> None)"

fun cond_eval :: "row_view \<Rightarrow> query_arg list \<Rightarrow> nat \<Rightarrow> sql_cond \<Rightarrow> bool option" where
  "cond_eval v args k (PathEq p h) = compare_arg (bound args k h) (\<lambda>s. Some (vw_doc v p = Text s))"
| "cond_eval v args k (PathIsArray p) = Some (case vw_doc v p of Texts ts \<Rightarrow> True | _ \<Rightarrow> False)"
| "cond_eval v args k (PathHas p h) =
     compare_arg (bound args k h) (\<lambda>s. Some (case vw_doc v p of Texts ts \<Rightarrow> s \<in> set ts | _ \<Rightarrow> False))"
| "cond_eval v args k (ColumnEq c h) =
     compare_arg (bound args k h) (\<lambda>s. map_option (\<lambda>x. x = s) (vw_column v c))"
| "cond_eval v args k (ColumnNot c h) =
     compare_arg (bound args k h) (\<lambda>s. map_option (\<lambda>x. x \<noteq> s) (vw_column v c))"
| "cond_eval v args k (ColumnIs c s) = map_option (\<lambda>x. x = s) (vw_column v c)"

fun cond_questions :: "sql_cond \<Rightarrow> nat" where
  "cond_questions (PathEq p h) = (if h = Question then 1 else 0)"
| "cond_questions (PathHas p h) = (if h = Question then 1 else 0)"
| "cond_questions (ColumnEq c h) = (if h = Question then 1 else 0)"
| "cond_questions (ColumnNot c h) = (if h = Question then 1 else 0)"
| "cond_questions _ = 0"

text \<open>
  \<open>expr_eval\<close> reads a condition from left to right: \<open>ex\<close> says that an operand is due, \<open>o\<close> is the
  disjunction of the finished operands of OR, \<open>a\<close> the conjunction read since, and the stack holds both
  for every open parenthesis.
\<close>

fun expr_eval ::
  "row_view \<Rightarrow> query_arg list \<Rightarrow> nat \<Rightarrow> bool \<Rightarrow> bool \<Rightarrow> bool \<Rightarrow> (bool \<times> bool) list \<Rightarrow> tok list \<Rightarrow> bool option" where
  "expr_eval v args k ex oo a st [] = (if ex \<or> st \<noteq> [] then None else Some (oo \<or> a))"
| "expr_eval v args k ex oo a st (TCond c # ts) =
     (if \<not> ex then None
      else (case cond_eval v args k c of
              None \<Rightarrow> None
            | Some b \<Rightarrow> expr_eval v args (k + cond_questions c) False oo (a \<and> b) st ts))"
| "expr_eval v args k ex oo a st (TAnd # ts) = (if ex then None else expr_eval v args k True oo a st ts)"
| "expr_eval v args k ex oo a st (TOr # ts) = (if ex then None else expr_eval v args k True (oo \<or> a) True st ts)"
| "expr_eval v args k ex oo a st (TOpen # ts) =
     (if ex then expr_eval v args k True False True ((oo, a) # st) ts else None)"
| "expr_eval v args k ex oo a st (TClose # ts) =
     (if ex then None
      else (case st of
              [] \<Rightarrow> None
            | (oo', a') # st' \<Rightarrow> expr_eval v args k False oo' (a' \<and> (oo \<or> a)) st' ts))"
| "expr_eval v args k ex oo a st (_ # ts) = None"

definition clause_keyword :: "tok \<Rightarrow> bool" where
  "clause_keyword t \<longleftrightarrow> (case t of TOrderBy _ \<Rightarrow> True | TLimit _ \<Rightarrow> True | TOffset _ \<Rightarrow> True | _ \<Rightarrow> False)"

fun tok_questions :: "tok \<Rightarrow> nat" where
  "tok_questions (TCond c) = cond_questions c"
| "tok_questions (TLimit h) = (if h = Question then 1 else 0)"
| "tok_questions (TOffset h) = (if h = Question then 1 else 0)"
| "tok_questions _ = 0"

definition questions :: "tok list \<Rightarrow> nat" where
  "questions ts = sum_list (map tok_questions ts)"

text \<open>ORDER BY, LIMIT and OFFSET, each at most once and in this order; SQLite has no OFFSET without LIMIT.\<close>

record select_tail =
  tl_order :: "order_spec option"
  tl_limit :: "placeholder option"
  tl_offset :: "placeholder option"

fun parse_offset :: "dialect \<Rightarrow> bool \<Rightarrow> tok list \<Rightarrow> placeholder option option" where
  "parse_offset d limited [] = Some None"
| "parse_offset d limited [TOffset h] = (if d = SQLite \<and> \<not> limited then None else Some (Some h))"
| "parse_offset d limited _ = None"

definition parse_limit :: "dialect \<Rightarrow> tok list \<Rightarrow> (placeholder option \<times> placeholder option) option" where
  "parse_limit d ts =
     (case ts of
        TLimit h # rest \<Rightarrow> map_option (\<lambda>f. (Some h, f)) (parse_offset d True rest)
      | _ \<Rightarrow> map_option (\<lambda>f. (None, f)) (parse_offset d False ts))"

definition parse_tail :: "dialect \<Rightarrow> tok list \<Rightarrow> select_tail option" where
  "parse_tail d ts =
     (let (ord, rest) = (case ts of TOrderBy x # r \<Rightarrow> (Some x, r) | _ \<Rightarrow> (None, ts))
      in map_option (\<lambda>(l, f). \<lparr>tl_order = ord, tl_limit = l, tl_offset = f\<rparr>) (parse_limit d rest))"

definition clause_where :: "tok list \<Rightarrow> tok list" where
  "clause_where ts = takeWhile (\<lambda>t. \<not> clause_keyword t) ts"

definition clause_tail :: "tok list \<Rightarrow> tok list" where
  "clause_tail ts = dropWhile (\<lambda>t. \<not> clause_keyword t) ts"

text \<open>The condition after WHERE; a clause without it holds for every row.\<close>

definition where_eval :: "row_view \<Rightarrow> query_arg list \<Rightarrow> tok list \<Rightarrow> bool option" where
  "where_eval v args ts =
     (case ts of [] \<Rightarrow> Some True | TWhere # e \<Rightarrow> expr_eval v args 0 True False True [] e | _ \<Rightarrow> None)"

section \<open>Running a statement on a table\<close>

text \<open>
  The collation of the database orders texts; it is the argument \<open>le\<close>. SQLite puts the collections
  with a positive curation order first, PostgreSQL those with an order other than 0.
\<close>

definition curation_rank :: "dialect \<Rightarrow> row_view \<Rightarrow> int \<times> int" where
  "curation_rank d v =
     (let n = (case vw_doc v ''curation_order'' of Number n \<Rightarrow> n | _ \<Rightarrow> 0)
      in if (case d of SQLite \<Rightarrow> n > 0 | Postgres \<Rightarrow> n \<noteq> 0) then (0, n) else (1, 0))"

definition row_before ::
  "dialect \<Rightarrow> (string \<Rightarrow> string \<Rightarrow> bool) \<Rightarrow> (('e, 'm) row_scheme \<Rightarrow> row_view) \<Rightarrow> order_spec \<Rightarrow>
   ('e, 'm) row_scheme \<Rightarrow> ('e, 'm) row_scheme \<Rightarrow> bool" where
  "row_before d le view spec r1 r2 =
     (case spec of
        IdDesc \<Rightarrow> le (rw_id r2) (rw_id r1)
      | CurationThenIdDesc \<Rightarrow>
          (let (a1, b1) = curation_rank d (view r1); (a2, b2) = curation_rank d (view r2)
           in a1 < a2 \<or> a1 = a2 \<and> (b1 < b2 \<or> b1 = b2 \<and> le (rw_id r2) (rw_id r1))))"

fun insert_by :: "('a \<Rightarrow> 'a \<Rightarrow> bool) \<Rightarrow> 'a \<Rightarrow> 'a list \<Rightarrow> 'a list" where
  "insert_by before x [] = [x]"
| "insert_by before x (y # ys) = (if before x y then x # y # ys else y # insert_by before x ys)"

definition sort_by :: "('a \<Rightarrow> 'a \<Rightarrow> bool) \<Rightarrow> 'a list \<Rightarrow> 'a list" where
  "sort_by before xs = foldr (insert_by before) xs []"

definition int_arg :: "query_arg list \<Rightarrow> nat \<Rightarrow> placeholder option \<Rightarrow> int option option" where
  "int_arg args k h =
     (case h of
        None \<Rightarrow> Some None
      | Some p \<Rightarrow> (case bound args k p of Some (QInt n) \<Rightarrow> Some (Some n) | _ \<Rightarrow> None))"

definition matching_rows ::
  "('r \<Rightarrow> row_view) \<Rightarrow> tok list \<times> query_arg list \<Rightarrow> 'r list \<Rightarrow> 'r list option" where
  "matching_rows view stmt rows =
     (let w = (\<lambda>r. where_eval (view r) (snd stmt) (clause_where (fst stmt)))
      in if list_ex (\<lambda>r. w r = None) rows then None else Some (filter (\<lambda>r. w r = Some True) rows))"

definition page_of :: "int option \<Rightarrow> int option \<Rightarrow> 'r list \<Rightarrow> 'r list" where
  "page_of limit offset rows =
     (let rest = (case offset of None \<Rightarrow> rows | Some n \<Rightarrow> drop (nat n) rows)
      in case limit of None \<Rightarrow> rest | Some n \<Rightarrow> take (nat n) rest)"

definition select_rows ::
  "dialect \<Rightarrow> (string \<Rightarrow> string \<Rightarrow> bool) \<Rightarrow> (('e, 'm) row_scheme \<Rightarrow> row_view) \<Rightarrow> tok list \<times> query_arg list \<Rightarrow>
   ('e, 'm) row_scheme list \<Rightarrow> ('e, 'm) row_scheme list option" where
  "select_rows d le view stmt rows =
     (case (parse_tail d (clause_tail (fst stmt)), matching_rows view stmt rows) of
        (Some t, Some matching) \<Rightarrow>
          (let k = questions (clause_where (fst stmt));
               k' = k + (if tl_limit t = Some Question then 1 else 0);
               ordered = (case tl_order t of None \<Rightarrow> matching | Some spec \<Rightarrow> sort_by (row_before d le view spec) matching)
           in case (int_arg (snd stmt) k (tl_limit t), int_arg (snd stmt) k' (tl_offset t)) of
                (Some limit, Some offset) \<Rightarrow> Some (page_of limit offset ordered)
              | _ \<Rightarrow> None)
      | _ \<Rightarrow> None)"

definition count_rows ::
  "dialect \<Rightarrow> (('e, 'm) row_scheme \<Rightarrow> row_view) \<Rightarrow> tok list \<times> query_arg list \<Rightarrow> ('e, 'm) row_scheme list \<Rightarrow> int option" where
  "count_rows d view stmt rows =
     (case (parse_tail d (clause_tail (fst stmt)), matching_rows view stmt rows) of
        (Some t, Some matching) \<Rightarrow> Some (int (length matching))
      | _ \<Rightarrow> None)"

end
