(* ===== verification/Sql_Meaning.thy ===== *)
theory Sql_Meaning
  imports Sql_Filters
begin

text \<open>
  What the clause builder writes means what the filter says: the specification of a filter as a
  predicate on rows, and the proof that the tokens and the numbered arguments of
  CreateFilterStatement evaluate to it in both dialects.
\<close>

section \<open>The specification of a filter\<close>

definition has_text :: "row_view \<Rightarrow> string \<Rightarrow> string \<Rightarrow> bool" where
  "has_text v path s \<longleftrightarrow> (case vw_doc v path of Texts ts \<Rightarrow> s \<in> set ts | _ \<Rightarrow> False)"

definition text_spec :: "row_view \<Rightarrow> string \<Rightarrow> query_arg \<Rightarrow> bool option" where
  "text_spec v path value = (case value of QStr s \<Rightarrow> Some (vw_doc v path = Text s) | _ \<Rightarrow> None)"

definition array_spec :: "row_view \<Rightarrow> string \<Rightarrow> query_arg \<Rightarrow> bool option" where
  "array_spec v path value =
     (case value of
        QStrs ss \<Rightarrow> if ss = [] then None else Some (\<forall>s \<in> set ss. has_text v path s)
      | _ \<Rightarrow> Some (has_text v path (string_value value)))"

definition column_spec :: "row_view \<Rightarrow> string \<Rightarrow> query_arg \<Rightarrow> bool option" where
  "column_spec v column value =
     (case value of
        QStr s \<Rightarrow>
          map_option (\<lambda>x. if HasPrefix s ''!'' then x \<noteq> drop 1 s else x = s) (vw_column v column)
      | _ \<Rightarrow> None)"

text \<open>One value of one key.\<close>

definition value_spec :: "row_view \<Rightarrow> string \<Rightarrow> string \<Rightarrow> query_arg \<Rightarrow> bool option" where
  "value_spec v tableName key value =
     (if key = ''name'' then text_spec v (if tableName = TableEvaluations then ''config.name'' else ''name'') value
      else if key = ''collection_id'' then text_spec v ''config.collection.id'' value
      else if key = ''category'' then text_spec v ''category'' value
      else if array_field key then array_spec v key value
      else if key = ''tags''
      then Some (has_text v (if tableName = TableEvaluations then ''config.tags'' else ''tags'') (string_value value))
      else column_spec v key value)"

text \<open>Strict connectives: a refused operand refuses the whole condition.\<close>

definition all_of :: "bool option list \<Rightarrow> bool option" where
  "all_of ps = (if None \<in> set ps then None else Some (\<forall>p \<in> set ps. p = Some True))"

definition any_of :: "bool option list \<Rightarrow> bool option" where
  "any_of ps = (if None \<in> set ps then None else Some (\<exists>p \<in> set ps. p = Some True))"

definition key_spec :: "row_view \<Rightarrow> string \<Rightarrow> string \<Rightarrow> query_arg \<Rightarrow> bool option" where
  "key_spec v tableName key values =
     (let (vs, operator) = GetValues values; ps = map (value_spec v tableName key) vs
      in case operator of OpAnd \<Rightarrow> all_of ps | OpOr \<Rightarrow> any_of ps)"

text \<open>The rows a request may see at all.\<close>

definition scope_spec :: "row_view \<Rightarrow> Tenant \<Rightarrow> string \<Rightarrow> bool option list" where
  "scope_spec v tenant tableName =
     (if Tenant_IsEmpty tenant then []
      else [any_of [map_option (\<lambda>x. x = tenant) (vw_column v ''tenant_id''),
                    map_option (\<lambda>x. x = OwnerSystem) (vw_column v ''owner'')]]) @
     (if tableName = TableEvaluations
      then [map_option (\<lambda>x. x = Evaluation) (vw_column v ''workload_type'')] else [])"

definition filter_spec :: "row_view \<Rightarrow> Tenant \<Rightarrow> string \<Rightarrow> query_arg gomap \<Rightarrow> bool option" where
  "filter_spec v tenant tableName params =
     all_of (scope_spec v tenant tableName @ map (\<lambda>e. key_spec v tableName (fst e) (snd e)) params)"

lemma all_of_Nil [simp]: "all_of [] = Some True"
  by (simp add: all_of_def)

lemma all_of_single [simp]: "all_of [p] = p"
  by (cases p) (auto simp: all_of_def)

lemma any_of_single [simp]: "any_of [p] = p"
  by (cases p) (auto simp: any_of_def)

lemma all_of_Cons: "all_of (p # ps) = all_of [p, all_of ps]"
  by (auto simp: all_of_def)

lemma any_of_Cons: "ps \<noteq> [] \<Longrightarrow> any_of (p # ps) = any_of [p, any_of ps]"
  by (auto simp: any_of_def)

lemma all_of_append: "all_of (ps @ qs) = all_of [all_of ps, all_of qs]"
  by (auto simp: all_of_def)

lemma all_of_cong_set: "set ps = set qs \<Longrightarrow> all_of ps = all_of qs"
  by (simp add: all_of_def)

lemma all_of_True_iff: "all_of ps = Some True \<longleftrightarrow> (\<forall>p \<in> set ps. p = Some True)"
  by (auto simp: all_of_def)

lemma all_of_True_left [simp]: "all_of [Some True, p] = p"
  by (cases p) (auto simp: all_of_def)

section \<open>Evaluation of a piece of a clause\<close>

text \<open>The number of the next question mark after \<open>n\<close> arguments; PostgreSQL's placeholders carry theirs.\<close>

definition kpos :: "dialect \<Rightarrow> nat \<Rightarrow> nat" where
  "kpos d n = (case d of SQLite \<Rightarrow> n | Postgres \<Rightarrow> 0)"

text \<open>
  The tokens of \<open>c\<close>, written when \<open>n\<close> arguments were there, are one operand of a conjunction with
  the value \<open>p\<close>, whatever stands around them.
\<close>

definition means :: "dialect \<Rightarrow> row_view \<Rightarrow> nat \<Rightarrow> tok list \<times> query_arg list \<Rightarrow> bool option \<Rightarrow> bool" where
  "means d v n c p \<longleftrightarrow>
     (\<forall>xs ys oo a st rest. length xs = n \<longrightarrow>
        expr_eval v (xs @ snd c @ ys) (kpos d n) True oo a st (fst c @ rest) =
        (case p of
           None \<Rightarrow> None
         | Some b \<Rightarrow> expr_eval v (xs @ snd c @ ys) (kpos d (n + length (snd c))) False oo (a \<and> b) st rest))"

lemma meansD:
  "means d v n c p \<Longrightarrow> length xs = n \<Longrightarrow>
   expr_eval v (xs @ snd c @ ys) (kpos d n) True oo a st (fst c @ rest) =
   (case p of
      None \<Rightarrow> None
    | Some b \<Rightarrow> expr_eval v (xs @ snd c @ ys) (kpos d (n + length (snd c))) False oo (a \<and> b) st rest)"
  by (simp add: means_def)

lemma bound_ph [simp]: "bound (xs @ z # ys) (kpos d (length xs)) (ph d (Suc (length xs))) = Some z"
  by (cases d) (auto simp: ph_def kpos_def nth_append)

lemma kpos_step [simp]: "kpos d n + (if ph d i = Question then 1 else 0) = kpos d (Suc n)"
  by (cases d) (auto simp: ph_def kpos_def)

lemma kpos_step' [simp]:
  "(if ph d i = Question then kpos d n + 1 else kpos d n) = kpos d (Suc n)"
  "(if ph d i = Question then Suc (kpos d n) else kpos d n) = kpos d (Suc n)"
  by (cases d; auto simp: ph_def kpos_def)+

lemma means_PathEq: "means d v n ([TCond (PathEq p (ph d (Suc n)))], [z]) (text_spec v p z)"
  by (auto simp: means_def compare_arg_def text_spec_def split: query_arg.splits)

lemma means_ColumnNot:
  "means d v n ([TCond (ColumnNot c (ph d (Suc n)))], [QStr s]) (map_option (\<lambda>x. x \<noteq> s) (vw_column v c))"
  by (auto simp: means_def compare_arg_def split: option.splits)

lemma means_ColumnEq:
  "means d v n ([TCond (ColumnEq c (ph d (Suc n)))], [z])
     (case z of QStr s \<Rightarrow> map_option (\<lambda>x. x = s) (vw_column v c) | _ \<Rightarrow> None)"
  by (auto simp: means_def compare_arg_def split: query_arg.splits option.splits)

lemma means_ColumnIs: "means d v n ([TCond (ColumnIs c s)], []) (map_option (\<lambda>x. x = s) (vw_column v c))"
  by (auto simp: means_def split: option.splits)

lemma means_member: "means d v n (member_cond d p (Suc n), [QStr s]) (Some (has_text v p s))"
  by (auto simp: means_def member_cond_def compare_arg_def has_text_def split: json_field.splits)

lemma means_and:
  assumes 1: "means d v n (t1, a1) p" and 2: "means d v (n + length a1) (t2, a2) q"
  shows "means d v n (t1 @ TAnd # t2, a1 @ a2) (all_of [p, q])"
proof -
  have "expr_eval v (xs @ (a1 @ a2) @ ys) (kpos d n) True oo a st ((t1 @ TAnd # t2) @ rest) =
        (case all_of [p, q] of
           None \<Rightarrow> None
         | Some b \<Rightarrow> expr_eval v (xs @ (a1 @ a2) @ ys) (kpos d (n + length (a1 @ a2))) False oo (a \<and> b) st rest)"
    if l: "length xs = n" for xs ys oo a st rest
  proof -
    note A = meansD[OF 1 l, of "a2 @ ys" oo a st "TAnd # t2 @ rest"]
    have B: "expr_eval v ((xs @ a1) @ a2 @ ys) (kpos d (n + length a1)) True oo a' st (t2 @ rest) =
        (case q of None \<Rightarrow> None
         | Some b \<Rightarrow> expr_eval v ((xs @ a1) @ a2 @ ys) (kpos d (n + length a1 + length a2)) False oo (a' \<and> b) st rest)" for a'
      using meansD[OF 2, of "xs @ a1" ys oo a' st rest] l by (simp split: option.splits)
    show ?thesis
      using A B by (cases p; cases q) (auto simp: all_of_def add.assoc)
  qed
  then show ?thesis unfolding means_def fst_conv snd_conv by blast
qed

lemma means_parens:
  assumes "means d v n (t, a) p"
  shows "means d v n (TOpen # t @ [TClose], a) p"
  using meansD[OF assms] by (auto simp: means_def split: option.splits)

lemma means_members:
  "ss \<noteq> [] \<Longrightarrow> means d v n (member_conds d p (Suc n) ss, map QStr ss) (Some (\<forall>s \<in> set ss. has_text v p s))"
proof (induction d p "Suc n" ss arbitrary: n rule: member_conds.induct)
  case (3 d p s t ss)
  have "means d v n (member_cond d p (Suc n) @ TAnd # member_conds d p (Suc (Suc n)) (t # ss),
          [QStr s] @ map QStr (t # ss))
          (all_of [Some (has_text v p s), Some (\<forall>x \<in> set (t # ss). has_text v p x)])"
    by (rule means_and[OF means_member]) (use 3 in simp)
  then show ?case by (simp add: all_of_def conj_commute conj_left_commute)
qed (simp_all add: means_member)

lemma means_empty_parens: "means d v n ([TOpen, TClose], []) None"
  by (simp add: means_def)

lemma means_array:
  "means d v n (case z of QStrs strs \<Rightarrow> (TOpen # member_conds d p (Suc n) strs @ [TClose], map QStr strs)
                  | _ \<Rightarrow> (member_cond d p (Suc n), [QStr (string_value z)]))
     (array_spec v p z)"
proof (cases z)
  case (QStrs ss)
  then show ?thesis
    using means_parens[OF means_members[of ss d v n p]] means_empty_parens
    by (cases "ss = []") (auto simp: array_spec_def)
qed (simp_all add: array_spec_def means_member)

lemma means_column:
  "means d v n (case z of
                    QStr s \<Rightarrow>
                      if HasPrefix s ''!'' then ([TCond (ColumnNot c (ph d (Suc n)))], [QStr (drop 1 s)])
                      else ([TCond (ColumnEq c (ph d (Suc n)))], [z])
                  | _ \<Rightarrow> ([TCond (ColumnEq c (ph d (Suc n)))], [z]))
     (column_spec v c z)"
  using means_ColumnNot[of d v n c] means_ColumnEq[of d v n c z]
  by (cases z) (auto simp: column_spec_def)

text \<open>The keys whose condition is empty belong to other tables.\<close>

lemma means_condition:
  assumes "key \<in> set (GetAllowedFilterColumns tableName)"
  shows "means d v n (CreateEntityFilterCondition d key z (Suc n) tableName) (value_spec v tableName key z)"
proof -
  have tabs: "key = ''collection_id'' \<Longrightarrow> tableName = TableEvaluations"
    "key = ''category'' \<Longrightarrow> tableName = TableCollections"
    using assms by (auto simp: GetAllowedFilterColumns_def Let_def split: if_splits)
  consider "key = ''name''" | "key = ''collection_id''" | "key = ''category''"
    | "array_field key" "key \<notin> {''name'', ''collection_id'', ''category''}"
    | "key = ''tags''" "\<not> array_field key"
    | "\<not> array_field key" "key \<notin> {''name'', ''collection_id'', ''category'', ''tags''}" by blast
  then show ?thesis
  proof cases
    case 4
    then show ?thesis
      using means_array[where d = d and v = v and n = n and z = z and p = key] by (simp add: CreateEntityFilterCondition_def value_spec_def)
  next
    case 6
    then show ?thesis
      using means_column[where d = d and v = v and n = n and z = z and c = key] by (simp add: CreateEntityFilterCondition_def value_spec_def)
  qed (simp_all add: CreateEntityFilterCondition_def value_spec_def means_PathEq means_member tabs)
qed


section \<open>The loop over the values of a key\<close>

fun chain ::
  "dialect \<Rightarrow> string \<Rightarrow> string \<Rightarrow> bool_op \<Rightarrow> nat \<Rightarrow> query_arg list \<Rightarrow> tok list \<times> query_arg list" where
  "chain d tableName key operator index [] = ([], [])"
| "chain d tableName key operator index [z] = CreateEntityFilterCondition d key z index tableName"
| "chain d tableName key operator index (z # z' # zs) =
     (let c = CreateEntityFilterCondition d key z index tableName;
          r = chain d tableName key operator (index + length (snd c)) (z' # zs)
      in (fst c @ op_tok operator # fst r, snd c @ snd r))"

lemma fb_cond_simps [simp]:
  "fb_sb (fb_cond c b) = fb_sb b @ fst c" "fb_args (fb_cond c b) = fb_args b @ snd c"
  "fb_index (fb_cond c b) = fb_index b + length (snd c)" "fb_haveWhere (fb_cond c b) = fb_haveWhere b"
  "fb_writtenFilterKey (fb_cond c b) = fb_writtenFilterKey b"
  by (simp_all add: fb_cond_def)

lemma fb_write_simps [simp]:
  "fb_sb (fb_write ts b) = fb_sb b @ ts" "fb_args (fb_write ts b) = fb_args b"
  "fb_index (fb_write ts b) = fb_index b" "fb_haveWhere (fb_write ts b) = fb_haveWhere b"
  "fb_writtenFilterKey (fb_write ts b) = fb_writtenFilterKey b"
  by (simp_all add: fb_write_def)

lemma write_values_rest:
  "write_values d tableName key operator False (z # zs) b =
   write_values d tableName key operator True (z # zs) (fb_write [op_tok operator] b)"
  by simp

lemma write_values_chain:
  "write_values d tableName key operator True zs b = fb_cond (chain d tableName key operator (fb_index b) zs) b"
proof (induction zs arbitrary: b)
  case Nil
  then show ?case by (simp add: fb_cond_def)
next
  case (Cons z zs)
  show ?case
  proof (cases zs)
    case (Cons z' zs')
    then show ?thesis
      using Cons.IH by (simp add: write_values_rest del: write_values.simps(2)) (simp add: fb_cond_def fb_write_def Let_def)
  qed simp
qed

lemma means_chain_and:
  assumes "key \<in> set (GetAllowedFilterColumns tableName)" and "zs \<noteq> []"
  shows "means d v n (chain d tableName key OpAnd (Suc n) zs) (all_of (map (value_spec v tableName key) zs))"
  using assms(2)
proof (induction zs arbitrary: n)
  case (Cons z zs)
  show ?case
  proof (cases zs)
    case Nil
    then show ?thesis using means_condition[OF assms(1)] by simp
  next
    case (Cons z' zs')
    let ?c = "CreateEntityFilterCondition d key z (Suc n) tableName"
    have "means d v n (fst ?c @ TAnd # fst (chain d tableName key OpAnd (Suc (n + length (snd ?c))) zs),
            snd ?c @ snd (chain d tableName key OpAnd (Suc (n + length (snd ?c))) zs))
          (all_of [value_spec v tableName key z, all_of (map (value_spec v tableName key) zs)])"
      by (rule means_and) (use means_condition[OF assms(1)] Cons.IH Cons in simp_all)
    moreover have "all_of (map (value_spec v tableName key) (z # zs)) =
          all_of [value_spec v tableName key z, all_of (map (value_spec v tableName key) zs)]"
      unfolding list.map by (rule all_of_Cons)
    ultimately show ?thesis using Cons by (simp add: Let_def)
  qed
qed simp

text \<open>Between parentheses the operands of OR are alternatives.\<close>

lemma chain_or_eval:
  assumes "key \<in> set (GetAllowedFilterColumns tableName)" and "zs \<noteq> []" and "length xs = n"
  shows "expr_eval v (xs @ snd (chain d tableName key OpOr (Suc n) zs) @ ys) (kpos d n) True oo True ((o', a') # st)
           (fst (chain d tableName key OpOr (Suc n) zs) @ TClose # rest) =
         (case any_of (map (value_spec v tableName key) zs) of
            None \<Rightarrow> None
          | Some b \<Rightarrow> expr_eval v (xs @ snd (chain d tableName key OpOr (Suc n) zs) @ ys)
                        (kpos d (n + length (snd (chain d tableName key OpOr (Suc n) zs)))) False o' (a' \<and> (oo \<or> b)) st rest)"
  using assms(2,3)
proof (induction zs arbitrary: n xs oo)
  case (Cons z zs)
  note c = means_condition[OF assms(1), of d v n z]
  show ?case
  proof (cases zs)
    case Nil
    then show ?thesis
      using meansD[OF c Cons.prems(2)] by (simp split: option.splits)
  next
    case (Cons z' zs')
    let ?c = "CreateEntityFilterCondition d key z (Suc n) tableName"
    let ?r = "chain d tableName key OpOr (Suc (n + length (snd ?c))) zs"
    have h: "fst (chain d tableName key OpOr (Suc n) (z # zs)) = fst ?c @ TOr # fst ?r"
      "snd (chain d tableName key OpOr (Suc n) (z # zs)) = snd ?c @ snd ?r"
      using Cons by (simp_all add: Let_def)
    have ih: "expr_eval v ((xs @ snd ?c) @ snd ?r @ ys) (kpos d (n + length (snd ?c))) True oo' True ((o', a') # st)
                (fst ?r @ TClose # rest) =
              (case any_of (map (value_spec v tableName key) zs) of
                 None \<Rightarrow> None
               | Some b \<Rightarrow> expr_eval v ((xs @ snd ?c) @ snd ?r @ ys)
                   (kpos d (n + length (snd ?c) + length (snd ?r))) False o' (a' \<and> (oo' \<or> b)) st rest)" for oo'
      by (rule Cons.IH) (use Cons Cons.prems in auto)
    have an: "any_of (map (value_spec v tableName key) (z # zs)) =
              any_of [value_spec v tableName key z, any_of (map (value_spec v tableName key) zs)]"
      unfolding list.map by (rule any_of_Cons) (simp add: Cons)
    show ?thesis
      using meansD[OF c Cons.prems(2), of "snd ?r @ ys" oo True "(o', a') # st" "TOr # fst ?r @ TClose # rest"] ih
      unfolding h an
      by (cases "value_spec v tableName key z"; cases "any_of (map (value_spec v tableName key) zs)")
         (auto simp: any_of_def add.assoc split: if_splits)
  qed
qed simp

section \<open>The loop over the keys\<close>

definition key_clause :: "dialect \<Rightarrow> string \<Rightarrow> string \<Rightarrow> nat \<Rightarrow> query_arg \<Rightarrow> tok list \<times> query_arg list" where
  "key_clause d tableName key index values =
     (let (zs, operator) = GetValues values; c = chain d tableName key operator index zs
      in if operator = OpOr \<and> length zs > 1 then (TOpen # fst c @ [TClose], snd c) else c)"

lemma GetValues_ne: "fst (GetValues values) \<noteq> []"
  by (simp add: GetValues_def Let_def)

lemma means_key:
  assumes "key \<in> set (GetAllowedFilterColumns tableName)"
  shows "means d v n (key_clause d tableName key (Suc n) values) (key_spec v tableName key values)"
proof -
  obtain zs operator where g: "GetValues values = (zs, operator)" by (cases "GetValues values")
  then have ne: "zs \<noteq> []" using GetValues_ne[of "values"] by simp
  have single: "means d v n (chain d tableName key operator (Suc n) zs) (key_spec v tableName key values)"
    if "\<not> (operator = OpOr \<and> length zs > 1)"
  proof (cases operator)
    case OpAnd
    then show ?thesis using means_chain_and[OF assms ne] g by (simp add: key_spec_def)
  next
    case OpOr
    with that ne obtain z where "zs = [z]" by (cases zs; cases "tl zs") auto
    with OpOr show ?thesis using means_condition[OF assms] g by (simp add: key_spec_def)
  qed
  have alts: "means d v n (TOpen # fst (chain d tableName key OpOr (Suc n) zs) @ [TClose], snd (chain d tableName key OpOr (Suc n) zs))
                (any_of (map (value_spec v tableName key) zs))"
    using chain_or_eval[OF assms ne] by (simp add: means_def split: option.splits)
  show ?thesis
    using single alts g by (auto simp: key_clause_def key_spec_def Let_def)
qed

text \<open>The builder after some keys: an empty clause, or WHERE with a condition that means \<open>p\<close>.\<close>

definition builds :: "dialect \<Rightarrow> row_view \<Rightarrow> filter_builder \<Rightarrow> bool option \<Rightarrow> bool" where
  "builds d v b p \<longleftrightarrow>
     fb_index b = Suc (length (fb_args b)) \<and>
     (if fb_haveWhere b
      then \<exists>body. fb_sb b = TWhere # body @ (if fb_writtenFilterKey b then [] else [TAnd]) \<and>
                  means d v 0 (body, fb_args b) p
      else fb_sb b = [] \<and> fb_args b = [] \<and> p = Some True)"

lemma write_key_clause:
  fixes d :: dialect
  assumes "gomap_get params key = Some values" and "key \<in> set (GetAllowedFilterColumns tableName)"
    and "fb_index b = Suc (length (fb_args b))"
  defines "c \<equiv> key_clause d tableName key (fb_index b) values"
  shows "fb_sb (write_key d tableName params key b) =
           (if \<not> fb_haveWhere b then fb_sb b @ [TWhere] else if fb_writtenFilterKey b then fb_sb b @ [TAnd] else fb_sb b) @ fst c"
    and "fb_args (write_key d tableName params key b) = fb_args b @ snd c"
    and "fb_index (write_key d tableName params key b) = fb_index b + length (snd c)"
    and "fb_haveWhere (write_key d tableName params key b)"
    and "fb_writtenFilterKey (write_key d tableName params key b)"
  using assms
  by (simp_all add: write_key_def key_clause_def write_values_chain Let_def split: prod.splits)

lemma builds_write_key:
  assumes b: "builds d v b p" and get: "gomap_get params key = Some values"
    and allowed: "key \<in> set (GetAllowedFilterColumns tableName)"
  shows "builds d v (write_key d tableName params key b) (all_of [p, key_spec v tableName key values])"
    and "fb_writtenFilterKey (write_key d tableName params key b)"
    and "fb_haveWhere (write_key d tableName params key b)"
proof -
  have ix: "fb_index b = Suc (length (fb_args b))" using b by (simp add: builds_def)
  note w = write_key_clause[OF get allowed ix]
  let ?c = "key_clause d tableName key (Suc (length (fb_args b))) values"
  show "fb_writtenFilterKey (write_key d tableName params key b)" "fb_haveWhere (write_key d tableName params key b)"
    by (rule w)+
  show "builds d v (write_key d tableName params key b) (all_of [p, key_spec v tableName key values])"
  proof (cases "fb_haveWhere b")
    case True
    then obtain body where body: "fb_sb b = TWhere # body @ (if fb_writtenFilterKey b then [] else [TAnd])"
      "means d v 0 (body, fb_args b) p"
      using b by (auto simp: builds_def)
    have "means d v 0 (body @ TAnd # fst ?c, fb_args b @ snd ?c) (all_of [p, key_spec v tableName key values])"
      by (rule means_and[OF body(2)]) (use means_key[OF allowed] in simp)
    with body(1) True show ?thesis by (auto simp: builds_def w ix)
  next
    case False
    then show ?thesis
      using b means_key[OF allowed, of d v 0 "values"] by (auto simp: builds_def w)
  qed
qed

lemma builds_fold:
  assumes "builds d v b p" and "\<And>key. key \<in> set keys \<Longrightarrow> key \<in> set (GetAllowedFilterColumns tableName)"
    and "\<And>key. key \<in> set keys \<Longrightarrow> gomap_get params key = Some (f key)"
  shows "builds d v (fold (write_key d tableName params) keys b)
           (all_of (p # map (\<lambda>key. key_spec v tableName key (f key)) keys)) \<and>
         (keys \<noteq> [] \<longrightarrow> fb_writtenFilterKey (fold (write_key d tableName params) keys b) \<and>
                      fb_haveWhere (fold (write_key d tableName params) keys b))"
  using assms
proof (induction keys arbitrary: b p)
  case (Cons key keys)
  note step = builds_write_key[OF Cons.prems(1), of params key "f key" tableName]
  have ih: "builds d v (fold (write_key d tableName params) keys (write_key d tableName params key b))
          (all_of (all_of [p, key_spec v tableName key (f key)] # map (\<lambda>key. key_spec v tableName key (f key)) keys)) \<and>
        (keys \<noteq> [] \<longrightarrow> fb_writtenFilterKey (fold (write_key d tableName params) keys (write_key d tableName params key b)) \<and>
           fb_haveWhere (fold (write_key d tableName params) keys (write_key d tableName params key b)))"
    by (rule Cons.IH) (use Cons.prems step in auto)
  have "all_of (all_of [p, q] # qs) = all_of (p # q # qs)" for q qs
    by (auto simp: all_of_def)
  with ih step Cons.prems show ?case by (cases keys) auto
qed simp

section \<open>Whole statements\<close>

lemma means_tenant:
  assumes "\<not> Tenant_IsEmpty tenant"
  shows "means d v 0 (tenant_where d tenant)
           (any_of [map_option (\<lambda>x. x = tenant) (vw_column v ''tenant_id''),
                    map_option (\<lambda>x. x = OwnerSystem) (vw_column v ''owner'')])"
  using assms
  by (cases d; cases "vw_column v ''tenant_id''"; cases "vw_column v ''owner''")
     (auto simp: means_def tenant_where_def ph_def kpos_def compare_arg_def any_of_def)

text \<open>The condition before the filter, \<open>None\<close> when there is none.\<close>

definition scope_clause :: "dialect \<Rightarrow> Tenant \<Rightarrow> string \<Rightarrow> tok list" where
  "scope_clause d tenant tableName = AddEvaluationWorkloadTypeFilter tableName (fst (tenant_where d tenant))"

lemma scope_clause_Nil_iff:
  "scope_clause d tenant tableName = [] \<longleftrightarrow> Tenant_IsEmpty tenant \<and> tableName \<noteq> TableEvaluations"
  by (auto simp: scope_clause_def AddEvaluationWorkloadTypeFilter_def tenant_where_def Let_def)

lemma scope_spec_Nil_iff: "scope_spec v tenant tableName = [] \<longleftrightarrow> Tenant_IsEmpty tenant \<and> tableName \<noteq> TableEvaluations"
  by (simp add: scope_spec_def)

lemma means_scope:
  assumes "scope_clause d tenant tableName \<noteq> []"
  shows "means d v 0 (scope_clause d tenant tableName, snd (tenant_where d tenant)) (all_of (scope_spec v tenant tableName))"
proof -
  let ?w = "map_option (\<lambda>x. x = Evaluation) (vw_column v ''workload_type'')"
  let ?t = "any_of [map_option (\<lambda>x. x = tenant) (vw_column v ''tenant_id''),
                    map_option (\<lambda>x. x = OwnerSystem) (vw_column v ''owner'')]"
  have w: "means d v n ([TCond (ColumnIs ''workload_type'' Evaluation)], []) ?w" for n
    by (rule means_ColumnIs)
  consider "Tenant_IsEmpty tenant" "tableName = TableEvaluations"
    | "\<not> Tenant_IsEmpty tenant" "tableName \<noteq> TableEvaluations"
    | "\<not> Tenant_IsEmpty tenant" "tableName = TableEvaluations"
    using assms by (auto simp: scope_clause_Nil_iff)
  then show ?thesis
  proof cases
    case 1
    then show ?thesis
      using w by (simp add: scope_clause_def scope_spec_def AddEvaluationWorkloadTypeFilter_def tenant_where_def)
  next
    case 2
    then show ?thesis
      using means_tenant[OF 2(1), of d v]
      by (simp add: scope_clause_def scope_spec_def AddEvaluationWorkloadTypeFilter_def)
  next
    case 3
    have ne: "fst (tenant_where d tenant) \<noteq> []" using 3 by (simp add: tenant_where_def)
    have "means d v 0 (fst (tenant_where d tenant) @ TAnd # [TCond (ColumnIs ''workload_type'' Evaluation)],
            snd (tenant_where d tenant) @ []) (all_of [?t, ?w])"
      by (rule means_and[OF _ w]) (use means_tenant[OF 3(1), of d v] in simp)
    with 3 ne show ?thesis
      by (simp add: scope_clause_def scope_spec_def AddEvaluationWorkloadTypeFilter_def)
  qed
qed

definition no_keyword :: "tok list \<Rightarrow> bool" where
  "no_keyword ts = list_all (\<lambda>t. \<not> clause_keyword t) ts"

lemma no_keyword_simps [simp]:
  "no_keyword []" "no_keyword (t # ts) \<longleftrightarrow> \<not> clause_keyword t \<and> no_keyword ts"
  "no_keyword (ts @ us) \<longleftrightarrow> no_keyword ts \<and> no_keyword us"
  by (simp_all add: no_keyword_def)

lemma clause_keyword_simps [simp]:
  "\<not> clause_keyword TWhere" "\<not> clause_keyword (TCond c)" "\<not> clause_keyword TAnd" "\<not> clause_keyword TOr"
  "\<not> clause_keyword TOpen" "\<not> clause_keyword TClose" "clause_keyword (TOrderBy x)"
  "clause_keyword (TLimit h)" "clause_keyword (TOffset h)" "\<not> clause_keyword (op_tok y)"
  by (simp_all add: clause_keyword_def) (cases y; simp)

lemma no_keyword_members [simp]: "no_keyword (member_conds d p i ss)"
  by (induction d p i ss rule: member_conds.induct) (simp_all add: member_cond_def)

lemma no_keyword_condition [simp]: "no_keyword (fst (CreateEntityFilterCondition d key z i tableName))"
  by (simp add: CreateEntityFilterCondition_def member_cond_def split: query_arg.splits)

lemma no_keyword_chain [simp]: "no_keyword (fst (chain d tableName key operator i zs))"
  by (induction d tableName key operator i zs rule: chain.induct) (simp_all add: Let_def)

lemma no_keyword_key [simp]: "no_keyword (fst (key_clause d tableName key i vs))"
  by (simp add: key_clause_def Let_def split: prod.splits)

lemma no_keyword_scope [simp]: "no_keyword (scope_clause d tenant tableName)"
  by (simp add: scope_clause_def AddEvaluationWorkloadTypeFilter_def tenant_where_def Let_def)

text \<open>The builder behind a statement, before ORDER BY, LIMIT and OFFSET.\<close>

definition where_builder :: "dialect \<Rightarrow> Tenant \<Rightarrow> string \<Rightarrow> query_arg gomap \<Rightarrow> filter_builder" where
  "where_builder d tenant tableName params =
     fold (write_key d tableName params) (sort (map fst params))
       (start_builder (scope_clause d tenant tableName) (snd (tenant_where d tenant)) params)"

definition allowed_filter :: "string \<Rightarrow> query_arg gomap \<Rightarrow> bool" where
  "allowed_filter tableName params \<longleftrightarrow>
     gomap_wf params \<and> set (map fst params) \<subseteq> set (GetAllowedFilterColumns tableName)"

lemma builds_start:
  assumes "params \<noteq> []"
  shows "builds d v (start_builder (scope_clause d tenant tableName) (snd (tenant_where d tenant)) params)
           (all_of (scope_spec v tenant tableName))"
proof (cases "scope_clause d tenant tableName = []")
  case True
  then have "scope_spec v tenant tableName = []" by (simp add: scope_clause_Nil_iff scope_spec_Nil_iff)
  with True show ?thesis by (simp add: builds_def start_builder_def)
next
  case False
  then show ?thesis
    using assms means_scope[OF False, of v] by (simp add: builds_def start_builder_def Let_def)
qed

lemma map_of_entries: "gomap_wf m \<Longrightarrow> (k, x) \<in> set m \<Longrightarrow> gomap_get m k = Some x"
  by (simp add: gomap_wf_def gomap_get_def)

lemma where_builder_eval:
  fixes d :: dialect and tenant :: Tenant
  assumes "allowed_filter tableName params"
  defines "b \<equiv> where_builder d tenant tableName params"
  shows "where_eval v (fb_args b @ extra) (fb_sb b) = filter_spec v tenant tableName params"
    and "fb_index b = Suc (length (fb_args b))"
proof -
  let ?b0 = "start_builder (scope_clause d tenant tableName) (snd (tenant_where d tenant)) params"
  have "where_eval v (fb_args b @ extra) (fb_sb b) = filter_spec v tenant tableName params \<and>
        fb_index b = Suc (length (fb_args b))"
  proof (cases "params = []")
    case True
    show ?thesis
    proof (cases "scope_clause d tenant tableName = []")
      case True
      then have "scope_spec v tenant tableName = []" by (simp add: scope_clause_Nil_iff scope_spec_Nil_iff)
      with True \<open>params = []\<close> show ?thesis
        by (simp add: b_def where_builder_def start_builder_def where_eval_def filter_spec_def)
    next
      case False
      with \<open>params = []\<close> show ?thesis
        using meansD[OF means_scope[OF False, of v], of "[]" extra False True "[]" "[]"]
        by (simp add: b_def where_builder_def start_builder_def where_eval_def filter_spec_def kpos_def
              split: option.splits dialect.splits)
    qed
  next
    case False
    let ?keys = "sort (map fst params)"
    let ?f = "\<lambda>key. the (gomap_get params key)"
    have get: "gomap_get params (fst e) = Some (snd e)" if "e \<in> set params" for e
      using that assms(1) by (metis allowed_filter_def map_of_entries prod.collapse)
    have fold: "builds d v b (all_of (all_of (scope_spec v tenant tableName) # map (\<lambda>key. key_spec v tableName key (?f key)) ?keys)) \<and>
           (?keys \<noteq> [] \<longrightarrow> fb_writtenFilterKey b \<and> fb_haveWhere b)"
      unfolding b_def where_builder_def
      by (rule builds_fold[OF builds_start[OF False]])
         (use assms(1) get in \<open>auto simp: allowed_filter_def\<close>)
    have p: "all_of (all_of (scope_spec v tenant tableName) # map (\<lambda>key. key_spec v tableName key (?f key)) ?keys)
             = filter_spec v tenant tableName params"
    proof -
      have "set (map (\<lambda>key. key_spec v tableName key (?f key)) ?keys) = set (map (\<lambda>e. key_spec v tableName (fst e) (snd e)) params)"
        using get by (force simp: image_iff)
      then have "all_of (map (\<lambda>key. key_spec v tableName key (?f key)) ?keys) = all_of (map (\<lambda>e. key_spec v tableName (fst e) (snd e)) params)"
        by (rule all_of_cong_set)
      then show ?thesis
        unfolding filter_spec_def all_of_append by (subst all_of_Cons) simp
    qed
    have "?keys \<noteq> []" using False by (metis length_0_conv length_map length_sort)
    with fold obtain body where "fb_sb b = TWhere # body"
      and m: "means d v 0 (body, fb_args b) (filter_spec v tenant tableName params)"
      and ix: "fb_index b = Suc (length (fb_args b))"
      unfolding p by (auto simp: builds_def)
    then show ?thesis
      using meansD[OF m, of "[]" extra False True "[]" "[]"]
      by (simp add: where_eval_def kpos_def split: option.splits dialect.splits)
  qed
  then show "where_eval v (fb_args b @ extra) (fb_sb b) = filter_spec v tenant tableName params"
    and "fb_index b = Suc (length (fb_args b))" by blast+
qed

lemma no_keyword_fold:
  "no_keyword (fb_sb b) \<Longrightarrow> no_keyword (fb_sb (fold (write_key d tableName params) keys b))"
proof (induction keys arbitrary: b)
  case (Cons key keys)
  have "no_keyword (fb_sb (write_key d tableName params key b))"
    using Cons.prems
    by (simp add: write_key_def write_values_chain Let_def split: option.splits prod.splits)
  with Cons.IH show ?case by simp
qed simp

lemma no_keyword_where [simp]: "no_keyword (fb_sb (where_builder d tenant tableName params))"
  unfolding where_builder_def by (rule no_keyword_fold) (simp add: start_builder_def Let_def)

lemma clause_parts:
  assumes "no_keyword ts" and "us = [] \<or> clause_keyword (hd us)"
  shows "clause_where (ts @ us) = ts" and "clause_tail (ts @ us) = us"
proof -
  have "takeWhile (\<lambda>t. \<not> clause_keyword t) us = []" "dropWhile (\<lambda>t. \<not> clause_keyword t) us = us"
    using assms(2) by (cases us; simp)+
  with assms(1) show "clause_where (ts @ us) = ts" "clause_tail (ts @ us) = us"
    by (simp_all add: clause_where_def clause_tail_def no_keyword_def list_all_iff takeWhile_append dropWhile_append)
qed

text \<open>ORDER BY, LIMIT and OFFSET as they stand behind \<open>n\<close> arguments, and the arguments they add.\<close>

definition tail_tokens :: "dialect \<Rightarrow> nat \<Rightarrow> order_spec option \<Rightarrow> int \<Rightarrow> int \<Rightarrow> tok list" where
  "tail_tokens d n ord limit offset =
     (case ord of None \<Rightarrow> [] | Some x \<Rightarrow> [TOrderBy x]) @
     (if limit > 0 then [TLimit (ph d (Suc n))] else []) @
     (if offset > 0 then [TOffset (ph d (if limit > 0 then Suc (Suc n) else Suc n))] else [])"

definition tail_args :: "int \<Rightarrow> int \<Rightarrow> query_arg list" where
  "tail_args limit offset =
     (if limit > 0 then [QInt limit] else []) @ (if offset > 0 then [QInt offset] else [])"

lemma filter_statement_parts:
  fixes d :: dialect and tenant :: Tenant
  assumes "allowed_filter tableName params"
  defines "b \<equiv> where_builder d tenant tableName params"
  shows "CreateFilterStatement d (scope_clause d tenant tableName) (snd (tenant_where d tenant)) params ord limit offset tableName =
           (fb_sb b @ tail_tokens d (length (fb_args b)) ord limit offset, fb_args b @ tail_args limit offset)"
  using where_builder_eval(2)[OF assms(1), of d tenant]
  by (simp add: CreateFilterStatement_def b_def where_builder_def tail_tokens_def tail_args_def Let_def split: option.splits)

text \<open>SQLite has no OFFSET without LIMIT.\<close>

definition page_ok :: "dialect \<Rightarrow> int \<Rightarrow> int \<Rightarrow> bool" where
  "page_ok d limit offset \<longleftrightarrow> d = SQLite \<and> offset > 0 \<longrightarrow> limit > 0"

lemma parse_tail_tokens:
  "parse_tail d (tail_tokens d n ord limit offset) =
     (if page_ok d limit offset
      then Some \<lparr>tl_order = ord, tl_limit = (if limit > 0 then Some (ph d (Suc n)) else None),
                 tl_offset = (if offset > 0 then Some (ph d (if limit > 0 then Suc (Suc n) else Suc n)) else None)\<rparr>
      else None)"
  by (cases ord)
     (auto simp: parse_tail_def tail_tokens_def parse_limit_def page_ok_def Let_def)

lemma tail_tokens_keyword: "tail_tokens d n ord limit offset = [] \<or> clause_keyword (hd (tail_tokens d n ord limit offset))"
  by (auto simp: tail_tokens_def split: option.splits)

subsection \<open>Question marks and arguments\<close>

lemma questions_simps [simp]:
  "questions [] = 0" "questions (t # ts) = tok_questions t + questions ts" "questions (ts @ us) = questions ts + questions us"
  by (simp_all add: questions_def)

lemma tok_questions_op [simp]: "tok_questions (op_tok x) = 0"
  by (cases x) simp_all

lemma ph_SQLite [simp]: "ph SQLite i = Question"
  by (simp add: ph_def)

lemma questions_members: "questions (member_conds SQLite p i ss) = length ss"
  by (induction SQLite p i ss rule: member_conds.induct) (simp_all add: member_cond_def)

lemma questions_condition:
  "questions (fst (CreateEntityFilterCondition SQLite key z i tableName)) =
   length (snd (CreateEntityFilterCondition SQLite key z i tableName))"
  by (simp add: CreateEntityFilterCondition_def member_cond_def questions_members split: query_arg.splits)

lemma questions_chain:
  "questions (fst (chain SQLite tableName key operator i zs)) = length (snd (chain SQLite tableName key operator i zs))"
  by (induction SQLite tableName key operator i zs rule: chain.induct) (simp_all add: Let_def questions_condition)

lemma questions_fold:
  "questions (fb_sb b) = length (fb_args b) \<Longrightarrow>
   questions (fb_sb (fold (write_key SQLite tableName params) keys b)) =
   length (fb_args (fold (write_key SQLite tableName params) keys b))"
proof (induction keys arbitrary: b)
  case (Cons key keys)
  have "questions (fb_sb (write_key SQLite tableName params key b)) = length (fb_args (write_key SQLite tableName params key b))"
    using Cons.prems
    by (simp add: write_key_def write_values_chain questions_chain Let_def split: option.splits prod.splits)
  with Cons.IH show ?case by simp
qed simp

lemma questions_where:
  "questions (fb_sb (where_builder SQLite tenant tableName params)) =
   length (fb_args (where_builder SQLite tenant tableName params))"
  unfolding where_builder_def
  by (rule questions_fold)
     (simp add: start_builder_def scope_clause_def AddEvaluationWorkloadTypeFilter_def tenant_where_def Let_def)

section \<open>Listing and counting\<close>

lemma CreateListEntitiesStatement_alt:
  "CreateListEntitiesStatement d tenant tableName limit offset params sortBy =
   CreateFilterStatement d (scope_clause d tenant tableName) (snd (tenant_where d tenant)) params
     (Some (list_order tableName sortBy)) limit offset tableName"
  by (simp add: CreateListEntitiesStatement_def scope_clause_def split: prod.splits)

lemma CreateCountEntitiesStatement_alt:
  "CreateCountEntitiesStatement d tenant tableName params =
   CreateFilterStatement d (scope_clause d tenant tableName) (snd (tenant_where d tenant)) params None 0 0 tableName"
  by (simp add: CreateCountEntitiesStatement_def scope_clause_def split: prod.splits)

text \<open>The rows that a filter selects, \<open>None\<close> when the database refuses it.\<close>

definition spec_rows :: "('r \<Rightarrow> row_view) \<Rightarrow> Tenant \<Rightarrow> string \<Rightarrow> query_arg gomap \<Rightarrow> 'r list \<Rightarrow> 'r list option" where
  "spec_rows view tenant tableName params rows =
     (if \<exists>r \<in> set rows. filter_spec (view r) tenant tableName params = None then None
      else Some (filter (\<lambda>r. filter_spec (view r) tenant tableName params = Some True) rows))"

lemma matching_rows_filter:
  assumes "allowed_filter tableName params"
  shows "matching_rows view
           (CreateFilterStatement d (scope_clause d tenant tableName) (snd (tenant_where d tenant)) params ord limit offset tableName) rows
         = spec_rows view tenant tableName params rows"
  by (simp add: filter_statement_parts[OF assms] matching_rows_def spec_rows_def clause_parts tail_tokens_keyword
        where_builder_eval(1)[OF assms] list_ex_iff)

lemma count_rows_meaning:
  assumes "allowed_filter tableName params"
  shows "count_rows d view (CreateCountEntitiesStatement d tenant tableName params) rows =
         map_option (\<lambda>rs. int (length rs)) (spec_rows view tenant tableName params rows)"
  unfolding count_rows_def CreateCountEntitiesStatement_alt matching_rows_filter[OF assms]
  by (simp add: filter_statement_parts[OF assms] clause_parts tail_tokens_keyword parse_tail_tokens page_ok_def
        split: option.splits)

definition positive :: "int \<Rightarrow> int option" where
  "positive n = (if n > 0 then Some n else None)"

lemma select_rows_meaning:
  assumes "allowed_filter tableName params"
  shows "select_rows d le view (CreateListEntitiesStatement d tenant tableName limit offset params sortBy) rows =
         (if page_ok d limit offset
          then map_option (\<lambda>rs. page_of (positive limit) (positive offset)
                                  (sort_by (row_before d le view (list_order tableName sortBy)) rs))
                 (spec_rows view tenant tableName params rows)
          else None)"
  unfolding select_rows_def CreateListEntitiesStatement_alt matching_rows_filter[OF assms]
  using questions_where[of tenant tableName params]
  by (cases "limit > 0"; cases "offset > 0"; cases d)
     (simp_all add: filter_statement_parts[OF assms] clause_parts tail_tokens_keyword parse_tail_tokens Let_def
        int_arg_def tail_args_def ph_def nth_append positive_def split: option.splits)

end
