(* ===== verification/Listing.thy ===== *)
theory Listing
  imports Sql_Meaning Storage_Jobs
begin

text \<open>
  Lists of jobs, collections and providers (storage/sql/list.go, getTotalCount of
  storage/sql/sql.go). The database is described by a record: the order of its collation, what its
  JSON functions find at a path of a text that does not decode into the Go type, and the error for
  a statement it refuses. Every theorem holds for every such record.
\<close>

record sql_engine =
  eng_le :: "string \<Rightarrow> string \<Rightarrow> bool"
  eng_doc :: "string \<Rightarrow> string \<Rightarrow> json_field"
  eng_refused :: go_error

section \<open>Rows as the conditions see them\<close>

definition omit_text :: "string \<Rightarrow> json_field" where
  "omit_text s = (if s = '''' then Absent else Text s)"

definition omit_texts :: "string list \<Rightarrow> json_field" where
  "omit_texts ss = (if ss = [] then Absent else Texts ss)"

definition provider_field :: "ProviderConfig \<Rightarrow> string \<Rightarrow> json_field" where
  "provider_field p path =
     (if path = ''name'' then Text (pv_Name p) else if path = ''tags'' then omit_texts (pv_Tags p) else Absent)"

definition collection_field :: "collectionStoredEntity \<Rightarrow> string \<Rightarrow> json_field" where
  "collection_field e path =
     (let c = ce_Config e
      in if path = ''name'' then Text (cc_Name c)
         else if path = ''category'' then omit_text (cc_Category c)
         else if path = ''tags'' then omit_texts (cc_Tags c)
         else if path = ''domains'' then omit_texts (cc_Domains c)
         else if path = ''tasks'' then omit_texts (cc_Tasks c)
         else if path = ''modalities'' then omit_texts (cc_Modalities c)
         else if path = ''industries'' then omit_texts (cc_Industries c)
         else if path = ''evaluation_targets'' then omit_texts (cc_EvaluationTargets c)
         else if path = ''curation_order'' then (if cc_CurationOrder c = 0 then Absent else Number (cc_CurationOrder c))
         else Absent)"

definition evaluation_field :: "EvaluationJobEntity \<Rightarrow> string \<Rightarrow> json_field" where
  "evaluation_field e path =
     (case en_Config e of
        None \<Rightarrow> Absent
      | Some c \<Rightarrow>
          if path = ''config.name'' then Text (ec_Name c)
          else if path = ''config.tags'' then omit_texts (ec_Tags c)
          else if path = ''config.collection.id''
          then (case ec_Collection c of None \<Rightarrow> Absent | Some ref \<Rightarrow> Text (cr_ID ref))
          else Absent)"

definition document_field :: "sql_engine \<Rightarrow> ('e \<Rightarrow> string \<Rightarrow> json_field) \<Rightarrow> 'e json_column \<Rightarrow> string \<Rightarrow> json_field" where
  "document_field eng fld d path = (case d of Json e \<Rightarrow> fld e path | NotJson t \<Rightarrow> eng_doc eng t path)"

definition row_column :: "('e, 'm) row_scheme \<Rightarrow> string \<Rightarrow> string option" where
  "row_column r name =
     (if name = ''id'' then Some (rw_id r) else if name = ''tenant_id'' then Some (rw_tenant_id r)
      else if name = ''owner'' then Some (rw_owner r) else None)"

definition evaluation_column :: "evaluation_row \<Rightarrow> string \<Rightarrow> string option" where
  "evaluation_column r name =
     (if name = ''status'' then Some (rw_status r) else if name = ''experiment_id'' then Some (rw_experiment_id r)
      else if name = ''workload_type'' then Some (rw_workload_type r) else row_column r name)"

definition provider_view :: "sql_engine \<Rightarrow> provider_row \<Rightarrow> row_view" where
  "provider_view eng r = \<lparr>vw_column = row_column r, vw_doc = document_field eng provider_field (rw_entity r)\<rparr>"

definition collection_view :: "sql_engine \<Rightarrow> collection_row \<Rightarrow> row_view" where
  "collection_view eng r = \<lparr>vw_column = row_column r, vw_doc = document_field eng collection_field (rw_entity r)\<rparr>"

definition evaluation_view :: "sql_engine \<Rightarrow> evaluation_row \<Rightarrow> row_view" where
  "evaluation_view eng r = \<lparr>vw_column = evaluation_column r, vw_doc = document_field eng evaluation_field (rw_entity r)\<rparr>"

section \<open>Lists\<close>

text \<open>A call returns a value, panics, or (for a loop that runs out of fuel) has not come to an end.\<close>

datatype 'a outcome = Value 'a | Panic | Unfinished

definition obind :: "'a outcome stm \<Rightarrow> ('a \<Rightarrow> 'b outcome stm) \<Rightarrow> 'b outcome stm" where
  "obind m f = sbind m (\<lambda>x. case x of Value v \<Rightarrow> f v | Panic \<Rightarrow> sreturn Panic | Unfinished \<Rightarrow> sreturn Unfinished)"

record 't QueryResults =
  qr_Items :: "'t list"
  qr_TotalCount :: int

definition getTypeFromTableName :: "string \<Rightarrow> string" where
  "getTypeFromTableName tableName =
     (if tableName = TableEvaluations then ''evaluation jobs''
      else if tableName = TableProviders then ''providers''
      else if tableName = TableCollections then ''collections'' else ''unknown'')"

definition query_failed :: "string \<Rightarrow> go_error \<Rightarrow> go_error" where
  "query_failed typeName e = NewServiceError QueryFailed [''Type'', typeName, ''Error'', err_text e]"

text \<open>
  scanResource per table: the error of the decoder is returned as it is. For a job whose stored
  document has no config the resource is nil and its dereference panics.
\<close>

definition scan_evaluation :: "evaluation_row \<Rightarrow> (go_error + EvaluationJobResource) outcome" where
  "scan_evaluation r =
     (case rw_entity r of
        NotJson t \<Rightarrow> Value (Inl (PlainErr t))
      | Json e \<Rightarrow>
          (case constructEvaluationResource (row_resource r) (rw_experiment_id r) (rw_status r) e of
             Inl err \<Rightarrow> Panic
           | Inr job \<Rightarrow> Value (Inr job)))"

definition scan_provider :: "provider_row \<Rightarrow> (go_error + ProviderResource) outcome" where
  "scan_provider r =
     (case rw_entity r of
        NotJson t \<Rightarrow> Value (Inl (PlainErr t))
      | Json e \<Rightarrow> Value (Inr \<lparr>pr_Resource = row_resource r, pr_Config = e\<rparr>))"

definition scan_collection :: "collection_row \<Rightarrow> (go_error + CollectionResource) outcome" where
  "scan_collection r =
     (case rw_entity r of
        NotJson t \<Rightarrow> Value (Inl (PlainErr t))
      | Json e \<Rightarrow> Value (Inr (collection_resource (row_resource r) e)))"

fun scan_rows :: "('r \<Rightarrow> (go_error + 't) outcome) \<Rightarrow> 'r list \<Rightarrow> (go_error + 't list) outcome" where
  "scan_rows scan [] = Value (Inr [])"
| "scan_rows scan (r # rs) =
     (case scan r of
        Value (Inr x) \<Rightarrow>
          (case scan_rows scan rs of
             Value (Inr xs) \<Rightarrow> Value (Inr (x # xs))
           | other \<Rightarrow> other)
      | Value (Inl e) \<Rightarrow> Value (Inl e)
      | Panic \<Rightarrow> Panic
      | Unfinished \<Rightarrow> Unfinished)"

definition collect_rows :: "('r \<Rightarrow> (go_error + 't) outcome) \<Rightarrow> int \<Rightarrow> 'r list \<Rightarrow> 't QueryResults outcome stm" where
  "collect_rows scan totalCount found =
     (case scan_rows scan found of
        Value (Inr items) \<Rightarrow> sreturn (Value \<lparr>qr_Items = items, qr_TotalCount = totalCount\<rparr>)
      | Value (Inl e) \<Rightarrow> sthrow e
      | Panic \<Rightarrow> sreturn Panic
      | Unfinished \<Rightarrow> sreturn Unfinished)"

definition answer :: "sql_engine \<Rightarrow> 'a option \<Rightarrow> go_error + 'a" where
  "answer eng x = (case x of None \<Rightarrow> Inl (eng_refused eng) | Some y \<Rightarrow> Inr y)"

text \<open>A query whose statement the database may refuse.\<close>

definition db_ask :: "env \<Rightarrow> sql_engine \<Rightarrow> (database \<Rightarrow> 'a option) \<Rightarrow> 'a stm" where
  "db_ask env eng q = sbind (db_query env q) (\<lambda>x. slift (answer eng x))"

definition getTotalCount ::
  "sqlStorage \<Rightarrow> sql_engine \<Rightarrow> (database \<Rightarrow> ('e, 'm) row_scheme list) \<Rightarrow> (('e, 'm) row_scheme \<Rightarrow> row_view) \<Rightarrow>
   Tenant \<Rightarrow> string \<Rightarrow> query_arg gomap \<Rightarrow> string \<Rightarrow> int stm" where
  "getTotalCount s eng rows view tenant tableName params typeName =
     smap_err (query_failed typeName)
       (db_ask (st_env s) eng (\<lambda>db.
          count_rows (st_dialect s) view (CreateCountEntitiesStatement (st_dialect s) tenant tableName params) (rows db)))"

text \<open>The parameter scope becomes a condition on the owner; system resources are shared by all tenants.\<close>

definition resolve_scope :: "Tenant \<Rightarrow> query_arg gomap \<Rightarrow> Tenant \<times> query_arg gomap" where
  "resolve_scope tenant params =
     (case gomap_get params ''scope'' of
        None \<Rightarrow> (tenant, params)
      | Some scope \<Rightarrow>
          if scope = QStr ScopeSystem
          then ('''', gomap_delete ''scope'' (gomap_put ''owner'' (QStr OwnerSystem) params))
          else if scope = QStr ScopeTenant
          then (tenant, gomap_delete ''scope'' (gomap_put ''owner'' (QStr (''!'' @ OwnerSystem)) params))
          else (tenant, gomap_delete ''scope'' params))"

definition listEntities ::
  "(('e, 'm) row_scheme \<Rightarrow> (go_error + 't) outcome) \<Rightarrow> (database \<Rightarrow> ('e, 'm) row_scheme list) \<Rightarrow>
   (sql_engine \<Rightarrow> ('e, 'm) row_scheme \<Rightarrow> row_view) \<Rightarrow> string \<Rightarrow>
   sqlStorage \<Rightarrow> sql_engine \<Rightarrow> QueryFilter \<Rightarrow> 't QueryResults outcome stm" where
  "listEntities scan rows view tableName s eng filter0 =
     (let flt = ExtractQueryParams filter0;
          (tenant, params) = resolve_scope (st_tenant s) (qf_Params flt);
          typeName = getTypeFromTableName tableName
      in sbind (sguard (ValidateFilter (map fst params) (GetAllowedFilterColumns tableName))) (\<lambda>_.
         sbind (getTotalCount s eng rows (view eng) tenant tableName params typeName) (\<lambda>totalCount.
         sbind (smap_err (query_failed typeName)
                  (db_ask (st_env s) eng (\<lambda>db.
                     select_rows (st_dialect s) (eng_le eng) (view eng)
                       (CreateListEntitiesStatement (st_dialect s) tenant tableName (qf_Limit flt) (qf_Offset flt) params (qf_SortBy flt))
                       (rows db)))) (\<lambda>found.
           collect_rows scan totalCount found))))"

definition GetEvaluationJobs :: "sqlStorage \<Rightarrow> sql_engine \<Rightarrow> QueryFilter \<Rightarrow> EvaluationJobResource QueryResults outcome stm" where
  "GetEvaluationJobs = listEntities scan_evaluation evaluations evaluation_view TableEvaluations"

definition getCollectionsTransactional :: "sqlStorage \<Rightarrow> sql_engine \<Rightarrow> QueryFilter \<Rightarrow> CollectionResource QueryResults outcome stm" where
  "getCollectionsTransactional = listEntities scan_collection collections collection_view TableCollections"

definition GetCollections :: "sqlStorage \<Rightarrow> sql_engine \<Rightarrow> QueryFilter \<Rightarrow> CollectionResource QueryResults outcome stm" where
  "GetCollections s eng filter0 = getCollectionsTransactional s eng filter0"

definition getProvidersTransactional :: "sqlStorage \<Rightarrow> sql_engine \<Rightarrow> QueryFilter \<Rightarrow> ProviderResource QueryResults outcome stm" where
  "getProvidersTransactional = listEntities scan_provider providers provider_view TableProviders"

definition GetProviders :: "sqlStorage \<Rightarrow> sql_engine \<Rightarrow> QueryFilter \<Rightarrow> ProviderResource QueryResults outcome stm" where
  "GetProviders s eng filter0 = getProvidersTransactional s eng filter0"

end
