(* ===== verification/System_Resources.thy ===== *)
theory System_Resources
  imports Listing
begin

text \<open>
  Reloading the system-owned providers and collections (storage/sql/system_resources.go). A Go map
  of resources is iterated in the order of the list that stands for it. The text that json.Marshal
  writes for a configuration is the argument \<open>enc\<close>, so the theorems hold for every encoding.
\<close>

definition systemResourceListPageSize :: int where
  "systemResourceListPageSize = 200"

section \<open>Listing the stored system resources\<close>

definition system_page :: "int \<Rightarrow> QueryFilter" where
  "system_page offset =
     \<lparr>qf_Limit = systemResourceListPageSize, qf_Offset = offset, qf_Params = [(''scope'', QStr ScopeSystem)], qf_SortBy = ''''\<rparr>"

text \<open>
  The loop over the pages, with fuel for the number of pages it reads; it ends at the first page that
  is not full.
\<close>

fun list_all_pages ::
  "(QueryFilter \<Rightarrow> 't QueryResults outcome stm) \<Rightarrow> ('t \<Rightarrow> string) \<Rightarrow> nat \<Rightarrow> int \<Rightarrow> 't gomap \<Rightarrow> 't gomap outcome stm" where
  "list_all_pages get key 0 offset existing = sreturn Unfinished"
| "list_all_pages get key (Suc fuel) offset existing =
     obind (get (system_page offset)) (\<lambda>page.
       (let existing' = fold (\<lambda>x m. gomap_put (key x) x m) (qr_Items page) existing
        in if int (length (qr_Items page)) < systemResourceListPageSize then sreturn (Value existing')
           else list_all_pages get key fuel (offset + systemResourceListPageSize) existing'))"

definition listAllSystemCollections :: "sqlStorage \<Rightarrow> sql_engine \<Rightarrow> nat \<Rightarrow> CollectionResource gomap outcome stm" where
  "listAllSystemCollections s eng fuel =
     list_all_pages (getCollectionsTransactional s eng) (\<lambda>c. r_ID (co_Resource c)) fuel 0 []"

definition listAllSystemProviders :: "sqlStorage \<Rightarrow> sql_engine \<Rightarrow> nat \<Rightarrow> ProviderResource gomap outcome stm" where
  "listAllSystemProviders s eng fuel =
     list_all_pages (getProvidersTransactional s eng) (\<lambda>p. r_ID (pr_Resource p)) fuel 0 []"

section \<open>Replacing them\<close>

definition systemProviderConfigEqual :: "(ProviderConfig \<Rightarrow> string) \<Rightarrow> ProviderResource \<Rightarrow> ProviderResource \<Rightarrow> bool" where
  "systemProviderConfigEqual enc existing nxt \<longleftrightarrow>
     provider_config_ok (pr_Config existing) \<and> provider_config_ok (pr_Config nxt) \<and>
     enc (pr_Config existing) = enc (pr_Config nxt)"

definition systemCollectionConfigEqual :: "(CollectionConfig \<Rightarrow> string) \<Rightarrow> CollectionResource \<Rightarrow> CollectionResource \<Rightarrow> bool" where
  "systemCollectionConfigEqual enc existing nxt \<longleftrightarrow>
     collection_config_ok (co_Config existing) \<and> collection_config_ok (co_Config nxt) \<and>
     enc (co_Config existing) = enc (co_Config nxt)"

text \<open>
  The resource data of a definition that is loaded: owner and tenant are set, and the times are those
  of the stored resource where there is one.
\<close>

definition system_resource :: "time \<Rightarrow> (Resource \<times> bool) option \<Rightarrow> Resource \<Rightarrow> Resource" where
  "system_resource now old r =
     (let r0 = r\<lparr>r_Tenant := '''', r_Owner := ''system''\<rparr>;
          r1 = (case old of
                  None \<Rightarrow> r0
                | Some (o1, same) \<Rightarrow>
                    r0\<lparr>r_CreatedAt := r_CreatedAt o1, r_UpdatedAt := (if same then r_UpdatedAt o1 else now)\<rparr>);
          r2 = (if r_CreatedAt r1 = 0 then r1\<lparr>r_CreatedAt := now\<rparr> else r1)
      in if r_UpdatedAt r2 = 0 then r2\<lparr>r_UpdatedAt := r_CreatedAt r2\<rparr> else r2)"

definition load_collection ::
  "sqlStorage \<Rightarrow> (CollectionConfig \<Rightarrow> string) \<Rightarrow> CollectionResource gomap \<Rightarrow> time \<Rightarrow> CollectionResource \<Rightarrow> unit stm" where
  "load_collection s enc existing now c =
     (let old = map_option (\<lambda>e. (co_Resource e, systemCollectionConfigEqual enc e c)) (gomap_get existing (r_ID (co_Resource c)))
      in smap_err WithRollback (createCollectionTxn s (c\<lparr>co_Resource := system_resource now old (co_Resource c)\<rparr>)))"

definition load_provider ::
  "sqlStorage \<Rightarrow> (ProviderConfig \<Rightarrow> string) \<Rightarrow> ProviderResource gomap \<Rightarrow> time \<Rightarrow> ProviderResource \<Rightarrow> unit stm" where
  "load_provider s enc existing now p =
     (let old = map_option (\<lambda>e. (pr_Resource e, systemProviderConfigEqual enc e p)) (gomap_get existing (r_ID (pr_Resource p)))
      in smap_err WithRollback (createProviderTxn s (p\<lparr>pr_Resource := system_resource now old (pr_Resource p)\<rparr>)))"

fun for_each :: "('a \<Rightarrow> unit stm) \<Rightarrow> 'a list \<Rightarrow> unit stm" where
  "for_each f [] = sreturn ()"
| "for_each f (x # xs) = sbind (f x) (\<lambda>_. for_each f xs)"

definition load_collections ::
  "sqlStorage \<Rightarrow> sql_engine \<Rightarrow> nat \<Rightarrow> (CollectionConfig \<Rightarrow> string) \<Rightarrow> CollectionResource gomap \<Rightarrow> unit outcome stm" where
  "load_collections s eng fuel enc systemCollections =
     obind (smap_err WithRollback (listAllSystemCollections s eng fuel)) (\<lambda>existing.
     sbind (smap_err WithRollback (exec_collections (st_env s) (\<lambda>now. CreateDeleteSystemEntitiesStatement))) (\<lambda>_.
     sbind (time_Now (st_env s)) (\<lambda>now.
     sbind (for_each (load_collection s enc existing now) (map snd systemCollections)) (\<lambda>_. sreturn (Value ())))))"

definition load_providers ::
  "sqlStorage \<Rightarrow> sql_engine \<Rightarrow> nat \<Rightarrow> (ProviderConfig \<Rightarrow> string) \<Rightarrow> ProviderResource gomap \<Rightarrow> unit outcome stm" where
  "load_providers s eng fuel enc systemProviders =
     obind (smap_err WithRollback (listAllSystemProviders s eng fuel)) (\<lambda>existing.
     sbind (smap_err WithRollback (exec_providers (st_env s) (\<lambda>now. CreateDeleteSystemEntitiesStatement))) (\<lambda>_.
     sbind (time_Now (st_env s)) (\<lambda>now.
     sbind (for_each (load_provider s enc existing now) (map snd systemProviders)) (\<lambda>_. sreturn (Value ())))))"

definition LoadSystemResources ::
  "sqlStorage \<Rightarrow> sql_engine \<Rightarrow> nat \<Rightarrow> (CollectionConfig \<Rightarrow> string) \<Rightarrow> (ProviderConfig \<Rightarrow> string) \<Rightarrow>
   CollectionResource gomap \<Rightarrow> ProviderResource gomap \<Rightarrow> unit outcome stm" where
  "LoadSystemResources s eng fuel encC encP systemCollections systemProviders =
     withTransaction (st_env s) ''load-system-resources'' ''system''
       (obind (load_collections s eng fuel encC systemCollections) (\<lambda>_.
          load_providers s eng fuel encP systemProviders))"

end
