(* ===== verification/Entity_Lists.thy ===== *)
theory Entity_Lists
  imports System_Resources Transactions
begin

text \<open>
  The contract that the three tables share as far as lists are concerned, stated as a locale and
  interpreted for jobs, collections and providers: what a list contains, how pages and the total
  count fit together, and that listing changes nothing.
\<close>

section \<open>Sorting and pages\<close>

lemma set_insert_by [simp]: "set (insert_by b x ys) = insert x (set ys)"
  by (induction ys) auto

lemma set_sort_by [simp]: "set (sort_by b xs) = set xs"
  by (induction xs) (simp_all add: sort_by_def)

lemma length_insert_by [simp]: "length (insert_by b x ys) = Suc (length ys)"
  by (induction ys) auto

lemma length_sort_by [simp]: "length (sort_by b xs) = length xs"
  by (induction xs) (simp_all add: sort_by_def)

lemma distinct_insert_by: "distinct (map f (insert_by b x ys)) \<longleftrightarrow> f x \<notin> f ` set ys \<and> distinct (map f ys)"
  by (induction ys) auto

lemma distinct_sort_by [simp]: "distinct (map f (sort_by b xs)) \<longleftrightarrow> distinct (map f xs)"
proof (induction xs)
  case (Cons x xs)
  have "sort_by b (x # xs) = insert_by b x (sort_by b xs)" by (simp add: sort_by_def)
  with Cons show ?case by (simp add: distinct_insert_by)
qed (simp add: sort_by_def)

lemma page_of_pos [simp]:
  "0 < limit \<Longrightarrow> 0 \<le> offset \<Longrightarrow>
   page_of (positive limit) (positive offset) rows = take (nat limit) (drop (nat offset) rows)"
  by (simp add: page_of_def positive_def)

lemma set_page_of: "set (page_of l f rows) \<subseteq> set rows"
  by (auto simp: page_of_def split: option.splits dest: in_set_takeD in_set_dropD)

lemma scan_rows_set:
  "scan_rows scan rs = Value (Inr xs) \<Longrightarrow> x \<in> set xs \<Longrightarrow> \<exists>r \<in> set rs. scan r = Value (Inr x)"
  by (induction rs arbitrary: xs) (auto split: outcome.splits sum.splits)

lemma scan_rows_map:
  "(\<And>r. r \<in> set rs \<Longrightarrow> scan r = Value (Inr (f r))) \<Longrightarrow> scan_rows scan rs = Value (Inr (map f rs))"
  by (induction rs) auto

lemma scan_rows_length: "scan_rows scan rs = Value (Inr xs) \<Longrightarrow> length xs = length rs"
  by (induction rs arbitrary: xs) (auto split: outcome.splits sum.splits)

section \<open>The parameter scope\<close>

lemma ExtractQueryParams_wf: "gomap_wf (qf_Params f) \<Longrightarrow> gomap_wf (qf_Params (ExtractQueryParams f))"
  by (simp add: ExtractQueryParams_def gomap_wf_def distinct_map_filter)

lemma ExtractQueryParams_simps [simp]:
  "qf_Limit (ExtractQueryParams f) = qf_Limit f" "qf_Offset (ExtractQueryParams f) = qf_Offset f"
  "qf_SortBy (ExtractQueryParams f) = qf_SortBy f"
  by (simp_all add: ExtractQueryParams_def)

lemma resolve_scope_wf: "gomap_wf params \<Longrightarrow> gomap_wf (snd (resolve_scope tenant params))"
  by (auto simp: resolve_scope_def split: option.splits)

lemma resolve_scope_tenant:
  "resolve_scope tenant params = (tenant', params') \<Longrightarrow>
   tenant' = tenant \<or> tenant' = '''' \<and> gomap_get params' ''owner'' = Some (QStr OwnerSystem)"
  by (auto simp: resolve_scope_def split: option.splits if_splits)

lemma ValidateFilter_None: "ValidateFilter keys allowed = None \<longleftrightarrow> set keys \<subseteq> set allowed"
  by (auto simp: ValidateFilter_def efirst_None_iff split: if_splits)

lemma key_spec_owner_system:
  "vw_column v ''owner'' = Some own \<Longrightarrow> key_spec v tableName ''owner'' (QStr OwnerSystem) = Some (own = OwnerSystem)"
  by (simp add: key_spec_def GetValues_def OwnerSystem_def value_spec_def array_field_def column_spec_def HasPrefix_def)

lemma key_spec_in_filter:
  assumes "filter_spec v tenant tableName params = Some True" and "gomap_get params key = Some z"
  shows "key_spec v tableName key z = Some True"
proof -
  have "(key, z) \<in> set params" using assms(2) by (simp add: gomap_get_def map_of_SomeD)
  then have "key_spec v tableName key z \<in> set (map (\<lambda>e. key_spec v tableName (fst e) (snd e)) params)" by force
  with assms(1) show ?thesis unfolding filter_spec_def all_of_True_iff by auto
qed

lemma scope_in_filter:
  assumes "filter_spec v tenant tableName params = Some True" and "\<not> Tenant_IsEmpty tenant"
    and "vw_column v ''tenant_id'' = Some t" and "vw_column v ''owner'' = Some own"
  shows "t = tenant \<or> own = OwnerSystem"
  using assms by (auto simp: filter_spec_def all_of_True_iff scope_spec_def any_of_def split: if_splits)

section \<open>Listing changes nothing\<close>

lemma obind_Inr_iff:
  "obind m f c = (Inr (Value y), c') \<longleftrightarrow> (\<exists>x c1. m c = (Inr (Value x), c1) \<and> f x c1 = (Inr (Value y), c'))"
  by (auto simp: obind_def sbind_def split: prod.splits sum.splits outcome.splits)

lemma keeps_db_ask [simp, intro]: "keeps_db (db_ask env eng q)"
  unfolding db_ask_def by (intro keeps_db_sbind keeps_db_leaf)

lemma keeps_db_obind [intro]: "keeps_db m \<Longrightarrow> (\<And>x. keeps_db (f x)) \<Longrightarrow> keeps_db (obind m f)"
  unfolding obind_def by (rule keeps_db_sbind) (auto split: outcome.splits)

lemma keeps_db_collect [simp, intro]: "keeps_db (collect_rows scan n found)"
  by (auto simp: collect_rows_def split: outcome.splits sum.splits)

lemma collect_rows_Inr:
  "collect_rows scan n found c = (Inr (Value res), c') \<longleftrightarrow>
     scan_rows scan found = Value (Inr (qr_Items res)) \<and> qr_TotalCount res = n \<and> c' = c"
  by (cases res) (auto simp: collect_rows_def split: outcome.splits sum.splits)

lemma collect_rows_outcome:
  "collect_rows scan n found c = (Inr y, c') \<Longrightarrow> scan_rows scan found = Value v \<Longrightarrow> \<exists>w. y = Value w"
  by (auto simp: collect_rows_def split: sum.splits)

lemma keeps_db_listEntities [simp, intro]: "keeps_db (listEntities scan rows view tableName s eng f)"
  unfolding listEntities_def getTotalCount_def Let_def
  by (auto split: prod.splits intro!: keeps_db_sbind keeps_db_smap_err)

lemma db_ask_Inr:
  "db_ask env eng q c = (Inr x, c') \<longleftrightarrow>
     env_fault env (cn_calls c) = None \<and> q (cn_db c) = Some x \<and> c' = c\<lparr>cn_calls := Suc (cn_calls c)\<rparr>"
  by (auto simp: db_ask_def sbind_Inr_iff db_query_Inr answer_def split: option.splits)

section \<open>The contract of a listed table\<close>

text \<open>The number of items on a page, and what a tenant may find there.\<close>

definition page_length :: "int \<Rightarrow> int \<Rightarrow> int \<Rightarrow> int" where
  "page_length limit offset n =
     (let rest = max 0 (n - offset) in if 0 < limit then min limit rest else rest)"

definition listed_ok :: "sqlStorage \<Rightarrow> QueryFilter \<Rightarrow> Resource list \<Rightarrow> int \<Rightarrow> bool" where
  "listed_ok s f rs n \<longleftrightarrow>
     (st_tenant s \<noteq> '''' \<longrightarrow> (\<forall>r \<in> set rs. r_Tenant r = st_tenant s \<or> r_Owner r = OwnerSystem)) \<and>
     int (length rs) = page_length (qf_Limit f) (qf_Offset f) n"

locale entity_list =
  fixes scan :: "('e, 'm) row_scheme \<Rightarrow> (go_error + 't) outcome"
    and rows :: "database \<Rightarrow> ('e, 'm) row_scheme list"
    and view :: "sql_engine \<Rightarrow> ('e, 'm) row_scheme \<Rightarrow> row_view"
    and tableName :: string
    and resource :: "'t \<Rightarrow> Resource"
  assumes scanned: "scan r = Value (Inr x) \<Longrightarrow> resource x = row_resource r"
    and columns: "vw_column (view eng r) ''tenant_id'' = Some (rw_tenant_id r)"
      "vw_column (view eng r) ''owner'' = Some (rw_owner r)"
begin

abbreviation entities :: "sqlStorage \<Rightarrow> sql_engine \<Rightarrow> QueryFilter \<Rightarrow> 't QueryResults outcome stm" where
  "entities \<equiv> listEntities scan rows view tableName"

lemma entities_Value:
  assumes "entities s eng f c = (Inr (Value res), c')" and "gomap_wf (qf_Params f)"
  obtains tenant params matched where
    "resolve_scope (st_tenant s) (qf_Params (ExtractQueryParams f)) = (tenant, params)"
    "allowed_filter tableName params"
    "spec_rows (view eng) tenant tableName params (rows (cn_db c)) = Some matched"
    "page_ok (st_dialect s) (qf_Limit f) (qf_Offset f)"
    "qr_TotalCount res = int (length matched)"
    "scan_rows scan (page_of (positive (qf_Limit f)) (positive (qf_Offset f))
        (sort_by (row_before (st_dialect s) (eng_le eng) (view eng) (list_order tableName (qf_SortBy f))) matched)) = Value (Inr (qr_Items res))"
    "cn_db c' = cn_db c"
proof -
  obtain tenant params where rs: "resolve_scope (st_tenant s) (qf_Params (ExtractQueryParams f)) = (tenant, params)"
    by fastforce
  have "gomap_wf params"
    using resolve_scope_wf[OF ExtractQueryParams_wf[OF assms(2)], of "st_tenant s"] rs by simp
  moreover have "set (map fst params) \<subseteq> set (GetAllowedFilterColumns tableName)"
    using assms(1) rs by (simp add: listEntities_def Let_def sbind_Inr_iff ValidateFilter_None)
  ultimately have al: "allowed_filter tableName params" by (simp add: allowed_filter_def)
  have "cn_db c' = cn_db c" using assms(1) keeps_dbD keeps_db_listEntities by blast
  with assms(1) rs al show thesis
    by (auto simp: listEntities_def Let_def sbind_Inr_iff getTotalCount_def db_ask_Inr count_rows_meaning select_rows_meaning
             collect_rows_Inr intro!: that split: if_splits)
qed

theorem visible:
  assumes "entities s eng f c = (Inr (Value res), c')" and "gomap_wf (qf_Params f)" and "x \<in> set (qr_Items res)"
  shows "st_tenant s = '''' \<or> r_Tenant (resource x) = st_tenant s \<or> r_Owner (resource x) = OwnerSystem"
proof -
  from assms(1,2) obtain tenant params matched where
    rs: "resolve_scope (st_tenant s) (qf_Params (ExtractQueryParams f)) = (tenant, params)"
    and m: "spec_rows (view eng) tenant tableName params (rows (cn_db c)) = Some matched"
    and sc: "scan_rows scan (page_of (positive (qf_Limit f)) (positive (qf_Offset f))
        (sort_by (row_before (st_dialect s) (eng_le eng) (view eng) (list_order tableName (qf_SortBy f))) matched)) = Value (Inr (qr_Items res))"
    by (rule entities_Value)
  from scan_rows_set[OF sc assms(3)] obtain r where r: "r \<in> set matched" "scan r = Value (Inr x)"
    using set_page_of by fastforce
  then have fs: "filter_spec (view eng r) tenant tableName params = Some True"
    using m by (auto simp: spec_rows_def split: if_splits)
  from scanned[OF r(2)] have res: "r_Tenant (resource x) = rw_tenant_id r" "r_Owner (resource x) = rw_owner r"
    by (simp_all add: row_resource_def)
  show ?thesis
  proof (cases "tenant = st_tenant s")
    case True
    then show ?thesis
      using scope_in_filter[OF fs _ columns] res by (auto simp: Tenant_IsEmpty_def)
  next
    case False
    then have "gomap_get params ''owner'' = Some (QStr OwnerSystem)" using resolve_scope_tenant[OF rs] by simp
    then show ?thesis
      using key_spec_in_filter[OF fs] key_spec_owner_system[OF columns(2)] res by fastforce
  qed
qed

theorem list_contract:
  assumes "entities s eng f c = (Inr (Value res), c')" and "gomap_wf (qf_Params f)" and "0 \<le> qf_Offset f"
  shows "listed_ok s f (map resource (qr_Items res)) (qr_TotalCount res) \<and> cn_db c' = cn_db c"
proof -
  obtain matched where m: "qr_TotalCount res = int (length matched)" "cn_db c' = cn_db c"
    "scan_rows scan (page_of (positive (qf_Limit f)) (positive (qf_Offset f))
       (sort_by (row_before (st_dialect s) (eng_le eng) (view eng) (list_order tableName (qf_SortBy f))) matched)) =
     Value (Inr (qr_Items res))"
    by (rule entities_Value[OF assms(1,2)]) blast
  have "int (length (qr_Items res)) = page_length (qf_Limit f) (qf_Offset f) (qr_TotalCount res)"
    using scan_rows_length[OF m(3)] m(1) assms(3)
    by (auto simp: page_length_def page_of_def positive_def Let_def min_def max_def)
  with visible[OF assms(1,2)] m(2) show ?thesis by (auto simp: listed_ok_def)
qed

end

section \<open>All pages of the system resources\<close>

lemma scan_rows_append:
  "scan_rows scan (rs @ qs) =
     (case scan_rows scan rs of
        Value (Inr xs) \<Rightarrow> (case scan_rows scan qs of Value (Inr ys) \<Rightarrow> Value (Inr (xs @ ys)) | other \<Rightarrow> other)
      | other \<Rightarrow> other)"
  by (induction rs) (auto split: outcome.splits sum.splits)

lemma get_put_all:
  "distinct (map key items) \<Longrightarrow>
   gomap_get (fold (\<lambda>x m. gomap_put (key x) x m) items m0) i = Some x \<longleftrightarrow>
   x \<in> set items \<and> key x = i \<or> i \<notin> key ` set items \<and> gomap_get m0 i = Some x"
  by (induction items arbitrary: m0) (auto split: if_splits)

definition system_owned :: "('e, 'm) row_scheme \<Rightarrow> bool" where
  "system_owned r \<longleftrightarrow> rw_owner r = OwnerSystem"

locale system_list = entity_list +
  assumes no_panic: "\<exists>v. scan r = Value v"
    and shared: "tableName \<noteq> TableEvaluations" and by_owner: "''owner'' \<in> set (GetAllowedFilterColumns tableName)"
begin

definition ordered :: "sqlStorage \<Rightarrow> sql_engine \<Rightarrow> conn \<Rightarrow> ('a, 'b) row_scheme list" where
  "ordered s eng c =
     sort_by (row_before (st_dialect s) (eng_le eng) (view eng) (list_order tableName ''''))
       (filter system_owned (rows (cn_db c)))"

lemma set_ordered [simp]: "set (ordered s eng c) = {r \<in> set (rows (cn_db c)). system_owned r}"
  by (auto simp: ordered_def)

lemma length_ordered [simp]: "length (ordered s eng c) = length (filter system_owned (rows (cn_db c)))"
  by (simp add: ordered_def)

lemma distinct_ordered: "distinct (map f (rows (cn_db c))) \<Longrightarrow> distinct (map f (ordered s eng c))"
  by (simp add: ordered_def distinct_map_filter)

lemma ordered_cong: "cn_db c' = cn_db c \<Longrightarrow> ordered s eng c' = ordered s eng c"
  by (simp add: ordered_def)

lemma system_params:
  "resolve_scope tenant (qf_Params (ExtractQueryParams (system_page offset))) = ('''', [(''owner'', QStr OwnerSystem)])"
  by (simp add: resolve_scope_def ExtractQueryParams_def system_page_def ScopeSystem_def gomap_put_def gomap_delete_def)

lemma system_rows: "spec_rows (view eng) '''' tableName [(''owner'', QStr OwnerSystem)] rs = Some (filter system_owned rs)"
proof -
  have "filter_spec (view eng r) '''' tableName [(''owner'', QStr OwnerSystem)] = Some (system_owned r)" for r
    using key_spec_owner_system[OF columns(2), of eng r] shared
    by (simp add: filter_spec_def scope_spec_def Tenant_IsEmpty_def system_owned_def)
  then show ?thesis by (simp add: spec_rows_def)
qed

lemma system_page_simps [simp]:
  "qf_Limit (system_page offset) = systemResourceListPageSize" "qf_Offset (system_page offset) = offset"
  "qf_SortBy (system_page offset) = ''''" "gomap_wf (qf_Params (system_page offset))"
  by (simp_all add: system_page_def)

lemma page_size [simp]: "0 < systemResourceListPageSize" "nat systemResourceListPageSize = 200"
  by (simp_all add: systemResourceListPageSize_def)

lemma system_page_Value:
  assumes "entities s eng (system_page (int n)) c = (Inr (Value res), c')"
  shows "scan_rows scan (take 200 (drop n (ordered s eng c))) = Value (Inr (qr_Items res)) \<and> cn_db c' = cn_db c"
  by (rule entities_Value[OF assms]) (simp_all add: system_params system_rows ordered_def)

lemma pages_Value:
  "list_all_pages (entities s eng) key fuel (int n) ex c = (Inr (Value ex'), c') \<Longrightarrow>
   \<exists>items. scan_rows scan (drop n (ordered s eng c)) = Value (Inr items) \<and>
           ex' = fold (\<lambda>x m. gomap_put (key x) x m) items ex \<and> cn_db c' = cn_db c"
proof (induction fuel arbitrary: n ex c)
  case (Suc fuel)
  from Suc.prems obtain page c1 where p: "entities s eng (system_page (int n)) c = (Inr (Value page), c1)"
    and r: "(if int (length (qr_Items page)) < systemResourceListPageSize
             then sreturn (Value (fold (\<lambda>x m. gomap_put (key x) x m) (qr_Items page) ex))
             else list_all_pages (entities s eng) key fuel (int n + systemResourceListPageSize)
                    (fold (\<lambda>x m. gomap_put (key x) x m) (qr_Items page) ex)) c1 = (Inr (Value ex'), c')"
    by (auto simp: obind_Inr_iff Let_def)
  note sp = system_page_Value[OF p]
  have split: "drop n (ordered s eng c) = take 200 (drop n (ordered s eng c)) @ drop (n + 200) (ordered s eng c)"
    by (metis add.commute append_take_drop_id drop_drop)
  have len: "length (qr_Items page) = length (take 200 (drop n (ordered s eng c)))"
    using scan_rows_length sp by blast
  show ?case
  proof (cases "int (length (qr_Items page)) < systemResourceListPageSize")
    case True
    then have "take 200 (drop n (ordered s eng c)) = drop n (ordered s eng c)"
      using len by (simp add: systemResourceListPageSize_def)
    with sp r True show ?thesis by auto
  next
    case False
    with r have "list_all_pages (entities s eng) key fuel (int (n + 200)) (fold (\<lambda>x m. gomap_put (key x) x m) (qr_Items page) ex) c1 = (Inr (Value ex'), c')"
      by (simp add: systemResourceListPageSize_def)
    from Suc.IH[OF this] obtain items where
      "scan_rows scan (drop (n + 200) (ordered s eng c1)) = Value (Inr items)"
      "ex' = fold (\<lambda>x m. gomap_put (key x) x m) items (fold (\<lambda>x m. gomap_put (key x) x m) (qr_Items page) ex)" "cn_db c' = cn_db c1"
      by blast
    moreover have "ordered s eng c1 = ordered s eng c" by (rule ordered_cong) (use sp in simp)
    ultimately show ?thesis
      using sp by (subst split) (auto simp: scan_rows_append intro!: exI[of _ "qr_Items page @ items"])
  qed
qed simp

theorem all_pages:
  assumes "list_all_pages (entities s eng) (\<lambda>x. r_ID (resource x)) fuel 0 [] c = (Inr (Value ex), c')"
    and "distinct (map rw_id (rows (cn_db c)))"
  shows "cn_db c' = cn_db c"
    and "gomap_get ex i = Some x \<longleftrightarrow> (\<exists>r \<in> set (rows (cn_db c)). system_owned r \<and> rw_id r = i \<and> scan r = Value (Inr x))"
proof -
  let ?S = "ordered s eng c"
  from pages_Value[of s eng _ fuel 0, simplified, OF assms(1)] obtain items where
    sc: "scan_rows scan ?S = Value (Inr items)" and ex: "ex = fold (\<lambda>x m. gomap_put (r_ID (resource x)) x m) items []"
    and db: "cn_db c' = cn_db c" by blast
  show "cn_db c' = cn_db c" by (rule db)
  have key: "scan r = Value (Inr x) \<Longrightarrow> r_ID (resource x) = rw_id r" for r x
    using scanned by (simp add: row_resource_def)
  have ids: "scan_rows scan rs = Value (Inr xs) \<Longrightarrow> map (\<lambda>x. r_ID (resource x)) xs = map rw_id rs" for rs xs
    by (induction rs arbitrary: xs) (auto simp: key split: outcome.splits sum.splits)
  have mem: "scan_rows scan rs = Value (Inr xs) \<Longrightarrow> x \<in> set xs \<longleftrightarrow> (\<exists>r \<in> set rs. scan r = Value (Inr x))" for rs xs
    by (induction rs arbitrary: xs) (auto split: outcome.splits sum.splits)
  have "distinct (map (\<lambda>x. r_ID (resource x)) items)"
    unfolding ids[OF sc] by (rule distinct_ordered) (rule assms(2))
  then have "gomap_get ex i = Some x \<longleftrightarrow> x \<in> set items \<and> r_ID (resource x) = i"
    unfolding ex by (subst get_put_all) auto
  also have "\<dots> \<longleftrightarrow> (\<exists>r \<in> set ?S. scan r = Value (Inr x) \<and> rw_id r = i)"
    unfolding mem[OF sc] by (metis key)
  finally show "gomap_get ex i = Some x \<longleftrightarrow> (\<exists>r \<in> set (rows (cn_db c)). system_owned r \<and> rw_id r = i \<and> scan r = Value (Inr x))"
    by auto
qed

text \<open>Whatever the driver does, the loop reads at most one page more than it needs.\<close>

lemma entities_no_panic: "entities s eng f c = (Inr x, c') \<Longrightarrow> \<exists>v. x = Value v"
proof -
  have "\<exists>v. scan_rows scan rs = Value v" for rs
  proof (induction rs)
    case (Cons r rs)
    then show ?case using no_panic[of r] by (auto split: outcome.splits sum.splits)
  qed simp
  then have "\<exists>v. y = Value v" if "collect_rows scan n found c1 = (Inr y, c2)" for n found c1 y c2
    using that by (metis (no_types) collect_rows_outcome)
  then show "entities s eng f c = (Inr x, c') \<Longrightarrow> \<exists>v. x = Value v"
    by (auto simp: listEntities_def Let_def sbind_Inr_iff split: prod.splits)
qed

lemma entities_calls: "entities s eng f c = (r, c') \<Longrightarrow> cn_calls c' \<le> cn_calls c + 2"
proof -
  have ask: "bounded_calls (Suc 0) (db_ask env eng q)" for env and q :: "database \<Rightarrow> 'x option"
    unfolding db_ask_def using bounded_calls_sbind[of "Suc 0" _ 0] by force
  have err: "bounded_calls n m \<Longrightarrow> bounded_calls n (smap_err g m)" for n g and m :: "'y stm"
    by (auto simp: bounded_calls_def smap_err_def scatch_def sthrow_def split: prod.splits sum.splits) (metis snd_conv)+
  have col: "bounded_calls 0 (collect_rows scan n found)" for n found
    by (auto simp: collect_rows_def split: outcome.splits sum.splits)
  have "bounded_calls (0 + (Suc 0 + (Suc 0 + 0))) (entities s eng f)"
    unfolding listEntities_def getTotalCount_def Let_def
    by (cases "resolve_scope (st_tenant s) (qf_Params (ExtractQueryParams f))")
       (simp only: prod.case, intro bounded_calls_sbind ask err col bounded_calls_leaf)
  then have "cn_calls (snd (entities s eng f c)) \<le> cn_calls c + 2" by (simp add: bounded_calls_def)
  then show "entities s eng f c = (r, c') \<Longrightarrow> cn_calls c' \<le> cn_calls c + 2" by simp
qed

lemma pages_end:
  "(length (filter system_owned (rows (cn_db c))) - n) div 200 < fuel \<Longrightarrow>
   list_all_pages (entities s eng) key fuel (int n) ex c = (r, c') \<Longrightarrow>
   (\<forall>x. r = Inr x \<longrightarrow> (\<exists>v. x = Value v)) \<and>
   cn_calls c' \<le> cn_calls c + 2 * Suc ((length (filter system_owned (rows (cn_db c))) - n) div 200)"
proof (induction fuel arbitrary: n ex c)
  case (Suc fuel)
  let ?m = "length (filter system_owned (rows (cn_db c)))"
  obtain r1 c1 where p: "entities s eng (system_page (int n)) c = (r1, c1)" by fastforce
  note calls = entities_calls[OF p]
  show ?case
  proof (cases r1)
    case (Inl e)
    with p calls Suc.prems(2) show ?thesis by (auto simp: obind_def sbind_def)
  next
    case (Inr x)
    with p entities_no_panic obtain page where x: "r1 = Inr (Value page)" by blast
    note sp = system_page_Value[OF p[unfolded x]]
    then have len: "length (qr_Items page) = min 200 (?m - n)" using scan_rows_length by fastforce
    show ?thesis
    proof (cases "?m - n < 200")
      case True
      with p x len calls Suc.prems(2) show ?thesis
        by (auto simp: obind_def sbind_def sreturn_def Let_def systemResourceListPageSize_def)
    next
      case False
      then have d: "(?m - n) div 200 = Suc ((?m - (n + 200)) div 200)"
        using le_div_geq[of 200 "?m - n"] by (simp add: diff_diff_left)
      have eq: "rows (cn_db c1) = rows (cn_db c)" using sp by simp
      from False p x len Suc.prems(2)
      have "list_all_pages (entities s eng) key fuel (int (n + 200)) (fold (\<lambda>x m. gomap_put (key x) x m) (qr_Items page) ex) c1 = (r, c')"
        by (simp add: obind_def sbind_def Let_def systemResourceListPageSize_def)
      from Suc.IH[OF _ this] Suc.prems(1) d eq calls show ?thesis by simp
    qed
  qed
qed simp

text \<open>Without driver errors, and when every system row decodes, the loop comes to an end.\<close>

lemma system_page_runs:
  assumes "fault_free (st_env s)" and "\<forall>r \<in> set (rows (cn_db c)). system_owned r \<longrightarrow> (\<exists>x. scan r = Value (Inr x))"
  shows "\<exists>res. entities s eng (system_page (int n)) c = (Inr (Value res), c\<lparr>cn_calls := cn_calls c + 2\<rparr>) \<and>
               length (qr_Items res) = min 200 (length (ordered s eng c) - n)"
proof -
  let ?page = "take 200 (drop n (ordered s eng c))"
  have "\<exists>items. scan_rows scan rs = Value (Inr items)" if "set rs \<subseteq> set (ordered s eng c)" for rs
    using that assms(2) by (induction rs) fastforce+
  then obtain items where items: "scan_rows scan ?page = Value (Inr items)"
    by (meson set_drop_subset set_take_subset subset_trans)
  have al: "allowed_filter tableName [(''owner'', QStr OwnerSystem)]"
    using by_owner by (simp add: allowed_filter_def)
  have sel: "select_rows (st_dialect s) (eng_le eng) (view eng)
      (CreateListEntitiesStatement (st_dialect s) '''' tableName systemResourceListPageSize (int n) [(''owner'', QStr OwnerSystem)] '''')
      (rows (cn_db c)) = Some ?page"
    by (simp add: select_rows_meaning[OF al] page_ok_def system_rows ordered_def)
  have "entities s eng (system_page (int n)) c =
      (Inr (Value \<lparr>qr_Items = items, qr_TotalCount = int (length (filter system_owned (rows (cn_db c))))\<rparr>), c\<lparr>cn_calls := cn_calls c + 2\<rparr>)"
    using assms(1) al
    by (auto simp: listEntities_def Let_def system_params sbind_Inr_iff getTotalCount_def db_ask_Inr count_rows_meaning sel
          system_rows collect_rows_Inr items ValidateFilter_None allowed_filter_def fault_free_def)
  then show ?thesis using scan_rows_length[OF items] by simp
qed

lemma pages_run:
  assumes "fault_free (st_env s)" and "\<forall>r \<in> set (rows (cn_db c)). system_owned r \<longrightarrow> (\<exists>x. scan r = Value (Inr x))"
  defines "m \<equiv> length (filter system_owned (rows (cn_db c)))"
  shows "(m - n) div 200 < fuel \<Longrightarrow>
         \<exists>ex'. list_all_pages (entities s eng) key fuel (int n) ex c =
                 (Inr (Value ex'), c\<lparr>cn_calls := cn_calls c + 2 * Suc ((m - n) div 200)\<rparr>)"
  unfolding m_def using assms(2)
proof (induction fuel arbitrary: n ex c)
  case (Suc fuel)
  let ?m = "length (filter system_owned (rows (cn_db c)))" and ?c = "c\<lparr>cn_calls := cn_calls c + 2\<rparr>"
  from system_page_runs[OF assms(1) Suc.prems(2), of eng n] obtain page where
    p: "entities s eng (system_page (int n)) c = (Inr (Value page), ?c)" "length (qr_Items page) = min 200 (?m - n)" by auto
  show ?case
  proof (cases "?m - n < 200")
    case True
    with p show ?thesis by (auto simp: obind_def sbind_def sreturn_def Let_def systemResourceListPageSize_def)
  next
    case False
    then have d: "(?m - n) div 200 = Suc ((?m - (n + 200)) div 200)"
      using le_div_geq[of 200 "?m - n"] by (simp add: diff_diff_left)
    with Suc.prems(1) have "(?m - (n + 200)) div 200 < fuel" by simp
    with Suc.IH[of ?c "n + 200" "fold (\<lambda>x m. gomap_put (key x) x m) (qr_Items page) ex"] Suc.prems(2)
    obtain ex' where "list_all_pages (entities s eng) key fuel (int (n + 200)) (fold (\<lambda>x m. gomap_put (key x) x m) (qr_Items page) ex) ?c =
        (Inr (Value ex'), ?c\<lparr>cn_calls := cn_calls ?c + 2 * Suc ((?m - (n + 200)) div 200)\<rparr>)" by auto
    with p False d show ?thesis by (auto simp: obind_def sbind_def Let_def systemResourceListPageSize_def)
  qed
qed simp

end

interpretation jobs: entity_list scan_evaluation evaluations evaluation_view TableEvaluations
  "\<lambda>j. ej_Resource j"
  by unfold_locales
     (auto simp: scan_evaluation_def constructEvaluationResource_def evaluation_view_def evaluation_column_def row_column_def
           Let_def split: json_column.splits option.splits sum.splits)

interpretation colls: system_list scan_collection collections collection_view TableCollections
  "\<lambda>x. co_Resource x"
  by unfold_locales
     (auto simp: scan_collection_def collection_resource_def collection_view_def row_column_def
           GetAllowedFilterColumns_def TableEvaluations_def TableCollections_def TableProviders_def split: json_column.splits)

interpretation provs: system_list scan_provider providers provider_view TableProviders
  "\<lambda>x. pr_Resource x"
  by unfold_locales
     (auto simp: scan_provider_def provider_view_def row_column_def
           GetAllowedFilterColumns_def TableEvaluations_def TableProviders_def split: json_column.splits)

end
