(* ===== verification/System_Reload.thy ===== *)
theory System_Reload
  imports Entity_Lists Catalog_Invariants
begin

text \<open>
  What a reload of the system resources leaves in the tables: the definitions it was given, with the
  times of the rows they replace, and every row of a tenant as it was.
\<close>

definition clock_set :: "env \<Rightarrow> bool" where
  "clock_set env \<longleftrightarrow> (\<forall>n. env_now env n \<noteq> 0)"

text \<open>The stored system resource with an identifier.\<close>

definition stored_system ::
  "(('e, 'm) row_scheme \<Rightarrow> (go_error + 't) outcome) \<Rightarrow> ('e, 'm) row_scheme list \<Rightarrow> string \<Rightarrow> 't option" where
  "stored_system scan rows i =
     (case find (\<lambda>r. system_owned r \<and> rw_id r = i) rows of
        None \<Rightarrow> None
      | Some r \<Rightarrow> (case scan r of Value (Inr x) \<Rightarrow> Some x | _ \<Rightarrow> None))"

lemma stored_system_iff:
  assumes "distinct (map rw_id rows)"
  shows "stored_system scan rows i = Some x \<longleftrightarrow>
         (\<exists>r \<in> set rows. system_owned r \<and> rw_id r = i \<and> scan r = Value (Inr x))"
proof
  assume "stored_system scan rows i = Some x"
  then show "\<exists>r \<in> set rows. system_owned r \<and> rw_id r = i \<and> scan r = Value (Inr x)"
    by (auto simp: stored_system_def find_Some_iff split: option.splits outcome.splits sum.splits intro!: bexI[OF _ nth_mem])
next
  assume "\<exists>r \<in> set rows. system_owned r \<and> rw_id r = i \<and> scan r = Value (Inr x)"
  then obtain r where r: "r \<in> set rows" "system_owned r" "rw_id r = i" "scan r = Value (Inr x)" by blast
  have "find (\<lambda>r. system_owned r \<and> rw_id r = i) rows = Some r"
    using assms r by (induction rows) (auto simp: rev_image_eqI)
  with r(4) show "stored_system scan rows i = Some x" by (simp add: stored_system_def)
qed

lemma existing_is_stored:
  assumes "\<And>i x. gomap_get ex i = Some x \<longleftrightarrow> (\<exists>r \<in> set rows. system_owned r \<and> rw_id r = i \<and> scan r = Value (Inr x))"
    and "distinct (map rw_id rows)"
  shows "gomap_get ex i = stored_system scan rows i"
  using assms(1) stored_system_iff[OF assms(2), of scan] by (metis option.exhaust)

section \<open>One definition\<close>

lemma system_resource_simps [simp]:
  "r_ID (system_resource now old r) = r_ID r" "r_Tenant (system_resource now old r) = ''''"
  "r_Owner (system_resource now old r) = OwnerSystem"
  by (auto simp: system_resource_def OwnerSystem_def Let_def split: option.splits prod.splits)

lemma system_resource_stamped:
  "now \<noteq> 0 \<Longrightarrow> stamp_times env (system_resource now old r) = sreturn (system_resource now old r)"
  by (auto simp: stamp_times_def system_resource_def Let_def sbind_def sreturn_def fun_eq_iff split: option.splits prod.splits)

definition system_collection_row ::
  "(CollectionConfig \<Rightarrow> string) \<Rightarrow> collection_row list \<Rightarrow> time \<Rightarrow> CollectionResource \<Rightarrow> collection_row" where
  "system_collection_row enc rows now c =
     row_of (system_resource now
              (map_option (\<lambda>e. (co_Resource e, systemCollectionConfigEqual enc e c))
                 (stored_system scan_collection rows (r_ID (co_Resource c)))) (co_Resource c))
       (Json (collection_entity c))"

definition system_provider_row ::
  "(ProviderConfig \<Rightarrow> string) \<Rightarrow> provider_row list \<Rightarrow> time \<Rightarrow> ProviderResource \<Rightarrow> provider_row" where
  "system_provider_row enc rows now p =
     row_of (system_resource now
              (map_option (\<lambda>e. (pr_Resource e, systemProviderConfigEqual enc e p))
                 (stored_system scan_provider rows (r_ID (pr_Resource p)))) (pr_Resource p))
       (Json (pr_Config p))"

lemma load_collection_Inr:
  assumes "load_collection s enc ex now x c = (Inr u, c')" and "now \<noteq> 0"
    and "\<And>i. gomap_get ex i = stored_system scan_collection rows i"
  shows "cn_db c' = (cn_db c)\<lparr>collections := collections (cn_db c) @ [system_collection_row enc rows now x]\<rparr>"
  using assms
  by (auto simp: load_collection_def Let_def sbind_Inr_iff createCollectionTxn_def system_resource_stamped createCollectionEntity_def json_Marshal_def
        insert_collection_def insert_row_def system_collection_row_def collection_entity_def
        dest!: db_call_Inr split: if_splits)

lemma load_provider_Inr:
  assumes "load_provider s enc ex now x c = (Inr u, c')" and "now \<noteq> 0"
    and "\<And>i. gomap_get ex i = stored_system scan_provider rows i"
  shows "cn_db c' = (cn_db c)\<lparr>providers := providers (cn_db c) @ [system_provider_row enc rows now x]\<rparr>"
  using assms
  by (auto simp: load_provider_def Let_def sbind_Inr_iff createProviderTxn_def system_resource_stamped createProviderEntity_def json_Marshal_def
        insert_provider_def insert_row_def system_provider_row_def dest!: db_call_Inr split: if_splits)

section \<open>All definitions\<close>

lemma for_each_load_collection:
  assumes "for_each (load_collection s enc ex now) xs c = (Inr u, c')" and "now \<noteq> 0"
    and "\<And>i. gomap_get ex i = stored_system scan_collection rows i"
  shows "cn_db c' = (cn_db c)\<lparr>collections := collections (cn_db c) @ map (system_collection_row enc rows now) xs\<rparr>"
  using assms(1)
proof (induction xs arbitrary: c)
  case (Cons x xs)
  then obtain u1 c1 where "load_collection s enc ex now x c = (Inr u1, c1)"
    and r: "for_each (load_collection s enc ex now) xs c1 = (Inr u, c')" by (auto simp: sbind_Inr_iff)
  with load_collection_Inr[OF _ assms(2,3)] Cons.IH[OF r] show ?case by auto
qed simp

lemma for_each_load_provider:
  assumes "for_each (load_provider s enc ex now) xs c = (Inr u, c')" and "now \<noteq> 0"
    and "\<And>i. gomap_get ex i = stored_system scan_provider rows i"
  shows "cn_db c' = (cn_db c)\<lparr>providers := providers (cn_db c) @ map (system_provider_row enc rows now) xs\<rparr>"
  using assms(1)
proof (induction xs arbitrary: c)
  case (Cons x xs)
  then obtain u1 c1 where "load_provider s enc ex now x c = (Inr u1, c1)"
    and r: "for_each (load_provider s enc ex now) xs c1 = (Inr u, c')" by (auto simp: sbind_Inr_iff)
  with load_provider_Inr[OF _ assms(2,3)] Cons.IH[OF r] show ?case by auto
qed simp

lemma time_Now_Inr: "time_Now env c = (Inr now, c') \<longleftrightarrow> now = env_now env (cn_calls c) \<and> c' = c"
  by (auto simp: time_Now_def)

text \<open>The rows a reload keeps, and those it puts behind them.\<close>

abbreviation tenant_rows :: "('e, 'm) row_scheme list \<Rightarrow> ('e, 'm) row_scheme list" where
  "tenant_rows rows \<equiv> filter (\<lambda>r. \<not> system_owned r) rows"

lemma delete_system_rows: "snd (CreateDeleteSystemEntitiesStatement rows) = tenant_rows rows"
  by (simp add: CreateDeleteSystemEntitiesStatement_def delete_rows_def system_owned_def)

lemma load_collections_Inr:
  assumes "load_collections s eng fuel enc cs c = (Inr (Value u), c')" and "clock_set (st_env s)"
    and "distinct (map rw_id (collections (cn_db c)))"
  shows "\<exists>now. cn_db c' = (cn_db c)\<lparr>collections := tenant_rows (collections (cn_db c)) @
                 map (system_collection_row enc (collections (cn_db c)) now) (map snd cs)\<rparr>"
proof -
  from assms(1) obtain ex c1 n c2 now v c3 where
    ex: "listAllSystemCollections s eng fuel c = (Inr (Value ex), c1)"
    and del: "exec_collections (st_env s) (\<lambda>now. CreateDeleteSystemEntitiesStatement) c1 = (Inr n, c2)"
    and now: "now = env_now (st_env s) (cn_calls c2)"
    and load: "for_each (load_collection s enc ex now) (map snd cs) c2 = (Inr v, c3)" and c': "c' = c3"
    by (auto simp: load_collections_def obind_Inr_iff sbind_Inr_iff time_Now_Inr)
  note pages = colls.all_pages[OF ex[unfolded listAllSystemCollections_def getCollectionsTransactional_def] assms(3)]
  have get: "gomap_get ex i = stored_system scan_collection (collections (cn_db c)) i" for i
    by (rule existing_is_stored[OF pages(2) assms(3)])
  have "now \<noteq> 0" using assms(2) now by (simp add: clock_set_def)
  from for_each_load_collection[OF load this get]
  have "cn_db c3 = (cn_db c2)\<lparr>collections := collections (cn_db c2) @ map (system_collection_row enc (collections (cn_db c)) now) (map snd cs)\<rparr>" .
  moreover have "cn_db c2 = (cn_db c)\<lparr>collections := tenant_rows (collections (cn_db c))\<rparr>"
    using exec_Inr(2)[OF del] delete_system_rows[of "collections (cn_db c)"] pages(1) by auto
  ultimately show ?thesis unfolding c' by auto
qed

lemma load_providers_Inr:
  assumes "load_providers s eng fuel enc ps c = (Inr (Value u), c')" and "clock_set (st_env s)"
    and "distinct (map rw_id (providers (cn_db c)))"
  shows "\<exists>now. cn_db c' = (cn_db c)\<lparr>providers := tenant_rows (providers (cn_db c)) @
                 map (system_provider_row enc (providers (cn_db c)) now) (map snd ps)\<rparr>"
proof -
  from assms(1) obtain ex c1 n c2 now v c3 where
    ex: "listAllSystemProviders s eng fuel c = (Inr (Value ex), c1)"
    and del: "exec_providers (st_env s) (\<lambda>now. CreateDeleteSystemEntitiesStatement) c1 = (Inr n, c2)"
    and now: "now = env_now (st_env s) (cn_calls c2)"
    and load: "for_each (load_provider s enc ex now) (map snd ps) c2 = (Inr v, c3)" and c': "c' = c3"
    by (auto simp: load_providers_def obind_Inr_iff sbind_Inr_iff time_Now_Inr)
  note pages = provs.all_pages[OF ex[unfolded listAllSystemProviders_def getProvidersTransactional_def] assms(3)]
  have get: "gomap_get ex i = stored_system scan_provider (providers (cn_db c)) i" for i
    by (rule existing_is_stored[OF pages(2) assms(3)])
  have "now \<noteq> 0" using assms(2) now by (simp add: clock_set_def)
  from for_each_load_provider[OF load this get]
  have "cn_db c3 = (cn_db c2)\<lparr>providers := providers (cn_db c2) @ map (system_provider_row enc (providers (cn_db c)) now) (map snd ps)\<rparr>" .
  moreover have "cn_db c2 = (cn_db c)\<lparr>providers := tenant_rows (providers (cn_db c))\<rparr>"
    using exec_Inr(3)[OF del] delete_system_rows[of "providers (cn_db c)"] pages(1) by auto
  ultimately show ?thesis unfolding c' by auto
qed

section \<open>The transaction\<close>

lemma rolls_back_obind [intro]: "rolls_back m \<Longrightarrow> (\<And>x. rolls_back (f x)) \<Longrightarrow> rolls_back (obind m f)"
  unfolding obind_def by (rule rolls_back_sbind) (auto split: outcome.splits)

lemma rolls_back_for_each: "(\<And>x. rolls_back (f x)) \<Longrightarrow> rolls_back (for_each f xs)"
  by (induction xs) (auto intro: rolls_back_sbind)

lemma rolls_back_time_Now: "rolls_back (time_Now env)"
  by (simp add: rolls_back_def time_Now_def)

lemma rolls_back_reload:
  "rolls_back (load_collections s eng fuel enc cs)" "rolls_back (load_providers s eng fuel enc' ps)"
  unfolding load_collections_def load_providers_def load_collection_def load_provider_def Let_def
  by (intro rolls_back_obind rolls_back_sbind rolls_back_smap_err rolls_back_for_each rolls_back_time_Now rolls_back_leaf WithRollback_rolls_back)+

interpretation reload: transaction "st_env s" "''load-system-resources''" "''system''" "\<lambda>_. True"
  "obind (load_collections s eng fuel encC cs) (\<lambda>_. load_providers s eng fuel encP ps)"
  for s eng fuel encC cs encP ps
  by unfold_locales (auto intro: clean_clean_on clean_rolls_back rolls_back_obind rolls_back_reload)

lemma LoadSystemResources_Inr:
  assumes "LoadSystemResources s eng fuel encC encP cs ps c = (Inr (Value u), c')" and "clock_set (st_env s)"
    and "db_ok (cn_db c)"
  shows "\<exists>now1 now2.
    cn_db c' = (cn_db c)\<lparr>
      collections := tenant_rows (collections (cn_db c)) @ map (system_collection_row encC (collections (cn_db c)) now1) (map snd cs),
      providers := tenant_rows (providers (cn_db c)) @ map (system_provider_row encP (providers (cn_db c)) now2) (map snd ps)\<rparr>"
proof -
  from reload.success[OF _ assms(1)[unfolded LoadSystemResources_def]] obtain c1 c2 where
    c1: "cn_db c1 = cn_db c" and b: "obind (load_collections s eng fuel encC cs) (\<lambda>_. load_providers s eng fuel encP ps) c1 = (Inr (Value u), c2)"
    and c2: "cn_db c' = cn_db c2" by blast
  then obtain v c3 where l: "load_collections s eng fuel encC cs c1 = (Inr (Value v), c3)"
    and p: "load_providers s eng fuel encP ps c3 = (Inr (Value u), c2)" by (auto simp: obind_Inr_iff)
  have d: "distinct (map rw_id (collections (cn_db c)))" "distinct (map rw_id (providers (cn_db c)))"
    using assms(3) by (simp_all add: db_ok_def table_ok_def)
  from load_collections_Inr[OF l assms(2)] d(1) c1 obtain now1 where
    1: "cn_db c3 = (cn_db c)\<lparr>collections := tenant_rows (collections (cn_db c)) @ map (system_collection_row encC (collections (cn_db c)) now1) (map snd cs)\<rparr>"
    by auto
  from load_providers_Inr[OF p assms(2)] d(2) obtain now2 where
    "cn_db c2 = (cn_db c3)\<lparr>providers := tenant_rows (providers (cn_db c3)) @ map (system_provider_row encP (providers (cn_db c3)) now2) (map snd ps)\<rparr>"
    by (auto simp: 1)
  with 1 c2 show ?thesis by auto
qed

section \<open>The specification of a reload\<close>

text \<open>
  A table after a reload: the rows of the tenants are as they were, the system rows are the given
  definitions, a definition that replaces a row keeps its creation time, and its update time too when
  the configuration is the same.
\<close>

definition replaced_by ::
  "('e \<Rightarrow> 'e \<Rightarrow> bool) \<Rightarrow> 'e row list \<Rightarrow> 'e row list \<Rightarrow> (string \<times> 'e) list \<Rightarrow> bool" where
  "replaced_by same rows rows' defs \<longleftrightarrow>
     tenant_rows rows' = tenant_rows rows \<and>
     map (\<lambda>r. (rw_id r, rw_tenant_id r, rw_entity r)) (filter system_owned rows') = map (\<lambda>(i, e). (i, '''', Json e)) defs \<and>
     (\<forall>old \<in> set rows. \<forall>new \<in> set rows'. \<forall>e e'.
        system_owned old \<and> system_owned new \<and> rw_id old = rw_id new \<and> rw_entity old = Json e \<and> rw_entity new = Json e' \<and>
        rw_created_at old \<noteq> 0 \<longrightarrow>
        rw_created_at new = rw_created_at old \<and>
        (same e e' \<and> rw_updated_at old \<noteq> 0 \<longrightarrow> rw_updated_at new = rw_updated_at old))"

definition same_collection :: "(CollectionConfig \<Rightarrow> string) \<Rightarrow> collectionStoredEntity \<Rightarrow> collectionStoredEntity \<Rightarrow> bool" where
  "same_collection enc e e' \<longleftrightarrow>
     collection_config_ok (ce_Config e) \<and> collection_config_ok (ce_Config e') \<and> enc (ce_Config e) = enc (ce_Config e')"

definition same_provider :: "(ProviderConfig \<Rightarrow> string) \<Rightarrow> ProviderConfig \<Rightarrow> ProviderConfig \<Rightarrow> bool" where
  "same_provider enc e e' \<longleftrightarrow> provider_config_ok e \<and> provider_config_ok e' \<and> enc e = enc e'"

lemma row_of_simps [simp]:
  "rw_id (row_of r d) = r_ID r" "rw_owner (row_of r d) = r_Owner r" "rw_tenant_id (row_of r d) = r_Tenant r"
  "rw_entity (row_of r d) = d" "rw_created_at (row_of r d) = r_CreatedAt r" "rw_updated_at (row_of r d) = r_UpdatedAt r"
  by (simp_all add: row_of_def)

lemma system_owned_row [simp]: "system_owned (row_of (system_resource now old r) d)"
  by (simp add: system_owned_def)

lemma system_resource_times:
  "r_CreatedAt o1 \<noteq> 0 \<Longrightarrow>
   r_CreatedAt (system_resource now (Some (o1, same)) r) = r_CreatedAt o1 \<and>
   (same \<and> r_UpdatedAt o1 \<noteq> 0 \<longrightarrow> r_UpdatedAt (system_resource now (Some (o1, same)) r) = r_UpdatedAt o1)"
  by (simp add: system_resource_def Let_def)

lemma collections_replaced:
  assumes "distinct (map rw_id rows)"
  shows "replaced_by (same_collection enc) rows (tenant_rows rows @ map (system_collection_row enc rows now) xs)
           (map (\<lambda>x. (r_ID (co_Resource x), collection_entity x)) xs)"
proof -
  have own: "system_owned (system_collection_row enc rows now x)" for x by (simp add: system_collection_row_def)
  have times: "rw_created_at (system_collection_row enc rows now x) = rw_created_at old \<and>
      (same_collection enc e (collection_entity x) \<and> rw_updated_at old \<noteq> 0 \<longrightarrow>
         rw_updated_at (system_collection_row enc rows now x) = rw_updated_at old)"
    if "old \<in> set rows" "system_owned old" "rw_id old = r_ID (co_Resource x)" "rw_entity old = Json e" "rw_created_at old \<noteq> 0" for old e x
  proof -
    have "stored_system scan_collection rows (r_ID (co_Resource x)) = Some (collection_resource (row_resource old) e)"
      using that stored_system_iff[OF assms, of scan_collection] by (auto simp: scan_collection_def)
    with system_resource_times[of "row_resource old"] that(5) show ?thesis
      by (auto simp: system_collection_row_def collection_resource_def row_resource_def same_collection_def
            systemCollectionConfigEqual_def collection_entity_def)
  qed
  show ?thesis
    unfolding replaced_by_def using own times
    by (auto simp: system_collection_row_def filter_map comp_def)
qed

lemma providers_replaced:
  assumes "distinct (map rw_id rows)"
  shows "replaced_by (same_provider enc) rows (tenant_rows rows @ map (system_provider_row enc rows now) xs)
           (map (\<lambda>x. (r_ID (pr_Resource x), pr_Config x)) xs)"
proof -
  have own: "system_owned (system_provider_row enc rows now x)" for x by (simp add: system_provider_row_def)
  have times: "rw_created_at (system_provider_row enc rows now x) = rw_created_at old \<and>
      (same_provider enc e (pr_Config x) \<and> rw_updated_at old \<noteq> 0 \<longrightarrow>
         rw_updated_at (system_provider_row enc rows now x) = rw_updated_at old)"
    if "old \<in> set rows" "system_owned old" "rw_id old = r_ID (pr_Resource x)" "rw_entity old = Json e" "rw_created_at old \<noteq> 0" for old e x
  proof -
    have "stored_system scan_provider rows (r_ID (pr_Resource x)) = Some \<lparr>pr_Resource = row_resource old, pr_Config = e\<rparr>"
      using that stored_system_iff[OF assms, of scan_provider] by (auto simp: scan_provider_def)
    with system_resource_times[of "row_resource old"] that(5) show ?thesis
      by (auto simp: system_provider_row_def row_resource_def same_provider_def systemProviderConfigEqual_def)
  qed
  show ?thesis
    unfolding replaced_by_def using own times
    by (auto simp: system_provider_row_def filter_map comp_def)
qed

section \<open>A reload comes to an end\<close>

text \<open>Loading collections leaves the providers alone, also when it fails.\<close>

definition same_providers :: "database \<Rightarrow> database \<Rightarrow> bool" where
  "same_providers d d' \<longleftrightarrow> providers d' = providers d"

interpretation colls_only: db_relation same_providers
  by unfold_locales (simp_all add: same_providers_def)

lemma keeps_db_pages: "(\<And>f. keeps_db (get f)) \<Longrightarrow> keeps_db (list_all_pages get key fuel offset ex)"
  by (induction get key fuel offset ex rule: list_all_pages.induct) (auto simp: Let_def)

lemma statements_same_providers:
  "moves_by same_providers (insert_collection env r)" "moves_by same_providers (exec_collections env f)"
  by (auto simp: moves_by_def insert_collection_def exec_collections_def db_call_def Let_def same_providers_def insert_row_def
      split: option.splits sum.splits prod.splits)

lemma load_collections_same_providers: "moves_by same_providers (load_collections s eng fuel enc cs)"
proof -
  have one: "moves_by same_providers (load_collection s enc ex now x)" for ex now x
    unfolding load_collection_def createCollectionTxn_def Let_def
    by (intro colls_only.moves_by_smap_err colls_only.moves_by_sbind statements_same_providers colls_only.moves_by_keeps)
       (simp_all add: keeps_db_stamp)
  have "moves_by same_providers (for_each (load_collection s enc ex now) xs)" for ex now xs
    by (induction xs) (auto intro: colls_only.moves_by_sbind colls_only.moves_by_leaf one)
  then show ?thesis
    unfolding load_collections_def obind_def listAllSystemCollections_def getCollectionsTransactional_def
    by (auto intro!: colls_only.moves_by_sbind colls_only.moves_by_smap_err statements_same_providers colls_only.moves_by_leaf
        colls_only.moves_by_keeps[OF keeps_db_pages] colls_only.moves_by_keeps[OF keeps_db_stamp(2)] split: outcome.splits)
qed

lemma reload_outcome:
  assumes "LoadSystemResources s eng fuel encC encP cs ps c = (Inr x, c')"
    and "length (filter system_owned (collections (cn_db c))) div 200 < fuel"
    and "length (filter system_owned (providers (cn_db c))) div 200 < fuel"
  shows "x = Value ()"
proof -
  have col: "\<exists>u. y = Value u"
    if "load_collections s eng fuel encC cs c1 = (Inr y, c2)" and "collections (cn_db c1) = collections (cn_db c)" for y c1 c2
  proof -
    have "\<forall>z c3. listAllSystemCollections s eng fuel c1 = (Inr z, c3) \<longrightarrow> (\<exists>v. z = Value v)"
      using colls.pages_end[of c1 0 fuel s eng] assms(2) that(2)
      by (auto simp: listAllSystemCollections_def getCollectionsTransactional_def)
    with that(1) show ?thesis
      by (fastforce simp: load_collections_def obind_def sbind_Inr_iff)
  qed
  have prov: "\<exists>u. y = Value u"
    if "load_providers s eng fuel encP ps c1 = (Inr y, c2)" and "providers (cn_db c1) = providers (cn_db c)" for y c1 c2
  proof -
    have "\<forall>z c3. listAllSystemProviders s eng fuel c1 = (Inr z, c3) \<longrightarrow> (\<exists>v. z = Value v)"
      using provs.pages_end[of c1 0 fuel s eng] assms(3) that(2)
      by (auto simp: listAllSystemProviders_def getProvidersTransactional_def)
    with that(1) show ?thesis
      by (fastforce simp: load_providers_def obind_def sbind_Inr_iff)
  qed
  from reload.success[OF _ assms(1)[unfolded LoadSystemResources_def]] obtain c1 c2 where
    c1: "cn_db c1 = cn_db c" and b: "obind (load_collections s eng fuel encC cs) (\<lambda>_. load_providers s eng fuel encP ps) c1 = (Inr x, c2)"
    by blast
  from b obtain y c3 where y: "load_collections s eng fuel encC cs c1 = (Inr y, c3)"
    and z: "(case y of Value v \<Rightarrow> load_providers s eng fuel encP ps | Panic \<Rightarrow> sreturn Panic | Unfinished \<Rightarrow> sreturn Unfinished) c3 = (Inr x, c2)"
    by (auto simp: obind_def sbind_Inr_iff)
  from col[OF y] c1 obtain v where "y = Value v" by auto
  moreover have "providers (cn_db c3) = providers (cn_db c)"
    using moves_byD[OF load_collections_same_providers y] c1 by (simp add: same_providers_def)
  ultimately show ?thesis using prov[of c3 x c2] z by simp
qed

end
