(* ===== verification/Listing_Properties.thy ===== *)
theory Listing_Properties
  imports System_Reload
begin

text \<open>The guarantees of lists, filters and the reload of system resources.\<close>

definition sample_engine :: sql_engine where
  "sample_engine = \<lparr>eng_le = (\<le>), eng_doc = (\<lambda>t p. Absent), eng_refused = PlainErr ''syntax error''\<rparr>"

text \<open>A collection of the system and one of a tenant.\<close>

definition listed_conn :: conn where
  "listed_conn =
     \<lparr>cn_db = \<lparr>evaluations = [],
        collections = [row_of (sample_resource ''c1'' '''' ''system'') (Json (collection_entity (sample_collection []))),
                       row_of (sample_resource ''c2'' ''t2'' ''u2'') (Json (collection_entity (sample_collection [])))],
        providers = []\<rparr>, cn_calls = 0\<rparr>"

definition owner_filter :: QueryFilter where
  "owner_filter =
     \<lparr>qf_Limit = 10, qf_Offset = 0, qf_Params = [(''owner'', QStr ''system|u2'')], qf_SortBy = ''''\<rparr>"

lemmas listing_samples =
  sample_engine_def listed_conn_def owner_filter_def sample_storage_def quiet_def row_of_def sample_resource_def
  sample_collection_def sample_collection_config_def collection_entity_def

definition system_row :: collection_row where
  "system_row = row_of (sample_resource ''c1'' '''' ''system'') (Json (collection_entity (sample_collection [])))"

lemma owner_filter_allowed: "allowed_filter TableCollections (qf_Params owner_filter)"
  by (simp add: allowed_filter_def owner_filter_def GetAllowedFilterColumns_def TableCollections_def TableEvaluations_def TableProviders_def)

lemma owner_values: "GetValues (QStr ''system|u2'') = ([QStr ''system'', QStr ''u2''], OpOr)"
  by (simp add: GetValues_def TrimSpace_visible visible_def)

lemma owner_filter_rows:
  "spec_rows (collection_view sample_engine) ''t1'' TableCollections (qf_Params owner_filter) (collections (cn_db listed_conn)) =
   Some [system_row]"
  by (simp add: spec_rows_def filter_spec_def scope_spec_def key_spec_def owner_values value_spec_def array_field_def column_spec_def
        HasPrefix_def Tenant_IsEmpty_def TableCollections_def TableEvaluations_def any_of_def all_of_def system_row_def
        collection_view_def row_column_def owner_filter_def listed_conn_def row_of_def sample_resource_def OwnerSystem_def)

text \<open>
  C38: The statement built for a list selects, in both dialects and with every placeholder bound to
  its own argument, exactly the rows that the filter describes, in the requested order, from the
  offset and up to the limit; the statement built for the count counts the same rows. The database
  refuses the list only for a filter value it cannot compare, or in SQLite for an offset without a
  limit.
\<close>

theorem list_statements_mean_filter:
  assumes "allowed_filter tableName params"
  shows "select_rows d le view (CreateListEntitiesStatement d tenant tableName limit offset params sortBy) rows =
           (if page_ok d limit offset
            then map_option (\<lambda>rs. page_of (positive limit) (positive offset)
                                    (sort_by (row_before d le view (list_order tableName sortBy)) rs))
                   (spec_rows view tenant tableName params rows)
            else None) \<and>
         count_rows d view (CreateCountEntitiesStatement d tenant tableName params) rows =
           map_option (\<lambda>rs. int (length rs)) (spec_rows view tenant tableName params rows)"
  using select_rows_meaning[OF assms] count_rows_meaning[OF assms] by blast

theorem list_statements_mean_filter_witness:
  "allowed_filter TableCollections (qf_Params owner_filter) \<and>
   count_rows Postgres (collection_view sample_engine)
     (CreateCountEntitiesStatement Postgres ''t1'' TableCollections (qf_Params owner_filter)) (collections (cn_db listed_conn)) = Some 1"
  using list_statements_mean_filter[OF owner_filter_allowed, of Postgres "(\<le>)" "collection_view sample_engine" "''t1''" 0 0 "''''"
      "collections (cn_db listed_conn)"]
  by (simp add: owner_filter_allowed owner_filter_rows)




text \<open>
  The loop that reads all system collections comes to an end: one more page than the stored rows
  fill is enough, whatever the driver does, so it makes two calls per page and at most one pair more.
  When it returns, it has found every system row under its identifier and nothing else.
\<close>

theorem system_listing_terminates:
  assumes "length (filter system_owned (collections (cn_db c))) div 200 < fuel"
    and "distinct (map rw_id (collections (cn_db c)))"
  shows "case listAllSystemCollections s eng fuel c of
           (r, c') \<Rightarrow>
             cn_db c' = cn_db c \<and>
             cn_calls c' \<le> cn_calls c + 2 * Suc (length (filter system_owned (collections (cn_db c))) div 200) \<and>
             (case r of
                Inl e \<Rightarrow> True
              | Inr x \<Rightarrow> \<exists>existing. x = Value existing \<and>
                  (\<forall>i y. gomap_get existing i = Some y \<longleftrightarrow>
                     (\<exists>r \<in> set (collections (cn_db c)). system_owned r \<and> rw_id r = i \<and> scan_collection r = Value (Inr y))))"
proof -
  obtain r c' where r: "listAllSystemCollections s eng fuel c = (r, c')" by fastforce
  note run = r[unfolded listAllSystemCollections_def getCollectionsTransactional_def]
  have e: "(\<forall>x. r = Inr x \<longrightarrow> (\<exists>v. x = Value v)) \<and>
      cn_calls c' \<le> cn_calls c + 2 * Suc (length (filter system_owned (collections (cn_db c))) div 200)"
    using colls.pages_end[where n = 0, simplified, OF assms(1) run] by simp
  have db: "cn_db c' = cn_db c" by (rule keeps_dbD[OF keeps_db_pages run]) simp
  show ?thesis
  proof (cases r)
    case (Inl err)
    with r e db show ?thesis by simp
  next
    case (Inr x)
    with e obtain v where "x = Value v" by blast
    with Inr r e db colls.all_pages(2)[OF run[unfolded Inr \<open>x = Value v\<close>] assms(2)] show ?thesis by simp
  qed
qed

theorem system_listing_terminates_witness:
  "cn_db (snd (listAllSystemCollections (sample_storage quiet) sample_engine 1 listed_conn)) = cn_db listed_conn"
  using system_listing_terminates[of listed_conn 1 "sample_storage quiet" sample_engine]
  by (simp add: listed_conn_def row_of_def sample_resource_def system_owned_def OwnerSystem_def split: prod.splits)

text \<open>
  C40: A reload of the system resources either fails and leaves the database as it was, or replaces
  exactly the system collections and the system providers by the given definitions: the resources of
  the tenants and all jobs stay, a definition that was stored before keeps its creation time, and one
  whose configuration did not change keeps its update time.
\<close>

theorem system_reload_replaces_or_keeps:
  assumes "clock_set (st_env s)" and "db_ok (cn_db c)"
    and "length (filter system_owned (collections (cn_db c))) div 200 < fuel"
    and "length (filter system_owned (providers (cn_db c))) div 200 < fuel"
  shows "case LoadSystemResources s eng fuel encC encP cs ps c of
           (Inl e, c') \<Rightarrow> cn_db c' = cn_db c
         | (Inr x, c') \<Rightarrow>
             x = Value () \<and> evaluations (cn_db c') = evaluations (cn_db c) \<and>
             replaced_by (same_collection encC) (collections (cn_db c)) (collections (cn_db c'))
               (map (\<lambda>e. (r_ID (co_Resource (snd e)), collection_entity (snd e))) cs) \<and>
             replaced_by (same_provider encP) (providers (cn_db c)) (providers (cn_db c'))
               (map (\<lambda>e. (r_ID (pr_Resource (snd e)), pr_Config (snd e))) ps)"
proof -
  obtain r c' where r: "LoadSystemResources s eng fuel encC encP cs ps c = (r, c')" by fastforce
  show ?thesis
  proof (cases r)
    case (Inl e)
    have "cn_db c' = cn_db c"
      by (rule reload.error_keeps_db[OF _ r[unfolded Inl LoadSystemResources_def]]) simp
    with r Inl show ?thesis by simp
  next
    case (Inr x)
    then have x: "x = Value ()" using reload_outcome[OF _ assms(3,4)] r by blast
    have d: "distinct (map rw_id (collections (cn_db c)))" "distinct (map rw_id (providers (cn_db c)))"
      using assms(2) by (simp_all add: db_ok_def table_ok_def)
    from LoadSystemResources_Inr[OF r[unfolded Inr x] assms(1,2)] obtain now1 now2 where
      "cn_db c' = (cn_db c)\<lparr>
        collections := tenant_rows (collections (cn_db c)) @ map (system_collection_row encC (collections (cn_db c)) now1) (map snd cs),
        providers := tenant_rows (providers (cn_db c)) @ map (system_provider_row encP (providers (cn_db c)) now2) (map snd ps)\<rparr>"
      by blast
    with r Inr x collections_replaced[OF d(1), of encC now1 "map snd cs"] providers_replaced[OF d(2), of encP now2 "map snd ps"]
    show ?thesis by (simp add: comp_def)
  qed
qed

theorem system_reload_replaces_or_keeps_witness:
  "case LoadSystemResources (sample_storage quiet) sample_engine 1 (\<lambda>_. '''') (\<lambda>_. '''') [(''c1'', sample_collection [])] [] listed_conn of
     (Inl e, c') \<Rightarrow> cn_db c' = cn_db listed_conn
   | (Inr x, c') \<Rightarrow> x = Value () \<and> evaluations (cn_db c') = []"
proof -
  have ok: "db_ok (cn_db listed_conn)" "clock_set (st_env (sample_storage quiet))"
    by (simp_all add: listing_samples db_ok_def table_ok_def clock_set_def collection_entity_ok_def collection_config_ok_def criteria_ok_def)
  show ?thesis
    using system_reload_replaces_or_keeps[OF ok(2,1), where fuel = 1 and eng = sample_engine and encC = "\<lambda>_. ''''" and
        encP = "\<lambda>_. ''''" and cs = "[(''c1'', sample_collection [])]" and ps = "[]"]
    by (simp add: listed_conn_def row_of_def sample_resource_def system_owned_def split: prod.splits sum.splits)
qed

end
