(* ===== verification/Requests.thy ===== *)
theory Requests
  imports Listing
begin

text \<open>
  Requests as the handlers read them: query parameters (handlers/helpers.go), the options of a log
  request (handlers/evaluation_logs.go), pages with their links, the allow-lists of JSON patches, and
  the decoding of a body (serialization/serialization.go).

  The body decoder (encoding/json) and the validator (github.com/go-playground/validator) are
  arguments. \<open>net/url\<close> parses the URI: a request carries the outcome, the query of the URI and the
  URI with another query in its place.
\<close>

section \<open>Strings of a URL\<close>

definition hex_value :: "char \<Rightarrow> nat option" where
  "hex_value c =
     (let n = (of_char c :: nat)
      in if 48 \<le> n \<and> n \<le> 57 then Some (n - 48)
         else if 97 \<le> n \<and> n \<le> 102 then Some (n - 87)
         else if 65 \<le> n \<and> n \<le> 70 then Some (n - 55) else None)"

text \<open>url.QueryUnescape; a per cent sign without two hexadecimal digits is an error.\<close>

fun QueryUnescape :: "string \<Rightarrow> string option" where
  "QueryUnescape [] = Some []"
| "QueryUnescape (c # s) =
     (if c = CHR ''%''
      then (case s of
              a # b # rest \<Rightarrow>
                (case (hex_value a, hex_value b) of
                   (Some x, Some y) \<Rightarrow> map_option ((#) (char_of (16 * x + y))) (QueryUnescape rest)
                 | _ \<Rightarrow> None)
            | _ \<Rightarrow> None)
      else map_option ((#) (if c = CHR ''+'' then CHR '' '' else c)) (QueryUnescape s))"

definition unreserved :: "char \<Rightarrow> bool" where
  "unreserved c =
     (let n = (of_char c :: nat)
      in 48 \<le> n \<and> n \<le> 57 \<or> 65 \<le> n \<and> n \<le> 90 \<or> 97 \<le> n \<and> n \<le> 122 \<or> c \<in> set ''-_.~'')"

definition upper_hex :: "nat \<Rightarrow> char" where
  "upper_hex n = (if n < 10 then char_of (48 + n) else char_of (55 + n))"

definition escape_char :: "char \<Rightarrow> string" where
  "escape_char c =
     (let n = (of_char c :: nat)
      in if unreserved c then [c] else if c = CHR '' '' then ''+''
         else [CHR ''%'', upper_hex (n div 16), upper_hex (n mod 16)])"

definition QueryEscape :: "string \<Rightarrow> string" where
  "QueryEscape s = concat (map escape_char s)"

text \<open>url.Values.Encode: the keys in order, the values of a key in their order.\<close>

definition values_Encode :: "string list gomap \<Rightarrow> string" where
  "values_Encode q =
     Join (concat (map (\<lambda>k. map (\<lambda>v. QueryEscape k @ ''='' @ QueryEscape v)
                              (case gomap_get q k of None \<Rightarrow> [] | Some vs \<Rightarrow> vs))
                       (sort (map fst q)))) ''&''"

section \<open>Numbers and truth values\<close>

definition int64 :: "int \<Rightarrow> int" where
  "int64 n = sint (word_of_int n :: 64 word)"

definition digit_value :: "char \<Rightarrow> nat option" where
  "digit_value c = (let n = (of_char c :: nat) in if 48 \<le> n \<and> n \<le> 57 then Some (n - 48) else None)"

fun parse_digits :: "nat \<Rightarrow> string \<Rightarrow> nat option" where
  "parse_digits acc [] = Some acc"
| "parse_digits acc (c # s) = (case digit_value c of None \<Rightarrow> None | Some d \<Rightarrow> parse_digits (10 * acc + d) s)"

definition parse_unsigned :: "string \<Rightarrow> nat option" where
  "parse_unsigned s = (if s = [] then None else parse_digits 0 s)"

text \<open>strconv.Atoi: decimal digits with an optional sign, in the range of a 64-bit integer.\<close>

definition Atoi :: "string \<Rightarrow> int option" where
  "Atoi s =
     (let n = (case s of
                 [] \<Rightarrow> None
               | c # rest \<Rightarrow> if c = CHR ''-'' then map_option (\<lambda>k. - int k) (parse_unsigned rest)
                             else if c = CHR ''+'' then map_option int (parse_unsigned rest)
                             else map_option int (parse_unsigned s))
      in (case n of None \<Rightarrow> None | Some k \<Rightarrow> if - (2 ^ 63) \<le> k \<and> k < 2 ^ 63 then Some k else None))"

definition ParseBool :: "string \<Rightarrow> bool option" where
  "ParseBool s =
     (if s \<in> {''1'', ''t'', ''T'', ''TRUE'', ''true'', ''True''} then Some True
      else if s \<in> {''0'', ''f'', ''F'', ''FALSE'', ''false'', ''False''} then Some False else None)"

section \<open>Requests\<close>

record parsed_uri =
  pu_Query :: "string list gomap"
  pu_String :: "string \<Rightarrow> string"

record http_request =
  rq_PathValue :: "string \<Rightarrow> string"
  rq_Query :: "string \<Rightarrow> string list"
  rq_URI :: string
  rq_Parsed :: "string + parsed_uri"
  rq_Body :: "go_error + string"

definition missing_path :: "string \<Rightarrow> go_error" where
  "missing_path name = NewServiceError MissingPathParameter [''ParameterName'', name]"

definition path_value :: "http_request \<Rightarrow> string \<Rightarrow> go_error + string" where
  "path_value r name = (if rq_PathValue r name = '''' then Inl (missing_path name) else Inr (rq_PathValue r name))"

section \<open>Query parameters\<close>

definition DecodeParam :: "string \<Rightarrow> string" where
  "DecodeParam v = (case QueryUnescape v of None \<Rightarrow> v | Some d \<Rightarrow> d)"

text \<open>
  GetParam is generic in string, int and bool; \<open>conv\<close> is the case of its switch on the type, applied
  to the values that are not empty.
\<close>

definition GetParam :: "(string list \<Rightarrow> go_error + 'a) \<Rightarrow> http_request \<Rightarrow> string \<Rightarrow> bool \<Rightarrow> 'a \<Rightarrow> go_error + 'a" where
  "GetParam conv r name optional dflt =
     (let vs = filter (\<lambda>v. v \<noteq> '''') (rq_Query r name)
      in if vs = []
         then if \<not> optional then Inl (NewServiceError QueryParameterRequired [''ParameterName'', name]) else Inr dflt
         else conv vs)"

definition param_invalid :: "string \<Rightarrow> string \<Rightarrow> string \<Rightarrow> go_error" where
  "param_invalid name typ value =
     NewServiceError QueryParameterInvalid [''ParameterName'', name, ''Type'', typ, ''Value'', value]"

definition GetParam_string :: "http_request \<Rightarrow> string \<Rightarrow> bool \<Rightarrow> string \<Rightarrow> go_error + string" where
  "GetParam_string = GetParam (\<lambda>vs. Inr (Join (map DecodeParam vs) '',''))"

definition GetParam_int :: "http_request \<Rightarrow> string \<Rightarrow> bool \<Rightarrow> int \<Rightarrow> go_error + int" where
  "GetParam_int r name =
     GetParam (\<lambda>vs. case Atoi (hd vs) of
                      None \<Rightarrow> Inl (param_invalid name ''integer'' (hd vs)) | Some n \<Rightarrow> Inr n) r name"

definition GetParam_bool :: "http_request \<Rightarrow> string \<Rightarrow> bool \<Rightarrow> bool \<Rightarrow> go_error + bool" where
  "GetParam_bool r name =
     GetParam (\<lambda>vs. case ParseBool (hd vs) of
                      None \<Rightarrow> Inl (param_invalid name ''boolean'' (hd vs)) | Some b \<Rightarrow> Inr b) r name"

section \<open>Filters of the list requests\<close>

definition CheckScope :: "QueryFilter \<Rightarrow> go_error option" where
  "CheckScope flt =
     (if HasParams flt [''owner'', ''scope'']
      then Some (NewServiceError QueryParameterMismatch [''ParameterNames'', Join [''owner'', ''scope''] '',''])
      else (case gomap_get (qf_Params flt) ''scope'' of
              None \<Rightarrow> None
            | Some scope \<Rightarrow>
                if scope = QStr ScopeSystem \<or> scope = QStr ScopeTenant then None
                else Some (NewServiceError QueryParameterValueInvalid
                       [''ParameterName'', ''scope'', ''AllowedValues'', Join [ScopeSystem, ScopeTenant] ''|''])))"

text \<open>The loop over the extra parameters: one that is given is added to the map.\<close>

fun add_params :: "http_request \<Rightarrow> string list \<Rightarrow> query_arg gomap \<Rightarrow> go_error + query_arg gomap" where
  "add_params r [] params = Inr params"
| "add_params r (p # ps) params =
     ebind (GetParam_string r p True '''') (\<lambda>v.
       add_params r ps (if v \<noteq> '''' then gomap_put p (QStr v) params else params))"

definition non_negative :: "string \<Rightarrow> int \<Rightarrow> go_error + int" where
  "non_negative name n = (if n < 0 then Inl (param_invalid name ''positive integer'' (Itoa n)) else Inr n)"

definition CommonListFilters :: "http_request \<Rightarrow> string list \<Rightarrow> go_error + QueryFilter" where
  "CommonListFilters r extraParams =
     ebind (GetParam_int r ''limit'' True 50) (\<lambda>l. ebind (non_negative ''limit'' l) (\<lambda>limit.
     ebind (GetParam_int r ''offset'' True 0) (\<lambda>f. ebind (non_negative ''offset'' f) (\<lambda>offset.
     ebind (GetParam_string r ''name'' True '''') (\<lambda>name.
     ebind (GetParam_string r ''tags'' True '''') (\<lambda>tags.
     ebind (GetParam_string r ''owner'' True '''') (\<lambda>owner.
     ebind (add_params r extraParams [(''name'', QStr name), (''tags'', QStr tags), (''owner'', QStr owner)]) (\<lambda>params.
       Inr \<lparr>qf_Limit = limit, qf_Offset = offset, qf_Params = params, qf_SortBy = ''''\<rparr>))))))))"

definition getAllParams :: "http_request \<Rightarrow> string list \<Rightarrow> string list" where
  "getAllParams r allowedParams =
     (case rq_Parsed r of
        Inl e \<Rightarrow> []
      | Inr uri \<Rightarrow> filter (\<lambda>p. p \<notin> set allowedParams) (map fst (pu_Query uri)))"

definition reject_params :: "http_request \<Rightarrow> string list \<Rightarrow> go_error option" where
  "reject_params r allowedParams =
     (case getAllParams r allowedParams of
        [] \<Rightarrow> None
      | p # ps \<Rightarrow> Some (NewServiceError QueryBadParameter
                          [''ParameterName'', p, ''AllowedParameters'', Join allowedParams '', '']))"

definition echeck :: "go_error option \<Rightarrow> go_error + unit" where
  "echeck g = (case g of None \<Rightarrow> Inr () | Some e \<Rightarrow> Inl e)"

text \<open>The checked filter of HandleListEvaluations.\<close>

definition evaluations_filter :: "http_request \<Rightarrow> go_error + QueryFilter" where
  "evaluations_filter r =
     ebind (CommonListFilters r []) (\<lambda>flt.
     ebind (echeck (reject_params r
       [''limit'', ''offset'', ''status'', ''name'', ''tags'', ''owner'', ''experiment_id'', ''collection_id''])) (\<lambda>_.
     ebind (add_params r [''status'', ''experiment_id'', ''collection_id''] (qf_Params flt)) (\<lambda>params.
       Inr (flt\<lparr>qf_Params := params\<rparr>))))"

text \<open>The repeated values of an array parameter of HandleListCollections.\<close>

definition array_param :: "http_request \<Rightarrow> string \<Rightarrow> query_arg gomap \<Rightarrow> query_arg gomap" where
  "array_param r key params =
     (case filter (\<lambda>v. v \<noteq> '''') (rq_Query r key) of
        [] \<Rightarrow> params
      | [v] \<Rightarrow> gomap_put key (QStr v) params
      | vs \<Rightarrow> gomap_put key (QStrs vs) params)"

definition collections_filter :: "http_request \<Rightarrow> go_error + QueryFilter" where
  "collections_filter r =
     ebind (CommonListFilters r [''category'', ''scope'']) (\<lambda>flt.
     ebind (echeck (CheckScope flt)) (\<lambda>_.
       let sortBy = (case GetParam_string r ''sort_by'' True '''' of Inl e \<Rightarrow> '''' | Inr v \<Rightarrow> v)
       in if sortBy \<noteq> '''' \<and> sortBy \<noteq> ''curation_order''
          then Inl (NewServiceError QueryParameterValueInvalid
                      [''ParameterName'', ''sort_by'', ''AllowedValues'', ''curation_order''])
          else
            ebind (echeck (reject_params r
              [''limit'', ''offset'', ''name'', ''category'', ''tags'', ''owner'', ''scope'', ''domains'', ''tasks'',
               ''modalities'', ''industries'', ''evaluation_targets'', ''sort_by''])) (\<lambda>_.
              Inr (flt\<lparr>qf_SortBy := sortBy,
                       qf_Params := fold (array_param r)
                         [''domains'', ''tasks'', ''modalities'', ''industries'', ''evaluation_targets''] (qf_Params flt)\<rparr>))))"

text \<open>The checked filter of HandleListProviders and the parameter benchmarks.\<close>

definition providers_filter :: "http_request \<Rightarrow> go_error + QueryFilter \<times> bool" where
  "providers_filter r =
     ebind (CommonListFilters r [''scope'']) (\<lambda>flt.
     ebind (echeck (CheckScope flt)) (\<lambda>_.
     ebind (echeck (reject_params r [''limit'', ''offset'', ''benchmarks'', ''name'', ''tags'', ''owner'', ''scope''])) (\<lambda>_.
     ebind (GetParam_bool r ''benchmarks'' True True) (\<lambda>benchmarks. Inr (flt, benchmarks)))))"

section \<open>Pages\<close>

definition CreatePage :: "int \<Rightarrow> int \<Rightarrow> int \<Rightarrow> http_request \<Rightarrow> go_error + Page" where
  "CreatePage total' offset limit r =
     (let after = int64 (offset + limit);
          page = \<lparr>pg_First = Some (rq_URI r), pg_Next = None, pg_Limit = limit, pg_TotalCount = total'\<rparr>
      in if after < total'
         then (case rq_Parsed r of
                 Inl e \<Rightarrow> Inl (internal_error e)
               | Inr uri \<Rightarrow>
                   Inr (page\<lparr>pg_Next :=
                     Some (pu_String uri (values_Encode (gomap_put ''offset'' [Itoa after] (pu_Query uri))))\<rparr>))
         else Inr page)"

section \<open>Options of a log request\<close>

definition DefaultLogTailLines :: int where "DefaultLogTailLines = 1000"
definition MaxLogTailLines :: int where "MaxLogTailLines = 10000"
definition AllLogLines :: int where "AllLogLines = -1"

record EvaluationLogOptions =
  lo_TailLines :: int
  lo_Timestamps :: bool
  lo_SinceSeconds :: "int option"

definition parseEvaluationLogOptions :: "http_request \<Rightarrow> go_error + EvaluationLogOptions" where
  "parseEvaluationLogOptions r =
     ebind (GetParam_int r ''tail_lines'' True DefaultLogTailLines) (\<lambda>tailLines.
       if tailLines \<noteq> AllLogLines \<and> (tailLines < 1 \<or> tailLines > MaxLogTailLines)
       then Inl (param_invalid ''tail_lines''
                   (''integer between 1 and '' @ Itoa MaxLogTailLines @ '', or -1 for all lines'') (Itoa tailLines))
       else
         ebind (GetParam_bool r ''timestamps'' True False) (\<lambda>timestamps.
           let opts = \<lparr>lo_TailLines = tailLines, lo_Timestamps = timestamps, lo_SinceSeconds = None\<rparr>
           in if rq_Query r ''since_seconds'' = [] then Inr opts
              else
                ebind (GetParam_int r ''since_seconds'' False 0) (\<lambda>sinceSeconds.
                  if sinceSeconds < 1
                  then Inl (param_invalid ''since_seconds'' ''positive integer'' (Itoa sinceSeconds))
                  else Inr (opts\<lparr>lo_SinceSeconds := Some sinceSeconds\<rparr>))))"

section \<open>JSON patches\<close>

record allowedPatch =
  ap_Path :: string
  ap_Op :: PatchOp
  ap_Prefix :: bool

fun PatchOp_String :: "PatchOp \<Rightarrow> string" where
  "PatchOp_String PatchOpReplace = ''replace''"
| "PatchOp_String PatchOpAdd = ''add''"
| "PatchOp_String PatchOpRemove = ''remove''"
| "PatchOp_String (PatchOpOther s) = s"

definition isAllowedPatch :: "allowedPatch list \<Rightarrow> PatchOp \<Rightarrow> string \<Rightarrow> bool" where
  "isAllowedPatch patches operation path \<longleftrightarrow>
     list_ex (\<lambda>p. ap_Path p = path \<and> ap_Op p = operation) patches \<or>
     list_ex (\<lambda>p. (ap_Prefix p \<and> ap_Op p = operation) \<and> HasPrefix path (ap_Path p @ ''/'')) patches"

definition patch_error :: "(PatchOperation \<Rightarrow> string option) \<Rightarrow> allowedPatch list \<Rightarrow> PatchOperation \<Rightarrow> go_error option" where
  "patch_error validate allowedPatches p =
     (case validate p of
        Some e \<Rightarrow> Some (NewServiceError RequestValidationFailed [''Error'', e])
      | None \<Rightarrow>
          if po_Op p \<noteq> PatchOpReplace \<and> po_Op p \<noteq> PatchOpAdd \<and> po_Op p \<noteq> PatchOpRemove
          then Some (NewServiceError InvalidPatchOperation
                 [''Operation'', PatchOp_String (po_Op p), ''AllowedOperations'', Join [''replace'', ''add'', ''remove''] '', ''])
          else if po_Path p = ''''
          then Some (NewServiceError InvalidJSONRequest [''Error'', ''Invalid patch path''])
          else if \<not> isAllowedPatch allowedPatches (po_Op p) (po_Path p)
          then Some (NewServiceError UnallowedPatch [''Operation'', PatchOp_String (po_Op p), ''Path'', po_Path p])
          else None)"

definition verifyPatches :: "(PatchOperation \<Rightarrow> string option) \<Rightarrow> PatchOperation list \<Rightarrow> allowedPatch list \<Rightarrow> go_error option" where
  "verifyPatches validate patches allowedPatches = efirst (patch_error validate allowedPatches) patches"

definition allow :: "string \<Rightarrow> bool \<Rightarrow> PatchOp \<Rightarrow> allowedPatch" where
  "allow path pre op = \<lparr>ap_Path = path, ap_Op = op, ap_Prefix = pre\<rparr>"

definition allow_all :: "string \<Rightarrow> bool \<Rightarrow> allowedPatch list" where
  "allow_all path pre = map (allow path pre) [PatchOpAdd, PatchOpRemove, PatchOpReplace]"

definition allowedCollectionPatches :: "allowedPatch list" where
  "allowedCollectionPatches =
     [allow ''/name'' False PatchOpReplace] @ allow_all ''/description'' False @ allow_all ''/tags'' True @
     allow_all ''/custom'' True @ [allow ''/category'' False PatchOpReplace, allow ''/benchmarks'' True PatchOpReplace] @
     allow_all ''/pass_criteria'' False @ allow_all ''/domains'' True @ allow_all ''/tasks'' True @
     allow_all ''/modalities'' True @ allow_all ''/industries'' True @ allow_all ''/evaluation_targets'' True @
     map (allow ''/pinned_order'' False) [PatchOpAdd, PatchOpReplace]"

definition allowedProviderPatches :: "allowedPatch list" where
  "allowedProviderPatches =
     [allow ''/name'' False PatchOpReplace] @ allow_all ''/title'' False @ allow_all ''/description'' False @
     allow_all ''/tags'' True @ allow_all ''/custom'' True @
     [allow ''/runtime'' True PatchOpReplace, allow ''/benchmarks'' True PatchOpReplace] @ allow_all ''/agent'' True"

section \<open>Bodies\<close>

text \<open>The validator reports a list of field errors, or (for a value it cannot inspect) another error.\<close>

record field_error =
  fe_Tag :: string
  fe_Field :: string
  fe_Param :: string
  fe_StructNamespace :: string

datatype validation_failure = FieldErrors "field_error list" string | OtherFailure string

definition isTestDataRefSourceField :: "string \<Rightarrow> bool" where
  "isTestDataRefSourceField f \<longleftrightarrow> f \<in> {''s3'', ''pvc'', ''git'', ''hf''}"

definition postProcessingDataRefName :: "field_error \<Rightarrow> string" where
  "postProcessingDataRefName e =
     (if Contains (fe_StructNamespace e) ''.ResultsDataRef.'' then ''results_data_ref''
      else if Contains (fe_StructNamespace e) ''.CalibrationDataRef['' then ''calibration_data_ref''
      else '''')"

definition source_field_of_test_data :: "field_error \<Rightarrow> bool" where
  "source_field_of_test_data e \<longleftrightarrow>
     isTestDataRefSourceField (fe_Field e) \<and> Contains (fe_StructNamespace e) ''TestDataRef.''"

text \<open>The switch on the tag of the first error; None is the fall-through to the text of all errors.\<close>

definition format_first :: "field_error \<Rightarrow> string option" where
  "format_first e =
     (let tag = fe_Tag e; f = fe_Field e; refName = postProcessingDataRefName e
      in if tag = ''required''
         then (if f = ''operations'' \<or> f = ''confidence_interval'' then Some ''operations must contain at least one operation''
               else if f = ''results_data_ref'' then Some ''results_data_ref is required'' else None)
         else if tag = ''operation_order_matches_operations''
         then Some ''operation_order must list each configured operation exactly once''
         else if tag = ''oneof''
         then Some (f @ '' must be one of: '' @ Join (Split (CHR '' '') (fe_Param e)) '', '')
         else if tag = ''excluded_with''
         then (if refName \<noteq> ''''
               then Some (if refName = ''calibration_data_ref''
                          then ''calibration_data_ref: exactly one of s3, pvc, git, or hf must be set''
                          else refName @ '': exactly one data source must be set'')
               else if source_field_of_test_data e then Some ''test_data_ref: exactly one of s3, pvc, git, or hf must be set''
               else if f = ''primary_score'' then Some ''primary_score is not allowed when results_data_ref.eval_job is set''
               else None)
         else if tag = ''required_without_all''
         then (if refName \<noteq> ''''
               then Some (if refName = ''calibration_data_ref''
                          then ''calibration_data_ref: one of s3, pvc, git, or hf must be set''
                          else refName @ '': exactly one data source must be set'')
               else if source_field_of_test_data e then Some ''test_data_ref: one of s3, pvc, git, or hf must be set''
               else None)
         else if tag = ''required_without''
         then (if f = ''primary_score'' then Some ''primary_score is required when results_data_ref.eval_job is not set'' else None)
         else if tag = ''category_or_domains''
         then Some ''either category or a non-empty domains array must be provided''
         else if tag = ''git_http_with_secret''
         then Some (if fe_Param e \<noteq> '''' then fe_Param e else ''git url with credentials must use https scheme'')
         else if tag = ''hardware_config_exclusive''
         then (if fe_Param e \<noteq> '''' then Some (''hardware_config: '' @ fe_Param e) else None)
         else None)"

definition formatValidationError :: "field_error list \<Rightarrow> string \<Rightarrow> string" where
  "formatValidationError errs text =
     (case errs of [] \<Rightarrow> '''' | e # _ \<Rightarrow> (case format_first e of None \<Rightarrow> text | Some t \<Rightarrow> t))"

definition validation_text :: "validation_failure \<Rightarrow> string" where
  "validation_text v = (case v of FieldErrors errs text \<Rightarrow> formatValidationError errs text | OtherFailure t \<Rightarrow> t)"

text \<open>A decoder and a validator for the bodies of one type.\<close>

record 'v codec_of =
  cd_Decode :: "string \<Rightarrow> string + 'v"
  cd_Validate :: "'v \<Rightarrow> validation_failure option"

definition Unmarshal :: "'v codec_of \<Rightarrow> string \<Rightarrow> go_error + 'v" where
  "Unmarshal cd jsonBytes =
     (case cd_Decode cd jsonBytes of
        Inl e \<Rightarrow> Inl (NewServiceError InvalidJSONRequest [''Error'', e])
      | Inr v \<Rightarrow> (case cd_Validate cd v of
            Some f \<Rightarrow> Inl (NewServiceError RequestValidationFailed [''Error'', validation_text f])
          | None \<Rightarrow> Inr v))"

definition read_body :: "'v codec_of \<Rightarrow> http_request \<Rightarrow> go_error + 'v" where
  "read_body cd r = ebind (rq_Body r) (Unmarshal cd)"

section \<open>Lemmas on requests\<close>

lemma hex_value_upper_hex [simp]: "n < 16 \<Longrightarrow> hex_value (upper_hex n) = Some n"
  by (auto simp: hex_value_def upper_hex_def Let_def of_char_of)

lemma escape_char_unescape [simp]: "QueryUnescape (escape_char c @ s) = map_option ((#) c) (QueryUnescape s)"
proof (cases "unreserved c")
  case True
  then have "c \<noteq> CHR ''%''" "c \<noteq> CHR ''+''" by (auto simp: unreserved_def Let_def)
  with True show ?thesis by (simp add: escape_char_def Let_def)
next
  case False
  have "char_of (16 * ((of_char c :: nat) div 16) + of_char c mod 16) = c" by simp
  moreover have "(of_char c :: nat) div 16 < 16" using nat_of_char_less_256[of c] by linarith
  ultimately show ?thesis using False by (simp add: escape_char_def Let_def)
qed

lemma QueryUnescape_escape [simp]: "QueryUnescape (QueryEscape s) = Some s"
  unfolding QueryEscape_def by (induction s) auto

lemma int64_id: "- (2 ^ 63) \<le> n \<Longrightarrow> n < 2 ^ 63 \<Longrightarrow> int64 n = n"
  unfolding int64_def by (simp add: sint_sbintrunc' signed_take_bit_int_eq_self)

lemma verifyPatches_None_iff:
  "verifyPatches validate patches allowed = None \<longleftrightarrow> (\<forall>p \<in> set patches. patch_error validate allowed p = None)"
  by (simp add: verifyPatches_def efirst_None_iff)

lemma echeck_simps [simp]: "echeck None = Inr ()" "echeck (Some e) = Inl e"
  by (simp_all add: echeck_def)

end
