(* ===== verification/Service_Config.thy ===== *)
theory Service_Config
  imports Api Requests
begin

text \<open>
  The configuration the handlers and the server read (internal/eval_hub/config): the sections as
  records, the effective values with their defaults, and the checks at start-up. Durations are
  integers (nanoseconds). Fields of type tls.Config, which are set at run time and never read from a
  file, and the untyped database section are left out. \<open>net/url\<close> is an argument.
\<close>

section \<open>URLs\<close>

record go_url =
  u_Scheme :: string
  u_User :: "string option"
  u_Host :: string
  u_EscapedPath :: string
  u_RawQuery :: string
  u_Fragment :: string

record url_package =
  up_Parse :: "string \<Rightarrow> string + go_url"
  up_String :: "go_url \<Rightarrow> string"
  up_Hostname :: "go_url \<Rightarrow> string"
  up_Port :: "go_url \<Rightarrow> string"

section \<open>Sections\<close>

record ServiceConfig =
  sv_Version :: string
  sv_Build :: string
  sv_BuildDate :: string
  sv_GitHash :: string
  sv_Port :: int
  sv_Host :: string
  sv_TerminationFile :: string
  sv_EvalInitImage :: string
  sv_LocalMode :: bool
  sv_TLSCertFile :: string
  sv_TLSKeyFile :: string
  sv_ReadTimeout :: int
  sv_WriteTimeout :: int
  sv_IdleTimeout :: int
  sv_ReadHeaderTimeout :: int
  sv_MaxHeaderBytes :: int
  sv_MaxRequestBodyBytes :: int
  sv_MaxLogResponseBytes :: int
  sv_LogStreamTimeout :: int

record OTELConfig =
  ot_Enabled :: bool
  ot_ExporterType :: string
  ot_ExporterEndpoint :: string
  ot_ExporterInsecure :: bool
  ot_SamplingRatio :: "rat option"
  ot_EnableTracing :: bool
  ot_TracerTimeout :: int
  ot_TracerBatchInterval :: int
  ot_EnableMetrics :: bool
  ot_EnableLogs :: bool
  ot_EnableJobContainerLogs :: bool
  ot_ServiceName :: string
  ot_ServiceVersion :: string
  ot_AdditionalAttributes :: "string gomap"
  ot_EnableECSResourceDetection :: bool
  ot_DisableRedirectOTELLogs :: bool
  ot_DisableDatabaseOTELScans :: bool
  ot_MetricExportInterval :: int

record PrometheusConfig =
  pm_Enabled :: bool
  pm_Port :: int
  pm_Host :: string

record MLFlowConfig =
  mf_TrackingURI :: string
  mf_HTTPTimeout :: int
  mf_CACertPath :: string
  mf_TokenPath :: string
  mf_Token :: string
  mf_Workspace :: string

record LocalConfig =
  lc_JobCacheSweepInterval :: int
  lc_JobCacheEntryTTL :: int

record EvalHubClientConfig =
  eh_BaseURL :: string
  eh_HTTPTimeout :: int
  eh_CACertPath :: string
  eh_InsecureSkipVerify :: bool
  eh_Token :: string
  eh_TokenCacheTimeout :: int

record SidecarMLFlowConfig =
  sm_TrackingURI :: string
  sm_TokenPath :: string
  sm_Workspace :: string
  sm_TokenCacheTimeout :: int
  sm_HTTPTimeout :: int
  sm_CACertPath :: string

record SidecarOCIConfig =
  so_CACertPath :: string
  so_HTTPTimeout :: int

record SidecarModelConfig =
  sl_URL :: string
  sl_AuthSecretMountPath :: string
  sl_HTTPTimeout :: int
  sl_InsecureSkipVerify :: bool

record InitContainerConfig =
  ic_IsGitJob :: bool

record ResourceRequirementDef =
  rd_CPU :: string
  rd_Memory :: string

record ResourceRequirements =
  rr_Requests :: "ResourceRequirementDef option"
  rr_Limits :: "ResourceRequirementDef option"

record SidecarContainerConfig =
  sn_Image :: string
  sn_Resources :: "ResourceRequirements option"

record SidecarConfig =
  sd_LocalMode :: bool
  sd_Local :: "LocalConfig option"
  sd_BaseURL :: string
  sd_Port :: int
  sd_EvalHub :: "EvalHubClientConfig option"
  sd_MLFlow :: "SidecarMLFlowConfig option"
  sd_OCI :: "SidecarOCIConfig option"
  sd_Model :: "SidecarModelConfig option"
  sd_InitContainer :: "InitContainerConfig option"
  sd_SidecarContainer :: "SidecarContainerConfig option"
  sd_OTEL :: "OTELConfig option"

record Config =
  cf_Service :: "ServiceConfig option"
  cf_MLFlow :: "MLFlowConfig option"
  cf_OTEL :: "OTELConfig option"
  cf_Prometheus :: "PrometheusConfig option"
  cf_Sidecar :: "SidecarConfig option"

section \<open>Switches\<close>

definition otel_flag :: "(OTELConfig \<Rightarrow> bool) \<Rightarrow> Config option \<Rightarrow> bool" where
  "otel_flag p c = (case c of None \<Rightarrow> False | Some cfg \<Rightarrow> (case cf_OTEL cfg of None \<Rightarrow> False | Some o1 \<Rightarrow> p o1))"

definition IsOTELEnabled :: "Config option \<Rightarrow> bool" where
  "IsOTELEnabled c = otel_flag ot_Enabled c"

definition IsOTELMetricsEnabled :: "Config option \<Rightarrow> bool" where
  "IsOTELMetricsEnabled c \<longleftrightarrow> IsOTELEnabled c \<and> otel_flag ot_EnableMetrics c"

definition IsOTELStorageScansEnabled :: "Config option \<Rightarrow> bool" where
  "IsOTELStorageScansEnabled c \<longleftrightarrow> IsOTELEnabled c \<and> \<not> otel_flag ot_DisableDatabaseOTELScans c"

definition IsOTELLogsEnabled :: "Config option \<Rightarrow> bool" where
  "IsOTELLogsEnabled c \<longleftrightarrow> IsOTELEnabled c \<and> otel_flag ot_EnableLogs c"

definition IsOTELJobContainerLogsEnabled :: "Config option \<Rightarrow> bool" where
  "IsOTELJobContainerLogsEnabled c \<longleftrightarrow> IsOTELLogsEnabled c \<and> otel_flag ot_EnableJobContainerLogs c"

definition IsPrometheusEnabled :: "Config option \<Rightarrow> bool" where
  "IsPrometheusEnabled c =
     (case c of None \<Rightarrow> False | Some cfg \<Rightarrow> (case cf_Prometheus cfg of None \<Rightarrow> False | Some p \<Rightarrow> pm_Enabled p))"

definition RequiresIdentityHeaders :: "Config option \<Rightarrow> bool" where
  "RequiresIdentityHeaders c =
     (case c of None \<Rightarrow> False | Some cfg \<Rightarrow> (case cf_Service cfg of None \<Rightarrow> False | Some s \<Rightarrow> \<not> sv_LocalMode s))"

section \<open>Effective values\<close>

definition second :: int where "second = 1000000000"
definition DefaultMaxRequestBodyBytes :: int where "DefaultMaxRequestBodyBytes = 10 * 2 ^ 20"
definition DefaultMaxLogResponseBytes :: int where "DefaultMaxLogResponseBytes = 50 * 2 ^ 20"
definition DefaultLogStreamTimeout :: int where "DefaultLogStreamTimeout = 5 * 60 * second"
definition DefaultMaxHeaderBytes :: int where "DefaultMaxHeaderBytes = 2 ^ 20"
definition DefaultSidecarBaseURL :: string where "DefaultSidecarBaseURL = ''http://localhost:8080''"

definition positive_or :: "int \<Rightarrow> (ServiceConfig \<Rightarrow> int) \<Rightarrow> ServiceConfig option \<Rightarrow> int" where
  "positive_or dflt f c = (case c of None \<Rightarrow> dflt | Some s \<Rightarrow> if f s \<le> 0 then dflt else f s)"

definition EffectiveReadTimeout :: "ServiceConfig option \<Rightarrow> int" where
  "EffectiveReadTimeout = positive_or (15 * second) sv_ReadTimeout"

definition EffectiveWriteTimeout :: "ServiceConfig option \<Rightarrow> int" where
  "EffectiveWriteTimeout = positive_or (15 * second) sv_WriteTimeout"

definition EffectiveIdleTimeout :: "ServiceConfig option \<Rightarrow> int" where
  "EffectiveIdleTimeout = positive_or (60 * second) sv_IdleTimeout"

definition EffectiveReadHeaderTimeout :: "ServiceConfig option \<Rightarrow> int" where
  "EffectiveReadHeaderTimeout = positive_or (15 * second) sv_ReadHeaderTimeout"

definition EffectiveMaxHeaderBytes :: "ServiceConfig option \<Rightarrow> int" where
  "EffectiveMaxHeaderBytes = positive_or DefaultMaxHeaderBytes sv_MaxHeaderBytes"

definition EffectiveLogStreamTimeout :: "ServiceConfig option \<Rightarrow> int" where
  "EffectiveLogStreamTimeout = positive_or DefaultLogStreamTimeout sv_LogStreamTimeout"

definition bytes_or :: "int \<Rightarrow> (ServiceConfig \<Rightarrow> int) \<Rightarrow> ServiceConfig option \<Rightarrow> int" where
  "bytes_or dflt f c =
     (case c of None \<Rightarrow> dflt | Some s \<Rightarrow> if f s = -1 then -1 else if f s = 0 then dflt else f s)"

definition EffectiveMaxRequestBodyBytes :: "ServiceConfig option \<Rightarrow> int" where
  "EffectiveMaxRequestBodyBytes = bytes_or DefaultMaxRequestBodyBytes sv_MaxRequestBodyBytes"

definition EffectiveMaxLogResponseBytes :: "ServiceConfig option \<Rightarrow> int" where
  "EffectiveMaxLogResponseBytes = bytes_or DefaultMaxLogResponseBytes sv_MaxLogResponseBytes"

definition EffectivePort :: "PrometheusConfig option \<Rightarrow> int" where
  "EffectivePort c = (case c of None \<Rightarrow> 8081 | Some p \<Rightarrow> if pm_Port p \<le> 0 then 8081 else pm_Port p)"

definition EffectiveHost :: "PrometheusConfig option \<Rightarrow> string" where
  "EffectiveHost c = (case c of None \<Rightarrow> ''0.0.0.0'' | Some p \<Rightarrow> if pm_Host p = '''' then ''0.0.0.0'' else pm_Host p)"

definition EffectiveTrackingURI :: "MLFlowConfig option \<Rightarrow> string" where
  "EffectiveTrackingURI c = (case c of None \<Rightarrow> '''' | Some m \<Rightarrow> TrimSpace (mf_TrackingURI m))"

definition EffectiveBaseURL :: "SidecarConfig \<Rightarrow> string" where
  "EffectiveBaseURL sc = (if sd_BaseURL sc \<noteq> '''' then sd_BaseURL sc else DefaultSidecarBaseURL)"

section \<open>Checks\<close>

definition TLSEnabled :: "ServiceConfig \<Rightarrow> bool" where
  "TLSEnabled c \<longleftrightarrow> sv_TLSCertFile c \<noteq> '''' \<and> sv_TLSKeyFile c \<noteq> ''''"

definition ValidateTLSConfig :: "ServiceConfig \<Rightarrow> string option" where
  "ValidateTLSConfig c =
     (if (sv_TLSCertFile c \<noteq> '''') \<noteq> (sv_TLSKeyFile c \<noteq> '''')
      then Some ''partial TLS config: both TLSCertFile and TLSKeyFile must be provided'' else None)"

definition ValidateHTTPConfig :: "ServiceConfig option \<Rightarrow> string option" where
  "ValidateHTTPConfig c =
     (case c of
        None \<Rightarrow> None
      | Some s \<Rightarrow>
          if sv_ReadTimeout s < 0 then Some ''service.read_timeout must not be negative''
          else if sv_WriteTimeout s < 0 then Some ''service.write_timeout must not be negative''
          else if sv_IdleTimeout s < 0 then Some ''service.idle_timeout must not be negative''
          else if sv_ReadHeaderTimeout s < 0 then Some ''service.read_header_timeout must not be negative''
          else if sv_MaxHeaderBytes s < 0 then Some ''service.max_header_bytes must not be negative''
          else if sv_MaxRequestBodyBytes s < -1
          then Some ''service.max_request_body_bytes must be -1 (unlimited) or >= 0''
          else if sv_MaxLogResponseBytes s < -1
          then Some ''service.max_log_response_bytes must be -1 (unlimited) or >= 0''
          else if sv_LogStreamTimeout s < 0 then Some ''service.log_stream_timeout must not be negative''
          else None)"

text \<open>
  strconv.ParseInt with base 10 and 32 bits on the port of a URL, which consists of digits. The text
  of its error is an argument.
\<close>

definition ParseInt32 :: "string \<Rightarrow> int option" where
  "ParseInt32 s = (case Atoi s of None \<Rightarrow> None | Some n \<Rightarrow> if - (2 ^ 31) \<le> n \<and> n < 2 ^ 31 then Some n else None)"

definition ResolvePort :: "url_package \<Rightarrow> string \<Rightarrow> SidecarConfig \<Rightarrow> string + SidecarConfig" where
  "ResolvePort up range_error sc =
     (let url = sd_BaseURL sc
      in if url = '''' then Inr sc
         else (case up_Parse up url of
                 Inl e \<Rightarrow> Inl (''invalid sidecar base URL '' @ Quote url @ '': '' @ e)
               | Inr u \<Rightarrow>
                   if u_Scheme u \<noteq> ''http'' \<and> u_Scheme u \<noteq> ''https''
                   then Inl (''sidecar base URL '' @ Quote url @ '' must use http or https scheme'')
                   else if up_Hostname up u = ''''
                   then Inl (''sidecar base URL '' @ Quote url @ '' must include a hostname'')
                   else if up_Port up u = ''''
                   then Inl (''sidecar base URL '' @ Quote url @ '' must include an explicit port'')
                   else (case ParseInt32 (up_Port up u) of
                           None \<Rightarrow> Inl (''invalid port in sidecar base URL '' @ Quote url @ '': '' @ range_error)
                         | Some port \<Rightarrow>
                             if port < 1 \<or> port > 65535
                             then Inl (''sidecar port '' @ Itoa port @ '' out of range (1-65535)'')
                             else Inr (sc\<lparr>sd_Port := port\<rparr>))))"

section \<open>Lemmas on the configuration\<close>

text \<open>A configuration that passes the checks has positive timeouts and limits that are positive or off.\<close>

lemma positive_or_positive: "0 < dflt \<Longrightarrow> 0 < positive_or dflt f c"
  by (auto simp: positive_or_def split: option.splits)

lemma checked_limits:
  assumes "ValidateHTTPConfig c = None"
  shows "EffectiveMaxRequestBodyBytes c = -1 \<or> 0 < EffectiveMaxRequestBodyBytes c"
    and "EffectiveMaxLogResponseBytes c = -1 \<or> 0 < EffectiveMaxLogResponseBytes c"
  using assms
  by (auto simp: ValidateHTTPConfig_def EffectiveMaxRequestBodyBytes_def EffectiveMaxLogResponseBytes_def bytes_or_def
      DefaultMaxRequestBodyBytes_def DefaultMaxLogResponseBytes_def split: option.splits if_splits)

lemma ResolvePort_range:
  "ResolvePort up re sc = Inr sc' \<Longrightarrow> sd_BaseURL sc \<noteq> '''' \<Longrightarrow> 1 \<le> sd_Port sc' \<and> sd_Port sc' \<le> 65535"
  by (auto simp: ResolvePort_def Let_def split: sum.splits option.splits if_splits)

end
