(* ===== verification/Sidecar_Urls.thy ===== *)
theory Sidecar_Urls
  imports Service_Config Benchmarks
begin

text \<open>
  The rewriting of sidecar URLs in status messages (pkg/api/sidecar_url_rewrite.go,
  handlers/sidecar_url_rewrite.go): a message that quotes the sidecar's localhost URL is stored with
  the URL of the service the path belongs to.
\<close>

section \<open>Paths\<close>

definition TrimRight_slash :: "string \<Rightarrow> string" where
  "TrimRight_slash s = rev (dropWhile (\<lambda>c. c = CHR ''/'') (rev s))"

definition Trim_slash :: "string \<Rightarrow> string" where
  "Trim_slash s = TrimRight_slash (dropWhile (\<lambda>c. c = CHR ''/'') s)"

definition splitPathSegments :: "string \<Rightarrow> string list" where
  "splitPathSegments p =
     (let q = Trim_slash p in if q = '''' then [] else filter (\<lambda>s. s \<noteq> '''') (Split (CHR ''/'') q))"

text \<open>The loop over the positions at which the repository may start.\<close>

definition ociPathMatchesRepository :: "string \<Rightarrow> string \<Rightarrow> bool" where
  "ociPathMatchesRepository path repository =
     (let repoParts = splitPathSegments repository; pathParts = splitPathSegments path; n = length repoParts
      in if n = 0 then False
         else if length pathParts < n then False
         else list_ex (\<lambda>i. take n (drop i pathParts) = repoParts \<and> (i = 0 \<or> pathParts ! (i - 1) = ''v2''))
                [0..<Suc (length pathParts - n)])"

definition mlflowPathMatchesPrefix :: "string \<Rightarrow> string \<Rightarrow> bool" where
  "mlflowPathMatchesPrefix path pre \<longleftrightarrow> path = pre \<or> HasPrefix path (pre @ ''/'')"

definition isMLflowProxyPath :: "string \<Rightarrow> bool" where
  "isMLflowProxyPath path \<longleftrightarrow>
     mlflowPathMatchesPrefix path ''/api/2.0/mlflow'' \<or> mlflowPathMatchesPrefix path ''/api/3.0/mlflow'' \<or>
     mlflowPathMatchesPrefix path ''/api/2.0/mlflow-artifacts''"

section \<open>Targets\<close>

record SidecarURLTargets =
  tg_EvalHub :: string
  tg_MLFlow :: string
  tg_OCI :: string
  tg_OCIRepository :: string
  tg_Model :: string

definition target :: "string \<Rightarrow> string option" where
  "target t = (if t = '''' then None else Some t)"

definition resolveSidecarURLTarget :: "string \<Rightarrow> SidecarURLTargets \<Rightarrow> string option" where
  "resolveSidecarURLTarget path targets =
     (if HasPrefix path ''/api/v1/evaluations/'' then target (tg_EvalHub targets)
      else if isMLflowProxyPath path then target (tg_MLFlow targets)
      else if ociPathMatchesRepository path (tg_OCIRepository targets) then target (tg_OCI targets)
      else target (tg_Model targets))"

definition stripURLHost :: "go_url \<Rightarrow> string" where
  "stripURLHost u =
     (let out = u_EscapedPath u @ (if u_RawQuery u \<noteq> '''' then ''?'' @ u_RawQuery u else '''') @
                (if u_Fragment u \<noteq> '''' then ''#'' @ u_Fragment u else '''')
      in if out = '''' then ''/'' else out)"

definition rewriteSidecarURL :: "url_package \<Rightarrow> string \<Rightarrow> string \<Rightarrow> SidecarURLTargets \<Rightarrow> string" where
  "rewriteSidecarURL up urlStr sidecarHost targets =
     (case up_Parse up urlStr of
        Inl e \<Rightarrow> urlStr
      | Inr u \<Rightarrow>
          if u_Host u = '''' then urlStr
          else if u_Host u \<noteq> sidecarHost then urlStr
          else (case resolveSidecarURLTarget (u_EscapedPath u) targets of
                  None \<Rightarrow> stripURLHost u
                | Some targetBase \<Rightarrow>
                    (case up_Parse up targetBase of
                       Inl e \<Rightarrow> stripURLHost u
                     | Inr tu \<Rightarrow>
                         if u_Host tu = '''' then stripURLHost u
                         else up_String up (u\<lparr>u_Scheme := u_Scheme tu, u_Host := u_Host tu, u_User := None\<rparr>))))"

section \<open>Messages\<close>

fun Index :: "string \<Rightarrow> string \<Rightarrow> nat option" where
  "Index [] p = (if p = [] then Some 0 else None)"
| "Index (c # s) p = (if prefix p (c # s) then Some 0 else map_option Suc (Index s p))"

definition blank :: "char \<Rightarrow> bool" where
  "blank c \<longleftrightarrow> c \<in> {CHR '' '', CHR 0x09, CHR 0x0A, CHR 0x0D}"

text \<open>
  The loop over the occurrences of the base URL: the URL extends to the next blank. Not returning is
  the value None.
\<close>

partial_function (option) rewrite_loop :: "string \<Rightarrow> (string \<Rightarrow> string) \<Rightarrow> string \<Rightarrow> string option" where
  "rewrite_loop base rewrite remaining =
     (case Index remaining base of
        None \<Rightarrow> Some remaining
      | Some i \<Rightarrow>
          (let rest = drop i remaining
           in Option.bind (rewrite_loop base rewrite (dropWhile (\<lambda>c. \<not> blank c) rest))
                (\<lambda>out. Some (take i remaining @ rewrite (takeWhile (\<lambda>c. \<not> blank c) rest) @ out))))"

declare rewrite_loop.simps [code]

definition RewriteSidecarURLsInMessage :: "url_package \<Rightarrow> string \<Rightarrow> string \<Rightarrow> SidecarURLTargets \<Rightarrow> string option" where
  "RewriteSidecarURLsInMessage up message sidecarBaseURL targets =
     (let base = TrimRight_slash (TrimSpace sidecarBaseURL)
      in if message = '''' \<or> base = '''' \<or> \<not> Contains message base then Some message
         else (case up_Parse up base of
                 Inl e \<Rightarrow> Some message
               | Inr sidecarURL \<Rightarrow>
                   if u_Host sidecarURL = '''' then Some message
                   else rewrite_loop base (\<lambda>u. rewriteSidecarURL up u (u_Host sidecarURL) targets) message))"

definition rewriteMessageInfo ::
  "url_package \<Rightarrow> string \<Rightarrow> SidecarURLTargets \<Rightarrow> MessageInfo option \<Rightarrow> MessageInfo option option" where
  "rewriteMessageInfo up sidecarBaseURL targets m =
     (case m of
        None \<Rightarrow> Some None
      | Some i \<Rightarrow>
          if mi_Message i = '''' then Some m
          else (case RewriteSidecarURLsInMessage up (mi_Message i) sidecarBaseURL targets of
                  None \<Rightarrow> None
                | Some persisted \<Rightarrow> Some (Some (i\<lparr>mi_Message := persisted\<rparr>))))"

definition RewriteSidecarURLsInMessages ::
  "url_package \<Rightarrow> string \<Rightarrow> SidecarURLTargets \<Rightarrow> BenchmarkStatusEvent \<Rightarrow> BenchmarkStatusEvent option" where
  "RewriteSidecarURLsInMessages up sidecarBaseURL targets e =
     (case rewriteMessageInfo up sidecarBaseURL targets (be_ErrorMessage e) of
        None \<Rightarrow> None
      | Some em \<Rightarrow>
          (case rewriteMessageInfo up sidecarBaseURL targets (be_WarningMessage e) of
             None \<Rightarrow> None
           | Some wm \<Rightarrow> Some (e\<lparr>be_ErrorMessage := em, be_WarningMessage := wm\<rparr>)))"

section \<open>Targets of a job\<close>

text \<open>
  The instance name of the environment variable EVALHUB_INSTANCE_NAME and the content of the
  namespace file, which is read once (an unreadable file counts as empty), are arguments.
\<close>

record pod_env =
  pe_InstanceName :: string
  pe_NamespaceFile :: "string option"

definition readInClusterNamespace :: "pod_env \<Rightarrow> string" where
  "readInClusterNamespace pe = (case pe_NamespaceFile pe of None \<Rightarrow> '''' | Some content \<Rightarrow> TrimSpace content)"

definition evalHubServiceURL :: "pod_env \<Rightarrow> string \<Rightarrow> string" where
  "evalHubServiceURL pe tenantNamespace =
     (let instanceName = TrimSpace (pe_InstanceName pe)
      in if instanceName = '''' then ''''
         else
           let ns0 = readInClusterNamespace pe;
               saNamespace = (if ns0 = '''' then TrimSpace tenantNamespace else ns0)
           in if saNamespace = '''' then ''''
              else ''https://'' @ instanceName @ ''.'' @ saNamespace @ ''.svc.cluster.local:8443'')"

definition normalizeRegistryURL :: "string \<Rightarrow> string" where
  "normalizeRegistryURL host0 =
     (let host = TrimSpace host0
      in if host = '''' then ''''
         else if \<not> HasPrefix host ''http://'' \<and> \<not> HasPrefix host ''https://'' then ''https://'' @ host
         else host)"

definition tenantFromJob :: "EvaluationJobResource option \<Rightarrow> string" where
  "tenantFromJob job = (case job of None \<Rightarrow> '''' | Some j \<Rightarrow> r_Tenant (ej_Resource j))"

definition mlflowTrackingURIFromConfig :: "Config option \<Rightarrow> string" where
  "mlflowTrackingURIFromConfig cfg = (case cfg of None \<Rightarrow> '''' | Some c \<Rightarrow> EffectiveTrackingURI (cf_MLFlow c))"

definition sidecarURLTargets :: "pod_env \<Rightarrow> Config option \<Rightarrow> EvaluationJobResource option \<Rightarrow> SidecarURLTargets" where
  "sidecarURLTargets pe cfg job =
     (let targets = \<lparr>tg_EvalHub = evalHubServiceURL pe (tenantFromJob job), tg_MLFlow = mlflowTrackingURIFromConfig cfg,
                     tg_OCI = '''', tg_OCIRepository = '''', tg_Model = ''''\<rparr>
      in (case job of
            None \<Rightarrow> targets
          | Some j \<Rightarrow>
              let t1 = (case ec_Model (ej_Config j) of
                          None \<Rightarrow> targets | Some m \<Rightarrow> targets\<lparr>tg_Model := TrimSpace (mr_URL m)\<rparr>)
              in (case Option.bind (ec_Exports (ej_Config j)) ee_OCI of
                    None \<Rightarrow> t1
                  | Some oci \<Rightarrow>
                      t1\<lparr>tg_OCIRepository := TrimSpace (oc_OCIRepository (eo_Coordinates oci)),
                         tg_OCI := normalizeRegistryURL (oc_OCIHost (eo_Coordinates oci))\<rparr>)))"

definition sidecarBaseURL :: "Config option \<Rightarrow> string" where
  "sidecarBaseURL cfg =
     (case cfg of
        None \<Rightarrow> DefaultSidecarBaseURL
      | Some c \<Rightarrow> (case cf_Sidecar c of None \<Rightarrow> DefaultSidecarBaseURL | Some sc \<Rightarrow> EffectiveBaseURL sc))"

definition rewriteSidecarURLsInBenchmarkStatus ::
  "url_package \<Rightarrow> pod_env \<Rightarrow> Config option \<Rightarrow> EvaluationJobResource option \<Rightarrow> BenchmarkStatusEvent \<Rightarrow>
   BenchmarkStatusEvent option" where
  "rewriteSidecarURLsInBenchmarkStatus up pe cfg job event =
     RewriteSidecarURLsInMessages up (sidecarBaseURL cfg) (sidecarURLTargets pe cfg job) event"

section \<open>The loop returns\<close>

lemma Index_Some: "Index s p = Some i \<Longrightarrow> prefix p (drop i s) \<and> i \<le> length s"
  by (induction s arbitrary: i) (auto split: if_splits)

lemma trim_left_not_prefix:
  assumes "length s \<le> n" and "[] \<notin> set ws" and "w \<in> set ws"
  shows "\<not> prefix w (trim_left ws n s)"
  using assms
proof (induction ws n s rule: trim_left.induct)
  case (2 ws n s)
  show ?case
  proof (cases "find (\<lambda>w. prefix w s) ws")
    case None
    then have "\<not> prefix w s" using 2 by (auto simp: find_None_iff)
    with None show ?thesis by simp
  next
    case (Some v)
    then have v: "v \<in> set ws" "prefix v s" by (auto simp: find_Some_iff)
    with 2 have "0 < length v" by auto
    with \<open>length s \<le> Suc n\<close> have "length (drop (length v) s) \<le> n" unfolding length_drop by linarith
    with Some 2 show ?thesis by simp
  qed
qed auto

lemma TrimSpace_starts_visible:
  assumes "TrimSpace s \<noteq> []"
  shows "\<not> blank (hd (TrimSpace s))"
proof -
  let ?l = "trim_left white_space (length s) s"
  have "suffix (rev (TrimSpace s)) (rev ?l)"
    by (simp add: TrimSpace_def Let_def trim_left_suffix)
  then have "prefix (TrimSpace s) ?l" by (simp add: suffix_to_prefix)
  then obtain t where t: "?l = TrimSpace s @ t" by (auto simp: prefix_def)
  have *: "\<not> prefix [c] ?l" if "[c] \<in> set white_space" for c
    using trim_left_not_prefix[of s "length s" white_space "[c]"] that by (simp add: white_space_def)
  have "{[CHR '' ''], [CHR 0x09], [CHR 0x0A], [CHR 0x0D]} \<subseteq> set white_space"
    by (simp add: white_space_def char_of_def bit_Suc_0_iff)
  then have "[c] \<in> set white_space" if "blank c" for c
    using that by (auto simp: blank_def)
  moreover have "prefix [hd (TrimSpace s)] ?l"
    using assms t by (metis append_Cons append_Nil hd_Cons_tl prefix_def)
  ultimately show ?thesis using * by blast
qed

lemma TrimRight_slash_prefix: "prefix (TrimRight_slash s) s"
  unfolding TrimRight_slash_def by (metis suffix_dropWhile suffix_to_prefix rev_rev_ident)

lemma rewrite_loop_returns:
  assumes "base \<noteq> []" and "\<not> blank (hd base)"
  shows "\<exists>out. rewrite_loop base rewrite remaining = Some out"
proof (induction "length remaining" arbitrary: remaining rule: less_induct)
  case less
  show ?case
  proof (cases "Index remaining base")
    case None
    then show ?thesis by (subst rewrite_loop.simps) simp
  next
    case (Some i)
    let ?rest = "drop i remaining"
    let ?next = "dropWhile (\<lambda>c. \<not> blank c) ?rest"
    from Some have "prefix base ?rest" using Index_Some by blast
    with assms obtain c cs where "?rest = c # cs" "\<not> blank c"
      by (metis append_is_Nil_conv hd_append2 list.collapse prefix_def)
    then have "length ?next < length remaining"
      using length_dropWhile_le[of "\<lambda>c. \<not> blank c" cs]
      by (metis dropWhile.simps(2) le_imp_less_Suc length_Cons length_drop diff_le_self less_le_trans)
    from less[OF this] obtain out where "rewrite_loop base rewrite ?next = Some out" by blast
    with Some show ?thesis by (subst rewrite_loop.simps) (simp add: Let_def)
  qed
qed

lemma RewriteSidecarURLsInMessage_returns: "RewriteSidecarURLsInMessage up message url targets \<noteq> None"
proof -
  let ?base = "TrimRight_slash (TrimSpace url)"
  have "\<not> blank (hd ?base)" if "?base \<noteq> []"
    using that TrimSpace_starts_visible TrimRight_slash_prefix[of "TrimSpace url"]
    by (metis hd_append2 prefix_def append_is_Nil_conv)
  then show ?thesis
    using rewrite_loop_returns[of ?base]
    by (fastforce simp: RewriteSidecarURLsInMessage_def Let_def split: sum.splits)
qed

lemma rewriteMessageInfo_returns: "rewriteMessageInfo up url targets m \<noteq> None"
  using RewriteSidecarURLsInMessage_returns[of up "mi_Message (the m)" url targets]
  by (auto simp: rewriteMessageInfo_def split: option.splits)

lemma rewrite_event_returns: "\<exists>e'. rewriteSidecarURLsInBenchmarkStatus up pe cfg job e = Some e'"
  by (simp add: rewriteSidecarURLsInBenchmarkStatus_def RewriteSidecarURLsInMessages_def rewriteMessageInfo_returns
      split: option.split)

text \<open>The rewriting touches the two messages of an event and nothing else.\<close>

lemma rewrite_event_frame:
  assumes "rewriteSidecarURLsInBenchmarkStatus up pe cfg job e = Some e'"
  shows "\<exists>em wm. e' = e\<lparr>be_ErrorMessage := em, be_WarningMessage := wm\<rparr>"
  using assms
  by (auto simp: rewriteSidecarURLsInBenchmarkStatus_def RewriteSidecarURLsInMessages_def split: option.splits)

end
