(* ===== verification/Effects.thy ===== *)
theory Effects
  imports Sidecar_Urls Postprocessing
begin

text \<open>
  What the handlers do besides computing: calls to the store, to the runtime, to MLflow and to the
  metrics. A handler is a function on a world, which holds the connection to the database, the log of
  the calls to the outside in their order, and the number of identifiers drawn so far.

  The runtime is reached through the interface abstractions.Runtime only. Starting a job gives it a
  handle on the store (abstractions.RuntimeStorage) with three operations; what it does with the handle
  before it returns is a tree (\<open>run_script\<close>) that may depend on every answer. A theorem about all
  trees covers every implementation of the interface. What a runtime does in the background after it
  has returned are requests of their own.
\<close>

section \<open>The log\<close>

datatype metric =
    JobCreated string string
  | JobCancelled string
  | RuntimeStartFailed string string
  | JobCompletion OverallState string
  | StateTransition string string string string
  | JobDuration string string int string
  | ActiveJobs int string
  | QueueDepth int string
  | EvaluationError string string string
  | BenchmarkDuration string string int string
  | BenchmarkCompletion string string string string

record CreateExperimentRequest =
  cx_Name :: string
  cx_ArtifactLocation :: string
  cx_Tags :: "ExperimentTag list"

datatype effect =
    Measured metric
  | ProfilesValidated "EvaluationBenchmarkConfig list"
  | JobStarted EvaluationJobResource "EvaluationBenchmarkConfig list"
  | ResourcesDeleted EvaluationJobResource
  | PhaseNotified EvaluationJobResource int State
  | ThresholdNotified EvaluationJobResource int string f32 f32
  | LogsStreamed EvaluationJobResource "EvaluationBenchmarkConfig list" "int option" EvaluationLogOptions
  | ResultsExported EvaluationJobResource
  | ContainerLogsExported EvaluationJobResource "EvaluationBenchmarkConfig list"
  | ExperimentRequested Tenant CreateExperimentRequest

section \<open>Computations on the world\<close>

record world =
  wd_conn :: conn
  wd_log :: "effect list"
  wd_ids :: nat

type_synonym 'a act = "world \<Rightarrow> (go_error + 'a) \<times> world"

definition areturn :: "'a \<Rightarrow> 'a act" where
  "areturn x w = (Inr x, w)"

definition athrow :: "go_error \<Rightarrow> 'a act" where
  "athrow e w = (Inl e, w)"

definition abind :: "'a act \<Rightarrow> ('a \<Rightarrow> 'b act) \<Rightarrow> 'b act" where
  "abind m f w = (case m w of (Inl e, w') \<Rightarrow> (Inl e, w') | (Inr x, w') \<Rightarrow> f x w')"

text \<open>\<open>attempt\<close> makes the error of a call a value, as in \<open>if err != nil\<close>.\<close>

definition attempt :: "'a act \<Rightarrow> (go_error + 'a) act" where
  "attempt m w = (case m w of (r, w') \<Rightarrow> (Inr r, w'))"

definition alift :: "go_error + 'a \<Rightarrow> 'a act" where
  "alift r w = (r, w)"

definition aguard :: "go_error option \<Rightarrow> unit act" where
  "aguard g = alift (echeck g)"

definition store :: "'a stm \<Rightarrow> 'a act" where
  "store m w = (case m (wd_conn w) of (r, c) \<Rightarrow> (r, w\<lparr>wd_conn := c\<rparr>))"

definition emit :: "effect \<Rightarrow> unit act" where
  "emit e w = (Inr (), w\<lparr>wd_log := wd_log w @ [e]\<rparr>)"

definition emits :: "effect list \<Rightarrow> unit act" where
  "emits es w = (Inr (), w\<lparr>wd_log := wd_log w @ es\<rparr>)"

definition history :: "effect list act" where
  "history w = (Inr (wd_log w), w)"

section \<open>The runtime\<close>

text \<open>
  The operations of a started job on the store. \<open>RunDone\<close> is the return value of RunEvaluationJob.
\<close>

datatype run_script =
    RunDone "go_error option"
  | RunGetProvider string "go_error + ProviderResource \<Rightarrow> run_script"
  | RunGetJob string "go_error + EvaluationJobResource \<Rightarrow> run_script"
  | RunReport string BenchmarkStatusEvent "go_error option \<Rightarrow> run_script"

text \<open>
  The answers of the runtime may depend on everything that was called before. The errors of
  DeleteEvaluationJobResources and of the notifications are only logged, so these calls have no
  answer.
\<close>

record runtime_ops =
  ro_Name :: string
  ro_ValidateHardwareProfiles :: "effect list \<Rightarrow> EvaluationBenchmarkConfig list \<Rightarrow> go_error option"
  ro_RunEvaluationJob :: "effect list \<Rightarrow> EvaluationJobResource \<Rightarrow> EvaluationBenchmarkConfig list \<Rightarrow> run_script"
  ro_StreamEvaluationLogs ::
    "effect list \<Rightarrow> EvaluationJobResource \<Rightarrow> EvaluationBenchmarkConfig list \<Rightarrow> int option \<Rightarrow> EvaluationLogOptions \<Rightarrow> string list"

section \<open>The handlers' dependencies\<close>

record mlflow_client =
  mc_Prepare :: "effect list \<Rightarrow> Tenant \<Rightarrow> string option"
  mc_EnsureWorkspace :: "effect list \<Rightarrow> Tenant \<Rightarrow> string option"
  mc_GetOrCreateExperiment :: "effect list \<Rightarrow> Tenant \<Rightarrow> CreateExperimentRequest \<Rightarrow> string + string"
  mc_GetExperimentsURL :: "Tenant \<Rightarrow> string"

record codecs =
  cd_job :: "EvaluationJobConfig codec_of"
  cd_event :: "BenchmarkStatusEvent codec_of"
  cd_collection :: "CollectionConfig codec_of"
  cd_provider :: "ProviderConfig codec_of"
  cd_post_processing :: "StandalonePostProcessingRequest codec_of"
  cd_patches :: "string \<Rightarrow> string + PatchOperation list"
  cd_patch_valid :: "PatchOperation \<Rightarrow> string option"
  cd_overrides :: "string \<Rightarrow> string + CollectionConfig"
  cd_benchmarks :: "go_any \<Rightarrow> CollectionBenchmarkConfig list option"
  cd_benchmark :: "go_any \<Rightarrow> CollectionBenchmarkConfig option"
  cd_any_benchmarks :: "CollectionBenchmarkConfig list \<Rightarrow> go_any"
  cd_any_benchmark :: "CollectionBenchmarkConfig \<Rightarrow> go_any"
  cd_patch_collection :: "collectionStoredEntity patcher"
  cd_patch_provider :: "ProviderConfig patcher"
  cd_provider_json :: "ProviderConfig \<Rightarrow> string"
  cd_apply_patch :: "string \<Rightarrow> PatchOperation list \<Rightarrow> string + string"

record Handlers =
  hd_storage :: sqlStorage
  hd_engine :: sql_engine
  hd_runtime :: "runtime_ops option"
  hd_mlflowClient :: "mlflow_client option"
  hd_resultsExporter :: bool
  hd_serviceConfig :: "Config option"
  hd_url :: url_package
  hd_pod :: pod_env
  hd_codecs :: codecs
  hd_GUID :: "nat \<Rightarrow> string"
  hd_ParseTime :: "string \<Rightarrow> time option"

record ExecutionContext =
  cx_Tenant :: Tenant
  cx_User :: User

definition getStorage :: "Handlers \<Rightarrow> ExecutionContext \<Rightarrow> sqlStorage" where
  "getStorage h ctx = (hd_storage h)\<lparr>st_tenant := cx_Tenant ctx, st_owner := cx_User ctx\<rparr>"

definition WithWorkloadType :: "workload_type \<Rightarrow> sqlStorage \<Rightarrow> sqlStorage" where
  "WithWorkloadType wt s = s\<lparr>st_workload_type := wt\<rparr>"

definition runtimeName :: "Handlers \<Rightarrow> string" where
  "runtimeName h = (case hd_runtime h of None \<Rightarrow> ''none'' | Some rt \<Rightarrow> ro_Name rt)"

definition GUID :: "Handlers \<Rightarrow> string act" where
  "GUID h w = (Inr (hd_GUID h (wd_ids w)), w\<lparr>wd_ids := Suc (wd_ids w)\<rparr>)"

section \<open>Responses\<close>

text \<open>
  The outcome of a request: an error, a JSON document, no content, a stream of text with the trailer
  that says whether it was cut, a panic, or no answer because a call does not return.
\<close>

datatype 'b response = Failed go_error | Wrote 'b nat | Empty nat | Streamed string bool | Panicked | Hung

definition respond :: "'b response act \<Rightarrow> world \<Rightarrow> 'b response \<times> world" where
  "respond m w = (case m w of (Inl e, w') \<Rightarrow> (Failed e, w') | (Inr r, w') \<Rightarrow> (r, w'))"

section \<open>Metrics of the job lifecycle (handlers/evaluation_metrics.go)\<close>

definition RecordEvaluationJobTerminalState :: "OverallState \<Rightarrow> OverallState \<Rightarrow> string \<Rightarrow> effect list" where
  "RecordEvaluationJobTerminalState previous newState tenant =
     (if \<not> IsTerminalState newState \<or> previous = newState then [] else [Measured (JobCompletion newState tenant)])"

definition jobCollectionID :: "EvaluationJobConfig \<Rightarrow> string" where
  "jobCollectionID cfg = (case ec_Collection cfg of None \<Rightarrow> '''' | Some c \<Rightarrow> cr_ID c)"

definition benchmark_metrics :: "(string \<Rightarrow> time option) \<Rightarrow> string \<Rightarrow> BenchmarkStatus \<Rightarrow> effect list" where
  "benchmark_metrics parse tenant bs =
     (if IsBenchmarkTerminalState (bs_Status bs)
      then [Measured (BenchmarkCompletion (bs_ID bs) (bs_ProviderID bs) (State_String (bs_Status bs)) tenant)] else []) @
     (if bs_StartedAt bs = '''' \<or> bs_CompletedAt bs = '''' then []
      else (case (parse (bs_StartedAt bs), parse (bs_CompletedAt bs)) of
              (Some started, Some completed) \<Rightarrow>
                if completed - started > 0
                then [Measured (BenchmarkDuration (bs_ID bs) (bs_ProviderID bs) (completed - started) tenant)] else []
            | _ \<Rightarrow> []))"

definition recordBenchmarkDurations :: "(string \<Rightarrow> time option) \<Rightarrow> EvaluationJobResource \<Rightarrow> string \<Rightarrow> effect list" where
  "recordBenchmarkDurations parse job tenant =
     (case ej_Status job of None \<Rightarrow> [] | Some st \<Rightarrow> concat (map (benchmark_metrics parse tenant) (js_Benchmarks st)))"

definition recordEvaluationJobTerminalTransition ::
  "time \<Rightarrow> OverallState \<Rightarrow> OverallState \<Rightarrow> string list \<Rightarrow> string \<Rightarrow> time \<Rightarrow> string \<Rightarrow> effect list" where
  "recordEvaluationJobTerminalTransition now previousState newState providerIDs collectionID createdAt tenant =
     RecordEvaluationJobTerminalState previousState newState tenant @
     concat (map (\<lambda>pid. [Measured (StateTransition pid collectionID (OverallState_String newState) tenant),
                         Measured (JobDuration pid collectionID (now - createdAt) tenant)]) providerIDs) @
     [Measured (ActiveJobs (-1) tenant)] @
     (if previousState = OverallStatePending then [Measured (QueueDepth (-1) tenant)] else [])"

text \<open>The providers of a job; without benchmarks in its configuration, those of its statuses.\<close>

definition metric_providers :: "EvaluationJobResource \<Rightarrow> string list" where
  "metric_providers job =
     (let pids = jobProviderIDs [] (ej_Config job)
      in if pids = [] then dedup_first [] (map bs_ProviderID (job_benchmarks job)) else pids)"

definition terminal_metrics :: "(string \<Rightarrow> time option) \<Rightarrow> time \<Rightarrow> EvaluationJobResource \<Rightarrow> OverallState \<Rightarrow> OverallState \<Rightarrow> effect list" where
  "terminal_metrics parse now job previousState newState =
     (let tenant = r_Tenant (ej_Resource job); cid = jobCollectionID (ej_Config job); pids = metric_providers job
      in [Measured (ActiveJobs (-1) tenant)] @
         (if previousState = OverallStatePending then [Measured (QueueDepth (-1) tenant)] else []) @
         map (\<lambda>pid. Measured (JobDuration pid cid (now - r_CreatedAt (ej_Resource job)) tenant)) pids @
         recordBenchmarkDurations parse job tenant @
         (if newState = OverallStateFailed \<or> newState = OverallStatePartiallyFailed
          then map (\<lambda>pid. Measured (EvaluationError ''job_failed'' pid tenant)) pids else []))"

definition state_metrics :: "(string \<Rightarrow> time option) \<Rightarrow> time \<Rightarrow> OverallState \<Rightarrow> EvaluationJobResource \<Rightarrow> effect list" where
  "state_metrics parse now previousState job =
     (case ej_Status job of
        None \<Rightarrow> []
      | Some st \<Rightarrow>
          let tenant = r_Tenant (ej_Resource job); newState = js_State st
          in RecordEvaluationJobTerminalState previousState newState tenant @
             (if previousState = newState then []
              else map (\<lambda>pid. Measured (StateTransition pid (jobCollectionID (ej_Config job)) (OverallState_String newState) tenant))
                     (metric_providers job) @
                   (if previousState = OverallStatePending \<and> newState = OverallStateRunning
                    then [Measured (QueueDepth (-1) tenant)] else []) @
                   (if IsTerminalState newState \<and> \<not> IsTerminalState previousState
                    then terminal_metrics parse now job previousState newState else [])))"

definition recordEvaluationJobTerminalStateAfterUpdate ::
  "Handlers \<Rightarrow> EvaluationJobResource act \<Rightarrow> OverallState \<Rightarrow> unit act" where
  "recordEvaluationJobTerminalStateAfterUpdate h getJob previousState =
     abind (attempt getJob) (\<lambda>r.
       case r of
         Inl e \<Rightarrow> areturn ()
       | Inr job \<Rightarrow>
           abind (store (time_Now (st_env (hd_storage h)))) (\<lambda>now.
             emits (state_metrics (hd_ParseTime h) now previousState job)))"

end
