(* ===== verification/Job_Handlers.thy ===== *)
theory Job_Handlers
  imports Effects
begin

text \<open>
  The handlers of evaluation jobs and of post-processing computations (handlers/evaluations.go,
  evaluation_terminal.go, results_export.go, evaluation_logs.go, limited_writer.go, post_processing.go)
  and the use of MLflow when a job is created (mlflow/mlflow.go). A span (withSpan) runs its function
  and is left out.
\<close>

section \<open>Experiments (mlflow/mlflow.go)\<close>

definition tag :: "string \<Rightarrow> string \<Rightarrow> ExperimentTag" where
  "tag k v = \<lparr>et_Key = k, et_Value = v\<rparr>"

definition injectEvaluationJobTags :: "string \<Rightarrow> EvaluationJobConfig \<Rightarrow> ExperimentTag list" where
  "injectEvaluationJobTags jobID evaluation =
     (case ec_Experiment evaluation of
        None \<Rightarrow> []
      | Some ex \<Rightarrow>
          ex_Tags ex @ [tag ''context'' ''eval-hub''] @
          (if ec_Name evaluation \<noteq> '''' then [tag ''evaluation_job_name'' (ec_Name evaluation)] else []) @
          (case ec_Description evaluation of None \<Rightarrow> [] | Some d \<Rightarrow> [tag ''evaluation_job_description'' d]) @
          [tag ''evaluation_job_id'' jobID])"

definition HasExperimentName :: "EvaluationJobConfig \<Rightarrow> bool" where
  "HasExperimentName cfg = (case ec_Experiment cfg of None \<Rightarrow> False | Some ex \<Rightarrow> TrimSpace (ex_Name ex) \<noteq> '''')"

definition mlflow_failed :: "string \<Rightarrow> go_error" where
  "mlflow_failed e = NewServiceError MLFlowRequestFailed [''Error'', e]"

definition check_text :: "(string \<Rightarrow> go_error) \<Rightarrow> string option \<Rightarrow> unit act" where
  "check_text wrap r = aguard (map_option wrap r)"

definition experiment_request :: "EvaluationJobConfig \<Rightarrow> string \<Rightarrow> CreateExperimentRequest" where
  "experiment_request cfg jobID =
     \<lparr>cx_Name = (case ec_Experiment cfg of None \<Rightarrow> '''' | Some ex \<Rightarrow> ex_Name ex),
      cx_ArtifactLocation = (case ec_Experiment cfg of None \<Rightarrow> '''' | Some ex \<Rightarrow> ex_ArtifactLocation ex),
      cx_Tags = injectEvaluationJobTags jobID cfg\<rparr>"

definition GetOrCreateExperimentID :: "mlflow_client \<Rightarrow> Tenant \<Rightarrow> EvaluationJobConfig \<Rightarrow> string \<Rightarrow> (string \<times> string) act" where
  "GetOrCreateExperimentID mc workspace jobConfig jobID =
     (if \<not> HasExperimentName jobConfig then areturn ('''', '''')
      else
        abind history (\<lambda>log.
        abind (check_text mlflow_failed (mc_Prepare mc log workspace)) (\<lambda>_.
        abind (check_text mlflow_failed (mc_EnsureWorkspace mc log workspace)) (\<lambda>_.
          let req = experiment_request jobConfig jobID
          in abind (emit (ExperimentRequested workspace req)) (\<lambda>_.
               case mc_GetOrCreateExperiment mc log workspace req of
                 Inl e \<Rightarrow> athrow (mlflow_failed e)
               | Inr eid \<Rightarrow> areturn (eid, mc_GetExperimentsURL mc workspace))))))"

section \<open>After an update (handlers/evaluation_terminal.go, results_export.go)\<close>

definition exportEvaluationResults :: "Handlers \<Rightarrow> EvaluationJobResource \<Rightarrow> unit act" where
  "exportEvaluationResults h job =
     (if \<not> hd_resultsExporter h \<or> \<not> IsResultsExportEligible job then areturn () else emit (ResultsExported job))"

definition notifyThresholdViolations :: "EvaluationJobResource \<Rightarrow> EvaluationJobResults \<Rightarrow> unit act" where
  "notifyThresholdViolations job results =
     emits (concat (map (\<lambda>bench. case br_Test bench of
                                    None \<Rightarrow> []
                                  | Some t \<Rightarrow> if bt_Pass t then []
                                      else [ThresholdNotified job (br_BenchmarkIndex bench) (bt_PrimaryScoreMetric t)
                                              (bt_PrimaryScore t) (bt_Threshold t)])
                        (rs_Benchmarks results)))"

definition resolveJobBenchmarks :: "sqlStorage \<Rightarrow> EvaluationJobResource \<Rightarrow> EvaluationBenchmarkConfig list act" where
  "resolveJobBenchmarks s job =
     abind (if job_collection_id (ej_Config job) \<noteq> ''''
            then abind (store (GetCollection s (job_collection_id (ej_Config job)))) (\<lambda>c. areturn (Some c))
            else areturn None) (\<lambda>collection.
       alift (GetJobBenchmarks job collection))"

definition resolveJobBenchmarksForStorage :: "sqlStorage \<Rightarrow> EvaluationJobResource \<Rightarrow> EvaluationBenchmarkConfig list act" where
  "resolveJobBenchmarksForStorage = resolveJobBenchmarks"

definition export_container_logs :: "Handlers \<Rightarrow> sqlStorage \<Rightarrow> EvaluationJobResource \<Rightarrow> unit act" where
  "export_container_logs h s job =
     (if \<not> IsOTELJobContainerLogsEnabled (hd_serviceConfig h) \<or> hd_runtime h = None then areturn ()
      else abind (attempt (resolveJobBenchmarksForStorage s job)) (\<lambda>r.
             case r of Inl e \<Rightarrow> areturn () | Inr benchmarks \<Rightarrow> emit (ContainerLogsExported job benchmarks)))"

definition onEvaluationJobUpdated :: "Handlers \<Rightarrow> sqlStorage \<Rightarrow> string \<Rightarrow> OverallState \<Rightarrow> unit act" where
  "onEvaluationJobUpdated h s i previousState =
     abind (recordEvaluationJobTerminalStateAfterUpdate h (store (GetEvaluationJob s i)) previousState) (\<lambda>_.
     abind (attempt (store (GetEvaluationJob s i))) (\<lambda>r.
       case r of
         Inl e \<Rightarrow> areturn ()
       | Inr job \<Rightarrow>
           if ej_Status job = None \<or> \<not> IsTerminalState (job_state job) \<or> previousState = job_state job then areturn ()
           else
             abind (exportEvaluationResults h job) (\<lambda>_.
             abind (case ej_Results job of
                      None \<Rightarrow> areturn ()
                    | Some results \<Rightarrow>
                        if hd_runtime h \<noteq> None then notifyThresholdViolations job results else areturn ()) (\<lambda>_.
               export_container_logs h s job))))"

definition state_before :: "go_error + EvaluationJobResource \<Rightarrow> OverallState" where
  "state_before r = (case r of Inl e \<Rightarrow> OverallStateOther '''' | Inr job \<Rightarrow> job_state job)"

section \<open>The store as the runtime sees it\<close>

definition raw_validation_text :: "validation_failure \<Rightarrow> string" where
  "raw_validation_text f = (case f of FieldErrors errs text \<Rightarrow> text | OtherFailure t \<Rightarrow> t)"

definition runtime_UpdateEvaluationJob :: "Handlers \<Rightarrow> sqlStorage \<Rightarrow> string \<Rightarrow> BenchmarkStatusEvent \<Rightarrow> unit act" where
  "runtime_UpdateEvaluationJob h s i runStatus =
     abind (attempt (store (GetEvaluationJob s i))) (\<lambda>before.
     abind (check_text PlainErr (map_option raw_validation_text (cd_Validate (cd_event (hd_codecs h)) runStatus))) (\<lambda>_.
     abind (store (UpdateEvaluationJob s i runStatus)) (\<lambda>_.
       onEvaluationJobUpdated h s i (state_before before))))"

definition error_of :: "go_error + unit \<Rightarrow> go_error option" where
  "error_of r = (case r of Inl e \<Rightarrow> Some e | Inr _ \<Rightarrow> None)"

text \<open>What a started job does with its handle on the store, up to the return of RunEvaluationJob.\<close>

primrec perform :: "Handlers \<Rightarrow> sqlStorage \<Rightarrow> run_script \<Rightarrow> unit act" where
  "perform h s (RunDone r) = aguard r"
| "perform h s (RunGetProvider i k) = abind (attempt (store (GetProvider s i))) (\<lambda>r. perform h s (k r))"
| "perform h s (RunGetJob i k) = abind (attempt (store (GetEvaluationJob s i))) (\<lambda>r. perform h s (k r))"
| "perform h s (RunReport i e k) = abind (attempt (runtime_UpdateEvaluationJob h s i e)) (\<lambda>r. perform h s (k (error_of r)))"

section \<open>Creating a job\<close>

definition prepareEvaluationJob ::
  "Handlers \<Rightarrow> ExecutionContext \<Rightarrow> EvaluationJobConfig \<Rightarrow>
   (EvaluationJobConfig \<times> CollectionResource option \<times> EvaluationBenchmarkConfig list) act" where
  "prepareEvaluationJob h ctx evaluation =
     abind (case ec_Collection evaluation of
              None \<Rightarrow> areturn (evaluation, None)
            | Some ref \<Rightarrow>
                if cr_ID ref = '''' then areturn (evaluation, None)
                else
                  abind (store (GetCollection (getStorage h ctx) (cr_ID ref))) (\<lambda>collection.
                  abind (aguard (ValidateCollectionOverrides (cr_Benchmarks ref) (cc_Benchmarks (co_Config collection)))) (\<lambda>_.
                    areturn (evaluation\<lparr>ec_Collection :=
                               Some (ref\<lparr>cr_CollectionUpdatedAt := Some (r_UpdatedAt (co_Resource collection))\<rparr>)\<rparr>,
                             Some collection)))) (\<lambda>(evaluation1, collection).
     abind (alift (GetJobBenchmarks
              \<lparr>ej_Resource = zero_resource, ej_MLFlowExperimentID = '''', ej_Status = None, ej_Results = None,
               ej_Config = evaluation1\<rparr> collection)) (\<lambda>benchmarks.
     abind (aguard (ValidateReadOnlyResolvedSHA evaluation1)) (\<lambda>_.
       areturn (evaluation1, collection, benchmarks))))"

definition no_such :: "string \<Rightarrow> string \<Rightarrow> go_error" where
  "no_such typ i = NewServiceError ResourceDoesNotExist [''Type'', typ, ''ResourceID'', i]"

fun validateBenchmarkReferences :: "sqlStorage \<Rightarrow> EvaluationBenchmarkConfig list \<Rightarrow> unit act" where
  "validateBenchmarkReferences s [] = areturn ()"
| "validateBenchmarkReferences s (b # bs) =
     (if IsInternalProviderID (st_registry s) (eb_ProviderID b) then athrow (no_such ''provider'' (eb_ProviderID b))
      else
        abind (store (GetProvider s (eb_ProviderID b))) (\<lambda>provider.
          if \<not> list_ex (\<lambda>p. b_ID p = eb_ID b) (pv_Benchmarks (pr_Config provider))
          then athrow (no_such ''benchmark'' (eb_ID b))
          else validateBenchmarkReferences s bs))"

definition validatePreparedEvaluation ::
  "Handlers \<Rightarrow> EvaluationJobConfig \<Rightarrow> EvaluationBenchmarkConfig list \<Rightarrow> unit act" where
  "validatePreparedEvaluation h evaluation benchmarks =
     abind (case hd_runtime h of
              None \<Rightarrow> areturn ()
            | Some rt \<Rightarrow>
                let bs = benchmarksWithHardwareConfigFallback benchmarks (ec_HardwareConfig evaluation)
                in abind history (\<lambda>log. abind (emit (ProfilesValidated bs)) (\<lambda>_.
                     aguard (ro_ValidateHardwareProfiles rt log bs)))) (\<lambda>_.
       if (case ec_Model evaluation of None \<Rightarrow> False | Some m \<Rightarrow> TrimSpace (mr_URL m) = '''') \<and>
          TypeForJob (st_registry (hd_storage h)) evaluation = Evaluation \<and>
          \<not> allBenchmarksHavePreRecordedData benchmarks
       then athrow (NewServiceError ModelURLRequired []) else areturn ())"

definition server_info :: "string \<Rightarrow> string \<Rightarrow> MessageInfo option" where
  "server_info text code =
     WithMessageOrigin (Some \<lparr>mi_Message = text, mi_MessageCode = code, mi_MessageOrigin = MessageOriginUnset\<rparr>)
       MessageOriginServer"

definition experiment_of :: "Handlers \<Rightarrow> ExecutionContext \<Rightarrow> EvaluationJobConfig \<Rightarrow> string \<Rightarrow> (string \<times> string) act" where
  "experiment_of h ctx evaluation i =
     (case hd_mlflowClient h of
        Some mc \<Rightarrow> GetOrCreateExperimentID mc (cx_Tenant ctx) evaluation i
      | None \<Rightarrow> if HasExperimentName evaluation then athrow (NewServiceError MLFlowRequiredForExperiment [])
                else areturn ('''', ''''))"

definition new_job ::
  "ExecutionContext \<Rightarrow> time \<Rightarrow> string \<Rightarrow> string \<times> string \<Rightarrow> EvaluationJobConfig \<Rightarrow> EvaluationJobResource" where
  "new_job ctx now i experiment evaluation =
     \<lparr>ej_Resource = \<lparr>r_ID = i, r_Tenant = cx_Tenant ctx, r_CreatedAt = now, r_UpdatedAt = 0, r_Owner = cx_User ctx\<rparr>,
      ej_MLFlowExperimentID = fst experiment,
      ej_Status = Some \<lparr>js_State = OverallStatePending,
                        js_Message = server_info ''Evaluation job created'' ''evaluation_job_created'', js_Benchmarks = []\<rparr>,
      ej_Results = Some (empty_results\<lparr>rs_MLFlowExperimentURL := snd experiment\<rparr>),
      ej_Config = evaluation\<rparr>"

definition created_metrics :: "Handlers \<Rightarrow> string \<Rightarrow> string list \<Rightarrow> string \<Rightarrow> effect list" where
  "created_metrics h tenant providerIDs collectionID =
     [Measured (JobCreated (runtimeName h) tenant)] @
     map (\<lambda>pid. Measured (StateTransition pid collectionID (OverallState_String OverallStatePending) tenant)) providerIDs @
     [Measured (ActiveJobs 1 tenant), Measured (QueueDepth 1 tenant)]"

definition executeEvaluationJob ::
  "Handlers \<Rightarrow> runtime_ops \<Rightarrow> ExecutionContext \<Rightarrow> EvaluationJobResource \<Rightarrow> CollectionResource option \<Rightarrow> unit act" where
  "executeEvaluationJob h rt ctx job collection =
     abind (alift (GetJobBenchmarks job collection)) (\<lambda>benchmarks.
     abind history (\<lambda>log.
     abind (emit (JobStarted job benchmarks)) (\<lambda>_.
       perform h (getStorage h ctx) (ro_RunEvaluationJob rt log job benchmarks))))"

text \<open>The start failed: the job is marked as failed, if the store allows it, and the error is returned.\<close>

definition start_failed ::
  "Handlers \<Rightarrow> ExecutionContext \<Rightarrow> EvaluationJobResource \<Rightarrow> string list \<Rightarrow> string \<Rightarrow> go_error \<Rightarrow> EvaluationJobResource act" where
  "start_failed h ctx job providerIDs collectionID runErr =
     (let tenant = cx_Tenant ctx; s = getStorage h ctx; i = r_ID (ej_Resource job)
      in abind (emits (Measured (RuntimeStartFailed (runtimeName h) tenant) #
                       map (\<lambda>pid. Measured (EvaluationError ''runtime_start_failed'' pid tenant)) providerIDs)) (\<lambda>_.
         abind (attempt (store (UpdateEvaluationJobStatus s i OverallStateFailed
                                  (server_info (err_text runErr) ''evaluation_job_failed'')))) (\<lambda>r.
         abind (case r of
                  Inl e \<Rightarrow> areturn ()
                | Inr _ \<Rightarrow>
                    abind (store (time_Now (st_env s))) (\<lambda>now.
                      emits (recordEvaluationJobTerminalTransition now OverallStatePending OverallStateFailed providerIDs
                               collectionID (r_CreatedAt (ej_Resource job)) tenant))) (\<lambda>_.
           athrow runErr))))"

definition start_job ::
  "Handlers \<Rightarrow> ExecutionContext \<Rightarrow> EvaluationJobResource \<Rightarrow> CollectionResource option \<Rightarrow> string list \<Rightarrow> string \<Rightarrow>
   EvaluationJobResource act" where
  "start_job h ctx job collection providerIDs collectionID =
     (case hd_runtime h of
        Some rt \<Rightarrow>
          abind (attempt (executeEvaluationJob h rt ctx job collection)) (\<lambda>r.
            case r of
              Inr _ \<Rightarrow> areturn job
            | Inl runErr \<Rightarrow> start_failed h ctx job providerIDs collectionID runErr)
      | None \<Rightarrow>
          let message = server_info ''Evaluation job created but no runtime configured'' ''evaluation_job_updated''
          in abind (attempt (store (UpdateEvaluationJobStatus (getStorage h ctx) (r_ID (ej_Resource job)) (job_state job) message))) (\<lambda>_.
               areturn (job\<lparr>ej_Status := map_option (\<lambda>st. st\<lparr>js_Message := message\<rparr>) (ej_Status job)\<rparr>)))"

definition store_job :: "sqlStorage \<Rightarrow> EvaluationJobResource \<Rightarrow> CollectionResource option \<Rightarrow> unit act" where
  "store_job s job collection =
     store (if collection \<noteq> None then CreateEvaluationJobAndUpdateCollection s job else CreateEvaluationJob s job)"

definition createPreparedEvaluationJob ::
  "Handlers \<Rightarrow> ExecutionContext \<Rightarrow> EvaluationJobConfig \<Rightarrow> CollectionResource option \<Rightarrow> EvaluationBenchmarkConfig list \<Rightarrow>
   string \<Rightarrow> EvaluationJobResource act" where
  "createPreparedEvaluationJob h ctx evaluation0 collection benchmarks i =
     (let evaluation = ApplyHardwareConfigQueueDefaults evaluation0; s = getStorage h ctx;
          collectionID = jobCollectionID evaluation; providerIDs = jobProviderIDs benchmarks evaluation
      in abind (experiment_of h ctx evaluation i) (\<lambda>experiment.
         abind (store (time_Now (st_env s))) (\<lambda>now.
           let job = new_job ctx now i experiment evaluation
           in abind (store_job s job collection) (\<lambda>_.
              abind (emits (created_metrics h (cx_Tenant ctx) providerIDs collectionID)) (\<lambda>_.
                start_job h ctx job collection providerIDs collectionID)))))"

definition createEvaluationJob :: "Handlers \<Rightarrow> ExecutionContext \<Rightarrow> EvaluationJobConfig \<Rightarrow> EvaluationJobResource act" where
  "createEvaluationJob h ctx evaluation =
     abind (GUID h) (\<lambda>i.
     abind (prepareEvaluationJob h ctx evaluation) (\<lambda>(evaluation1, collection, benchmarks).
     abind (aguard (ValidateCollectionJudgeParameters collection benchmarks)) (\<lambda>_.
     abind (validateBenchmarkReferences (getStorage h ctx) benchmarks) (\<lambda>_.
     abind (validatePreparedEvaluation h evaluation1 benchmarks) (\<lambda>_.
       createPreparedEvaluationJob h ctx evaluation1 collection benchmarks i)))))"

definition createPostProcessingEvaluationJob ::
  "Handlers \<Rightarrow> ExecutionContext \<Rightarrow> EvaluationJobConfig \<Rightarrow> EvaluationJobResource act" where
  "createPostProcessingEvaluationJob h ctx evaluation =
     (if \<not> IsPostProcessingJob evaluation then athrow (PlainErr ''invalid internal post-processing job configuration'')
      else
        abind (GUID h) (\<lambda>i.
        abind (prepareEvaluationJob h ctx evaluation) (\<lambda>(evaluation1, collection, benchmarks).
        abind (validatePreparedEvaluation h evaluation1 benchmarks) (\<lambda>_.
          createPreparedEvaluationJob h ctx evaluation1 collection benchmarks i))))"

definition HandleCreateEvaluation ::
  "Handlers \<Rightarrow> ExecutionContext \<Rightarrow> http_request \<Rightarrow> world \<Rightarrow> EvaluationJobResource response \<times> world" where
  "HandleCreateEvaluation h ctx r =
     respond (abind (alift (read_body (cd_job (hd_codecs h)) r)) (\<lambda>evaluation.
              abind (createEvaluationJob h ctx evaluation) (\<lambda>job. areturn (Wrote job 202))))"

section \<open>Reading jobs\<close>

record 't listed =
  ls_Page :: Page
  ls_Items :: "'t list"

definition list_response :: "'t QueryResults outcome \<Rightarrow> QueryFilter \<Rightarrow> http_request \<Rightarrow> 't listed response act" where
  "list_response res flt r =
     (case res of
        Panic \<Rightarrow> areturn Panicked
      | Unfinished \<Rightarrow> areturn Hung
      | Value q \<Rightarrow>
          abind (alift (CreatePage (qr_TotalCount q) (qf_Offset flt) (qf_Limit flt) r)) (\<lambda>page.
            areturn (Wrote \<lparr>ls_Page = page, ls_Items = qr_Items q\<rparr> 200)))"

definition HandleListEvaluations ::
  "Handlers \<Rightarrow> ExecutionContext \<Rightarrow> http_request \<Rightarrow> world \<Rightarrow> EvaluationJobResource listed response \<times> world" where
  "HandleListEvaluations h ctx r =
     respond (abind (alift (evaluations_filter r)) (\<lambda>flt.
              abind (store (GetEvaluationJobs (getStorage h ctx) (hd_engine h) flt)) (\<lambda>res.
                list_response res flt r)))"

definition HandleGetEvaluation ::
  "Handlers \<Rightarrow> ExecutionContext \<Rightarrow> http_request \<Rightarrow> world \<Rightarrow> EvaluationJobResource response \<times> world" where
  "HandleGetEvaluation h ctx r =
     respond (abind (alift (path_value r ''job_id'')) (\<lambda>i.
              abind (store (GetEvaluationJob (WithWorkloadType Evaluation (getStorage h ctx)) i)) (\<lambda>job.
                areturn (Wrote job 200))))"

section \<open>Status events\<close>

definition event_sha :: "BenchmarkStatusEvent \<Rightarrow> string" where
  "event_sha e = (case be_JobMeta e of None \<Rightarrow> '''' | Some m \<Rightarrow> jm_ResolvedSHA m)"

definition HandleUpdateEvaluation ::
  "Handlers \<Rightarrow> ExecutionContext \<Rightarrow> http_request \<Rightarrow> world \<Rightarrow> unit response \<times> world" where
  "HandleUpdateEvaluation h ctx r =
     (let s = getStorage h ctx
      in respond (abind (alift (path_value r ''job_id'')) (\<lambda>i.
         abind (alift (read_body (cd_event (hd_codecs h)) r)) (\<lambda>event0.
         abind (attempt (store (GetEvaluationJob s i))) (\<lambda>before.
           let event1 = StampRuntimeMessageOrigins event0;
               job = (case before of Inl e \<Rightarrow> None | Inr j \<Rightarrow> Some j)
           in (case rewriteSidecarURLsInBenchmarkStatus (hd_url h) (hd_pod h) (hd_serviceConfig h) job event1 of
                 None \<Rightarrow> areturn Hung
               | Some event2 \<Rightarrow>
                   let event = event2\<lparr>be_JobMeta := None\<rparr>
                   in abind (store (UpdateEvaluationJob s i event)) (\<lambda>_.
                      abind (if event_sha event2 \<noteq> ''''
                             then abind (attempt (store (UpdateEvaluationJobResolvedSHA s i (be_BenchmarkIndex event) (event_sha event2))))
                                    (\<lambda>_. areturn ())
                             else areturn ()) (\<lambda>_.
                      abind (case (hd_runtime h, job) of
                               (Some rt, Some j) \<Rightarrow> emit (PhaseNotified j (be_BenchmarkIndex event) (be_Status event))
                             | _ \<Rightarrow> areturn ()) (\<lambda>_.
                      abind (onEvaluationJobUpdated h s i (state_before before)) (\<lambda>_.
                        areturn (Empty 204)))))))))))"

section \<open>Cancelling a job\<close>

text \<open>The storage part: it returns the snapshot of the job and whether it was cancelled before.\<close>

definition cancel_in_store :: "Handlers \<Rightarrow> ExecutionContext \<Rightarrow> string \<Rightarrow> bool \<Rightarrow> (EvaluationJobResource \<times> bool) act" where
  "cancel_in_store h ctx i hardDelete =
     (let s = WithWorkloadType Evaluation (getStorage h ctx); tenant = cx_Tenant ctx
      in abind (store (GetEvaluationJob s i)) (\<lambda>job.
           let previousState = job_state job;
               alreadyCancelled = (ej_Status job \<noteq> None \<and> previousState = OverallStateCancelled)
           in if hardDelete
              then abind (store (DeleteEvaluationJob s i)) (\<lambda>_. areturn (job, alreadyCancelled))
              else if alreadyCancelled then areturn (job, True)
              else
                abind (store (UpdateEvaluationJobStatus s i OverallStateCancelled
                                (server_info ''Evaluation job cancelled'' ''evaluation_job_cancelled''))) (\<lambda>_.
                abind (emit (Measured (JobCancelled tenant))) (\<lambda>_.
                abind (if \<not> IsTerminalState previousState
                       then abind (store (time_Now (st_env s))) (\<lambda>now.
                              emits (recordEvaluationJobTerminalTransition now previousState OverallStateCancelled
                                       (jobProviderIDs [] (ej_Config job)) (jobCollectionID (ej_Config job))
                                       (r_CreatedAt (ej_Resource job)) tenant))
                       else emits (RecordEvaluationJobTerminalState previousState OverallStateCancelled tenant)) (\<lambda>_.
                  areturn (job, False))))))"

definition HandleCancelEvaluation ::
  "Handlers \<Rightarrow> ExecutionContext \<Rightarrow> http_request \<Rightarrow> world \<Rightarrow> unit response \<times> world" where
  "HandleCancelEvaluation h ctx r =
     respond (abind (alift (path_value r ''job_id'')) (\<lambda>i.
              abind (alift (GetParam_bool r ''hard_delete'' True False)) (\<lambda>hardDelete.
              abind (cancel_in_store h ctx i hardDelete) (\<lambda>(jobSnapshot, alreadyCancelled).
                let shouldCleanup = (hardDelete \<or> (ej_Status jobSnapshot \<noteq> None \<and> \<not> alreadyCancelled))
                in abind (if shouldCleanup \<and> hd_runtime h \<noteq> None then emit (ResourcesDeleted jobSnapshot) else areturn ()) (\<lambda>_.
                     areturn (Empty 204))))))"

section \<open>Logs\<close>

text \<open>
  LimitedWriter.Write: what of a chunk is passed on, the bytes written so far, and whether the writer
  reports ErrLogResponseTruncated. The connection below accepts every write.
\<close>

definition limited_write :: "int \<Rightarrow> int \<Rightarrow> string \<Rightarrow> string \<times> int \<times> bool" where
  "limited_write limit written p =
     (if limit = -1 then (p, written, False)
      else if written \<ge> limit then ('''', written, True)
      else
        let allowed = limit - written
        in if int (length p) > allowed then (take (nat allowed) p, written + allowed, True)
           else (p, written + int (length p), False))"

text \<open>A runtime that streams chunks stops at the first write that reports an error and returns it.\<close>

fun write_chunks :: "int \<Rightarrow> int \<Rightarrow> string list \<Rightarrow> string \<times> bool" where
  "write_chunks limit written [] = ('''', False)"
| "write_chunks limit written (p # ps) =
     (let (out, written', truncated) = limited_write limit written p
      in if truncated then (out, True)
         else (let (rest, t) = write_chunks limit written' ps in (out @ rest, t)))"

definition log_limit :: "Config option \<Rightarrow> int" where
  "log_limit cfg =
     (case cfg of
        None \<Rightarrow> DefaultMaxLogResponseBytes
      | Some c \<Rightarrow> (case cf_Service c of None \<Rightarrow> DefaultMaxLogResponseBytes | Some s \<Rightarrow> EffectiveMaxLogResponseBytes (Some s)))"

definition handleGetEvaluationLogs ::
  "Handlers \<Rightarrow> ExecutionContext \<Rightarrow> http_request \<Rightarrow> int option \<Rightarrow> world \<Rightarrow> unit response \<times> world" where
  "handleGetEvaluationLogs h ctx r benchmarkIndex =
     respond (abind (alift (path_value r ''job_id'')) (\<lambda>i.
              abind (alift (parseEvaluationLogOptions r)) (\<lambda>opts.
                case hd_runtime h of
                  None \<Rightarrow> athrow (internal_error ''no runtime configured'')
                | Some rt \<Rightarrow>
                    let s = WithWorkloadType Evaluation (getStorage h ctx)
                    in abind (store (GetEvaluationJob s i)) (\<lambda>job.
                       abind (resolveJobBenchmarks s job) (\<lambda>benchmarks.
                       abind (aguard (case benchmarkIndex of
                                        None \<Rightarrow> None
                                      | Some n \<Rightarrow> if n \<ge> int (length benchmarks) then Some (not_found ''benchmark'' (Itoa n)) else None)) (\<lambda>_.
                       abind history (\<lambda>log.
                       abind (emit (LogsStreamed job benchmarks benchmarkIndex opts)) (\<lambda>_.
                         let (out, truncated) =
                               write_chunks (log_limit (hd_serviceConfig h)) 0 (ro_StreamEvaluationLogs rt log job benchmarks benchmarkIndex opts)
                         in areturn (Streamed out truncated)))))))))"

definition HandleGetEvaluationJobLogs ::
  "Handlers \<Rightarrow> ExecutionContext \<Rightarrow> http_request \<Rightarrow> world \<Rightarrow> unit response \<times> world" where
  "HandleGetEvaluationJobLogs h ctx r = handleGetEvaluationLogs h ctx r None"

definition HandleGetEvaluationBenchmarkLogs ::
  "Handlers \<Rightarrow> ExecutionContext \<Rightarrow> http_request \<Rightarrow> world \<Rightarrow> unit response \<times> world" where
  "HandleGetEvaluationBenchmarkLogs h ctx r w =
     (let rawIndex = rq_PathValue r ''benchmark_index''
      in if rawIndex = '''' then (Failed (missing_path ''benchmark_index''), w)
         else (case Atoi rawIndex of
                 Some n \<Rightarrow> if n < 0 then (Failed (param_invalid ''benchmark_index'' ''non-negative integer'' rawIndex), w)
                           else handleGetEvaluationLogs h ctx r (Some n) w
               | None \<Rightarrow> (Failed (param_invalid ''benchmark_index'' ''non-negative integer'' rawIndex), w)))"

section \<open>Post-processing computations\<close>

definition postProcessingNotFound :: "string \<Rightarrow> go_error" where
  "postProcessingNotFound i = not_found ''post-processing computation'' i"

definition getStandalonePostProcessingJob :: "sqlStorage \<Rightarrow> string \<Rightarrow> EvaluationJobResource act" where
  "getStandalonePostProcessingJob s i =
     abind (attempt (store (GetEvaluationJob s i))) (\<lambda>r.
       case r of
         Inl e \<Rightarrow> if has_code ResourceNotFound e then athrow (postProcessingNotFound i) else athrow e
       | Inr job \<Rightarrow> if IsPostProcessingJob (ej_Config job) then areturn job else athrow (postProcessingNotFound i))"

definition resource_of_job :: "Handlers \<Rightarrow> EvaluationJobResource \<Rightarrow> PostProcessingResource act" where
  "resource_of_job h job =
     (case ResourceFromJob (st_json_error (hd_storage h)) job of
        Inl e \<Rightarrow> athrow (internal_error (err_text e))
      | Inr res \<Rightarrow> areturn res)"

definition HandleGetPostProcessing ::
  "Handlers \<Rightarrow> ExecutionContext \<Rightarrow> http_request \<Rightarrow> world \<Rightarrow> PostProcessingResource response \<times> world" where
  "HandleGetPostProcessing h ctx r =
     respond (abind (alift (path_value r ''post_processing_job_id'')) (\<lambda>i.
              abind (getStandalonePostProcessingJob (WithWorkloadType PostProcessing (getStorage h ctx)) i) (\<lambda>job.
              abind (resource_of_job h job) (\<lambda>res. areturn (Wrote res 200)))))"

definition HandleDeletePostProcessing ::
  "Handlers \<Rightarrow> ExecutionContext \<Rightarrow> http_request \<Rightarrow> world \<Rightarrow> unit response \<times> world" where
  "HandleDeletePostProcessing h ctx r =
     (let s = WithWorkloadType PostProcessing (getStorage h ctx); tenant = cx_Tenant ctx
      in respond (abind (alift (path_value r ''post_processing_job_id'')) (\<lambda>i.
         abind (getStandalonePostProcessingJob s i) (\<lambda>job.
         abind (if hd_runtime h \<noteq> None \<and> (ej_Status job = None \<or> job_state job \<noteq> OverallStateCancelled)
                then emit (ResourcesDeleted job) else areturn ()) (\<lambda>_.
         abind (store (DeleteEvaluationJob s i)) (\<lambda>_.
         abind (if ej_Status job = None \<or> \<not> IsTerminalState (job_state job)
                then abind (store (time_Now (st_env s))) (\<lambda>now.
                       emits (recordEvaluationJobTerminalTransition now
                                (if ej_Status job = None then OverallStatePending else job_state job) OverallStateCancelled
                                (jobProviderIDs [] (ej_Config job)) (jobCollectionID (ej_Config job))
                                (r_CreatedAt (ej_Resource job)) tenant))
                else areturn ()) (\<lambda>_.
           areturn (Empty 204))))))))"

definition copySourceOCIExports :: "EvaluationJobResource \<Rightarrow> EvaluationExports option" where
  "copySourceOCIExports source =
     (case Option.bind (ec_Exports (ej_Config source)) ee_OCI of
        None \<Rightarrow> None | Some oci \<Rightarrow> Some \<lparr>ee_OCI = Some oci\<rparr>)"

definition validatePostProcessingResultsSource ::
  "Handlers \<Rightarrow> ExecutionContext \<Rightarrow> PostProcessingResultsDataRef \<Rightarrow> EvaluationJobResource option act" where
  "validatePostProcessingResultsSource h ctx ref =
     (case pd_EvalJob ref of
        None \<Rightarrow> areturn None
      | Some ej \<Rightarrow>
          abind (store (GetEvaluationJob (WithWorkloadType Evaluation (getStorage h ctx)) (ed_ID ej))) (\<lambda>source.
            if TypeForJob (st_registry (hd_storage h)) (ej_Config source) \<noteq> Evaluation
            then athrow (not_found ''evaluation job'' (ed_ID ej))
            else if ej_Status source = None \<or> job_state source \<noteq> OverallStateCompleted
            then athrow (NewServiceError PostProcessingSourceNotCompleted [''Id'', r_ID (ej_Resource source)])
            else areturn (Some source)))"

text \<open>A request without a data reference passes no validator; its dereference would panic.\<close>

definition HandleCreatePostProcessing ::
  "Handlers \<Rightarrow> ExecutionContext \<Rightarrow> http_request \<Rightarrow> world \<Rightarrow> PostProcessingResource response \<times> world" where
  "HandleCreatePostProcessing h ctx r =
     respond (abind (alift (read_body (cd_post_processing (hd_codecs h)) r)) (\<lambda>request.
       let create = (\<lambda>sourceJob.
             let evaluation0 = ToEvaluationJob request;
                 evaluation = (case sourceJob of
                   None \<Rightarrow> evaluation0 | Some source \<Rightarrow> evaluation0\<lparr>ec_Exports := copySourceOCIExports source\<rparr>)
             in abind (createPostProcessingEvaluationJob h ctx evaluation) (\<lambda>job.
                abind (resource_of_job h job) (\<lambda>res. areturn (Wrote res 202))))
       in (case so_ConfidenceInterval (pq_Operations request) of
             None \<Rightarrow> create None
           | Some operation \<Rightarrow>
               (case sc_ResultsDataRef operation of
                  None \<Rightarrow> areturn Panicked
                | Some ref \<Rightarrow> abind (validatePostProcessingResultsSource h ctx ref) create))))"

end
