(* ===== verification/Catalog_Handlers.thy ===== *)
theory Catalog_Handlers
  imports Job_Handlers
begin

text \<open>
  The handlers of collections and providers (handlers/collections.go, handlers/providers.go): the
  enrichment of collections from the providers of their benchmarks, and the requests that create,
  read, update, patch, clone and delete.
\<close>

section \<open>Enrichment\<close>

text \<open>The maps loaded and failed of one enrichment.\<close>

record provider_cache =
  pc_loaded :: "ProviderResource gomap"
  pc_failed :: "string list"

definition empty_cache :: provider_cache where
  "empty_cache = \<lparr>pc_loaded = [], pc_failed = []\<rparr>"

definition cached_provider :: "sqlStorage \<Rightarrow> string \<Rightarrow> provider_cache \<Rightarrow> (ProviderResource option \<times> provider_cache) act" where
  "cached_provider s pid cache =
     (if pid \<in> set (pc_failed cache) then areturn (None, cache)
      else (case gomap_get (pc_loaded cache) pid of
              Some p \<Rightarrow> areturn (Some p, cache)
            | None \<Rightarrow>
                abind (attempt (store (GetProvider s pid))) (\<lambda>r.
                  case r of
                    Inl e \<Rightarrow> areturn (None, cache\<lparr>pc_failed := pid # pc_failed cache\<rparr>)
                  | Inr p \<Rightarrow> areturn (Some p, cache\<lparr>pc_loaded := gomap_put pid p (pc_loaded cache)\<rparr>))))"

text \<open>
  The sets of classification values. Go iterates over them in an unspecified order; the model keeps
  the order of insertion.
\<close>

record classes =
  cl_domains :: "string list"
  cl_tasks :: "string list"
  cl_modalities :: "string list"
  cl_targets :: "string list"

definition no_classes :: classes where
  "no_classes = \<lparr>cl_domains = [], cl_tasks = [], cl_modalities = [], cl_targets = []\<rparr>"

definition set_add :: "string list \<Rightarrow> string list \<Rightarrow> string list" where
  "set_add xs acc = acc @ dedup_first acc xs"

definition add_classes :: "BenchmarkResource \<Rightarrow> classes \<Rightarrow> classes" where
  "add_classes pb cl =
     \<lparr>cl_domains = set_add (b_Domains pb) (cl_domains cl), cl_tasks = set_add (b_Tasks pb) (cl_tasks cl),
      cl_modalities = set_add (b_Modalities pb) (cl_modalities cl),
      cl_targets = set_add (b_EvaluationTargets pb) (cl_targets cl)\<rparr>"

definition provider_benchmark :: "string \<Rightarrow> ProviderResource \<Rightarrow> BenchmarkResource option" where
  "provider_benchmark bid p = find (\<lambda>pb. b_ID pb = bid) (pv_Benchmarks (pr_Config p))"

definition enriched_benchmark :: "ProviderResource option \<Rightarrow> CollectionBenchmarkConfig \<Rightarrow> CollectionBenchmarkConfig" where
  "enriched_benchmark p b =
     b\<lparr>cb_URL := (case Option.bind p (provider_benchmark (cb_ID b)) of None \<Rightarrow> '''' | Some pb \<Rightarrow> b_URL pb)\<rparr>"

definition more_classes :: "ProviderResource option \<Rightarrow> CollectionBenchmarkConfig \<Rightarrow> classes \<Rightarrow> classes" where
  "more_classes p b cl =
     (case Option.bind p (provider_benchmark (cb_ID b)) of None \<Rightarrow> cl | Some pb \<Rightarrow> add_classes pb cl)"

fun enrich_benchmarks ::
  "sqlStorage \<Rightarrow> CollectionBenchmarkConfig list \<Rightarrow> provider_cache \<Rightarrow> classes \<Rightarrow>
   (CollectionBenchmarkConfig list \<times> provider_cache \<times> classes) act" where
  "enrich_benchmarks s [] cache cl = areturn ([], cache, cl)"
| "enrich_benchmarks s (b # bs) cache cl =
     (if cb_ProviderID b = '''' \<or> cb_ID b = ''''
      then abind (enrich_benchmarks s bs cache cl) (\<lambda>(bs', rest). areturn (b # bs', rest))
      else
        abind (cached_provider s (cb_ProviderID b) cache) (\<lambda>(p, cache').
        abind (enrich_benchmarks s bs cache' (more_classes p b cl)) (\<lambda>(bs', rest).
          areturn (enriched_benchmark p b # bs', rest))))"

definition fill_classes :: "classes \<Rightarrow> CollectionConfig \<Rightarrow> CollectionConfig" where
  "fill_classes cl c =
     c\<lparr>cc_Domains := (if cc_Domains c = [] then cl_domains cl else cc_Domains c),
       cc_Tasks := (if cc_Tasks c = [] then cl_tasks cl else cc_Tasks c),
       cc_Modalities := (if cc_Modalities c = [] then cl_modalities cl else cc_Modalities c),
       cc_EvaluationTargets := (if cc_EvaluationTargets c = [] then cl_targets cl else cc_EvaluationTargets c)\<rparr>"

fun enrich_collections ::
  "sqlStorage \<Rightarrow> CollectionResource list \<Rightarrow> provider_cache \<Rightarrow> CollectionResource list act" where
  "enrich_collections s [] cache = areturn []"
| "enrich_collections s (c # cs) cache =
     abind (enrich_benchmarks s (cc_Benchmarks (co_Config c)) cache no_classes) (\<lambda>(bs, cache', cl).
     abind (enrich_collections s cs cache') (\<lambda>cs'.
       areturn (c\<lparr>co_Config := fill_classes cl ((co_Config c)\<lparr>cc_Benchmarks := bs\<rparr>)\<rparr> # cs')))"

definition EnrichCollectionFromProviders :: "sqlStorage \<Rightarrow> CollectionResource list \<Rightarrow> CollectionResource list act" where
  "EnrichCollectionFromProviders s cs = enrich_collections s cs empty_cache"

definition enrich_one :: "sqlStorage \<Rightarrow> CollectionResource \<Rightarrow> CollectionResource act" where
  "enrich_one s c = abind (EnrichCollectionFromProviders s [c]) (\<lambda>cs. areturn (hd cs))"

text \<open>The URLs alone: the first benchmark of the provider that has the id and a URL.\<close>

definition provider_url :: "string \<Rightarrow> ProviderResource \<Rightarrow> string" where
  "provider_url bid p =
     (case find (\<lambda>pb. b_ID pb = bid \<and> b_URL pb \<noteq> '''') (pv_Benchmarks (pr_Config p)) of None \<Rightarrow> '''' | Some pb \<Rightarrow> b_URL pb)"

fun enrich_urls :: "sqlStorage \<Rightarrow> CollectionBenchmarkConfig list \<Rightarrow> provider_cache \<Rightarrow> CollectionBenchmarkConfig list act" where
  "enrich_urls s [] cache = areturn []"
| "enrich_urls s (b # bs) cache =
     (if cb_ProviderID b = '''' \<or> cb_ID b = ''''
      then abind (enrich_urls s bs cache) (\<lambda>bs'. areturn (b # bs'))
      else
        abind (cached_provider s (cb_ProviderID b) cache) (\<lambda>(p, cache').
        abind (enrich_urls s bs cache') (\<lambda>bs'.
          areturn (b\<lparr>cb_URL := (case p of None \<Rightarrow> '''' | Some pr \<Rightarrow> provider_url (cb_ID b) pr)\<rparr> # bs'))))"

definition EnrichBenchmarkURLsFromProviders ::
  "sqlStorage \<Rightarrow> CollectionBenchmarkConfig list \<Rightarrow> CollectionBenchmarkConfig list act" where
  "EnrichBenchmarkURLsFromProviders s bs = enrich_urls s bs empty_cache"

section \<open>Values of patches\<close>

text \<open>The regular expression \<open>^/benchmarks(?:/(-|\d+))?$\<close>.\<close>

definition entireBenchmarkPatchPath :: "string \<Rightarrow> bool" where
  "entireBenchmarkPatchPath path \<longleftrightarrow>
     path = ''/benchmarks'' \<or>
     (HasPrefix path ''/benchmarks/'' \<and>
      (let rest = drop (length ''/benchmarks/'') path
       in rest = ''-'' \<or> (rest \<noteq> '''' \<and> list_all (\<lambda>c. digit_value c \<noteq> None) rest)))"

definition json_any :: "Handlers \<Rightarrow> bool \<Rightarrow> unit act" where
  "json_any h ok = (if ok then areturn () else athrow (PlainErr (st_json_error (hd_storage h))))"

definition enrich_patch :: "Handlers \<Rightarrow> sqlStorage \<Rightarrow> PatchOperation \<Rightarrow> PatchOperation act" where
  "enrich_patch h s op =
     (let cd = hd_codecs h
      in if po_Op op \<noteq> PatchOpReplace \<and> po_Op op \<noteq> PatchOpAdd then areturn op
         else if \<not> entireBenchmarkPatchPath (po_Path op) then areturn op
         else
           abind (json_any h (any_ok (po_Value op))) (\<lambda>_.
             if po_Path op = ''/benchmarks''
             then (case cd_benchmarks cd (po_Value op) of
                     None \<Rightarrow> areturn op
                   | Some benchmarks \<Rightarrow>
                       abind (EnrichBenchmarkURLsFromProviders s benchmarks) (\<lambda>bs.
                       abind (json_any h (list_all coll_bench_ok bs)) (\<lambda>_.
                         areturn (op\<lparr>po_Value := cd_any_benchmarks cd bs\<rparr>))))
             else (case cd_benchmark cd (po_Value op) of
                     None \<Rightarrow> areturn op
                   | Some b \<Rightarrow>
                       if cb_ProviderID b = '''' \<or> cb_ID b = '''' then areturn op
                       else
                         abind (EnrichBenchmarkURLsFromProviders s [b]) (\<lambda>bs.
                         abind (json_any h (coll_bench_ok (hd bs))) (\<lambda>_.
                           areturn (op\<lparr>po_Value := cd_any_benchmark cd (hd bs)\<rparr>))))))"

fun enrichEntireBenchmarkPatchValues :: "Handlers \<Rightarrow> sqlStorage \<Rightarrow> PatchOperation list \<Rightarrow> PatchOperation list act" where
  "enrichEntireBenchmarkPatchValues h s [] = areturn []"
| "enrichEntireBenchmarkPatchValues h s (p # ps) =
     abind (enrich_patch h s p) (\<lambda>p'.
     abind (enrichEntireBenchmarkPatchValues h s ps) (\<lambda>ps'. areturn (p' # ps')))"

definition read_patches :: "Handlers \<Rightarrow> allowedPatch list \<Rightarrow> http_request \<Rightarrow> go_error + PatchOperation list" where
  "read_patches h allowed r =
     ebind (rq_Body r) (\<lambda>body.
       case cd_patches (hd_codecs h) body of
         Inl e \<Rightarrow> Inl (NewServiceError InvalidJSONRequest [''Error'', e])
       | Inr patches \<Rightarrow>
           ebind (echeck (verifyPatches (cd_patch_valid (hd_codecs h)) patches allowed)) (\<lambda>_. Inr patches))"

section \<open>Collections\<close>

definition HandleListCollections ::
  "Handlers \<Rightarrow> ExecutionContext \<Rightarrow> http_request \<Rightarrow> world \<Rightarrow> CollectionResource listed response \<times> world" where
  "HandleListCollections h ctx r =
     (let s = getStorage h ctx
      in respond (abind (alift (collections_filter r)) (\<lambda>flt.
         abind (store (GetCollections s (hd_engine h) flt)) (\<lambda>res.
           case res of
             Panic \<Rightarrow> areturn Panicked
           | Unfinished \<Rightarrow> areturn Hung
           | Value q \<Rightarrow>
               abind (alift (CreatePage (qr_TotalCount q) (qf_Offset flt) (qf_Limit flt) r)) (\<lambda>page.
               abind (EnrichCollectionFromProviders s (qr_Items q)) (\<lambda>items.
                 areturn (Wrote \<lparr>ls_Page = page, ls_Items = items\<rparr> 200)))))))"

text \<open>The object that CreateCollection and CreateProvider have stamped with its times.\<close>

definition create_collection :: "sqlStorage \<Rightarrow> CollectionResource \<Rightarrow> CollectionResource act" where
  "create_collection s c =
     abind (store (stamp_times (st_env s) (co_Resource c))) (\<lambda>res.
       let c' = c\<lparr>co_Resource := res\<rparr>
       in abind (store (CreateCollection s c')) (\<lambda>_. areturn c'))"

definition HandleCreateCollection ::
  "Handlers \<Rightarrow> ExecutionContext \<Rightarrow> http_request \<Rightarrow> world \<Rightarrow> CollectionResource response \<times> world" where
  "HandleCreateCollection h ctx r =
     (let s = getStorage h ctx
      in respond (abind (GUID h) (\<lambda>i.
         abind (alift (read_body (cd_collection (hd_codecs h)) r)) (\<lambda>collection.
         abind (store (time_Now (st_env s))) (\<lambda>now.
         abind (enrich_one s \<lparr>co_Resource = \<lparr>r_ID = i, r_Tenant = cx_Tenant ctx, r_CreatedAt = now, r_UpdatedAt = 0,
                                             r_Owner = cx_User ctx\<rparr>,
                              co_DerivedFrom = '''', co_PinnedOrder = 0, co_Config = collection,
                              co_Status = Some \<lparr>cs_RunCount = 0\<rparr>\<rparr>) (\<lambda>c.
         abind (create_collection s c) (\<lambda>c'. areturn (Wrote c' 201))))))))"

definition HandleGetCollection ::
  "Handlers \<Rightarrow> ExecutionContext \<Rightarrow> http_request \<Rightarrow> world \<Rightarrow> CollectionResource response \<times> world" where
  "HandleGetCollection h ctx r =
     (let s = getStorage h ctx
      in respond (abind (alift (path_value r ''collection_id'')) (\<lambda>i.
         abind (store (GetCollection s i)) (\<lambda>c.
         abind (enrich_one s c) (\<lambda>c'. areturn (Wrote c' 200))))))"

definition refuse_curated :: "string \<Rightarrow> CollectionResource \<Rightarrow> unit act" where
  "refuse_curated i existing = (if curated existing then athrow (read_only_collection i) else areturn ())"

definition HandleUpdateCollection ::
  "Handlers \<Rightarrow> ExecutionContext \<Rightarrow> http_request \<Rightarrow> world \<Rightarrow> CollectionResource response \<times> world" where
  "HandleUpdateCollection h ctx r =
     (let s = getStorage h ctx
      in respond (abind (alift (path_value r ''collection_id'')) (\<lambda>i.
         abind (alift (read_body (cd_collection (hd_codecs h)) r)) (\<lambda>request.
         abind (store (GetCollection s i)) (\<lambda>existing.
         abind (refuse_curated i existing) (\<lambda>_.
         abind (enrich_one s \<lparr>co_Resource = zero_resource, co_DerivedFrom = '''', co_PinnedOrder = 0, co_Config = request,
                              co_Status = None\<rparr>) (\<lambda>toUpdate.
         abind (store (UpdateCollection s i (co_Config toUpdate))) (\<lambda>result. areturn (Wrote result 200)))))))))"

definition HandlePatchCollection ::
  "Handlers \<Rightarrow> ExecutionContext \<Rightarrow> http_request \<Rightarrow> world \<Rightarrow> CollectionResource response \<times> world" where
  "HandlePatchCollection h ctx r =
     (let s = getStorage h ctx
      in respond (abind (alift (path_value r ''collection_id'')) (\<lambda>i.
         abind (alift (read_patches h allowedCollectionPatches r)) (\<lambda>patches.
         abind (store (GetCollection s i)) (\<lambda>existing.
         abind (refuse_curated i existing) (\<lambda>_.
         abind (enrichEntireBenchmarkPatchValues h s patches) (\<lambda>patches'.
         abind (store (PatchCollection (cd_patch_collection (hd_codecs h)) s i patches')) (\<lambda>result.
           areturn (Wrote result 200)))))))))"

definition clone_overrides :: "Handlers \<Rightarrow> http_request \<Rightarrow> go_error + CollectionConfig" where
  "clone_overrides h r =
     ebind (rq_Body r) (\<lambda>body.
       if body = ''''
       then Inr \<lparr>cc_Name = '''', cc_Description = '''', cc_Category = '''', cc_Tags = [], cc_Custom = None,
                 cc_PassCriteria = None, cc_Benchmarks = [], cc_Agent = None, cc_CurationOrder = 0, cc_Domains = [],
                 cc_Tasks = [], cc_Modalities = [], cc_Industries = [], cc_EvaluationTargets = []\<rparr>
       else (case cd_overrides (hd_codecs h) body of
               Inl e \<Rightarrow> Inl (NewServiceError InvalidJSONRequest [''Error'', e])
             | Inr ov \<Rightarrow> Inr ov))"

definition HandleCloneCollection ::
  "Handlers \<Rightarrow> ExecutionContext \<Rightarrow> http_request \<Rightarrow> world \<Rightarrow> CollectionResource response \<times> world" where
  "HandleCloneCollection h ctx r =
     (let s = getStorage h ctx
      in respond (abind (alift (path_value r ''collection_id'')) (\<lambda>sourceID.
         abind (store (GetCollection s sourceID)) (\<lambda>source.
         abind (alift (clone_overrides h r)) (\<lambda>overrides.
           let newConfig = ApplyOverrides (co_Config source) (Some overrides)
           in abind (aguard (map_option (\<lambda>f. NewServiceError RequestValidationFailed [''Error'', raw_validation_text f])
                               (cd_Validate (cd_collection (hd_codecs h)) newConfig))) (\<lambda>_.
              abind (GUID h) (\<lambda>newID.
              abind (store (time_Now (st_env s))) (\<lambda>now.
              abind (enrich_one s \<lparr>co_Resource = \<lparr>r_ID = newID, r_Tenant = cx_Tenant ctx, r_CreatedAt = now, r_UpdatedAt = now,
                                                  r_Owner = cx_User ctx\<rparr>,
                                   co_DerivedFrom = sourceID, co_PinnedOrder = 0, co_Config = newConfig,
                                   co_Status = Some \<lparr>cs_RunCount = 0\<rparr>\<rparr>) (\<lambda>c.
              abind (create_collection s c) (\<lambda>_.
              abind (store (GetCollection s newID)) (\<lambda>persisted.
              abind (enrich_one s persisted) (\<lambda>c'. areturn (Wrote c' 201)))))))))))))"

definition HandleDeleteCollection ::
  "Handlers \<Rightarrow> ExecutionContext \<Rightarrow> http_request \<Rightarrow> world \<Rightarrow> unit response \<times> world" where
  "HandleDeleteCollection h ctx r =
     respond (abind (alift (path_value r ''collection_id'')) (\<lambda>i.
              abind (store (DeleteCollection (getStorage h ctx) i)) (\<lambda>_. areturn (Empty 204))))"

section \<open>Providers\<close>

definition create_provider :: "sqlStorage \<Rightarrow> ProviderResource \<Rightarrow> ProviderResource act" where
  "create_provider s p =
     abind (store (stamp_times (st_env s) (pr_Resource p))) (\<lambda>res.
       let p' = p\<lparr>pr_Resource := res\<rparr>
       in abind (store (CreateProvider s p')) (\<lambda>_. areturn p'))"

definition HandleCreateProvider ::
  "Handlers \<Rightarrow> ExecutionContext \<Rightarrow> http_request \<Rightarrow> world \<Rightarrow> ProviderResource response \<times> world" where
  "HandleCreateProvider h ctx r =
     (let s = getStorage h ctx
      in respond (abind (GUID h) (\<lambda>i.
         abind (alift (read_body (cd_provider (hd_codecs h)) r)) (\<lambda>request.
         abind (store (time_Now (st_env s))) (\<lambda>now.
         abind (create_provider s \<lparr>pr_Resource = \<lparr>r_ID = i, r_Tenant = cx_Tenant ctx, r_CreatedAt = now, r_UpdatedAt = 0,
                                                   r_Owner = cx_User ctx\<rparr>, pr_Config = request\<rparr>) (\<lambda>p.
           areturn (Wrote p 201)))))))"

definition HandleListProviders ::
  "Handlers \<Rightarrow> ExecutionContext \<Rightarrow> http_request \<Rightarrow> world \<Rightarrow> ProviderResource listed response \<times> world" where
  "HandleListProviders h ctx r =
     respond (abind (alift (providers_filter r)) (\<lambda>(flt, benchmarks).
              abind (store (GetProviders (getStorage h ctx) (hd_engine h) flt)) (\<lambda>res.
                case res of
                  Panic \<Rightarrow> areturn Panicked
                | Unfinished \<Rightarrow> areturn Hung
                | Value q \<Rightarrow>
                    let items = (if benchmarks then qr_Items q
                                 else map (\<lambda>p. p\<lparr>pr_Config := (pr_Config p)\<lparr>pv_Benchmarks := []\<rparr>\<rparr>) (qr_Items q))
                    in abind (alift (CreatePage (qr_TotalCount q) (qf_Offset flt) (qf_Limit flt) r)) (\<lambda>page.
                         areturn (Wrote \<lparr>ls_Page = page, ls_Items = items\<rparr> 200)))))"

definition HandleGetProvider ::
  "Handlers \<Rightarrow> ExecutionContext \<Rightarrow> http_request \<Rightarrow> world \<Rightarrow> ProviderResource response \<times> world" where
  "HandleGetProvider h ctx r =
     respond (abind (alift (path_value r ''provider_id'')) (\<lambda>i.
              abind (store (GetProvider (getStorage h ctx) i)) (\<lambda>p. areturn (Wrote p 200))))"

definition HandleUpdateProvider ::
  "Handlers \<Rightarrow> ExecutionContext \<Rightarrow> http_request \<Rightarrow> world \<Rightarrow> ProviderResource response \<times> world" where
  "HandleUpdateProvider h ctx r =
     respond (abind (alift (path_value r ''provider_id'')) (\<lambda>i.
              abind (alift (read_body (cd_provider (hd_codecs h)) r)) (\<lambda>request.
              abind (store (UpdateProvider (getStorage h ctx) i request)) (\<lambda>p. areturn (Wrote p 200)))))"

definition applyJSONPatches :: "codecs \<Rightarrow> string \<Rightarrow> PatchOperation list \<Rightarrow> string + string" where
  "applyJSONPatches cd doc patches = (if patches = [] then Inr doc else cd_apply_patch cd doc patches)"

definition validatePatchedProviderConfig :: "Handlers \<Rightarrow> sqlStorage \<Rightarrow> string \<Rightarrow> PatchOperation list \<Rightarrow> unit act" where
  "validatePatchedProviderConfig h s i patches =
     abind (store (GetProvider s i)) (\<lambda>existing.
       if \<not> provider_config_ok (pr_Config existing) then athrow (internal_error (st_json_error (hd_storage h)))
       else
         (case applyJSONPatches (hd_codecs h) (cd_provider_json (hd_codecs h) (pr_Config existing)) patches of
            Inl e \<Rightarrow> athrow (NewServiceError InvalidJSONRequest [''Error'', e])
          | Inr patchedJSON \<Rightarrow> abind (alift (Unmarshal (cd_provider (hd_codecs h)) patchedJSON)) (\<lambda>_. areturn ())))"

definition HandlePatchProvider ::
  "Handlers \<Rightarrow> ExecutionContext \<Rightarrow> http_request \<Rightarrow> world \<Rightarrow> ProviderResource response \<times> world" where
  "HandlePatchProvider h ctx r =
     (let s = getStorage h ctx
      in respond (abind (alift (path_value r ''provider_id'')) (\<lambda>i.
         abind (alift (read_patches h allowedProviderPatches r)) (\<lambda>patches.
         abind (validatePatchedProviderConfig h s i patches) (\<lambda>_.
         abind (store (PatchProvider (cd_patch_provider (hd_codecs h)) s i patches)) (\<lambda>p. areturn (Wrote p 200)))))))"

definition HandleDeleteProvider ::
  "Handlers \<Rightarrow> ExecutionContext \<Rightarrow> http_request \<Rightarrow> world \<Rightarrow> unit response \<times> world" where
  "HandleDeleteProvider h ctx r =
     respond (abind (alift (path_value r ''provider_id'')) (\<lambda>i.
              abind (store (DeleteProvider (getStorage h ctx) i)) (\<lambda>_. areturn (Empty 204))))"

end
