(* ===== verification/Server.thy ===== *)
theory Server
  imports Catalog_Handlers
begin

text \<open>
  The HTTP server (server/server.go, server/execution_context.go, server/cors_middleware.go) and the
  handlers without state (handlers/info.go, health.go, openapi.go): the patterns of the routes, the
  dispatch on the method, the identity headers, the limit on the body and the status of an answer.

  A call comes with the segments of its path as the ServeMux sees them: the path is clean (the mux
  redirects others) and its segments are unescaped and not empty. Logging, the instrumentation of the
  routes and of the requests, and the page with the API documentation are left out.
\<close>

section \<open>Calls\<close>

text \<open>
  The body of a call as io.ReadAll finds it: the bytes that arrive, and the error that ends them, if
  any.
\<close>

record http_call =
  hc_Method :: string
  hc_Path :: "string list"
  hc_Header :: "string \<Rightarrow> string"
  hc_Query :: "string \<Rightarrow> string list"
  hc_URI :: string
  hc_Parsed :: "string + parsed_uri"
  hc_Body :: "string \<times> string option"

definition TenantHeader :: string where "TenantHeader = ''X-Tenant''"

definition UserHeader :: string where "UserHeader = ''X-User''"

definition newExecutionContext :: "http_call \<Rightarrow> ExecutionContext" where
  "newExecutionContext r = \<lparr>cx_Tenant = hc_Header r TenantHeader, cx_User = hc_Header r UserHeader\<rparr>"

text \<open>NewRequestWrapper and BodyAsBytes: http.MaxBytesReader fails once the limit is exceeded.\<close>

definition BodyAsBytes :: "int \<Rightarrow> string \<times> string option \<Rightarrow> go_error + string" where
  "BodyAsBytes maxBodyBytes b =
     (if maxBodyBytes \<ge> 0 \<and> int (length (fst b)) > maxBodyBytes
      then Inl (NewServiceError RequestBodyTooLarge [''Limit'', Itoa maxBodyBytes])
      else (case snd b of Some e \<Rightarrow> Inl (PlainErr e) | None \<Rightarrow> Inr (fst b)))"

section \<open>Routes\<close>

datatype segment = Literal string | Wildcard string

datatype api_route =
    HealthRoute
  | InfoRoute
  | EvaluationJobs
  | PostProcessings
  | PostProcessingItem
  | BenchmarkLogs
  | JobLogs
  | JobEvents
  | EvaluationJobItem
  | Collections
  | CollectionItem
  | CollectionClones
  | Providers
  | ProviderItem
  | OpenAPI
  | Docs

definition evaluations_path :: "segment list" where
  "evaluations_path = [Literal ''api'', Literal ''v1'', Literal ''evaluations'']"

primrec route_pattern :: "api_route \<Rightarrow> segment list" where
  "route_pattern HealthRoute = [Literal ''api'', Literal ''v1'', Literal ''health'']"
| "route_pattern InfoRoute = [Literal ''api'', Literal ''v1'', Literal ''info'']"
| "route_pattern EvaluationJobs = evaluations_path @ [Literal ''jobs'']"
| "route_pattern PostProcessings = evaluations_path @ [Literal ''post-processing'']"
| "route_pattern PostProcessingItem = evaluations_path @ [Literal ''post-processing'', Wildcard ''post_processing_job_id'']"
| "route_pattern BenchmarkLogs =
     evaluations_path @ [Literal ''jobs'', Wildcard ''job_id'', Literal ''benchmarks'', Wildcard ''benchmark_index'', Literal ''logs'']"
| "route_pattern JobLogs = evaluations_path @ [Literal ''jobs'', Wildcard ''job_id'', Literal ''logs'']"
| "route_pattern JobEvents = evaluations_path @ [Literal ''jobs'', Wildcard ''job_id'', Literal ''events'']"
| "route_pattern EvaluationJobItem = evaluations_path @ [Literal ''jobs'', Wildcard ''job_id'']"
| "route_pattern Collections = evaluations_path @ [Literal ''collections'']"
| "route_pattern CollectionItem = evaluations_path @ [Literal ''collections'', Wildcard ''collection_id'']"
| "route_pattern CollectionClones = evaluations_path @ [Literal ''collections'', Wildcard ''collection_id'', Literal ''clones'']"
| "route_pattern Providers = evaluations_path @ [Literal ''providers'']"
| "route_pattern ProviderItem = evaluations_path @ [Literal ''providers'', Wildcard ''provider_id'']"
| "route_pattern OpenAPI = [Literal ''openapi.yaml'']"
| "route_pattern Docs = [Literal ''docs'']"

definition setupRoutes :: "api_route list" where
  "setupRoutes =
     [HealthRoute, InfoRoute, EvaluationJobs, PostProcessings, PostProcessingItem, BenchmarkLogs, JobLogs, JobEvents,
      EvaluationJobItem, Collections, CollectionItem, CollectionClones, Providers, ProviderItem, OpenAPI, Docs]"

text \<open>A path against a pattern: the values of the wildcards.\<close>

fun match_path :: "segment list \<Rightarrow> string list \<Rightarrow> (string \<times> string) list option" where
  "match_path [] [] = Some []"
| "match_path (Literal l # ps) (x # xs) = (if l = x then match_path ps xs else None)"
| "match_path (Wildcard n # ps) (x # xs) = map_option ((#) (n, x)) (match_path ps xs)"
| "match_path _ _ = None"

fun first_match :: "api_route list \<Rightarrow> string list \<Rightarrow> (api_route \<times> (string \<times> string) list) option" where
  "first_match [] path = None"
| "first_match (rt # rts) path =
     (case match_path (route_pattern rt) path of Some vs \<Rightarrow> Some (rt, vs) | None \<Rightarrow> first_match rts path)"

definition find_route :: "string list \<Rightarrow> (api_route \<times> (string \<times> string) list) option" where
  "find_route path = first_match setupRoutes path"

text \<open>The actions behind the routes.\<close>

datatype action =
    OnHealth
  | OnGetInfo
  | OnCreateEvaluation
  | OnListEvaluations
  | OnGetEvaluation
  | OnCancelEvaluation
  | OnUpdateEvaluation
  | OnGetEvaluationJobLogs
  | OnGetEvaluationBenchmarkLogs
  | OnCreatePostProcessing
  | OnGetPostProcessing
  | OnDeletePostProcessing
  | OnCreateCollection
  | OnListCollections
  | OnGetCollection
  | OnUpdateCollection
  | OnPatchCollection
  | OnDeleteCollection
  | OnCloneCollection
  | OnListProviders
  | OnCreateProvider
  | OnGetProvider
  | OnUpdateProvider
  | OnPatchProvider
  | OnDeleteProvider
  | OnGetOpenAPI
  | OnGetDocs

definition on_method :: "(string \<times> action) list \<Rightarrow> string \<Rightarrow> action option" where
  "on_method table m = map_of table m"

primrec route_actions :: "api_route \<Rightarrow> (string \<times> action) list" where
  "route_actions HealthRoute = [(''GET'', OnHealth)]"
| "route_actions InfoRoute = [(''GET'', OnGetInfo)]"
| "route_actions EvaluationJobs = [(''POST'', OnCreateEvaluation), (''GET'', OnListEvaluations)]"
| "route_actions PostProcessings = [(''POST'', OnCreatePostProcessing)]"
| "route_actions PostProcessingItem = [(''GET'', OnGetPostProcessing), (''DELETE'', OnDeletePostProcessing)]"
| "route_actions BenchmarkLogs = [(''GET'', OnGetEvaluationBenchmarkLogs)]"
| "route_actions JobLogs = [(''GET'', OnGetEvaluationJobLogs)]"
| "route_actions JobEvents = [(''POST'', OnUpdateEvaluation)]"
| "route_actions EvaluationJobItem = [(''GET'', OnGetEvaluation), (''DELETE'', OnCancelEvaluation)]"
| "route_actions Collections = [(''POST'', OnCreateCollection), (''GET'', OnListCollections)]"
| "route_actions CollectionItem =
     [(''GET'', OnGetCollection), (''PUT'', OnUpdateCollection), (''PATCH'', OnPatchCollection), (''DELETE'', OnDeleteCollection)]"
| "route_actions CollectionClones = [(''POST'', OnCloneCollection)]"
| "route_actions Providers = [(''GET'', OnListProviders), (''POST'', OnCreateProvider)]"
| "route_actions ProviderItem =
     [(''GET'', OnGetProvider), (''PUT'', OnUpdateProvider), (''PATCH'', OnPatchProvider), (''DELETE'', OnDeleteProvider)]"
| "route_actions OpenAPI = [(''GET'', OnGetOpenAPI)]"
| "route_actions Docs = [(''GET'', OnGetDocs)]"

text \<open>The routes that are served without identity headers.\<close>

definition open_route :: "api_route \<Rightarrow> bool" where
  "open_route rt \<longleftrightarrow> rt \<in> {HealthRoute, OpenAPI, Docs}"

section \<open>The handlers without state\<close>

record InfoResponse =
  ir_Version :: string
  ir_Build :: string
  ir_BuildDate :: string
  ir_GitHash :: string
  ir_HardwareProfiles :: "HardwareProfileInfo list"

datatype document =
    JobDoc EvaluationJobResource
  | JobsDoc "EvaluationJobResource listed"
  | PostProcessingDoc PostProcessingResource
  | CollectionDoc CollectionResource
  | CollectionsDoc "CollectionResource listed"
  | ProviderDoc ProviderResource
  | ProvidersDoc "ProviderResource listed"
  | InfoDoc InfoResponse
  | HealthDoc string time
  | FileDoc string string
  | DocsPage
  | NoDoc

text \<open>
  The server: its handlers, the optional listing of hardware profiles by the runtime, the directory of
  the executable and the files around it, and filepath.Abs.
\<close>

record server =
  sr_handlers :: Handlers
  sr_profiles :: "(effect list \<Rightarrow> string \<Rightarrow> go_error + HardwareProfileInfo list) option"
  sr_exe_docs :: "string option"
  sr_abs :: "string \<Rightarrow> string option"
  sr_ReadFile :: "string \<Rightarrow> string \<Rightarrow> string option"

definition server_service :: "server \<Rightarrow> ServiceConfig option" where
  "server_service sv = Option.bind (hd_serviceConfig (sr_handlers sv)) cf_Service"

definition HandleHealth :: "server \<Rightarrow> world \<Rightarrow> document response \<times> world" where
  "HandleHealth sv =
     respond (abind (store (time_Now (st_env (hd_storage (sr_handlers sv))))) (\<lambda>now.
       areturn (Wrote (HealthDoc ''healthy'' now) 200)))"

definition info_response :: "server \<Rightarrow> HardwareProfileInfo list \<Rightarrow> document response" where
  "info_response sv profiles =
     (case server_service sv of
        None \<Rightarrow> Panicked
      | Some s \<Rightarrow> Wrote (InfoDoc \<lparr>ir_Version = sv_Version s, ir_Build = sv_Build s, ir_BuildDate = sv_BuildDate s,
                                   ir_GitHash = sv_GitHash s, ir_HardwareProfiles = profiles\<rparr>) 200)"

definition HandleGetInfo :: "server \<Rightarrow> ExecutionContext \<Rightarrow> world \<Rightarrow> document response \<times> world" where
  "HandleGetInfo sv ctx =
     respond (abind history (\<lambda>log.
       (case sr_profiles sv of
          None \<Rightarrow> areturn (info_response sv [])
        | Some list_profiles \<Rightarrow>
            (case list_profiles log (cx_Tenant ctx) of
               Inl (ServiceErr e) \<Rightarrow> athrow (ServiceErr e)
             | Inl e \<Rightarrow> athrow (NewServiceError InternalServerError [''Error'', ''Failed to list tenant hardware profiles''])
             | Inr listed \<Rightarrow> areturn (info_response sv listed)))))"

text \<open>The directories in which the specification is looked for, in their order.\<close>

definition openapi_dirs :: "server \<Rightarrow> string list" where
  "openapi_dirs sv =
     (case sr_exe_docs sv of None \<Rightarrow> [] | Some d \<Rightarrow> [d]) @
     List.map_filter (sr_abs sv) [''docs'', ''../docs'', ''../../docs'', ''../../../docs'']"

definition HandleOpenAPI :: "server \<Rightarrow> http_call \<Rightarrow> document response" where
  "HandleOpenAPI sv r =
     (let json = Contains (hc_Header r ''Accept'') ''application/json'';
          file = (if json then ''openapi.json'' else ''openapi.yaml'');
          contentType = (if json then ''application/json'' else ''application/yaml'')
      in (case List.map_filter (\<lambda>d. sr_ReadFile sv d file) (openapi_dirs sv) of
            contents # _ \<Rightarrow> Wrote (FileDoc contentType contents) 200
          | [] \<Rightarrow> Failed (NewServiceError InternalServerError [''Error'', ''Failed to read OpenAPI spec''])))"

section \<open>Serving a call\<close>

definition request_of :: "server \<Rightarrow> http_call \<Rightarrow> (string \<times> string) list \<Rightarrow> http_request" where
  "request_of sv r pathValues =
     \<lparr>rq_PathValue = (\<lambda>n. case map_of pathValues n of None \<Rightarrow> '''' | Some v \<Rightarrow> v), rq_Query = hc_Query r, rq_URI = hc_URI r,
      rq_Parsed = hc_Parsed r, rq_Body = BodyAsBytes (EffectiveMaxRequestBodyBytes (server_service sv)) (hc_Body r)\<rparr>"

definition answer :: "('b \<Rightarrow> document) \<Rightarrow> 'b response \<times> world \<Rightarrow> document response \<times> world" where
  "answer doc p = (case p of (resp, w) \<Rightarrow> (map_response doc resp, w))"

fun run_action ::
  "server \<Rightarrow> ExecutionContext \<Rightarrow> http_call \<Rightarrow> http_request \<Rightarrow> action \<Rightarrow> world \<Rightarrow> document response \<times> world" where
  "run_action sv ctx r req OnHealth w = HandleHealth sv w"
| "run_action sv ctx r req OnGetInfo w = HandleGetInfo sv ctx w"
| "run_action sv ctx r req OnCreateEvaluation w = answer JobDoc (HandleCreateEvaluation (sr_handlers sv) ctx req w)"
| "run_action sv ctx r req OnListEvaluations w = answer JobsDoc (HandleListEvaluations (sr_handlers sv) ctx req w)"
| "run_action sv ctx r req OnGetEvaluation w = answer JobDoc (HandleGetEvaluation (sr_handlers sv) ctx req w)"
| "run_action sv ctx r req OnCancelEvaluation w = answer (\<lambda>_. NoDoc) (HandleCancelEvaluation (sr_handlers sv) ctx req w)"
| "run_action sv ctx r req OnUpdateEvaluation w = answer (\<lambda>_. NoDoc) (HandleUpdateEvaluation (sr_handlers sv) ctx req w)"
| "run_action sv ctx r req OnGetEvaluationJobLogs w = answer (\<lambda>_. NoDoc) (HandleGetEvaluationJobLogs (sr_handlers sv) ctx req w)"
| "run_action sv ctx r req OnGetEvaluationBenchmarkLogs w =
     answer (\<lambda>_. NoDoc) (HandleGetEvaluationBenchmarkLogs (sr_handlers sv) ctx req w)"
| "run_action sv ctx r req OnCreatePostProcessing w =
     answer PostProcessingDoc (HandleCreatePostProcessing (sr_handlers sv) ctx req w)"
| "run_action sv ctx r req OnGetPostProcessing w = answer PostProcessingDoc (HandleGetPostProcessing (sr_handlers sv) ctx req w)"
| "run_action sv ctx r req OnDeletePostProcessing w = answer (\<lambda>_. NoDoc) (HandleDeletePostProcessing (sr_handlers sv) ctx req w)"
| "run_action sv ctx r req OnCreateCollection w = answer CollectionDoc (HandleCreateCollection (sr_handlers sv) ctx req w)"
| "run_action sv ctx r req OnListCollections w = answer CollectionsDoc (HandleListCollections (sr_handlers sv) ctx req w)"
| "run_action sv ctx r req OnGetCollection w = answer CollectionDoc (HandleGetCollection (sr_handlers sv) ctx req w)"
| "run_action sv ctx r req OnUpdateCollection w = answer CollectionDoc (HandleUpdateCollection (sr_handlers sv) ctx req w)"
| "run_action sv ctx r req OnPatchCollection w = answer CollectionDoc (HandlePatchCollection (sr_handlers sv) ctx req w)"
| "run_action sv ctx r req OnDeleteCollection w = answer (\<lambda>_. NoDoc) (HandleDeleteCollection (sr_handlers sv) ctx req w)"
| "run_action sv ctx r req OnCloneCollection w = answer CollectionDoc (HandleCloneCollection (sr_handlers sv) ctx req w)"
| "run_action sv ctx r req OnListProviders w = answer ProvidersDoc (HandleListProviders (sr_handlers sv) ctx req w)"
| "run_action sv ctx r req OnCreateProvider w = answer ProviderDoc (HandleCreateProvider (sr_handlers sv) ctx req w)"
| "run_action sv ctx r req OnGetProvider w = answer ProviderDoc (HandleGetProvider (sr_handlers sv) ctx req w)"
| "run_action sv ctx r req OnUpdateProvider w = answer ProviderDoc (HandleUpdateProvider (sr_handlers sv) ctx req w)"
| "run_action sv ctx r req OnPatchProvider w = answer ProviderDoc (HandlePatchProvider (sr_handlers sv) ctx req w)"
| "run_action sv ctx r req OnDeleteProvider w = answer (\<lambda>_. NoDoc) (HandleDeleteProvider (sr_handlers sv) ctx req w)"
| "run_action sv ctx r req OnGetOpenAPI w = (HandleOpenAPI sv r, w)"
| "run_action sv ctx r req OnGetDocs w = (Wrote DocsPage 200, w)"

definition canContinueRequest :: "Config option \<Rightarrow> ExecutionContext \<Rightarrow> go_error option" where
  "canContinueRequest cfg ctx =
     (if \<not> RequiresIdentityHeaders cfg then None
      else if cx_Tenant ctx = '''' then Some (NewServiceError MissingTenantHeader [''Header'', TenantHeader])
      else if cx_User ctx = '''' then Some (NewServiceError MissingUserHeader [''Header'', UserHeader])
      else None)"

definition method_not_allowed :: "http_call \<Rightarrow> go_error" where
  "method_not_allowed r = NewServiceError MethodNotAllowed [''Method'', hc_Method r, ''Api'', hc_URI r]"

definition handle_route ::
  "server \<Rightarrow> http_call \<Rightarrow> api_route \<Rightarrow> (string \<times> string) list \<Rightarrow> world \<Rightarrow> document response \<times> world" where
  "handle_route sv r rt pathValues w =
     (let ctx = newExecutionContext r
      in (case if open_route rt then None else canContinueRequest (hd_serviceConfig (sr_handlers sv)) ctx of
            Some e \<Rightarrow> (Failed e, w)
          | None \<Rightarrow>
              (case on_method (route_actions rt) (hc_Method r) of
                 None \<Rightarrow> (Failed (method_not_allowed r), w)
               | Some a \<Rightarrow> run_action sv ctx r (request_of sv r pathValues) a w)))"

text \<open>
  One call. In local mode CORS answers the preflight requests, and the endpoint of the metrics is
  served, whose contents are left out; a path without a route is answered by the mux.
\<close>

datatype served = Answer "document response" | NoRoute | MetricsPage

definition serve :: "server \<Rightarrow> http_call \<Rightarrow> world \<Rightarrow> served \<times> world" where
  "serve sv r w =
     (let cfg = hd_serviceConfig (sr_handlers sv);
          localMode = (case server_service sv of None \<Rightarrow> False | Some s \<Rightarrow> sv_LocalMode s)
      in if localMode \<and> hc_Method r = ''OPTIONS'' then (Answer (Empty 204), w)
         else if localMode \<and> IsPrometheusEnabled cfg \<and> hc_Path r = [''metrics''] then (MetricsPage, w)
         else (case find_route (hc_Path r) of
                 None \<Rightarrow> (NoRoute, w)
               | Some (rt, pathValues) \<Rightarrow> (case handle_route sv r rt pathValues w of (resp, w') \<Rightarrow> (Answer resp, w'))))"

fun serve_all :: "server \<Rightarrow> http_call list \<Rightarrow> world \<Rightarrow> world" where
  "serve_all sv [] w = w"
| "serve_all sv (r # rs) w = serve_all sv rs (snd (serve sv r w))"

text \<open>RespWrapper.Error: the status of an answer.\<close>

fun error_status :: "go_error \<Rightarrow> nat" where
  "error_status (ServiceErr e) = message_status (messageCode e)"
| "error_status _ = message_status UnknownError"

fun response_status :: "'b response \<Rightarrow> nat option" where
  "response_status (Failed e) = Some (error_status e)"
| "response_status (Wrote d code) = Some code"
| "response_status (Empty code) = Some code"
| "response_status (Streamed text truncated) = Some 200"
| "response_status Panicked = None"
| "response_status Hung = None"

section \<open>The mux\<close>

text \<open>Two patterns that some path matches.\<close>

fun overlap :: "segment list \<Rightarrow> segment list \<Rightarrow> bool" where
  "overlap [] [] = True"
| "overlap (Literal l # ps) (Literal m # qs) = (l = m \<and> overlap ps qs)"
| "overlap (_ # ps) (_ # qs) = overlap ps qs"
| "overlap _ _ = False"

lemma match_overlap: "match_path ps xs = Some v \<Longrightarrow> match_path qs xs = Some v' \<Longrightarrow> overlap ps qs"
proof (induction ps xs arbitrary: qs v v' rule: match_path.induct)
  case (2 l ps x xs)
  then show ?case by (cases "(qs, x # xs)" rule: match_path.cases) (auto split: if_splits)
next
  case (3 n ps x xs)
  then show ?case by (cases "(qs, x # xs)" rule: match_path.cases) (auto split: if_splits)
qed (auto elim: match_path.elims)

text \<open>No path matches two patterns, so that the order of the registrations does not matter.\<close>

lemma routes_disjoint: "overlap (route_pattern r1) (route_pattern r2) \<Longrightarrow> r1 = r2"
  by (cases r1; cases r2) (simp_all add: evaluations_path_def)

lemma all_routes: "rt \<in> set setupRoutes"
  by (cases rt) (simp_all add: setupRoutes_def)

lemma find_route_iff: "find_route path = Some (rt, vs) \<longleftrightarrow> match_path (route_pattern rt) path = Some vs"
proof -
  have one: "rt1 = rt2" if "match_path (route_pattern rt1) path = Some a" "match_path (route_pattern rt2) path = Some b" for rt1 rt2 a b
    using match_overlap[OF that] by (rule routes_disjoint)
  have "first_match rts path = Some (rt, vs) \<longleftrightarrow> rt \<in> set rts \<and> match_path (route_pattern rt) path = Some vs" for rts
  proof (induction rts)
    case (Cons r rts)
    then show ?case using one[of r _ rt vs] by (cases "match_path (route_pattern r) path") auto
  qed simp
  then show ?thesis using all_routes by (simp add: find_route_def)
qed

end
