(* ===== verification/Handler_Logic.thy ===== *)
theory Handler_Logic
  imports Catalog_Handlers Job_Lifecycle Entity_Lists Catalog_Invariants System_Reload
begin

text \<open>
  The logic of the handlers: computations on the world stay within a relation between the world before
  and the world after. The locale \<open>world_relation\<close> says which relations can be followed through a
  handler; it is interpreted on the steps of the job store, on the identity of the tables and on the
  absence of certain entries in the log.
\<close>

abbreviation tables :: "world \<Rightarrow> database" where
  "tables w \<equiv> cn_db (wd_conn w)"

definition obeys :: "(world \<Rightarrow> world \<Rightarrow> bool) \<Rightarrow> (world \<Rightarrow> 'a \<times> world) \<Rightarrow> bool" where
  "obeys R m \<longleftrightarrow> (\<forall>w. R w (snd (m w)))"

lemma obeysD: "obeys R m \<Longrightarrow> m w = (r, w') \<Longrightarrow> R w w'"
  unfolding obeys_def by (metis snd_conv)

section \<open>Inversion\<close>

lemma abind_Inr_iff: "abind m f w = (Inr y, w') \<longleftrightarrow> (\<exists>x w1. m w = (Inr x, w1) \<and> f x w1 = (Inr y, w'))"
  by (auto simp: abind_def split: prod.splits sum.splits)

lemma abind_Inl_iff:
  "abind m f w = (Inl e, w') \<longleftrightarrow> m w = (Inl e, w') \<or> (\<exists>x w1. m w = (Inr x, w1) \<and> f x w1 = (Inl e, w'))"
  by (auto simp: abind_def split: prod.splits sum.splits)

lemma act_leaf_iff [simp]:
  "areturn x w = (r, w') \<longleftrightarrow> r = Inr x \<and> w' = w"
  "athrow e w = (r, w') \<longleftrightarrow> r = Inl e \<and> w' = w"
  "alift v w = (r, w') \<longleftrightarrow> r = v \<and> w' = w"
  "history w = (h, w') \<longleftrightarrow> h = Inr (wd_log w) \<and> w' = w"
  "emit ef w = (u, w') \<longleftrightarrow> u = Inr () \<and> w' = w\<lparr>wd_log := wd_log w @ [ef]\<rparr>"
  "emits es w = (u, w') \<longleftrightarrow> u = Inr () \<and> w' = w\<lparr>wd_log := wd_log w @ es\<rparr>"
  by (auto simp: areturn_def athrow_def alift_def history_def emit_def emits_def)

lemma aguard_iff [simp]:
  "aguard g w = (Inr u, w') \<longleftrightarrow> g = None \<and> w' = w"
  "aguard g w = (Inl e, w') \<longleftrightarrow> g = Some e \<and> w' = w"
  by (auto simp: aguard_def echeck_def split: option.splits)

lemma store_iff: "store m w = (r, w') \<longleftrightarrow> (\<exists>c. m (wd_conn w) = (r, c) \<and> w' = w\<lparr>wd_conn := c\<rparr>)"
  by (auto simp: store_def split: prod.splits)

lemma attempt_iff: "attempt m w = (r, w') \<longleftrightarrow> (\<exists>q. r = Inr q \<and> m w = (q, w'))"
  by (auto simp: attempt_def split: prod.splits)

lemmas act_inv = abind_Inr_iff abind_Inl_iff attempt_iff

lemma respond_iff:
  "respond m w = (resp, w') \<longleftrightarrow> m w = (Inr resp, w') \<or> (\<exists>e. resp = Failed e \<and> m w = (Inl e, w'))"
  by (auto simp: respond_def split: prod.splits sum.splits)

lemma snd_respond [simp]: "snd (respond m w) = snd (m w)"
  by (auto simp: respond_def split: prod.splits sum.splits)

lemma obeys_respond [simp]: "obeys R (respond m) = obeys R m"
  by (simp add: obeys_def)

lemma path_value_named: "path_value r name = Inr i \<Longrightarrow> i \<noteq> []"
  by (auto simp: path_value_def split: if_splits)

section \<open>Relations that handlers obey\<close>

locale world_relation =
  fixes R :: "world \<Rightarrow> world \<Rightarrow> bool"
  assumes refl: "R w w" and trans: "R u v \<Longrightarrow> R v w \<Longrightarrow> R u w"
begin

lemma leaf: "obeys R (areturn x)" "obeys R (athrow e)" "obeys R (alift v)" "obeys R history" "obeys R (aguard g)"
  by (simp_all add: obeys_def areturn_def athrow_def alift_def history_def aguard_def refl)

lemma bind_result:
  "obeys R m \<Longrightarrow> (\<And>w x w'. m w = (Inr x, w') \<Longrightarrow> obeys R (f x)) \<Longrightarrow> obeys R (abind m f)"
proof (unfold obeys_def, intro allI)
  fix w
  assume m: "\<forall>w. R w (snd (m w))" and f: "\<And>w x w'. m w = (Inr x, w') \<Longrightarrow> \<forall>w. R w (snd (f x w))"
  obtain r w1 where r: "m w = (r, w1)" by fastforce
  with m have "R w w1" by (metis snd_conv)
  with r f show "R w (snd (abind m f w))" by (cases r) (auto simp: abind_def intro: trans)
qed

lemma bind: "obeys R m \<Longrightarrow> (\<And>x. obeys R (f x)) \<Longrightarrow> obeys R (abind m f)"
  by (rule bind_result)

lemma attempt: "obeys R m \<Longrightarrow> obeys R (attempt m)"
  unfolding obeys_def attempt_def by (metis case_prod_beta snd_conv)

lemma cases:
  "(b \<Longrightarrow> obeys R m) \<Longrightarrow> (\<not> b \<Longrightarrow> obeys R n) \<Longrightarrow> obeys R (if b then m else n)"
  "(x = None \<Longrightarrow> obeys R m) \<Longrightarrow> (\<And>y. x = Some y \<Longrightarrow> obeys R (f y)) \<Longrightarrow> obeys R (case x of None \<Rightarrow> m | Some y \<Rightarrow> f y)"
  "(\<And>a. z = Inl a \<Longrightarrow> obeys R (g a)) \<Longrightarrow> (\<And>b. z = Inr b \<Longrightarrow> obeys R (k b)) \<Longrightarrow> obeys R (case z of Inl a \<Rightarrow> g a | Inr b \<Rightarrow> k b)"
  "(\<And>a b. p = (a, b) \<Longrightarrow> obeys R (q a b)) \<Longrightarrow> obeys R (case p of (a, b) \<Rightarrow> q a b)"
  by (auto split: option.splits sum.splits prod.splits)

lemma lifted: "(\<And>x. v = Inr x \<Longrightarrow> obeys R (f x)) \<Longrightarrow> obeys R (abind (alift v) f)"
  by (cases v) (simp_all add: obeys_def abind_def alift_def refl)

lemmas rules = leaf lifted bind attempt cases

end

text \<open>
  The contract of the interfaces a handler uses: reading the tables, drawing an identifier, writing
  log entries of an allowed kind, and the operations of the job store that are allowed. Only the
  entry that starts a job may be forbidden.
\<close>

definition is_start :: "effect \<Rightarrow> bool" where
  "is_start e = (case e of JobStarted job bs \<Rightarrow> True | _ \<Rightarrow> False)"

lemma is_start_simps [simp]:
  "is_start (JobStarted job bs)" "\<not> is_start (Measured m)" "\<not> is_start (ProfilesValidated bs)"
  "\<not> is_start (ResourcesDeleted job)" "\<not> is_start (PhaseNotified job i st)"
  "\<not> is_start (ThresholdNotified job i mt x y)" "\<not> is_start (LogsStreamed job bs n opts)"
  "\<not> is_start (ResultsExported job)" "\<not> is_start (ContainerLogsExported job bs)" "\<not> is_start (ExperimentRequested t rq)"
  by (simp_all add: is_start_def)

lemma transition_metrics_harmless [simp]:
  "list_all (\<lambda>e. \<not> is_start e) (RecordEvaluationJobTerminalState p n t)"
  "list_all (\<lambda>e. \<not> is_start e) (recordEvaluationJobTerminalTransition now p n pids cid cr t)"
  by (auto simp: RecordEvaluationJobTerminalState_def recordEvaluationJobTerminalTransition_def list_all_iff)

lemma benchmark_metrics_harmless: "list_all (\<lambda>e. \<not> is_start e) (benchmark_metrics parse t bs)"
  by (auto simp: benchmark_metrics_def split: option.split)

lemma recordBenchmarkDurations_harmless: "list_all (\<lambda>e. \<not> is_start e) (recordBenchmarkDurations parse job t)"
  using benchmark_metrics_harmless by (fastforce simp: recordBenchmarkDurations_def list_all_iff split: option.split)

lemma state_metrics_harmless [simp]: "list_all (\<lambda>e. \<not> is_start e) (state_metrics parse now p job)"
  using recordBenchmarkDurations_harmless transition_metrics_harmless(1)
  by (auto simp: state_metrics_def terminal_metrics_def list_all_append Let_def list.pred_map o_def list_all_iff split: option.split)

lemma threshold_logs_harmless:
  "list_all (\<lambda>e. \<not> is_start e)
     (concat (map (\<lambda>b. case br_Test b of
        None \<Rightarrow> [] | Some t \<Rightarrow> if bt_Pass t then [] else [ThresholdNotified job (br_BenchmarkIndex b) (m t) (x t) (y t)]) bs))"
  by (induction bs) (auto split: option.split)

lemma created_metrics_harmless [simp]: "list_all (\<lambda>e. \<not> is_start e) (created_metrics h t pids cid)"
  by (auto simp: created_metrics_def list_all_iff)

lemma keeps_db_reads [simp, intro]:
  "keeps_db (GetEvaluationJob s i)" "keeps_db (GetCollection s i)" "keeps_db (GetProvider s i)" "keeps_db (time_Now env)"
  "keeps_db (GetEvaluationJobs s eng f)" "keeps_db (GetCollections s eng f)" "keeps_db (GetProviders s eng f)"
  "keeps_db (stamp_times env res)"
  by (simp_all add: GetEvaluationJob_def GetCollection_def GetProvider_def GetEvaluationJobs_def GetCollections_def GetProviders_def
      getCollectionsTransactional_def getProvidersTransactional_def keeps_db_getUserProvider keeps_db_stamp)

lemma enrich_one_resource: "enrich_one s c w = (Inr c', w') \<Longrightarrow> co_Resource c' = co_Resource c"
  by (auto simp: enrich_one_def EnrichCollectionFromProviders_def act_inv split: prod.splits)

lemma stamped_tenant: "store (stamp_times env res) w = (Inr res', w') \<Longrightarrow> r_Tenant res' = r_Tenant res"
  by (auto simp: store_iff stamp_times_def sbind_def time_Now_def sreturn_def split: if_splits)

text \<open>The jobs that a started job reports on.\<close>

primrec script_ids :: "run_script \<Rightarrow> string set" where
  "script_ids (RunDone r) = {}"
| "script_ids (RunGetProvider i k) = (\<Union>r. script_ids (k r))"
| "script_ids (RunGetJob i k) = (\<Union>r. script_ids (k r))"
| "script_ids (RunReport i e k) = insert i (\<Union>r. script_ids (k r))"

locale handler_relation = world_relation +
  fixes allowed :: "effect \<Rightarrow> bool" and op_allowed :: "sqlStorage \<Rightarrow> job_op \<Rightarrow> bool"
  assumes still: "tables w' = tables w \<Longrightarrow> wd_log w' = wd_log w \<Longrightarrow> R w w'"
    and logs: "list_all allowed es \<Longrightarrow> obeys R (emits es)"
    and ops: "op_allowed s op \<Longrightarrow> obeys R (store (run_op s op))"
    and harmless: "\<not> is_start e \<Longrightarrow> allowed e"
begin

lemma reads: "keeps_db m \<Longrightarrow> obeys R (store m)"
  unfolding obeys_def keeps_db_def by (auto simp: store_def split: prod.splits intro!: still) (metis snd_conv)

lemma draw: "obeys R (GUID h)"
  unfolding obeys_def by (auto simp: GUID_def intro!: still)

lemma log1: "allowed e \<Longrightarrow> obeys R (emit e)"
  using logs[of "[e]"] by (simp add: obeys_def emit_def emits_def)

lemma harmless_logs: "list_all (\<lambda>e. \<not> is_start e) es \<Longrightarrow> obeys R (emits es)"
  by (rule logs) (auto simp: list_all_iff harmless)

lemma harmless_log: "\<not> is_start e \<Longrightarrow> obeys R (emit e)"
  by (rule log1) (rule harmless)

lemmas steps = rules reads harmless_logs harmless_log draw

lemma experimented: "obeys R (experiment_of h ctx cfg i)"
  unfolding experiment_of_def GetOrCreateExperimentID_def check_text_def Let_def by (intro steps) simp_all

lemma updated: "obeys R (onEvaluationJobUpdated h s i previous)"
  unfolding onEvaluationJobUpdated_def recordEvaluationJobTerminalStateAfterUpdate_def exportEvaluationResults_def
    notifyThresholdViolations_def export_container_logs_def resolveJobBenchmarksForStorage_def resolveJobBenchmarks_def
  by (intro steps) (simp_all add: threshold_logs_harmless)

lemma store_op:
  "op_allowed s (OpEvent i e) \<Longrightarrow> obeys R (store (UpdateEvaluationJob s i e))"
  "op_allowed s (OpStatus i st m) \<Longrightarrow> obeys R (store (UpdateEvaluationJobStatus s i st m))"
  "op_allowed s (OpDelete i) \<Longrightarrow> obeys R (store (DeleteEvaluationJob s i))"
  "op_allowed s (OpResolvedSHA i index sha) \<Longrightarrow> obeys R (store (UpdateEvaluationJobResolvedSHA s i index sha))"
  "op_allowed s (OpCreate job) \<Longrightarrow> obeys R (store (CreateEvaluationJob s job))"
  "op_allowed s (OpCreateAndCount job) \<Longrightarrow> obeys R (store (CreateEvaluationJobAndUpdateCollection s job))"
  using ops[of s "OpEvent i e"] ops[of s "OpStatus i st m"] ops[of s "OpDelete i"] ops[of s "OpResolvedSHA i index sha"]
    ops[of s "OpCreate job"] ops[of s "OpCreateAndCount job"] by simp_all

lemma reported: "op_allowed s (OpEvent i e) \<Longrightarrow> obeys R (runtime_UpdateEvaluationJob h s i e)"
  unfolding runtime_UpdateEvaluationJob_def check_text_def
  by (intro bind attempt leaf store_op(1) updated reads[OF keeps_db_reads(1)])

lemma performed: "(\<And>i e. i \<in> script_ids sc \<Longrightarrow> op_allowed s (OpEvent i e)) \<Longrightarrow> obeys R (perform h s sc)"
  by (induction sc) (auto intro!: steps reported)

lemma prepared: "obeys R (prepareEvaluationJob h ctx cfg)"
  unfolding prepareEvaluationJob_def by (intro steps) simp_all

lemma referenced: "obeys R (validateBenchmarkReferences s bs)"
  by (induction bs) (auto intro!: steps)

lemma validated: "obeys R (validatePreparedEvaluation h cfg bs)"
  unfolding validatePreparedEvaluation_def Let_def by (intro steps) simp_all

lemma listed: "obeys R (list_response res flt r)"
  unfolding list_response_def by (cases res) (simp_all add: rules)

lemma resolved: "obeys R (resolveJobBenchmarks s job)"
  unfolding resolveJobBenchmarks_def by (intro steps) simp_all

lemma standalone: "obeys R (getStandalonePostProcessingJob s i)" "obeys R (resource_of_job h job)"
  "obeys R (validatePostProcessingResultsSource h ctx ref)"
  unfolding getStandalonePostProcessingJob_def resource_of_job_def validatePostProcessingResultsSource_def
  by (intro steps; simp)+

lemma read_handlers:
  "obeys R (HandleListEvaluations h ctx r)" "obeys R (HandleGetEvaluation h ctx r)" "obeys R (HandleGetPostProcessing h ctx r)"
  "obeys R (handleGetEvaluationLogs h ctx r n)"
  unfolding HandleListEvaluations_def HandleGetEvaluation_def HandleGetPostProcessing_def handleGetEvaluationLogs_def Let_def
    obeys_respond
  by (intro steps listed standalone resolved; simp add: rules split: prod.splits)+

lemma cached: "obeys R (cached_provider s pid cache)"
  unfolding cached_provider_def by (intro steps) simp_all

lemma enriched: "obeys R (enrich_benchmarks s bs cache cl)" "obeys R (enrich_urls s bs cache)"
  by (induction bs arbitrary: cache cl) (auto intro!: rules cached split: prod.splits)

lemma enriched_collections: "obeys R (enrich_collections s cs cache)"
  by (induction cs arbitrary: cache) (auto intro!: rules enriched split: prod.splits)

lemma enrichment:
  "obeys R (EnrichCollectionFromProviders s cs)" "obeys R (enrich_one s c)" "obeys R (EnrichBenchmarkURLsFromProviders s bs)"
  unfolding enrich_one_def EnrichCollectionFromProviders_def EnrichBenchmarkURLsFromProviders_def
  by (intro bind enriched_collections enriched leaf)+

lemma patched: "obeys R (enrich_patch h s p)"
  unfolding enrich_patch_def Let_def json_any_def by (intro rules enrichment)

lemma all_patched: "obeys R (enrichEntireBenchmarkPatchValues h s ps)"
  by (induction ps) (auto intro!: rules patched)

lemma read_catalog:
  "obeys R (HandleListCollections h ctx r)" "obeys R (HandleGetCollection h ctx r)" "obeys R (HandleListProviders h ctx r)"
  "obeys R (HandleGetProvider h ctx r)"
  unfolding HandleListCollections_def HandleGetCollection_def HandleListProviders_def HandleGetProvider_def Let_def obeys_respond
  by (intro steps enrichment; simp add: rules reads enrichment split: outcome.splits)+

lemma stored:
  "op_allowed s (OpCreate job) \<Longrightarrow> op_allowed s (OpCreateAndCount job) \<Longrightarrow> obeys R (store_job s job collection)"
  unfolding store_job_def by (cases collection) (simp_all add: store_op)

lemma failed:
  "(\<And>m. op_allowed (getStorage h ctx) (OpStatus (r_ID (ej_Resource job)) OverallStateFailed m)) \<Longrightarrow>
   obeys R (start_failed h ctx job pids cid e)"
  unfolding start_failed_def Let_def
  by (intro bind attempt leaf cases(3) store_op(2) harmless_logs reads[OF keeps_db_reads(4)]) (simp_all add: list.pred_map o_def list.pred_True)

end

text \<open>
  A relation that also follows the start of jobs, and the operations on jobs that have a name. A
  started job reports on itself only (runtimes/k8s, runtimes/local).
\<close>

definition reports_own_job :: "Handlers \<Rightarrow> bool" where
  "reports_own_job h \<longleftrightarrow>
     (\<forall>rt log job bs. hd_runtime h = Some rt \<longrightarrow>
        script_ids (ro_RunEvaluationJob rt log job bs) \<subseteq> {r_ID (ej_Resource job)})"

locale service_relation = handler_relation +
  fixes good :: "sqlStorage \<Rightarrow> bool"
  assumes starts: "allowed e"
    and named: "good s \<Longrightarrow> op_ok op \<Longrightarrow> op_tenant_ok (st_tenant s) op \<Longrightarrow> op_allowed s op"
    and workload: "good s \<Longrightarrow> good (WithWorkloadType wt s)"
    and catalog: "good s \<Longrightarrow> jobs_kept (tables w) (tables w') \<Longrightarrow>
      (st_tenant s \<noteq> '''' \<Longrightarrow> same_elsewhere (st_tenant s) (tables w) (tables w')) \<Longrightarrow> wd_log w' = wd_log w \<Longrightarrow> R w w'"
begin

lemma catalog_op:
  assumes "good s" "moves_by jobs_kept m" "st_tenant s \<noteq> '''' \<Longrightarrow> moves_by (same_elsewhere (st_tenant s)) m"
  shows "obeys R (store m)"
  unfolding obeys_def
proof
  fix w
  have w: "snd (store m w) = w\<lparr>wd_conn := snd (m (wd_conn w))\<rparr>" by (simp add: store_def split: prod.splits)
  show "R w (snd (store m w))"
    unfolding w by (rule catalog[OF assms(1)]) (use assms(2,3) in \<open>simp_all add: moves_by_def\<close>)
qed

lemma executed:
  "good (getStorage h ctx) \<Longrightarrow> reports_own_job h \<Longrightarrow> r_ID (ej_Resource job) \<noteq> '''' \<Longrightarrow> hd_runtime h = Some rt \<Longrightarrow>
   obeys R (executeEvaluationJob h rt ctx job collection)"
  unfolding executeEvaluationJob_def
  by (intro bind leaf log1 starts performed named) (fastforce simp: reports_own_job_def)+

lemma started:
  assumes "good (getStorage h ctx)" "reports_own_job h" "r_ID (ej_Resource job) \<noteq> ''''"
  shows "obeys R (start_job h ctx job collection pids cid)"
  unfolding start_job_def Let_def
  by (intro cases bind attempt leaf failed executed assms store_op(2) named) (use assms(3) in auto)

lemma created_prepared:
  assumes "good (getStorage h ctx)" "reports_own_job h" "i \<noteq> ''''"
  shows "obeys R (createPreparedEvaluationJob h ctx cfg collection bs i)"
  unfolding createPreparedEvaluationJob_def Let_def
  by (intro bind experimented reads[OF keeps_db_reads(4)] stored harmless_logs started named assms)
     (use assms(3) in \<open>auto simp: new_job_def keys_ok_def job_benchmarks_def job_results_def empty_results_def getStorage_def\<close>)

lemma created:
  assumes "good (getStorage h ctx)" "reports_own_job h" "\<And>n. hd_GUID h n \<noteq> ''''"
  shows "obeys R (createEvaluationJob h ctx cfg)" "obeys R (createPostProcessingEvaluationJob h ctx cfg)"
proof -
  have drawn: "obeys R (abind (GUID h) f)" if "\<And>i. i \<noteq> '''' \<Longrightarrow> obeys R (f i)" for f :: "string \<Rightarrow> EvaluationJobResource act"
    using that assms(3) by (intro bind_result draw) (auto simp: GUID_def)
  show "obeys R (createEvaluationJob h ctx cfg)" "obeys R (createPostProcessingEvaluationJob h ctx cfg)"
    unfolding createEvaluationJob_def createPostProcessingEvaluationJob_def
    by (intro drawn bind cases leaf prepared referenced validated created_prepared assms; assumption)+
qed

lemma job_op:
  assumes "good s" "i \<noteq> ''''"
  shows "obeys R (store (UpdateEvaluationJob s i e))" "obeys R (store (UpdateEvaluationJobStatus s i st m))"
    "obeys R (store (DeleteEvaluationJob s i))" "obeys R (store (UpdateEvaluationJobResolvedSHA s i n sha))"
  by (intro store_op named; simp add: assms)+

lemma event_handled: "good (getStorage h ctx) \<Longrightarrow> obeys R (HandleUpdateEvaluation h ctx r)"
  unfolding HandleUpdateEvaluation_def Let_def obeys_respond
  by (intro rules steps updated job_op) (auto dest: path_value_named split: option.splits intro: leaf harmless_log)

lemma cancelled: "good (getStorage h ctx) \<Longrightarrow> i \<noteq> '''' \<Longrightarrow> obeys R (cancel_in_store h ctx i hard)"
  unfolding cancel_in_store_def Let_def by (intro steps job_op workload) simp_all

lemma cancel_handled: "good (getStorage h ctx) \<Longrightarrow> obeys R (HandleCancelEvaluation h ctx r)"
  unfolding HandleCancelEvaluation_def Let_def obeys_respond
  by (intro rules steps cancelled) (auto dest: path_value_named)

lemma deletion_handled: "good (getStorage h ctx) \<Longrightarrow> obeys R (HandleDeletePostProcessing h ctx r)"
  unfolding HandleDeletePostProcessing_def Let_def obeys_respond
  by (intro rules steps job_op workload standalone) (auto dest: path_value_named)

lemma creation_handled:
  assumes "good (getStorage h ctx)" "reports_own_job h" "\<And>n. hd_GUID h n \<noteq> ''''"
  shows "obeys R (HandleCreateEvaluation h ctx r)" "obeys R (HandleCreatePostProcessing h ctx r)"
  unfolding HandleCreateEvaluation_def HandleCreatePostProcessing_def Let_def obeys_respond
  by (intro rules steps standalone created assms)+

lemma catalog_created:
  "good s \<Longrightarrow> r_Tenant (co_Resource c) = st_tenant s \<Longrightarrow> obeys R (create_collection s c)"
  "good s \<Longrightarrow> r_Tenant (pr_Resource p) = st_tenant s \<Longrightarrow> obeys R (create_provider s p)"
  unfolding create_collection_def create_provider_def Let_def
  by (rule bind_result[OF reads[OF keeps_db_reads(8)]], drule stamped_tenant,
      intro bind leaf catalog_op[where s = s] creates_jobs_kept creates_elsewhere; simp)+

lemma catalog_written:
  assumes "good s"
  shows "obeys R (store (UpdateCollection s i cfg))" "obeys R (store (PatchCollection pc s i ps))"
    "obeys R (store (DeleteCollection s i))" "obeys R (store (UpdateProvider s i pcfg))"
    "obeys R (store (PatchProvider pp s i ps))" "obeys R (store (DeleteProvider s i))"
  by (intro catalog_op[OF assms] catalog_jobs_kept catalog_elsewhere; assumption)+

lemma catalog_handled:
  assumes "good (getStorage h ctx)"
  shows "obeys R (HandleUpdateCollection h ctx r)" "obeys R (HandlePatchCollection h ctx r)"
    "obeys R (HandleDeleteCollection h ctx r)" "obeys R (HandleUpdateProvider h ctx r)"
    "obeys R (HandlePatchProvider h ctx r)" "obeys R (HandleDeleteProvider h ctx r)"
  unfolding HandleUpdateCollection_def HandlePatchCollection_def HandleDeleteCollection_def HandleUpdateProvider_def
    HandlePatchProvider_def HandleDeleteProvider_def validatePatchedProviderConfig_def refuse_curated_def Let_def obeys_respond
  by (intro rules steps enrichment all_patched catalog_written assms; simp)+

lemma catalog_creation_handled:
  assumes "good (getStorage h ctx)"
  shows "obeys R (HandleCreateCollection h ctx r)" "obeys R (HandleCloneCollection h ctx r)"
    "obeys R (HandleCreateProvider h ctx r)"
  unfolding HandleCreateCollection_def HandleCloneCollection_def HandleCreateProvider_def Let_def obeys_respond
  by (intro bind_result[OF enrichment(2)] lifted bind leaf draw reads enrichment catalog_created assms keeps_db_reads;
      simp add: enrich_one_resource getStorage_def)+

end

end
