(* ===== verification/Service_Logic.thy ===== *)
theory Service_Logic
  imports Server Handler_Logic
begin

text \<open>
  The handlers' logic carried to whole calls and to sequences of calls, and its three instances: the
  tables move by steps of the store, the rows of other tenants stay, and no job is started.
\<close>

lemma snd_answer [simp]: "snd (answer doc p) = snd p"
  by (simp add: answer_def split: prod.split)

context handler_relation
begin

lemma page_handled: "obeys R (HandleHealth sv)" "obeys R (HandleGetInfo sv ctx)"
  unfolding HandleHealth_def HandleGetInfo_def obeys_respond
  by (intro steps keeps_db_reads; simp add: rules split: sum.splits go_error.splits)+

lemma benchmark_logs_handled: "obeys R (HandleGetEvaluationBenchmarkLogs h ctx r)"
  using read_handlers(4) unfolding obeys_def HandleGetEvaluationBenchmarkLogs_def
  by (auto simp: refl Let_def split: option.splits)

end

context service_relation
begin

lemma acted:
  assumes "good (getStorage (sr_handlers sv) ctx)" "reports_own_job (sr_handlers sv)" "\<And>n. hd_GUID (sr_handlers sv) n \<noteq> ''''"
  shows "R w (snd (run_action sv ctx r req a w))"
proof -
  note handled = page_handled read_handlers read_catalog benchmark_logs_handled event_handled[OF assms(1)] cancel_handled[OF assms(1)]
    deletion_handled[OF assms(1)] creation_handled[OF assms] catalog_handled[OF assms(1)] catalog_creation_handled[OF assms(1)]
  show ?thesis
    by (cases a) (simp_all add: handled[unfolded obeys_def, rule_format] refl HandleGetEvaluationJobLogs_def)
qed

lemma served:
  assumes "good (getStorage (sr_handlers sv) (newExecutionContext r))" "reports_own_job (sr_handlers sv)" "\<And>n. hd_GUID (sr_handlers sv) n \<noteq> ''''"
  shows "R w (snd (serve sv r w))"
  using acted[OF assms]
  by (auto simp: serve_def handle_route_def Let_def refl split: option.splits prod.splits) (metis snd_conv)+

lemma served_all:
  assumes "\<And>r. r \<in> set rs \<Longrightarrow> good (getStorage (sr_handlers sv) (newExecutionContext r))" "reports_own_job (sr_handlers sv)" "\<And>n. hd_GUID (sr_handlers sv) n \<noteq> ''''"
  shows "R w (serve_all sv rs w)"
  using assms(1)
proof (induction rs arbitrary: w)
  case (Cons r rs)
  then show ?case using served[OF _ assms(2,3), of r w] trans by fastforce
qed (simp add: refl)

end

section \<open>The steps of the store\<close>

definition steps_of_store :: "world \<Rightarrow> world \<Rightarrow> bool" where
  "steps_of_store w w' \<longleftrightarrow> (store_ok (tables w) \<longrightarrow> store_step\<^sup>*\<^sup>* (tables w) (tables w'))"

lemma jobs_kept_step: "store_ok d \<Longrightarrow> jobs_kept d d' \<Longrightarrow> store_step d d'"
  by (auto simp: jobs_kept_def store_ok_def intro: store_step.catalog)

interpretation stepping: service_relation steps_of_store "\<lambda>_. True" "\<lambda>_. op_ok" "\<lambda>_. True"
proof
  show "steps_of_store u w" if "steps_of_store u v" "steps_of_store v w" for u v w
    using that store_sys.inv_steps by (auto simp: steps_of_store_def)
  show "obeys steps_of_store (store (run_op s op))" if "op_ok op" for s op
    using that store_step.operation[of op] by (auto simp: obeys_def steps_of_store_def store_def split: prod.splits) (metis r_into_rtranclp snd_conv)
  show "steps_of_store w w'" if "jobs_kept (tables w) (tables w')" for w w'
    using that jobs_kept_step by (auto simp: steps_of_store_def)
qed (auto simp: steps_of_store_def obeys_def emits_def)

section \<open>The rows of other tenants\<close>

definition untouched :: "Tenant \<Rightarrow> database \<Rightarrow> database \<Rightarrow> bool" where
  "untouched t d d' \<longleftrightarrow>
     foreign t (evaluations d') = foreign t (evaluations d) \<and> foreign t (collections d') = foreign t (collections d) \<and>
     foreign t (providers d') = foreign t (providers d)"

lemma untouched_refl [simp]: "untouched t d d"
  by (simp add: untouched_def)

lemma untouched_trans: "untouched t a b \<Longrightarrow> untouched t b c \<Longrightarrow> untouched t a c"
  by (simp add: untouched_def)

lemma foreign_rows_foreign: "foreign_rows t d = foreign t (evaluations d)"
  by (simp add: foreign_rows_def foreign_def)

lemma untouched_create:
  assumes "createEvaluationJobTransactional s job c = (Inr u, c')" "r_Tenant (ej_Resource job) = t"
  shows "untouched t (cn_db c) (cn_db c')"
proof -
  have "collections (cn_db c') = collections (cn_db c) \<and> providers (cn_db c') = providers (cn_db c)"
    by (rule createEvaluationJobTransactional_Inr[OF assms(1)]) simp
  with foreign_create[OF assms] show ?thesis by (simp add: untouched_def foreign_rows_foreign)
qed

lemma untouched_count:
  assumes "create_job_and_collection_body s job cid c = (Inr u, c')" "r_Tenant (ej_Resource job) = st_tenant s" "st_tenant s \<noteq> ''''"
  shows "untouched (st_tenant s) (cn_db c) (cn_db c')"
proof -
  from assms(1) obtain coll c1 c2 where coll: "getCollectionTransactionalForUpdate s cid c = (Inr coll, c1)"
    and job: "createEvaluationJobTransactional s job c1 = (Inr (), c2)"
    and upd: "(if IsSystemResource (co_Resource coll) then sreturn ()
          else updateCollectionTransactional s (r_ID (co_Resource coll)) (count_run coll)) c2 = (Inr (), c')"
    by (auto simp: create_job_and_collection_body_def sbind_Inr_iff)
  have "cn_db c1 = cn_db c" using keeps_dbD[OF keeps_db_getCollection(3) coll] .
  moreover have "untouched (st_tenant s) (cn_db c2) (cn_db c')"
    using upd moves_byD[OF updates_elsewhere(1)[OF assms(3)]]
    by (fastforce simp: untouched_def same_elsewhere_def split: if_splits)
  ultimately show ?thesis using untouched_create[OF job assms(2)] by (auto intro: untouched_trans)
qed

lemma untouched_writes: "t \<noteq> '''' \<Longrightarrow> writes t i st en d d' \<Longrightarrow> untouched t d d'"
  using foreign_writes[of t i st en d d'] by (auto simp: untouched_def foreign_rows_foreign) (auto simp: writes_def)

lemma run_op_untouched:
  assumes "db_ok (cn_db c)" "st_tenant s \<noteq> ''''" "op_tenant_ok (st_tenant s) op"
  shows "untouched (st_tenant s) (cn_db c) (cn_db (snd (run_op s op c)))"
proof (rule run_op_relates[where R = "untouched (st_tenant s)"])
  fix i c1 c2
  assume "delete_job_body s i c1 = (Inr (), c2)"
  from delete_job_body_Inr(1)[OF this] assms(2)
  show "untouched (st_tenant s) (cn_db c1) (cn_db c2)"
    by (auto simp: untouched_def foreign_def own_row_def Tenant_IsEmpty_def intro: filter_cong)
next
  fix i P d d'
  assume "job_update s i P d d'"
  then show "untouched (st_tenant s) d d'"
    using untouched_writes[OF assms(2)] by (auto simp: job_update_def)
qed (use assms untouched_create untouched_count in auto)

definition stays_away :: "Tenant \<Rightarrow> world \<Rightarrow> world \<Rightarrow> bool" where
  "stays_away t w w' \<longleftrightarrow>
     (t \<noteq> '''' \<longrightarrow> store_ok (tables w) \<longrightarrow> store_ok (tables w') \<and> untouched t (tables w) (tables w'))"

interpretation away: service_relation "stays_away t" "\<lambda>_. True" "\<lambda>s op. st_tenant s = t \<and> op_ok op \<and> op_tenant_ok t op"
  "\<lambda>s. st_tenant s = t" for t
proof
  show "stays_away t u w" if "stays_away t u v" "stays_away t v w" for u v w
    using that by (auto simp: stays_away_def intro: untouched_trans)
  show "obeys (stays_away t) (store (run_op s op))" if op: "st_tenant s = t \<and> op_ok op \<and> op_tenant_ok t op" for s op
    unfolding obeys_def
  proof
    fix w
    have "snd (store (run_op s op) w) = w\<lparr>wd_conn := snd (run_op s op (wd_conn w))\<rparr>" by (simp add: store_def split: prod.split)
    then show "stays_away t w (snd (store (run_op s op) w))"
      using op run_op_store_ok[of "wd_conn w" op s] run_op_untouched[of "wd_conn w" s op] by (auto simp: stays_away_def store_ok_def)
  qed
  show "stays_away t w w'" if "st_tenant s = t" "jobs_kept (tables w) (tables w')"
    "st_tenant s \<noteq> '''' \<Longrightarrow> same_elsewhere (st_tenant s) (tables w) (tables w')" for s w w'
    using that by (auto simp: stays_away_def jobs_kept_def same_elsewhere_def untouched_def store_ok_def)
qed (auto simp: stays_away_def obeys_def emits_def WithWorkloadType_def)

section \<open>The start of jobs\<close>

definition started_jobs :: "world \<Rightarrow> effect list" where
  "started_jobs w = filter is_start (wd_log w)"

lemma started_jobs_harmless: "list_all (\<lambda>e. \<not> is_start e) es \<Longrightarrow> filter is_start es = []"
  by (induction es) auto

interpretation running: handler_relation "\<lambda>w w'. started_jobs w' = started_jobs w" "\<lambda>e. \<not> is_start e" "\<lambda>s op. True"
  by unfold_locales (auto simp: started_jobs_def obeys_def emits_def store_def started_jobs_harmless split: prod.splits)

interpretation checks: handler_relation "\<lambda>w w'. tables w' = tables w \<and> started_jobs w' = started_jobs w"
  "\<lambda>e. \<not> is_start e" "\<lambda>s op. False"
  by unfold_locales (auto simp: started_jobs_def obeys_def emits_def started_jobs_harmless)

end
