(* ===== verification/Service_Samples.thy ===== *)
theory Service_Samples
  imports Server Store_Samples
begin

text \<open>
  A small server on which the witnesses of the service evaluate the model. Its decoders know the body
  of one request to create a job, and its runtime reports one event on every job it starts.
\<close>

definition rejecting :: "'v codec_of" where
  "rejecting = \<lparr>cd_Decode = (\<lambda>text. Inl ''no decoder''), cd_Validate = (\<lambda>x. None)\<rparr>"

definition accepting :: "'v \<Rightarrow> 'v codec_of" where
  "accepting v = \<lparr>cd_Decode = (\<lambda>text. Inr v), cd_Validate = (\<lambda>x. None)\<rparr>"

definition sample_codecs :: codecs where
  "sample_codecs =
     \<lparr>cd_job = accepting (sample_config [sample_eb ''p'' ''b'' []] None), cd_event = accepting (sample_event StateRunning),
      cd_collection = rejecting, cd_provider = rejecting, cd_post_processing = rejecting,
      cd_patches = (\<lambda>text. Inl ''no decoder''), cd_patch_valid = (\<lambda>p. None), cd_overrides = (\<lambda>text. Inl ''no decoder''),
      cd_benchmarks = (\<lambda>v. None), cd_benchmark = (\<lambda>v. None), cd_any_benchmarks = (\<lambda>bs. ANil), cd_any_benchmark = (\<lambda>b. ANil),
      cd_patch_collection = (\<lambda>e ps. Inl ''no patches''), cd_patch_provider = (\<lambda>e ps. Inl ''no patches''),
      cd_provider_json = (\<lambda>c. ''''), cd_apply_patch = (\<lambda>doc ps. Inl ''no patches'')\<rparr>"

definition sample_runtime :: runtime_ops where
  "sample_runtime =
     \<lparr>ro_Name = ''sample'', ro_ValidateHardwareProfiles = (\<lambda>log bs. None),
      ro_RunEvaluationJob = (\<lambda>log job bs. RunReport (r_ID (ej_Resource job)) (sample_event StateRunning) RunDone),
      ro_StreamEvaluationLogs = (\<lambda>log job bs n opts. [])\<rparr>"

definition sample_service_config :: Config where
  "sample_service_config =
     \<lparr>cf_Service = Some
        \<lparr>sv_Version = ''1'', sv_Build = '''', sv_BuildDate = '''', sv_GitHash = '''', sv_Port = 8080, sv_Host = '''', sv_TerminationFile = '''',
         sv_EvalInitImage = '''', sv_LocalMode = False, sv_TLSCertFile = '''', sv_TLSKeyFile = '''', sv_ReadTimeout = 0, sv_WriteTimeout = 0,
         sv_IdleTimeout = 0, sv_ReadHeaderTimeout = 0, sv_MaxHeaderBytes = 0, sv_MaxRequestBodyBytes = 0, sv_MaxLogResponseBytes = 0,
         sv_LogStreamTimeout = 0\<rparr>,
      cf_MLFlow = None, cf_OTEL = None, cf_Prometheus = None, cf_Sidecar = None\<rparr>"

definition sample_url :: url_package where
  "sample_url = \<lparr>up_Parse = (\<lambda>s. Inl ''no url''), up_String = (\<lambda>u. ''''), up_Hostname = (\<lambda>u. ''''), up_Port = (\<lambda>u. '''')\<rparr>"

definition sample_handlers :: Handlers where
  "sample_handlers =
     \<lparr>hd_storage = sample_storage quiet,
      hd_engine = \<lparr>eng_le = (\<le>), eng_doc = (\<lambda>t p. Absent), eng_refused = PlainErr ''syntax error''\<rparr>,
      hd_runtime = Some sample_runtime, hd_mlflowClient = None, hd_resultsExporter = False,
      hd_serviceConfig = Some sample_service_config, hd_url = sample_url, hd_pod = \<lparr>pe_InstanceName = '''', pe_NamespaceFile = None\<rparr>,
      hd_codecs = sample_codecs, hd_GUID = (\<lambda>n. ''new''), hd_ParseTime = (\<lambda>s. None)\<rparr>"

definition sample_server :: server where
  "sample_server =
     \<lparr>sr_handlers = sample_handlers, sr_profiles = None, sr_exe_docs = None, sr_abs = (\<lambda>p. None), sr_ReadFile = (\<lambda>d f. None)\<rparr>"

text \<open>A call of a user of tenant t1, a store with a running job and a provider, and the call's context.\<close>

definition sample_call :: "string \<Rightarrow> string list \<Rightarrow> Tenant \<Rightarrow> http_call" where
  "sample_call m path tenant =
     \<lparr>hc_Method = m, hc_Path = path, hc_Header = (\<lambda>k. if k = ''X-Tenant'' then tenant else if k = ''X-User'' then ''u1'' else ''''),
      hc_Query = (\<lambda>k. []), hc_URI = '''', hc_Parsed = Inl '''', hc_Body = (''{}'', None)\<rparr>"

definition cancel_call :: "Tenant \<Rightarrow> http_call" where
  "cancel_call tenant = sample_call ''DELETE'' [''api'', ''v1'', ''evaluations'', ''jobs'', ''j1''] tenant"

definition create_call :: http_call where
  "create_call = sample_call ''POST'' [''api'', ''v1'', ''evaluations'', ''jobs''] ''t1''"

definition provider_db :: database where
  "provider_db = (sample_db [direct_job OverallStateRunning])\<lparr>providers :=
     [row_of (sample_resource ''p'' ''t1'' ''u1'')
        (Json \<lparr>pv_Name = ''p'', pv_Description = '''', pv_Title = '''', pv_Tags = [], pv_Benchmarks = [zero_benchmark\<lparr>b_ID := ''b''\<rparr>],
               pv_Runtime = None, pv_Agent = None\<rparr>)]\<rparr>"

definition sample_world :: world where
  "sample_world = \<lparr>wd_conn = \<lparr>cn_db = provider_db, cn_calls = 0\<rparr>, wd_log = [], wd_ids = 0\<rparr>"

lemmas service_samples = sample_server_def sample_handlers_def sample_service_config_def sample_runtime_def sample_world_def

lemma store_ok_sample: "store_ok provider_db"
  by code_simp

end
