(* ===== verification/Service_Properties.thy ===== *)
theory Service_Properties
  imports Service_Logic Service_Samples
begin

text \<open>
  Properties of the whole service: what a sequence of HTTP calls does to the tables, what it does to
  the data of other tenants, and what the requests that create and cancel a job do.
\<close>

section \<open>Sequences of calls\<close>

definition tenant_data ::
  "Tenant \<Rightarrow> database \<Rightarrow> evaluation_row list \<times> collection_row list \<times> provider_row list" where
  "tenant_data t d =
     (filter (\<lambda>r. rw_tenant_id r = t) (evaluations d), filter (\<lambda>r. rw_tenant_id r = t) (collections d),
      filter (\<lambda>r. rw_tenant_id r = t) (providers d))"

lemma foreign_own: "t \<noteq> u \<Longrightarrow> foreign u ys = foreign u xs \<Longrightarrow>
  filter (\<lambda>r. rw_tenant_id r = t) ys = filter (\<lambda>r. rw_tenant_id r = t) xs"
proof -
  assume t: "t \<noteq> u" and same: "foreign u ys = foreign u xs"
  have "filter (\<lambda>r. rw_tenant_id r = t) zs = filter (\<lambda>r. rw_tenant_id r = t) (foreign u zs)"
    for zs :: "('a, 'b) row_scheme list"
    using t by (auto simp: foreign_def intro: filter_cong)
  with same show ?thesis by metis
qed

lemma untouched_tenant_data: "untouched u d d' \<Longrightarrow> t \<noteq> u \<Longrightarrow> tenant_data t d' = tenant_data t d"
  unfolding untouched_def tenant_data_def prod.inject by (elim conjE, intro conjI) (rule foreign_own; assumption)+

text \<open>A call without a tenant changes no table when identity headers are required.\<close>

lemma anonymous_call:
  assumes "RequiresIdentityHeaders (hd_serviceConfig (sr_handlers sv))" "hc_Header r TenantHeader = ''''"
  shows "tables (snd (serve sv r w)) = tables w"
proof -
  have open_action: "a \<in> {OnHealth, OnGetOpenAPI, OnGetDocs}" if "open_route rt" "on_method (route_actions rt) m = Some a" for rt m a
    using that by (auto simp: open_route_def on_method_def split: if_splits)
  have "tables (snd (run_action sv ctx r req a w)) = tables w" if "a \<in> {OnHealth, OnGetOpenAPI, OnGetDocs}" for ctx req a
    using that checks.page_handled(1)[unfolded obeys_def] by auto
  with open_action assms show ?thesis
    by (auto simp: serve_def handle_route_def Let_def canContinueRequest_def newExecutionContext_def split: option.splits prod.splits)
       (metis snd_conv)+
qed

text \<open>
  C1: The service refines the job store: whatever calls arrive, on whatever routes, with whatever
  answers and reports of the runtime, of MLflow and of the database driver, the tables move by steps of
  the job store. Everything that holds of all reachable stores therefore holds of the running service.
\<close>

theorem service_refines_store:
  assumes "reports_own_job (sr_handlers sv)" "\<And>n. hd_GUID (sr_handlers sv) n \<noteq> ''''" "store_ok (tables w)"
  shows "store_step\<^sup>*\<^sup>* (tables w) (tables (serve_all sv calls w)) \<and> store_ok (tables (serve_all sv calls w))"
proof -
  have "steps_of_store w (serve_all sv calls w)" by (rule stepping.served_all[OF _ assms(1,2)]) simp
  with assms(3) have "store_step\<^sup>*\<^sup>* (tables w) (tables (serve_all sv calls w))" by (simp add: steps_of_store_def)
  with assms(3) show ?thesis using store_sys.inv_steps by blast
qed

lemma sample_server_ok:
  "reports_own_job (sr_handlers sample_server)" "hd_GUID (sr_handlers sample_server) n \<noteq> ''''" "store_ok (tables sample_world)"
  "RequiresIdentityHeaders (hd_serviceConfig (sr_handlers sample_server))"
  using store_ok_sample by (simp_all add: service_samples reports_own_job_def RequiresIdentityHeaders_def)

definition sample_context :: ExecutionContext where
  "sample_context = \<lparr>cx_Tenant = ''t1'', cx_User = ''u1''\<rparr>"

definition sample_request :: http_request where
  "sample_request = request_of sample_server (cancel_call ''t1'') [(''job_id'', ''j1'')]"

lemma sample_cancelled:
  "fst (HandleCancelEvaluation sample_handlers sample_context sample_request sample_world) = Empty 204" by code_simp

lemma cancel_served: "fst (serve sample_server (cancel_call ''t1'') sample_world) = Answer (Empty 204)"
proof -
  have route: "find_route (hc_Path (cancel_call ''t1'')) = Some (EvaluationJobItem, [(''job_id'', ''j1'')])" by code_simp
  have ctx: "newExecutionContext (cancel_call ''t1'') = sample_context" by code_simp
  have "canContinueRequest (hd_serviceConfig sample_handlers) sample_context = None" "\<not> sv_LocalMode (the (cf_Service sample_service_config))" by code_simp+
  moreover have "on_method (route_actions EvaluationJobItem) (hc_Method (cancel_call ''t1'')) = Some OnCancelEvaluation" by code_simp
  moreover have "server_service sample_server = cf_Service sample_service_config" by (simp add: service_samples server_service_def)
  ultimately show ?thesis
    using sample_cancelled
    by (simp add: serve_def route handle_route_def ctx sample_server_def sample_service_config_def sample_request_def case_prod_beta answer_def)
qed

theorem service_refines_store_witness:
  "store_step\<^sup>*\<^sup>* provider_db (tables (serve_all sample_server [cancel_call ''t1''] sample_world)) \<and>
   store_ok (tables (serve_all sample_server [cancel_call ''t1''] sample_world)) \<and>
   fst (serve sample_server (cancel_call ''t1'') sample_world) = Answer (Empty 204)"
  using service_refines_store[OF sample_server_ok(1-3), of "[cancel_call ''t1'']"] cancel_served by (simp add: sample_world_def)

text \<open>
  C2: Tenants are isolated end to end. When identity headers are required, no sequence of calls that
  carry other tenants, or none, changes a row of a tenant in any of the three tables.
\<close>

theorem service_isolates_tenants:
  assumes "reports_own_job (sr_handlers sv)" "\<And>n. hd_GUID (sr_handlers sv) n \<noteq> ''''"
    and "RequiresIdentityHeaders (hd_serviceConfig (sr_handlers sv))" "store_ok (tables w)"
    and "\<And>r. r \<in> set calls \<Longrightarrow> hc_Header r TenantHeader \<noteq> t"
  shows "tenant_data t (tables (serve_all sv calls w)) = tenant_data t (tables w)"
  using assms(4,5)
proof (induction calls arbitrary: w)
  case (Cons r calls)
  let ?w = "snd (serve sv r w)" and ?u = "hc_Header r TenantHeader"
  have "store_ok (tables ?w) \<and> tenant_data t (tables ?w) = tenant_data t (tables w)"
  proof (cases "?u = ''''")
    case True
    with anonymous_call[OF assms(3)] Cons.prems(1) show ?thesis by simp
  next
    case False
    have "stays_away ?u w ?w"
      by (rule away.served[OF _ assms(1,2)]) (simp add: newExecutionContext_def getStorage_def)
    with False Cons.prems show ?thesis by (auto simp: stays_away_def intro: untouched_tenant_data)
  qed
  with Cons show ?case by simp
qed simp

theorem service_isolates_tenants_witness:
  "tenant_data ''t1'' (tables (serve_all sample_server [cancel_call ''t2'', cancel_call ''''] sample_world)) =
   tenant_data ''t1'' provider_db"
proof -
  have "tables sample_world = provider_db" by (simp add: sample_world_def)
  moreover have "hc_Header (cancel_call ''t2'') TenantHeader \<noteq> ''t1''" "hc_Header (cancel_call '''') TenantHeader \<noteq> ''t1''"
    by (simp_all add: cancel_call_def sample_call_def TenantHeader_def)
  ultimately show ?thesis
    using service_isolates_tenants[OF sample_server_ok(1,2,4,3), of "[cancel_call ''t2'', cancel_call '''']" "''t1''"]
    by (metis empty_iff empty_set set_ConsD)
qed

section \<open>Creating a job\<close>












lemma db_ok_sample: "db_ok (tables sample_world)"
  using sample_server_ok(3) by (simp add: store_ok_def)


section \<open>Cancelling a job\<close>

text \<open>What cancelling does to the tables: the row is deleted, left as it is, or written as cancelled.\<close>

definition cancelled_in :: "bool \<Rightarrow> Tenant \<Rightarrow> string \<Rightarrow> EvaluationJobResource \<Rightarrow> database \<Rightarrow> database \<Rightarrow> bool" where
  "cancelled_in hard t i job d d' \<longleftrightarrow>
     (if hard then d' = d\<lparr>evaluations := filter (\<lambda>r. \<not> own_row t i r) (evaluations d)\<rparr>
      else if job_state job = OverallStateCancelled then d' = d
      else \<exists>en. writes t i OverallStateCancelled en d d' \<and> entity_state en = OverallStateCancelled)"

lemma cancelled_status:
  "(ej_Status job \<noteq> None \<and> job_state job = OverallStateCancelled) = (job_state job = OverallStateCancelled)"
  by (auto simp: job_state_def split: option.splits)

lemma transition_measured: "\<exists>ms. recordEvaluationJobTerminalTransition now p n pids cid cr t = map Measured ms"
  "\<exists>ms. RecordEvaluationJobTerminalState p n t = map Measured ms"
proof -
  have m: "\<exists>ms. es = map Measured ms" if "set es \<subseteq> range Measured" for es
    using that by (simp add: ex_map_conv subset_iff image_iff)
  show "\<exists>ms. recordEvaluationJobTerminalTransition now p n pids cid cr t = map Measured ms"
    "\<exists>ms. RecordEvaluationJobTerminalState p n t = map Measured ms"
    by (rule m; auto simp: recordEvaluationJobTerminalTransition_def RecordEvaluationJobTerminalState_def)+
qed

lemma delete_success:
  assumes "db_ok (cn_db c)" "DeleteEvaluationJob s i c = (Inr u, c')"
  shows "cn_db c' = (cn_db c)\<lparr>evaluations := filter (\<lambda>r. \<not> own_row (st_tenant s) i r) (evaluations (cn_db c))\<rparr>"
  by (rule delete_txn.success[OF assms(1) assms(2)[unfolded DeleteEvaluationJob_def]]) (metis delete_job_body_Inr(1))

lemma cancel_success:
  assumes "db_ok (cn_db c)" "UpdateEvaluationJobStatus s i OverallStateCancelled m c = (Inr u, c')"
    and "reads_as s (st_workload_type s) i (cn_db c) job" "job_state job \<noteq> OverallStateCancelled"
  shows "\<exists>en. writes (st_tenant s) i OverallStateCancelled en (cn_db c) (cn_db c') \<and> entity_state en = OverallStateCancelled"
proof -
  let ?m = "WithMessageOrigin m MessageOriginServer"
  from assms(1,2) obtain c1 c2 where c1: "cn_db c1 = cn_db c"
    and body: "update_status_body s i OverallStateCancelled ?m c1 = (Inr u, c2)" and c2: "cn_db c' = cn_db c2"
    unfolding UpdateEvaluationJobStatus_def by (rule status_txn.success)
  from status_body_effect[OF body] obtain job' where "reads_as s (st_workload_type s) i (cn_db c) job'"
    and w: "(cn_db c2 = cn_db c1 \<and> OverallStateCancelled = job_state job') \<or>
      writes (st_tenant s) i OverallStateCancelled (status_entity OverallStateCancelled ?m job') (cn_db c1) (cn_db c2)"
    unfolding c1 by metis
  with assms(3) reads_as_unique have "job' = job" by blast
  with w assms(4) c1 c2 show ?thesis by (auto simp: status_entity_def entity_state_def)
qed

lemma cancel_in_store_outcome:
  assumes "db_ok (tables w)" "cancel_in_store h ctx i hard w = (r, w')"
  shows "(\<exists>e. r = Inl e \<and> tables w' = tables w \<and> wd_log w' = wd_log w) \<or>
    (\<exists>job ms. r = Inr (job, job_state job = OverallStateCancelled) \<and>
       reads_as (WithWorkloadType Evaluation (getStorage h ctx)) Evaluation i (tables w) job \<and>
       cancelled_in hard (cx_Tenant ctx) i job (tables w) (tables w') \<and> wd_log w' = wd_log w @ map Measured ms)"
proof -
  let ?s = "WithWorkloadType Evaluation (getStorage h ctx)"
  let ?m = "server_info ''Evaluation job cancelled'' ''evaluation_job_cancelled''"
  have s: "st_workload_type ?s = Evaluation" "st_tenant ?s = cx_Tenant ctx" by (simp_all add: WithWorkloadType_def getStorage_def)
  obtain q c1 where q: "GetEvaluationJob ?s i (wd_conn w) = (q, c1)" by fastforce
  have db1: "cn_db c1 = tables w" using keeps_dbD[OF keeps_db_reads(1) q] .
  show ?thesis
  proof (cases q)
    case (Inl e)
    with assms(2) q db1 show ?thesis by (auto simp: cancel_in_store_def Let_def abind_def store_def)
  next
    case (Inr job)
    with q have read: "reads_as ?s Evaluation i (tables w) job"
      unfolding GetEvaluationJob_def getEvaluationJobTransactional_def using scan_Inr s(1) by fastforce
    consider (hard) "hard" | (again) "\<not> hard" "job_state job = OverallStateCancelled"
      | (soft) "\<not> hard" "job_state job \<noteq> OverallStateCancelled" by blast
    then show ?thesis
    proof cases
      case hard
      obtain p c2 where p: "DeleteEvaluationJob ?s i c1 = (p, c2)" by fastforce
      with hard Inr q assms(2) have r: "r = (case p of Inl e \<Rightarrow> Inl e | Inr _ \<Rightarrow> Inr (job, job_state job = OverallStateCancelled))"
        "tables w' = cn_db c2" "wd_log w' = wd_log w"
        by (auto simp: cancel_in_store_def Let_def abind_def store_def areturn_def cancelled_status simp del: not_None_eq split: sum.splits)
      show ?thesis
      proof (cases p)
        case (Inl e)
        with p run_op_error[of c1 ?s "OpDelete i" e c2] db1 assms(1) r show ?thesis by simp
      next
        case (Inr u)
        with p delete_success[of c1 ?s i u c2] db1 assms(1) r read hard s show ?thesis
          by (auto simp: cancelled_in_def intro!: exI[of _ job] exI[of _ "[]"])
      qed
    next
      case again
      with Inr q assms(2) read db1 show ?thesis
        by (auto simp: cancel_in_store_def Let_def abind_def store_def areturn_def cancelled_in_def cancelled_status
            simp del: not_None_eq intro!: exI[of _ job] exI[of _ "[]"])
    next
      case soft
      obtain p c2 where p: "UpdateEvaluationJobStatus ?s i OverallStateCancelled ?m c1 = (p, c2)" by fastforce
      show ?thesis
      proof (cases p)
        case (Inl e)
        with soft Inr q assms(2) p run_op_error[of c1 ?s "OpStatus i OverallStateCancelled ?m" e c2] db1 assms(1) show ?thesis
          by (auto simp: cancel_in_store_def Let_def abind_def store_def areturn_def cancelled_status simp del: not_None_eq)
      next
        case Inr': (Inr u)
        with p cancel_success[of c1 ?s i ?m u c2 job] db1 assms(1) read soft s
        have "cancelled_in hard (cx_Tenant ctx) i job (tables w) (cn_db c2)" by (simp add: cancelled_in_def)
        moreover have "r = Inr (job, False) \<and> tables w' = cn_db c2 \<and> (\<exists>ms. wd_log w' = wd_log w @ map Measured ms)"
        proof -
          have "\<exists>now es. (es = recordEvaluationJobTerminalTransition now (job_state job) OverallStateCancelled
                (jobProviderIDs [] (ej_Config job)) (jobCollectionID (ej_Config job)) (r_CreatedAt (ej_Resource job)) (cx_Tenant ctx) \<or>
              es = RecordEvaluationJobTerminalState (job_state job) OverallStateCancelled (cx_Tenant ctx)) \<and>
            r = Inr (job, False) \<and> tables w' = cn_db c2 \<and> wd_log w' = wd_log w @ Measured (JobCancelled (cx_Tenant ctx)) # es"
            using assms(2) q Inr Inr' p soft
            by (auto simp: cancel_in_store_def Let_def abind_def store_def areturn_def emit_def emits_def time_Now_def
                cancelled_status simp del: not_None_eq split: if_splits)
          then show ?thesis using transition_measured by (metis list.map(2))
        qed
        ultimately show ?thesis using soft read by auto
      qed
    qed
  qed
qed

text \<open>
  C16: A request to cancel an evaluation job fails and leaves the tables and the outside untouched, or
  it succeeds: the job it read is deleted, when the request asks for it, or stored as cancelled, and its
  resources are deleted at most once, as the last action, when a runtime is there and the job was not
  cancelled before.
\<close>

theorem cancel_then_cleanup:
  assumes "db_ok (tables w)" "HandleCancelEvaluation h ctx r w = (resp, w')"
  shows "(\<exists>e. resp = Failed e \<and> tables w' = tables w \<and> wd_log w' = wd_log w) \<or>
    (\<exists>i hard job ms. resp = Empty 204 \<and>
       path_value r ''job_id'' = Inr i \<and> GetParam_bool r ''hard_delete'' True False = Inr hard \<and>
       reads_as (WithWorkloadType Evaluation (getStorage h ctx)) Evaluation i (tables w) job \<and>
       cancelled_in hard (cx_Tenant ctx) i job (tables w) (tables w') \<and>
       wd_log w' = wd_log w @ map Measured ms @
         (if hd_runtime h \<noteq> None \<and> (hard \<or> ej_Status job \<noteq> None \<and> job_state job \<noteq> OverallStateCancelled)
          then [ResourcesDeleted job] else []))"
proof (cases "path_value r ''job_id''")
  case (Inl e)
  with assms(2) show ?thesis by (auto simp: HandleCancelEvaluation_def respond_def abind_def alift_def)
next
  case i: (Inr i)
  show ?thesis
  proof (cases "GetParam_bool r ''hard_delete'' True False")
    case (Inl e)
    with i assms(2) show ?thesis by (auto simp: HandleCancelEvaluation_def respond_def abind_def alift_def)
  next
    case hard: (Inr hard)
    obtain q w1 where q: "cancel_in_store h ctx i hard w = (q, w1)" by fastforce
    from cancel_in_store_outcome[OF assms(1) q] show ?thesis
    proof (elim disjE exE conjE)
      fix e assume "q = Inl e" "tables w1 = tables w" "wd_log w1 = wd_log w"
      with i hard q assms(2) show ?thesis by (auto simp: HandleCancelEvaluation_def respond_def abind_def alift_def)
    next
      fix job ms
      assume "q = Inr (job, job_state job = OverallStateCancelled)" "wd_log w1 = wd_log w @ map Measured ms"
        and store: "reads_as (WithWorkloadType Evaluation (getStorage h ctx)) Evaluation i (tables w) job"
          "cancelled_in hard (cx_Tenant ctx) i job (tables w) (tables w1)"
      with i hard q assms(2) have "resp = Empty 204 \<and> tables w' = tables w1 \<and> wd_log w' = wd_log w @ map Measured ms @
         (if hd_runtime h \<noteq> None \<and> (hard \<or> ej_Status job \<noteq> None \<and> job_state job \<noteq> OverallStateCancelled)
          then [ResourcesDeleted job] else [])"
        by (auto simp: HandleCancelEvaluation_def respond_def abind_def alift_def areturn_def emit_def Let_def split: if_splits)
      with i hard store show ?thesis by (intro disjI2 exI[of _ i] exI[of _ hard] exI[of _ job] exI[of _ ms]) simp
    qed
  qed
qed

theorem cancel_then_cleanup_witness:
  "\<exists>job. cancelled_in False ''t1'' ''j1'' job provider_db
     (tables (snd (HandleCancelEvaluation sample_handlers sample_context sample_request sample_world))) \<and>
   fst (HandleCancelEvaluation sample_handlers sample_context sample_request sample_world) = Empty 204"
proof -
  let ?r = "HandleCancelEvaluation sample_handlers sample_context sample_request sample_world"
  have "fst ?r = Empty 204" by (rule sample_cancelled)
  moreover have "path_value sample_request ''job_id'' = Inr ''j1''" "GetParam_bool sample_request ''hard_delete'' True False = Inr False"
    by code_simp+
  moreover have "tables sample_world = provider_db" "cx_Tenant sample_context = ''t1''"
    by (simp_all add: sample_world_def sample_context_def)
  ultimately show ?thesis
    using cancel_then_cleanup[OF db_ok_sample, OF prod.collapse[symmetric], of sample_handlers sample_context sample_request] by auto
qed

end
