(* ===== verification/K8s_Names.thy ===== *)
theory K8s_Names
  imports Postprocessing
begin

text \<open>
  Names and label values of the Kubernetes objects of an execution (runtimes/k8s/job_names.go). A name
  is built from the job identifier and the identifier of the execution, cut so that a suffix fits into
  63 bytes. The theory shows that every name is a valid DNS label (RFC 1123), that every sanitized
  value is a valid label value, that a ConfigMap is named after its Job, and that names of different
  executions differ.
\<close>

section \<open>Strings\<close>

text \<open>
  strings.ToLower. Two runes outside ASCII have an ASCII lower case, U+212A and U+0130. The others are
  kept: their lower case is outside ASCII too, and the callers replace such runes or compare the
  result with ASCII text.
\<close>

definition kelvin_sign :: string where
  "kelvin_sign = [CHR 0xE2, CHR 0x84, CHR 0xAA]"

definition dotted_i :: string where
  "dotted_i = [CHR 0xC4, CHR 0xB0]"

function ToLower :: "string \<Rightarrow> string" where
  "ToLower [] = []"
| "ToLower (c # s) =
     (if prefix kelvin_sign (c # s) then CHR ''k'' # ToLower (drop 2 s)
      else if prefix dotted_i (c # s) then CHR ''i'' # ToLower (drop 1 s)
      else ascii_lower c # ToLower s)"
  by pat_completeness auto
termination by (relation "measure length") auto

definition Trim :: "char set \<Rightarrow> string \<Rightarrow> string" where
  "Trim cutset s = rev (dropWhile (\<lambda>c. c \<in> cutset) (rev (dropWhile (\<lambda>c. c \<in> cutset) s)))"

text \<open>Regexp.ReplaceAllString with a pattern \<open>[^...]+\<close> and the replacement \<open>-\<close>.\<close>

function replace_runs :: "(char \<Rightarrow> bool) \<Rightarrow> string \<Rightarrow> string" where
  "replace_runs ok [] = []"
| "replace_runs ok (c # s) =
     (if ok c then c # replace_runs ok s else CHR ''-'' # replace_runs ok (dropWhile (\<lambda>x. \<not> ok x) s))"
  by pat_completeness auto
termination by (relation "measure (length \<circ> snd)") (auto simp: le_imp_less_Suc length_dropWhile_le)

definition alnum :: "char \<Rightarrow> bool" where
  "alnum c = (let n = (of_char c :: nat) in 97 \<le> n \<and> n \<le> 122 \<or> 48 \<le> n \<and> n \<le> 57)"

definition name_char :: "char \<Rightarrow> bool" where
  "name_char c \<longleftrightarrow> alnum c \<or> c = CHR ''-''"

definition label_char :: "char \<Rightarrow> bool" where
  "label_char c \<longleftrightarrow> alnum c \<or> c = CHR ''-'' \<or> c = CHR ''_'' \<or> c = CHR ''.''"

section \<open>Sanitizing\<close>

definition maxK8sNameLength :: int where "maxK8sNameLength = 63"
definition maxK8sLabelValueLength :: nat where "maxK8sLabelValueLength = 63"
definition specSuffix :: string where "specSuffix = ''-spec''"

definition or_x :: "string \<Rightarrow> string" where
  "or_x s = (if s = '''' then ''x'' else s)"

definition Trim_dash :: "string \<Rightarrow> string" where
  "Trim_dash = Trim {CHR ''-''}"

definition sanitizeDNS1123Label :: "string \<Rightarrow> string" where
  "sanitizeDNS1123Label v = or_x (Trim_dash (replace_runs name_char (ToLower v)))"

definition sanitizeLabelValue :: "string \<Rightarrow> string" where
  "sanitizeLabelValue v =
     (let safe = replace_runs label_char (ToLower v);
          safe = (if length safe > maxK8sLabelValueLength then take maxK8sLabelValueLength safe else safe)
      in or_x (Trim {CHR ''-'', CHR ''_'', CHR ''.''} safe))"

section \<open>Building a name\<close>

text \<open>Lengths are Go integers: the room left for a part may be negative.\<close>

definition len :: "'a list \<Rightarrow> int" where
  "len xs = int (length xs)"

definition at_least_1 :: "int \<Rightarrow> int" where
  "at_least_1 n = (if n < 1 then 1 else n)"

definition shorten :: "int \<Rightarrow> string \<Rightarrow> string" where
  "shorten n s = (if len s > n then or_x (Trim_dash (take (nat n) s)) else s)"

definition name_base :: "string \<Rightarrow> string \<Rightarrow> int \<Rightarrow> string" where
  "name_base jobID resourceGUID reserveBytes =
     (let safeJobID = sanitizeDNS1123Label jobID;
          safeGUID = sanitizeDNS1123Label resourceGUID;
          safeJobID = shorten (at_least_1 (maxK8sNameLength - reserveBytes - len safeGUID - 1)) safeJobID
      in shorten (at_least_1 (maxK8sNameLength - reserveBytes)) (safeJobID @ ''-'' @ safeGUID))"

definition buildK8sNameWithReserve :: "string \<Rightarrow> string \<Rightarrow> string \<Rightarrow> int \<Rightarrow> string" where
  "buildK8sNameWithReserve jobID resourceGUID suf reserve =
     (let reserveBytes = (if reserve < len suf then len suf else reserve);
          base = name_base jobID resourceGUID reserveBytes;
          name = base @ suf
      in if len name > maxK8sNameLength
         then
           let keep = at_least_1 (maxK8sNameLength - len suf);
               base = or_x (Trim_dash (take (nat (min (len base) keep)) base));
               name = base @ suf
           in if len name > maxK8sNameLength then Trim_dash (take (nat maxK8sNameLength) name) else name
         else name)"

definition buildK8sName :: "string \<Rightarrow> string \<Rightarrow> string \<Rightarrow> string" where
  "buildK8sName jobID resourceGUID suf = buildK8sNameWithReserve jobID resourceGUID suf (len suf)"

definition jobName :: "string \<Rightarrow> string \<Rightarrow> string" where
  "jobName jobID resourceGUID = buildK8sNameWithReserve jobID resourceGUID '''' (len specSuffix)"

definition configMapName :: "string \<Rightarrow> string \<Rightarrow> string" where
  "configMapName jobID resourceGUID = buildK8sNameWithReserve jobID resourceGUID specSuffix (len specSuffix)"

section \<open>Valid names and values\<close>

text \<open>
  The syntax Kubernetes requires: a DNS label has at most 63 lower-case letters, digits and dashes, a
  letter or a digit at both ends; a label value may contain dots and underscores as well.
\<close>

definition bounded_by :: "(char \<Rightarrow> bool) \<Rightarrow> string \<Rightarrow> bool" where
  "bounded_by ok s \<longleftrightarrow> s \<noteq> [] \<and> list_all ok s \<and> alnum (hd s) \<and> alnum (last s)"

definition dns_label :: "string \<Rightarrow> bool" where
  "dns_label s \<longleftrightarrow> bounded_by name_char s \<and> length s \<le> 63"

definition label_value :: "string \<Rightarrow> bool" where
  "label_value s \<longleftrightarrow> bounded_by label_char s \<and> length s \<le> 63"

text \<open>An identifier of package uuid: 36 characters, hexadecimal digits in lower case and dashes.\<close>

definition uuid_text :: "string \<Rightarrow> bool" where
  "uuid_text s \<longleftrightarrow> length s = 36 \<and> bounded_by name_char s"

section \<open>Lemmas\<close>

lemma name_char_simps [simp]: "name_char CHR ''-''" "name_char CHR ''x''" "alnum CHR ''x''"
  by (simp_all add: name_char_def alnum_def)

lemma label_char_simps [simp]: "label_char CHR ''-''" "label_char CHR ''x''"
  by (simp_all add: label_char_def alnum_def)

lemma alnum_not_sep [simp]: "\<not> alnum CHR ''-''" "\<not> alnum CHR ''_''" "\<not> alnum CHR ''.''"
  by (simp_all add: alnum_def)

lemma list_all_replace_runs: "ok CHR ''-'' \<Longrightarrow> list_all ok (replace_runs ok s)"
  by (induction ok s rule: replace_runs.induct) auto

lemma Trim_sublist: "sublist (Trim cs s) s"
proof -
  have "suffix (dropWhile p xs) xs" for p and xs :: string
    by (metis suffixI takeWhile_dropWhile_id)
  then show ?thesis
    unfolding Trim_def by (metis rev_rev_ident sublist_order.order_trans sublist_rev suffix_imp_sublist)
qed

lemma Trim_length: "length (Trim cs s) \<le> length s"
  by (rule sublist_length_le[OF Trim_sublist])

lemma Trim_set: "set (Trim cs s) \<subseteq> set s"
  by (rule set_mono_sublist[OF Trim_sublist])

lemma Trim_last: "Trim cs s \<noteq> [] \<Longrightarrow> last (Trim cs s) \<notin> cs"
  unfolding Trim_def by (metis hd_dropWhile last_rev rev_is_Nil_conv)

lemma Trim_hd: "Trim cs s \<noteq> [] \<Longrightarrow> hd (Trim cs s) \<notin> cs"
proof -
  let ?l = "dropWhile (\<lambda>c. c \<in> cs) s"
  assume ne: "Trim cs s \<noteq> []"
  have "suffix (dropWhile (\<lambda>c. c \<in> cs) (rev ?l)) (rev ?l)"
    by (metis suffixI takeWhile_dropWhile_id)
  then have "prefix (Trim cs s) ?l" by (simp add: Trim_def suffix_to_prefix)
  then have "hd (Trim cs s) = hd ?l" using ne by (auto simp: prefix_def)
  moreover have "?l \<noteq> []" using ne unfolding Trim_def by (metis dropWhile.simps(1) rev.simps(1))
  ultimately show ?thesis using hd_dropWhile by metis
qed

lemma Trim_id: "s \<noteq> [] \<Longrightarrow> hd s \<notin> cs \<Longrightarrow> last s \<notin> cs \<Longrightarrow> Trim cs s = s"
proof -
  assume "s \<noteq> []" "hd s \<notin> cs" "last s \<notin> cs"
  then have "dropWhile (\<lambda>c. c \<in> cs) s = s" "dropWhile (\<lambda>c. c \<in> cs) (rev s) = rev s"
    by (simp_all add: dropWhile_eq_self_iff hd_rev)
  then show ?thesis by (simp add: Trim_def)
qed

lemma bounded_Trim:
  assumes "list_all ok s" "\<And>c. ok c \<Longrightarrow> c \<notin> cs \<Longrightarrow> alnum c" "ok CHR ''x''"
  shows "bounded_by ok (or_x (Trim cs s))"
proof (cases "Trim cs s = []")
  case False
  have "set (Trim cs s) \<subseteq> {c. ok c}" using Trim_set[of cs s] assms(1) by (auto simp: list_all_iff)
  with False assms(2) show ?thesis
    using Trim_hd[OF False] Trim_last[OF False] subsetD[OF _ hd_in_set[OF False]] subsetD[OF _ last_in_set[OF False]]
    by (auto simp: bounded_by_def or_x_def list_all_iff)
qed (simp add: bounded_by_def or_x_def assms)

lemma bounded_Trim_dash: "list_all name_char s \<Longrightarrow> bounded_by name_char (or_x (Trim_dash s))"
  unfolding Trim_dash_def by (rule bounded_Trim) (auto simp: name_char_def)

lemma bounded_sanitizeDNS1123Label: "bounded_by name_char (sanitizeDNS1123Label v)"
  unfolding sanitizeDNS1123Label_def by (intro bounded_Trim_dash list_all_replace_runs) simp

lemma or_x_Trim_length: "1 \<le> n \<Longrightarrow> length s \<le> n \<Longrightarrow> length (or_x (Trim cs s)) \<le> n"
  using Trim_length[of cs s] by (auto simp: or_x_def)

lemma sanitizeLabelValue_valid: "label_value (sanitizeLabelValue v)"
proof -
  let ?r = "replace_runs label_char (ToLower v)"
  let ?s = "if length ?r > maxK8sLabelValueLength then take maxK8sLabelValueLength ?r else ?r"
  have "list_all label_char ?r" by (rule list_all_replace_runs) simp
  then have "list_all label_char ?s" by (auto simp: list_all_iff dest: in_set_takeD)
  then have "bounded_by label_char (or_x (Trim {CHR ''-'', CHR ''_'', CHR ''.''} ?s))"
    by (rule bounded_Trim) (auto simp: label_char_def alnum_def)
  moreover have "length (or_x (Trim {CHR ''-'', CHR ''_'', CHR ''.''} ?s)) \<le> 63"
    by (rule or_x_Trim_length) (simp_all add: maxK8sLabelValueLength_def)
  ultimately show ?thesis by (simp add: label_value_def sanitizeLabelValue_def Let_def)
qed

lemma shorten_bounded: "bounded_by name_char s \<Longrightarrow> bounded_by name_char (shorten n s)"
proof (cases "len s > n")
  case True
  assume "bounded_by name_char s"
  then have "list_all name_char (take (nat n) s)" by (auto simp: bounded_by_def list_all_iff dest: in_set_takeD)
  from bounded_Trim_dash[OF this] True show ?thesis by (simp add: shorten_def)
qed (simp add: shorten_def)

lemma shorten_len: "1 \<le> n \<Longrightarrow> len (shorten n s) \<le> n"
  using or_x_Trim_length[of "nat n" "take (nat n) s" "{CHR ''-''}"]
  by (auto simp: shorten_def len_def Trim_dash_def le_nat_iff)

lemma at_least_1_ge [simp]: "1 \<le> at_least_1 n"
  by (simp add: at_least_1_def)

lemma bounded_dash: "bounded_by name_char a \<Longrightarrow> bounded_by name_char b \<Longrightarrow> bounded_by name_char (a @ ''-'' @ b)"
  by (auto simp: bounded_by_def)

lemma name_base_bounded: "bounded_by name_char (name_base jobID guid reserve)"
  unfolding name_base_def Let_def by (intro shorten_bounded bounded_dash bounded_sanitizeDNS1123Label)

lemma name_base_len: "len (name_base jobID guid reserve) \<le> at_least_1 (63 - reserve)"
  unfolding name_base_def Let_def by (simp add: shorten_len maxK8sNameLength_def)

text \<open>With a suffix of at most 62 bytes the base is never shortened a second time.\<close>

lemma buildK8sNameWithReserve_base:
  "length suf \<le> 62 \<Longrightarrow>
   buildK8sNameWithReserve jobID guid suf reserve = name_base jobID guid (max reserve (len suf)) @ suf"
  using name_base_len[of jobID guid "max reserve (len suf)"]
  by (auto simp: buildK8sNameWithReserve_def Let_def max_def at_least_1_def maxK8sNameLength_def len_def
      split: if_splits)

definition good_suffix :: "string \<Rightarrow> bool" where
  "good_suffix suf \<longleftrightarrow> length suf \<le> 62 \<and> list_all name_char suf \<and> (suf = [] \<or> alnum (last suf))"

lemma buildK8sNameWithReserve_valid:
  assumes "good_suffix suf"
  shows "dns_label (buildK8sNameWithReserve jobID guid suf reserve)"
proof -
  let ?b = "name_base jobID guid (max reserve (len suf))"
  have "bounded_by name_char (?b @ suf)"
    using assms name_base_bounded[of jobID guid "max reserve (len suf)"]
    by (cases "suf = []") (auto simp: good_suffix_def bounded_by_def)
  moreover have "length (?b @ suf) \<le> 63"
    using assms name_base_len[of jobID guid "max reserve (len suf)"]
    by (auto simp: good_suffix_def at_least_1_def len_def split: if_splits)
  ultimately show ?thesis using assms by (simp add: good_suffix_def dns_label_def buildK8sNameWithReserve_base)
qed

lemma good_suffixes [simp]:
  "good_suffix ''''" "good_suffix specSuffix" "good_suffix ''-model-ref''" "good_suffix ''-netpol''"
  by (simp_all add: good_suffix_def specSuffix_def name_char_def alnum_def)

lemma configMapName_spec: "configMapName jobID guid = jobName jobID guid @ specSuffix"
  by (simp add: configMapName_def jobName_def buildK8sNameWithReserve_base specSuffix_def len_def)

subsection \<open>Identifiers that are clean already\<close>

lemma ToLower_clean:
  assumes "\<And>c. ok c \<Longrightarrow> ascii_lower c = c \<and> (of_char c :: nat) < 128" "list_all ok s"
  shows "ToLower s = s"
  using assms(2)
proof (induction s rule: ToLower.induct)
  case (2 c s)
  have "c \<noteq> CHR 0xE2" "c \<noteq> CHR 0xC4" using assms(1)[of c] 2(4) by auto
  with 2 assms(1)[of c] show ?case by (simp add: kelvin_sign_def dotted_i_def)
qed simp

lemma replace_runs_clean: "list_all ok s \<Longrightarrow> replace_runs ok s = s"
  by (induction ok s rule: replace_runs.induct) auto

lemma alnum_lower: "alnum c \<Longrightarrow> ascii_lower c = c \<and> (of_char c :: nat) < 128"
  by (auto simp: alnum_def Let_def)

lemma label_char_lower: "label_char c \<Longrightarrow> ascii_lower c = c \<and> (of_char c :: nat) < 128"
  using alnum_lower by (auto simp: label_char_def)

lemma name_label_char: "name_char c \<Longrightarrow> label_char c"
  by (auto simp: name_char_def label_char_def)

lemma sanitizeDNS1123Label_clean:
  assumes "bounded_by name_char s"
  shows "sanitizeDNS1123Label s = s"
proof -
  have "ToLower s = s"
    by (rule ToLower_clean[of name_char]) (use assms label_char_lower name_label_char in \<open>auto simp: bounded_by_def\<close>)
  moreover have "Trim {CHR ''-''} s = s"
    by (rule Trim_id) (use assms in \<open>auto simp: bounded_by_def\<close>)
  ultimately show ?thesis
    using assms by (simp add: sanitizeDNS1123Label_def replace_runs_clean bounded_by_def Trim_dash_def or_x_def)
qed

lemma sanitizeLabelValue_clean:
  assumes "label_value s"
  shows "sanitizeLabelValue s = s"
proof -
  have "ToLower s = s"
    by (rule ToLower_clean[of label_char]) (use assms label_char_lower in \<open>auto simp: label_value_def bounded_by_def\<close>)
  moreover have "Trim {CHR ''-'', CHR ''_'', CHR ''.''} s = s"
    by (rule Trim_id) (use assms in \<open>auto simp: label_value_def bounded_by_def\<close>)
  ultimately show ?thesis
    using assms
    by (simp add: sanitizeLabelValue_def replace_runs_clean label_value_def bounded_by_def or_x_def
        maxK8sLabelValueLength_def)
qed

lemma uuid_label_value: "uuid_text s \<Longrightarrow> label_value s"
  using name_label_char by (auto simp: uuid_text_def label_value_def bounded_by_def list_all_iff)

lemma shorten_le: "len s \<le> n \<Longrightarrow> shorten n s = s"
  by (simp add: shorten_def)

text \<open>A name keeps the whole identifier of its execution.\<close>

lemma name_base_uuid:
  assumes "uuid_text guid" "reserve \<le> 25"
  shows "\<exists>p. name_base jobID guid reserve = p @ ''-'' @ guid"
proof -
  let ?n = "at_least_1 (maxK8sNameLength - reserve - len guid - 1)"
  let ?p = "shorten ?n (sanitizeDNS1123Label jobID)"
  have g: "sanitizeDNS1123Label guid = guid" "len guid = 36"
    using assms(1) by (auto simp: uuid_text_def sanitizeDNS1123Label_clean len_def)
  have "?n = 26 - reserve" using assms(2) g(2) by (simp add: at_least_1_def maxK8sNameLength_def)
  with shorten_len[OF at_least_1_ge, of "maxK8sNameLength - reserve - len guid - 1" "sanitizeDNS1123Label jobID"]
  have "len ?p \<le> 26 - reserve" by simp
  then have "len (?p @ ''-'' @ guid) \<le> at_least_1 (maxK8sNameLength - reserve)"
    using g(2) \<open>?n = 26 - reserve\<close> assms(2) by (simp add: len_def at_least_1_def[of "63 - reserve"] maxK8sNameLength_def)
  then show ?thesis by (auto simp: name_base_def Let_def g(1) shorten_le)
qed

lemma buildK8sNameWithReserve_uuid:
  assumes "uuid_text guid" "uuid_text guid'" "length suf \<le> 25" "reserve \<le> 25"
    and "buildK8sNameWithReserve jobID guid suf reserve = buildK8sNameWithReserve jobID' guid' suf reserve"
  shows "guid = guid'"
proof -
  have r: "max reserve (len suf) \<le> 25" using assms(3,4) by (simp add: len_def)
  obtain p q where "name_base jobID guid (max reserve (len suf)) = p @ ''-'' @ guid"
    "name_base jobID' guid' (max reserve (len suf)) = q @ ''-'' @ guid'"
    using name_base_uuid[OF assms(1) r] name_base_uuid[OF assms(2) r] by blast
  with assms(5) have "(p @ ''-'') @ guid = (q @ ''-'') @ guid'"
    using assms(3) by (simp add: buildK8sNameWithReserve_base)
  moreover have "length guid = length guid'" using assms(1,2) by (simp add: uuid_text_def)
  ultimately show ?thesis by (metis append_eq_append_conv)
qed

end
