(* ===== verification/Runtime_Shared.thy ===== *)
theory Runtime_Shared
  imports Sidecar_Urls Postprocessing
begin

text \<open>
  What the runtimes share (runtimes/shared): the job specification an adapter reads (jobspec.go), the
  provider of a benchmark (provider.go), the model URL behind the sidecar (sidecar_job_info.go,
  rewriteModelURLForSidecar of k8s_runtime.go) and the last lines of a log file (logs.go).
\<close>

section \<open>Numbers\<close>

text \<open>
  int64(x) for a float64: truncation towards zero. Go leaves the result open when it is out of range;
  it is the argument \<open>wild\<close>.
\<close>

definition float64_to_int :: "(rat \<Rightarrow> int) \<Rightarrow> rat \<Rightarrow> int" where
  "float64_to_int wild x =
     (let t = (if x < 0 then \<lceil>x\<rceil> else \<lfloor>x\<rfloor>) in if - (2 ^ 63) \<le> t \<and> t < 2 ^ 63 then t else wild x)"

section \<open>The job specification\<close>

record JobSpecExportsOCI =
  jx_Coordinates :: OCICoordinates

record JobSpecExports =
  jx_OCI :: "JobSpecExportsOCI option"

record JobSpec =
  sp_JobID :: string
  sp_ProviderID :: string
  sp_BenchmarkID :: string
  sp_BenchmarkIndex :: int
  sp_Model :: "ModelRef option"
  sp_NumExamples :: "int option"
  sp_Parameters :: "go_any gomap"
  sp_TestDataRef :: "TestDataRef option"
  sp_ExperimentName :: string
  sp_Tags :: "ExperimentTag list"
  sp_CallbackURL :: "string option"
  sp_Exports :: "JobSpecExports option"
  sp_PrimaryScore :: "PrimaryScore option"

text \<open>
  Copies are values: CopyParams and cloneModelRef isolate the specification from the evaluation, which
  values are by nature.
\<close>

definition CopyParams :: "go_any gomap \<Rightarrow> go_any gomap" where
  "CopyParams source = source"

definition cloneModelRef :: "ModelRef option \<Rightarrow> ModelRef option" where
  "cloneModelRef m = m"

definition scored :: "PrimaryScore option \<Rightarrow> PrimaryScore option" where
  "scored ps = (case ps of None \<Rightarrow> None | Some q \<Rightarrow> if ps_Metric q \<noteq> '''' then Some q else None)"

definition resolvePrimaryScore :: "EvaluationBenchmarkConfig \<Rightarrow> ProviderResource option \<Rightarrow> PrimaryScore option" where
  "resolvePrimaryScore bench provider =
     (case scored (eb_PrimaryScore bench) of
        Some ps \<Rightarrow> Some ps
      | None \<Rightarrow>
          (case provider of
             None \<Rightarrow> None
           | Some p \<Rightarrow>
               (case find (\<lambda>b. b_ID b = eb_ID bench) (pv_Benchmarks (pr_Config p)) of
                  None \<Rightarrow> None
                | Some b \<Rightarrow> scored (b_PrimaryScore b))))"

definition NumExamplesFromParameters :: "(rat \<Rightarrow> int) \<Rightarrow> go_any gomap \<Rightarrow> int option" where
  "NumExamplesFromParameters wild parameters =
     (case gomap_get parameters ''num_examples'' of
        Some (AInt n) \<Rightarrow> Some n
      | Some (AInt32 n) \<Rightarrow> Some n
      | Some (AInt64 n) \<Rightarrow> Some n
      | Some (AFloat64 x) \<Rightarrow> Some (float64_to_int wild x)
      | _ \<Rightarrow> None)"

definition BuildJobSpec ::
  "(rat \<Rightarrow> int) \<Rightarrow> EvaluationJobResource \<Rightarrow> string \<Rightarrow> EvaluationBenchmarkConfig option \<Rightarrow> int \<Rightarrow> string option \<Rightarrow>
   ProviderResource option \<Rightarrow> string + JobSpec" where
  "BuildJobSpec wild evaluation providerID benchmarkConfig benchmarkIndex callbackURL provider =
     (case benchmarkConfig of
        None \<Rightarrow> Inl ''benchmark is required''
      | Some bench \<Rightarrow>
          let benchmarkParams = CopyParams (eb_Parameters bench);
              cfg = ej_Config evaluation;
              spec =
                \<lparr>sp_JobID = r_ID (ej_Resource evaluation), sp_ProviderID = providerID, sp_BenchmarkID = eb_ID bench,
                 sp_BenchmarkIndex = benchmarkIndex, sp_Model = cloneModelRef (ec_Model cfg),
                 sp_NumExamples = NumExamplesFromParameters wild benchmarkParams,
                 sp_Parameters = gomap_delete ''num_examples'' benchmarkParams, sp_TestDataRef = eb_TestDataRef bench,
                 sp_ExperimentName = '''', sp_Tags = [], sp_CallbackURL = callbackURL, sp_Exports = None,
                 sp_PrimaryScore = resolvePrimaryScore bench provider\<rparr>;
              spec = (case ec_Experiment cfg of
                        None \<Rightarrow> spec
                      | Some ex \<Rightarrow> spec\<lparr>sp_ExperimentName := ex_Name ex, sp_Tags := ex_Tags ex\<rparr>)
          in Inr (case Option.bind (ec_Exports cfg) ee_OCI of
                    None \<Rightarrow> spec
                  | Some oci \<Rightarrow>
                      spec\<lparr>sp_Exports := Some \<lparr>jx_OCI = Some \<lparr>jx_Coordinates = eo_Coordinates oci\<rparr>\<rparr>\<rparr>))"

section \<open>The provider of a benchmark\<close>

definition WorkloadType ::
  "Workload list \<Rightarrow> EvaluationJobResource \<Rightarrow> EvaluationBenchmarkConfig \<Rightarrow> go_error + workload_type" where
  "WorkloadType registry evaluation benchmark =
     (case ForJob registry (ej_Config evaluation) of
        Some w \<Rightarrow>
          if eb_ProviderID benchmark \<noteq> wl_ProviderID w \<or> eb_ID benchmark \<noteq> wl_BenchmarkID w
          then Inl (PlainErr (''workload '' @ Quote (wl_Type w) @ '' benchmark does not match the stored job''))
          else Inr (wl_Type w)
      | None \<Rightarrow>
          if IsInternalProviderID registry (eb_ProviderID benchmark)
          then Inl (PlainErr (''internal workload provider '' @ Quote (eb_ProviderID benchmark) @
                              '' cannot be resolved as a conventional benchmark''))
          else Inr Evaluation)"

text \<open>\<open>getProvider\<close> is the lookup in the store; \<open>None\<close> stands for a runtime without a store.\<close>

definition ProviderForBenchmark ::
  "Workload list \<Rightarrow> EvaluationJobResource \<Rightarrow> EvaluationBenchmarkConfig \<Rightarrow> (string \<Rightarrow> go_error + ProviderResource) option \<Rightarrow>
   go_error + ProviderResource" where
  "ProviderForBenchmark registry evaluation benchmark getProvider =
     ebind (WorkloadType registry evaluation benchmark) (\<lambda>t.
       if t \<noteq> Evaluation
       then (case ByType registry t of
               None \<Rightarrow> Inl (PlainErr (''workload '' @ Quote t @ '' is not registered''))
             | Some w \<Rightarrow>
                 (case wl_RuntimeProvider w of
                    None \<Rightarrow> Inl (PlainErr (''workload '' @ Quote t @ '' did not provide a runtime provider''))
                  | Some p \<Rightarrow> Inr p))
       else (case getProvider of
               None \<Rightarrow> Inl (PlainErr (''provider '' @ Quote (eb_ProviderID benchmark) @ '' is not configured''))
             | Some get \<Rightarrow> get (eb_ProviderID benchmark)))"

section \<open>The model behind the sidecar\<close>

fun PathUnescape :: "string \<Rightarrow> string option" where
  "PathUnescape [] = Some []"
| "PathUnescape (c # s) =
     (if c = CHR ''%''
      then (case s of
              a # b # rest \<Rightarrow>
                (case (hex_value a, hex_value b) of
                   (Some x, Some y) \<Rightarrow> map_option ((#) (char_of (16 * x + y))) (PathUnescape rest)
                 | _ \<Rightarrow> None)
            | _ \<Rightarrow> None)
      else map_option ((#) c) (PathUnescape s))"

text \<open>The bytes package net/url leaves as they are in a path.\<close>

definition path_char :: "char \<Rightarrow> bool" where
  "path_char c \<longleftrightarrow> unreserved c \<or> c \<in> set ''$&+,/:;=@''"

definition escape_path :: "string \<Rightarrow> string" where
  "escape_path p =
     (if p = ''*'' then p
      else concat (map (\<lambda>c. let n = (of_char c :: nat)
                            in if path_char c then [c] else [CHR ''%'', upper_hex (n div 16), upper_hex (n mod 16)]) p))"

text \<open>
  The field Path of a parsed URL is the decoded form of its escaped path. A URL whose field RawPath is
  empty is written with the default escaping of Path.
\<close>

definition url_Path :: "go_url \<Rightarrow> string" where
  "url_Path u = (case PathUnescape (u_EscapedPath u) of None \<Rightarrow> '''' | Some p \<Rightarrow> p)"

definition TrimSuffix :: "string \<Rightarrow> string \<Rightarrow> string" where
  "TrimSuffix s p = (if HasSuffix s p then take (length s - length p) s else s)"

definition with_model_path :: "go_url \<Rightarrow> string \<Rightarrow> go_url \<Rightarrow> go_url" where
  "with_model_path sidecar path model =
     \<lparr>u_Scheme = u_Scheme sidecar, u_User = None, u_Host = u_Host sidecar, u_EscapedPath = escape_path path,
      u_RawQuery = u_RawQuery model, u_Fragment = u_Fragment model\<rparr>"

definition rewriteModelURLForSidecar :: "url_package \<Rightarrow> string \<Rightarrow> string \<Rightarrow> string + string" where
  "rewriteModelURLForSidecar up baseURL modelURL =
     (case up_Parse up (TrimSuffix baseURL ''/'') of
        Inl e \<Rightarrow> Inl (''invalid sidecar base URL '' @ Quote baseURL @ '': '' @ e)
      | Inr sidecar \<Rightarrow>
          if u_Host sidecar = ''''
          then Inl (''invalid sidecar base URL '' @ Quote baseURL @ '': missing host'')
          else (case up_Parse up (TrimSuffix modelURL ''/'') of
                  Inl e \<Rightarrow> Inl (''invalid model URL '' @ Quote modelURL @ '': '' @ e)
                | Inr model \<Rightarrow> Inr (up_String up (with_model_path sidecar (url_Path model) model))))"

definition RewriteModelURLForLocalSidecar :: "url_package \<Rightarrow> string \<Rightarrow> string \<Rightarrow> string \<Rightarrow> string + string" where
  "RewriteModelURLForLocalSidecar up baseURL jobID modelURL =
     (case up_Parse up (TrimSuffix baseURL ''/'') of
        Inl e \<Rightarrow> Inl (''invalid sidecar base URL '' @ Quote baseURL @ '': '' @ e)
      | Inr sidecar \<Rightarrow>
          if u_Host sidecar = ''''
          then Inl (''invalid sidecar base URL '' @ Quote baseURL @ '': missing host'')
          else (case up_Parse up modelURL of
                  Inl e \<Rightarrow> Inl (''invalid model URL '' @ Quote modelURL @ '': '' @ e)
                | Inr model \<Rightarrow>
                    Inr (up_String up (with_model_path sidecar (''/model/'' @ jobID @ url_Path model) model))))"

section \<open>Logs\<close>

definition FormatLogSectionHeader :: "string \<Rightarrow> string \<Rightarrow> string \<Rightarrow> string" where
  "FormatLogSectionHeader podName containerName benchmarkID =
     ''=== pod='' @ podName @ '' container='' @ containerName @ '' benchmark_id='' @ benchmarkID @ '' ===''"

definition line_break :: char where
  "line_break = CHR 0x0A"

text \<open>A last line that is empty is what follows the final line break; it is no line.\<close>

definition drop_empty_last :: "string list \<Rightarrow> string list" where
  "drop_empty_last ls = (if ls \<noteq> [] \<and> last ls = '''' then butlast ls else ls)"

definition countLogLines :: "string \<Rightarrow> int" where
  "countLogLines d = (if d = [] then 0 else int (length (drop_empty_last (Split line_break d))))"

definition tailReadBlockSize :: nat where
  "tailReadBlockSize = 8192"

text \<open>
  The loop of readLastNLines: blocks of the file are put in front of what has been read, from the end
  of the file, until more than \<open>n\<close> lines have been read or the start is reached.
\<close>

function read_back :: "nat \<Rightarrow> string \<Rightarrow> int \<Rightarrow> nat \<Rightarrow> string \<Rightarrow> string" where
  "read_back block file n offset remainder =
     (if offset > 0 \<and> block > 0 \<and> countLogLines remainder \<le> n
      then let readSize = (if block > offset then offset else block);
               offset' = offset - readSize
           in read_back block file n offset' (take readSize (drop offset' file) @ remainder)
      else remainder)"
  by pat_completeness auto
termination by (relation "measure (\<lambda>(b, f, n, off, r). off)") auto

declare read_back.simps [simp del]

definition readLastNLines :: "string \<Rightarrow> int \<Rightarrow> string" where
  "readLastNLines file n = read_back tailReadBlockSize file n (length file) []"

text \<open>\<open>None\<close> is a missing file.\<close>

definition TailFileLines :: "string option \<Rightarrow> int \<Rightarrow> string" where
  "TailFileLines file n =
     (case file of
        None \<Rightarrow> ''''
      | Some data \<Rightarrow>
          if data = [] then ''''
          else
            let content = (if n \<le> 0 then data else readLastNLines data n);
                ls = drop_empty_last (Split line_break content)
            in Join (if n > 0 \<and> int (length ls) > n then drop (length ls - nat n) ls else ls) [line_break])"

definition StreamFileAll :: "string option \<Rightarrow> string" where
  "StreamFileAll file = (case file of None \<Rightarrow> '''' | Some data \<Rightarrow> data)"

section \<open>Lemmas\<close>

subsection \<open>The last lines\<close>

definition log_lines :: "string \<Rightarrow> string list" where
  "log_lines d = drop_empty_last (Split line_break d)"

definition last_lines :: "int \<Rightarrow> string list \<Rightarrow> string list" where
  "last_lines n ls = (if n > 0 then drop (length ls - nat n) ls else ls)"

lemma Split_append:
  "Split c (a @ b) = butlast (Split c a) @ (last (Split c a) @ hd (Split c b)) # tl (Split c b)"
proof (induction a)
  case (Cons x a)
  obtain p ps where s: "Split c a = p # ps" by (meson Split_ne list.exhaust)
  show ?case using Cons s by (cases ps) auto
qed simp

lemma countLogLines_lines: "countLogLines d = int (length (log_lines d))"
  by (simp add: countLogLines_def log_lines_def drop_empty_last_def)

text \<open>All lines of the end of a file but the first are lines of the file.\<close>

lemma log_lines_append:
  assumes "1 < length (log_lines b)"
  shows "\<exists>front. log_lines (a @ b) = front @ tl (log_lines b)"
proof -
  obtain h t where s: "Split line_break b = h # t" by (meson Split_ne list.exhaust)
  have t: "t \<noteq> []" using assms s by (auto simp: log_lines_def drop_empty_last_def split: if_splits)
  have "tl (drop_empty_last (h # t)) = drop_empty_last t"
    using assms s t by (cases t rule: rev_cases) (auto simp: log_lines_def drop_empty_last_def split: if_splits)
  moreover have "drop_empty_last (xs @ x # t) = (xs @ [x]) @ drop_empty_last t" for xs x
    using t by (simp add: drop_empty_last_def butlast_append)
  ultimately show ?thesis using s by (auto simp: log_lines_def Split_append)
qed

lemma last_lines_append:
  assumes "n < int (length (log_lines b))" "0 < n"
  shows "last_lines n (log_lines (a @ b)) = last_lines n (log_lines b)"
proof -
  let ?l = "log_lines b"
  have len: "Suc (nat n) \<le> length ?l" "1 < length ?l" using assms by auto
  obtain front where f: "log_lines (a @ b) = front @ tl ?l" using log_lines_append[OF len(2)] by blast
  have "length ?l - nat n = Suc (length (tl ?l) - nat n)" using len(1) by (cases ?l) auto
  then have "drop (length ?l - nat n) ?l = drop (length (tl ?l) - nat n) (tl ?l)" by (simp add: drop_Suc)
  then show ?thesis using f assms len by (simp add: last_lines_def)
qed

lemma read_back_lines:
  assumes "0 < bs" "0 < n" "offset \<le> length data" "remainder = drop offset data"
  shows "last_lines n (log_lines (read_back bs data n offset remainder)) = last_lines n (log_lines data)"
  using assms
proof (induction bs data n offset remainder rule: read_back.induct)
  case (1 bs data n offset remainder)
  show ?case
  proof (cases "offset > 0 \<and> bs > 0 \<and> countLogLines remainder \<le> n")
    case True
    let ?r = "if bs > offset then offset else bs"
    have "take ?r (drop (offset - ?r) data) @ remainder = drop (offset - ?r) data"
    proof -
      have "remainder = drop ?r (drop (offset - ?r) data)" using "1.prems" by simp
      then show ?thesis by (metis append_take_drop_id)
    qed
    with 1 True show ?thesis by (subst read_back.simps) (simp add: Let_def)
  next
    case False
    then consider "offset = 0" | "n < int (length (log_lines remainder))"
      using 1 by (auto simp: countLogLines_lines)
    then show ?thesis
    proof cases
      case 1
      with "1.prems" False show ?thesis by (simp add: read_back.simps)
    next
      case 2
      have "data = take offset data @ remainder" using "1.prems" by simp
      with 2 "1.prems"(2) last_lines_append[of n remainder "take offset data"]
      have "last_lines n (log_lines data) = last_lines n (log_lines remainder)" by simp
      then show ?thesis by (subst read_back.simps) (subst if_not_P[OF False], simp)
    qed
  qed
qed

lemma TailFileLines_reference:
  "TailFileLines (Some data) n = Join (last_lines n (log_lines data)) [line_break]"
proof (cases "data = []")
  case False
  let ?c = "if n \<le> 0 then data else readLastNLines data n"
  have "last_lines n (log_lines ?c) = last_lines n (log_lines data)"
    using read_back_lines[of tailReadBlockSize n "length data" data "[]"]
    by (simp add: readLastNLines_def tailReadBlockSize_def)
  moreover have "last_lines n ls = (if n > 0 \<and> int (length ls) > n then drop (length ls - nat n) ls else ls)"
    for ls :: "string list" by (auto simp: last_lines_def)
  ultimately show ?thesis using False unfolding TailFileLines_def Let_def log_lines_def by simp
qed (simp add: TailFileLines_def log_lines_def last_lines_def drop_empty_last_def)

end
