(* ===== verification/K8s_Objects.thy ===== *)
theory K8s_Objects
  imports Runtime_Shared
begin

text \<open>
  The Kubernetes objects the runtime builds, as records with the fields it sets or reads. The types are
  those of the packages core/v1, batch/v1, networking/v1 and meta/v1. An empty map stands for a nil map
  as well, which has the same JSON form under \<open>omitempty\<close>. A quantity is its text.
\<close>

type_synonym quantity = string

record OwnerReference =
  ow_APIVersion :: string
  ow_Kind :: string
  ow_Name :: string
  ow_UID :: string
  ow_Controller :: "bool option"

record ObjectMeta =
  om_Name :: string
  om_Namespace :: string
  om_UID :: string
  om_Labels :: "string gomap"
  om_Annotations :: "string gomap"
  om_OwnerReferences :: "OwnerReference list"

record KeyToPath =
  kp_Key :: string
  kp_Path :: string

datatype VolumeProjection =
    SecretProjection string "KeyToPath list" "bool option"
  | DownwardAPIProjection "(string \<times> string) list"
  | ServiceAccountTokenProjection string int

datatype VolumeSource =
    ConfigMapSource string
  | EmptyDirSource "quantity option"
  | SecretSource string
  | PersistentVolumeClaimSource string bool
  | ProjectedSource "VolumeProjection list"

record Volume =
  vo_Name :: string
  vo_Source :: VolumeSource

record VolumeMount =
  vm_Name :: string
  vm_MountPath :: string
  vm_SubPath :: string
  vm_ReadOnly :: bool

record PodResources =
  pq_Requests :: "quantity gomap"
  pq_Limits :: "quantity gomap"
  pq_Claims :: "string list"

record SecurityContext =
  sx_AllowPrivilegeEscalation :: "bool option"
  sx_RunAsNonRoot :: "bool option"
  sx_Drop :: "string list"
  sx_SeccompProfile :: string

record Probe =
  pb_Path :: string
  pb_Port :: int
  pb_FailureThreshold :: int
  pb_PeriodSeconds :: int

datatype PullPolicy = PullIfNotPresent | PullAlways

record Container =
  ct_Name :: string
  ct_Image :: string
  ct_ImagePullPolicy :: PullPolicy
  ct_Command :: "string list"
  ct_Env :: "EnvVar list"
  ct_Resources :: PodResources
  ct_SecurityContext :: SecurityContext
  ct_VolumeMounts :: "VolumeMount list"
  ct_RestartPolicy :: "string option"
  ct_StartupProbe :: "Probe option"
  ct_TerminationMessagePath :: string

record Toleration =
  tl_Key :: string
  tl_Operator :: string
  tl_Value :: string
  tl_Effect :: string
  tl_Seconds :: "int option"

record PodResourceClaim =
  pl_Name :: string
  pl_ResourceClaimTemplateName :: "string option"

record PodSpec =
  po_RestartPolicy :: string
  po_NodeSelector :: "string gomap"
  po_Tolerations :: "Toleration list"
  po_PriorityClassName :: string
  po_ResourceClaims :: "PodResourceClaim list"
  po_InitContainers :: "Container list"
  po_Containers :: "Container list"
  po_Volumes :: "Volume list"
  po_ServiceAccountName :: string
  po_AutomountServiceAccountToken :: "bool option"

record Job =
  jb_Meta :: ObjectMeta
  jb_BackoffLimit :: int
  jb_TTLSecondsAfterFinished :: int
  jb_TemplateLabels :: "string gomap"
  jb_TemplateAnnotations :: "string gomap"
  jb_Pod :: PodSpec

record ConfigMap =
  cm_Meta :: ObjectMeta
  cm_Data :: "string gomap"

record Secret =
  se_Meta :: ObjectMeta
  se_Data :: "string gomap"

record NetworkPolicy =
  np_Meta :: ObjectMeta
  np_PodSelector :: "string gomap"
  np_PolicyTypes :: "string list"
  np_Ingress :: "string list"

record Pod =
  pd_Name :: string
  pd_CreationTimestamp :: time

definition boolPtr :: "bool \<Rightarrow> bool option" where
  "boolPtr b = Some b"

definition gomap_lookup :: "string gomap \<Rightarrow> string \<Rightarrow> string" where
  "gomap_lookup m k = (case gomap_get m k of None \<Rightarrow> '''' | Some v \<Rightarrow> v)"

end
