(* ===== verification/K8s_Config.thy ===== *)
theory K8s_Config
  imports K8s_Names K8s_Objects
begin

text \<open>
  The configuration of one execution of a benchmark on Kubernetes: what is read from a HardwareProfile
  (runtimes/k8s/hardware_profile.go), the job configuration built from the evaluation, the provider and
  the service configuration (job_config.go), and the labels (job_names.go).

  What the process reads from outside is the argument \<open>k8s_env\<close>: the environment variables, the namespace
  file, resource.ParseQuantity, the accessors of package unstructured, net/url and the texts of errors
  of the standard library.
\<close>

section \<open>The environment\<close>

record unstructured_package =
  uo_NestedSlice :: "go_any gomap \<Rightarrow> string list \<Rightarrow> string + go_any list option"
  uo_NestedMap :: "go_any gomap \<Rightarrow> string list \<Rightarrow> string + go_any gomap option"
  uo_NestedStringMap :: "go_any gomap \<Rightarrow> string list \<Rightarrow> string + string gomap option"

record Unstructured =
  un_Name :: string
  un_Annotations :: "string gomap"
  un_Object :: "go_any gomap"

record k8s_env =
  ke_pod :: pod_env
  ke_MLFlowTrackingURI :: string
  ke_HardwareProfilesNamespace :: string
  ke_ParseQuantity :: "string \<Rightarrow> string + quantity"
  ke_Unstructured :: unstructured_package
  ke_url :: url_package
  ke_wild_int :: "rat \<Rightarrow> int"
  ke_json_error :: string
  ke_Atoi_error :: "string \<Rightarrow> string"

section \<open>Hardware profiles\<close>

record hardwareProfileResources =
  hr_identifiers :: "HardwareProfileIdentifier list"
  hr_cpuRequest :: string
  hr_cpuLimit :: string
  hr_memoryRequest :: string
  hr_memoryLimit :: string
  hr_gpuResource :: string
  hr_gpuCount :: int
  hr_schedulingType :: string
  hr_nodeSelector :: "string gomap"
  hr_tolerations :: "Toleration list"
  hr_queueName :: string
  hr_priorityClassName :: string

definition empty_profile :: hardwareProfileResources where
  "empty_profile =
     \<lparr>hr_identifiers = [], hr_cpuRequest = '''', hr_cpuLimit = '''', hr_memoryRequest = '''', hr_memoryLimit = '''',
      hr_gpuResource = '''', hr_gpuCount = 0, hr_schedulingType = '''', hr_nodeSelector = [], hr_tolerations = [],
      hr_queueName = '''', hr_priorityClassName = ''''\<rparr>"

definition stringFromUnstructured :: "go_any option \<Rightarrow> string" where
  "stringFromUnstructured v = (case v of Some (AString s) \<Rightarrow> s | _ \<Rightarrow> '''')"

definition quantityStringFromUnstructured :: "k8s_env \<Rightarrow> go_any option \<Rightarrow> string option" where
  "quantityStringFromUnstructured env v =
     (case v of
        Some (AString s) \<Rightarrow> if TrimSpace s = '''' then None else Some (TrimSpace s)
      | Some (AInt n) \<Rightarrow> Some (Itoa n)
      | Some (AInt32 n) \<Rightarrow> Some (Itoa n)
      | Some (AInt64 n) \<Rightarrow> Some (Itoa n)
      | Some (AFloat64 x) \<Rightarrow> Some (Itoa (float64_to_int (ke_wild_int env) x))
      | _ \<Rightarrow> None)"

definition int64PtrFromUnstructured :: "k8s_env \<Rightarrow> go_any option \<Rightarrow> int option" where
  "int64PtrFromUnstructured env v =
     (case v of
        Some (AInt64 n) \<Rightarrow> Some n
      | Some (AInt32 n) \<Rightarrow> Some n
      | Some (AInt n) \<Rightarrow> Some n
      | Some (AFloat64 x) \<Rightarrow> Some (float64_to_int (ke_wild_int env) x)
      | _ \<Rightarrow> None)"

definition isStandardHardwareProfileResource :: "string \<Rightarrow> bool" where
  "isStandardHardwareProfileResource i \<longleftrightarrow> i \<in> {''cpu'', ''memory'', ''ephemeral-storage''}"

definition or_empty :: "string option \<Rightarrow> string" where
  "or_empty v = (case v of None \<Rightarrow> '''' | Some s \<Rightarrow> s)"

definition or_keep :: "string option \<Rightarrow> string \<Rightarrow> string" where
  "or_keep v old = (case v of None \<Rightarrow> old | Some s \<Rightarrow> s)"

text \<open>One entry of the list; an entry that is no map is skipped.\<close>

definition parse_identifier :: "k8s_env \<Rightarrow> go_any \<Rightarrow> hardwareProfileResources \<Rightarrow> string + hardwareProfileResources" where
  "parse_identifier env raw out =
     (case raw of
        AMap m \<Rightarrow>
          let identifier = TrimSpace (stringFromUnstructured (gomap_get m ''identifier''));
              resourceType = TrimSpace (stringFromUnstructured (gomap_get m ''resourceType''));
              minCount = quantityStringFromUnstructured env (gomap_get m ''minCount'');
              defaultCount = quantityStringFromUnstructured env (gomap_get m ''defaultCount'');
              maxCount = quantityStringFromUnstructured env (gomap_get m ''maxCount'');
              out = out\<lparr>hr_identifiers := hr_identifiers out @
                [\<lparr>hi_Identifier = identifier, hi_DisplayName = stringFromUnstructured (gomap_get m ''displayName''),
                  hi_ResourceType = ToLower resourceType, hi_MinCount = or_empty minCount,
                  hi_DefaultCount = or_empty defaultCount, hi_MaxCount = or_empty maxCount\<rparr>]\<rparr>
          in if resourceType = ''CPU'' \<or> identifier = ''cpu''
             then Inr (out\<lparr>hr_cpuRequest := or_keep defaultCount (hr_cpuRequest out),
                           hr_cpuLimit := or_keep maxCount (hr_cpuLimit out)\<rparr>)
             else if resourceType = ''Memory'' \<or> identifier = ''memory''
             then Inr (out\<lparr>hr_memoryRequest := or_keep defaultCount (hr_memoryRequest out),
                           hr_memoryLimit := or_keep maxCount (hr_memoryLimit out)\<rparr>)
             else if resourceType = ''Accelerator'' \<or>
                     identifier \<noteq> '''' \<and> \<not> isStandardHardwareProfileResource identifier
             then if identifier = '''' then Inr out
                  else
                    let out = out\<lparr>hr_gpuResource := identifier\<rparr>
                    in (case defaultCount of
                          None \<Rightarrow> Inr out
                        | Some d \<Rightarrow>
                            (case Atoi d of
                               None \<Rightarrow> Inl (''parse accelerator count for '' @ Quote identifier @ '': '' @ ke_Atoi_error env d)
                             | Some count \<Rightarrow> Inr (out\<lparr>hr_gpuCount := count\<rparr>)))
             else Inr out
      | _ \<Rightarrow> Inr out)"

fun parse_identifiers :: "k8s_env \<Rightarrow> go_any list \<Rightarrow> hardwareProfileResources \<Rightarrow> string + hardwareProfileResources" where
  "parse_identifiers env [] out = Inr out"
| "parse_identifiers env (raw # raws) out = ebind (parse_identifier env raw out) (parse_identifiers env raws)"

definition parseHardwareProfileIdentifiers ::
  "k8s_env \<Rightarrow> Unstructured \<Rightarrow> hardwareProfileResources \<Rightarrow> string + hardwareProfileResources" where
  "parseHardwareProfileIdentifiers env profile out =
     (case uo_NestedSlice (ke_Unstructured env) (un_Object profile) [''spec'', ''identifiers''] of
        Inl e \<Rightarrow> Inl (''read hardware profile identifiers: '' @ e)
      | Inr None \<Rightarrow> Inr out
      | Inr (Some identifiers) \<Rightarrow> parse_identifiers env identifiers out)"

definition parse_toleration :: "k8s_env \<Rightarrow> go_any gomap \<Rightarrow> Toleration" where
  "parse_toleration env m =
     (let text = (\<lambda>k. TrimSpace (stringFromUnstructured (gomap_get m k)))
      in \<lparr>tl_Key = text ''key'', tl_Operator = text ''operator'', tl_Value = text ''value'', tl_Effect = text ''effect'',
          tl_Seconds = int64PtrFromUnstructured env (gomap_get m ''tolerationSeconds'')\<rparr>)"

definition parseHardwareProfileTolerations :: "k8s_env \<Rightarrow> go_any list \<Rightarrow> Toleration list" where
  "parseHardwareProfileTolerations env raw =
     List.map_filter (\<lambda>item. case item of AMap m \<Rightarrow> Some (parse_toleration env m) | _ \<Rightarrow> None) raw"

definition or_nil :: "'a list option \<Rightarrow> 'a list" where
  "or_nil v = (case v of None \<Rightarrow> [] | Some xs \<Rightarrow> xs)"

definition read_field :: "string \<Rightarrow> string + 'a \<Rightarrow> string + 'a" where
  "read_field what r = (case r of Inl e \<Rightarrow> Inl (''read hardware profile '' @ what @ '': '' @ e) | Inr x \<Rightarrow> Inr x)"

definition parse_node_scheduling ::
  "k8s_env \<Rightarrow> go_any gomap \<Rightarrow> hardwareProfileResources \<Rightarrow> string + hardwareProfileResources" where
  "parse_node_scheduling env scheduling out =
     (let uo = ke_Unstructured env
      in ebind (read_field ''scheduling.node'' (uo_NestedMap uo scheduling [''node''])) (\<lambda>node0.
           let node = or_nil node0
           in if node = [] then Inr out
              else
                ebind (read_field ''nodeSelector'' (uo_NestedStringMap uo node [''nodeSelector''])) (\<lambda>selector.
                  let out = (if or_nil selector \<noteq> [] then out\<lparr>hr_nodeSelector := or_nil selector\<rparr> else out)
                  in ebind (read_field ''tolerations'' (uo_NestedSlice uo node [''tolerations''])) (\<lambda>tolerationsRaw.
                       Inr (out\<lparr>hr_tolerations := parseHardwareProfileTolerations env (or_nil tolerationsRaw)\<rparr>)))))"

definition parse_queue_scheduling ::
  "k8s_env \<Rightarrow> go_any gomap \<Rightarrow> hardwareProfileResources \<Rightarrow> string + hardwareProfileResources" where
  "parse_queue_scheduling env scheduling out =
     ebind (read_field ''scheduling.kueue'' (uo_NestedMap (ke_Unstructured env) scheduling [''kueue''])) (\<lambda>kueue0.
       let kueue = or_nil kueue0
       in if kueue = [] then Inr out
          else
            let priority = TrimSpace (stringFromUnstructured (gomap_get kueue ''priorityClass''));
                out = out\<lparr>hr_queueName := TrimSpace (stringFromUnstructured (gomap_get kueue ''localQueueName''))\<rparr>
            in Inr (if priority \<noteq> '''' \<and> \<not> same_fold priority ''None'' then out\<lparr>hr_priorityClassName := priority\<rparr> else out))"

definition parseHardwareProfileScheduling ::
  "k8s_env \<Rightarrow> Unstructured \<Rightarrow> hardwareProfileResources \<Rightarrow> string + hardwareProfileResources" where
  "parseHardwareProfileScheduling env profile out =
     ebind (read_field ''scheduling'' (uo_NestedMap (ke_Unstructured env) (un_Object profile) [''spec'', ''scheduling'']))
       (\<lambda>scheduling0.
         let scheduling = or_nil scheduling0
         in if scheduling = [] then Inr out
            else
              let schedulingType = TrimSpace (stringFromUnstructured (gomap_get scheduling ''type''));
                  out = out\<lparr>hr_schedulingType := schedulingType\<rparr>
              in if schedulingType = ''Node'' then parse_node_scheduling env scheduling out
                 else if schedulingType = ''Queue'' then parse_queue_scheduling env scheduling out
                 else Inr out)"

definition parseHardwareProfileResources :: "k8s_env \<Rightarrow> Unstructured \<Rightarrow> string + hardwareProfileResources" where
  "parseHardwareProfileResources env profile =
     ebind (parseHardwareProfileIdentifiers env profile empty_profile) (parseHardwareProfileScheduling env profile)"

definition isHardwareProfileDisabled :: "Unstructured \<Rightarrow> bool" where
  "isHardwareProfileDisabled profile \<longleftrightarrow>
     same_fold (TrimSpace (gomap_lookup (un_Annotations profile) ''opendatahub.io/disabled'')) ''true''"

definition hardwareProfilesNamespace :: "k8s_env \<Rightarrow> string + string" where
  "hardwareProfilesNamespace env =
     (let ns = TrimSpace (ke_HardwareProfilesNamespace env)
      in if ns \<noteq> '''' then Inr ns else Inl ''EVALHUB_HARDWARE_PROFILES_NAMESPACE is not set'')"

section \<open>The configuration of an execution\<close>

record s3TestDataConfig =
  ts_bucket :: string
  ts_key :: string
  ts_secretRef :: string

record pvcTestDataConfig =
  tp_claimName :: string
  tp_subPath :: string

record postProcessorPVCConfig =
  xp_claimName :: string
  xp_volumeName :: string
  xp_mountPath :: string

record gitTestDataConfig =
  tg_url :: string
  tg_ref :: string
  tg_subPath :: string
  tg_secretRef :: string

record hfTestDataConfig =
  th_repoID :: string
  th_revision :: string
  th_subPath :: string
  th_secretRef :: string

record jobConfig =
  jc_jobID :: string
  jc_resourceGUID :: string
  jc_namespace :: string
  jc_providerID :: string
  jc_benchmarkID :: string
  jc_benchmarkIndex :: int
  jc_adapterImage :: string
  jc_adapterPullPolicy :: PullPolicy
  jc_sidecarImage :: string
  jc_entrypoint :: "string list"
  jc_defaultEnv :: "EnvVar list"
  jc_cpuRequest :: string
  jc_memoryRequest :: string
  jc_cpuLimit :: string
  jc_memoryLimit :: string
  jc_gpuResource :: string
  jc_gpuCount :: int
  jc_draResourceClaimTemplate :: string
  jc_draClaimName :: string
  jc_nodeSelector :: "string gomap"
  jc_tolerations :: "Toleration list"
  jc_priorityClassName :: string
  jc_jobSpec :: JobSpec
  jc_serviceAccountName :: string
  jc_serviceCAConfigMap :: string
  jc_mlflowCABundleConfigMap :: string
  jc_evalHubURL :: string
  jc_sidecarBaseURL :: string
  jc_evalHubInstanceName :: string
  jc_evalHubCRNamespace :: string
  jc_mlflowTrackingURI :: string
  jc_mlflowWorkspace :: string
  jc_ociCredentialsSecret :: string
  jc_modelAuthSecretRef :: string
  jc_modelInternalRefSecretName :: string
  jc_modelTargetURL :: string
  jc_sidecarResources :: PodResources
  jc_testDataS3 :: s3TestDataConfig
  jc_testDataPVC :: pvcTestDataConfig
  jc_postProcessorPVCs :: "postProcessorPVCConfig list"
  jc_testDataGit :: gitTestDataConfig
  jc_testDataHF :: hfTestDataConfig
  jc_testDataInitImage :: string
  jc_sidecarConfig :: "SidecarConfig option"
  jc_queueKind :: string
  jc_queueName :: string

section \<open>Values with a fallback\<close>

definition defaultIfEmpty :: "string \<Rightarrow> string \<Rightarrow> string" where
  "defaultIfEmpty v fallback = (if v = '''' then fallback else v)"

definition mlflowCABundleConfigMapName :: "string \<Rightarrow> string" where
  "mlflowCABundleConfigMapName instanceName = instanceName @ ''-mlflow-ca-bundle''"

definition resolveNamespace :: "k8s_env \<Rightarrow> string \<Rightarrow> string" where
  "resolveNamespace env configured =
     (if configured \<noteq> '''' then configured
      else
        let inClusterNamespace = readInClusterNamespace (ke_pod env)
        in if inClusterNamespace \<noteq> '''' then inClusterNamespace else ''default'')"

definition resolveImagePullPolicy :: "string \<Rightarrow> PullPolicy" where
  "resolveImagePullPolicy policy =
     (if policy \<in> {'''', ''if_not_present''} then PullIfNotPresent
      else if policy = ''always'' then PullAlways else PullIfNotPresent)"

definition resolveNodeSelector :: "GPUConfig option \<Rightarrow> string gomap" where
  "resolveNodeSelector gpu = (case gpu of None \<Rightarrow> [] | Some g \<Rightarrow> gc_NodeSelector g)"

definition resolveGPUConfig :: "GPUConfig option \<Rightarrow> string \<times> int" where
  "resolveGPUConfig gpu =
     (case gpu of None \<Rightarrow> ('''', 0) | Some g \<Rightarrow> if gc_Count g \<le> 0 then ('''', 0) else (TrimSpace (gc_Resource g), gc_Count g))"

definition resolveDRAConfig :: "DRAConfig option \<Rightarrow> string \<times> string" where
  "resolveDRAConfig dra =
     (case dra of None \<Rightarrow> ('''', '''') | Some d \<Rightarrow> (TrimSpace (dc_ResourceClaimTemplate d), TrimSpace (dc_ClaimName d)))"

section \<open>Calibration volumes\<close>

fun pvc_configs ::
  "CalibrationDataRef list \<Rightarrow> string list \<Rightarrow> postProcessorPVCConfig list \<Rightarrow> string + postProcessorPVCConfig list" where
  "pvc_configs [] seenClaims configs = Inr configs"
| "pvc_configs (ref # refs) seenClaims configs =
     (case cd_PVC ref of
        None \<Rightarrow> pvc_configs refs seenClaims configs
      | Some pvc \<Rightarrow>
          let claimName = TrimSpace (pvc_ClaimName pvc)
          in if claimName = '''' then Inl ''post-processing calibration PVC claim_name is required''
             else if claimName \<in> set seenClaims then pvc_configs refs seenClaims configs
             else pvc_configs refs (claimName # seenClaims)
                    (configs @ [\<lparr>xp_claimName = claimName,
                                 xp_volumeName = ''ppi-calibration-pvc-'' @ Itoa (int (length configs)),
                                 xp_mountPath = ''/mnt/evalhub/post-processing/calibration-pvc/'' @ claimName\<rparr>]))"

text \<open>An operation that OperationsFromJob accepts has a confidence interval.\<close>

definition postProcessorPVCConfigs :: "k8s_env \<Rightarrow> EvaluationJobResource \<Rightarrow> string + postProcessorPVCConfig list" where
  "postProcessorPVCConfigs env evaluation =
     (if \<not> IsPostProcessingJob (ej_Config evaluation) then Inr []
      else (case OperationsFromJob (ke_json_error env) (ej_Config evaluation) of
              Inl e \<Rightarrow> Inl (''read post-processing calibration data refs: '' @ err_text e)
            | Inr operations \<Rightarrow>
                pvc_configs (case so_ConfidenceInterval operations of None \<Rightarrow> [] | Some ci \<Rightarrow> sc_CalibrationDataRef ci) [] []))"

section \<open>The sidecar container\<close>

text \<open>A zero Quantity prints as 0.\<close>

definition quantity_or_zero :: "k8s_env \<Rightarrow> string \<Rightarrow> quantity" where
  "quantity_or_zero env s = (case ke_ParseQuantity env s of Inl e \<Rightarrow> ''0'' | Inr q \<Rightarrow> q)"

definition defaultSidecarResourceRequirements :: "k8s_env \<Rightarrow> PodResources" where
  "defaultSidecarResourceRequirements env =
     \<lparr>pq_Requests = [(''cpu'', quantity_or_zero env ''100m''), (''memory'', quantity_or_zero env ''128Mi'')],
      pq_Limits = [(''cpu'', quantity_or_zero env ''200m''), (''memory'', quantity_or_zero env ''256Mi'')], pq_Claims = []\<rparr>"

definition put_quantity :: "k8s_env \<Rightarrow> string \<Rightarrow> string \<Rightarrow> string \<Rightarrow> quantity gomap \<Rightarrow> string + quantity gomap" where
  "put_quantity env what key text m =
     (if text = '''' then Inr m
      else (case ke_ParseQuantity env text of
              Inl e \<Rightarrow> Inl (what @ '': '' @ e)
            | Inr q \<Rightarrow> Inr (gomap_put key q m)))"

definition put_requirement :: "k8s_env \<Rightarrow> string \<Rightarrow> ResourceRequirementDef option \<Rightarrow> quantity gomap \<Rightarrow> string + quantity gomap" where
  "put_requirement env what def m =
     (case def of
        None \<Rightarrow> Inr m
      | Some d \<Rightarrow>
          ebind (put_quantity env (''sidecar resources.'' @ what @ ''.cpu'') ''cpu'' (rd_CPU d) m)
            (put_quantity env (''sidecar resources.'' @ what @ ''.memory'') ''memory'' (rd_Memory d)))"

definition resourceRequirementsFromConfig :: "k8s_env \<Rightarrow> ResourceRequirements \<Rightarrow> string + PodResources" where
  "resourceRequirementsFromConfig env cfg =
     (let out = defaultSidecarResourceRequirements env
      in ebind (put_requirement env ''requests'' (rr_Requests cfg) (pq_Requests out)) (\<lambda>requests.
           ebind (put_requirement env ''limits'' (rr_Limits cfg) (pq_Limits out)) (\<lambda>limits.
             Inr (out\<lparr>pq_Requests := requests, pq_Limits := limits\<rparr>))))"

definition sidecarImageAndResources :: "k8s_env \<Rightarrow> Config option \<Rightarrow> string + string \<times> PodResources" where
  "sidecarImageAndResources env serviceConfig =
     (let image = ''eval-runtime-sidecar:latest''; resources = defaultSidecarResourceRequirements env
      in (case Option.bind (Option.bind serviceConfig cf_Sidecar) sd_SidecarContainer of
            None \<Rightarrow> Inr (image, resources)
          | Some sc \<Rightarrow>
              let image = (if TrimSpace (sn_Image sc) \<noteq> '''' then TrimSpace (sn_Image sc) else image)
              in (case sn_Resources sc of
                    None \<Rightarrow> Inr (image, resources)
                  | Some r \<Rightarrow> ebind (resourceRequirementsFromConfig env r) (\<lambda>resources. Inr (image, resources)))))"

section \<open>Hardware of an execution\<close>

definition or_old :: "string \<Rightarrow> string \<Rightarrow> string" where
  "or_old v old = (if v \<noteq> '''' then v else old)"

definition profile_scheduling :: "hardwareProfileResources \<Rightarrow> jobConfig \<Rightarrow> jobConfig" where
  "profile_scheduling profile cfg =
     (if hr_schedulingType profile = ''Queue''
      then
        (if hr_queueName profile \<noteq> ''''
         then cfg\<lparr>jc_queueKind := ''kueue'', jc_queueName := hr_queueName profile, jc_nodeSelector := [], jc_tolerations := []\<rparr>
         else cfg)\<lparr>jc_priorityClassName := hr_priorityClassName profile\<rparr>
      else if hr_schedulingType profile = ''Node''
      then cfg\<lparr>jc_nodeSelector := (if hr_nodeSelector profile \<noteq> [] then hr_nodeSelector profile else jc_nodeSelector cfg),
               jc_tolerations := (if hr_tolerations profile \<noteq> [] then hr_tolerations profile else jc_tolerations cfg)\<rparr>
      else cfg)"

definition applyHardwareProfileResources :: "hardwareProfileResources option \<Rightarrow> jobConfig \<Rightarrow> jobConfig" where
  "applyHardwareProfileResources profile cfg =
     (case profile of
        None \<Rightarrow> cfg
      | Some p \<Rightarrow>
          profile_scheduling p
            (cfg\<lparr>jc_cpuRequest := or_old (hr_cpuRequest p) (jc_cpuRequest cfg),
                 jc_cpuLimit := or_old (hr_cpuLimit p) (jc_cpuLimit cfg),
                 jc_memoryRequest := or_old (hr_memoryRequest p) (jc_memoryRequest cfg),
                 jc_memoryLimit := or_old (hr_memoryLimit p) (jc_memoryLimit cfg),
                 jc_gpuResource := or_old (hr_gpuResource p) (jc_gpuResource cfg),
                 jc_gpuCount := (if hr_gpuCount p > 0 then hr_gpuCount p else jc_gpuCount cfg)\<rparr>))"

definition applyQueueIfUnset :: "QueueConfig option \<Rightarrow> jobConfig \<Rightarrow> jobConfig" where
  "applyQueueIfUnset queue cfg =
     (case queue of
        None \<Rightarrow> cfg
      | Some q \<Rightarrow>
          if jc_queueName cfg \<noteq> '''' then cfg
          else
            let queueName = TrimSpace (q_Name q)
            in if queueName = '''' then cfg
               else cfg\<lparr>jc_queueName := queueName,
                        jc_queueKind := (if TrimSpace (q_Kind q) = '''' then ''kueue'' else TrimSpace (q_Kind q)),
                        jc_nodeSelector := [], jc_tolerations := []\<rparr>)"

text \<open>The request and the limit of one resource; the pair is the previous one.\<close>

definition direct_quantity ::
  "k8s_env \<Rightarrow> string \<Rightarrow> HardwareResourceQuantity option \<Rightarrow> string \<times> string \<Rightarrow> string + string \<times> string" where
  "direct_quantity env what q old =
     (case q of
        None \<Rightarrow> Inr old
      | Some hq \<Rightarrow>
          let request = TrimSpace (hq_Request hq); limit = TrimSpace (hq_Limit hq);
              check = (\<lambda>field text. if text = '''' then Inr ''''
                         else (case ke_ParseQuantity env text of
                                 Inl e \<Rightarrow> Inl (''hardware_config.'' @ what @ ''.'' @ field @ '': '' @ e)
                               | Inr v \<Rightarrow> Inr v))
          in ebind (check ''request'' request) (\<lambda>_. ebind (check ''limit'' limit) (\<lambda>_.
               Inr (or_old request (fst old), or_old limit (snd old)))))"

definition direct_gpu :: "HardwareGPUConfig option \<Rightarrow> jobConfig \<Rightarrow> string + jobConfig" where
  "direct_gpu gpu cfg =
     (case gpu of
        None \<Rightarrow> Inr cfg
      | Some g \<Rightarrow>
          let name = TrimSpace (hg_Name g); cfg = cfg\<lparr>jc_gpuResource := or_old name (jc_gpuResource cfg)\<rparr>
          in if hg_Count g < 0 then Inl ''hardware_config.gpu.count must be at least 1''
             else
               let cfg = (if hg_Count g > 0 then cfg\<lparr>jc_gpuCount := hg_Count g\<rparr> else cfg)
               in Inr (if name \<noteq> '''' \<or> hg_Count g > 0
                       then cfg\<lparr>jc_draResourceClaimTemplate := '''', jc_draClaimName := ''''\<rparr> else cfg))"

definition direct_dra :: "HardwareDRAConfig option \<Rightarrow> jobConfig \<Rightarrow> jobConfig" where
  "direct_dra dra cfg =
     (case dra of
        None \<Rightarrow> cfg
      | Some d \<Rightarrow>
          let claimTemplate = TrimSpace (hd_ResourceClaimTemplate d); claim = TrimSpace (hd_ClaimName d);
              cfg = (if claimTemplate \<noteq> ''''
                     then cfg\<lparr>jc_gpuResource := '''', jc_gpuCount := 0, jc_draResourceClaimTemplate := claimTemplate\<rparr> else cfg)
          in if claim \<noteq> '''' then cfg\<lparr>jc_draClaimName := claim\<rparr> else cfg)"

definition applyDirectHardwareConfig :: "k8s_env \<Rightarrow> BenchmarkHardwareConfig option \<Rightarrow> jobConfig \<Rightarrow> string + jobConfig" where
  "applyDirectHardwareConfig env hw cfg =
     (case hw of
        None \<Rightarrow> Inr cfg
      | Some h \<Rightarrow>
          if TrimSpace (hw_HardwareProfileName h) \<noteq> '''' then Inr cfg
          else
            ebind (direct_quantity env ''cpu'' (hw_CPU h) (jc_cpuRequest cfg, jc_cpuLimit cfg)) (\<lambda>cpu.
            ebind (direct_quantity env ''memory'' (hw_Memory h) (jc_memoryRequest cfg, jc_memoryLimit cfg)) (\<lambda>mem.
            ebind (direct_gpu (hw_GPU h)
                     (cfg\<lparr>jc_cpuRequest := fst cpu, jc_cpuLimit := snd cpu,
                          jc_memoryRequest := fst mem, jc_memoryLimit := snd mem\<rparr>)) (\<lambda>cfg.
            Inr (applyQueueIfUnset (hw_Queue h) (direct_dra (hw_DRA h) cfg))))))"

definition finalizeAcceleratorConfig :: "jobConfig \<Rightarrow> string + jobConfig" where
  "finalizeAcceleratorConfig cfg =
     (if jc_draResourceClaimTemplate cfg = '''' then Inr cfg
      else if jc_gpuCount cfg > 0
      then Inl (''gpu and dra allocation are mutually exclusive: the provider runtime config, hardware profile, and '' @
                ''hardware_config combine a GPU extended resource request with a DRA ResourceClaimTemplate reference'')
      else Inr (cfg\<lparr>jc_draClaimName := defaultIfEmpty (jc_draClaimName cfg) ''gpu'', jc_nodeSelector := []\<rparr>))"

section \<open>Building the configuration\<close>

definition s3_config :: "TestDataRef option \<Rightarrow> s3TestDataConfig" where
  "s3_config ref =
     (case Option.bind ref td_S3 of
        None \<Rightarrow> \<lparr>ts_bucket = '''', ts_key = '''', ts_secretRef = ''''\<rparr>
      | Some r \<Rightarrow> \<lparr>ts_bucket = TrimSpace (s3_Bucket r), ts_key = TrimSpace (s3_Key r), ts_secretRef = TrimSpace (s3_SecretRef r)\<rparr>)"

definition pvc_config :: "TestDataRef option \<Rightarrow> pvcTestDataConfig" where
  "pvc_config ref =
     (case Option.bind ref td_PVC of
        None \<Rightarrow> \<lparr>tp_claimName = '''', tp_subPath = ''''\<rparr>
      | Some r \<Rightarrow> \<lparr>tp_claimName = TrimSpace (pvc_ClaimName r), tp_subPath = TrimSpace (pvc_SubPath r)\<rparr>)"

definition git_config :: "TestDataRef option \<Rightarrow> gitTestDataConfig" where
  "git_config ref =
     (case Option.bind ref td_Git of
        None \<Rightarrow> \<lparr>tg_url = '''', tg_ref = '''', tg_subPath = '''', tg_secretRef = ''''\<rparr>
      | Some r \<Rightarrow> \<lparr>tg_url = TrimSpace (git_URL r), tg_ref = TrimSpace (git_Ref r), tg_subPath = TrimSpace (git_SubPath r),
                   tg_secretRef = TrimSpace (git_SecretRef r)\<rparr>)"

definition hf_config :: "TestDataRef option \<Rightarrow> hfTestDataConfig" where
  "hf_config ref =
     (case Option.bind ref td_HF of
        None \<Rightarrow> \<lparr>th_repoID = '''', th_revision = '''', th_subPath = '''', th_secretRef = ''''\<rparr>
      | Some r \<Rightarrow> \<lparr>th_repoID = TrimSpace (hf_RepoID r), th_revision = TrimSpace (hf_Revision r),
                   th_subPath = TrimSpace (hf_SubPath r), th_secretRef = TrimSpace (hf_SecretRef r)\<rparr>)"

text \<open>
  The values from the environment and the evaluation, before the hardware is resolved: the runtime of
  the provider, the specification, the sidecar and the calibration volumes have been computed.
\<close>

definition base_config ::
  "k8s_env \<Rightarrow> EvaluationJobResource \<Rightarrow> ModelRef \<Rightarrow> ProviderResource \<Rightarrow> K8sRuntime \<Rightarrow> EvaluationBenchmarkConfig \<Rightarrow> int \<Rightarrow>
   string \<Rightarrow> string \<Rightarrow> JobSpec \<Rightarrow> string \<times> PodResources \<Rightarrow> postProcessorPVCConfig list \<Rightarrow> jobConfig" where
  "base_config env evaluation model provider k8s bench benchmarkIndex guid baseURL spec sidecar pvcs =
     (let namespace = resolveNamespace env (r_Tenant (ej_Resource evaluation));
          instanceName = TrimSpace (pe_InstanceName (ke_pod env));
          mlflowTrackingURI = TrimSpace (ke_MLFlowTrackingURI env);
          instanceNamespace = readInClusterNamespace (ke_pod env);
          saNamespace = (if instanceNamespace = '''' then namespace else instanceNamespace);
          modelTargetURL = TrimSpace (mr_URL model);
          (gpuResource, gpuCount) = resolveGPUConfig (kr_GPU k8s);
          (draTemplate, draClaim) = resolveDRAConfig (kr_DRA k8s)
      in \<lparr>jc_jobID = r_ID (ej_Resource evaluation), jc_resourceGUID = guid, jc_namespace = namespace,
          jc_providerID = r_ID (pr_Resource provider), jc_benchmarkID = eb_ID bench, jc_benchmarkIndex = benchmarkIndex,
          jc_adapterImage = kr_Image k8s, jc_adapterPullPolicy = resolveImagePullPolicy (kr_ImagePullPolicy k8s),
          jc_sidecarImage = fst sidecar, jc_entrypoint = kr_Entrypoint k8s, jc_defaultEnv = kr_Env k8s,
          jc_cpuRequest = defaultIfEmpty (kr_CPURequest k8s) ''250m'',
          jc_memoryRequest = defaultIfEmpty (kr_MemoryRequest k8s) ''512Mi'',
          jc_cpuLimit = defaultIfEmpty (kr_CPULimit k8s) ''1'',
          jc_memoryLimit = defaultIfEmpty (kr_MemoryLimit k8s) ''2Gi'',
          jc_gpuResource = gpuResource, jc_gpuCount = gpuCount,
          jc_draResourceClaimTemplate = draTemplate, jc_draClaimName = draClaim,
          jc_nodeSelector = resolveNodeSelector (kr_GPU k8s), jc_tolerations = [], jc_priorityClassName = '''',
          jc_jobSpec = spec,
          jc_serviceAccountName = (if instanceName \<noteq> '''' then instanceName @ ''-'' @ saNamespace @ ''-job'' else ''''),
          jc_serviceCAConfigMap = (if instanceName \<noteq> '''' then instanceName @ ''-service-ca'' else ''''),
          jc_mlflowCABundleConfigMap = '''',
          jc_evalHubURL =
            (if instanceName \<noteq> '''' then ''https://'' @ instanceName @ ''.'' @ saNamespace @ ''.svc.cluster.local:8443'' else ''''),
          jc_sidecarBaseURL = baseURL, jc_evalHubInstanceName = instanceName,
          jc_evalHubCRNamespace = (if instanceName \<noteq> '''' then saNamespace else ''''),
          jc_mlflowTrackingURI = mlflowTrackingURI,
          jc_mlflowWorkspace = (if mlflowTrackingURI \<noteq> '''' then namespace else ''''),
          jc_ociCredentialsSecret =
            (case Option.bind (Option.bind (ec_Exports (ej_Config evaluation)) ee_OCI) eo_K8s of
               None \<Rightarrow> '''' | Some k \<Rightarrow> ok_Connection k),
          jc_modelAuthSecretRef =
            (case mr_Auth model of
               None \<Rightarrow> '''' | Some auth \<Rightarrow> if modelTargetURL \<noteq> '''' then TrimSpace (ma_SecretRef auth) else ''''),
          jc_modelInternalRefSecretName = '''', jc_modelTargetURL = modelTargetURL,
          jc_sidecarResources = snd sidecar,
          jc_testDataS3 = s3_config (eb_TestDataRef bench), jc_testDataPVC = pvc_config (eb_TestDataRef bench),
          jc_postProcessorPVCs = pvcs,
          jc_testDataGit = git_config (eb_TestDataRef bench), jc_testDataHF = hf_config (eb_TestDataRef bench),
          jc_testDataInitImage = '''', jc_sidecarConfig = None, jc_queueKind = '''', jc_queueName = ''''\<rparr>)"

text \<open>The hardware: provider defaults, then the profile, then the request, then the deprecated queue.\<close>

definition resolve_hardware ::
  "k8s_env \<Rightarrow> hardwareProfileResources option \<Rightarrow> BenchmarkHardwareConfig option \<Rightarrow> QueueConfig option \<Rightarrow> jobConfig \<Rightarrow>
   string + jobConfig" where
  "resolve_hardware env profile hw queue cfg =
     ebind (applyDirectHardwareConfig env hw (applyHardwareProfileResources profile cfg)) (\<lambda>cfg.
       finalizeAcceleratorConfig (applyQueueIfUnset queue cfg))"

text \<open>\<open>None\<close> is the panic on an evaluation without a model.\<close>

definition buildJobConfig ::
  "k8s_env \<Rightarrow> EvaluationJobResource \<Rightarrow> ProviderResource \<Rightarrow> EvaluationBenchmarkConfig \<Rightarrow> int \<Rightarrow> Config option \<Rightarrow>
   hardwareProfileResources option \<Rightarrow> string \<Rightarrow> (string + jobConfig) option" where
  "buildJobConfig env evaluation provider bench benchmarkIndex serviceConfig hardwareProfile guid =
     (case Option.bind (pv_Runtime (pr_Config provider)) rt_K8s of
        None \<Rightarrow> Some (Inl (''provider '' @ Quote (r_ID (pr_Resource provider)) @ '' missing runtime configuration''))
      | Some k8s \<Rightarrow>
          if kr_Image k8s = '''' then Some (Inl ''runtime adapter image is required'')
          else (case ec_Model (ej_Config evaluation) of
                  None \<Rightarrow> None
                | Some model \<Rightarrow>
                    if mr_Name model = '''' then Some (Inl ''model name is required'')
                    else
                      let baseURL = sidecarBaseURL serviceConfig
                      in Some (
                        ebind (BuildJobSpec (ke_wild_int env) evaluation (r_ID (pr_Resource provider)) (Some bench)
                                 benchmarkIndex (Some baseURL) (Some provider)) (\<lambda>spec.
                        ebind (sidecarImageAndResources env serviceConfig) (\<lambda>sidecar.
                        ebind (postProcessorPVCConfigs env evaluation) (\<lambda>pvcs.
                        if snd (resolveGPUConfig (kr_GPU k8s)) > 0 \<and> fst (resolveDRAConfig (kr_DRA k8s)) \<noteq> ''''
                        then Inl (''provider '' @ Quote (r_ID (pr_Resource provider)) @
                                  '' runtime.k8s declares both gpu and dra; they are mutually exclusive'')
                        else resolve_hardware env hardwareProfile
                               (EffectiveHardwareConfig (Some bench) (Some (ej_Config evaluation)))
                               (ec_Queue (ej_Config evaluation))
                               (base_config env evaluation model provider k8s bench benchmarkIndex guid baseURL spec sidecar pvcs)))))))"

section \<open>Labels and annotations\<close>

definition jobLabels :: "jobConfig \<Rightarrow> string gomap" where
  "jobLabels cfg =
     (let m = [(''app'', ''evalhub''), (''component'', ''evaluation-job''),
               (''job_id'', sanitizeLabelValue (jc_jobID cfg)),
               (''provider_id'', sanitizeLabelValue (jc_providerID cfg)),
               (''benchmark_id'', sanitizeLabelValue (jc_benchmarkID cfg)),
               (''benchmark_index'', sanitizeLabelValue (Itoa (jc_benchmarkIndex cfg))),
               (''trustyai.opendatahub.io/evaluation-phase'', ''Pending'')];
          m = (if jc_resourceGUID cfg \<noteq> ''''
               then gomap_put ''eval-hub.github.io/execution-id'' (sanitizeLabelValue (jc_resourceGUID cfg)) m else m);
          m = (if jc_evalHubInstanceName cfg \<noteq> '''' \<and> jc_evalHubCRNamespace cfg \<noteq> ''''
               then gomap_put ''evalhub_instance_namespace'' (sanitizeLabelValue (jc_evalHubCRNamespace cfg))
                      (gomap_put ''evalhub_instance_name'' (sanitizeLabelValue (jc_evalHubInstanceName cfg)) m) else m)
      in if jc_queueKind cfg = ''kueue'' \<and> jc_queueName cfg \<noteq> ''''
         then
           let m = gomap_put ''kueue.x-k8s.io/queue-name'' (jc_queueName cfg) m
           in if jc_priorityClassName cfg \<noteq> ''''
              then gomap_put ''kueue.x-k8s.io/priority-class'' (sanitizeLabelValue (jc_priorityClassName cfg)) m else m
         else m)"

definition jobAnnotations :: "string \<Rightarrow> string \<Rightarrow> string \<Rightarrow> string gomap" where
  "jobAnnotations jobID providerID benchmarkID =
     [(''eval-hub.github.io/job_id'', jobID), (''eval-hub.github.io/provider_id'', providerID),
      (''eval-hub.github.io/benchmark_id'', benchmarkID)]"

section \<open>Lemmas\<close>

subsection \<open>Accelerators and queues\<close>

definition accelerators_ok :: "jobConfig \<Rightarrow> bool" where
  "accelerators_ok cfg \<longleftrightarrow>
     (jc_draResourceClaimTemplate cfg \<noteq> '''' \<longrightarrow>
        jc_gpuCount cfg \<le> 0 \<and> jc_draClaimName cfg \<noteq> '''' \<and> jc_nodeSelector cfg = [])"

definition queue_ok :: "jobConfig \<Rightarrow> bool" where
  "queue_ok cfg \<longleftrightarrow>
     (jc_queueName cfg \<noteq> '''' \<longrightarrow> jc_queueKind cfg \<noteq> '''' \<and> jc_nodeSelector cfg = [] \<and> jc_tolerations cfg = [])"

text \<open>The queue of a source, and the first source that names one.\<close>

definition profile_queue :: "hardwareProfileResources option \<Rightarrow> string" where
  "profile_queue p = (case p of None \<Rightarrow> '''' | Some r \<Rightarrow> if hr_schedulingType r = ''Queue'' then hr_queueName r else '''')"

definition queue_name :: "QueueConfig option \<Rightarrow> string" where
  "queue_name q = (case q of None \<Rightarrow> '''' | Some c \<Rightarrow> TrimSpace (q_Name c))"

definition direct_queue :: "BenchmarkHardwareConfig option \<Rightarrow> string" where
  "direct_queue hw =
     (case hw of None \<Rightarrow> '''' | Some h \<Rightarrow> if TrimSpace (hw_HardwareProfileName h) \<noteq> '''' then '''' else queue_name (hw_Queue h))"

definition chosen_queue ::
  "hardwareProfileResources option \<Rightarrow> BenchmarkHardwareConfig option \<Rightarrow> QueueConfig option \<Rightarrow> string" where
  "chosen_queue profile hw queue = or_old (profile_queue profile) (or_old (direct_queue hw) (queue_name queue))"

lemma applyQueueIfUnset_queue:
  "jc_queueName (applyQueueIfUnset q cfg) = or_old (jc_queueName cfg) (queue_name q)"
  by (auto simp: applyQueueIfUnset_def or_old_def queue_name_def Let_def split: option.splits)

lemma applyQueueIfUnset_ok: "queue_ok cfg \<Longrightarrow> queue_ok (applyQueueIfUnset q cfg)"
  by (auto simp: applyQueueIfUnset_def queue_ok_def Let_def split: option.splits)

lemma applyHardwareProfileResources_queue:
  "jc_queueName cfg = '''' \<Longrightarrow>
   queue_ok (applyHardwareProfileResources p cfg) \<and> jc_queueName (applyHardwareProfileResources p cfg) = profile_queue p"
  by (auto simp: applyHardwareProfileResources_def profile_scheduling_def queue_ok_def profile_queue_def split: option.splits)

lemma direct_gpu_queue:
  "direct_gpu g cfg = Inr cfg' \<Longrightarrow>
   jc_queueName cfg' = jc_queueName cfg \<and> jc_queueKind cfg' = jc_queueKind cfg \<and>
   jc_nodeSelector cfg' = jc_nodeSelector cfg \<and> jc_tolerations cfg' = jc_tolerations cfg"
  by (auto simp: direct_gpu_def Let_def split: option.splits if_splits)

lemma direct_dra_queue [simp]:
  "jc_queueName (direct_dra d cfg) = jc_queueName cfg" "jc_queueKind (direct_dra d cfg) = jc_queueKind cfg"
  "jc_nodeSelector (direct_dra d cfg) = jc_nodeSelector cfg" "jc_tolerations (direct_dra d cfg) = jc_tolerations cfg"
  by (auto simp: direct_dra_def Let_def split: option.splits)

lemma queue_ok_cong:
  "jc_queueName a = jc_queueName b \<Longrightarrow> jc_queueKind a = jc_queueKind b \<Longrightarrow> jc_nodeSelector a = jc_nodeSelector b \<Longrightarrow>
   jc_tolerations a = jc_tolerations b \<Longrightarrow> queue_ok a = queue_ok b"
  by (simp add: queue_ok_def)

lemma applyDirectHardwareConfig_queue:
  assumes "applyDirectHardwareConfig env hw cfg = Inr cfg'" "queue_ok cfg"
  shows "queue_ok cfg' \<and> jc_queueName cfg' = or_old (jc_queueName cfg) (direct_queue hw)"
proof (cases hw)
  case None
  then show ?thesis using assms by (simp add: applyDirectHardwareConfig_def direct_queue_def or_old_def)
next
  case (Some h)
  show ?thesis
  proof (cases "TrimSpace (hw_HardwareProfileName h) = ''''")
    case True
    then obtain cpu mem cfg1 where g: "direct_gpu (hw_GPU h)
         (cfg\<lparr>jc_cpuRequest := fst cpu, jc_cpuLimit := snd cpu, jc_memoryRequest := fst mem, jc_memoryLimit := snd mem\<rparr>) = Inr cfg1"
      and r: "cfg' = applyQueueIfUnset (hw_Queue h) (direct_dra (hw_DRA h) cfg1)"
      using assms(1) Some by (auto simp: applyDirectHardwareConfig_def ebind_Inr_iff)
    have "queue_ok (direct_dra (hw_DRA h) cfg1)"
      using direct_gpu_queue[OF g] assms(2) by (simp add: queue_ok_def)
    then show ?thesis
      using direct_gpu_queue[OF g] Some True
      by (simp add: r applyQueueIfUnset_ok applyQueueIfUnset_queue direct_queue_def)
  next
    case False
    then show ?thesis using assms Some by (simp add: applyDirectHardwareConfig_def direct_queue_def or_old_def)
  qed
qed

lemma finalizeAcceleratorConfig_ok:
  "finalizeAcceleratorConfig cfg = Inr cfg' \<Longrightarrow>
   accelerators_ok cfg' \<and> (queue_ok cfg \<longrightarrow> queue_ok cfg') \<and> jc_queueName cfg' = jc_queueName cfg"
  by (auto simp: finalizeAcceleratorConfig_def accelerators_ok_def queue_ok_def defaultIfEmpty_def split: if_splits)

lemma resolve_hardware_ok:
  assumes "resolve_hardware env profile hw queue cfg = Inr cfg'" "jc_queueName cfg = ''''"
  shows "accelerators_ok cfg' \<and> queue_ok cfg' \<and> jc_queueName cfg' = chosen_queue profile hw queue"
proof -
  from assms(1) obtain cfg1 where
    d: "applyDirectHardwareConfig env hw (applyHardwareProfileResources profile cfg) = Inr cfg1" and
    f: "finalizeAcceleratorConfig (applyQueueIfUnset queue cfg1) = Inr cfg'"
    by (auto simp: resolve_hardware_def ebind_Inr_iff)
  note p = applyHardwareProfileResources_queue[OF assms(2), of profile]
  note q = applyDirectHardwareConfig_queue[OF d conjunct1[OF p]]
  show ?thesis
    using finalizeAcceleratorConfig_ok[OF f] q p applyQueueIfUnset_ok[of cfg1 queue]
    by (auto simp: applyQueueIfUnset_queue chosen_queue_def or_old_def)
qed

lemma base_config_queue [simp]:
  "jc_queueName (base_config env evaluation model provider k8s bench i guid baseURL spec sidecar pvcs) = ''''"
  by (simp add: base_config_def Let_def split: prod.splits)

text \<open>A configuration that is built comes from the base configuration by resolving the hardware.\<close>

lemma buildJobConfig_resolved:
  assumes "buildJobConfig env evaluation provider bench i sc profile guid = Some (Inr cfg)"
  obtains model k8s spec sidecar pvcs where
    "ec_Model (ej_Config evaluation) = Some model" "kr_Image k8s \<noteq> ''''"
    "Option.bind (pv_Runtime (pr_Config provider)) rt_K8s = Some k8s"
    "BuildJobSpec (ke_wild_int env) evaluation (r_ID (pr_Resource provider)) (Some bench) i
       (Some (sidecarBaseURL sc)) (Some provider) = Inr spec"
    "postProcessorPVCConfigs env evaluation = Inr pvcs"
    "resolve_hardware env profile (EffectiveHardwareConfig (Some bench) (Some (ej_Config evaluation)))
       (ec_Queue (ej_Config evaluation))
       (base_config env evaluation model provider k8s bench i guid (sidecarBaseURL sc) spec sidecar pvcs) = Inr cfg"
  using assms
  by (auto simp: buildJobConfig_def ebind_Inr_iff Let_def split: option.splits if_splits)

subsection \<open>What resolving the hardware keeps\<close>

definition identity_of :: "jobConfig \<Rightarrow> string \<times> string \<times> string \<times> string \<times> string \<times> int" where
  "identity_of cfg =
     (jc_jobID cfg, jc_resourceGUID cfg, jc_namespace cfg, jc_providerID cfg, jc_benchmarkID cfg, jc_benchmarkIndex cfg)"

text \<open>Everything but the hardware fields.\<close>

definition rest_of :: "jobConfig \<Rightarrow> jobConfig" where
  "rest_of cfg =
     cfg\<lparr>jc_cpuRequest := '''', jc_memoryRequest := '''', jc_cpuLimit := '''', jc_memoryLimit := '''', jc_gpuResource := '''',
         jc_gpuCount := 0, jc_draResourceClaimTemplate := '''', jc_draClaimName := '''', jc_nodeSelector := [],
         jc_tolerations := [], jc_priorityClassName := '''', jc_queueKind := '''', jc_queueName := ''''\<rparr>"

lemma rest_of_steps:
  "rest_of (applyHardwareProfileResources p cfg) = rest_of cfg" "rest_of (applyQueueIfUnset q cfg) = rest_of cfg"
  "rest_of (direct_dra d cfg) = rest_of cfg" "direct_gpu g cfg = Inr cfg' \<Longrightarrow> rest_of cfg' = rest_of cfg"
  "finalizeAcceleratorConfig cfg = Inr cfg' \<Longrightarrow> rest_of cfg' = rest_of cfg"
  by (auto simp: applyHardwareProfileResources_def profile_scheduling_def applyQueueIfUnset_def direct_dra_def direct_gpu_def
      finalizeAcceleratorConfig_def rest_of_def Let_def split: option.splits if_splits)

lemma rest_of_direct: "applyDirectHardwareConfig env hw cfg = Inr cfg' \<Longrightarrow> rest_of cfg' = rest_of cfg"
  by (auto simp: applyDirectHardwareConfig_def ebind_Inr_iff rest_of_steps(2,3) dest!: rest_of_steps(4)
      split: option.splits if_splits) (auto simp: rest_of_def)

lemma rest_of_resolve_hardware:
  assumes "resolve_hardware env profile hw queue cfg = Inr cfg'"
  shows "rest_of cfg' = rest_of cfg"
  using assms by (auto simp: resolve_hardware_def ebind_Inr_iff rest_of_steps dest!: rest_of_direct rest_of_steps(5))

lemma rest_of_fields:
  assumes "rest_of a = rest_of b"
  shows "identity_of a = identity_of b" "jc_jobSpec a = jc_jobSpec b" "jc_modelAuthSecretRef a = jc_modelAuthSecretRef b"
    "jc_postProcessorPVCs a = jc_postProcessorPVCs b" "jc_adapterImage a = jc_adapterImage b"
    "jc_testDataS3 a = jc_testDataS3 b" "jc_testDataPVC a = jc_testDataPVC b" "jc_testDataGit a = jc_testDataGit b"
    "jc_testDataHF a = jc_testDataHF b" "jc_modelTargetURL a = jc_modelTargetURL b" "jc_sidecarBaseURL a = jc_sidecarBaseURL b"
    "jc_modelInternalRefSecretName a = jc_modelInternalRefSecretName b"
  using assms by (cases a; cases b; simp add: rest_of_def identity_of_def)+

end
