(* ===== verification/K8s_Builders.thy ===== *)
theory K8s_Builders
  imports K8s_Config
begin

text \<open>
  The Kubernetes objects of one execution: environment and resources of the adapter
  (runtimes/k8s/job_env_resources.go), volumes and mounts (job_volumes.go), the configuration of the
  sidecar (sidecar_config_json.go), the ConfigMap and the Job (job_builders.go), the NetworkPolicy
  (network_policy.go) and the data of the reference secret (secret_builder.go).

  JSON encoding and the label check of package validation are arguments.
\<close>

record k8s_codecs =
  kj_JobSpec :: "JobSpec \<Rightarrow> string + string"
  kj_SidecarConfig :: "SidecarConfig \<Rightarrow> string + string"
  kj_StringMap :: "string gomap \<Rightarrow> string"
  kj_IsValidLabelValue :: "string \<Rightarrow> string list"

section \<open>Environment and resources of the adapter\<close>

definition buildContainerCommand :: "string list \<Rightarrow> string list" where
  "buildContainerCommand entrypoint = filter (\<lambda>s. s \<noteq> '''') (map TrimSpace entrypoint)"

definition defaultSecurityContext :: SecurityContext where
  "defaultSecurityContext =
     \<lparr>sx_AllowPrivilegeEscalation = boolPtr False, sx_RunAsNonRoot = boolPtr True, sx_Drop = [''ALL''],
      sx_SeccompProfile = ''RuntimeDefault''\<rparr>"

definition serviceCAMountPath :: string where "serviceCAMountPath = ''/etc/pki/ca-trust/source/anchors''"
definition mlflowCABundleMountPath :: string where "mlflowCABundleMountPath = ''/etc/evalhub/mlflow-ca''"
definition ociAuthMountPath :: string where "ociAuthMountPath = ''/etc/evalhub/.docker/config.json''"
definition modelAuthMountPath :: string where "modelAuthMountPath = ''/var/run/secrets/model''"
definition k8sSAMountPath :: string where "k8sSAMountPath = ''/var/run/secrets/kubernetes.io/serviceaccount''"
definition mlflowAuthMountPath :: string where "mlflowAuthMountPath = ''/var/run/secrets/mlflow''"
definition testDataMountPath :: string where "testDataMountPath = ''/test_data''"
definition testDataInitMountPath :: string where "testDataInitMountPath = ''/var/run/secrets/test-data''"
definition initMetadataMountPath :: string where "initMetadataMountPath = ''/run/init-metadata''"

definition mlflowCACertPathForJob :: "jobConfig \<Rightarrow> Config option \<Rightarrow> string" where
  "mlflowCACertPathForJob jc cfg =
     (if jc_mlflowCABundleConfigMap jc \<noteq> '''' then mlflowCABundleMountPath @ ''/ca-bundle.crt''
      else
        let configured = (case Option.bind cfg cf_MLFlow of None \<Rightarrow> '''' | Some m \<Rightarrow> mf_CACertPath m)
        in if configured \<noteq> '''' then configured
           else if jc_serviceCAConfigMap jc \<noteq> '''' then serviceCAMountPath @ ''/service-ca.crt''
           else '''')"

definition otelEndpointForAdapter :: "Config option \<Rightarrow> string" where
  "otelEndpointForAdapter serviceConfig =
     (case Option.bind serviceConfig cf_OTEL of
        None \<Rightarrow> ''''
      | Some ot \<Rightarrow>
          if \<not> ot_Enabled ot then ''''
          else
            let ep = TrimSpace (ot_ExporterEndpoint ot)
            in if ep = '''' then ''''
               else if HasPrefix (ToLower ep) ''http://'' \<or> HasPrefix (ToLower ep) ''https://'' then ep
               else if ot_ExporterInsecure ot then ''http://'' @ ep else ''https://'' @ ep)"

definition env_var :: "string \<Rightarrow> string \<Rightarrow> EnvVar" where
  "env_var n v = \<lparr>ev_Name = n, ev_Value = v\<rparr>"

text \<open>The variables the service sets itself, in order.\<close>

definition service_env :: "k8s_codecs \<Rightarrow> jobConfig \<Rightarrow> Config option \<Rightarrow> EnvVar list" where
  "service_env js jc serviceConfig =
     [env_var ''EVALHUB_MODE'' ''k8s''] @
     (if jc_mlflowTrackingURI jc \<noteq> '''' then [env_var ''MLFLOW_TRACKING_URI'' (jc_sidecarBaseURL jc)] else []) @
     (if jc_mlflowWorkspace jc \<noteq> '''' then [env_var ''MLFLOW_WORKSPACE'' (jc_mlflowWorkspace jc)] else []) @
     (if jc_ociCredentialsSecret jc \<noteq> '''' then [env_var ''OCI_AUTH_CONFIG_PATH'' ociAuthMountPath] else []) @
     (if jc_postProcessorPVCs jc \<noteq> []
      then [env_var ''EVALHUB_POST_PROCESSOR_PVC_MOUNTS''
              (kj_StringMap js (fold (\<lambda>pvc. gomap_put (xp_claimName pvc) (xp_mountPath pvc)) (jc_postProcessorPVCs jc) []))]
      else []) @
     (if jc_mlflowTrackingURI jc \<noteq> '''' \<and> mlflowCACertPathForJob jc serviceConfig \<noteq> ''''
      then [env_var ''MLFLOW_TRACKING_SERVER_CERT_PATH'' (mlflowCACertPathForJob jc serviceConfig)] else [])"

text \<open>Appending a variable unless its name has been seen, which is the case when it is in the list.\<close>

definition add_env :: "EnvVar \<Rightarrow> EnvVar list \<Rightarrow> EnvVar list" where
  "add_env item env = (if ev_Name item \<in> ev_Name ` set env then env else env @ [item])"

definition add_provider_env :: "EnvVar \<Rightarrow> EnvVar list \<Rightarrow> EnvVar list" where
  "add_provider_env item env = (if ev_Name item = '''' then env else add_env item env)"

definition buildEnvVars :: "k8s_codecs \<Rightarrow> jobConfig \<Rightarrow> Config option \<Rightarrow> EnvVar list" where
  "buildEnvVars js jc serviceConfig =
     (let env = fold add_provider_env (jc_defaultEnv jc) (service_env js jc serviceConfig);
          otelEndpoint = otelEndpointForAdapter serviceConfig
      in if otelEndpoint \<noteq> ''''
         then add_env (env_var ''OTEL_SERVICE_NAME'' ''evalhub-adapter'')
                (add_env (env_var ''OTEL_EXPORTER_OTLP_ENDPOINT'' otelEndpoint) env)
         else env)"

definition buildResources :: "k8s_env \<Rightarrow> jobConfig \<Rightarrow> string + PodResources" where
  "buildResources env cfg =
     ebind (put_quantity env ''parse cpu request'' ''cpu'' (jc_cpuRequest cfg) []) (\<lambda>requests.
     ebind (put_quantity env ''parse memory request'' ''memory'' (jc_memoryRequest cfg) requests) (\<lambda>requests.
     ebind (put_quantity env ''parse cpu limit'' ''cpu'' (jc_cpuLimit cfg) []) (\<lambda>limits.
     ebind (put_quantity env ''parse memory limit'' ''memory'' (jc_memoryLimit cfg) limits) (\<lambda>limits.
     ebind (if jc_gpuCount cfg > 0 \<and> jc_gpuResource cfg \<noteq> ''''
            then (case ke_ParseQuantity env (Itoa (jc_gpuCount cfg)) of
                    Inl e \<Rightarrow> Inl (''parse gpu count: '' @ e)
                  | Inr q \<Rightarrow> Inr (gomap_put (jc_gpuResource cfg) q requests, gomap_put (jc_gpuResource cfg) q limits))
            else Inr (requests, limits)) (\<lambda>r.
       Inr \<lparr>pq_Requests = fst r, pq_Limits = snd r,
            pq_Claims = (if jc_draResourceClaimTemplate cfg \<noteq> '''' then [jc_draClaimName cfg] else [])\<rparr>)))))"

definition buildResourceClaims :: "jobConfig \<Rightarrow> PodResourceClaim list" where
  "buildResourceClaims cfg =
     (if jc_draResourceClaimTemplate cfg = '''' then []
      else [\<lparr>pl_Name = jc_draClaimName cfg, pl_ResourceClaimTemplateName = Some (jc_draResourceClaimTemplate cfg)\<rparr>])"

section \<open>Test data\<close>

definition TrimPrefix :: "string \<Rightarrow> string \<Rightarrow> string" where
  "TrimPrefix s p = (if HasPrefix s p then drop (length p) s else s)"

definition normalizeS3Key :: "string \<Rightarrow> string" where
  "normalizeS3Key key = TrimPrefix (TrimSpace key) ''/''"

definition hasS3TestData :: "jobConfig \<Rightarrow> bool" where
  "hasS3TestData cfg \<longleftrightarrow>
     \<not> (ts_secretRef (jc_testDataS3 cfg) = '''' \<or> ts_bucket (jc_testDataS3 cfg) = '''') \<and>
     normalizeS3Key (ts_key (jc_testDataS3 cfg)) \<noteq> ''''"

definition hasPVCTestData :: "jobConfig \<Rightarrow> bool" where
  "hasPVCTestData cfg \<longleftrightarrow> tp_claimName (jc_testDataPVC cfg) \<noteq> ''''"

definition hasGitTestData :: "jobConfig \<Rightarrow> bool" where
  "hasGitTestData cfg \<longleftrightarrow> tg_url (jc_testDataGit cfg) \<noteq> '''' \<and> tg_ref (jc_testDataGit cfg) \<noteq> ''''"

definition hasHFTestData :: "jobConfig \<Rightarrow> bool" where
  "hasHFTestData cfg \<longleftrightarrow> TrimSpace (th_repoID (jc_testDataHF cfg)) \<noteq> ''''"

section \<open>Volumes\<close>

fun merge_volumes :: "string list \<Rightarrow> Volume list \<Rightarrow> Volume list" where
  "merge_volumes seen [] = []"
| "merge_volumes seen (v # vs) =
     (if vo_Name v \<in> set seen then merge_volumes seen vs else v # merge_volumes (vo_Name v # seen) vs)"

definition mergeVolumesByName :: "Volume list list \<Rightarrow> Volume list" where
  "mergeVolumesByName slices = merge_volumes [] (concat slices)"

definition volume :: "string \<Rightarrow> VolumeSource \<Rightarrow> Volume" where
  "volume n s = \<lparr>vo_Name = n, vo_Source = s\<rparr>"

definition mount :: "string \<Rightarrow> string \<Rightarrow> string \<Rightarrow> bool \<Rightarrow> VolumeMount" where
  "mount n path sub ro = \<lparr>vm_Name = n, vm_MountPath = path, vm_SubPath = sub, vm_ReadOnly = ro\<rparr>"

definition ensure_volume :: "string \<Rightarrow> VolumeSource \<Rightarrow> Volume list \<Rightarrow> Volume list" where
  "ensure_volume n src volumes = (if n \<in> vo_Name ` set volumes then volumes else volumes @ [volume n src])"

definition ensure_mount :: "string \<Rightarrow> string \<Rightarrow> VolumeMount list \<Rightarrow> VolumeMount list" where
  "ensure_mount n path mounts = (if n \<in> vm_Name ` set mounts then mounts else mounts @ [mount n path '''' True])"

definition ensureServiceCAVolume :: "string \<Rightarrow> Volume list \<Rightarrow> Volume list" where
  "ensureServiceCAVolume configMap = ensure_volume ''evalhub-service-ca'' (ConfigMapSource configMap)"

definition ensureServiceCAMount :: "VolumeMount list \<Rightarrow> VolumeMount list" where
  "ensureServiceCAMount = ensure_mount ''evalhub-service-ca'' serviceCAMountPath"

definition ensureMLFlowCABundleVolume :: "string \<Rightarrow> Volume list \<Rightarrow> Volume list" where
  "ensureMLFlowCABundleVolume configMap = ensure_volume ''mlflow-ca-bundle'' (ConfigMapSource configMap)"

definition ensureMLFlowCABundleMount :: "VolumeMount list \<Rightarrow> VolumeMount list" where
  "ensureMLFlowCABundleMount = ensure_mount ''mlflow-ca-bundle'' mlflowCABundleMountPath"

definition testDataEmptyDirVolumeSource :: "k8s_env \<Rightarrow> VolumeSource" where
  "testDataEmptyDirVolumeSource env = EmptyDirSource (Some (quantity_or_zero env ''5Gi''))"

text \<open>The CA volumes, which the adapter and the sidecar mount alike.\<close>

definition with_CAs :: "jobConfig \<Rightarrow> Volume list \<times> VolumeMount list \<Rightarrow> Volume list \<times> VolumeMount list" where
  "with_CAs cfg vm =
     (let vm = (if jc_serviceCAConfigMap cfg \<noteq> ''''
                then (ensureServiceCAVolume (jc_serviceCAConfigMap cfg) (fst vm), ensureServiceCAMount (snd vm)) else vm)
      in if jc_mlflowCABundleConfigMap cfg \<noteq> '''' \<and> jc_mlflowTrackingURI cfg \<noteq> ''''
         then (ensureMLFlowCABundleVolume (jc_mlflowCABundleConfigMap cfg) (fst vm), ensureMLFlowCABundleMount (snd vm))
         else vm)"

definition oci_volumes :: "jobConfig \<Rightarrow> Volume list" where
  "oci_volumes cfg =
     (if jc_ociCredentialsSecret cfg \<noteq> '''' then [volume ''oci-credentials'' (SecretSource (jc_ociCredentialsSecret cfg))] else [])"

definition oci_mounts :: "jobConfig \<Rightarrow> VolumeMount list" where
  "oci_mounts cfg =
     (if jc_ociCredentialsSecret cfg \<noteq> '''' then [mount ''oci-credentials'' ociAuthMountPath ''.dockerconfigjson'' True] else [])"

text \<open>The part of the model secret the adapter sees: two keys, and the references in front of them.\<close>

definition model_auth_sources :: "jobConfig \<Rightarrow> VolumeProjection list" where
  "model_auth_sources cfg =
     (if jc_modelInternalRefSecretName cfg \<noteq> '''' then [SecretProjection (jc_modelInternalRefSecretName cfg) [] None] else []) @
     [SecretProjection (jc_modelAuthSecretRef cfg)
        [\<lparr>kp_Key = ''hf-token'', kp_Path = ''hf-token''\<rparr>, \<lparr>kp_Key = ''ca_cert'', kp_Path = ''ca_cert''\<rparr>] (Some True)]"

definition buildRuntimeContainerVolumesAndMounts :: "string \<Rightarrow> jobConfig \<Rightarrow> Volume list \<times> VolumeMount list" where
  "buildRuntimeContainerVolumesAndMounts configMap cfg =
     (let base = with_CAs cfg
            ([volume ''job-spec'' (ConfigMapSource configMap), volume ''data'' (EmptyDirSource None),
              volume ''termination-file-volume'' (EmptyDirSource None),
              volume ''pod-namespace'' (ProjectedSource [DownwardAPIProjection [(''namespace'', ''metadata.namespace'')]])],
             [mount ''job-spec'' ''/meta/job.json'' ''job.json'' True, mount ''data'' ''/data'' '''' False,
              mount ''termination-file-volume'' ''/shared'' '''' False, mount ''pod-namespace'' k8sSAMountPath '''' True])
      in (fst base @ oci_volumes cfg @
          (if jc_modelAuthSecretRef cfg \<noteq> '''' then [volume ''model-auth-internal'' (ProjectedSource (model_auth_sources cfg))] else []) @
          (if hasPVCTestData cfg
           then [volume ''test-data'' (PersistentVolumeClaimSource (tp_claimName (jc_testDataPVC cfg)) True)] else []) @
          map (\<lambda>pvc. volume (xp_volumeName pvc) (PersistentVolumeClaimSource (xp_claimName pvc) True)) (jc_postProcessorPVCs cfg),
          snd base @ oci_mounts cfg @
          (if jc_modelAuthSecretRef cfg \<noteq> '''' then [mount ''model-auth-internal'' modelAuthMountPath '''' True] else []) @
          (if hasS3TestData cfg \<or> hasGitTestData cfg \<or> hasHFTestData cfg
           then [mount ''test-data'' testDataMountPath '''' True] else []) @
          (if hasPVCTestData cfg then [mount ''test-data'' testDataMountPath (tp_subPath (jc_testDataPVC cfg)) True] else []) @
          map (\<lambda>pvc. mount (xp_volumeName pvc) (xp_mountPath pvc) '''' True) (jc_postProcessorPVCs cfg)))"

definition buildSidecarContainerVolumesAndMounts :: "string \<Rightarrow> jobConfig \<Rightarrow> Volume list \<times> VolumeMount list" where
  "buildSidecarContainerVolumesAndMounts configMap cfg =
     (let base = with_CAs cfg
            ([volume ''job-spec'' (ConfigMapSource configMap), volume ''data'' (EmptyDirSource None),
              volume ''termination-file-volume'' (EmptyDirSource None)],
             [mount ''job-spec'' ''/meta/job.json'' ''job.json'' True,
              mount ''job-spec'' ''/meta/sidecar_config.json'' ''sidecar_config.json'' True,
              mount ''data'' ''/data'' '''' False, mount ''termination-file-volume'' ''/shared'' '''' False])
      in (fst base @
          [volume ''evalhub-sa-token'' (ProjectedSource [ServiceAccountTokenProjection ''token'' 3600])] @
          (if jc_mlflowTrackingURI cfg \<noteq> ''''
           then [volume ''mlflow-token'' (ProjectedSource [ServiceAccountTokenProjection ''token'' 3600])] else []) @
          (if jc_modelAuthSecretRef cfg \<noteq> '''' then [volume ''model-auth'' (SecretSource (jc_modelAuthSecretRef cfg))] else []) @
          oci_volumes cfg,
          snd base @
          [mount ''evalhub-sa-token'' k8sSAMountPath '''' True] @
          (if jc_mlflowTrackingURI cfg \<noteq> '''' then [mount ''mlflow-token'' mlflowAuthMountPath '''' True] else []) @
          (if jc_modelAuthSecretRef cfg \<noteq> '''' then [mount ''model-auth'' modelAuthMountPath '''' True] else []) @
          (if hasGitTestData cfg \<or> hasHFTestData cfg
           then [mount ''init-metadata'' initMetadataMountPath '''' True] else []) @
          oci_mounts cfg))"

section \<open>The init container\<close>

text \<open>resource.MustParse is only called on constants that parse.\<close>

definition initResources :: "k8s_env \<Rightarrow> PodResources" where
  "initResources env =
     \<lparr>pq_Requests = [(''cpu'', quantity_or_zero env ''100m''), (''memory'', quantity_or_zero env ''128Mi'')],
      pq_Limits = [(''cpu'', quantity_or_zero env ''500m''), (''memory'', quantity_or_zero env ''512Mi'')], pq_Claims = []\<rparr>"

definition init_container :: "k8s_env \<Rightarrow> jobConfig \<Rightarrow> EnvVar list \<Rightarrow> VolumeMount list \<Rightarrow> Container" where
  "init_container env cfg envVars mounts =
     \<lparr>ct_Name = ''init'', ct_Image = jc_testDataInitImage cfg, ct_ImagePullPolicy = PullIfNotPresent,
      ct_Command = [''/app/eval-runtime-init''], ct_Env = envVars, ct_Resources = initResources env,
      ct_SecurityContext = defaultSecurityContext, ct_VolumeMounts = mounts, ct_RestartPolicy = None,
      ct_StartupProbe = None, ct_TerminationMessagePath = ''''\<rparr>"

definition opt_env :: "string \<Rightarrow> string \<Rightarrow> EnvVar list" where
  "opt_env n v = (if v \<noteq> '''' then [env_var n v] else [])"

definition s3_init :: "k8s_env \<Rightarrow> jobConfig \<Rightarrow> Container list \<times> Volume list" where
  "s3_init env cfg =
     ([init_container env cfg
         [env_var ''TEST_DATA_S3_BUCKET'' (ts_bucket (jc_testDataS3 cfg)),
          env_var ''TEST_DATA_S3_KEY'' (normalizeS3Key (ts_key (jc_testDataS3 cfg)))]
         [mount ''test-data'' testDataMountPath '''' False, mount ''test-data-secret'' testDataInitMountPath '''' True]],
      [volume ''test-data'' (testDataEmptyDirVolumeSource env),
       volume ''test-data-secret'' (SecretSource (ts_secretRef (jc_testDataS3 cfg)))])"

definition git_init :: "k8s_env \<Rightarrow> jobConfig \<Rightarrow> Container list \<times> Volume list" where
  "git_init env cfg =
     (let git = jc_testDataGit cfg; auth = tg_secretRef git \<noteq> ''''
      in ([init_container env cfg
             ([env_var ''TEST_DATA_GIT_URL'' (tg_url git), env_var ''TEST_DATA_GIT_REF'' (tg_ref git)] @
              opt_env ''TEST_DATA_GIT_SUBPATH'' (tg_subPath git))
             ([mount ''test-data'' testDataMountPath '''' False, mount ''init-metadata'' initMetadataMountPath '''' False] @
              (if auth then [mount ''test-data-git-auth'' testDataInitMountPath '''' True] else []))],
          [volume ''test-data'' (testDataEmptyDirVolumeSource env), volume ''init-metadata'' (EmptyDirSource None)] @
          (if auth then [volume ''test-data-git-auth'' (SecretSource (tg_secretRef git))] else [])))"

definition hf_init :: "k8s_env \<Rightarrow> jobConfig \<Rightarrow> Container list \<times> Volume list" where
  "hf_init env cfg =
     (let hf = jc_testDataHF cfg; auth = th_secretRef hf \<noteq> ''''
      in ([init_container env cfg
             ([env_var ''TEST_DATA_HF_REPO_ID'' (th_repoID hf)] @ opt_env ''TEST_DATA_HF_REVISION'' (th_revision hf) @
              opt_env ''TEST_DATA_HF_SUBPATH'' (th_subPath hf))
             ([mount ''test-data'' testDataMountPath '''' False, mount ''init-metadata'' initMetadataMountPath '''' False] @
              (if auth then [mount ''test-data-hf-auth'' testDataInitMountPath '''' True] else []))],
          [volume ''test-data'' (testDataEmptyDirVolumeSource env), volume ''init-metadata'' (EmptyDirSource None)] @
          (if auth then [volume ''test-data-hf-auth'' (SecretSource (th_secretRef hf))] else [])))"

text \<open>One block of the function: nothing without the data source, an error without an image.\<close>

definition init_step :: "bool \<Rightarrow> string \<Rightarrow> jobConfig \<Rightarrow> Container list \<times> Volume list \<Rightarrow> string + Container list \<times> Volume list" where
  "init_step has what cfg pieces =
     (if \<not> has then Inr ([], [])
      else if jc_testDataInitImage cfg = ''''
      then Inl (''init image is required when '' @ what @ '' test data is configured'')
      else Inr pieces)"

definition initContainerVolumesAndMounts :: "k8s_env \<Rightarrow> jobConfig \<Rightarrow> string + Container list \<times> Volume list" where
  "initContainerVolumesAndMounts env cfg =
     ebind (init_step (hasS3TestData cfg) ''S3'' cfg (s3_init env cfg)) (\<lambda>s3.
     ebind (init_step (hasGitTestData cfg) ''git'' cfg (git_init env cfg)) (\<lambda>git.
     ebind (init_step (hasHFTestData cfg) ''Hugging Face'' cfg (hf_init env cfg)) (\<lambda>hf.
       Inr (fst s3 @ fst git @ fst hf, snd s3 @ snd git @ snd hf))))"

section \<open>The configuration of the sidecar\<close>

definition otelConfigForJobPod :: "Config option \<Rightarrow> OTELConfig option" where
  "otelConfigForJobPod cfg =
     (case Option.bind cfg cf_OTEL of
        None \<Rightarrow> None
      | Some ot \<Rightarrow>
          if \<not> ot_Enabled ot then None
          else Some (ot\<lparr>ot_ServiceName := defaultIfEmpty (ot_ServiceName ot) ''github.com/eval-hub/eval-runtime-sidecar''\<rparr>))"

definition empty_sidecar :: SidecarConfig where
  "empty_sidecar =
     \<lparr>sd_LocalMode = False, sd_Local = None, sd_BaseURL = '''', sd_Port = 0, sd_EvalHub = None, sd_MLFlow = None,
      sd_OCI = None, sd_Model = None, sd_InitContainer = None, sd_SidecarContainer = None, sd_OTEL = None\<rparr>"

definition cloneSidecarConfig :: "SidecarConfig \<Rightarrow> SidecarConfig" where
  "cloneSidecarConfig sc =
     empty_sidecar\<lparr>sd_LocalMode := sd_LocalMode sc, sd_BaseURL := sd_BaseURL sc, sd_Port := sd_Port sc,
       sd_EvalHub := sd_EvalHub sc, sd_MLFlow := sd_MLFlow sc, sd_OCI := sd_OCI sc, sd_Model := sd_Model sc,
       sd_InitContainer := sd_InitContainer sc, sd_OTEL := sd_OTEL sc\<rparr>"

definition sidecar_evalhub :: "jobConfig \<Rightarrow> EvalHubClientConfig option \<Rightarrow> EvalHubClientConfig option" where
  "sidecar_evalhub jc eh0 =
     (if jc_evalHubURL jc = '''' then eh0
      else
        let eh = (case eh0 of
                    Some e \<Rightarrow> e
                  | None \<Rightarrow> \<lparr>eh_BaseURL = '''', eh_HTTPTimeout = 0, eh_CACertPath = '''', eh_InsecureSkipVerify = False,
                             eh_Token = '''', eh_TokenCacheTimeout = 0\<rparr>);
            eh = eh\<lparr>eh_BaseURL := jc_evalHubURL jc\<rparr>
        in Some (if jc_serviceCAConfigMap jc \<noteq> ''''
                 then eh\<lparr>eh_CACertPath := serviceCAMountPath @ ''/service-ca.crt'', eh_InsecureSkipVerify := False\<rparr> else eh))"

definition sidecar_mlflow :: "Config option \<Rightarrow> jobConfig \<Rightarrow> SidecarMLFlowConfig option \<Rightarrow> SidecarMLFlowConfig option" where
  "sidecar_mlflow cfg jc mf0 =
     (if jc_mlflowTrackingURI jc = '''' then mf0
      else
        let mf = (case mf0 of
                    Some m \<Rightarrow> m
                  | None \<Rightarrow> \<lparr>sm_TrackingURI = '''', sm_TokenPath = '''', sm_Workspace = '''', sm_TokenCacheTimeout = 0,
                             sm_HTTPTimeout = 0, sm_CACertPath = ''''\<rparr>);
            mf = mf\<lparr>sm_TrackingURI := jc_mlflowTrackingURI jc, sm_TokenPath := mlflowAuthMountPath @ ''/token'',
                    sm_Workspace := jc_mlflowWorkspace jc\<rparr>;
            mf = (case Option.bind cfg cf_MLFlow of None \<Rightarrow> mf | Some m \<Rightarrow> mf\<lparr>sm_HTTPTimeout := mf_HTTPTimeout m\<rparr>)
        in Some (mf\<lparr>sm_CACertPath := mlflowCACertPathForJob jc cfg\<rparr>))"

definition sidecar_model :: "jobConfig \<Rightarrow> SidecarModelConfig option \<Rightarrow> SidecarModelConfig option" where
  "sidecar_model jc m0 =
     (if jc_modelTargetURL jc = '''' then m0
      else
        Some \<lparr>sl_URL = jc_modelTargetURL jc,
              sl_AuthSecretMountPath = (if jc_modelAuthSecretRef jc \<noteq> '''' then modelAuthMountPath else ''''),
              sl_HTTPTimeout = (case m0 of
                                  Some m \<Rightarrow> if sl_HTTPTimeout m > 0 then sl_HTTPTimeout m else 300 * second
                                | None \<Rightarrow> 300 * second),
              sl_InsecureSkipVerify = False\<rparr>)"

definition sidecarForJobPod :: "Config option \<Rightarrow> jobConfig \<Rightarrow> SidecarConfig option" where
  "sidecarForJobPod cfg jc =
     (if cfg \<noteq> None \<and> Option.bind cfg cf_Sidecar = None \<and> jc_evalHubURL jc = '''' \<and> jc_mlflowTrackingURI jc = '''' \<and>
         jc_modelTargetURL jc = '''' \<and> \<not> hasGitTestData jc \<and> \<not> hasHFTestData jc
      then None
      else
        let export = (case Option.bind cfg cf_Sidecar of Some sc \<Rightarrow> cloneSidecarConfig sc | None \<Rightarrow> empty_sidecar);
            export = export\<lparr>sd_BaseURL := EffectiveBaseURL export\<rparr>;
            export = export\<lparr>sd_EvalHub := sidecar_evalhub jc (sd_EvalHub export),
                            sd_InitContainer := (if hasGitTestData jc \<or> hasHFTestData jc then Some \<lparr>ic_IsGitJob = True\<rparr>
                                                 else sd_InitContainer export),
                            sd_MLFlow := sidecar_mlflow cfg jc (sd_MLFlow export),
                            sd_Model := sidecar_model jc (sd_Model export)\<rparr>
        in Some (case otelConfigForJobPod cfg of None \<Rightarrow> export | Some ot \<Rightarrow> export\<lparr>sd_OTEL := Some ot\<rparr>))"

section \<open>The ConfigMap and the Job\<close>

definition object_meta :: "string \<Rightarrow> string \<Rightarrow> string gomap \<Rightarrow> string gomap \<Rightarrow> ObjectMeta" where
  "object_meta name namespace labels annotations =
     \<lparr>om_Name = name, om_Namespace = namespace, om_UID = '''', om_Labels = labels, om_Annotations = annotations,
      om_OwnerReferences = []\<rparr>"

definition buildConfigMap :: "k8s_codecs \<Rightarrow> jobConfig \<Rightarrow> string + ConfigMap" where
  "buildConfigMap js cfg =
     (case kj_JobSpec js (jc_jobSpec cfg) of
        Inl e \<Rightarrow> Inl (''marshal job spec: '' @ e)
      | Inr specJSON \<Rightarrow>
          ebind (case jc_sidecarConfig cfg of
                   None \<Rightarrow> Inr ''{}''
                 | Some sc \<Rightarrow> (case kj_SidecarConfig js sc of
                                 Inl e \<Rightarrow> Inl (''marshal sidecar config: '' @ e) | Inr b \<Rightarrow> Inr b)) (\<lambda>sidecarJSON.
            Inr \<lparr>cm_Meta = object_meta (configMapName (jc_jobID cfg) (jc_resourceGUID cfg)) (jc_namespace cfg) (jobLabels cfg)
                             (jobAnnotations (jc_jobID cfg) (jc_providerID cfg) (jc_benchmarkID cfg)),
                 cm_Data = [(''job.json'', specJSON), (''sidecar_config.json'', sidecarJSON)]\<rparr>))"

definition probe_port :: "jobConfig \<Rightarrow> string + int" where
  "probe_port cfg =
     (case jc_sidecarConfig cfg of
        None \<Rightarrow> Inr 8080
      | Some sc \<Rightarrow>
          if sd_Port sc = 0 then Inr 8080
          else if sd_Port sc < 1 \<or> sd_Port sc > 65535
          then Inl (''sidecar port '' @ Itoa (sd_Port sc) @ '' out of range (1-65535)'')
          else Inr (sd_Port sc))"

definition adapter_container :: "k8s_codecs \<Rightarrow> jobConfig \<Rightarrow> Config option \<Rightarrow> PodResources \<Rightarrow> VolumeMount list \<Rightarrow> Container" where
  "adapter_container js cfg serviceConfig resources mounts =
     \<lparr>ct_Name = ''adapter'', ct_Image = jc_adapterImage cfg, ct_ImagePullPolicy = jc_adapterPullPolicy cfg,
      ct_Command = buildContainerCommand (jc_entrypoint cfg), ct_Env = buildEnvVars js cfg serviceConfig,
      ct_Resources = resources, ct_SecurityContext = defaultSecurityContext, ct_VolumeMounts = mounts,
      ct_RestartPolicy = None, ct_StartupProbe = None, ct_TerminationMessagePath = ''''\<rparr>"

definition sidecar_container :: "jobConfig \<Rightarrow> VolumeMount list \<Rightarrow> int \<Rightarrow> Container" where
  "sidecar_container cfg mounts port =
     \<lparr>ct_Name = ''sidecar'', ct_Image = jc_sidecarImage cfg, ct_ImagePullPolicy = PullIfNotPresent,
      ct_Command = [''/app/eval-runtime-sidecar''], ct_Env = [], ct_Resources = jc_sidecarResources cfg,
      ct_SecurityContext = defaultSecurityContext, ct_VolumeMounts = mounts, ct_RestartPolicy = Some ''Always'',
      ct_StartupProbe = Some \<lparr>pb_Path = ''/health'', pb_Port = port, pb_FailureThreshold = 30, pb_PeriodSeconds = 2\<rparr>,
      ct_TerminationMessagePath = ''/data/termination-log''\<rparr>"

definition buildJob :: "k8s_env \<Rightarrow> k8s_codecs \<Rightarrow> jobConfig \<Rightarrow> Config option \<Rightarrow> string + Job" where
  "buildJob env js cfg serviceConfig =
     (if jc_adapterImage cfg = '''' then Inl ''adapter image is required''
      else
        let labels = jobLabels cfg;
            annotations = jobAnnotations (jc_jobID cfg) (jc_providerID cfg) (jc_benchmarkID cfg);
            configMap = configMapName (jc_jobID cfg) (jc_resourceGUID cfg);
            (runtimeVolumes, runtimeMounts) = buildRuntimeContainerVolumesAndMounts configMap cfg;
            (sidecarVolumes, sidecarMounts) = buildSidecarContainerVolumesAndMounts configMap cfg
        in ebind (buildResources env cfg) (\<lambda>resources.
           ebind (initContainerVolumesAndMounts env cfg) (\<lambda>init.
           ebind (probe_port cfg) (\<lambda>port.
             Inr \<lparr>jb_Meta = object_meta (jobName (jc_jobID cfg) (jc_resourceGUID cfg)) (jc_namespace cfg) labels annotations,
                  jb_BackoffLimit = 0, jb_TTLSecondsAfterFinished = 3600, jb_TemplateLabels = labels,
                  jb_TemplateAnnotations = annotations,
                  jb_Pod =
                    \<lparr>po_RestartPolicy = ''Never'', po_NodeSelector = jc_nodeSelector cfg, po_Tolerations = jc_tolerations cfg,
                     po_PriorityClassName = jc_priorityClassName cfg, po_ResourceClaims = buildResourceClaims cfg,
                     po_InitContainers = fst init @ [sidecar_container cfg sidecarMounts port],
                     po_Containers = [adapter_container js cfg serviceConfig resources runtimeMounts],
                     po_Volumes = mergeVolumesByName [runtimeVolumes, snd init, sidecarVolumes],
                     po_ServiceAccountName = jc_serviceAccountName cfg,
                     po_AutomountServiceAccountToken = boolPtr False\<rparr>\<rparr>))))"

section \<open>The network policy\<close>

definition buildJobNetworkPolicy :: "k8s_codecs \<Rightarrow> jobConfig \<Rightarrow> string + NetworkPolicy" where
  "buildJobNetworkPolicy js cfg =
     (if jc_namespace cfg = '''' then Inl ''job namespace is required''
      else if jc_resourceGUID cfg = '''' then Inl ''job execution identity is required''
      else
        let problems = kj_IsValidLabelValue js (jc_resourceGUID cfg)
        in if problems \<noteq> [] then Inl (''job execution identity is invalid: '' @ Join problems ''; '')
           else
             let executionID = sanitizeLabelValue (jc_resourceGUID cfg)
             in Inr \<lparr>np_Meta = object_meta (buildK8sName ''evalhub'' executionID ''-netpol'') (jc_namespace cfg) (jobLabels cfg)
                                 [(''eval-hub.github.io/network-policy-egress'', ''unmanaged-by-this-policy'')],
                     np_PodSelector = [(''app'', ''evalhub''), (''component'', ''evaluation-job''),
                                       (''eval-hub.github.io/execution-id'', executionID)],
                     np_PolicyTypes = [''Ingress''], np_Ingress = []\<rparr>)"

definition jobMatchesExecution :: "Job \<Rightarrow> Job \<Rightarrow> bool" where
  "jobMatchesExecution job expected =
     (let key = ''eval-hub.github.io/execution-id''; executionID = gomap_lookup (jb_TemplateLabels expected) key
      in om_Namespace (jb_Meta job) = om_Namespace (jb_Meta expected) \<and> om_Name (jb_Meta job) = om_Name (jb_Meta expected) \<and>
         executionID \<noteq> '''' \<and> gomap_lookup (om_Labels (jb_Meta job)) key = executionID \<and>
         gomap_lookup (jb_TemplateLabels job) key = executionID)"

section \<open>Model credentials\<close>

definition isModelCredentialKey :: "string \<Rightarrow> bool" where
  "isModelCredentialKey k \<longleftrightarrow>
     k = ''api-key'' \<or> HasSuffix k ''_api-key'' \<or> HasSuffix k ''_sa_token'' \<or> HasSuffix k ''_url''"

text \<open>The data of the reference secret: the loop over the entries of the credential secret.\<close>

fun ref_data :: "url_package \<Rightarrow> string \<Rightarrow> string gomap \<Rightarrow> string gomap \<Rightarrow> string + string gomap" where
  "ref_data up proxyURL [] refData = Inr refData"
| "ref_data up proxyURL ((k, v) # data) refData =
     (if isModelCredentialKey k
      then if HasSuffix k ''_url''
           then (case rewriteModelURLForSidecar up proxyURL v of
                   Inl e \<Rightarrow> Inl (''model credential secret key '' @ Quote k @ '': '' @ e)
                 | Inr rewritten \<Rightarrow> ref_data up proxyURL data (gomap_put k rewritten refData))
           else ref_data up proxyURL data (gomap_put k (k @ '':ref'') refData)
      else ref_data up proxyURL data refData)"

definition internalModelRefSecret ::
  "url_package \<Rightarrow> string \<Rightarrow> string \<Rightarrow> string gomap \<Rightarrow> string \<Rightarrow> string gomap \<Rightarrow> string + Secret" where
  "internalModelRefSecret up namespace refSecretName data proxyURL labels =
     (if data = [] then Inl ''model credential secret data is empty''
      else
        ebind (ref_data up proxyURL data []) (\<lambda>refData.
          if refData = []
          then Inl (''model credential secret data contains no recognised credential keys (expected '' @ Quote ''api-key'' @
                    '' or keys with '' @ Quote ''_api-key'' @ '', '' @ Quote ''_sa_token'' @ '', or '' @ Quote ''_url'' @ '' suffix)'')
          else Inr \<lparr>se_Meta = object_meta refSecretName namespace labels [], se_Data = refData\<rparr>))"

end
