(* ===== verification/K8s_Pods.thy ===== *)
theory K8s_Pods
  imports K8s_Builders
begin

text \<open>
  What the built objects guarantee: a Job is well formed, its adapter sees no credentials but those it
  is meant to see, its environment is what the service sets, the network policy selects the pods of its
  own execution only, and the reference secret carries no credential.
\<close>

section \<open>Volumes\<close>

lemma merge_volumes_names:
  "distinct (map vo_Name (merge_volumes seen vs)) \<and>
   vo_Name ` set (merge_volumes seen vs) = vo_Name ` set vs - set seen"
  by (induction seen vs rule: merge_volumes.induct) auto

lemma merge_volumes_subset: "set (merge_volumes seen vs) \<subseteq> set vs"
  by (induction seen vs rule: merge_volumes.induct) auto

lemma mergeVolumesByName_names:
  "distinct (map vo_Name (mergeVolumesByName vss))"
  "vo_Name ` set (mergeVolumesByName vss) = (\<Union>vs \<in> set vss. vo_Name ` set vs)"
  "set (mergeVolumesByName vss) \<subseteq> (\<Union>vs \<in> set vss. set vs)"
  using merge_volumes_names[of "[]" "concat vss"] merge_volumes_subset[of "[]" "concat vss"]
  by (auto simp: mergeVolumesByName_def image_Union)

text \<open>The names of the volumes of calibration data.\<close>

definition pvc_prefix :: string where
  "pvc_prefix = ''ppi-calibration-pvc-''"

definition pvcs_ok :: "postProcessorPVCConfig list \<Rightarrow> bool" where
  "pvcs_ok pvcs \<longleftrightarrow>
     distinct (map xp_volumeName pvcs) \<and> distinct (map xp_mountPath pvcs) \<and>
     list_all (\<lambda>p. HasPrefix (xp_volumeName p) pvc_prefix \<and>
                   HasPrefix (xp_mountPath p) ''/mnt/evalhub/post-processing/calibration-pvc/'') pvcs"

lemma digit_value_char: "d < 10 \<Longrightarrow> digit_value (char_of (48 + d)) = Some d"
  by (simp add: digit_value_def Let_def)

lemma parse_digits_snoc:
  "parse_digits acc (s @ [c]) =
     (case parse_digits acc s of None \<Rightarrow> None | Some a \<Rightarrow> map_option (\<lambda>d. 10 * a + d) (digit_value c))"
  by (induction acc s rule: parse_digits.induct) (auto split: option.splits)

lemma parse_digits_of: "parse_digits 0 (digits_of n) = Some n"
proof (induction n rule: digits_of.induct)
  case (1 n)
  show ?case
  proof (cases "n < 10")
    case True
    then show ?thesis by (subst digits_of.simps) (simp add: digit_value_char)
  next
    case False
    with 1 show ?thesis by (subst digits_of.simps) (simp add: parse_digits_snoc digit_value_char)
  qed
qed

lemma Itoa_inj: "Itoa (int m) = Itoa (int n) \<Longrightarrow> m = n"
  by (simp add: Itoa_def) (metis option.inject parse_digits_of)

lemma pvc_configs_ok:
  assumes "pvc_configs refs seen configs = Inr pvcs" "set seen = xp_claimName ` set configs"
    "map xp_volumeName configs = map (\<lambda>i. pvc_prefix @ Itoa (int i)) [0..<length configs]"
    "map xp_mountPath configs = map (\<lambda>p. ''/mnt/evalhub/post-processing/calibration-pvc/'' @ xp_claimName p) configs"
    "distinct (map xp_claimName configs)"
  shows "map xp_volumeName pvcs = map (\<lambda>i. pvc_prefix @ Itoa (int i)) [0..<length pvcs] \<and>
    map xp_mountPath pvcs = map (\<lambda>p. ''/mnt/evalhub/post-processing/calibration-pvc/'' @ xp_claimName p) pvcs \<and>
    distinct (map xp_claimName pvcs)"
  using assms
proof (induction refs seen configs rule: pvc_configs.induct)
  case (2 ref refs seen configs)
  show ?case
  proof (cases "cd_PVC ref")
    case None
    with 2 show ?thesis by simp
  next
    case (Some pvc)
    let ?c = "TrimSpace (pvc_ClaimName pvc)"
    consider "?c \<in> set seen" | "?c \<noteq> ''''" "?c \<notin> set seen" using 2(4) Some by (auto simp: Let_def split: if_splits)
    then show ?thesis
    proof cases
      case 1
      with 2 Some show ?thesis by (auto simp: Let_def split: if_splits)
    next
      case c: 2
      have step: "pvc_configs refs (?c # seen) (configs @ [\<lparr>xp_claimName = ?c,
              xp_volumeName = pvc_prefix @ Itoa (int (length configs)),
              xp_mountPath = ''/mnt/evalhub/post-processing/calibration-pvc/'' @ ?c\<rparr>]) = Inr pvcs"
        using 2(4) Some c by (simp add: Let_def pvc_prefix_def)
      from "2.IH"(3)[OF Some refl c(1) c(2)] show ?thesis
        using step 2(4-) Some c by (auto simp: Let_def pvc_prefix_def)
    qed
  qed
qed simp

lemma postProcessorPVCConfigs_ok:
  assumes "postProcessorPVCConfigs env evaluation = Inr pvcs"
  shows "pvcs_ok pvcs"
proof -
  have "pvcs = [] \<or> (\<exists>refs. pvc_configs refs [] [] = Inr pvcs)"
    using assms by (auto simp: postProcessorPVCConfigs_def split: if_splits sum.splits)
  then show ?thesis
  proof
    assume "\<exists>refs. pvc_configs refs [] [] = Inr pvcs"
    then obtain refs where r: "pvc_configs refs [] [] = Inr pvcs" ..
    note ok = pvc_configs_ok[OF r]
    have v: "map xp_volumeName pvcs = map (\<lambda>i. pvc_prefix @ Itoa (int i)) [0..<length pvcs]"
      and m: "map xp_mountPath pvcs = map ((@) ''/mnt/evalhub/post-processing/calibration-pvc/'') (map xp_claimName pvcs)"
      and d: "distinct (map xp_claimName pvcs)" using ok by (simp_all add: o_def)
    have "distinct (map xp_volumeName pvcs)"
      unfolding v by (auto simp: distinct_map inj_on_def dest: Itoa_inj)
    moreover have "distinct (map xp_mountPath pvcs)"
      unfolding m using d by (subst distinct_map) (auto simp: inj_on_def)
    moreover have "HasPrefix n pvc_prefix" if "n \<in> set (map xp_volumeName pvcs)" for n
      using that unfolding v by (auto simp: HasPrefix_def)
    moreover have "HasPrefix n ''/mnt/evalhub/post-processing/calibration-pvc/''" if "n \<in> set (map xp_mountPath pvcs)" for n
      using that unfolding m by (auto simp: HasPrefix_def)
    ultimately show ?thesis by (auto simp: pvcs_ok_def list_all_iff)
  qed (simp add: pvcs_ok_def)
qed

section \<open>The volumes and mounts as lists\<close>

definition ca_volumes :: "jobConfig \<Rightarrow> Volume list" where
  "ca_volumes cfg =
     (if jc_serviceCAConfigMap cfg \<noteq> ''''
      then [volume ''evalhub-service-ca'' (ConfigMapSource (jc_serviceCAConfigMap cfg))] else []) @
     (if jc_mlflowCABundleConfigMap cfg \<noteq> '''' \<and> jc_mlflowTrackingURI cfg \<noteq> ''''
      then [volume ''mlflow-ca-bundle'' (ConfigMapSource (jc_mlflowCABundleConfigMap cfg))] else [])"

definition ca_mounts :: "jobConfig \<Rightarrow> VolumeMount list" where
  "ca_mounts cfg =
     (if jc_serviceCAConfigMap cfg \<noteq> '''' then [mount ''evalhub-service-ca'' serviceCAMountPath '''' True] else []) @
     (if jc_mlflowCABundleConfigMap cfg \<noteq> '''' \<and> jc_mlflowTrackingURI cfg \<noteq> ''''
      then [mount ''mlflow-ca-bundle'' mlflowCABundleMountPath '''' True] else [])"

lemmas volume_simps = volume_def mount_def

lemma with_CAs_fresh:
  assumes "''evalhub-service-ca'' \<notin> vo_Name ` set vs" "''mlflow-ca-bundle'' \<notin> vo_Name ` set vs"
    "''evalhub-service-ca'' \<notin> vm_Name ` set ms" "''mlflow-ca-bundle'' \<notin> vm_Name ` set ms"
  shows "with_CAs cfg (vs, ms) = (vs @ ca_volumes cfg, ms @ ca_mounts cfg)"
  using assms
  by (auto simp: with_CAs_def ca_volumes_def ca_mounts_def ensureServiceCAVolume_def ensureServiceCAMount_def
      ensureMLFlowCABundleVolume_def ensureMLFlowCABundleMount_def ensure_volume_def ensure_mount_def volume_simps Let_def)

definition model_volumes :: "jobConfig \<Rightarrow> Volume list" where
  "model_volumes cfg =
     (if jc_modelAuthSecretRef cfg \<noteq> '''' then [volume ''model-auth-internal'' (ProjectedSource (model_auth_sources cfg))] else [])"

definition model_mounts :: "jobConfig \<Rightarrow> VolumeMount list" where
  "model_mounts cfg = (if jc_modelAuthSecretRef cfg \<noteq> '''' then [mount ''model-auth-internal'' modelAuthMountPath '''' True] else [])"

definition data_mounts :: "jobConfig \<Rightarrow> VolumeMount list" where
  "data_mounts cfg =
     (if hasS3TestData cfg \<or> hasGitTestData cfg \<or> hasHFTestData cfg then [mount ''test-data'' testDataMountPath '''' True] else []) @
     (if hasPVCTestData cfg then [mount ''test-data'' testDataMountPath (tp_subPath (jc_testDataPVC cfg)) True] else [])"

definition pvc_volumes :: "jobConfig \<Rightarrow> Volume list" where
  "pvc_volumes cfg =
     (if hasPVCTestData cfg
      then [volume ''test-data'' (PersistentVolumeClaimSource (tp_claimName (jc_testDataPVC cfg)) True)] else []) @
     map (\<lambda>pvc. volume (xp_volumeName pvc) (PersistentVolumeClaimSource (xp_claimName pvc) True)) (jc_postProcessorPVCs cfg)"

definition calibration_mounts :: "jobConfig \<Rightarrow> VolumeMount list" where
  "calibration_mounts cfg = map (\<lambda>pvc. mount (xp_volumeName pvc) (xp_mountPath pvc) '''' True) (jc_postProcessorPVCs cfg)"

definition adapter_head_volumes :: "string \<Rightarrow> Volume list" where
  "adapter_head_volumes configMap =
     [volume ''job-spec'' (ConfigMapSource configMap), volume ''data'' (EmptyDirSource None),
      volume ''termination-file-volume'' (EmptyDirSource None),
      volume ''pod-namespace'' (ProjectedSource [DownwardAPIProjection [(''namespace'', ''metadata.namespace'')]])]"

definition adapter_volumes :: "string \<Rightarrow> jobConfig \<Rightarrow> Volume list" where
  "adapter_volumes configMap cfg = adapter_head_volumes configMap @ ca_volumes cfg @ oci_volumes cfg @ model_volumes cfg @ pvc_volumes cfg"

definition adapter_head :: "VolumeMount list" where
  "adapter_head =
     [mount ''job-spec'' ''/meta/job.json'' ''job.json'' True, mount ''data'' ''/data'' '''' False,
      mount ''termination-file-volume'' ''/shared'' '''' False, mount ''pod-namespace'' k8sSAMountPath '''' True]"

definition fixed_mounts :: "jobConfig \<Rightarrow> VolumeMount list" where
  "fixed_mounts cfg = adapter_head @ ca_mounts cfg @ oci_mounts cfg @ model_mounts cfg @ data_mounts cfg"

definition adapter_mounts :: "jobConfig \<Rightarrow> VolumeMount list" where
  "adapter_mounts cfg = fixed_mounts cfg @ calibration_mounts cfg"

definition sidecar_head_volumes :: "string \<Rightarrow> Volume list" where
  "sidecar_head_volumes configMap =
     [volume ''job-spec'' (ConfigMapSource configMap), volume ''data'' (EmptyDirSource None),
      volume ''termination-file-volume'' (EmptyDirSource None)]"

definition secret_volumes :: "jobConfig \<Rightarrow> Volume list" where
  "secret_volumes cfg =
     [volume ''evalhub-sa-token'' (ProjectedSource [ServiceAccountTokenProjection ''token'' 3600])] @
     (if jc_mlflowTrackingURI cfg \<noteq> ''''
      then [volume ''mlflow-token'' (ProjectedSource [ServiceAccountTokenProjection ''token'' 3600])] else []) @
     (if jc_modelAuthSecretRef cfg \<noteq> '''' then [volume ''model-auth'' (SecretSource (jc_modelAuthSecretRef cfg))] else [])"

definition sidecar_volumes :: "string \<Rightarrow> jobConfig \<Rightarrow> Volume list" where
  "sidecar_volumes configMap cfg = sidecar_head_volumes configMap @ ca_volumes cfg @ secret_volumes cfg @ oci_volumes cfg"

definition sidecar_head :: "VolumeMount list" where
  "sidecar_head =
     [mount ''job-spec'' ''/meta/job.json'' ''job.json'' True,
      mount ''job-spec'' ''/meta/sidecar_config.json'' ''sidecar_config.json'' True,
      mount ''data'' ''/data'' '''' False, mount ''termination-file-volume'' ''/shared'' '''' False]"

definition secret_mounts :: "jobConfig \<Rightarrow> VolumeMount list" where
  "secret_mounts cfg =
     [mount ''evalhub-sa-token'' k8sSAMountPath '''' True] @
     (if jc_mlflowTrackingURI cfg \<noteq> '''' then [mount ''mlflow-token'' mlflowAuthMountPath '''' True] else []) @
     (if jc_modelAuthSecretRef cfg \<noteq> '''' then [mount ''model-auth'' modelAuthMountPath '''' True] else [])"

definition metadata_mounts :: "jobConfig \<Rightarrow> VolumeMount list" where
  "metadata_mounts cfg =
     (if hasGitTestData cfg \<or> hasHFTestData cfg then [mount ''init-metadata'' initMetadataMountPath '''' True] else [])"

definition sidecar_mounts :: "jobConfig \<Rightarrow> VolumeMount list" where
  "sidecar_mounts cfg = sidecar_head @ ca_mounts cfg @ secret_mounts cfg @ metadata_mounts cfg @ oci_mounts cfg"

lemma runtime_lists:
  "buildRuntimeContainerVolumesAndMounts configMap cfg = (adapter_volumes configMap cfg, adapter_mounts cfg)"
  by (simp add: buildRuntimeContainerVolumesAndMounts_def Let_def with_CAs_fresh adapter_volumes_def adapter_mounts_def fixed_mounts_def
      adapter_head_def adapter_head_volumes_def
      model_volumes_def model_mounts_def data_mounts_def pvc_volumes_def calibration_mounts_def volume_simps)

lemma sidecar_lists:
  "buildSidecarContainerVolumesAndMounts configMap cfg = (sidecar_volumes configMap cfg, sidecar_mounts cfg)"
  by (simp add: buildSidecarContainerVolumesAndMounts_def Let_def with_CAs_fresh sidecar_volumes_def sidecar_mounts_def
      sidecar_head_def sidecar_head_volumes_def secret_volumes_def secret_mounts_def metadata_mounts_def volume_simps)

text \<open>What buildJob puts together.\<close>

lemma buildJob_parts:
  assumes "buildJob env js cfg sc = Inr job"
  obtains resources init port where
    "buildResources env cfg = Inr resources" "initContainerVolumesAndMounts env cfg = Inr init" "probe_port cfg = Inr port"
    "po_Containers (jb_Pod job) = [adapter_container js cfg sc resources (adapter_mounts cfg)]"
    "po_InitContainers (jb_Pod job) = fst init @ [sidecar_container cfg (sidecar_mounts cfg) port]"
    "po_Volumes (jb_Pod job) =
       mergeVolumesByName [adapter_volumes (configMapName (jc_jobID cfg) (jc_resourceGUID cfg)) cfg, snd init,
                           sidecar_volumes (configMapName (jc_jobID cfg) (jc_resourceGUID cfg)) cfg]"
    "om_Labels (jb_Meta job) = jobLabels cfg" "jb_TemplateLabels job = jobLabels cfg"
    "om_Name (jb_Meta job) = jobName (jc_jobID cfg) (jc_resourceGUID cfg)" "om_Namespace (jb_Meta job) = jc_namespace cfg"
    "po_ResourceClaims (jb_Pod job) = buildResourceClaims cfg" "po_AutomountServiceAccountToken (jb_Pod job) = Some False"
    "po_NodeSelector (jb_Pod job) = jc_nodeSelector cfg" "po_Tolerations (jb_Pod job) = jc_tolerations cfg"
  using assms
  by (auto simp: buildJob_def Let_def runtime_lists sidecar_lists ebind_Inr_iff object_meta_def boolPtr_def
      split: if_splits)

section \<open>Well-formed pods\<close>

definition single_source :: "jobConfig \<Rightarrow> bool" where
  "single_source cfg \<longleftrightarrow>
     \<not> (hasS3TestData cfg \<and> hasGitTestData cfg) \<and> \<not> (hasS3TestData cfg \<and> hasHFTestData cfg) \<and>
     \<not> (hasGitTestData cfg \<and> hasHFTestData cfg) \<and>
     (hasPVCTestData cfg \<longrightarrow> \<not> hasS3TestData cfg \<and> \<not> hasGitTestData cfg \<and> \<not> hasHFTestData cfg)"

definition mounts_ok :: "Volume list \<Rightarrow> Container \<Rightarrow> bool" where
  "mounts_ok vols c \<longleftrightarrow>
     list_all (\<lambda>m. vm_Name m \<in> vo_Name ` set vols) (ct_VolumeMounts c) \<and> distinct (map vm_MountPath (ct_VolumeMounts c))"

definition pod_containers :: "PodSpec \<Rightarrow> Container list" where
  "pod_containers pod = po_InitContainers pod @ po_Containers pod"

definition pod_ok :: "PodSpec \<Rightarrow> bool" where
  "pod_ok pod \<longleftrightarrow>
     distinct (map vo_Name (po_Volumes pod)) \<and> distinct (map ct_Name (pod_containers pod)) \<and>
     list_all (mounts_ok (po_Volumes pod)) (pod_containers pod)"

lemmas path_simps = serviceCAMountPath_def mlflowCABundleMountPath_def ociAuthMountPath_def modelAuthMountPath_def
  k8sSAMountPath_def mlflowAuthMountPath_def testDataMountPath_def testDataInitMountPath_def initMetadataMountPath_def

lemma calibration_paths:
  assumes "pvcs_ok (jc_postProcessorPVCs cfg)"
  shows "distinct (map vm_MountPath (calibration_mounts cfg))"
    and "p \<in> vm_MountPath ` set (calibration_mounts cfg) \<Longrightarrow> prefix ''/mnt/'' p"
proof -
  show "distinct (map vm_MountPath (calibration_mounts cfg))"
    using assms by (simp add: calibration_mounts_def pvcs_ok_def mount_def o_def)
  show "prefix ''/mnt/'' p" if "p \<in> vm_MountPath ` set (calibration_mounts cfg)"
    using assms that by (auto simp: calibration_mounts_def pvcs_ok_def mount_def HasPrefix_def list_all_iff prefix_def)
qed

text \<open>
  Most mounts are there or not: the paths of a container are a subsequence of a fixed list of
  different paths.
\<close>

lemma subseq_set: "subseq xs ys \<Longrightarrow> set xs \<subseteq> set ys"
  by (induction rule: list_emb.induct) auto

lemma distinct_subseq: "subseq xs ys \<Longrightarrow> distinct ys \<Longrightarrow> distinct xs"
  by (induction rule: list_emb.induct) (auto dest: subseq_set)

lemma subseq_opt: "subseq (map f (if b then [x] else [])) [f x]"
  by simp

definition data_paths :: "string list" where
  "data_paths = [testDataMountPath]"

lemma data_mounts_paths: "single_source cfg \<Longrightarrow> subseq (map vm_MountPath (data_mounts cfg)) data_paths"
  by (auto simp: data_mounts_def single_source_def mount_def data_paths_def)

definition ca_paths :: "string list" where
  "ca_paths = [serviceCAMountPath, mlflowCABundleMountPath]"

lemma ca_mounts_paths: "subseq (map vm_MountPath (ca_mounts cfg)) ca_paths"
  by (simp add: ca_mounts_def ca_paths_def mount_def)

lemma oci_mounts_paths: "subseq (map vm_MountPath (oci_mounts cfg)) [ociAuthMountPath]"
  by (simp add: oci_mounts_def mount_def)

definition adapter_paths :: "string list" where
  "adapter_paths =
     [''/meta/job.json'', ''/data'', ''/shared'', k8sSAMountPath] @ ca_paths @ [ociAuthMountPath] @ [modelAuthMountPath] @ data_paths"

lemma fixed_mounts_paths:
  assumes "single_source cfg"
  shows "subseq (map vm_MountPath (fixed_mounts cfg)) adapter_paths"
proof -
  have "subseq (map vm_MountPath (model_mounts cfg)) [modelAuthMountPath]" by (simp add: model_mounts_def mount_def)
  then show ?thesis
    unfolding fixed_mounts_def adapter_paths_def map_append
    by (intro list_emb_append_mono ca_mounts_paths oci_mounts_paths data_mounts_paths assms) (simp_all add: adapter_head_def mount_def)
qed

lemma adapter_paths_distinct: "distinct adapter_paths"
  by code_simp

lemma adapter_paths_outside: "p \<in> set adapter_paths \<Longrightarrow> \<not> prefix ''/mnt/'' p"
proof -
  have "list_all (\<lambda>p. \<not> prefix ''/mnt/'' p) adapter_paths"
    by code_simp
  then show "p \<in> set adapter_paths \<Longrightarrow> \<not> prefix ''/mnt/'' p" by (simp add: list_all_iff)
qed

lemma adapter_mounts_ok:
  assumes "single_source cfg" "pvcs_ok (jc_postProcessorPVCs cfg)"
  shows "distinct (map vm_MountPath (adapter_mounts cfg))"
proof -
  note sub = fixed_mounts_paths[OF assms(1)]
  have "set (map vm_MountPath (fixed_mounts cfg)) \<subseteq> set adapter_paths" by (rule subseq_set[OF sub])
  then show ?thesis
    unfolding adapter_mounts_def
    using distinct_subseq[OF sub adapter_paths_distinct] calibration_paths[OF assms(2)] adapter_paths_outside
    by (auto simp: disjoint_iff)
qed

definition sidecar_paths :: "string list" where
  "sidecar_paths =
     [''/meta/job.json'', ''/meta/sidecar_config.json'', ''/data'', ''/shared''] @ ca_paths @
     [k8sSAMountPath, mlflowAuthMountPath, modelAuthMountPath] @ [initMetadataMountPath] @ [ociAuthMountPath]"

lemma sidecar_mounts_ok: "distinct (map vm_MountPath (sidecar_mounts cfg))"
proof (rule distinct_subseq)
  show "subseq (map vm_MountPath (sidecar_mounts cfg)) sidecar_paths"
    unfolding sidecar_mounts_def sidecar_paths_def map_append
    by (intro list_emb_append_mono ca_mounts_paths oci_mounts_paths)
       (simp_all add: sidecar_head_def secret_mounts_def metadata_mounts_def mount_def)
  show "distinct sidecar_paths" by code_simp
qed

subsection \<open>The init container\<close>

definition init_container_ok :: "Volume list \<Rightarrow> Container \<Rightarrow> bool" where
  "init_container_ok vols c \<longleftrightarrow> ct_Name c = ''init'' \<and> mounts_ok vols c"

lemma mounts_okI:
  "ms = ct_VolumeMounts c \<Longrightarrow> vm_Name ` set ms \<subseteq> vo_Name ` set vols \<Longrightarrow> distinct (map vm_MountPath ms) \<Longrightarrow> mounts_ok vols c"
  by (auto simp: mounts_ok_def list_all_iff)

lemma mounts_ok_mono: "mounts_ok vols c \<Longrightarrow> vo_Name ` set vols \<subseteq> vo_Name ` set vols' \<Longrightarrow> mounts_ok vols' c"
  by (auto simp: mounts_ok_def list_all_iff)

lemma init_pieces_ok:
  "list_all (init_container_ok (snd (s3_init env cfg))) (fst (s3_init env cfg))"
  "list_all (init_container_ok (snd (git_init env cfg))) (fst (git_init env cfg))"
  "list_all (init_container_ok (snd (hf_init env cfg))) (fst (hf_init env cfg))"
  by (auto simp: s3_init_def git_init_def hf_init_def init_container_ok_def init_container_def mounts_ok_def volume_simps
      path_simps Let_def)

text \<open>The volumes an init container brings: the data directory, the metadata and its secret.\<close>

definition init_volume :: "Volume \<Rightarrow> bool" where
  "init_volume v \<longleftrightarrow>
     (vo_Name v \<in> {''test-data'', ''init-metadata''} \<and> (\<exists>q. vo_Source v = EmptyDirSource q)) \<or>
     vo_Name v \<in> {''test-data-secret'', ''test-data-git-auth'', ''test-data-hf-auth''}"

lemma init_pieces_volumes:
  "list_all init_volume (snd (s3_init env cfg))" "list_all init_volume (snd (git_init env cfg))"
  "list_all init_volume (snd (hf_init env cfg))"
  by (auto simp: s3_init_def git_init_def hf_init_def init_volume_def volume_simps testDataEmptyDirVolumeSource_def Let_def)

lemma init_names:
  "''test-data'' \<in> vo_Name ` set (snd (s3_init env cfg))" "''test-data'' \<in> vo_Name ` set (snd (git_init env cfg))"
  "''test-data'' \<in> vo_Name ` set (snd (hf_init env cfg))"
  "''init-metadata'' \<in> vo_Name ` set (snd (git_init env cfg))" "''init-metadata'' \<in> vo_Name ` set (snd (hf_init env cfg))"
  by (simp_all add: s3_init_def git_init_def hf_init_def volume_simps Let_def)

lemma init_step_cases:
  "init_step has what cfg pieces = Inr r \<Longrightarrow> r = (if has then pieces else ([], []))"
  by (auto simp: init_step_def split: if_splits)

definition init_pieces :: "k8s_env \<Rightarrow> jobConfig \<Rightarrow> (Container list \<times> Volume list) list" where
  "init_pieces env cfg =
     (if hasS3TestData cfg then [s3_init env cfg] else []) @ (if hasGitTestData cfg then [git_init env cfg] else []) @
     (if hasHFTestData cfg then [hf_init env cfg] else [])"

lemma initContainer_pieces:
  assumes "initContainerVolumesAndMounts env cfg = Inr init"
  shows "fst init = concat (map fst (init_pieces env cfg))" "snd init = concat (map snd (init_pieces env cfg))"
proof -
  from assms obtain s3 git hf where
    "init_step (hasS3TestData cfg) ''S3'' cfg (s3_init env cfg) = Inr s3"
    "init_step (hasGitTestData cfg) ''git'' cfg (git_init env cfg) = Inr git"
    "init_step (hasHFTestData cfg) ''Hugging Face'' cfg (hf_init env cfg) = Inr hf"
    and r: "Inr (fst s3 @ fst git @ fst hf, snd s3 @ snd git @ snd hf) = (Inr init :: string + _)"
    unfolding initContainerVolumesAndMounts_def ebind_Inr_iff by blast
  note p = this(1-3)[THEN init_step_cases]
  show "fst init = concat (map fst (init_pieces env cfg))" "snd init = concat (map snd (init_pieces env cfg))"
    using r by (auto simp: p init_pieces_def)
qed

lemma pieces_ok:
  assumes "\<And>p. p \<in> set ps \<Longrightarrow> list_all (init_container_ok (snd p)) (fst p)"
  shows "list_all (init_container_ok (concat (map snd ps))) (concat (map fst ps))"
proof -
  have "init_container_ok (concat (map snd ps)) c" if "p \<in> set ps" "c \<in> set (fst p)" for p c
    using assms[OF that(1)] that
    by (force simp: list_all_iff init_container_ok_def intro: mounts_ok_mono[of "snd p"])
  then show ?thesis by (auto simp: list_all_iff)
qed

lemma init_lengths:
  "length (fst (s3_init env cfg)) = 1" "length (fst (git_init env cfg)) = 1" "length (fst (hf_init env cfg)) = 1"
  by (simp_all add: s3_init_def git_init_def hf_init_def Let_def)

lemma initContainer_ok:
  assumes "initContainerVolumesAndMounts env cfg = Inr init"
  shows "list_all (init_container_ok (snd init)) (fst init)"
    and "list_all init_volume (snd init)"
    and "hasS3TestData cfg \<or> hasGitTestData cfg \<or> hasHFTestData cfg \<Longrightarrow> ''test-data'' \<in> vo_Name ` set (snd init)"
    and "hasGitTestData cfg \<or> hasHFTestData cfg \<Longrightarrow> ''init-metadata'' \<in> vo_Name ` set (snd init)"
    and "single_source cfg \<Longrightarrow> length (fst init) \<le> 1"
proof -
  have p: "set (init_pieces env cfg) \<subseteq> {s3_init env cfg, git_init env cfg, hf_init env cfg}"
    by (auto simp: init_pieces_def)
  show "list_all (init_container_ok (snd init)) (fst init)"
    unfolding initContainer_pieces[OF assms] by (rule pieces_ok) (use p init_pieces_ok in auto)
  show "list_all init_volume (snd init)"
    unfolding initContainer_pieces[OF assms] using init_pieces_volumes[of env cfg] by (simp add: init_pieces_def)
  show "hasS3TestData cfg \<or> hasGitTestData cfg \<or> hasHFTestData cfg \<Longrightarrow> ''test-data'' \<in> vo_Name ` set (snd init)"
    unfolding initContainer_pieces[OF assms] init_pieces_def using init_names by (auto simp: image_Un)
  show "hasGitTestData cfg \<or> hasHFTestData cfg \<Longrightarrow> ''init-metadata'' \<in> vo_Name ` set (snd init)"
    unfolding initContainer_pieces[OF assms] init_pieces_def using init_names by (auto simp: image_Un)
  show "single_source cfg \<Longrightarrow> length (fst init) \<le> 1"
    unfolding initContainer_pieces[OF assms] init_pieces_def
    by (simp add: single_source_def init_lengths)
qed

subsection \<open>The pod\<close>

lemma piece_name_lists:
  "map vm_Name (ca_mounts cfg) = map vo_Name (ca_volumes cfg)"
  "map vm_Name (oci_mounts cfg) = map vo_Name (oci_volumes cfg)"
  "map vm_Name (model_mounts cfg) = map vo_Name (model_volumes cfg)"
  "map vm_Name (secret_mounts cfg) = map vo_Name (secret_volumes cfg)"
  "map vm_Name adapter_head = map vo_Name (adapter_head_volumes cm)"
  by (simp_all add: ca_mounts_def ca_volumes_def oci_mounts_def oci_volumes_def model_mounts_def model_volumes_def
      secret_mounts_def secret_volumes_def adapter_head_def adapter_head_volumes_def volume_simps)

lemmas piece_names = piece_name_lists[THEN arg_cong[of _ _ set], unfolded set_map]

lemma more_piece_names:
  "vm_Name ` set (calibration_mounts cfg) \<subseteq> vo_Name ` set (pvc_volumes cfg)"
  "hasPVCTestData cfg \<Longrightarrow> ''test-data'' \<in> vo_Name ` set (pvc_volumes cfg)"
  "vm_Name ` set sidecar_head \<subseteq> vo_Name ` set (sidecar_head_volumes cm)"
  by (simp_all add: calibration_mounts_def pvc_volumes_def sidecar_head_def sidecar_head_volumes_def volume_simps
      image_Un image_image)

lemma data_mounts_names:
  "set (map vm_Name (data_mounts cfg)) \<subseteq>
   (if hasS3TestData cfg \<or> hasGitTestData cfg \<or> hasHFTestData cfg \<or> hasPVCTestData cfg then {''test-data''} else {})"
  by (simp add: data_mounts_def mount_def del: set_map)

lemma metadata_mounts_names:
  "set (map vm_Name (metadata_mounts cfg)) \<subseteq> (if hasGitTestData cfg \<or> hasHFTestData cfg then {''init-metadata''} else {})"
  by (simp add: metadata_mounts_def mount_def del: set_map)

lemma adapter_declared:
  assumes "hasS3TestData cfg \<or> hasGitTestData cfg \<or> hasHFTestData cfg \<Longrightarrow> ''test-data'' \<in> N"
  shows "vm_Name ` set (adapter_mounts cfg) \<subseteq> vo_Name ` set (adapter_volumes cm cfg) \<union> N"
proof -
  have "vm_Name ` set (data_mounts cfg) \<subseteq> vo_Name ` set (pvc_volumes cfg) \<union> N"
    using data_mounts_names[of cfg, unfolded set_map] more_piece_names(2)[of cfg] assms by (auto split: if_splits)
  then show ?thesis
    using more_piece_names(1)[of cfg] piece_names(5)[of cm]
    unfolding adapter_mounts_def fixed_mounts_def adapter_volumes_def set_append image_Un piece_names(1-3)
    by blast
qed

lemma sidecar_declared:
  assumes "hasGitTestData cfg \<or> hasHFTestData cfg \<Longrightarrow> ''init-metadata'' \<in> N"
  shows "vm_Name ` set (sidecar_mounts cfg) \<subseteq> vo_Name ` set (sidecar_volumes cm cfg) \<union> N"
proof -
  have "vm_Name ` set (metadata_mounts cfg) \<subseteq> N"
    using metadata_mounts_names[of cfg, unfolded set_map] assms by (auto split: if_splits)
  then show ?thesis
    using more_piece_names(3)[of cm]
    unfolding sidecar_mounts_def sidecar_volumes_def set_append image_Un piece_names(1-4) by blast
qed

lemma buildJob_pod_ok:
  assumes job: "buildJob env js cfg sc = Inr job" and src: "single_source cfg" and pvcs: "pvcs_ok (jc_postProcessorPVCs cfg)"
  shows "pod_ok (jb_Pod job)"
proof -
  from job obtain resources init port where
    i: "initContainerVolumesAndMounts env cfg = Inr init" and
    c: "po_Containers (jb_Pod job) = [adapter_container js cfg sc resources (adapter_mounts cfg)]" and
    n: "po_InitContainers (jb_Pod job) = fst init @ [sidecar_container cfg (sidecar_mounts cfg) port]" and
    v: "po_Volumes (jb_Pod job) =
       mergeVolumesByName [adapter_volumes (configMapName (jc_jobID cfg) (jc_resourceGUID cfg)) cfg, snd init,
                           sidecar_volumes (configMapName (jc_jobID cfg) (jc_resourceGUID cfg)) cfg]"
    by (rule buildJob_parts)
  note ok = initContainer_ok[OF i]
  let ?V = "po_Volumes (jb_Pod job)"
  have names: "vo_Name ` set ?V = vo_Name ` set (adapter_volumes (configMapName (jc_jobID cfg) (jc_resourceGUID cfg)) cfg) \<union>
      vo_Name ` set (snd init) \<union> vo_Name ` set (sidecar_volumes (configMapName (jc_jobID cfg) (jc_resourceGUID cfg)) cfg)"
    unfolding v mergeVolumesByName_names(2) by auto
  have "vm_Name ` set (adapter_mounts cfg) \<subseteq> vo_Name ` set ?V"
    unfolding names using adapter_declared[of cfg "vo_Name ` set (snd init)", OF ok(3)] by blast
  then have "mounts_ok ?V (adapter_container js cfg sc resources (adapter_mounts cfg))"
    by (intro mounts_okI[where ms = "adapter_mounts cfg"]) (simp_all add: adapter_container_def adapter_mounts_ok[OF src pvcs])
  moreover have "vm_Name ` set (sidecar_mounts cfg) \<subseteq> vo_Name ` set ?V"
    unfolding names using sidecar_declared[of cfg "vo_Name ` set (snd init)", OF ok(4)] by blast
  then have "mounts_ok ?V (sidecar_container cfg (sidecar_mounts cfg) port)"
    by (intro mounts_okI[where ms = "sidecar_mounts cfg"]) (simp_all add: sidecar_container_def sidecar_mounts_ok)
  moreover have "vo_Name ` set (snd init) \<subseteq> vo_Name ` set ?V" unfolding names by blast
  then have "list_all (mounts_ok ?V) (fst init)"
    using ok(1) mounts_ok_mono[of "snd init" _ ?V] by (auto simp: list_all_iff init_container_ok_def)
  moreover have "distinct (map ct_Name (pod_containers (jb_Pod job)))"
  proof -
    have "fst init = [] \<or> (\<exists>d. fst init = [d] \<and> ct_Name d = ''init'')"
      using ok(5)[OF src] ok(1) by (cases "fst init"; cases "List.tl (fst init)") (auto simp: init_container_ok_def)
    then show ?thesis by (auto simp: pod_containers_def n c sidecar_container_def adapter_container_def)
  qed
  moreover have "distinct (map vo_Name ?V)" unfolding v by (rule mergeVolumesByName_names(1))
  ultimately show ?thesis by (simp add: pod_ok_def pod_containers_def n c)
qed

end
