(* ===== verification/K8s_Guarantees.thy ===== *)
theory K8s_Guarantees
  imports K8s_Pods
begin

text \<open>
  What the objects of an execution reveal and select: the secrets a container can read, the environment
  of the adapter, the accelerators it requests, the pods a network policy selects, and the content of
  the reference secret.
\<close>

section \<open>Secrets\<close>

text \<open>The keys of a secret a mount makes readable. A projection without items exposes every key.\<close>

definition projects :: "string \<Rightarrow> string \<Rightarrow> VolumeProjection \<Rightarrow> bool" where
  "projects n k p =
     (case p of
        SecretProjection s items optional \<Rightarrow> s = n \<and> (items = [] \<or> k \<in> kp_Key ` set items)
      | _ \<Rightarrow> False)"

definition mount_reads :: "VolumeMount \<Rightarrow> Volume \<Rightarrow> string \<Rightarrow> string \<Rightarrow> bool" where
  "mount_reads m v n k \<longleftrightarrow>
     vm_Name m = vo_Name v \<and>
     (case vo_Source v of
        SecretSource s \<Rightarrow> s = n \<and> (vm_SubPath m = '''' \<or> vm_SubPath m = k)
      | ProjectedSource ps \<Rightarrow> list_ex (projects n k) ps
      | _ \<Rightarrow> False)"

definition container_reads :: "PodSpec \<Rightarrow> Container \<Rightarrow> string \<Rightarrow> string \<Rightarrow> bool" where
  "container_reads pod c n k \<longleftrightarrow>
     list_ex (\<lambda>m. list_ex (\<lambda>v. mount_reads m v n k) (po_Volumes pod)) (ct_VolumeMounts c)"

text \<open>The service account token of the pod, mounted by the kubelet or through a projection.\<close>

definition token_projection :: "VolumeProjection \<Rightarrow> bool" where
  "token_projection p = (case p of ServiceAccountTokenProjection _ _ \<Rightarrow> True | _ \<Rightarrow> False)"

definition token_source :: "VolumeSource \<Rightarrow> bool" where
  "token_source s = (case s of ProjectedSource ps \<Rightarrow> list_ex token_projection ps | _ \<Rightarrow> False)"

definition container_has_token :: "PodSpec \<Rightarrow> Container \<Rightarrow> bool" where
  "container_has_token pod c \<longleftrightarrow>
     po_AutomountServiceAccountToken pod \<noteq> Some False \<or>
     list_ex (\<lambda>m. list_ex (\<lambda>v. vm_Name m = vo_Name v \<and> token_source (vo_Source v)) (po_Volumes pod)) (ct_VolumeMounts c)"

subsection \<open>The volumes the adapter mounts\<close>

definition plain_source :: "VolumeSource \<Rightarrow> bool" where
  "plain_source s =
     (case s of SecretSource _ \<Rightarrow> False
      | ProjectedSource ps \<Rightarrow> list_all (\<lambda>p. case p of DownwardAPIProjection _ \<Rightarrow> True | _ \<Rightarrow> False) ps
      | _ \<Rightarrow> True)"

lemma plain_source_reveals:
  "plain_source (vo_Source v) \<Longrightarrow> \<not> mount_reads m v n k" "plain_source s \<Longrightarrow> \<not> token_source s"
  by (auto simp: plain_source_def mount_reads_def token_source_def projects_def token_projection_def list_all_iff list_ex_iff
      split: VolumeSource.splits VolumeProjection.splits)

definition hidden_names :: "string list" where
  "hidden_names = [''evalhub-sa-token'', ''mlflow-token'', ''model-auth'', ''test-data-secret'', ''test-data-git-auth'', ''test-data-hf-auth'']"

lemma fixed_mounts_hidden: "list_all (\<lambda>m. vm_Name m \<notin> set hidden_names) (fixed_mounts cfg)"
  by (simp add: fixed_mounts_def adapter_head_def ca_mounts_def oci_mounts_def model_mounts_def data_mounts_def mount_def
      hidden_names_def)

lemma calibration_hidden:
  assumes "pvcs_ok (jc_postProcessorPVCs cfg)" "m \<in> set (calibration_mounts cfg)"
  shows "vm_Name m \<notin> set hidden_names" "vm_Name m \<noteq> ''oci-credentials''"
proof -
  have p: "prefix ''ppi'' (vm_Name m)"
    using assms by (auto simp: calibration_mounts_def mount_def pvcs_ok_def HasPrefix_def pvc_prefix_def list_all_iff prefix_def)
  have "list_all (\<lambda>n. \<not> prefix ''ppi'' n) (''oci-credentials'' # hidden_names)" by (simp add: hidden_names_def)
  with p show "vm_Name m \<notin> set hidden_names" "vm_Name m \<noteq> ''oci-credentials''" by (auto simp: list_all_iff)
qed

lemma adapter_mounts_hidden:
  "pvcs_ok (jc_postProcessorPVCs cfg) \<Longrightarrow> m \<in> set (adapter_mounts cfg) \<Longrightarrow> vm_Name m \<notin> set hidden_names"
  using fixed_mounts_hidden[of cfg] calibration_hidden(1)[of cfg m] by (auto simp: adapter_mounts_def list_all_iff)

lemma adapter_oci_sub_path:
  assumes "pvcs_ok (jc_postProcessorPVCs cfg)" "m \<in> set (adapter_mounts cfg)" "vm_Name m = ''oci-credentials''"
  shows "vm_SubPath m = ''.dockerconfigjson''"
proof -
  have "list_all (\<lambda>m. vm_Name m = ''oci-credentials'' \<longrightarrow> vm_SubPath m = ''.dockerconfigjson'') (fixed_mounts cfg)"
    by (simp add: fixed_mounts_def adapter_head_def ca_mounts_def oci_mounts_def model_mounts_def data_mounts_def mount_def)
  then show ?thesis using assms calibration_hidden(2)[OF assms(1)] by (auto simp: adapter_mounts_def list_all_iff)
qed

lemma adapter_volumes_plain:
  "v \<in> set (adapter_volumes cm cfg) \<Longrightarrow>
   plain_source (vo_Source v) \<or> v \<in> set (oci_volumes cfg) \<or> v \<in> set (model_volumes cfg)"
proof -
  have "list_all (\<lambda>v. plain_source (vo_Source v)) (adapter_head_volumes cm @ ca_volumes cfg @ pvc_volumes cfg)"
    by (simp add: adapter_head_volumes_def ca_volumes_def pvc_volumes_def volume_def plain_source_def list.pred_map o_def list.pred_True)
  then show "v \<in> set (adapter_volumes cm cfg) \<Longrightarrow>
    plain_source (vo_Source v) \<or> v \<in> set (oci_volumes cfg) \<or> v \<in> set (model_volumes cfg)"
    by (auto simp: adapter_volumes_def list_all_iff)
qed

lemma sidecar_volumes_plain:
  "v \<in> set (sidecar_volumes cm cfg) \<Longrightarrow>
   plain_source (vo_Source v) \<or> v \<in> set (oci_volumes cfg) \<or> vo_Name v \<in> set hidden_names"
proof -
  have "list_all (\<lambda>v. plain_source (vo_Source v)) (sidecar_head_volumes cm @ ca_volumes cfg)"
    by (simp add: sidecar_head_volumes_def ca_volumes_def volume_def plain_source_def)
  moreover have "list_all (\<lambda>v. vo_Name v \<in> set hidden_names) (secret_volumes cfg)"
    by (simp add: secret_volumes_def volume_def hidden_names_def)
  ultimately show "v \<in> set (sidecar_volumes cm cfg) \<Longrightarrow>
    plain_source (vo_Source v) \<or> v \<in> set (oci_volumes cfg) \<or> vo_Name v \<in> set hidden_names"
    by (auto simp: sidecar_volumes_def list_all_iff)
qed

lemma init_volume_plain: "init_volume v \<Longrightarrow> plain_source (vo_Source v) \<or> vo_Name v \<in> set hidden_names"
  by (auto simp: init_volume_def plain_source_def hidden_names_def)

lemma adapter_sources:
  assumes job: "buildJob env js cfg sc = Inr job" and pvcs: "pvcs_ok (jc_postProcessorPVCs cfg)"
    and v: "v \<in> set (po_Volumes (jb_Pod job))" and m: "m \<in> set (adapter_mounts cfg)" "vm_Name m = vo_Name v"
  shows "plain_source (vo_Source v) \<or> v \<in> set (oci_volumes cfg) \<or> v \<in> set (model_volumes cfg)"
proof -
  let ?cm = "configMapName (jc_jobID cfg) (jc_resourceGUID cfg)"
  from job obtain init where i: "initContainerVolumesAndMounts env cfg = Inr init"
    and vs: "po_Volumes (jb_Pod job) = mergeVolumesByName [adapter_volumes ?cm cfg, snd init, sidecar_volumes ?cm cfg]"
    by (rule buildJob_parts)
  have "vo_Name v \<notin> set hidden_names" using adapter_mounts_hidden[OF pvcs m(1)] m(2) by simp
  moreover have "v \<in> set (adapter_volumes ?cm cfg) \<union> set (snd init) \<union> set (sidecar_volumes ?cm cfg)"
    using v mergeVolumesByName_names(3) unfolding vs by fastforce
  moreover have "init_volume v" if "v \<in> set (snd init)"
    using initContainer_ok(2)[OF i] that by (simp add: list_all_iff)
  ultimately show ?thesis
    using adapter_volumes_plain[of v ?cm cfg] sidecar_volumes_plain[of v ?cm cfg] init_volume_plain[of v] by blast
qed

text \<open>
  The adapter reads two keys of the model secret, the reference secret, and the registry configuration
  of the export secret; it has no service account token.
\<close>

lemma adapter_reads:
  assumes job: "buildJob env js cfg sc = Inr job" and pvcs: "pvcs_ok (jc_postProcessorPVCs cfg)"
    and c: "c \<in> set (po_Containers (jb_Pod job))"
  shows "container_reads (jb_Pod job) c n k \<Longrightarrow>
      n = jc_ociCredentialsSecret cfg \<and> k = ''.dockerconfigjson'' \<or>
      n = jc_modelAuthSecretRef cfg \<and> k \<in> {''hf-token'', ''ca_cert''} \<or>
      n = jc_modelInternalRefSecretName cfg \<and> n \<noteq> ''''"
    and "\<not> container_has_token (jb_Pod job) c"
proof -
  from job obtain resources where "po_Containers (jb_Pod job) = [adapter_container js cfg sc resources (adapter_mounts cfg)]"
    and auto: "po_AutomountServiceAccountToken (jb_Pod job) = Some False"
    by (rule buildJob_parts)
  with c have mounts: "ct_VolumeMounts c = adapter_mounts cfg" by (simp add: adapter_container_def)
  have oci: "mount_reads m v n k \<Longrightarrow> n = jc_ociCredentialsSecret cfg \<and> k = ''.dockerconfigjson''"
    if "v \<in> set (oci_volumes cfg)" "m \<in> set (adapter_mounts cfg)" for m v
    using that adapter_oci_sub_path[OF pvcs that(2)]
    by (auto simp: oci_volumes_def volume_def mount_reads_def split: if_splits)
  have model: "mount_reads m v n k \<Longrightarrow>
      n = jc_modelAuthSecretRef cfg \<and> k \<in> {''hf-token'', ''ca_cert''} \<or> n = jc_modelInternalRefSecretName cfg \<and> n \<noteq> ''''"
    if "v \<in> set (model_volumes cfg)" for m v
    using that by (auto simp: model_volumes_def volume_def mount_reads_def model_auth_sources_def projects_def split: if_splits)
  show "container_reads (jb_Pod job) c n k \<Longrightarrow>
      n = jc_ociCredentialsSecret cfg \<and> k = ''.dockerconfigjson'' \<or>
      n = jc_modelAuthSecretRef cfg \<and> k \<in> {''hf-token'', ''ca_cert''} \<or>
      n = jc_modelInternalRefSecretName cfg \<and> n \<noteq> ''''"
  proof -
    assume "container_reads (jb_Pod job) c n k"
    then obtain m v where mv: "m \<in> set (adapter_mounts cfg)" "v \<in> set (po_Volumes (jb_Pod job))" "mount_reads m v n k"
      by (auto simp: container_reads_def mounts list_ex_iff)
    moreover from mv(3) have "vm_Name m = vo_Name v" by (simp add: mount_reads_def)
    ultimately show ?thesis
      using adapter_sources[OF job pvcs mv(2,1)] plain_source_reveals(1) oci model by blast
  qed
  have "\<not> token_source (vo_Source v)" if "v \<in> set (po_Volumes (jb_Pod job))" "m \<in> set (adapter_mounts cfg)" "vm_Name m = vo_Name v" for m v
    using adapter_sources[OF job pvcs that] plain_source_reveals(2)
    by (auto simp: oci_volumes_def model_volumes_def volume_def token_source_def token_projection_def model_auth_sources_def
        split: if_splits)
  then show "\<not> container_has_token (jb_Pod job) c"
    by (auto simp: container_has_token_def auto mounts list_ex_iff)
qed

section \<open>The environment of the adapter\<close>

lemma add_env_names:
  "distinct (map ev_Name env) \<Longrightarrow> distinct (map ev_Name (add_env item env))" "\<exists>r. add_env item env = env @ r"
  by (auto simp: add_env_def)

lemma add_provider_env_names:
  "distinct (map ev_Name env) \<Longrightarrow> distinct (map ev_Name (add_provider_env item env))" "\<exists>r. add_provider_env item env = env @ r"
  using add_env_names by (auto simp: add_provider_env_def)

lemma fold_provider_env_distinct:
  "distinct (map ev_Name env) \<Longrightarrow> distinct (map ev_Name (fold add_provider_env items env))"
  by (induction items arbitrary: env) (simp_all add: add_provider_env_names(1))

lemma fold_provider_env_extends: "\<exists>r. fold add_provider_env items env = env @ r"
proof (induction items arbitrary: env)
  case (Cons i its)
  obtain r where r: "add_provider_env i env = env @ r" using add_provider_env_names(2) by blast
  obtain r' where "fold add_provider_env its (env @ r) = (env @ r) @ r'" using Cons by blast
  then show ?case by (simp add: r)
qed simp

definition service_names :: "string list" where
  "service_names =
     [''EVALHUB_MODE''] @ [''MLFLOW_TRACKING_URI''] @ [''MLFLOW_WORKSPACE''] @ [''OCI_AUTH_CONFIG_PATH''] @
     [''EVALHUB_POST_PROCESSOR_PVC_MOUNTS''] @ [''MLFLOW_TRACKING_SERVER_CERT_PATH'']"

lemma service_env_names: "subseq (map ev_Name (service_env js jc sc)) service_names"
  unfolding service_env_def service_names_def map_append
  by (intro list_emb_append_mono) (simp_all add: env_var_def)

lemma service_names_distinct: "distinct service_names"
  by code_simp

lemma buildEnvVars_ok:
  "distinct (map ev_Name (buildEnvVars js jc sc)) \<and> (\<exists>r. buildEnvVars js jc sc = service_env js jc sc @ r)"
proof -
  let ?e = "fold add_provider_env (jc_defaultEnv jc) (service_env js jc sc)"
  have d: "distinct (map ev_Name ?e)"
    by (intro fold_provider_env_distinct distinct_subseq[OF service_env_names service_names_distinct])
  obtain r where r: "?e = service_env js jc sc @ r" using fold_provider_env_extends by blast
  obtain r1 where r1: "add_env (env_var ''OTEL_EXPORTER_OTLP_ENDPOINT'' (otelEndpointForAdapter sc)) ?e = ?e @ r1"
    using add_env_names(2) by blast
  obtain r2 where r2: "add_env (env_var ''OTEL_SERVICE_NAME'' ''evalhub-adapter'') (?e @ r1) = (?e @ r1) @ r2"
    using add_env_names(2) by blast
  have d1: "distinct (map ev_Name (?e @ r1))" using add_env_names(1)[OF d] unfolding r1[symmetric] .
  have d2: "distinct (map ev_Name ((?e @ r1) @ r2))" using add_env_names(1)[OF d1] unfolding r2[symmetric] .
  show ?thesis
  proof (cases "otelEndpointForAdapter sc = ''''")
    case True
    then show ?thesis using d r by (auto simp: buildEnvVars_def Let_def)
  next
    case False
    then have "buildEnvVars js jc sc = (?e @ r1) @ r2" by (simp only: buildEnvVars_def Let_def r1 r2 if_True not_False_eq_True)
    then show ?thesis using d2 r by simp
  qed
qed

section \<open>Accelerators\<close>

lemma put_quantity_other: "put_quantity env what key text m = Inr m' \<Longrightarrow> k \<noteq> key \<Longrightarrow> gomap_get m' k = gomap_get m k"
  by (auto simp: put_quantity_def split: if_splits sum.splits)

lemma buildResources_accelerator:
  assumes "buildResources env cfg = Inr r" "accelerators_ok cfg" "k \<notin> {''cpu'', ''memory''}"
  shows "gomap_get (pq_Requests r) k = gomap_get (pq_Limits r) k"
    and "gomap_get (pq_Requests r) k \<noteq> None \<Longrightarrow> k = jc_gpuResource cfg \<and> jc_gpuCount cfg > 0 \<and> pq_Claims r = []"
    and "map pl_Name (buildResourceClaims cfg) = pq_Claims r"
  using assms
  by (auto simp: buildResources_def ebind_Inr_iff accelerators_ok_def buildResourceClaims_def dest!: put_quantity_other[of _ _ _ _ _ _ k]
      split: if_splits sum.splits)

section \<open>The network policy\<close>

definition selects :: "string gomap \<Rightarrow> string gomap \<Rightarrow> bool" where
  "selects selector labels \<longleftrightarrow> list_all (\<lambda>(k, v). gomap_get labels k = Some v) selector"

lemma jobLabels_fixed:
  "gomap_get (jobLabels cfg) ''app'' = Some ''evalhub''" "gomap_get (jobLabels cfg) ''component'' = Some ''evaluation-job''"
  "gomap_get (jobLabels cfg) ''job_id'' = Some (sanitizeLabelValue (jc_jobID cfg))"
  "gomap_get (jobLabels cfg) ''benchmark_index'' = Some (sanitizeLabelValue (Itoa (jc_benchmarkIndex cfg)))"
  "gomap_get (jobLabels cfg) ''eval-hub.github.io/execution-id'' =
     (if jc_resourceGUID cfg \<noteq> '''' then Some (sanitizeLabelValue (jc_resourceGUID cfg)) else None)"
  by (simp_all add: jobLabels_def Let_def)

lemma policy_selects:
  assumes "buildJobNetworkPolicy js cfg = Inr np" "uuid_text (jc_resourceGUID cfg)" "uuid_text (jc_resourceGUID cfg')"
  shows "selects (np_PodSelector np) (jobLabels cfg') \<longleftrightarrow> jc_resourceGUID cfg' = jc_resourceGUID cfg"
proof -
  have "jc_resourceGUID cfg' \<noteq> ''''" using assms(3) by (auto simp: uuid_text_def)
  then show ?thesis
    using assms(1) sanitizeLabelValue_clean[OF uuid_label_value[OF assms(2)]]
      sanitizeLabelValue_clean[OF uuid_label_value[OF assms(3)]]
    by (auto simp: buildJobNetworkPolicy_def Let_def selects_def jobLabels_fixed split: if_splits)
qed

text \<open>Every label value but the name of a queue is sanitized or a constant, hence valid.\<close>

lemma label_constants: "label_value ''evalhub''" "label_value ''evaluation-job''"
  by (simp_all add: label_value_def bounded_by_def label_char_def alnum_def)

section \<open>The reference secret\<close>

text \<open>An entry of the reference secret: the name of its key, or the URL of the sidecar with the path of the model.\<close>

definition ref_entry :: "url_package \<Rightarrow> string \<Rightarrow> string gomap \<Rightarrow> string \<times> string \<Rightarrow> bool" where
  "ref_entry up proxyURL data e \<longleftrightarrow>
     isModelCredentialKey (fst e) \<and> fst e \<in> fst ` set data \<and>
     (if HasSuffix (fst e) ''_url'' then \<exists>v. (fst e, v) \<in> set data \<and> rewriteModelURLForSidecar up proxyURL v = Inr (snd e)
      else snd e = fst e @ '':ref'')"

lemma set_gomap_put: "set (gomap_put k v m) \<subseteq> insert (k, v) (set m)"
  unfolding gomap_put_def by (induction m) auto

lemma ref_data_step:
  assumes "ref_data up proxyURL ((k, v) # data) refData = Inr r"
  obtains refData' where "ref_data up proxyURL data refData' = Inr r"
    "\<forall>e \<in> set refData'. e \<in> set refData \<or> ref_entry up proxyURL ((k, v) # data) e"
proof (cases "isModelCredentialKey k")
  case True
  show ?thesis
  proof (cases "HasSuffix k ''_url''")
    case url: True
    then obtain w where w: "rewriteModelURLForSidecar up proxyURL v = Inr w"
      and r: "ref_data up proxyURL data (gomap_put k w refData) = Inr r"
      using assms True by (auto split: sum.splits)
    have "ref_entry up proxyURL ((k, v) # data) (k, w)" using True url w by (auto simp: ref_entry_def)
    with set_gomap_put[of k w refData] show ?thesis by (intro that[OF r]) auto
  next
    case False
    then have r: "ref_data up proxyURL data (gomap_put k (k @ '':ref'') refData) = Inr r" using assms True by simp
    have "ref_entry up proxyURL ((k, v) # data) (k, k @ '':ref'')" using True False by (simp add: ref_entry_def)
    with set_gomap_put[of k "k @ '':ref''" refData] show ?thesis by (intro that[OF r]) auto
  qed
next
  case False
  then show ?thesis using assms by (intro that[of refData]) simp_all
qed

lemma ref_entry_mono: "ref_entry up proxyURL data e \<Longrightarrow> ref_entry up proxyURL (d # data) e"
  by (auto simp: ref_entry_def split: if_splits)

lemma ref_data_entries:
  "ref_data up proxyURL data refData = Inr r \<Longrightarrow> e \<in> set r \<Longrightarrow> e \<in> set refData \<or> ref_entry up proxyURL data e"
proof (induction data arbitrary: refData)
  case (Cons d data)
  obtain k v where d: "d = (k, v)" by (cases d)
  obtain refData' where
    "ref_data up proxyURL data refData' = Inr r" "\<forall>e \<in> set refData'. e \<in> set refData \<or> ref_entry up proxyURL (d # data) e"
    unfolding d by (rule ref_data_step[OF Cons.prems(1)[unfolded d]])
  then have r: "e \<in> set refData' \<Longrightarrow> e \<in> set refData \<or> ref_entry up proxyURL (d # data) e"
    and t: "ref_data up proxyURL data refData' = Inr r" by blast+
  from Cons.IH[OF t Cons.prems(2)] show ?case
  proof
    assume "e \<in> set refData'"
    then show ?thesis by (rule r)
  next
    assume "ref_entry up proxyURL data e"
    then show ?thesis using ref_entry_mono by blast
  qed
qed simp

text \<open>Only the values of URL keys influence the reference secret.\<close>

lemma ref_data_independent:
  assumes "map fst data = map fst data'"
    and "\<And>k v v'. ((k, v), (k, v')) \<in> set (zip data data') \<Longrightarrow> HasSuffix k ''_url'' \<Longrightarrow> v = v'"
  shows "ref_data up proxyURL data refData = ref_data up proxyURL data' refData"
  using assms
proof (induction data arbitrary: data' refData)
  case (Cons e data)
  obtain k v where e: "e = (k, v)" by (cases e)
  with Cons.prems(1) obtain v' rest where d: "data' = (k, v') # rest" and m: "map fst data = map fst rest"
    by (cases data') auto
  have v: "HasSuffix k ''_url'' \<Longrightarrow> v = v'" using Cons.prems(2)[of k v v'] e d by simp
  have tail: "ref_data up proxyURL data r = ref_data up proxyURL rest r" for r
  proof (rule Cons.IH[OF m])
    fix l w w'
    assume z: "((l, w), (l, w')) \<in> set (zip data rest)" and l: "HasSuffix l ''_url''"
    show "w = w'" by (rule Cons.prems(2)[OF _ l]) (simp add: d z)
  qed
  show ?case
    unfolding e d ref_data.simps tail by (cases "HasSuffix k ''_url''") (simp_all only: v if_True if_False)
qed simp

end
