(* ===== verification/K8s_Cluster.thy ===== *)
theory K8s_Cluster
  imports K8s_Guarantees Effects
begin

text \<open>
  The cluster as the runtime sees it (runtimes/k8s/k8s_helper.go). The API server is outside: every call
  is an event with its answer, and an answer may depend on all events before it. So a theorem about all
  clients covers failures, lost responses, and whatever other processes do to the cluster. The store, as
  the background routine reaches it, is treated in the same way.
\<close>

section \<open>Events\<close>

datatype k8s_error = NotFound string | Conflict string | OtherError string

fun kerr_text :: "k8s_error \<Rightarrow> string" where
  "kerr_text (NotFound s) = s"
| "kerr_text (Conflict s) = s"
| "kerr_text (OtherError s) = s"

definition IsNotFound :: "k8s_error \<Rightarrow> bool" where
  "IsNotFound e = (case e of NotFound _ \<Rightarrow> True | _ \<Rightarrow> False)"

datatype k8s_event =
    ProfileRead string string "k8s_error + Unstructured"
  | ProfilesListed string "k8s_error + Unstructured list"
  | QueuesListed string "k8s_error + Unstructured list"
  | ConfigMapRead string string "k8s_error + ConfigMap"
  | ConfigMapCreated ConfigMap "k8s_error + ConfigMap"
  | ConfigMapUpdated ConfigMap "k8s_error option"
  | ConfigMapDeleted string string "k8s_error option"
  | SecretRead string string "k8s_error + Secret"
  | SecretCreated Secret "k8s_error + Secret"
  | SecretUpdated Secret "k8s_error option"
  | SecretDeleted string string "k8s_error option"
  | SecretsListed string string "k8s_error + Secret list"
  | PolicyRead string string "k8s_error + NetworkPolicy"
  | PolicyCreated NetworkPolicy "k8s_error + NetworkPolicy"
  | PolicyUpdated NetworkPolicy "k8s_error option"
  | JobRead string string "k8s_error + Job"
  | JobCreateCalled Job "k8s_error + Job"
  | JobDeleted string string "k8s_error option"
  | JobsListed string string "k8s_error + Job list"
  | JobLabelPatched string string string "k8s_error option"
  | JobAnnotationPatched string string "(string \<times> string) list" "k8s_error option"
  | PodsListed string string "k8s_error + Pod list"
  | EventEmitted string string string string
  | StoreProviderRead string "go_error + ProviderResource"
  | StoreJobRead string "go_error + EvaluationJobResource option"
  | StoreReported string BenchmarkStatusEvent "go_error option"
  | RuntimeErrorMeasured string string
  | Waited int

type_synonym events = "k8s_event list"

record k8s_client =
  kc_GetHardwareProfile :: "events \<Rightarrow> string \<Rightarrow> string \<Rightarrow> k8s_error + Unstructured"
  kc_ListHardwareProfiles :: "events \<Rightarrow> string \<Rightarrow> k8s_error + Unstructured list"
  kc_ListLocalQueues :: "events \<Rightarrow> string \<Rightarrow> k8s_error + Unstructured list"
  kc_GetConfigMap :: "events \<Rightarrow> string \<Rightarrow> string \<Rightarrow> k8s_error + ConfigMap"
  kc_CreateConfigMap :: "events \<Rightarrow> ConfigMap \<Rightarrow> k8s_error + ConfigMap"
  kc_UpdateConfigMap :: "events \<Rightarrow> ConfigMap \<Rightarrow> k8s_error option"
  kc_DeleteConfigMap :: "events \<Rightarrow> string \<Rightarrow> string \<Rightarrow> k8s_error option"
  kc_GetSecret :: "events \<Rightarrow> string \<Rightarrow> string \<Rightarrow> k8s_error + Secret"
  kc_CreateSecret :: "events \<Rightarrow> Secret \<Rightarrow> k8s_error + Secret"
  kc_UpdateSecret :: "events \<Rightarrow> Secret \<Rightarrow> k8s_error option"
  kc_DeleteSecret :: "events \<Rightarrow> string \<Rightarrow> string \<Rightarrow> k8s_error option"
  kc_ListSecrets :: "events \<Rightarrow> string \<Rightarrow> string \<Rightarrow> k8s_error + Secret list"
  kc_GetNetworkPolicy :: "events \<Rightarrow> string \<Rightarrow> string \<Rightarrow> k8s_error + NetworkPolicy"
  kc_CreateNetworkPolicy :: "events \<Rightarrow> NetworkPolicy \<Rightarrow> k8s_error + NetworkPolicy"
  kc_UpdateNetworkPolicy :: "events \<Rightarrow> NetworkPolicy \<Rightarrow> k8s_error option"
  kc_GetJob :: "events \<Rightarrow> string \<Rightarrow> string \<Rightarrow> k8s_error + Job"
  kc_CreateJob :: "events \<Rightarrow> Job \<Rightarrow> k8s_error + Job"
  kc_DeleteJob :: "events \<Rightarrow> string \<Rightarrow> string \<Rightarrow> k8s_error option"
  kc_ListJobs :: "events \<Rightarrow> string \<Rightarrow> string \<Rightarrow> k8s_error + Job list"
  kc_PatchJob :: "events \<Rightarrow> string \<Rightarrow> string \<Rightarrow> k8s_error option"
  kc_ListPods :: "events \<Rightarrow> string \<Rightarrow> string \<Rightarrow> k8s_error + Pod list"
  kc_StreamPodLogs :: "events \<Rightarrow> string \<Rightarrow> string \<Rightarrow> EvaluationLogOptions \<Rightarrow> string list \<times> k8s_error option"

text \<open>
  The helper: the dynamic client and the event recorder may be missing. retry.RetryOnConflict repeats
  an update that meets a conflict, at most as often as \<open>kh_RetrySteps\<close> says.
\<close>

record KubernetesHelper =
  kh_client :: k8s_client
  kh_dynamic :: bool
  kh_recorder :: bool
  kh_RetrySteps :: nat

section \<open>Computations with events\<close>

type_synonym 'a kact = "events \<Rightarrow> 'a \<times> events"

definition kreturn :: "'a \<Rightarrow> 'a kact" where
  "kreturn x l = (x, l)"

definition kbind :: "'a kact \<Rightarrow> ('a \<Rightarrow> 'b kact) \<Rightarrow> 'b kact" where
  "kbind m f l = (case m l of (x, l') \<Rightarrow> f x l')"

definition kcall :: "(events \<Rightarrow> 'a) \<Rightarrow> ('a \<Rightarrow> k8s_event) \<Rightarrow> 'a kact" where
  "kcall ans ev l = (let r = ans l in (r, l @ [ev r]))"

definition kemit :: "k8s_event \<Rightarrow> unit kact" where
  "kemit e l = ((), l @ [e])"

section \<open>The helper\<close>

definition required :: "string \<Rightarrow> string \<Rightarrow> 'a kact \<Rightarrow> (string \<Rightarrow> 'a) \<Rightarrow> 'a kact" where
  "required namespace name m err =
     (if namespace = '''' \<or> name = '''' then kreturn (err ''namespace and name are required'') else m)"

definition failed :: "string \<Rightarrow> k8s_error + 'a" where
  "failed s = Inl (OtherError s)"

definition failure :: "string \<Rightarrow> k8s_error option" where
  "failure s = Some (OtherError s)"

definition GetHardwareProfile :: "KubernetesHelper \<Rightarrow> string \<Rightarrow> string \<Rightarrow> (k8s_error + Unstructured) kact" where
  "GetHardwareProfile h namespace name =
     required namespace name
       (if \<not> kh_dynamic h then kreturn (failed ''dynamic kubernetes client is not configured'')
        else kcall (\<lambda>l. kc_GetHardwareProfile (kh_client h) l namespace name) (ProfileRead namespace name)) failed"

definition ListHardwareProfiles_helper :: "KubernetesHelper \<Rightarrow> string \<Rightarrow> (k8s_error + Unstructured list) kact" where
  "ListHardwareProfiles_helper h namespace =
     (if namespace = '''' then kreturn (failed ''namespace is required'')
      else if \<not> kh_dynamic h then kreturn (failed ''dynamic kubernetes client is not configured'')
      else kcall (\<lambda>l. kc_ListHardwareProfiles (kh_client h) l namespace) (ProfilesListed namespace))"

definition CreateConfigMap :: "KubernetesHelper \<Rightarrow> ConfigMap \<Rightarrow> (k8s_error + ConfigMap) kact" where
  "CreateConfigMap h cm =
     required (om_Namespace (cm_Meta cm)) (om_Name (cm_Meta cm))
       (kcall (\<lambda>l. kc_CreateConfigMap (kh_client h) l cm) (ConfigMapCreated cm)) failed"

definition CreateJob :: "KubernetesHelper \<Rightarrow> Job \<Rightarrow> (k8s_error + Job) kact" where
  "CreateJob h job =
     (if om_Namespace (jb_Meta job) = '''' \<or> om_Name (jb_Meta job) = ''''
      then kreturn (failed ''job, namespace, and name are required'')
      else kcall (\<lambda>l. kc_CreateJob (kh_client h) l job) (JobCreateCalled job))"

definition GetJob :: "KubernetesHelper \<Rightarrow> string \<Rightarrow> string \<Rightarrow> (k8s_error + Job) kact" where
  "GetJob h namespace name =
     required namespace name (kcall (\<lambda>l. kc_GetJob (kh_client h) l namespace name) (JobRead namespace name)) failed"

definition DeleteJob :: "KubernetesHelper \<Rightarrow> string \<Rightarrow> string \<Rightarrow> k8s_error option kact" where
  "DeleteJob h namespace name =
     required namespace name (kcall (\<lambda>l. kc_DeleteJob (kh_client h) l namespace name) (JobDeleted namespace name)) failure"

definition DeleteConfigMap :: "KubernetesHelper \<Rightarrow> string \<Rightarrow> string \<Rightarrow> k8s_error option kact" where
  "DeleteConfigMap h namespace name =
     required namespace name (kcall (\<lambda>l. kc_DeleteConfigMap (kh_client h) l namespace name) (ConfigMapDeleted namespace name)) failure"

definition CreateNetworkPolicy :: "KubernetesHelper \<Rightarrow> NetworkPolicy \<Rightarrow> (k8s_error + NetworkPolicy) kact" where
  "CreateNetworkPolicy h policy =
     (if om_Namespace (np_Meta policy) = '''' \<or> om_Name (np_Meta policy) = ''''
      then kreturn (failed ''network policy, namespace, and name are required'')
      else kcall (\<lambda>l. kc_CreateNetworkPolicy (kh_client h) l policy) (PolicyCreated policy))"

definition owned_by :: "OwnerReference \<Rightarrow> ObjectMeta \<Rightarrow> ObjectMeta" where
  "owned_by owner m = m\<lparr>om_OwnerReferences := [owner]\<rparr>"

text \<open>One attempt: read the policy, write it back with its new owner.\<close>

definition policy_owner_attempt :: "KubernetesHelper \<Rightarrow> string \<Rightarrow> string \<Rightarrow> OwnerReference \<Rightarrow> k8s_error option kact" where
  "policy_owner_attempt h namespace name owner =
     kbind (kcall (\<lambda>l. kc_GetNetworkPolicy (kh_client h) l namespace name) (PolicyRead namespace name)) (\<lambda>r.
       case r of
         Inl e \<Rightarrow> kreturn (Some e)
       | Inr policy \<Rightarrow>
           let p = policy\<lparr>np_Meta := owned_by owner (np_Meta policy)\<rparr>
           in kcall (\<lambda>l. kc_UpdateNetworkPolicy (kh_client h) l p) (PolicyUpdated p))"

fun retry_on_conflict :: "nat \<Rightarrow> k8s_error option kact \<Rightarrow> k8s_error option kact" where
  "retry_on_conflict 0 m = m"
| "retry_on_conflict (Suc n) m =
     kbind m (\<lambda>r. case r of Some (Conflict e) \<Rightarrow> retry_on_conflict n m | _ \<Rightarrow> kreturn r)"

definition SetNetworkPolicyOwner :: "KubernetesHelper \<Rightarrow> string \<Rightarrow> string \<Rightarrow> OwnerReference \<Rightarrow> k8s_error option kact" where
  "SetNetworkPolicyOwner h namespace name owner =
     required namespace name (retry_on_conflict (kh_RetrySteps h - 1) (policy_owner_attempt h namespace name owner)) failure"

definition ListJobs :: "KubernetesHelper \<Rightarrow> string \<Rightarrow> string \<Rightarrow> (k8s_error + Job list) kact" where
  "ListJobs h namespace labelSelector =
     (if namespace = '''' then kreturn (failed ''namespace is required'')
      else kcall (\<lambda>l. kc_ListJobs (kh_client h) l namespace labelSelector) (JobsListed namespace labelSelector))"

definition GetConfigMap :: "KubernetesHelper \<Rightarrow> string \<Rightarrow> string \<Rightarrow> (k8s_error + ConfigMap) kact" where
  "GetConfigMap h namespace name =
     required namespace name (kcall (\<lambda>l. kc_GetConfigMap (kh_client h) l namespace name) (ConfigMapRead namespace name)) failed"

definition SetConfigMapOwner :: "KubernetesHelper \<Rightarrow> string \<Rightarrow> string \<Rightarrow> OwnerReference \<Rightarrow> k8s_error option kact" where
  "SetConfigMapOwner h namespace name owner =
     required namespace name
       (kbind (kcall (\<lambda>l. kc_GetConfigMap (kh_client h) l namespace name) (ConfigMapRead namespace name)) (\<lambda>r.
          case r of
            Inl e \<Rightarrow> kreturn (Some e)
          | Inr cm \<Rightarrow>
              let c = cm\<lparr>cm_Meta := owned_by owner (cm_Meta cm)\<rparr>
              in kcall (\<lambda>l. kc_UpdateConfigMap (kh_client h) l c) (ConfigMapUpdated c))) failure"

definition GetSecret :: "KubernetesHelper \<Rightarrow> string \<Rightarrow> string \<Rightarrow> (k8s_error + Secret) kact" where
  "GetSecret h namespace name =
     required namespace name (kcall (\<lambda>l. kc_GetSecret (kh_client h) l namespace name) (SecretRead namespace name)) failed"

definition CreateSecret :: "KubernetesHelper \<Rightarrow> string \<Rightarrow> Secret \<Rightarrow> (k8s_error + Secret) kact" where
  "CreateSecret h namespace secret =
     (if namespace = '''' \<or> om_Name (se_Meta secret) = ''''
      then kreturn (failed ''secret, namespace, and name are required'')
      else
        let s = secret\<lparr>se_Meta := (se_Meta secret)\<lparr>om_Namespace := namespace\<rparr>\<rparr>
        in kcall (\<lambda>l. kc_CreateSecret (kh_client h) l s) (SecretCreated s))"

definition DeleteSecret :: "KubernetesHelper \<Rightarrow> string \<Rightarrow> string \<Rightarrow> k8s_error option kact" where
  "DeleteSecret h namespace name =
     required namespace name (kcall (\<lambda>l. kc_DeleteSecret (kh_client h) l namespace name) (SecretDeleted namespace name)) failure"

definition ListSecrets :: "KubernetesHelper \<Rightarrow> string \<Rightarrow> string \<Rightarrow> (k8s_error + Secret list) kact" where
  "ListSecrets h namespace labelSelector =
     (if namespace = '''' then kreturn (failed ''namespace is required'')
      else kcall (\<lambda>l. kc_ListSecrets (kh_client h) l namespace labelSelector) (SecretsListed namespace labelSelector))"

definition SetSecretOwner :: "KubernetesHelper \<Rightarrow> string \<Rightarrow> string \<Rightarrow> OwnerReference \<Rightarrow> k8s_error option kact" where
  "SetSecretOwner h namespace name owner =
     required namespace name
       (kbind (kcall (\<lambda>l. kc_GetSecret (kh_client h) l namespace name) (SecretRead namespace name)) (\<lambda>r.
          case r of
            Inl e \<Rightarrow> kreturn (Some e)
          | Inr secret \<Rightarrow>
              let s = secret\<lparr>se_Meta := owned_by owner (se_Meta secret)\<rparr>
              in kcall (\<lambda>l. kc_UpdateSecret (kh_client h) l s) (SecretUpdated s))) failure"

definition ListPods :: "KubernetesHelper \<Rightarrow> string \<Rightarrow> string \<Rightarrow> (k8s_error + Pod list) kact" where
  "ListPods h namespace labelSelector =
     (if namespace = '''' then kreturn (failed ''namespace is required'')
      else kcall (\<lambda>l. kc_ListPods (kh_client h) l namespace labelSelector) (PodsListed namespace labelSelector))"

definition EmitEvent :: "KubernetesHelper \<Rightarrow> Job \<Rightarrow> string \<Rightarrow> string \<Rightarrow> string \<Rightarrow> string option kact" where
  "EmitEvent h job eventtype reason message =
     (if \<not> kh_recorder h then kreturn (Some ''event recorder is not configured'')
      else if eventtype \<noteq> ''Normal'' \<and> eventtype \<noteq> ''Warning''
      then kreturn (Some (''unsupported event type '' @ Quote eventtype @ '': must be '' @ Quote ''Normal'' @ '' or '' @ Quote ''Warning''))
      else kbind (kemit (EventEmitted (om_Name (jb_Meta job)) eventtype reason message)) (\<lambda>_. kreturn None))"

text \<open>The payload of the status annotation is a map of strings here; its JSON form does not matter.\<close>

definition PatchJobStatusAnnotation :: "KubernetesHelper \<Rightarrow> string \<Rightarrow> string \<Rightarrow> (string \<times> string) list \<Rightarrow> k8s_error option kact" where
  "PatchJobStatusAnnotation h namespace name payload =
     required namespace name
       (kcall (\<lambda>l. kc_PatchJob (kh_client h) l namespace name) (JobAnnotationPatched namespace name payload)) failure"

definition PatchJobPhaseLabel :: "KubernetesHelper \<Rightarrow> string \<Rightarrow> string \<Rightarrow> string \<Rightarrow> k8s_error option kact" where
  "PatchJobPhaseLabel h namespace name phase =
     required namespace name
       (if phase = '''' then kreturn (failure ''phase is required'')
        else kcall (\<lambda>l. kc_PatchJob (kh_client h) l namespace name) (JobLabelPatched namespace name phase)) failure"

section \<open>Queues\<close>

definition active_condition :: "go_any list \<Rightarrow> go_any gomap option" where
  "active_condition conditions =
     Option.bind (find (\<lambda>c. case c of AMap m \<Rightarrow> gomap_get m ''type'' = Some (AString ''Active'') | _ \<Rightarrow> False) conditions)
       (\<lambda>c. case c of AMap m \<Rightarrow> Some m | _ \<Rightarrow> None)"

definition queue_info :: "k8s_env \<Rightarrow> Unstructured \<Rightarrow> k8s_error + QueueInfo" where
  "queue_info env item =
     (let queue = \<lparr>qi_Status = ''unknown'', qi_Name = un_Name item, qi_Active = False, qi_Reason = '''', qi_Message = ''''\<rparr>
      in (case uo_NestedSlice (ke_Unstructured env) (un_Object item) [''status'', ''conditions''] of
            Inl e \<Rightarrow> failed (''read LocalQueue '' @ Quote (un_Name item) @ '' conditions: '' @ e)
          | Inr None \<Rightarrow> Inr queue
          | Inr (Some conditions) \<Rightarrow>
              (case active_condition conditions of
                 None \<Rightarrow> Inr queue
               | Some c \<Rightarrow>
                   let status = stringFromUnstructured (gomap_get c ''status'');
                       qs = (if status = ''True'' then ''active'' else if status = ''False'' then ''inactive'' else ''unknown'')
                   in Inr (queue\<lparr>qi_Status := qs, qi_Active := (qs = ''active''),
                                 qi_Reason := stringFromUnstructured (gomap_get c ''reason''),
                                 qi_Message := stringFromUnstructured (gomap_get c ''message'')\<rparr>))))"

fun queue_infos :: "k8s_env \<Rightarrow> Unstructured list \<Rightarrow> k8s_error + QueueInfo list" where
  "queue_infos env [] = Inr []"
| "queue_infos env (item # items) = ebind (queue_info env item) (\<lambda>q. ebind (queue_infos env items) (\<lambda>qs. Inr (q # qs)))"

definition ListLocalQueues :: "KubernetesHelper \<Rightarrow> k8s_env \<Rightarrow> string \<Rightarrow> (k8s_error + QueueInfo list) kact" where
  "ListLocalQueues h env namespace =
     (if namespace = '''' then kreturn (failed ''namespace is required'')
      else if \<not> kh_dynamic h then kreturn (failed ''dynamic kubernetes client is not configured'')
      else
        kbind (kcall (\<lambda>l. kc_ListLocalQueues (kh_client h) l namespace) (QueuesListed namespace)) (\<lambda>r.
          kreturn (ebind r (\<lambda>items. ebind (queue_infos env items) (\<lambda>queues. Inr (sort_key qi_Name queues))))))"

end
