(* ===== verification/K8s_Runtime.thy ===== *)
theory K8s_Runtime
  imports K8s_Cluster
begin

text \<open>
  The Kubernetes runtime (runtimes/k8s/k8s_runtime.go, k8s_runtime_lifecycle.go, k8s_runtime_logs.go): the
  background routine that creates the objects of every benchmark and watches for the deletion or
  cancellation of its evaluation, the clean-up, the notifications, the profiles, and the logs.
\<close>

section \<open>The runtime\<close>

text \<open>
  The store as the runtime reaches it. A read gives no job when the job is nil. \<open>ry_scoped\<close> tells whether
  the handle takes a context.
\<close>

record runtime_store =
  ry_GetProvider :: "events \<Rightarrow> string \<Rightarrow> go_error + ProviderResource"
  ry_GetEvaluationJob :: "events \<Rightarrow> string \<Rightarrow> go_error + EvaluationJobResource option"
  ry_UpdateEvaluationJob :: "events \<Rightarrow> string \<Rightarrow> BenchmarkStatusEvent \<Rightarrow> go_error option"
  ry_scoped :: bool

text \<open>
  \<open>xr_shutdown\<close> tells whether the runtime has been closed, \<open>xr_poll\<close> how often the deletion of a Job is
  looked at before its time is up, and \<open>xr_GUID\<close> is uuid.NewString at a point of the history.
\<close>

record k8s_runtime =
  xr_env :: k8s_env
  xr_codecs :: k8s_codecs
  xr_serviceConfig :: "Config option"
  xr_helper :: KubernetesHelper
  xr_storage :: "runtime_store option"
  xr_registry :: "Workload list"
  xr_GUID :: "events \<Rightarrow> string"
  xr_shutdown :: "events \<Rightarrow> bool"
  xr_poll :: nat

datatype create_outcome = Created | CreateFailed string | CreatePanicked

section \<open>Deleting the resources of an evaluation\<close>

definition job_selector :: "string \<Rightarrow> string" where
  "job_selector jobID = ''job_id='' @ sanitizeLabelValue jobID"

definition join_errors :: "string option \<Rightarrow> string option \<Rightarrow> string option" where
  "join_errors a b =
     (case (a, b) of (None, _) \<Rightarrow> b | (_, None) \<Rightarrow> a | (Some x, Some y) \<Rightarrow> Some (x @ [line_break] @ y))"

definition real_error :: "k8s_error option \<Rightarrow> string option" where
  "real_error e = (case e of None \<Rightarrow> None | Some x \<Rightarrow> if IsNotFound x then None else Some (kerr_text x))"

fun delete_jobs :: "KubernetesHelper \<Rightarrow> string \<Rightarrow> Job list \<Rightarrow> string option \<Rightarrow> string option kact" where
  "delete_jobs h namespace [] err = kreturn err"
| "delete_jobs h namespace (job # jobs) err =
     kbind (DeleteJob h namespace (om_Name (jb_Meta job))) (\<lambda>r. delete_jobs h namespace jobs (join_errors err (real_error r)))"

fun delete_secrets :: "KubernetesHelper \<Rightarrow> string \<Rightarrow> Secret list \<Rightarrow> string option \<Rightarrow> string option kact" where
  "delete_secrets h namespace [] err = kreturn err"
| "delete_secrets h namespace (secret # secrets) err =
     kbind (DeleteSecret h namespace (om_Name (se_Meta secret))) (\<lambda>r.
       delete_secrets h namespace secrets (join_errors err (real_error r)))"

definition deleteLabeledJobsAndRefSecrets :: "KubernetesHelper \<Rightarrow> string \<Rightarrow> string \<Rightarrow> string option kact" where
  "deleteLabeledJobsAndRefSecrets h namespace labelSelector =
     kbind (ListJobs h namespace labelSelector) (\<lambda>r.
       case r of
         Inl e \<Rightarrow> kreturn (Some (kerr_text e))
       | Inr jobs \<Rightarrow>
           kbind (delete_jobs h namespace jobs None) (\<lambda>err.
             kbind (ListSecrets h namespace labelSelector) (\<lambda>r.
               case r of
                 Inl e \<Rightarrow> kreturn (join_errors err (Some (kerr_text e)))
               | Inr secrets \<Rightarrow> delete_secrets h namespace secrets err)))"

definition evaluation_namespace :: "k8s_runtime \<Rightarrow> EvaluationJobResource \<Rightarrow> string" where
  "evaluation_namespace r evaluation = resolveNamespace (xr_env r) (r_Tenant (ej_Resource evaluation))"

definition cleanupSweep :: "k8s_runtime \<Rightarrow> EvaluationJobResource \<Rightarrow> string option kact" where
  "cleanupSweep r evaluation =
     deleteLabeledJobsAndRefSecrets (xr_helper r) (evaluation_namespace r evaluation)
       (job_selector (r_ID (ej_Resource evaluation)))"

definition DeleteEvaluationJobResources :: "k8s_runtime \<Rightarrow> EvaluationJobResource \<Rightarrow> string option kact" where
  "DeleteEvaluationJobResources r evaluation =
     kbind (cleanupSweep r evaluation) (\<lambda>e1. kbind (cleanupSweep r evaluation) (\<lambda>e2. kreturn (join_errors e1 e2)))"

section \<open>Watching for an abort\<close>

datatype createAbortStatus = CreateAbortActive | CreateAbortAborted | CreateAbortUnknown

definition checkCreateAbort :: "k8s_runtime \<Rightarrow> string \<Rightarrow> (createAbortStatus \<times> string) kact" where
  "checkCreateAbort r jobID =
     (case xr_storage r of
        None \<Rightarrow> kreturn (CreateAbortActive, '''')
      | Some st \<Rightarrow>
          (\<lambda>l. if \<not> ry_scoped st \<and> xr_shutdown r l then ((CreateAbortUnknown, ''''), l)
               else
                 kbind (kcall (\<lambda>l. ry_GetEvaluationJob st l jobID) (StoreJobRead jobID)) (\<lambda>job.
                   kreturn
                     (case job of
                        Inl e \<Rightarrow> if has_code ResourceNotFound e then (CreateAbortAborted, ''evaluation job deleted'')
                                 else (CreateAbortUnknown, '''')
                      | Inr None \<Rightarrow> (CreateAbortAborted, ''evaluation job deleted'')
                      | Inr (Some j) \<Rightarrow>
                          (case ej_Status j of
                             Some s \<Rightarrow> if js_State s = OverallStateCancelled
                                       then (CreateAbortAborted, ''evaluation job cancelled'') else (CreateAbortActive, '''')
                           | None \<Rightarrow> (CreateAbortActive, '''')))) l))"

definition createAbortBackoffInitial :: int where "createAbortBackoffInitial = 100 * 1000000"
definition createAbortBackoffMax :: int where "createAbortBackoffMax = 5 * second"

definition next_interval :: "int \<Rightarrow> int" where
  "next_interval interval = (if interval * 2 \<le> createAbortBackoffMax then interval * 2 else createAbortBackoffMax)"

text \<open>\<open>None\<close>: the state stays unknown and the runtime is never closed.\<close>

partial_function (option) await_status ::
  "k8s_runtime \<Rightarrow> string \<Rightarrow> int \<Rightarrow> events \<Rightarrow> ((createAbortStatus \<times> string) \<times> events) option" where
  "await_status r jobID interval l =
     (case checkCreateAbort r jobID l of
        (sr, l') \<Rightarrow>
          if fst sr \<noteq> CreateAbortUnknown then Some (sr, l')
          else if xr_shutdown r (l' @ [Waited interval]) then Some ((CreateAbortUnknown, ''''), l' @ [Waited interval])
          else await_status r jobID (next_interval interval) (l' @ [Waited interval]))"

definition awaitCreateAbortStatus :: "k8s_runtime \<Rightarrow> string \<Rightarrow> events \<Rightarrow> ((createAbortStatus \<times> string) \<times> events) option" where
  "awaitCreateAbortStatus r jobID l = await_status r jobID createAbortBackoffInitial l"

definition sweepEvaluationResourcesAfterAbort :: "k8s_runtime \<Rightarrow> EvaluationJobResource \<Rightarrow> unit kact" where
  "sweepEvaluationResourcesAfterAbort r evaluation = kbind (DeleteEvaluationJobResources r evaluation) (\<lambda>_. kreturn ())"

definition handleCreateAbortDecision :: "k8s_runtime \<Rightarrow> EvaluationJobResource \<Rightarrow> events \<Rightarrow> (bool \<times> events) option" where
  "handleCreateAbortDecision r evaluation l =
     (case awaitCreateAbortStatus r (r_ID (ej_Resource evaluation)) l of
        None \<Rightarrow> None
      | Some ((status, reason), l') \<Rightarrow>
          (case status of
             CreateAbortActive \<Rightarrow> Some (False, l')
           | CreateAbortAborted \<Rightarrow> Some (True, snd (sweepEvaluationResourcesAfterAbort r evaluation l'))
           | CreateAbortUnknown \<Rightarrow> Some (True, l')))"

section \<open>Preparing an execution\<close>

record execution =
  xe_config :: jobConfig
  xe_configMap :: ConfigMap
  xe_job :: Job
  xe_policy :: NetworkPolicy
  xe_secretData :: "string gomap"

definition provider_for :: "k8s_runtime \<Rightarrow> EvaluationJobResource \<Rightarrow> EvaluationBenchmarkConfig \<Rightarrow> (go_error + ProviderResource) kact" where
  "provider_for r evaluation bench =
     (case xr_storage r of
        None \<Rightarrow> kreturn (ProviderForBenchmark (xr_registry r) evaluation bench None)
      | Some st \<Rightarrow>
          if WorkloadType (xr_registry r) evaluation bench = Inr Evaluation
          then kcall (\<lambda>l. ProviderForBenchmark (xr_registry r) evaluation bench (Some (ry_GetProvider st l)))
                 (StoreProviderRead (eb_ProviderID bench))
          else kreturn (ProviderForBenchmark (xr_registry r) evaluation bench (Some (ry_GetProvider st []))))"

definition wrap :: "EvaluationJobResource \<Rightarrow> EvaluationBenchmarkConfig \<Rightarrow> string \<Rightarrow> string" where
  "wrap evaluation bench e = ''job '' @ r_ID (ej_Resource evaluation) @ '' benchmark '' @ eb_ID bench @ '': '' @ e"

definition fetch_profile ::
  "k8s_runtime \<Rightarrow> EvaluationJobResource \<Rightarrow> EvaluationBenchmarkConfig \<Rightarrow> (string + hardwareProfileResources option) kact" where
  "fetch_profile r evaluation bench =
     (case EffectiveHardwareConfig (Some bench) (Some (ej_Config evaluation)) of
        None \<Rightarrow> kreturn (Inr None)
      | Some hw \<Rightarrow>
          let profileName = TrimSpace (hw_HardwareProfileName hw)
          in if profileName = '''' then kreturn (Inr None)
             else (case hardwareProfilesNamespace (xr_env r) of
                     Inl e \<Rightarrow> kreturn (Inl (wrap evaluation bench e))
                   | Inr ns \<Rightarrow>
                       kbind (GetHardwareProfile (xr_helper r) ns profileName) (\<lambda>cr.
                         kreturn
                           (case cr of
                              Inl e \<Rightarrow> Inl (wrap evaluation bench (''fetch hardware profile '' @ Quote profileName @
                                          '' in namespace '' @ Quote ns @ '': '' @ kerr_text e))
                            | Inr profile \<Rightarrow>
                                (case parseHardwareProfileResources (xr_env r) profile of
                                   Inl e \<Rightarrow> Inl (wrap evaluation bench (''parse hardware profile '' @ Quote profileName @ '': '' @ e))
                                 | Inr parsed \<Rightarrow> Inr (Some parsed))))))"

definition resolveMLFlowCABundleConfigMap :: "k8s_runtime \<Rightarrow> jobConfig \<Rightarrow> string kact" where
  "resolveMLFlowCABundleConfigMap r cfg =
     (if jc_evalHubInstanceName cfg = '''' \<or> jc_mlflowTrackingURI cfg = '''' then kreturn ''''
      else
        let cmName = mlflowCABundleConfigMapName (jc_evalHubInstanceName cfg)
        in kbind (GetConfigMap (xr_helper r) (jc_namespace cfg) cmName) (\<lambda>cm.
             kreturn (case cm of
                        Inl e \<Rightarrow> ''''
                      | Inr c \<Rightarrow> if TrimSpace (gomap_lookup (cm_Data c) ''ca-bundle.crt'') = '''' then '''' else cmName)))"

text \<open>The data of the credential secret when it has a key the sidecar can inject.\<close>

definition inspectModelSecret :: "k8s_runtime \<Rightarrow> string \<Rightarrow> string \<Rightarrow> (string + string gomap option) kact" where
  "inspectModelSecret r namespace secretName =
     kbind (GetSecret (xr_helper r) namespace secretName) (\<lambda>s.
       kreturn (case s of
                  Inl e \<Rightarrow> Inl (''get model credential secret '' @ Quote secretName @ '': '' @ kerr_text e)
                | Inr secret \<Rightarrow>
                    Inr (if list_ex (\<lambda>(k, v). isModelCredentialKey k) (se_Data secret) then Some (se_Data secret) else None)))"

definition with_model_url :: "string \<Rightarrow> jobConfig \<Rightarrow> jobConfig" where
  "with_model_url url cfg =
     cfg\<lparr>jc_jobSpec := (jc_jobSpec cfg)\<lparr>sp_Model := map_option (\<lambda>m. m\<lparr>mr_URL := url\<rparr>) (sp_Model (jc_jobSpec cfg))\<rparr>\<rparr>"

text \<open>The model of the specification becomes the sidecar; a secret to inject gets a reference secret.\<close>

definition redirect_model ::
  "k8s_runtime \<Rightarrow> EvaluationJobResource \<Rightarrow> EvaluationBenchmarkConfig \<Rightarrow> jobConfig \<Rightarrow> (string + jobConfig \<times> string gomap) kact" where
  "redirect_model r evaluation bench cfg =
     (if jc_modelTargetURL cfg = '''' then kreturn (Inr (cfg, []))
      else (case rewriteModelURLForSidecar (ke_url (xr_env r)) (jc_sidecarBaseURL cfg) (jc_modelTargetURL cfg) of
              Inl e \<Rightarrow> kreturn (Inl (wrap evaluation bench (''rewriting model URL for sidecar: '' @ e)))
            | Inr url \<Rightarrow>
                let cfg = with_model_url url cfg
                in if jc_modelAuthSecretRef cfg = '''' then kreturn (Inr (cfg, []))
                   else
                     kbind (inspectModelSecret r (jc_namespace cfg) (jc_modelAuthSecretRef cfg)) (\<lambda>info.
                       kreturn
                         (case info of
                            Inl e \<Rightarrow> Inl (wrap evaluation bench (''reading model auth secret: '' @ e))
                          | Inr None \<Rightarrow> Inr (cfg, [])
                          | Inr (Some data) \<Rightarrow>
                              Inr (cfg\<lparr>jc_modelInternalRefSecretName :=
                                         buildK8sName (jc_jobID cfg) (jc_resourceGUID cfg) ''-model-ref''\<rparr>, data)))))"

definition ewrap :: "EvaluationJobResource \<Rightarrow> EvaluationBenchmarkConfig \<Rightarrow> string \<Rightarrow> string + 'a \<Rightarrow> string + 'a" where
  "ewrap evaluation bench what x = (case x of Inl e \<Rightarrow> Inl (wrap evaluation bench (what @ e)) | Inr y \<Rightarrow> Inr y)"

definition build_objects ::
  "k8s_runtime \<Rightarrow> EvaluationJobResource \<Rightarrow> EvaluationBenchmarkConfig \<Rightarrow> jobConfig \<Rightarrow> string gomap \<Rightarrow> string + execution" where
  "build_objects r evaluation bench cfg0 data =
     (let cfg = cfg0\<lparr>jc_sidecarConfig := sidecarForJobPod (xr_serviceConfig r) cfg0\<rparr>
      in ebind (ewrap evaluation bench '''' (buildConfigMap (xr_codecs r) cfg)) (\<lambda>cm.
         ebind (ewrap evaluation bench '''' (buildJob (xr_env r) (xr_codecs r) cfg (xr_serviceConfig r))) (\<lambda>job.
         ebind (ewrap evaluation bench ''network policy: '' (buildJobNetworkPolicy (xr_codecs r) cfg)) (\<lambda>np.
           Inr \<lparr>xe_config = cfg, xe_configMap = cm, xe_job = job, xe_policy = np, xe_secretData = data\<rparr>))))"

text \<open>A step of the preparation that may end it with an outcome.\<close>

definition kchain :: "('o + 'a) kact \<Rightarrow> ('a \<Rightarrow> ('o + 'b) kact) \<Rightarrow> ('o + 'b) kact" where
  "kchain m f = kbind m (\<lambda>x. case x of Inl e \<Rightarrow> kreturn (Inl e) | Inr y \<Rightarrow> f y)"

definition kfail :: "(string + 'a) kact \<Rightarrow> (create_outcome + 'a) kact" where
  "kfail m = kbind m (\<lambda>x. kreturn (map_sum CreateFailed id x))"

definition built_config ::
  "k8s_runtime \<Rightarrow> EvaluationJobResource \<Rightarrow> ProviderResource \<Rightarrow> EvaluationBenchmarkConfig \<Rightarrow> int \<Rightarrow>
   hardwareProfileResources option \<Rightarrow> (create_outcome + jobConfig) kact" where
  "built_config r evaluation provider bench benchmarkIndex profile =
     (\<lambda>l. ((case buildJobConfig (xr_env r) evaluation provider bench benchmarkIndex (xr_serviceConfig r) profile (xr_GUID r l) of
              None \<Rightarrow> Inl CreatePanicked
            | Some (Inl e) \<Rightarrow> Inl (CreateFailed (wrap evaluation bench e))
            | Some (Inr cfg) \<Rightarrow>
                (case Option.bind (xr_serviceConfig r) cf_Service of
                   None \<Rightarrow> Inl (CreateFailed ''service config is required'')
                 | Some sv \<Rightarrow> Inr (cfg\<lparr>jc_testDataInitImage := sv_EvalInitImage sv\<rparr>))), l))"

definition prepareExecution ::
  "k8s_runtime \<Rightarrow> EvaluationJobResource \<Rightarrow> EvaluationBenchmarkConfig \<Rightarrow> int \<Rightarrow> (create_outcome + execution) kact" where
  "prepareExecution r evaluation bench benchmarkIndex =
     kchain (kbind (provider_for r evaluation bench) (\<lambda>p. kreturn (map_sum (CreateFailed \<circ> err_text) id p))) (\<lambda>provider.
     kchain (kfail (fetch_profile r evaluation bench)) (\<lambda>profile.
     kchain (built_config r evaluation provider bench benchmarkIndex profile) (\<lambda>cfg.
     kbind (resolveMLFlowCABundleConfigMap r cfg) (\<lambda>bundle.
     kchain (kfail (redirect_model r evaluation bench (cfg\<lparr>jc_mlflowCABundleConfigMap := bundle\<rparr>))) (\<lambda>(cfg, data).
     kfail (kreturn (build_objects r evaluation bench cfg data)))))))"

section \<open>Creating the objects\<close>

definition cleanupModelRefSecret :: "k8s_runtime \<Rightarrow> jobConfig \<Rightarrow> unit kact" where
  "cleanupModelRefSecret r cfg =
     (if jc_modelInternalRefSecretName cfg = '''' then kreturn ()
      else kbind (DeleteSecret (xr_helper r) (jc_namespace cfg) (jc_modelInternalRefSecretName cfg)) (\<lambda>_. kreturn ()))"

definition cleanupConfigMap :: "k8s_runtime \<Rightarrow> ConfigMap \<Rightarrow> unit kact" where
  "cleanupConfigMap r cm =
     kbind (DeleteConfigMap (xr_helper r) (om_Namespace (cm_Meta cm)) (om_Name (cm_Meta cm))) (\<lambda>_. kreturn ())"

text \<open>Both clean-ups, then the outcome.\<close>

definition roll_back :: "k8s_runtime \<Rightarrow> execution \<Rightarrow> create_outcome \<Rightarrow> create_outcome kact" where
  "roll_back r e outcome =
     kbind (cleanupModelRefSecret r (xe_config e)) (\<lambda>_. kbind (cleanupConfigMap r (xe_configMap e)) (\<lambda>_. kreturn outcome))"

definition owner_ref :: "string \<Rightarrow> string \<Rightarrow> ObjectMeta \<Rightarrow> OwnerReference" where
  "owner_ref apiVersion kind m =
     \<lparr>ow_APIVersion = apiVersion, ow_Kind = kind, ow_Name = om_Name m, ow_UID = om_UID m, ow_Controller = boolPtr True\<rparr>"

definition joined :: "string \<Rightarrow> string \<Rightarrow> create_outcome" where
  "joined a b = CreateFailed (a @ [line_break] @ b)"

text \<open>wait.PollUntilContextTimeout on the deletion of the Job: \<open>None\<close> when it is gone.\<close>

fun wait_deleted :: "KubernetesHelper \<Rightarrow> nat \<Rightarrow> string \<Rightarrow> string \<Rightarrow> string option kact" where
  "wait_deleted h 0 namespace name = kreturn (Some ''context deadline exceeded'')"
| "wait_deleted h (Suc n) namespace name =
     kbind (GetJob h namespace name) (\<lambda>j.
       case j of
         Inl e \<Rightarrow> kreturn (if IsNotFound e then None else Some (kerr_text e))
       | Inr _ \<Rightarrow> wait_deleted h n namespace name)"

text \<open>The policy could not be handed over to the Job: the Job is deleted, and then what supports it.\<close>

definition policy_owner_failed :: "k8s_runtime \<Rightarrow> execution \<Rightarrow> Job \<Rightarrow> string \<Rightarrow> create_outcome kact" where
  "policy_owner_failed r e createdJob ownerErr =
     (let ns = om_Namespace (jb_Meta createdJob); name = om_Name (jb_Meta createdJob)
      in kbind (DeleteJob (xr_helper r) ns name) (\<lambda>d.
           case real_error d of
             Some err \<Rightarrow> kreturn (joined ownerErr (''delete job after network policy owner failure: '' @ err))
           | None \<Rightarrow>
               kbind (wait_deleted (xr_helper r) (xr_poll r) ns name) (\<lambda>w.
                 case w of
                   Some err \<Rightarrow> kreturn (joined ownerErr (''wait for job deletion after network policy owner failure: '' @ err))
                 | None \<Rightarrow> roll_back r e (CreateFailed ownerErr))))"

text \<open>The ConfigMap is gone: the Job can never mount it.\<close>

definition config_map_missing :: "k8s_runtime \<Rightarrow> execution \<Rightarrow> Job \<Rightarrow> create_outcome kact" where
  "config_map_missing r e createdJob =
     kbind (DeleteJob (xr_helper r) (om_Namespace (jb_Meta createdJob)) (om_Name (jb_Meta createdJob))) (\<lambda>d.
       case real_error d of
         Some err \<Rightarrow> kreturn (CreateFailed err)
       | None \<Rightarrow> kbind (cleanupModelRefSecret r (xe_config e)) (\<lambda>_. kreturn Created))"

definition own_secret :: "k8s_runtime \<Rightarrow> execution \<Rightarrow> OwnerReference \<Rightarrow> create_outcome kact" where
  "own_secret r e ownerRef =
     (let cfg = xe_config e
      in if jc_modelInternalRefSecretName cfg = '''' then kreturn Created
         else
           kbind (SetSecretOwner (xr_helper r) (jc_namespace cfg) (jc_modelInternalRefSecretName cfg) ownerRef) (\<lambda>s.
             case s of
               None \<Rightarrow> kreturn Created
             | Some _ \<Rightarrow> kbind (cleanupModelRefSecret r cfg) (\<lambda>_. kreturn Created)))"

definition own_objects :: "k8s_runtime \<Rightarrow> (string \<Rightarrow> string) \<Rightarrow> execution \<Rightarrow> Job \<Rightarrow> create_outcome kact" where
  "own_objects r wr e createdJob =
     (let ownerRef = owner_ref ''batch/v1'' ''Job'' (jb_Meta createdJob);
          np = np_Meta (xe_policy e); cm = cm_Meta (xe_configMap e)
      in kbind (SetNetworkPolicyOwner (xr_helper r) (om_Namespace np) (om_Name np) ownerRef) (\<lambda>p.
           case p of
             Some err \<Rightarrow> policy_owner_failed r e createdJob (wr (''set network policy owner: '' @ kerr_text err))
           | None \<Rightarrow>
               kbind (SetConfigMapOwner (xr_helper r) (om_Namespace cm) (om_Name cm) ownerRef) (\<lambda>c.
                 case c of
                   Some err \<Rightarrow> if IsNotFound err then config_map_missing r e createdJob else own_secret r e ownerRef
                 | None \<Rightarrow> own_secret r e ownerRef)))"

text \<open>The call to create the Job failed: what became of the Job decides.\<close>

definition confirm_job :: "k8s_runtime \<Rightarrow> (string \<Rightarrow> string) \<Rightarrow> execution \<Rightarrow> string \<Rightarrow> create_outcome kact" where
  "confirm_job r wr e err =
     (let job = xe_job e; ns = om_Namespace (jb_Meta job); name = om_Name (jb_Meta job)
      in kbind (GetJob (xr_helper r) ns name) (\<lambda>g.
           case g of
             Inr existingJob \<Rightarrow>
               if jobMatchesExecution existingJob job then own_objects r wr e existingJob
               else roll_back r e (joined (wr (''create job: '' @ err))
                      (''job '' @ name @ '' exists but does not match the execution identity''))
           | Inl getErr \<Rightarrow>
               if IsNotFound getErr then roll_back r e (CreateFailed (wr err))
               else kreturn (joined (wr (''create job: '' @ err)) (''confirm job creation outcome: '' @ kerr_text getErr))))"

definition create_job :: "k8s_runtime \<Rightarrow> (string \<Rightarrow> string) \<Rightarrow> execution \<Rightarrow> create_outcome kact" where
  "create_job r wr e =
     kbind (CreateJob (xr_helper r) (xe_job e)) (\<lambda>j.
       case j of
         Inl err \<Rightarrow> confirm_job r wr e (kerr_text err)
       | Inr createdJob \<Rightarrow> own_objects r wr e createdJob)"

text \<open>The policy is owned by the ConfigMap until the Job exists.\<close>

definition create_policy_and_job :: "k8s_runtime \<Rightarrow> (string \<Rightarrow> string) \<Rightarrow> execution \<Rightarrow> ConfigMap \<Rightarrow> create_outcome kact" where
  "create_policy_and_job r wr e createdConfigMap =
     (let np = (xe_policy e)\<lparr>np_Meta := owned_by (owner_ref ''v1'' ''ConfigMap'' (cm_Meta createdConfigMap)) (np_Meta (xe_policy e))\<rparr>
      in kbind (CreateNetworkPolicy (xr_helper r) np) (\<lambda>p.
           case p of
             Inl err \<Rightarrow> roll_back r e (CreateFailed (wr (''create network policy: '' @ kerr_text err)))
           | Inr _ \<Rightarrow> create_job r wr e))"

definition create_config_map :: "k8s_runtime \<Rightarrow> (string \<Rightarrow> string) \<Rightarrow> execution \<Rightarrow> create_outcome kact" where
  "create_config_map r wr e =
     kbind (CreateConfigMap (xr_helper r) (xe_configMap e)) (\<lambda>c.
       case c of
         Inl err \<Rightarrow> kbind (cleanupModelRefSecret r (xe_config e)) (\<lambda>_. kreturn (CreateFailed (wr (kerr_text err))))
       | Inr createdConfigMap \<Rightarrow> create_policy_and_job r wr e createdConfigMap)"

definition buildInternalModelRefSecret :: "k8s_runtime \<Rightarrow> execution \<Rightarrow> string option kact" where
  "buildInternalModelRefSecret r e =
     (let cfg = xe_config e
      in (case internalModelRefSecret (ke_url (xr_env r)) (jc_namespace cfg) (jc_modelInternalRefSecretName cfg)
                 (xe_secretData e) (jc_sidecarBaseURL cfg) (jobLabels cfg) of
            Inl err \<Rightarrow> kreturn (Some err)
          | Inr secret \<Rightarrow>
              kbind (CreateSecret (xr_helper r) (jc_namespace cfg) secret) (\<lambda>s.
                kreturn (case s of Inl err \<Rightarrow> Some (kerr_text err) | Inr _ \<Rightarrow> None))))"

definition createExecution :: "k8s_runtime \<Rightarrow> (string \<Rightarrow> string) \<Rightarrow> execution \<Rightarrow> create_outcome kact" where
  "createExecution r wr e =
     (if jc_modelInternalRefSecretName (xe_config e) = '''' then create_config_map r wr e
      else
        kbind (buildInternalModelRefSecret r e) (\<lambda>s.
          case s of
            Some err \<Rightarrow> kreturn (CreateFailed (wr (''internalModelRef secret: '' @ err)))
          | None \<Rightarrow> create_config_map r wr e))"

definition createBenchmarkResources ::
  "k8s_runtime \<Rightarrow> EvaluationJobResource \<Rightarrow> EvaluationBenchmarkConfig \<Rightarrow> int \<Rightarrow> create_outcome kact" where
  "createBenchmarkResources r evaluation bench benchmarkIndex =
     kbind (prepareExecution r evaluation bench benchmarkIndex) (\<lambda>p.
       case p of
         Inl outcome \<Rightarrow> kreturn outcome
       | Inr e \<Rightarrow> createExecution r (wrap evaluation bench) e)"

section \<open>The background routine\<close>

definition buildBenchmarkFailureStatus :: "EvaluationBenchmarkConfig \<Rightarrow> int \<Rightarrow> string \<Rightarrow> BenchmarkStatusEvent" where
  "buildBenchmarkFailureStatus bench benchmarkIndex err =
     \<lparr>be_ProviderID = eb_ProviderID bench, be_ID = eb_ID bench, be_BenchmarkIndex = benchmarkIndex, be_Status = StateFailed,
      be_Phase = JobPhaseOther '''', be_Metrics = [], be_MetricsSchema = [], be_PrimaryScore = None, be_AdditionalInfo = [],
      be_Artifacts = [],
      be_ErrorMessage = WithMessageOrigin (Some \<lparr>mi_Message = err, mi_MessageCode = ''evaluation_job_failed'',
                                                 mi_MessageOrigin = MessageOriginUnset\<rparr>) MessageOriginServer,
      be_WarningMessage = None, be_StartedAt = '''', be_CompletedAt = '''', be_MLFlowRunID = '''', be_LogsPath = '''',
      be_JobMeta = None\<rparr>"

definition record_failure ::
  "k8s_runtime \<Rightarrow> EvaluationJobResource \<Rightarrow> EvaluationBenchmarkConfig \<Rightarrow> int \<Rightarrow> create_outcome \<Rightarrow> events \<Rightarrow> events" where
  "record_failure r evaluation bench idx outcome l =
     (case outcome of
        CreateFailed err \<Rightarrow>
          let l1 = l @ [RuntimeErrorMeasured ''kubernetes'' (r_Tenant (ej_Resource evaluation))];
              jobID = r_ID (ej_Resource evaluation); status = buildBenchmarkFailureStatus bench idx err
          in (case xr_storage r of
                None \<Rightarrow> l1
              | Some st \<Rightarrow> l1 @ [StoreReported jobID status (ry_UpdateEvaluationJob st l1 jobID status)])
      | _ \<Rightarrow> l)"

datatype loop_end = LoopFinished | LoopStopped | LoopPanicked

fun create_loop ::
  "k8s_runtime \<Rightarrow> EvaluationJobResource \<Rightarrow> int \<Rightarrow> EvaluationBenchmarkConfig list \<Rightarrow> events \<Rightarrow> (loop_end \<times> events) option" where
  "create_loop r evaluation idx [] l = Some (LoopFinished, l)"
| "create_loop r evaluation idx (bench # benches) l =
     (case handleCreateAbortDecision r evaluation l of
        None \<Rightarrow> None
      | Some (True, l1) \<Rightarrow> Some (LoopStopped, l1)
      | Some (False, l1) \<Rightarrow>
          (case createBenchmarkResources r evaluation bench idx l1 of
             (CreatePanicked, l2) \<Rightarrow> Some (LoopPanicked, l2)
           | (outcome, l2) \<Rightarrow>
               (case handleCreateAbortDecision r evaluation l2 of
                  None \<Rightarrow> None
                | Some (True, l3) \<Rightarrow> Some (LoopStopped, l3)
                | Some (False, l3) \<Rightarrow> create_loop r evaluation (idx + 1) benches (record_failure r evaluation bench idx outcome l3))))"

text \<open>RunEvaluationJob returns at once; its routine runs \<open>create_loop\<close> from the first benchmark.\<close>

definition RunEvaluationJob :: "EvaluationJobResource \<Rightarrow> EvaluationBenchmarkConfig list \<Rightarrow> go_error option" where
  "RunEvaluationJob evaluation benchmarks =
     (if benchmarks = [] then Some (NewServiceError EvaluationJobEmpty [''EvaluationJobID'', r_ID (ej_Resource evaluation)]) else None)"

definition run_in_background ::
  "k8s_runtime \<Rightarrow> EvaluationJobResource \<Rightarrow> EvaluationBenchmarkConfig list \<Rightarrow> events \<Rightarrow> (loop_end \<times> events) option" where
  "run_in_background r evaluation benchmarks l = create_loop r evaluation 0 benchmarks l"

end
