(* ===== verification/K8s_Operations.thy ===== *)
theory K8s_Operations
  imports K8s_Runtime
begin

text \<open>
  The other operations of the Kubernetes runtime: the check and the list of hardware profiles
  (k8s_runtime.go), the lifecycle signals (k8s_runtime_lifecycle.go) and the logs
  (k8s_runtime_logs.go); and the runtime as the handlers call it.
\<close>

section \<open>Hardware profiles\<close>

text \<open>The error of one benchmark, \<open>None\<close> when it passes.\<close>

definition validate_profile :: "k8s_runtime \<Rightarrow> EvaluationBenchmarkConfig \<Rightarrow> go_error option kact" where
  "validate_profile r benchmark =
     (case eb_HardwareConfig benchmark of
        None \<Rightarrow> kreturn None
      | Some hw \<Rightarrow>
          let profileName = TrimSpace (hw_HardwareProfileName hw)
          in if profileName = '''' then kreturn None
             else (case hardwareProfilesNamespace (xr_env r) of
                     Inl e \<Rightarrow> kreturn (Some (NewServiceError HardwareProfileFetchFailed [''Name'', profileName]))
                   | Inr ns \<Rightarrow>
                       kbind (GetHardwareProfile (xr_helper r) ns profileName) (\<lambda>cr.
                         kreturn
                           (case cr of
                              Inl e \<Rightarrow> Some (NewServiceError (if IsNotFound e then HardwareProfileNotFound else HardwareProfileFetchFailed)
                                                [''Name'', profileName])
                            | Inr profile \<Rightarrow>
                                if isHardwareProfileDisabled profile
                                then Some (NewServiceError HardwareProfileDisabled [''Name'', profileName])
                                else (case parseHardwareProfileResources (xr_env r) profile of
                                        Inl e \<Rightarrow> Some (NewServiceError HardwareProfileInvalid [''Name'', profileName, ''Error'', e])
                                      | Inr _ \<Rightarrow> None)))))"

fun ValidateHardwareProfiles :: "k8s_runtime \<Rightarrow> EvaluationBenchmarkConfig list \<Rightarrow> go_error option kact" where
  "ValidateHardwareProfiles r [] = kreturn None"
| "ValidateHardwareProfiles r (b # bs) =
     kbind (validate_profile r b) (\<lambda>e. case e of Some x \<Rightarrow> kreturn (Some x) | None \<Rightarrow> ValidateHardwareProfiles r bs)"

definition profile_info :: "Unstructured \<Rightarrow> hardwareProfileResources \<Rightarrow> QueueAvailability option \<Rightarrow> HardwareProfileInfo" where
  "profile_info profile parsed availability =
     \<lparr>hp_PriorityClassName = hr_priorityClassName parsed, hp_QueueName = hr_queueName parsed, hp_Name = un_Name profile,
      hp_DisplayName = gomap_lookup (un_Annotations profile) ''opendatahub.io/display-name'',
      hp_Description = gomap_lookup (un_Annotations profile) ''opendatahub.io/description'',
      hp_SchedulingType = ToLower (hr_schedulingType parsed), hp_Identifiers = hr_identifiers parsed,
      hp_QueueAvailability = availability\<rparr>"

definition availability_of :: "QueueInfo \<Rightarrow> QueueAvailability" where
  "availability_of q = \<lparr>qa_Status = qi_Status q, qa_Reason = qi_Reason q, qa_Message = qi_Message q\<rparr>"

text \<open>The loop over the profiles; \<open>queues\<close> is \<open>None\<close> until the first profile with a queue.\<close>

fun list_profiles ::
  "k8s_runtime \<Rightarrow> string \<Rightarrow> Unstructured list \<Rightarrow> QueueInfo list option \<Rightarrow> HardwareProfileInfo list \<Rightarrow>
   (string + HardwareProfileInfo list) kact" where
  "list_profiles r namespace [] queues result = kreturn (Inr result)"
| "list_profiles r namespace (profile # profiles) queues result =
     (if isHardwareProfileDisabled profile then list_profiles r namespace profiles queues result
      else (case parseHardwareProfileResources (xr_env r) profile of
              Inl e \<Rightarrow> kreturn (Inl (''parse hardware profile '' @ Quote (un_Name profile) @ '': '' @ e))
            | Inr parsed \<Rightarrow>
                if hr_schedulingType parsed \<noteq> ''Queue''
                then list_profiles r namespace profiles queues (result @ [profile_info profile parsed None])
                else if hr_queueName parsed = '''' then list_profiles r namespace profiles queues result
                else
                  kbind (case queues of
                           Some qs \<Rightarrow> kreturn (Inr qs)
                         | None \<Rightarrow> ListLocalQueues (xr_helper r) (xr_env r) namespace) (\<lambda>q.
                    case q of
                      Inl e \<Rightarrow> kreturn (Inl (kerr_text e))
                    | Inr qs \<Rightarrow>
                        (case find (\<lambda>x. qi_Name x = hr_queueName parsed) (rev qs) of
                           None \<Rightarrow> list_profiles r namespace profiles (Some qs) result
                         | Some x \<Rightarrow>
                             list_profiles r namespace profiles (Some qs)
                               (result @ [profile_info profile parsed (Some (availability_of x))])))))"

definition ListHardwareProfiles :: "k8s_runtime \<Rightarrow> string \<Rightarrow> (string + HardwareProfileInfo list) kact" where
  "ListHardwareProfiles r namespace =
     (if namespace = '''' then kreturn (Inl ''tenant namespace is required'')
      else (case hardwareProfilesNamespace (xr_env r) of
              Inl e \<Rightarrow> kreturn (Inl e)
            | Inr profileNamespace \<Rightarrow>
                kbind (ListHardwareProfiles_helper (xr_helper r) profileNamespace) (\<lambda>p.
                  case p of
                    Inl e \<Rightarrow> kreturn (Inl (kerr_text e))
                  | Inr profiles \<Rightarrow>
                      kbind (list_profiles r namespace profiles None []) (\<lambda>res.
                        kreturn (map_sum id (sort_key hp_Name) res)))))"

section \<open>Lifecycle signals\<close>

definition lifecycleSignal :: "State \<Rightarrow> (string \<times> string \<times> string) option" where
  "lifecycleSignal state =
     (case state of
        StateRunning \<Rightarrow> Some (''Running'', ''Normal'', ''EvaluationRunning'')
      | StateCompleted \<Rightarrow> Some (''Completed'', ''Normal'', ''EvaluationCompleted'')
      | StateFailed \<Rightarrow> Some (''Failed'', ''Warning'', ''EvaluationFailed'')
      | _ \<Rightarrow> None)"

definition benchmark_selector :: "string \<Rightarrow> int \<Rightarrow> string" where
  "benchmark_selector jobID benchmarkIndex =
     ''job_id='' @ sanitizeLabelValue jobID @ '',benchmark_index='' @ sanitizeLabelValue (Itoa benchmarkIndex)"

text \<open>The time of the signal is the argument \<open>now\<close>.\<close>

fun signal_jobs ::
  "k8s_runtime \<Rightarrow> string \<Rightarrow> string \<Rightarrow> int \<Rightarrow> string \<Rightarrow> string \<times> string \<times> string \<Rightarrow> Job list \<Rightarrow> unit kact" where
  "signal_jobs r now jobID benchmarkIndex namespace sig [] = kreturn ()"
| "signal_jobs r now jobID benchmarkIndex namespace sig (job # jobs) =
     (let name = om_Name (jb_Meta job); phase = fst sig; eventtype = fst (snd sig); reason = snd (snd sig)
      in kbind (PatchJobPhaseLabel (xr_helper r) namespace name phase) (\<lambda>_.
         kbind (PatchJobStatusAnnotation (xr_helper r) namespace name
                  [(''phase'', phase), (''timestamp'', now), (''evaluation_id'', jobID), (''benchmark_index'', Itoa benchmarkIndex)]) (\<lambda>_.
         kbind (EmitEvent (xr_helper r) job eventtype reason
                  (''benchmark '' @ Itoa benchmarkIndex @ '' phase transition: '' @ phase)) (\<lambda>_.
           signal_jobs r now jobID benchmarkIndex namespace sig jobs))))"

definition NotifyJobPhaseTransition :: "k8s_runtime \<Rightarrow> string \<Rightarrow> EvaluationJobResource \<Rightarrow> int \<Rightarrow> State \<Rightarrow> unit kact" where
  "NotifyJobPhaseTransition r now evaluation benchmarkIndex state =
     (case lifecycleSignal state of
        None \<Rightarrow> kreturn ()
      | Some sig \<Rightarrow>
          let namespace = evaluation_namespace r evaluation; jobID = r_ID (ej_Resource evaluation)
          in kbind (ListJobs (xr_helper r) namespace (benchmark_selector jobID benchmarkIndex)) (\<lambda>jobs.
               case jobs of
                 Inl e \<Rightarrow> kreturn ()
               | Inr js \<Rightarrow> signal_jobs r now jobID benchmarkIndex namespace sig js))"

text \<open>The message of the violation is formatted by package fmt.\<close>

fun violation_jobs :: "k8s_runtime \<Rightarrow> string \<Rightarrow> string \<Rightarrow> Job list \<Rightarrow> unit kact" where
  "violation_jobs r namespace message [] = kreturn ()"
| "violation_jobs r namespace message (job # jobs) =
     kbind (PatchJobPhaseLabel (xr_helper r) namespace (om_Name (jb_Meta job)) ''ThresholdViolated'') (\<lambda>_.
     kbind (EmitEvent (xr_helper r) job ''Warning'' ''EvaluationThresholdViolated'' message) (\<lambda>_.
       violation_jobs r namespace message jobs))"

definition NotifyThresholdViolation :: "k8s_runtime \<Rightarrow> EvaluationJobResource \<Rightarrow> int \<Rightarrow> string \<Rightarrow> unit kact" where
  "NotifyThresholdViolation r evaluation benchmarkIndex message =
     (let namespace = evaluation_namespace r evaluation
      in kbind (ListJobs (xr_helper r) namespace (benchmark_selector (r_ID (ej_Resource evaluation)) benchmarkIndex)) (\<lambda>jobs.
           case jobs of
             Inl e \<Rightarrow> kreturn ()
           | Inr js \<Rightarrow> violation_jobs r namespace message js))"

section \<open>Logs\<close>

text \<open>
  A log stream is what has been written and the error that ended it. sort.Slice puts the youngest pod
  first.
\<close>

definition latestJobPod :: "k8s_runtime \<Rightarrow> string \<Rightarrow> string \<Rightarrow> (k8s_error + Pod option) kact" where
  "latestJobPod r namespace name =
     kbind (ListPods (xr_helper r) namespace (''job-name='' @ name)) (\<lambda>p.
       kreturn (case p of
                  Inl e \<Rightarrow> Inl e
                | Inr [] \<Rightarrow> Inr None
                | Inr pods \<Rightarrow> Inr (Some (hd (sort_key (\<lambda>x. - pd_CreationTimestamp x) pods)))))"

definition StreamPodLogs :: "k8s_runtime \<Rightarrow> string \<Rightarrow> string \<Rightarrow> EvaluationLogOptions \<Rightarrow> (string list \<times> k8s_error option) kact" where
  "StreamPodLogs r namespace podName opts =
     (if namespace = '''' \<or> podName = '''' then kreturn ([], failure ''namespace and pod name are required'')
      else (\<lambda>l. (kc_StreamPodLogs (kh_client (xr_helper r)) l namespace podName opts, l)))"

definition streamBenchmarkLogs ::
  "k8s_runtime \<Rightarrow> EvaluationJobResource \<Rightarrow> EvaluationBenchmarkConfig \<Rightarrow> int \<Rightarrow> EvaluationLogOptions \<Rightarrow> bool \<Rightarrow>
   (string list \<times> string option) kact" where
  "streamBenchmarkLogs r evaluation bench benchmarkIndex opts includeHeader =
     (let namespace = evaluation_namespace r evaluation;
          header = (\<lambda>pod. if includeHeader then [FormatLogSectionHeader pod ''adapter'' (eb_ID bench)] else [])
      in kbind (ListJobs (xr_helper r) namespace (benchmark_selector (r_ID (ej_Resource evaluation)) benchmarkIndex)) (\<lambda>jobs.
           case jobs of
             Inl e \<Rightarrow> kreturn ([], Some (kerr_text e))
           | Inr [] \<Rightarrow> kreturn (header ''unknown'', None)
           | Inr (job # _) \<Rightarrow>
               kbind (latestJobPod r namespace (om_Name (jb_Meta job))) (\<lambda>pod.
                 case pod of
                   Inl e \<Rightarrow> kreturn ([], Some (kerr_text e))
                 | Inr None \<Rightarrow> kreturn (header (om_Name (jb_Meta job)), None)
                 | Inr (Some p) \<Rightarrow>
                     kbind (StreamPodLogs r namespace (pd_Name p) opts) (\<lambda>s.
                       kreturn (map (\<lambda>h. h @ [line_break]) (header (pd_Name p)) @ fst s, real_error (snd s))))))"

fun stream_all ::
  "k8s_runtime \<Rightarrow> EvaluationJobResource \<Rightarrow> EvaluationLogOptions \<Rightarrow> int \<Rightarrow> EvaluationBenchmarkConfig list \<Rightarrow>
   (string list \<times> string option) kact" where
  "stream_all r evaluation opts i [] = kreturn ([], None)"
| "stream_all r evaluation opts i (bench # benches) =
     kbind (streamBenchmarkLogs r evaluation bench i opts True) (\<lambda>s.
       let out = (if i > 0 then [[line_break]] else []) @ fst s
       in (case snd s of
             Some e \<Rightarrow> kreturn (out, Some e)
           | None \<Rightarrow> kbind (stream_all r evaluation opts (i + 1) benches) (\<lambda>t. kreturn (out @ fst t, snd t))))"

definition StreamEvaluationLogs ::
  "k8s_runtime \<Rightarrow> EvaluationJobResource \<Rightarrow> EvaluationBenchmarkConfig list \<Rightarrow> int option \<Rightarrow> EvaluationLogOptions \<Rightarrow>
   (string list \<times> string option) kact" where
  "StreamEvaluationLogs r evaluation benchmarks benchmarkIndex opts =
     (if benchmarks = []
      then kreturn ([], Some (err_text (NewServiceError EvaluationJobEmpty [''EvaluationJobID'', r_ID (ej_Resource evaluation)])))
      else (case benchmarkIndex of
              Some i \<Rightarrow>
                if i < 0 \<or> i \<ge> int (length benchmarks)
                then kreturn ([], Some (err_text (NewServiceError ResourceNotFound
                                     [''Type'', ''benchmark'', ''ResourceId'', Itoa i])))
                else streamBenchmarkLogs r evaluation (benchmarks ! nat i) i opts False
            | None \<Rightarrow> stream_all r evaluation opts 0 benchmarks))"

section \<open>The runtime for the handlers\<close>

text \<open>
  The history of the handlers determines what has happened on the cluster (\<open>seen\<close>). RunEvaluationJob
  itself does not touch the store: its routine does.
\<close>

definition k8s_runtime_ops :: "k8s_runtime \<Rightarrow> (effect list \<Rightarrow> events) \<Rightarrow> runtime_ops" where
  "k8s_runtime_ops r seen =
     \<lparr>ro_Name = ''kubernetes'',
      ro_ValidateHardwareProfiles = (\<lambda>h benchmarks. fst (ValidateHardwareProfiles r benchmarks (seen h))),
      ro_RunEvaluationJob = (\<lambda>h evaluation benchmarks. RunDone (RunEvaluationJob evaluation benchmarks)),
      ro_StreamEvaluationLogs =
        (\<lambda>h evaluation benchmarks i opts. fst (fst (StreamEvaluationLogs r evaluation benchmarks i opts (seen h))))\<rparr>"

end
