(* ===== verification/K8s_Monitors.thy ===== *)
theory K8s_Monitors
  imports K8s_Operations
begin

text \<open>
  Reasoning about what the runtime does to the cluster. A monitor is an automaton over events; it has no
  successor for an event that must not happen. A triple says that a computation, started in a state
  with some property, extends the history by events the monitor accepts and ends in a state with some
  property.
\<close>

section \<open>Monitors and triples\<close>

type_synonym 's monitor = "'s \<Rightarrow> k8s_event \<Rightarrow> 's option"

fun observe :: "'s monitor \<Rightarrow> 's \<Rightarrow> events \<Rightarrow> 's option" where
  "observe d s [] = Some s"
| "observe d s (e # es) = (case d s e of None \<Rightarrow> None | Some s' \<Rightarrow> observe d s' es)"

lemma observe_append: "observe d s (xs @ ys) = (case observe d s xs of None \<Rightarrow> None | Some s' \<Rightarrow> observe d s' ys)"
  by (induction xs arbitrary: s) (auto split: option.splits)

definition keeps :: "'s monitor \<Rightarrow> ('s \<Rightarrow> bool) \<Rightarrow> 'a kact \<Rightarrow> ('a \<Rightarrow> 's \<Rightarrow> bool) \<Rightarrow> bool" where
  "keeps d P m Q \<longleftrightarrow>
     (\<forall>l s. P s \<longrightarrow> (\<exists>evs s'. snd (m l) = l @ evs \<and> observe d s evs = Some s' \<and> Q (fst (m l)) s'))"

lemma keepsD:
  assumes "keeps d P m Q" "P s" "m l = (x, l')"
  obtains evs s' where "l' = l @ evs" "observe d s evs = Some s'" "Q x s'"
  using assms unfolding keeps_def by (metis fst_conv snd_conv)

lemma keeps_return: "(\<And>s. P s \<Longrightarrow> Q x s) \<Longrightarrow> keeps d P (kreturn x) Q"
  by (auto simp: keeps_def kreturn_def)

lemma keeps_bind:
  assumes "keeps d P m R" "\<And>x. keeps d (R x) (f x) Q"
  shows "keeps d P (kbind m f) Q"
  unfolding keeps_def
proof (intro allI impI)
  fix l s
  assume "P s"
  obtain x l' where m: "m l = (x, l')" by fastforce
  with assms(1) \<open>P s\<close> obtain e1 s1 where 1: "l' = l @ e1" "observe d s e1 = Some s1" "R x s1" by (rule keepsD)
  obtain y l'' where f: "f x l' = (y, l'')" by fastforce
  with assms(2) 1(3) obtain e2 s2 where 2: "l'' = l' @ e2" "observe d s1 e2 = Some s2" "Q y s2" by (rule keepsD)
  show "\<exists>evs s'. snd (kbind m f l) = l @ evs \<and> observe d s evs = Some s' \<and> Q (fst (kbind m f l)) s'"
    using m f by (intro exI[of _ "e1 @ e2"] exI[of _ s2]) (simp add: kbind_def 1 2 observe_append)
qed

lemma keeps_call:
  assumes "\<And>l s. P s \<Longrightarrow> \<exists>s'. d s (ev (ans l)) = Some s' \<and> Q (ans l) s'"
  shows "keeps d P (kcall ans ev) Q"
  unfolding keeps_def kcall_def Let_def
proof (intro allI impI)
  fix l s
  assume "P s"
  then obtain s' where "d s (ev (ans l)) = Some s'" "Q (ans l) s'" using assms by blast
  then show "\<exists>evs s'. snd (ans l, l @ [ev (ans l)]) = l @ evs \<and> observe d s evs = Some s' \<and> Q (fst (ans l, l @ [ev (ans l)])) s'"
    by (intro exI[of _ "[ev (ans l)]"] exI[of _ s']) simp
qed

lemma keeps_state: "(\<And>l. \<exists>x. m l = (x, l)) \<Longrightarrow> (\<And>x s. P s \<Longrightarrow> Q x s) \<Longrightarrow> keeps d P m Q"
  unfolding keeps_def
  by (intro allI impI exI[of _ "[]"]) (metis append_Nil2 fst_conv observe.simps(1) snd_conv)

lemma keeps_conseq:
  "keeps d P m Q \<Longrightarrow> (\<And>s. P' s \<Longrightarrow> P s) \<Longrightarrow> (\<And>x s. Q x s \<Longrightarrow> Q' x s) \<Longrightarrow> keeps d P' m Q'"
  unfolding keeps_def by meson

text \<open>A property of the state that no step changes can be carried along.\<close>

lemma keeps_pre: "(\<And>s. P' s \<Longrightarrow> P s) \<Longrightarrow> keeps d P m Q \<Longrightarrow> keeps d P' m Q"
  by (rule keeps_conseq)

lemma keeps_case_sum:
  "(\<And>e. x = Inl e \<Longrightarrow> keeps d P (f e) Q) \<Longrightarrow> (\<And>y. x = Inr y \<Longrightarrow> keeps d P (g y) Q) \<Longrightarrow> keeps d P (case_sum f g x) Q"
  by (cases x) auto

lemma keeps_case_option:
  "(x = None \<Longrightarrow> keeps d P f Q) \<Longrightarrow> (\<And>y. x = Some y \<Longrightarrow> keeps d P (g y) Q) \<Longrightarrow> keeps d P (case_option f g x) Q"
  by (cases x) auto

lemma keeps_if: "(b \<Longrightarrow> keeps d P f Q) \<Longrightarrow> (\<not> b \<Longrightarrow> keeps d P g Q) \<Longrightarrow> keeps d P (if b then f else g) Q"
  by simp

lemma keeps_false: "(\<And>s. \<not> P s) \<Longrightarrow> keeps d P m Q"
  by (simp add: keeps_def)

lemmas keeps_splits = keeps_case_sum keeps_case_option keeps_if

section \<open>Monitors that do not mind reading\<close>

text \<open>An event that changes nothing: a read of the cluster or the store, a pause.\<close>

definition inspects :: "k8s_event \<Rightarrow> bool" where
  "inspects e =
     (case e of
        ProfileRead _ _ _ \<Rightarrow> True | ConfigMapRead _ _ _ \<Rightarrow> True | SecretRead _ _ _ \<Rightarrow> True | PolicyRead _ _ _ \<Rightarrow> True
      | StoreProviderRead _ _ \<Rightarrow> True | StoreJobRead _ _ \<Rightarrow> True | Waited _ \<Rightarrow> True | _ \<Rightarrow> False)"

lemma inspects_simps [simp]:
  "inspects (ProfileRead ns n a)" "inspects (ConfigMapRead ns n b)" "inspects (SecretRead ns n c)" "inspects (PolicyRead ns n p)"
  "inspects (StoreProviderRead i g)" "inspects (StoreJobRead i j)" "inspects (Waited w)"
  by (simp_all add: inspects_def)

locale quiet_monitor =
  fixes d :: "'s monitor"
  assumes quiet: "inspects e \<Longrightarrow> d s e = Some s"
begin

lemma keeps_quiet_call: "(\<And>a. inspects (ev a)) \<Longrightarrow> keeps d P (kcall ans ev) (\<lambda>_. P)"
  by (rule keeps_call) (simp add: quiet)

lemma keeps_reads:
  "keeps d P (GetHardwareProfile h ns n) (\<lambda>_. P)" "keeps d P (GetConfigMap h ns n) (\<lambda>_. P)" "keeps d P (GetSecret h ns n) (\<lambda>_. P)"
  by (auto simp: GetHardwareProfile_def GetConfigMap_def GetSecret_def required_def intro!: keeps_return keeps_quiet_call)

lemma keeps_chain:
  "keeps d P m (\<lambda>_. P) \<Longrightarrow> (\<And>x. keeps d P (f x) (\<lambda>_. P)) \<Longrightarrow> keeps d P (kchain m f) (\<lambda>_. P)"
  unfolding kchain_def by (rule keeps_bind, assumption) (auto intro: keeps_splits keeps_return)

lemma keeps_kfail: "keeps d P m (\<lambda>_. P) \<Longrightarrow> keeps d P (kfail m) (\<lambda>_. P)"
  unfolding kfail_def by (rule keeps_bind, assumption) (auto intro: keeps_return)

lemma keeps_provider_for: "keeps d P (provider_for r evaluation bench) (\<lambda>_. P)"
  by (auto simp: provider_for_def intro!: keeps_return keeps_quiet_call keeps_splits)

lemma keeps_fetch_profile: "keeps d P (fetch_profile r evaluation bench) (\<lambda>_. P)"
  by (auto simp: fetch_profile_def Let_def intro!: keeps_return keeps_splits keeps_bind[OF keeps_reads(1)])

lemma keeps_bundle: "keeps d P (resolveMLFlowCABundleConfigMap r cfg) (\<lambda>_. P)"
  by (auto simp: resolveMLFlowCABundleConfigMap_def Let_def intro!: keeps_return keeps_bind[OF keeps_reads(2)])

lemma keeps_redirect_model: "keeps d P (redirect_model r evaluation bench cfg) (\<lambda>_. P)"
proof -
  have "keeps d P (inspectModelSecret r ns n) (\<lambda>_. P)" for ns n
    by (auto simp: inspectModelSecret_def intro!: keeps_return keeps_bind[OF keeps_reads(3)])
  note inspect = keeps_bind[OF this]
  show ?thesis by (auto simp: redirect_model_def Let_def intro!: keeps_return keeps_splits inspect)
qed

lemma keeps_prepareExecution: "keeps d P (prepareExecution r evaluation bench i) (\<lambda>_. P)"
  unfolding prepareExecution_def
  by (intro keeps_chain keeps_kfail keeps_bind[OF keeps_provider_for] keeps_bind[OF keeps_bundle] keeps_return)
    (auto intro!: keeps_fetch_profile keeps_redirect_model keeps_return keeps_kfail keeps_state simp: built_config_def split: prod.splits)

lemma keeps_checkCreateAbort: "keeps d P (checkCreateAbort r jobID) (\<lambda>_. P)"
proof (cases "xr_storage r")
  case None
  then show ?thesis by (simp add: checkCreateAbort_def keeps_return)
next
  case (Some st)
  let ?read = "kbind (kcall (\<lambda>l. ry_GetEvaluationJob st l jobID) (StoreJobRead jobID))"
  have "keeps d P (?read (\<lambda>job. kreturn (f job))) (\<lambda>_. P)" for f :: "_ \<Rightarrow> createAbortStatus \<times> string"
    by (intro keeps_bind[OF keeps_quiet_call] keeps_return) auto
  then show ?thesis by (auto simp: checkCreateAbort_def Some keeps_def)
qed

end

text \<open>The monitor that accepts nothing but reading.\<close>

definition reader :: "unit monitor" where
  "reader s e = (if inspects e then Some s else None)"

interpretation reader: quiet_monitor reader
  by unfold_locales (simp add: reader_def)

lemma observe_reader: "observe reader s evs = Some s' \<Longrightarrow> list_all inspects evs"
  by (induction evs arbitrary: s) (auto simp: reader_def split: if_splits)

lemma keeps_readerD:
  assumes "keeps reader (\<lambda>_. True) m Q"
  obtains evs where "snd (m l) = l @ evs" "list_all inspects evs"
  using assms observe_reader unfolding keeps_def by blast

end
