(* ===== verification/K8s_Protocol.thy ===== *)
theory K8s_Protocol
  imports K8s_Monitors
begin

text \<open>
  The protocol of one execution (createBenchmarkResources of runtimes/k8s/k8s_runtime.go): in which
  order its objects are created, what is undone when a step fails, and what is never taken away from
  a Job that may be running.
\<close>

section \<open>The monitor of an execution\<close>

text \<open>
  What the runtime knows: the reference secret and the ConfigMap are there, the policy has been
  created, a Job may be there, its deletion has been requested.
\<close>

record exec_state =
  xs_secret :: bool
  xs_configMap :: bool
  xs_policy :: bool
  xs_job :: bool
  xs_deleting :: bool

definition exec_start :: exec_state where
  "exec_start = \<lparr>xs_secret = False, xs_configMap = False, xs_policy = False, xs_job = False, xs_deleting = False\<rparr>"

definition same_object :: "string \<Rightarrow> string \<Rightarrow> ObjectMeta \<Rightarrow> bool" where
  "same_object ns n m \<longleftrightarrow> om_Namespace m = ns \<and> om_Name m = n"

text \<open>The policy of the execution, whoever owns it.\<close>

definition own_policy :: "execution \<Rightarrow> NetworkPolicy \<Rightarrow> bool" where
  "own_policy e np \<longleftrightarrow>
     np\<lparr>np_Meta := (np_Meta np)\<lparr>om_OwnerReferences := om_OwnerReferences (np_Meta (xe_policy e))\<rparr>\<rparr> = xe_policy e"

text \<open>
  An answer that shows that the Job of the execution is not on the cluster. Once its deletion has been
  requested, the runtime waits until there is no Job of its name at all.
\<close>

definition shows_absent :: "bool \<Rightarrow> Job \<Rightarrow> k8s_error + Job \<Rightarrow> bool" where
  "shows_absent deleting job a = (case a of Inl e \<Rightarrow> IsNotFound e | Inr j \<Rightarrow> \<not> deleting \<and> \<not> jobMatchesExecution j job)"

text \<open>
  The ConfigMap must not be deleted while the Job may be there; a Job may be requested only under its
  policy and with its ConfigMap and its reference secret in place; only objects of the execution are
  touched.
\<close>

definition exec_monitor :: "execution \<Rightarrow> exec_state monitor" where
  "exec_monitor e s ev =
     (case ev of
        SecretCreated sec a \<Rightarrow>
          if same_object (jc_namespace (xe_config e)) (jc_modelInternalRefSecretName (xe_config e)) (se_Meta sec) \<and>
             om_Labels (se_Meta sec) = jobLabels (xe_config e) \<and> om_Name (se_Meta sec) \<noteq> ''''
          then Some (s\<lparr>xs_secret := isl a \<longrightarrow> xs_secret s\<rparr>) else None
      | SecretDeleted ns n a \<Rightarrow>
          if ns = jc_namespace (xe_config e) \<and> n = jc_modelInternalRefSecretName (xe_config e)
          then Some (s\<lparr>xs_secret := False\<rparr>) else None
      | ConfigMapCreated cm a \<Rightarrow>
          if cm = xe_configMap e then Some (s\<lparr>xs_configMap := isl a \<longrightarrow> xs_configMap s\<rparr>) else None
      | ConfigMapDeleted ns n a \<Rightarrow>
          if same_object ns n (cm_Meta (xe_configMap e)) \<and> \<not> xs_job s then Some (s\<lparr>xs_configMap := False\<rparr>) else None
      | PolicyCreated np a \<Rightarrow>
          if own_policy e np then Some (s\<lparr>xs_policy := isl a \<longrightarrow> xs_policy s\<rparr>) else None
      | JobCreateCalled j a \<Rightarrow>
          if j = xe_job e \<and> xs_policy s \<and> xs_configMap s \<and> (jc_modelInternalRefSecretName (xe_config e) \<noteq> '''' \<longrightarrow> xs_secret s)
          then Some (s\<lparr>xs_job := True\<rparr>) else None
      | JobRead ns n a \<Rightarrow>
          Some (if same_object ns n (jb_Meta (xe_job e)) \<and> shows_absent (xs_deleting s) (xe_job e) a then s\<lparr>xs_job := False\<rparr> else s)
      | JobDeleted ns n a \<Rightarrow> if same_object ns n (jb_Meta (xe_job e)) \<and> xs_job s then Some (s\<lparr>xs_deleting := True\<rparr>) else None
      | JobsListed _ _ _ \<Rightarrow> None
      | SecretsListed _ _ _ \<Rightarrow> None
      | StoreReported _ _ _ \<Rightarrow> None
      | _ \<Rightarrow> Some s)"

interpretation exec: quiet_monitor "exec_monitor e" for e
  by unfold_locales (auto simp: exec_monitor_def inspects_def split: k8s_event.splits)

section \<open>The steps of an execution\<close>

text \<open>An outcome with what it leaves behind.\<close>

definition left_behind :: "create_outcome \<Rightarrow> exec_state \<Rightarrow> bool" where
  "left_behind outcome s =
     (case outcome of
        CreateFailed _ \<Rightarrow> xs_job s \<or> \<not> xs_configMap s \<and> \<not> xs_secret s
      | Created \<Rightarrow> xs_policy s \<and> xs_job s
      | CreatePanicked \<Rightarrow> False)"

text \<open>The objects of an execution have names.\<close>

definition named :: "ObjectMeta \<Rightarrow> bool" where
  "named m \<longleftrightarrow> om_Namespace m \<noteq> '''' \<and> om_Name m \<noteq> ''''"

definition execution_named :: "execution \<Rightarrow> bool" where
  "execution_named e \<longleftrightarrow> jc_namespace (xe_config e) \<noteq> '''' \<and> named (cm_Meta (xe_configMap e)) \<and> named (jb_Meta (xe_job e)) \<and>
     named (np_Meta (xe_policy e))"

text \<open>The API server answers a creation with the object under the requested name.\<close>

definition echoes_names :: "k8s_client \<Rightarrow> bool" where
  "echoes_names c \<longleftrightarrow>
     (\<forall>l j j'. kc_CreateJob c l j = Inr j' \<longrightarrow>
        om_Namespace (jb_Meta j') = om_Namespace (jb_Meta j) \<and> om_Name (jb_Meta j') = om_Name (jb_Meta j))"

definition stage :: "execution \<Rightarrow> bool \<Rightarrow> bool \<Rightarrow> bool \<Rightarrow> bool \<Rightarrow> exec_state \<Rightarrow> bool" where
  "stage e cm np job del s \<longleftrightarrow>
     xs_configMap s = cm \<and> xs_policy s = np \<and> xs_job s = job \<and> xs_deleting s = del \<and>
     (jc_modelInternalRefSecretName (xe_config e) = '''' \<longrightarrow> \<not> xs_secret s)"

lemma keeps_secret_cleanup:
  assumes "execution_named e"
  shows "keeps (exec_monitor e) (stage e cm np job del) (cleanupModelRefSecret r (xe_config e))
           (\<lambda>_ s. stage e cm np job del s \<and> \<not> xs_secret s)"
  using assms
  by (auto simp: cleanupModelRefSecret_def DeleteSecret_def required_def execution_named_def exec_monitor_def stage_def
      intro!: keeps_return keeps_bind[OF keeps_call[where Q = "\<lambda>_ s. stage e cm np job del s \<and> \<not> xs_secret s"]])

lemma keeps_configMap_cleanup:
  assumes "execution_named e"
  shows "keeps (exec_monitor e) (\<lambda>s. stage e cm np False del s \<and> \<not> xs_secret s) (cleanupConfigMap r (xe_configMap e))
           (\<lambda>_ s. stage e False np False del s \<and> \<not> xs_secret s)"
  using assms
  by (auto simp: cleanupConfigMap_def DeleteConfigMap_def required_def execution_named_def named_def exec_monitor_def stage_def
      same_object_def intro!: keeps_return keeps_bind[OF keeps_call[where Q = "\<lambda>_ s. stage e False np False del s \<and> \<not> xs_secret s"]])

lemma keeps_roll_back:
  assumes "execution_named e"
  shows "keeps (exec_monitor e) (stage e cm np False del) (roll_back r e (CreateFailed m)) left_behind"
  unfolding roll_back_def
  by (intro keeps_bind[OF keeps_secret_cleanup] keeps_bind[OF keeps_configMap_cleanup] keeps_return assms)
    (simp add: left_behind_def stage_def)

lemma keeps_DeleteJob:
  assumes "same_object ns n (jb_Meta (xe_job e))"
  shows "keeps (exec_monitor e) (stage e cm np True del) (DeleteJob h ns n)
           (\<lambda>d. stage e cm np True (if real_error d = None then True else del \<or> ns \<noteq> '''' \<and> n \<noteq> ''''))"
  using assms
  by (auto simp: DeleteJob_def required_def failure_def real_error_def exec_monitor_def stage_def IsNotFound_def
      intro!: keeps_return keeps_call)

lemma keeps_wait_deleted:
  assumes "same_object ns n (jb_Meta (xe_job e))"
  shows "keeps (exec_monitor e) (stage e cm np True True) (wait_deleted h k ns n) (\<lambda>w. stage e cm np (w \<noteq> None) True)"
proof (induction k)
  case (Suc k)
  have "keeps (exec_monitor e) (stage e cm np True True) (GetJob h ns n)
          (\<lambda>a. stage e cm np (case a of Inl x \<Rightarrow> \<not> IsNotFound x | Inr _ \<Rightarrow> True) True)"
    using assms
    by (auto simp: GetJob_def required_def failed_def IsNotFound_def exec_monitor_def stage_def shows_absent_def
        intro!: keeps_return keeps_call split: sum.splits)
  from this Suc show ?case
    by (auto intro!: keeps_bind keeps_case_sum keeps_return)
qed (simp add: keeps_return)

lemma keeps_policy_owner_failed:
  assumes "execution_named e" "same_object (om_Namespace (jb_Meta j)) (om_Name (jb_Meta j)) (jb_Meta (xe_job e))"
  shows "keeps (exec_monitor e) (stage e cm np True False) (policy_owner_failed r e j m) left_behind"
  unfolding policy_owner_failed_def Let_def
  by (rule keeps_bind[OF keeps_DeleteJob[OF assms(2)]])
    (auto intro!: keeps_case_option keeps_return keeps_bind[OF keeps_wait_deleted[OF assms(2)]] keeps_roll_back assms
      simp: left_behind_def stage_def joined_def)

lemma keeps_config_map_missing:
  assumes "execution_named e" "same_object (om_Namespace (jb_Meta j)) (om_Name (jb_Meta j)) (jb_Meta (xe_job e))"
  shows "keeps (exec_monitor e) (stage e cm True True del) (config_map_missing r e j) left_behind"
  unfolding config_map_missing_def
  by (rule keeps_bind[OF keeps_DeleteJob[OF assms(2)]])
    (auto intro!: keeps_case_option keeps_return keeps_bind[OF keeps_secret_cleanup] assms simp: left_behind_def stage_def)

lemma keeps_owner_writes:
  "keeps (exec_monitor e) P (SetNetworkPolicyOwner h ns n ow) (\<lambda>_. P)"
  "keeps (exec_monitor e) P (SetConfigMapOwner h ns n ow) (\<lambda>_. P)"
  "keeps (exec_monitor e) P (SetSecretOwner h ns n ow) (\<lambda>_. P)"
proof -
  have attempt: "keeps (exec_monitor e) P (policy_owner_attempt h ns n ow) (\<lambda>_. P)"
    unfolding policy_owner_attempt_def Let_def
    by (rule keeps_bind[OF exec.keeps_quiet_call])
      (auto intro!: keeps_case_sum keeps_return keeps_call simp: exec_monitor_def)
  have "keeps (exec_monitor e) P (retry_on_conflict k (policy_owner_attempt h ns n ow)) (\<lambda>_. P)" for k
    by (induction k) (auto intro!: keeps_bind[OF attempt] keeps_return attempt split: option.splits k8s_error.splits)
  then show "keeps (exec_monitor e) P (SetNetworkPolicyOwner h ns n ow) (\<lambda>_. P)"
    by (auto simp: SetNetworkPolicyOwner_def required_def intro!: keeps_return)
  show "keeps (exec_monitor e) P (SetConfigMapOwner h ns n ow) (\<lambda>_. P)" "keeps (exec_monitor e) P (SetSecretOwner h ns n ow) (\<lambda>_. P)"
    by (auto simp: SetConfigMapOwner_def SetSecretOwner_def required_def Let_def exec_monitor_def
        intro!: keeps_return keeps_bind[OF exec.keeps_quiet_call] keeps_case_sum keeps_call)
qed

lemma keeps_own_secret:
  assumes "execution_named e"
  shows "keeps (exec_monitor e) (stage e cm True True del) (own_secret r e ow) left_behind"
  unfolding own_secret_def Let_def
  by (auto intro!: keeps_if keeps_return keeps_bind[OF keeps_owner_writes(3)] keeps_case_option keeps_bind[OF keeps_secret_cleanup] assms
      simp: left_behind_def stage_def)

lemma keeps_own_objects:
  assumes "execution_named e" "same_object (om_Namespace (jb_Meta j)) (om_Name (jb_Meta j)) (jb_Meta (xe_job e))"
  shows "keeps (exec_monitor e) (stage e cm True True False) (own_objects r wr e j) left_behind"
  unfolding own_objects_def Let_def
  by (auto intro!: keeps_bind[OF keeps_owner_writes(1)] keeps_bind[OF keeps_owner_writes(2)] keeps_case_option keeps_if
      keeps_policy_owner_failed keeps_config_map_missing keeps_own_secret assms)

lemma keeps_confirm_job:
  assumes "execution_named e"
  shows "keeps (exec_monitor e) (stage e cm True True False) (confirm_job r wr e m) left_behind"
  unfolding confirm_job_def Let_def
proof (rule keeps_bind[where R = "\<lambda>a. stage e cm True (\<not> shows_absent False (xe_job e) a) False"])
  show "keeps (exec_monitor e) (stage e cm True True False) (GetJob (xr_helper r) (om_Namespace (jb_Meta (xe_job e))) (om_Name (jb_Meta (xe_job e))))
          (\<lambda>a. stage e cm True (\<not> shows_absent False (xe_job e) a) False)"
    using assms
    by (auto simp: GetJob_def required_def execution_named_def named_def exec_monitor_def stage_def same_object_def
        intro!: keeps_call)
qed (auto intro!: keeps_case_sum keeps_if keeps_own_objects keeps_roll_back keeps_return assms
    simp: shows_absent_def joined_def jobMatchesExecution_def Let_def same_object_def left_behind_def stage_def)

definition with_secret :: "execution \<Rightarrow> exec_state \<Rightarrow> bool" where
  "with_secret e s \<longleftrightarrow> (jc_modelInternalRefSecretName (xe_config e) \<noteq> '''' \<longrightarrow> xs_secret s)"

lemma keeps_create_job:
  assumes "execution_named e" "echoes_names (kh_client (xr_helper r))"
  shows "keeps (exec_monitor e) (\<lambda>s. stage e True True False False s \<and> with_secret e s) (create_job r wr e) left_behind"
  unfolding create_job_def
proof (rule keeps_bind[where R = "\<lambda>a s. stage e True True True False s \<and>
         (\<forall>j. a = Inr j \<longrightarrow> same_object (om_Namespace (jb_Meta j)) (om_Name (jb_Meta j)) (jb_Meta (xe_job e)))"])
  show "keeps (exec_monitor e) (\<lambda>s. stage e True True False False s \<and> with_secret e s) (CreateJob (xr_helper r) (xe_job e))
          (\<lambda>a s. stage e True True True False s \<and>
             (\<forall>j. a = Inr j \<longrightarrow> same_object (om_Namespace (jb_Meta j)) (om_Name (jb_Meta j)) (jb_Meta (xe_job e))))"
    using assms
    by (auto simp: CreateJob_def execution_named_def named_def exec_monitor_def stage_def with_secret_def same_object_def
        echoes_names_def intro!: keeps_call)
next
  fix a
  show "keeps (exec_monitor e) (\<lambda>s. stage e True True True False s \<and>
            (\<forall>j. a = Inr j \<longrightarrow> same_object (om_Namespace (jb_Meta j)) (om_Name (jb_Meta j)) (jb_Meta (xe_job e))))
          (case a of Inl err \<Rightarrow> confirm_job r wr e (kerr_text err) | Inr createdJob \<Rightarrow> own_objects r wr e createdJob) left_behind"
  proof (cases a)
    case (Inl err)
    show ?thesis unfolding Inl sum.case by (rule keeps_pre[OF _ keeps_confirm_job[OF assms(1)]]) simp
  next
    case (Inr j)
    show ?thesis
    proof (cases "same_object (om_Namespace (jb_Meta j)) (om_Name (jb_Meta j)) (jb_Meta (xe_job e))")
      case True
      show ?thesis unfolding Inr sum.case by (rule keeps_pre[OF _ keeps_own_objects[where cm = True, OF assms(1) True]]) simp
    qed (simp add: Inr keeps_false)
  qed
qed

lemma keeps_create_policy_and_job:
  assumes "execution_named e" "echoes_names (kh_client (xr_helper r))"
  shows "keeps (exec_monitor e) (\<lambda>s. stage e True False False False s \<and> with_secret e s) (create_policy_and_job r wr e cm) left_behind"
  unfolding create_policy_and_job_def Let_def
proof (rule keeps_bind[where R = "\<lambda>a s. stage e True (\<not> isl a) False False s \<and> with_secret e s"])
  fix a
  show "keeps (exec_monitor e) (\<lambda>s. stage e True (\<not> isl a) False False s \<and> with_secret e s)
          (case a of Inl err \<Rightarrow> roll_back r e (CreateFailed (wr (''create network policy: '' @ kerr_text err)))
           | Inr _ \<Rightarrow> create_job r wr e) left_behind"
    using keeps_create_job[OF assms] by (cases a) (auto intro!: keeps_pre[OF _ keeps_roll_back[OF assms(1)]])
qed (use assms(1) in \<open>auto simp: CreateNetworkPolicy_def execution_named_def named_def exec_monitor_def stage_def with_secret_def
       owned_by_def own_policy_def intro!: keeps_call\<close>)

lemma keeps_create_config_map:
  assumes "execution_named e" "echoes_names (kh_client (xr_helper r))"
  shows "keeps (exec_monitor e) (\<lambda>s. stage e False False False False s \<and> with_secret e s) (create_config_map r wr e) left_behind"
  unfolding create_config_map_def
proof (rule keeps_bind[where R = "\<lambda>a s. stage e (\<not> isl a) False False False s \<and> with_secret e s"])
  fix a
  show "keeps (exec_monitor e) (\<lambda>s. stage e (\<not> isl a) False False False s \<and> with_secret e s)
          (case a of Inl err \<Rightarrow> kbind (cleanupModelRefSecret r (xe_config e)) (\<lambda>_. kreturn (CreateFailed (wr (kerr_text err))))
           | Inr cm \<Rightarrow> create_policy_and_job r wr e cm) left_behind"
  proof (cases a)
    case (Inl err)
    then have pre: "stage e (\<not> isl a) False False False s \<and> with_secret e s \<Longrightarrow> stage e False False False False s" for s by simp
    show ?thesis
      unfolding Inl sum.case
      by (intro keeps_pre[OF pre[unfolded Inl] keeps_bind[OF keeps_secret_cleanup[OF assms(1)]]] keeps_return)
        (simp_all add: left_behind_def stage_def)
  next
    case (Inr cm)
    then show ?thesis using keeps_create_policy_and_job[OF assms] by simp
  qed
qed (use assms(1) in \<open>auto simp: CreateConfigMap_def required_def execution_named_def named_def exec_monitor_def stage_def with_secret_def
       intro!: keeps_call\<close>)

text \<open>The reference secret is requested under its own name.\<close>

lemma keeps_reference_secret:
  assumes "jc_modelInternalRefSecretName (xe_config e) \<noteq> ''''"
  shows "keeps (exec_monitor e) (\<lambda>s. s = exec_start) (buildInternalModelRefSecret r e)
           (\<lambda>a s. stage e False False False False s \<and> (xs_secret s \<longleftrightarrow> a = None))"
proof -
  have "internalModelRefSecret up ns n data u labels = Inr sec \<Longrightarrow> om_Name (se_Meta sec) = n \<and> om_Labels (se_Meta sec) = labels" for up ns n data u labels sec
    by (auto simp: internalModelRefSecret_def ebind_Inr_iff Let_def object_meta_def split: if_splits)
  with assms show ?thesis
    by (auto simp: buildInternalModelRefSecret_def CreateSecret_def Let_def failed_def exec_monitor_def same_object_def stage_def exec_start_def
        intro!: keeps_case_sum keeps_return keeps_bind[where R = "\<lambda>a s. stage e False False False False s \<and> (xs_secret s \<longleftrightarrow> \<not> isl a)"]
          keeps_call split: sum.splits)
qed

lemma keeps_createExecution:
  assumes "execution_named e" "echoes_names (kh_client (xr_helper r))"
  shows "keeps (exec_monitor e) (\<lambda>s. s = exec_start) (createExecution r wr e) left_behind"
proof (cases "jc_modelInternalRefSecretName (xe_config e) = ''''")
  case True
  then show ?thesis
    by (auto simp: createExecution_def stage_def exec_start_def with_secret_def intro!: keeps_pre[OF _ keeps_create_config_map[OF assms]])
next
  case False
  then show ?thesis
    by (auto simp: createExecution_def stage_def with_secret_def left_behind_def
        intro!: keeps_bind[OF keeps_reference_secret] keeps_case_option keeps_return keeps_pre[OF _ keeps_create_config_map[OF assms]])
qed

end
