(* ===== verification/K8s_Executions.thy ===== *)
theory K8s_Executions
  imports K8s_Operations
begin

text \<open>
  What a prepared execution consists of: the configuration behind it, its names and labels, its pod, and
  the network policy.
\<close>

section \<open>Inversion of the preparation\<close>

lemma kbindE:
  assumes "kbind m f l = (y, l')"
  obtains x l1 where "m l = (x, l1)" "f x l1 = (y, l')"
  using assms by (auto simp: kbind_def split: prod.splits)

lemma kchainE:
  assumes "kchain m f l = (Inr y, l')"
  obtains x l1 where "m l = (Inr x, l1)" "f x l1 = (Inr y, l')"
  using assms by (auto simp: kchain_def kreturn_def elim!: kbindE split: sum.splits)

lemma kfailD:
  assumes "kfail m l = (Inr y, l')"
  shows "m l = (Inr y, l')"
proof -
  from assms obtain x where "m l = (x, l')" "map_sum CreateFailed id x = Inr y"
    by (auto simp: kfail_def kreturn_def elim!: kbindE)
  then show ?thesis by (cases x) auto
qed

lemma built_configD:
  assumes "built_config r evaluation provider bench i profile l = (Inr cfg, l')"
  obtains cfg0 image where
    "buildJobConfig (xr_env r) evaluation provider bench i (xr_serviceConfig r) profile (xr_GUID r l) = Some (Inr cfg0)"
    "cfg = cfg0\<lparr>jc_testDataInitImage := image\<rparr>"
  using assms by (auto simp: built_config_def split: option.splits sum.splits)

lemma redirect_modelD:
  assumes "redirect_model r evaluation bench cfg l = (Inr (cfg', data), l')"
  shows "cfg' = cfg\<lparr>jc_jobSpec := jc_jobSpec cfg', jc_modelInternalRefSecretName := jc_modelInternalRefSecretName cfg'\<rparr>"
    and "jc_modelInternalRefSecretName cfg' = jc_modelInternalRefSecretName cfg \<or>
         jc_modelInternalRefSecretName cfg' = buildK8sName (jc_jobID cfg) (jc_resourceGUID cfg) ''-model-ref''"
  using assms
  by (auto simp: redirect_model_def kreturn_def Let_def with_model_url_def elim!: kbindE split: if_splits sum.splits option.splits)

text \<open>The fields that do not change once the configuration is built.\<close>

definition settled :: "jobConfig \<Rightarrow> jobConfig" where
  "settled cfg = cfg\<lparr>jc_jobSpec := undefined, jc_modelInternalRefSecretName := '''', jc_testDataInitImage := '''',
     jc_mlflowCABundleConfigMap := '''', jc_sidecarConfig := None\<rparr>"

lemma prepareExecutionE:
  assumes "prepareExecution r evaluation bench i l = (Inr e, l')"
  obtains provider profile l1 cfg0 where
    "buildJobConfig (xr_env r) evaluation provider bench i (xr_serviceConfig r) profile (xr_GUID r l1) = Some (Inr cfg0)"
    "settled (xe_config e) = settled cfg0"
    "jc_modelInternalRefSecretName (xe_config e) = jc_modelInternalRefSecretName cfg0 \<or>
     jc_modelInternalRefSecretName (xe_config e) = buildK8sName (jc_jobID cfg0) (jc_resourceGUID cfg0) ''-model-ref''"
    "buildConfigMap (xr_codecs r) (xe_config e) = Inr (xe_configMap e)"
    "buildJob (xr_env r) (xr_codecs r) (xe_config e) (xr_serviceConfig r) = Inr (xe_job e)"
    "buildJobNetworkPolicy (xr_codecs r) (xe_config e) = Inr (xe_policy e)"
proof -
  from assms obtain provider profile cfg1 l1 l2 caName cfg2 data l3 l4 where
    b: "built_config r evaluation provider bench i profile l1 = (Inr cfg1, l2)" and
    m: "redirect_model r evaluation bench (cfg1\<lparr>jc_mlflowCABundleConfigMap := caName\<rparr>) l3 = (Inr (cfg2, data), l4)" and
    o: "build_objects r evaluation bench cfg2 data = Inr e"
    unfolding prepareExecution_def
    by (auto elim!: kchainE kbindE dest!: kfailD simp: kreturn_def)
  from b obtain cfg0 image where
    c: "buildJobConfig (xr_env r) evaluation provider bench i (xr_serviceConfig r) profile (xr_GUID r l1) = Some (Inr cfg0)"
    and i: "cfg1 = cfg0\<lparr>jc_testDataInitImage := image\<rparr>" by (rule built_configD)
  note d = redirect_modelD[OF m]
  have e: "buildConfigMap (xr_codecs r) (xe_config e) = Inr (xe_configMap e)"
    "buildJob (xr_env r) (xr_codecs r) (xe_config e) (xr_serviceConfig r) = Inr (xe_job e)"
    "buildJobNetworkPolicy (xr_codecs r) (xe_config e) = Inr (xe_policy e)"
    "xe_config e = cfg2\<lparr>jc_sidecarConfig := sidecarForJobPod (xr_serviceConfig r) cfg2\<rparr>"
    using o by (auto simp: build_objects_def Let_def ebind_Inr_iff ewrap_def split: sum.splits)
  have "settled cfg2 = settled cfg0" by (subst d(1)) (simp add: settled_def i)
  then have "settled (xe_config e) = settled cfg0" by (simp add: e(4) settled_def)
  moreover have "jc_modelInternalRefSecretName (xe_config e) = jc_modelInternalRefSecretName cfg0 \<or>
     jc_modelInternalRefSecretName (xe_config e) = buildK8sName (jc_jobID cfg0) (jc_resourceGUID cfg0) ''-model-ref''"
    using d(2) by (simp add: e(4) i)
  ultimately show ?thesis by (rule that[OF c _ _ e(1-3)])
qed

section \<open>The configuration of an execution\<close>

text \<open>The validation tags of TestDataRef admit one source at most.\<close>

definition one_source :: "TestDataRef option \<Rightarrow> bool" where
  "one_source ref \<longleftrightarrow>
     (case ref of None \<Rightarrow> True
      | Some t \<Rightarrow> length (filter (\<lambda>b. b) [td_S3 t \<noteq> None, td_PVC t \<noteq> None, td_Git t \<noteq> None, td_HF t \<noteq> None]) \<le> 1)"

lemma settled_fields:
  assumes "settled a = settled b"
  shows "identity_of a = identity_of b" "jc_postProcessorPVCs a = jc_postProcessorPVCs b" "single_source a = single_source b"
    "accelerators_ok a = accelerators_ok b" "queue_ok a = queue_ok b" "jc_queueName a = jc_queueName b"
    "jc_modelAuthSecretRef a = jc_modelAuthSecretRef b" "jc_ociCredentialsSecret a = jc_ociCredentialsSecret b"
  using assms
  by (cases a; cases b; simp add: settled_def identity_of_def single_source_def hasS3TestData_def hasPVCTestData_def hasGitTestData_def
      hasHFTestData_def accelerators_ok_def queue_ok_def)+

lemma base_config_fields:
  "identity_of (base_config env evaluation model provider k8s bench i guid u spec sidecar pvcs) =
     (r_ID (ej_Resource evaluation), guid, resolveNamespace env (r_Tenant (ej_Resource evaluation)), r_ID (pr_Resource provider),
      eb_ID bench, i)"
  "jc_postProcessorPVCs (base_config env evaluation model provider k8s bench i guid u spec sidecar pvcs) = pvcs"
  "jc_modelInternalRefSecretName (base_config env evaluation model provider k8s bench i guid u spec sidecar pvcs) = ''''"
  "jc_testDataS3 (base_config env evaluation model provider k8s bench i guid u spec sidecar pvcs) = s3_config (eb_TestDataRef bench)"
  "jc_testDataPVC (base_config env evaluation model provider k8s bench i guid u spec sidecar pvcs) = pvc_config (eb_TestDataRef bench)"
  "jc_testDataGit (base_config env evaluation model provider k8s bench i guid u spec sidecar pvcs) = git_config (eb_TestDataRef bench)"
  "jc_testDataHF (base_config env evaluation model provider k8s bench i guid u spec sidecar pvcs) = hf_config (eb_TestDataRef bench)"
  by (simp_all add: base_config_def Let_def identity_of_def split: prod.splits)

lemma one_source_single:
  assumes "one_source (eb_TestDataRef bench)"
  shows "single_source (base_config env evaluation model provider k8s bench i guid u spec sidecar pvcs)"
proof -
  have "hasS3TestData cfg \<Longrightarrow> Option.bind ref td_S3 \<noteq> None" if "jc_testDataS3 cfg = s3_config ref" for cfg ref
    using that by (auto simp: hasS3TestData_def s3_config_def split: option.splits)
  moreover have "hasPVCTestData cfg \<Longrightarrow> Option.bind ref td_PVC \<noteq> None" if "jc_testDataPVC cfg = pvc_config ref" for cfg ref
    using that by (auto simp: hasPVCTestData_def pvc_config_def split: option.splits)
  moreover have "hasGitTestData cfg \<Longrightarrow> Option.bind ref td_Git \<noteq> None" if "jc_testDataGit cfg = git_config ref" for cfg ref
    using that by (auto simp: hasGitTestData_def git_config_def split: option.splits)
  moreover have "hasHFTestData cfg \<Longrightarrow> Option.bind ref td_HF \<noteq> None" if "jc_testDataHF cfg = hf_config ref" for cfg ref
    using that by (auto simp: hasHFTestData_def hf_config_def TrimSpace_def split: option.splits)
  ultimately have "hasS3TestData (base_config env evaluation model provider k8s bench i guid u spec sidecar pvcs) \<Longrightarrow> Option.bind (eb_TestDataRef bench) td_S3 \<noteq> None"
    "hasPVCTestData (base_config env evaluation model provider k8s bench i guid u spec sidecar pvcs) \<Longrightarrow> Option.bind (eb_TestDataRef bench) td_PVC \<noteq> None"
    "hasGitTestData (base_config env evaluation model provider k8s bench i guid u spec sidecar pvcs) \<Longrightarrow> Option.bind (eb_TestDataRef bench) td_Git \<noteq> None"
    "hasHFTestData (base_config env evaluation model provider k8s bench i guid u spec sidecar pvcs) \<Longrightarrow> Option.bind (eb_TestDataRef bench) td_HF \<noteq> None"
    by (meson base_config_fields)+
  then show ?thesis
    using assms by (auto simp: one_source_def single_source_def split: option.splits if_splits)
qed

lemma rest_of_single_source: "rest_of a = rest_of b \<Longrightarrow> single_source a = single_source b"
  using rest_of_fields(6-9)[of a b] by (simp add: single_source_def hasS3TestData_def hasPVCTestData_def hasGitTestData_def hasHFTestData_def)

lemma prepareExecution_config:
  assumes "prepareExecution r evaluation bench i l = (Inr e, l')"
  obtains provider :: ProviderResource and profile l1 where
    "identity_of (xe_config e) =
       (r_ID (ej_Resource evaluation), xr_GUID r l1, evaluation_namespace r evaluation, r_ID (pr_Resource provider), eb_ID bench, i)"
    "pvcs_ok (jc_postProcessorPVCs (xe_config e))" "one_source (eb_TestDataRef bench) \<longrightarrow> single_source (xe_config e)"
    "accelerators_ok (xe_config e)" "queue_ok (xe_config e)"
    "jc_queueName (xe_config e) =
       chosen_queue profile (EffectiveHardwareConfig (Some bench) (Some (ej_Config evaluation))) (ec_Queue (ej_Config evaluation))"
    "jc_modelInternalRefSecretName (xe_config e) \<in>
       {'''', buildK8sName (r_ID (ej_Resource evaluation)) (xr_GUID r l1) ''-model-ref''}"
proof -
  from assms obtain provider profile l1 cfg0 where
    b: "buildJobConfig (xr_env r) evaluation provider bench i (xr_serviceConfig r) profile (xr_GUID r l1) = Some (Inr cfg0)" and
    s: "settled (xe_config e) = settled cfg0" and
    n: "jc_modelInternalRefSecretName (xe_config e) = jc_modelInternalRefSecretName cfg0 \<or>
     jc_modelInternalRefSecretName (xe_config e) = buildK8sName (jc_jobID cfg0) (jc_resourceGUID cfg0) ''-model-ref''"
    by (rule prepareExecutionE)
  from b obtain model k8s spec sidecar pvcs where
    p: "postProcessorPVCConfigs (xr_env r) evaluation = Inr pvcs" and
    h: "resolve_hardware (xr_env r) profile (EffectiveHardwareConfig (Some bench) (Some (ej_Config evaluation)))
          (ec_Queue (ej_Config evaluation))
          (base_config (xr_env r) evaluation model provider k8s bench i (xr_GUID r l1) (sidecarBaseURL (xr_serviceConfig r)) spec sidecar pvcs)
          = Inr cfg0"
    by (rule buildJobConfig_resolved)
  note f = rest_of_fields[OF rest_of_resolve_hardware[OF h]] rest_of_single_source[OF rest_of_resolve_hardware[OF h]]
  note ok = resolve_hardware_ok[OF h base_config_queue]
  have id: "identity_of cfg0 = (r_ID (ej_Resource evaluation), xr_GUID r l1, evaluation_namespace r evaluation,
      r_ID (pr_Resource provider), eb_ID bench, i)"
    by (simp add: f(1) base_config_fields evaluation_namespace_def)
  have j: "jc_jobID cfg0 = r_ID (ej_Resource evaluation)" "jc_resourceGUID cfg0 = xr_GUID r l1"
    using id by (simp_all add: identity_of_def)
  show ?thesis
    using ok n postProcessorPVCConfigs_ok[OF p]
    by (intro that[of l1 provider profile]) (auto simp: settled_fields[OF s] f(2-) base_config_fields one_source_single j id)
qed

section \<open>Its objects\<close>

text \<open>
  A well-formed execution: valid names, its labels on every object, one namespace, a pod whose mounts and
  volumes fit, and a policy that selects the pod.
\<close>

definition execution_ok :: "execution \<Rightarrow> bool" where
  "execution_ok e \<longleftrightarrow>
     (let cfg = xe_config e; job = xe_job e; cm = cm_Meta (xe_configMap e); np = xe_policy e
      in dns_label (om_Name (jb_Meta job)) \<and> om_Name cm = om_Name (jb_Meta job) @ specSuffix \<and> dns_label (om_Name cm) \<and>
         dns_label (om_Name (np_Meta np)) \<and>
         (jc_modelInternalRefSecretName cfg = '''' \<or> dns_label (jc_modelInternalRefSecretName cfg)) \<and>
         list_all (\<lambda>m. om_Namespace m = jc_namespace cfg \<and> om_Labels m = jobLabels cfg) [jb_Meta job, cm, np_Meta np] \<and>
         jb_TemplateLabels job = jobLabels cfg \<and> selects (np_PodSelector np) (jb_TemplateLabels job) \<and> pod_ok (jb_Pod job))"

lemma dns_label_not_empty: "dns_label s \<Longrightarrow> s \<noteq> ''''"
  by (simp add: dns_label_def bounded_by_def)

lemma resolveNamespace_not_empty: "resolveNamespace env t \<noteq> ''''"
  by (simp add: resolveNamespace_def Let_def)

lemma names_valid:
  "dns_label (jobName a b)" "dns_label (configMapName a b)" "good_suffix suf \<Longrightarrow> dns_label (buildK8sName a b suf)"
  by (simp_all add: jobName_def configMapName_def buildK8sName_def buildK8sNameWithReserve_valid)

lemma buildConfigMap_meta:
  "buildConfigMap js cfg = Inr cm \<Longrightarrow>
   om_Name (cm_Meta cm) = configMapName (jc_jobID cfg) (jc_resourceGUID cfg) \<and> om_Namespace (cm_Meta cm) = jc_namespace cfg \<and>
   om_Labels (cm_Meta cm) = jobLabels cfg"
  by (auto simp: buildConfigMap_def ebind_Inr_iff object_meta_def split: sum.splits option.splits)

lemma buildJobNetworkPolicy_meta:
  "buildJobNetworkPolicy js cfg = Inr np \<Longrightarrow>
   om_Name (np_Meta np) = buildK8sName ''evalhub'' (sanitizeLabelValue (jc_resourceGUID cfg)) ''-netpol'' \<and>
   om_Namespace (np_Meta np) = jc_namespace cfg \<and> om_Labels (np_Meta np) = jobLabels cfg \<and>
   selects (np_PodSelector np) (jobLabels cfg) \<and> np_PolicyTypes np = [''Ingress''] \<and> np_Ingress np = []"
  by (auto simp: buildJobNetworkPolicy_def Let_def object_meta_def selects_def jobLabels_fixed split: if_splits)

lemma prepareExecution_ok:
  assumes p: "prepareExecution r evaluation bench i l = (Inr e, l')" and s: "one_source (eb_TestDataRef bench)"
  shows "execution_ok e"
proof -
  from p obtain l1 where pvcs: "pvcs_ok (jc_postProcessorPVCs (xe_config e))" 
    and src: "one_source (eb_TestDataRef bench) \<longrightarrow> single_source (xe_config e)" and ref: "jc_modelInternalRefSecretName (xe_config e) \<in>
       {'''', buildK8sName (r_ID (ej_Resource evaluation)) (xr_GUID r l1) ''-model-ref''}"
    by (rule prepareExecution_config)
  from p obtain cm: "buildConfigMap (xr_codecs r) (xe_config e) = Inr (xe_configMap e)"
    and job: "buildJob (xr_env r) (xr_codecs r) (xe_config e) (xr_serviceConfig r) = Inr (xe_job e)"
    and np: "buildJobNetworkPolicy (xr_codecs r) (xe_config e) = Inr (xe_policy e)"
    by (rule prepareExecutionE)
  from job obtain parts: "om_Labels (jb_Meta (xe_job e)) = jobLabels (xe_config e)" "jb_TemplateLabels (xe_job e) = jobLabels (xe_config e)"
    "om_Name (jb_Meta (xe_job e)) = jobName (jc_jobID (xe_config e)) (jc_resourceGUID (xe_config e))"
    "om_Namespace (jb_Meta (xe_job e)) = jc_namespace (xe_config e)"
    by (rule buildJob_parts)
  show ?thesis
    using ref buildJob_pod_ok[OF job src[rule_format, OF s] pvcs] buildConfigMap_meta[OF cm] buildJobNetworkPolicy_meta[OF np]
    by (auto simp: execution_ok_def Let_def parts names_valid configMapName_spec[symmetric])
qed

text \<open>The labels and names hold whatever the test data are.\<close>

lemma prepareExecution_meta:
  assumes "prepareExecution r evaluation bench i l = (Inr e, l')"
  shows "jc_namespace (xe_config e) = evaluation_namespace r evaluation" "jc_jobID (xe_config e) = r_ID (ej_Resource evaluation)"
    "list_all (\<lambda>m. om_Namespace m = evaluation_namespace r evaluation \<and> om_Name m \<noteq> '''' \<and> om_Labels m = jobLabels (xe_config e))
       [cm_Meta (xe_configMap e), jb_Meta (xe_job e), np_Meta (xe_policy e)]"
    "jb_TemplateLabels (xe_job e) = jobLabels (xe_config e)"
    "selects (np_PodSelector (xe_policy e)) (jobLabels (xe_config e))"
    "np_PolicyTypes (xe_policy e) = [''Ingress''] \<and> np_Ingress (xe_policy e) = []"
proof -
  from assms obtain provider :: ProviderResource and l1 where "identity_of (xe_config e) =
      (r_ID (ej_Resource evaluation), xr_GUID r l1, evaluation_namespace r evaluation, r_ID (pr_Resource provider), eb_ID bench, i)"
    by (rule prepareExecution_config)
  then show id: "jc_namespace (xe_config e) = evaluation_namespace r evaluation" "jc_jobID (xe_config e) = r_ID (ej_Resource evaluation)"
    by (simp_all add: identity_of_def)
  from assms obtain cm: "buildConfigMap (xr_codecs r) (xe_config e) = Inr (xe_configMap e)"
    and job: "buildJob (xr_env r) (xr_codecs r) (xe_config e) (xr_serviceConfig r) = Inr (xe_job e)"
    and np: "buildJobNetworkPolicy (xr_codecs r) (xe_config e) = Inr (xe_policy e)"
    by (rule prepareExecutionE)
  from job obtain parts: "om_Labels (jb_Meta (xe_job e)) = jobLabels (xe_config e)" "jb_TemplateLabels (xe_job e) = jobLabels (xe_config e)"
    "om_Name (jb_Meta (xe_job e)) = jobName (jc_jobID (xe_config e)) (jc_resourceGUID (xe_config e))"
    "om_Namespace (jb_Meta (xe_job e)) = jc_namespace (xe_config e)"
    by (rule buildJob_parts)
  show "jb_TemplateLabels (xe_job e) = jobLabels (xe_config e)" by (rule parts(2))
  note named = names_valid[THEN dns_label_not_empty]
  show "list_all (\<lambda>m. om_Namespace m = evaluation_namespace r evaluation \<and> om_Name m \<noteq> '''' \<and> om_Labels m = jobLabels (xe_config e))
       [cm_Meta (xe_configMap e), jb_Meta (xe_job e), np_Meta (xe_policy e)]"
    and "selects (np_PodSelector (xe_policy e)) (jobLabels (xe_config e))"
    using buildConfigMap_meta[OF cm] buildJobNetworkPolicy_meta[OF np] by (simp_all add: parts id named)
  show "np_PolicyTypes (xe_policy e) = [''Ingress''] \<and> np_Ingress (xe_policy e) = []"
    using buildJobNetworkPolicy_meta[OF np] by simp
qed

end
