(* ===== verification/K8s_Loop.thy ===== *)
theory K8s_Loop
  imports K8s_Protocol K8s_Executions
begin

text \<open>
  The background routine as a whole (RunEvaluationJob of runtimes/k8s/k8s_runtime.go): laws that hold at
  every point of its history, the sweep after an abort, and that it comes to an end.
\<close>

section \<open>Laws of a history\<close>

text \<open>
  A law says what must have happened before an event. It holds of a history when it holds at every
  point; more history before a point does no harm.
\<close>

type_synonym law = "events \<Rightarrow> k8s_event \<Rightarrow> bool"

fun lawful_after :: "law \<Rightarrow> events \<Rightarrow> events \<Rightarrow> bool" where
  "lawful_after P past [] \<longleftrightarrow> True"
| "lawful_after P past (e # es) \<longleftrightarrow> P past e \<and> lawful_after P (past @ [e]) es"

definition lawful :: "law \<Rightarrow> events \<Rightarrow> bool" where
  "lawful P = lawful_after P []"

lemma lawful_after_append: "lawful_after P past (xs @ ys) \<longleftrightarrow> lawful_after P past xs \<and> lawful_after P (past @ xs) ys"
  by (induction xs arbitrary: past) auto

lemma lawful_at: "lawful P (xs @ e # ys) \<Longrightarrow> P xs e"
  by (simp add: lawful_def lawful_after_append)

lemma lawfulI: "(\<And>xs e ys. evs = xs @ e # ys \<Longrightarrow> P xs e) \<Longrightarrow> lawful P evs"
  unfolding lawful_def by (induction evs rule: rev_induct) (auto simp: lawful_after_append)

locale history_law =
  fixes P :: law
  assumes mono: "set past \<subseteq> set past' \<Longrightarrow> P past e \<Longrightarrow> P past' e"
begin

lemma lawful_after_mono: "set past \<subseteq> set past' \<Longrightarrow> lawful_after P past xs \<Longrightarrow> lawful_after P past' xs"
proof (induction xs arbitrary: past past')
  case (Cons e xs)
  then show ?case using mono[of past past' e] Cons.IH[of "past @ [e]" "past' @ [e]"] by auto
qed simp

lemma lawful_append: "lawful P xs \<Longrightarrow> lawful P ys \<Longrightarrow> lawful P (xs @ ys)"
  using lawful_after_mono[of "[]" xs ys] by (simp add: lawful_def lawful_after_append)

lemma lawful_all: "list_all (P []) xs \<Longrightarrow> lawful P xs"
  by (rule lawfulI) (auto intro: mono[of "[]"])

end

section \<open>The pieces of a history\<close>

text \<open>The events of a sweep over the resources of an evaluation.\<close>

definition sweeps :: "string \<Rightarrow> string \<Rightarrow> k8s_event \<Rightarrow> bool" where
  "sweeps namespace sel e =
     (case e of
        JobsListed ns s _ \<Rightarrow> ns = namespace \<and> s = sel
      | SecretsListed ns s _ \<Rightarrow> ns = namespace \<and> s = sel
      | JobDeleted ns _ _ \<Rightarrow> ns = namespace
      | SecretDeleted ns _ _ \<Rightarrow> ns = namespace
      | _ \<Rightarrow> False)"

text \<open>
  One sweep: the Jobs are listed and every listed Job is asked to go, then the same with the secrets. An
  object without a name cannot be addressed.
\<close>

inductive deletes :: "(string \<Rightarrow> k8s_error option \<Rightarrow> k8s_event) \<Rightarrow> string list \<Rightarrow> events \<Rightarrow> bool" for ev where
  nothing: "deletes ev [] []"
| nameless: "deletes ev names evs \<Longrightarrow> deletes ev ([] # names) evs"
| asked: "deletes ev names evs \<Longrightarrow> n \<noteq> '''' \<Longrightarrow> deletes ev (n # names) (ev n a # evs)"

inductive swept :: "string \<Rightarrow> string \<Rightarrow> events \<Rightarrow> bool" for ns sel where
  not_listed: "swept ns sel [JobsListed ns sel (Inl e)]"
| jobs_only: "deletes (JobDeleted ns) (map (\<lambda>j. om_Name (jb_Meta j)) jobs) ds \<Longrightarrow>
    swept ns sel (JobsListed ns sel (Inr jobs) # ds @ [SecretsListed ns sel (Inl e)])"
| all: "deletes (JobDeleted ns) (map (\<lambda>j. om_Name (jb_Meta j)) jobs) ds \<Longrightarrow>
    deletes (SecretDeleted ns) (map (\<lambda>s. om_Name (se_Meta s)) secrets) es \<Longrightarrow>
    swept ns sel (JobsListed ns sel (Inr jobs) # ds @ SecretsListed ns sel (Inr secrets) # es)"

lemma delete_jobs_swept:
  "ns \<noteq> '''' \<Longrightarrow> \<exists>ds err'. delete_jobs h ns jobs err l = (err', l @ ds) \<and> deletes (JobDeleted ns) (map (\<lambda>j. om_Name (jb_Meta j)) jobs) ds"
proof (induction jobs arbitrary: err l)
  case (Cons job jobs)
  show ?case
  proof (cases "om_Name (jb_Meta job) = ''''")
    case True
    with Cons.IH[OF Cons.prems, of "join_errors err (real_error (failure ''namespace and name are required''))" l] show ?thesis
      by (auto simp: kbind_def DeleteJob_def required_def kreturn_def intro: deletes.nameless)
  next
    case False
    let ?a = "kc_DeleteJob (kh_client h) l ns (om_Name (jb_Meta job))"
    obtain ds err' where
      "delete_jobs h ns jobs (join_errors err (real_error ?a)) (l @ [JobDeleted ns (om_Name (jb_Meta job)) ?a]) =
         (err', (l @ [JobDeleted ns (om_Name (jb_Meta job)) ?a]) @ ds)" "deletes (JobDeleted ns) (map (\<lambda>j. om_Name (jb_Meta j)) jobs) ds"
      using Cons.IH[OF Cons.prems] by blast
    with False Cons.prems show ?thesis
      by (intro exI[of _ "JobDeleted ns (om_Name (jb_Meta job)) ?a # ds"])
        (auto simp: kbind_def DeleteJob_def required_def kcall_def Let_def intro: deletes.asked)
  qed
qed (simp add: kreturn_def deletes.nothing)

lemma delete_secrets_swept:
  "ns \<noteq> '''' \<Longrightarrow> \<exists>ds err'. delete_secrets h ns secrets err l = (err', l @ ds) \<and> deletes (SecretDeleted ns) (map (\<lambda>s. om_Name (se_Meta s)) secrets) ds"
proof (induction secrets arbitrary: err l)
  case (Cons secret secrets)
  show ?case
  proof (cases "om_Name (se_Meta secret) = ''''")
    case True
    with Cons.IH[OF Cons.prems, of "join_errors err (real_error (failure ''namespace and name are required''))" l] show ?thesis
      by (auto simp: kbind_def DeleteSecret_def required_def kreturn_def intro: deletes.nameless)
  next
    case False
    let ?a = "kc_DeleteSecret (kh_client h) l ns (om_Name (se_Meta secret))"
    obtain ds err' where
      "delete_secrets h ns secrets (join_errors err (real_error ?a)) (l @ [SecretDeleted ns (om_Name (se_Meta secret)) ?a]) =
         (err', (l @ [SecretDeleted ns (om_Name (se_Meta secret)) ?a]) @ ds)" "deletes (SecretDeleted ns) (map (\<lambda>s. om_Name (se_Meta s)) secrets) ds"
      using Cons.IH[OF Cons.prems] by blast
    with False Cons.prems show ?thesis
      by (intro exI[of _ "SecretDeleted ns (om_Name (se_Meta secret)) ?a # ds"])
        (auto simp: kbind_def DeleteSecret_def required_def kcall_def Let_def intro: deletes.asked)
  qed
qed (simp add: kreturn_def deletes.nothing)

lemma deleteLabeled_swept:
  assumes "ns \<noteq> ''''"
  shows "\<exists>evs err. deleteLabeledJobsAndRefSecrets h ns sel l = (err, l @ evs) \<and> swept ns sel evs"
proof (cases "kc_ListJobs (kh_client h) l ns sel")
  case (Inl e)
  then show ?thesis
    using assms swept.not_listed[of ns sel e]
    by (auto simp: deleteLabeledJobsAndRefSecrets_def ListJobs_def kbind_def kcall_def kreturn_def Let_def)
next
  case (Inr jobs)
  let ?l = "l @ [JobsListed ns sel (Inr jobs)]"
  obtain ds err where d: "delete_jobs h ns jobs None ?l = (err, ?l @ ds)" "deletes (JobDeleted ns) (map (\<lambda>j. om_Name (jb_Meta j)) jobs) ds"
    using delete_jobs_swept[OF assms] by blast
  show ?thesis
  proof (cases "kc_ListSecrets (kh_client h) (?l @ ds) ns sel")
    case (Inl e)
    then show ?thesis
      using assms Inr d swept.jobs_only[OF d(2), of sel e]
      by (auto simp: deleteLabeledJobsAndRefSecrets_def ListJobs_def ListSecrets_def kbind_def kcall_def kreturn_def Let_def)
  next
    case s: (Inr secrets)
    let ?l2 = "(?l @ ds) @ [SecretsListed ns sel (Inr secrets)]"
    obtain es err' where e: "delete_secrets h ns secrets err ?l2 = (err', ?l2 @ es)"
      "deletes (SecretDeleted ns) (map (\<lambda>s. om_Name (se_Meta s)) secrets) es"
      using delete_secrets_swept[OF assms] by blast
    then show ?thesis
      using assms Inr d s swept.all[OF d(2) e(2), of sel]
      by (auto simp: deleteLabeledJobsAndRefSecrets_def ListJobs_def ListSecrets_def kbind_def kcall_def kreturn_def Let_def)
  qed
qed

lemma sweepEvaluationResourcesAfterAbort_swept:
  "\<exists>s1 s2. snd (sweepEvaluationResourcesAfterAbort r evaluation l) = l @ s1 @ s2 \<and>
     swept (evaluation_namespace r evaluation) (job_selector (r_ID (ej_Resource evaluation))) s1 \<and>
     swept (evaluation_namespace r evaluation) (job_selector (r_ID (ej_Resource evaluation))) s2"
proof -
  let ?ns = "evaluation_namespace r evaluation" and ?sel = "job_selector (r_ID (ej_Resource evaluation))"
  have n: "?ns \<noteq> ''''" by (simp add: evaluation_namespace_def resolveNamespace_not_empty)
  obtain s1 e1 where 1: "deleteLabeledJobsAndRefSecrets (xr_helper r) ?ns ?sel l = (e1, l @ s1)" "swept ?ns ?sel s1"
    using deleteLabeled_swept[OF n] by blast
  obtain s2 e2 where 2: "deleteLabeledJobsAndRefSecrets (xr_helper r) ?ns ?sel (l @ s1) = (e2, (l @ s1) @ s2)" "swept ?ns ?sel s2"
    using deleteLabeled_swept[OF n] by blast
  from 1 2 show ?thesis
    by (auto simp: sweepEvaluationResourcesAfterAbort_def DeleteEvaluationJobResources_def cleanupSweep_def kbind_def kreturn_def)
qed

section \<open>Waiting for the state of the evaluation\<close>

text \<open>An answer of the store by which the evaluation is gone or cancelled, and one that settles the question.\<close>

definition aborted_answer :: "go_error + EvaluationJobResource option \<Rightarrow> bool" where
  "aborted_answer a =
     (case a of
        Inl e \<Rightarrow> has_code ResourceNotFound e
      | Inr None \<Rightarrow> True
      | Inr (Some j) \<Rightarrow> (case ej_Status j of Some s \<Rightarrow> js_State s = OverallStateCancelled | None \<Rightarrow> False))"

definition settles :: "k8s_runtime \<Rightarrow> string \<Rightarrow> events \<Rightarrow> bool" where
  "settles r jobID l =
     (case xr_storage r of
        None \<Rightarrow> True
      | Some st \<Rightarrow> (case ry_GetEvaluationJob st l jobID of Inl e \<Rightarrow> has_code ResourceNotFound e | Inr _ \<Rightarrow> True))"

definition patient :: "k8s_event \<Rightarrow> bool" where
  "patient e = (case e of Waited w \<Rightarrow> createAbortBackoffInitial \<le> w \<and> w \<le> createAbortBackoffMax | _ \<Rightarrow> True)"

definition checks :: "string \<Rightarrow> createAbortStatus \<Rightarrow> events \<Rightarrow> bool" where
  "checks jobID status evs \<longleftrightarrow>
     list_all inspects evs \<and> list_all patient evs \<and>
     (status = CreateAbortAborted \<longrightarrow> (\<exists>xs a. evs = xs @ [StoreJobRead jobID a] \<and> aborted_answer a))"

lemma checkCreateAbort_checks:
  assumes "checkCreateAbort r jobID l = ((status, reason), l')"
  obtains evs where "l' = l @ evs" "checks jobID status evs"
  using assms
  by (auto simp: checkCreateAbort_def checks_def kreturn_def kbind_def kcall_def Let_def aborted_answer_def patient_def
      split: option.splits sum.splits if_splits)

lemma checkCreateAbort_settles:
  assumes "settles r jobID l" "\<not> xr_shutdown r l"
  shows "fst (fst (checkCreateAbort r jobID l)) \<noteq> CreateAbortUnknown"
  using assms
  by (auto simp: checkCreateAbort_def settles_def kreturn_def kbind_def kcall_def Let_def split: option.splits sum.splits)

lemma checks_more: "list_all inspects xs \<Longrightarrow> list_all patient xs \<Longrightarrow> checks jobID status ys \<Longrightarrow> checks jobID status (xs @ ys)"
  by (auto simp: checks_def)

lemma next_interval_bounds:
  "createAbortBackoffInitial \<le> iv \<Longrightarrow> iv \<le> createAbortBackoffMax \<Longrightarrow>
   createAbortBackoffInitial \<le> next_interval iv \<and> next_interval iv \<le> createAbortBackoffMax"
  by (auto simp: next_interval_def createAbortBackoffInitial_def)

lemma await_status_checks:
  assumes "await_status r jobID iv l = Some ((status, reason), l')" "createAbortBackoffInitial \<le> iv" "iv \<le> createAbortBackoffMax"
  obtains evs where "l' = l @ evs" "checks jobID status evs" "status = CreateAbortUnknown \<longrightarrow> xr_shutdown r l'"
proof -
  let ?P = "\<lambda>r jobID iv l (y :: (createAbortStatus \<times> string) \<times> events). createAbortBackoffInitial \<le> iv \<longrightarrow> iv \<le> createAbortBackoffMax \<longrightarrow>
      (\<exists>evs. snd y = l @ evs \<and> checks jobID (fst (fst y)) evs \<and> (fst (fst y) = CreateAbortUnknown \<longrightarrow> xr_shutdown r (snd y)))"
  have "?P r jobID iv l y" if "await_status r jobID iv l = Some y" for y
  proof (rule await_status.raw_induct[where P = ?P, OF _ that], goal_cases)
    case (1 await r jobID iv l y)
    obtain s t l1 where c: "checkCreateAbort r jobID l = ((s, t), l1)" by (metis prod.collapse)
    then obtain evs where e: "l1 = l @ evs" "checks jobID s evs" by (rule checkCreateAbort_checks)
    show ?case
    proof (intro impI)
      assume iv: "createAbortBackoffInitial \<le> iv" "iv \<le> createAbortBackoffMax"
      show "\<exists>evs. snd y = l @ evs \<and> checks jobID (fst (fst y)) evs \<and> (fst (fst y) = CreateAbortUnknown \<longrightarrow> xr_shutdown r (snd y))"
      proof (cases "s \<noteq> CreateAbortUnknown")
        case True
        then have "y = ((s, t), l @ evs)" using 1(2) c e(1) by simp
        then show ?thesis using e(2) True by (intro exI[of _ evs]) simp
      next
        case u: False
        let ?evs = "evs @ [Waited iv]"
        have q: "list_all inspects ?evs" "list_all patient ?evs"
          using e(2) iv by (auto simp: checks_def patient_def)
        show ?thesis
        proof (cases "xr_shutdown r (l1 @ [Waited iv])")
          case True
          then have "y = ((CreateAbortUnknown, ''''), l @ ?evs)" using 1(2) c u e(1) by simp
          then show ?thesis using q True e(1) by (auto simp: checks_def)
        next
          case False
          then have "await r jobID (next_interval iv) (l @ ?evs) = Some y" using 1(2) c u e(1) by simp
          then obtain more where "snd y = (l @ ?evs) @ more" "checks jobID (fst (fst y)) more"
            "fst (fst y) = CreateAbortUnknown \<longrightarrow> xr_shutdown r (snd y)"
            using 1(1) next_interval_bounds[OF iv] by blast
          then show ?thesis using checks_more[OF q] by (intro exI[of _ "?evs @ more"]) simp
        qed
      qed
    qed
  qed
  from this[OF assms(1)] assms(2,3) that show thesis by auto
qed

text \<open>The wait ends when, from some point on, the store answers or the runtime is being closed.\<close>

definition responsive :: "k8s_runtime \<Rightarrow> string \<Rightarrow> nat \<Rightarrow> bool" where
  "responsive r jobID n \<longleftrightarrow> (\<forall>l. n \<le> length l \<longrightarrow> xr_shutdown r l \<or> settles r jobID l)"

lemma await_status_returns:
  assumes "responsive r jobID n"
  shows "await_status r jobID iv l \<noteq> None"
proof -
  have progress: "length (snd (checkCreateAbort r jobID l)) \<ge> length l" for l
    using checkCreateAbort_checks[of r jobID l] by (metis le_add1 length_append prod.collapse)
  have late: "await_status r jobID iv l \<noteq> None" if "n \<le> length l" "\<not> xr_shutdown r l" for iv l
    using assms that checkCreateAbort_settles[of r jobID l]
    by (subst await_status.simps) (auto simp: responsive_def split: prod.splits)
  show ?thesis
  proof (induction "n - length l" arbitrary: iv l rule: less_induct)
    case less
    obtain sr l1 where c: "checkCreateAbort r jobID l = (sr, l1)" by fastforce
    let ?l = "l1 @ [Waited iv]"
    have longer: "length l < length ?l" using progress[of l] c by simp
    have "await_status r jobID (next_interval iv) ?l \<noteq> None" if "\<not> xr_shutdown r ?l"
    proof (cases "n \<le> length ?l")
      case True
      then show ?thesis using late that by blast
    next
      case False
      then show ?thesis using less longer by simp
    qed
    then show ?case by (subst await_status.simps) (simp add: c)
  qed
qed

lemma handleCreateAbortDecision_events:
  assumes "handleCreateAbortDecision r evaluation l = Some (stop, l')"
  obtains evs where "\<not> stop" "l' = l @ evs" "list_all inspects evs" "list_all patient evs"
  | evs where "stop" "xr_shutdown r l'" "l' = l @ evs" "list_all inspects evs" "list_all patient evs"
  | c s1 s2 where "stop" "l' = l @ c @ s1 @ s2" "checks (r_ID (ej_Resource evaluation)) CreateAbortAborted c"
      "swept (evaluation_namespace r evaluation) (job_selector (r_ID (ej_Resource evaluation))) s1"
      "swept (evaluation_namespace r evaluation) (job_selector (r_ID (ej_Resource evaluation))) s2"
proof -
  let ?id = "r_ID (ej_Resource evaluation)"
  obtain status reason l1 where w: "await_status r ?id createAbortBackoffInitial l = Some ((status, reason), l1)"
    using assms by (auto simp: handleCreateAbortDecision_def awaitCreateAbortStatus_def split: option.splits)
  then obtain c where c: "l1 = l @ c" "checks ?id status c" "status = CreateAbortUnknown \<longrightarrow> xr_shutdown r l1"
    by (rule await_status_checks) (simp_all add: createAbortBackoffInitial_def createAbortBackoffMax_def second_def)
  have d: "handleCreateAbortDecision r evaluation l =
      (case status of CreateAbortActive \<Rightarrow> Some (False, l1)
       | CreateAbortAborted \<Rightarrow> Some (True, snd (sweepEvaluationResourcesAfterAbort r evaluation l1))
       | CreateAbortUnknown \<Rightarrow> Some (True, l1))"
    by (simp add: handleCreateAbortDecision_def awaitCreateAbortStatus_def w)
  show thesis
  proof (cases status)
    case CreateAbortActive
    then show thesis using d assms c by (intro that(1)[of c]) (auto simp: checks_def)
  next
    case CreateAbortUnknown
    then show thesis using d assms c by (intro that(2)[of c]) (auto simp: checks_def)
  next
    case CreateAbortAborted
    obtain s1 s2 where "snd (sweepEvaluationResourcesAfterAbort r evaluation l1) = l1 @ s1 @ s2"
      "swept (evaluation_namespace r evaluation) (job_selector ?id) s1" "swept (evaluation_namespace r evaluation) (job_selector ?id) s2"
      using sweepEvaluationResourcesAfterAbort_swept by blast
    then show thesis using d assms c CreateAbortAborted by (intro that(3)[of c s1 s2]) auto
  qed
qed

section \<open>The history of one benchmark\<close>

lemma createBenchmarkResources_trace:
  assumes "echoes_names (kh_client (xr_helper r))" "createBenchmarkResources r evaluation bench i l = (outcome, l')"
  obtains prep where "l' = l @ prep" "list_all inspects prep" "outcome \<noteq> Created"
  | prep e ex s where "l' = l @ prep @ ex" "list_all inspects prep" "prepareExecution r evaluation bench i l = (Inr e, l @ prep)"
      "observe (exec_monitor e) exec_start ex = Some s" "left_behind outcome s"
proof -
  obtain p l1 where p: "prepareExecution r evaluation bench i l = (p, l1)" by fastforce
  obtain prep where prep: "l1 = l @ prep" "list_all inspects prep"
    using keeps_readerD[OF reader.keeps_prepareExecution, of r evaluation bench i l] p by (metis snd_conv)
  show thesis
  proof (cases p)
    case (Inl o1)
    have "o1 \<noteq> Created"
      using p unfolding Inl prepareExecution_def
      by (auto simp: kchain_def kfail_def kreturn_def built_config_def map_sum_def elim!: kbindE split: sum.splits option.splits prod.splits)
    then show thesis using assms(2) p Inl prep by (intro that(1)[of prep]) (auto simp: createBenchmarkResources_def kbind_def kreturn_def)
  next
    case (Inr e)
    note m = prepareExecution_meta[OF p[unfolded Inr]]
    have "execution_named e"
      using m(1,3) resolveNamespace_not_empty by (simp add: execution_named_def named_def evaluation_namespace_def)
    then have k: "keeps (exec_monitor e) (\<lambda>s. s = exec_start) (createExecution r (wrap evaluation bench) e) left_behind"
      using assms(1) by (rule keeps_createExecution)
    have "createExecution r (wrap evaluation bench) e l1 = (outcome, l')"
      using assms(2) p Inr by (simp add: createBenchmarkResources_def kbind_def)
    from keepsD[OF k refl this] obtain ex s where "l' = l1 @ ex" "observe (exec_monitor e) exec_start ex = Some s" "left_behind outcome s" .
    then show thesis using p prep Inr by (intro that(2)[of prep ex e s]) simp_all
  qed
qed

end
