(* ===== verification/K8s_Laws.thy ===== *)
theory K8s_Laws
  imports K8s_Loop
begin

text \<open>
  Laws of the background routine of the Kubernetes runtime. A law that every piece of the history obeys is
  obeyed by the whole history; the laws are that a Job is created only under its policy, that only
  Jobs of the evaluation are deleted, and that everything created can be found by the sweep.
\<close>

section \<open>From pieces to the whole\<close>

locale loop_law =
  fixes P :: "k8s_runtime \<Rightarrow> EvaluationJobResource \<Rightarrow> law"
  assumes more: "set past \<subseteq> set past' \<Longrightarrow> P r evaluation past e \<Longrightarrow> P r evaluation past' e"
    and reading: "inspects e \<Longrightarrow> P r evaluation [] e"
    and measured: "P r evaluation [] (RuntimeErrorMeasured rt t)"
    and reported: "P r evaluation [] (StoreReported j status a)"
    and sweeping: "swept (evaluation_namespace r evaluation) (job_selector (r_ID (ej_Resource evaluation))) evs \<Longrightarrow>
          lawful (P r evaluation) evs"
    and executing: "prepareExecution r evaluation bench i l = (Inr x, l') \<Longrightarrow>
          observe (exec_monitor x) exec_start evs = Some s \<Longrightarrow> lawful (P r evaluation) evs"

sublocale loop_law \<subseteq> history_law "P r evaluation" for r evaluation
  by unfold_locales (rule more)

context loop_law
begin

lemma reading_lawful: "list_all inspects evs \<Longrightarrow> lawful (P r evaluation) evs"
  by (rule lawful_all) (auto simp: list_all_iff reading)

lemma abort_decision_lawful:
  assumes "handleCreateAbortDecision r evaluation l = Some (stop, l')"
  obtains evs where "l' = l @ evs" "lawful (P r evaluation) evs"
  using assms
proof (cases rule: handleCreateAbortDecision_events)
  case (3 c s1 s2)
  then have "lawful (P r evaluation) (c @ s1 @ s2)"
    by (intro lawful_append sweeping reading_lawful) (auto simp: checks_def)
  then show thesis using 3 that by blast
qed (use that reading_lawful in blast)+

lemma create_lawful:
  assumes "echoes_names (kh_client (xr_helper r))" "createBenchmarkResources r evaluation bench i l = (outcome, l')"
  obtains evs where "l' = l @ evs" "lawful (P r evaluation) evs"
  using assms
proof (cases rule: createBenchmarkResources_trace)
  case (2 prep e ex s)
  then show thesis using that[of "prep @ ex"] lawful_append[OF reading_lawful executing] by blast
qed (use that reading_lawful in blast)

lemma failure_lawful:
  obtains evs where "record_failure r evaluation bench i outcome l = l @ evs" "lawful (P r evaluation) evs"
proof -
  have "lawful (P r evaluation) [RuntimeErrorMeasured a b]" "lawful (P r evaluation) [RuntimeErrorMeasured a b, StoreReported j s c]"
    for a b j s c by (auto intro: lawful_all simp: measured reported)
  then have "\<exists>evs. record_failure r evaluation bench i outcome l = l @ evs \<and> lawful (P r evaluation) evs"
    by (cases outcome; cases "xr_storage r") (auto simp: record_failure_def Let_def intro!: exI[of _ "[]"] simp: lawful_def)
  then show thesis using that by blast
qed

lemma create_loop_lawful:
  assumes "echoes_names (kh_client (xr_helper r))" "create_loop r evaluation i benches l = Some (how, l')"
  obtains evs where "l' = l @ evs" "lawful (P r evaluation) evs"
proof -
  have "\<exists>evs. l' = l @ evs \<and> lawful (P r evaluation) evs"
    using assms(2)
  proof (induction benches arbitrary: i l)
    case Nil
    then show ?case by (auto simp: lawful_def)
  next
    case (Cons bench benches)
    obtain b1 l1 where h1: "handleCreateAbortDecision r evaluation l = Some (b1, l1)"
      using Cons.prems by (auto split: option.splits)
    then obtain x1 where x1: "l1 = l @ x1" "lawful (P r evaluation) x1" by (rule abort_decision_lawful)
    obtain out l2 where c: "createBenchmarkResources r evaluation bench i l1 = (out, l2)" by fastforce
    then obtain x2 where x2: "l2 = l1 @ x2" "lawful (P r evaluation) x2" by (rule create_lawful[OF assms(1)])
    show ?case
    proof (cases "b1 \<or> out = CreatePanicked")
      case True
      then have "l' = l1 \<or> l' = l2" using Cons.prems h1 c by (auto split: bool.splits)
      then show ?thesis using x1 x2 lawful_append by auto
    next
      case False
      then obtain b3 l3 where h3: "handleCreateAbortDecision r evaluation l2 = Some (b3, l3)"
        using Cons.prems h1 c by (auto split: option.splits create_outcome.splits)
      then obtain x3 where x3: "l3 = l2 @ x3" "lawful (P r evaluation) x3" by (rule abort_decision_lawful)
      obtain x4 where x4: "record_failure r evaluation bench i out l3 = l3 @ x4" "lawful (P r evaluation) x4"
        by (rule failure_lawful)
      have "l' = l3 \<or> create_loop r evaluation (i + 1) benches (l3 @ x4) = Some (how, l')"
        using Cons.prems h1 c False h3 x4(1) by (auto split: create_outcome.splits bool.splits)
      then show ?thesis using Cons.IH[of "i + 1" "l3 @ x4"] x1 x2 x3 x4(2) lawful_append by fastforce
    qed
  qed
  then show thesis using that by blast
qed

end

section \<open>The past of an execution\<close>

text \<open>What an accepted history of an execution says about its past.\<close>

lemma exec_monitor_past:
  assumes "observe (exec_monitor e) exec_start evs = Some s"
  shows "xs_policy s \<Longrightarrow> \<exists>np a. PolicyCreated np (Inr a) \<in> set evs \<and> own_policy e np"
    and "xs_job s \<Longrightarrow> \<exists>a. JobCreateCalled (xe_job e) a \<in> set evs"
proof -
  have "(xs_policy s \<longrightarrow> (\<exists>np a. PolicyCreated np (Inr a) \<in> set evs \<and> own_policy e np)) \<and>
    (xs_job s \<longrightarrow> (\<exists>a. JobCreateCalled (xe_job e) a \<in> set evs))"
    using assms
  proof (induction evs arbitrary: s rule: rev_induct)
    case (snoc ev evs)
    from snoc.prems obtain t where t: "observe (exec_monitor e) exec_start evs = Some t" "exec_monitor e t ev = Some s"
      by (auto simp: observe_append split: option.splits)
    from snoc.IH[OF t(1)] t(2) show ?case
    proof (cases ev)
      case (PolicyCreated np a)
      then show ?thesis using snoc.IH[OF t(1)] t(2) by (cases a) (auto simp: exec_monitor_def split: if_splits)
    qed (auto simp: exec_monitor_def split: if_splits)
  qed (simp add: exec_start_def)
  then show "xs_policy s \<Longrightarrow> \<exists>np a. PolicyCreated np (Inr a) \<in> set evs \<and> own_policy e np"
    "xs_job s \<Longrightarrow> \<exists>a. JobCreateCalled (xe_job e) a \<in> set evs" by blast+
qed

lemma own_policy_fields:
  assumes "own_policy e np"
  shows "np_PodSelector np = np_PodSelector (xe_policy e)" "np_PolicyTypes np = np_PolicyTypes (xe_policy e)"
    "np_Ingress np = np_Ingress (xe_policy e)" "om_Namespace (np_Meta np) = om_Namespace (np_Meta (xe_policy e))"
    "om_Labels (np_Meta np) = om_Labels (np_Meta (xe_policy e))"
  using arg_cong[OF assms[unfolded own_policy_def], of np_PodSelector] arg_cong[OF assms[unfolded own_policy_def], of np_PolicyTypes]
    arg_cong[OF assms[unfolded own_policy_def], of np_Ingress]
    arg_cong[OF assms[unfolded own_policy_def], of "\<lambda>p. om_Namespace (np_Meta p)"]
    arg_cong[OF assms[unfolded own_policy_def], of "\<lambda>p. om_Labels (np_Meta p)"]
  by simp_all

lemma observe_at:
  assumes "observe d s (xs @ e # ys) = Some s'"
  obtains t t' where "observe d s xs = Some t" "d t e = Some t'"
  using assms by (auto simp: observe_append split: option.splits)

lemma lawful_observed:
  assumes "observe d s evs = Some s'" "\<And>xs e t t'. observe d s xs = Some t \<Longrightarrow> d t e = Some t' \<Longrightarrow> P xs e"
  shows "lawful P evs"
  by (rule lawfulI) (use assms in \<open>auto elim!: observe_at\<close>)

section \<open>A Job is created under its policy\<close>

text \<open>A policy that lets nothing in, for the pods of the Job.\<close>

definition protects :: "NetworkPolicy \<Rightarrow> Job \<Rightarrow> bool" where
  "protects np job \<longleftrightarrow>
     om_Namespace (np_Meta np) = om_Namespace (jb_Meta job) \<and> selects (np_PodSelector np) (jb_TemplateLabels job) \<and>
     np_PolicyTypes np = [''Ingress''] \<and> np_Ingress np = []"

definition policy_first :: "k8s_runtime \<Rightarrow> EvaluationJobResource \<Rightarrow> law" where
  "policy_first r evaluation past e =
     (case e of JobCreateCalled job _ \<Rightarrow> \<exists>np a. PolicyCreated np (Inr a) \<in> set past \<and> protects np job | _ \<Rightarrow> True)"

lemma deletes_events: "deletes ev names ds \<Longrightarrow> d \<in> set ds \<Longrightarrow> \<exists>n a. n \<in> set names \<and> d = ev n a"
  by (induction rule: deletes.induct) auto

lemma swept_events:
  assumes "swept ns sel evs" "e \<in> set evs"
  shows "sweeps ns sel e"
  using assms by (cases rule: swept.cases) (auto simp: sweeps_def dest: deletes_events)

lemma swept_lawful: "swept ns sel evs \<Longrightarrow> (\<And>past e. sweeps ns sel e \<Longrightarrow> P past e) \<Longrightarrow> lawful P evs"
  by (rule lawfulI) (simp add: swept_events)

interpretation guarded: loop_law policy_first
proof
  fix r evaluation past past' e
  assume "set past \<subseteq> set past'" "policy_first r evaluation past e"
  then show "policy_first r evaluation past' e" by (auto simp: policy_first_def split: k8s_event.splits)
next
  fix r evaluation evs
  assume s: "swept (evaluation_namespace r evaluation) (job_selector (r_ID (ej_Resource evaluation))) evs"
  show "lawful (policy_first r evaluation) evs"
    by (rule swept_lawful[OF s]) (auto simp: policy_first_def sweeps_def split: k8s_event.splits)
next
  fix r evaluation bench i l x l' evs s
  assume p: "prepareExecution r evaluation bench i l = (Inr x, l')" and "observe (exec_monitor x) exec_start evs = Some s"
  from this(2) show "lawful (policy_first r evaluation) evs"
  proof (rule lawful_observed)
    fix xs e t t'
    assume t: "observe (exec_monitor x) exec_start xs = Some t" "exec_monitor x t e = Some t'"
    show "policy_first r evaluation xs e"
    proof (cases e)
      case (JobCreateCalled job a)
      then have j: "job = xe_job x" "xs_policy t" using t(2) by (auto simp: exec_monitor_def split: if_splits)
      obtain np b where np: "PolicyCreated np (Inr b) \<in> set xs" "own_policy x np"
        using exec_monitor_past(1)[OF t(1) j(2)] by blast
      have "protects np job"
        using prepareExecution_meta[OF p] by (simp add: protects_def j own_policy_fields[OF np(2)])
      then show ?thesis using np(1) JobCreateCalled by (auto simp: policy_first_def)
    qed (simp_all add: policy_first_def)
  qed
qed (auto simp: policy_first_def inspects_def split: k8s_event.splits)

section \<open>Only Jobs of the evaluation are deleted\<close>

text \<open>A Job that is deleted has been listed under the selector of the evaluation, or created by its routine.\<close>

definition known_job :: "k8s_runtime \<Rightarrow> EvaluationJobResource \<Rightarrow> events \<Rightarrow> string \<Rightarrow> bool" where
  "known_job r evaluation past n \<longleftrightarrow>
     (\<exists>jobs. JobsListed (evaluation_namespace r evaluation) (job_selector (r_ID (ej_Resource evaluation))) (Inr jobs) \<in> set past \<and>
        n \<in> (\<lambda>j. om_Name (jb_Meta j)) ` set jobs) \<or>
     (\<exists>job a. JobCreateCalled job a \<in> set past \<and> om_Namespace (jb_Meta job) = evaluation_namespace r evaluation \<and>
        om_Name (jb_Meta job) = n)"

definition own_jobs :: "k8s_runtime \<Rightarrow> EvaluationJobResource \<Rightarrow> law" where
  "own_jobs r evaluation past e =
     (case e of JobDeleted ns n _ \<Rightarrow> ns = evaluation_namespace r evaluation \<and> known_job r evaluation past n | _ \<Rightarrow> True)"

lemma known_job_mono: "set past \<subseteq> set past' \<Longrightarrow> known_job r evaluation past n \<Longrightarrow> known_job r evaluation past' n"
  unfolding known_job_def by blast

lemma lawful_headed:
  assumes "P [] f" "\<And>past e. f \<in> set past \<Longrightarrow> e \<in> set evs \<Longrightarrow> P past e"
  shows "lawful P (f # evs)"
proof -
  have "f \<in> set past \<Longrightarrow> set xs \<subseteq> set evs \<Longrightarrow> lawful_after P past xs" for past xs
    using assms(2) by (induction xs arbitrary: past) auto
  then show ?thesis using assms(1) by (simp add: lawful_def)
qed

lemma swept_own_jobs:
  assumes "swept (evaluation_namespace r evaluation) (job_selector (r_ID (ej_Resource evaluation))) evs"
  shows "lawful (own_jobs r evaluation) evs"
proof -
  let ?ns = "evaluation_namespace r evaluation" and ?sel = "job_selector (r_ID (ej_Resource evaluation))"
  have job: "own_jobs r evaluation past e"
    if l: "JobsListed ?ns ?sel (Inr jobs) \<in> set past" and d: "deletes (JobDeleted ?ns) (map (\<lambda>j. om_Name (jb_Meta j)) jobs) ds" and e: "e \<in> set ds"
    for past e jobs ds
  proof -
    obtain n a where "n \<in> set (map (\<lambda>j. om_Name (jb_Meta j)) jobs)" "e = JobDeleted ?ns n a"
      using deletes_events[OF d e] by blast
    then have "known_job r evaluation past n" using l unfolding known_job_def by (intro disjI1 exI[of _ jobs]) simp
    then show ?thesis using \<open>e = JobDeleted ?ns n a\<close> by (simp add: own_jobs_def)
  qed
  have secret: "own_jobs r evaluation past e" if "deletes (SecretDeleted ?ns) names ds" "e \<in> set ds" for past e names ds
    using deletes_events[OF that] by (auto simp: own_jobs_def)
  have other: "own_jobs r evaluation past (JobsListed a b c)" "own_jobs r evaluation past (SecretsListed a b d)" for past a b c d
    by (simp_all add: own_jobs_def)
  from assms show ?thesis
  proof (cases rule: swept.cases)
    case (jobs_only jobs ds e)
    show ?thesis unfolding jobs_only(1) by (rule lawful_headed) (auto simp: other intro: job[OF _ jobs_only(2)])
  next
    case (all jobs ds secrets es)
    show ?thesis unfolding all(1) by (rule lawful_headed) (auto simp: other intro: job[OF _ all(2)] secret[OF all(3)])
  qed (simp add: lawful_def other)
qed

interpretation own: loop_law own_jobs
proof
  fix r evaluation past past' e
  assume "set past \<subseteq> set past'" "own_jobs r evaluation past e"
  then show "own_jobs r evaluation past' e" by (cases e) (auto simp: own_jobs_def intro: known_job_mono)
next
  fix r evaluation bench i l x l' evs s
  assume p: "prepareExecution r evaluation bench i l = (Inr x, l')" and "observe (exec_monitor x) exec_start evs = Some s"
  from this(2) show "lawful (own_jobs r evaluation) evs"
  proof (rule lawful_observed)
    fix xs e t t'
    assume t: "observe (exec_monitor x) exec_start xs = Some t" "exec_monitor x t e = Some t'"
    show "own_jobs r evaluation xs e"
    proof (cases e)
      case (JobDeleted ns n a)
      then have j: "same_object ns n (jb_Meta (xe_job x))" "xs_job t" using t(2) by (auto simp: exec_monitor_def split: if_splits)
      from exec_monitor_past(2)[OF t(1) j(2)] prepareExecution_meta(3)[OF p] j(1) show ?thesis
        by (auto simp: JobDeleted own_jobs_def known_job_def same_object_def)
    qed (simp_all add: own_jobs_def)
  qed
qed (auto simp: own_jobs_def inspects_def swept_own_jobs split: k8s_event.splits)

section \<open>Everything created can be swept\<close>

text \<open>The metadata of an object under the selector of the evaluation, in the namespace the sweep looks at.\<close>

definition sweepable :: "k8s_runtime \<Rightarrow> EvaluationJobResource \<Rightarrow> ObjectMeta \<Rightarrow> bool" where
  "sweepable r evaluation m \<longleftrightarrow>
     om_Namespace m = evaluation_namespace r evaluation \<and> om_Name m \<noteq> '''' \<and>
     gomap_get (om_Labels m) ''job_id'' = Some (sanitizeLabelValue (r_ID (ej_Resource evaluation)))"

definition labelled :: "k8s_runtime \<Rightarrow> EvaluationJobResource \<Rightarrow> law" where
  "labelled r evaluation past e =
     (case e of
        JobCreateCalled job _ \<Rightarrow> sweepable r evaluation (jb_Meta job)
      | SecretCreated secret _ \<Rightarrow> sweepable r evaluation (se_Meta secret)
      | ConfigMapCreated cm _ \<Rightarrow> sweepable r evaluation (cm_Meta cm)
      | PolicyCreated np _ \<Rightarrow> om_Namespace (np_Meta np) = evaluation_namespace r evaluation
      | _ \<Rightarrow> True)"

interpretation labelled: loop_law labelled
proof
  fix r evaluation evs
  assume s: "swept (evaluation_namespace r evaluation) (job_selector (r_ID (ej_Resource evaluation))) evs"
  show "lawful (labelled r evaluation) evs"
    by (rule swept_lawful[OF s]) (auto simp: labelled_def sweeps_def split: k8s_event.splits)
next
  fix r evaluation bench i l x l' evs s
  assume p: "prepareExecution r evaluation bench i l = (Inr x, l')" and o: "observe (exec_monitor x) exec_start evs = Some s"
  note m = prepareExecution_meta[OF p]
  have id: "gomap_get (jobLabels (xe_config x)) ''job_id'' = Some (sanitizeLabelValue (r_ID (ej_Resource evaluation)))"
    by (simp add: jobLabels_fixed m(2))
  show "lawful (labelled r evaluation) evs"
    by (rule lawful_observed[OF o]) (auto simp: labelled_def exec_monitor_def sweepable_def same_object_def id m(1) own_policy_fields m(3)[simplified]
        split: k8s_event.splits if_splits)
qed (auto simp: labelled_def inspects_def split: k8s_event.splits)

section \<open>Reports\<close>

type_synonym report = "string \<times> string \<times> string \<times> int \<times> State"

definition report_of :: "k8s_event \<Rightarrow> report option" where
  "report_of e = (case e of StoreReported j st _ \<Rightarrow> Some (j, be_ProviderID st, be_ID st, be_BenchmarkIndex st, be_Status st) | _ \<Rightarrow> None)"

definition reports :: "events \<Rightarrow> report list" where
  "reports evs = map the (filter (\<lambda>x. x \<noteq> None) (map report_of evs))"

text \<open>A failure of every benchmark, in their order.\<close>

fun all_failed :: "string \<Rightarrow> int \<Rightarrow> EvaluationBenchmarkConfig list \<Rightarrow> report list" where
  "all_failed jobID i [] = []"
| "all_failed jobID i (b # bs) = (jobID, eb_ProviderID b, eb_ID b, i, StateFailed) # all_failed jobID (i + 1) bs"

lemma reports_append [simp]: "reports (xs @ ys) = reports xs @ reports ys"
  by (simp add: reports_def)

lemma reports_none: "(\<And>e. e \<in> set evs \<Longrightarrow> report_of e = None) \<Longrightarrow> reports evs = []"
  by (induction evs) (auto simp: reports_def)

lemma quiet_reports:
  "list_all inspects evs \<Longrightarrow> reports evs = []"
  "swept ns sel evs \<Longrightarrow> reports evs = []"
  "observe (exec_monitor e) exec_start evs = Some s \<Longrightarrow> reports evs = []"
proof -
  show "list_all inspects evs \<Longrightarrow> reports evs = []"
    by (rule reports_none) (auto simp: list_all_iff report_of_def inspects_def split: k8s_event.splits)
  show "swept ns sel evs \<Longrightarrow> reports evs = []"
    by (rule reports_none) (auto dest!: swept_events simp: report_of_def sweeps_def split: k8s_event.splits)
  assume "observe (exec_monitor e) exec_start evs = Some s"
  then have l: "lawful (\<lambda>_ ev. report_of ev = None) evs"
    by (rule lawful_observed) (auto simp: exec_monitor_def report_of_def split: k8s_event.splits)
  show "reports evs = []"
    by (rule reports_none) (use l in \<open>auto dest!: split_list lawful_at\<close>)
qed

lemma abort_decision_reports:
  assumes "handleCreateAbortDecision r evaluation l = Some (stop, l')"
  shows "reports l' = reports l"
  using assms by (cases rule: handleCreateAbortDecision_events) (auto simp: quiet_reports checks_def)

lemma create_reports:
  assumes "echoes_names (kh_client (xr_helper r))" "createBenchmarkResources r evaluation bench i l = (outcome, l')"
  shows "reports l' = reports l"
  using assms by (cases rule: createBenchmarkResources_trace) (auto simp: quiet_reports)

lemma record_failure_reports:
  "reports (record_failure r evaluation bench i outcome l) = reports l \<or>
   reports (record_failure r evaluation bench i outcome l) =
     reports l @ [(r_ID (ej_Resource evaluation), eb_ProviderID bench, eb_ID bench, i, StateFailed)]"
  by (auto simp: record_failure_def Let_def reports_def report_of_def buildBenchmarkFailureStatus_def
      split: create_outcome.splits option.splits)

lemma create_loop_reports:
  assumes "echoes_names (kh_client (xr_helper r))" "create_loop r evaluation i benches l = Some (how, l')"
  shows "\<exists>rs. reports l' = reports l @ rs \<and> subseq rs (all_failed (r_ID (ej_Resource evaluation)) i benches)"
  using assms(2)
proof (induction benches arbitrary: i l)
  case (Cons bench benches)
  obtain b1 l1 where h1: "handleCreateAbortDecision r evaluation l = Some (b1, l1)"
    using Cons.prems by (auto split: option.splits)
  obtain out l2 where c: "createBenchmarkResources r evaluation bench i l1 = (out, l2)" by fastforce
  note q = abort_decision_reports[OF h1] create_reports[OF assms(1) c]
  show ?case
  proof (cases "b1 \<or> out = CreatePanicked")
    case True
    then have "l' = l1 \<or> l' = l2" using Cons.prems h1 c by (auto split: bool.splits)
    then show ?thesis using q by auto
  next
    case False
    then obtain b3 l3 where h3: "handleCreateAbortDecision r evaluation l2 = Some (b3, l3)"
      using Cons.prems h1 c by (auto split: option.splits create_outcome.splits)
    note q = q abort_decision_reports[OF h3]
    have "l' = l3 \<or> create_loop r evaluation (i + 1) benches (record_failure r evaluation bench i out l3) = Some (how, l')"
      using Cons.prems h1 c False h3 by (auto split: create_outcome.splits bool.splits)
    then show ?thesis
    proof
      assume "create_loop r evaluation (i + 1) benches (record_failure r evaluation bench i out l3) = Some (how, l')"
      from Cons.IH[OF this] record_failure_reports[of r evaluation bench i out l3] show ?thesis
        by (auto simp: q)
    qed (use q in auto)
  qed
qed simp

section \<open>The end of the routine\<close>

lemma create_loop_stopped:
  assumes "create_loop r evaluation i benches l = Some (LoopStopped, l')" "\<not> xr_shutdown r l'"
  shows "\<exists>pre c s1 s2. l' = pre @ c @ s1 @ s2 \<and> checks (r_ID (ej_Resource evaluation)) CreateAbortAborted c \<and>
      swept (evaluation_namespace r evaluation) (job_selector (r_ID (ej_Resource evaluation))) s1 \<and>
      swept (evaluation_namespace r evaluation) (job_selector (r_ID (ej_Resource evaluation))) s2"
  using assms(1)
proof (induction benches arbitrary: i l)
  case (Cons bench benches)
  have stop: ?case if "handleCreateAbortDecision r evaluation l0 = Some (True, l')" for l0
    using that by (cases rule: handleCreateAbortDecision_events) (use assms(2) in blast)+
  from Cons.prems consider l0 where "handleCreateAbortDecision r evaluation l0 = Some (True, l')"
    | i' l0 where "create_loop r evaluation i' benches l0 = Some (LoopStopped, l')"
    by (auto split: option.splits prod.splits bool.splits create_outcome.splits)
  then show ?case using stop Cons.IH by cases auto
qed simp

lemma create_loop_returns:
  assumes "responsive r (r_ID (ej_Resource evaluation)) n"
  shows "create_loop r evaluation i benches l \<noteq> None"
proof -
  have h: "handleCreateAbortDecision r evaluation l \<noteq> None" for l
    using await_status_returns[OF assms, of createAbortBackoffInitial l]
    by (auto simp: handleCreateAbortDecision_def awaitCreateAbortStatus_def split: option.splits createAbortStatus.splits)
  show ?thesis
  proof (induction benches arbitrary: i l)
    case (Cons bench benches)
    obtain b1 l1 where h1: "handleCreateAbortDecision r evaluation l = Some (b1, l1)" using h by fast
    obtain out l2 where c: "createBenchmarkResources r evaluation bench i l1 = (out, l2)" by fastforce
    obtain b3 l3 where "handleCreateAbortDecision r evaluation l2 = Some (b3, l3)" using h by fast
    with h1 c Cons.IH show ?case by (auto split: bool.splits create_outcome.splits)
  qed simp
qed

end
