(* ===== verification/K8s_Samples.thy ===== *)
theory K8s_Samples
  imports K8s_Laws Service_Samples
begin

text \<open>A small cluster and an evaluation on which the witnesses of the Kubernetes runtime evaluate the model.\<close>

definition sample_parse :: "string \<Rightarrow> string + go_url" where
  "sample_parse s = Inr \<lparr>u_Scheme = ''http'', u_User = None, u_Host = ''h'', u_EscapedPath = ''/v1'', u_RawQuery = '''', u_Fragment = ''''\<rparr>"

definition plain_url :: url_package where
  "plain_url = \<lparr>up_Parse = sample_parse, up_String = (\<lambda>u. ''http://'' @ u_Host u @ u_EscapedPath u), up_Hostname = u_Host, up_Port = (\<lambda>u. '''')\<rparr>"

definition sample_env :: k8s_env where
  "sample_env =
     \<lparr>ke_pod = \<lparr>pe_InstanceName = '''', pe_NamespaceFile = None\<rparr>, ke_MLFlowTrackingURI = '''', ke_HardwareProfilesNamespace = ''profiles'',
      ke_ParseQuantity = Inr,
      ke_Unstructured = \<lparr>uo_NestedSlice = (\<lambda>o1 p. Inr None), uo_NestedMap = (\<lambda>o1 p. Inr None), uo_NestedStringMap = (\<lambda>o1 p. Inr None)\<rparr>,
      ke_url = plain_url, ke_wild_int = (\<lambda>q. 0), ke_json_error = '''', ke_Atoi_error = (\<lambda>s. s)\<rparr>"

definition sample_k8s_codecs :: k8s_codecs where
  "sample_k8s_codecs =
     \<lparr>kj_JobSpec = (\<lambda>s. Inr ''{}''), kj_SidecarConfig = (\<lambda>s. Inr ''{}''), kj_StringMap = (\<lambda>m. ''{}''), kj_IsValidLabelValue = (\<lambda>s. [])\<rparr>"

text \<open>A cluster that creates what it is asked to. Its policies and secrets can be read or not.\<close>

definition sample_client :: "k8s_error + NetworkPolicy \<Rightarrow> Job list \<Rightarrow> k8s_client" where
  "sample_client policy jobs =
     \<lparr>kc_GetHardwareProfile = (\<lambda>l ns n. Inl (NotFound ''no profile'')), kc_ListHardwareProfiles = (\<lambda>l ns. Inr []),
      kc_ListLocalQueues = (\<lambda>l ns. Inr []), kc_GetConfigMap = (\<lambda>l ns n. Inl (OtherError ''timeout'')),
      kc_CreateConfigMap = (\<lambda>l cm. Inr cm), kc_UpdateConfigMap = (\<lambda>l cm. None), kc_DeleteConfigMap = (\<lambda>l ns n. None),
      kc_GetSecret = (\<lambda>l ns n. Inr \<lparr>se_Meta = object_meta n ns [] [], se_Data = [(''api-key'', ''secret'')]\<rparr>),
      kc_CreateSecret = (\<lambda>l s. Inr s), kc_UpdateSecret = (\<lambda>l s. None), kc_DeleteSecret = (\<lambda>l ns n. None),
      kc_ListSecrets = (\<lambda>l ns sel. Inr []), kc_GetNetworkPolicy = (\<lambda>l ns n. policy), kc_CreateNetworkPolicy = (\<lambda>l p. Inr p),
      kc_UpdateNetworkPolicy = (\<lambda>l p. None), kc_GetJob = (\<lambda>l ns n. Inl (NotFound ''no job'')), kc_CreateJob = (\<lambda>l j. Inr j),
      kc_DeleteJob = (\<lambda>l ns n. None), kc_ListJobs = (\<lambda>l ns sel. Inr jobs), kc_PatchJob = (\<lambda>l ns n. None),
      kc_ListPods = (\<lambda>l ns sel. Inr []), kc_StreamPodLogs = (\<lambda>l ns n opts. ([], None))\<rparr>"

definition sample_provider :: ProviderResource where
  "sample_provider =
     \<lparr>pr_Resource = sample_resource ''p'' ''t1'' ''u1'',
      pr_Config = \<lparr>pv_Name = ''p'', pv_Description = '''', pv_Title = '''', pv_Tags = [], pv_Benchmarks = [],
        pv_Runtime = Some \<lparr>rt_K8s = Some \<lparr>kr_Image = ''img'', kr_Entrypoint = [], kr_CPURequest = '''', kr_MemoryRequest = '''',
            kr_CPULimit = '''', kr_MemoryLimit = '''', kr_GPU = None, kr_DRA = None, kr_Env = [], kr_ImagePullPolicy = ''''\<rparr>,
          rt_Local = None\<rparr>, pv_Agent = None\<rparr>\<rparr>"

text \<open>An evaluation of one benchmark against a model with a credential; the store may have it cancelled.\<close>

definition sample_evaluation :: EvaluationJobResource where
  "sample_evaluation = sample_job ''j1'' ((sample_config [sample_eb ''p'' ''b'' []] None)\<lparr>ec_Model :=
     Some \<lparr>mr_URL = ''http://m/v1'', mr_Name = ''m'', mr_Auth = Some \<lparr>ma_SecretRef = ''cred''\<rparr>, mr_Parameters = [], mr_CardURL = ''''\<rparr>\<rparr>)
     OverallStateRunning"

definition sample_store :: "(events \<Rightarrow> OverallState) \<Rightarrow> runtime_store" where
  "sample_store state =
     \<lparr>ry_GetProvider = (\<lambda>l i. Inr sample_provider),
      ry_GetEvaluationJob = (\<lambda>l i. Inr (Some (sample_job ''j1'' (sample_config [] None) (state l)))),
      ry_UpdateEvaluationJob = (\<lambda>l i ev. None), ry_scoped = True\<rparr>"

definition sample_guid :: "nat \<Rightarrow> string" where
  "sample_guid n = (if n \<le> 1 then ''0123abcd-0123-0123-0123-0123456789ab'' else ''4567abcd-0123-0123-0123-0123456789ab'')"

definition sample_k8s :: "k8s_error + NetworkPolicy \<Rightarrow> Job list \<Rightarrow> (events \<Rightarrow> OverallState) \<Rightarrow> k8s_runtime" where
  "sample_k8s policy jobs state =
     \<lparr>xr_env = sample_env, xr_codecs = sample_k8s_codecs, xr_serviceConfig = Some sample_service_config,
      xr_helper = \<lparr>kh_client = sample_client policy jobs, kh_dynamic = True, kh_recorder = False, kh_RetrySteps = 5\<rparr>,
      xr_storage = Some (sample_store state), xr_registry = [], xr_GUID = (\<lambda>l. sample_guid (length l)),
      xr_shutdown = (\<lambda>l. False), xr_poll = 3\<rparr>"

definition no_policy :: "k8s_error + NetworkPolicy" where
  "no_policy = Inl (OtherError ''timeout'')"

section \<open>The sample execution\<close>

text \<open>The names in the objects stay symbolic: only the branches taken matter.\<close>

abbreviation "sample_bench \<equiv> sample_eb ''p'' ''b'' []"

lemmas k8s_samples = sample_k8s_def sample_env_def sample_k8s_codecs_def sample_evaluation_def sample_provider_def sample_store_def
  sample_service_config_def plain_url_def sample_parse_def sample_defs

lemma sample_pieces:
  "postProcessorPVCConfigs sample_env sample_evaluation = Inr []"
  "EffectiveHardwareConfig (Some sample_bench) (Some (ej_Config sample_evaluation)) = None"
  "readInClusterNamespace (ke_pod sample_env) = ''''"
  by (simp_all add: postProcessorPVCConfigs_def ProviderID_def IsPostProcessingJob_def EffectiveHardwareConfig_def readInClusterNamespace_def
      sample_evaluation_def sample_env_def sample_defs)

lemma sample_trim: "TrimSpace ''http://m/v1'' = ''http://m/v1''" "TrimSpace ''cred'' = ''cred''" "TrimSpace [] = []"
  by (rule TrimSpace_visible, simp add: visible_def)+

lemma sample_job_config:
  obtains cfg where "buildJobConfig sample_env sample_evaluation sample_provider sample_bench 0 (Some sample_service_config) None guid = Some (Inr cfg)"
    "jc_modelTargetURL cfg = ''http://m/v1''" "jc_modelAuthSecretRef cfg = ''cred''" "jc_adapterImage cfg = ''img''"
    "jc_namespace cfg = ''t1''" "jc_resourceGUID cfg = guid" "jc_evalHubInstanceName cfg = ''''" "jc_gpuCount cfg = 0"
    "\<not> hasS3TestData cfg" "\<not> hasGitTestData cfg" "\<not> hasHFTestData cfg" "jc_jobID cfg = ''j1''"
proof -
  obtain model where m: "ec_Model (ej_Config sample_evaluation) = Some model" "mr_Name model = ''m''" "mr_URL model = ''http://m/v1''"
    "mr_Auth model = Some \<lparr>ma_SecretRef = ''cred''\<rparr>"
    by (simp add: sample_evaluation_def sample_defs)
  obtain k8s where k: "Option.bind (pv_Runtime (pr_Config sample_provider)) rt_K8s = Some k8s" "kr_Image k8s = ''img''" "kr_GPU k8s = None"
    "kr_DRA k8s = None" by (simp add: sample_provider_def)
  obtain spec where s: "BuildJobSpec (ke_wild_int sample_env) sample_evaluation (r_ID (pr_Resource sample_provider)) (Some sample_bench) 0
      (Some (sidecarBaseURL (Some sample_service_config))) (Some sample_provider) = Inr spec"
    by (simp add: BuildJobSpec_def Let_def)
  obtain sidecar where c: "sidecarImageAndResources sample_env (Some sample_service_config) = Inr sidecar"
    by (simp add: sidecarImageAndResources_def sample_service_config_def)
  let ?cfg = "base_config sample_env sample_evaluation model sample_provider k8s sample_bench 0 guid
    (sidecarBaseURL (Some sample_service_config)) spec sidecar []"
  have none: "eb_TestDataRef sample_bench = None" "ec_Queue (ej_Config sample_evaluation) = None" "r_ID (ej_Resource sample_evaluation) = ''j1''"
    "r_Tenant (ej_Resource sample_evaluation) = ''t1''" "pe_InstanceName (ke_pod sample_env) = []"
    by (simp_all add: sample_evaluation_def sample_defs sample_env_def)
  have f: "jc_modelTargetURL ?cfg = ''http://m/v1''" "jc_modelAuthSecretRef ?cfg = ''cred''" "jc_adapterImage ?cfg = ''img''"
    "jc_namespace ?cfg = ''t1''" "jc_resourceGUID ?cfg = guid" "jc_evalHubInstanceName ?cfg = ''''" "jc_gpuCount ?cfg = 0"
    "\<not> hasS3TestData ?cfg" "\<not> hasGitTestData ?cfg" "\<not> hasHFTestData ?cfg" "jc_draResourceClaimTemplate ?cfg = ''''" "jc_jobID ?cfg = ''j1''"
    by (simp_all add: base_config_def Let_def m k none sample_trim sample_pieces resolveGPUConfig_def resolveDRAConfig_def resolveNamespace_def
        hasS3TestData_def hasGitTestData_def hasHFTestData_def s3_config_def git_config_def hf_config_def)
  have "resolve_hardware sample_env None (EffectiveHardwareConfig (Some sample_bench) (Some (ej_Config sample_evaluation)))
      (ec_Queue (ej_Config sample_evaluation)) ?cfg = Inr ?cfg"
    by (simp add: resolve_hardware_def sample_pieces applyHardwareProfileResources_def applyDirectHardwareConfig_def ebind_def
        applyQueueIfUnset_def none finalizeAcceleratorConfig_def f)
  then have "buildJobConfig sample_env sample_evaluation sample_provider sample_bench 0 (Some sample_service_config) None guid = Some (Inr ?cfg)"
    by (simp add: buildJobConfig_def m k s c ebind_def Let_def sample_pieces resolveGPUConfig_def)
  from that[OF this f(1-10,12)] show thesis .
qed

definition sample_secret :: Secret where
  "sample_secret = \<lparr>se_Meta = object_meta ''cred'' ''t1'' [] [], se_Data = [(''api-key'', ''secret'')]\<rparr>"

lemma sample_k8s_fields:
  "xr_env (sample_k8s policy jobs state) = sample_env" "xr_codecs (sample_k8s policy jobs state) = sample_k8s_codecs"
  "xr_serviceConfig (sample_k8s policy jobs state) = Some sample_service_config" "xr_registry (sample_k8s policy jobs state) = []"
  "xr_storage (sample_k8s policy jobs state) = Some (sample_store state)" "xr_GUID (sample_k8s policy jobs state) l = sample_guid (length l)"
  "kh_client (xr_helper (sample_k8s policy jobs state)) = sample_client policy jobs" "xr_shutdown (sample_k8s policy jobs state) l = False"
  "xr_poll (sample_k8s policy jobs state) = 3" "kh_RetrySteps (xr_helper (sample_k8s policy jobs state)) = 5"
  by (simp_all add: sample_k8s_def)

lemma sample_configMap: "\<exists>cm. buildConfigMap sample_k8s_codecs cfg = Inr cm"
  by (cases "jc_sidecarConfig cfg") (simp_all add: buildConfigMap_def sample_k8s_codecs_def ebind_def)

lemma sample_resources: "jc_gpuCount cfg = 0 \<Longrightarrow> \<exists>res. buildResources sample_env cfg = Inr res"
proof -
  have put: "put_quantity sample_env what key q m = Inr (if q = '''' then m else gomap_put key q m)" for what key q m
    by (simp add: put_quantity_def sample_env_def)
  show "jc_gpuCount cfg = 0 \<Longrightarrow> ?thesis" by (simp add: put buildResources_def ebind_def)
qed

lemma sample_policy:
  "jc_namespace cfg \<noteq> '''' \<Longrightarrow> jc_resourceGUID cfg \<noteq> '''' \<Longrightarrow> \<exists>np. buildJobNetworkPolicy sample_k8s_codecs cfg = Inr np"
  by (simp add: buildJobNetworkPolicy_def sample_k8s_codecs_def Let_def)

lemma sample_guid_not_empty: "sample_guid n \<noteq> ''''"
  by (simp add: sample_guid_def)

lemma buildJob_total:
  "buildResources env cfg = Inr res \<Longrightarrow> initContainerVolumesAndMounts env cfg = Inr init \<Longrightarrow> probe_port cfg = Inr port \<Longrightarrow>
   jc_adapterImage cfg \<noteq> '''' \<Longrightarrow> \<exists>job. buildJob env js cfg sc = Inr job"
  by (simp add: buildJob_def Let_def ebind_def split: prod.splits)

lemma sample_prepared:
  obtains e where "prepareExecution (sample_k8s policy jobs state) sample_evaluation sample_bench 0 l =
      (Inr e, l @ [StoreProviderRead ''p'' (Inr sample_provider), SecretRead ''t1'' ''cred'' (Inr sample_secret)])"
    "jc_resourceGUID (xe_config e) = sample_guid (Suc (length l))"
    "jc_modelInternalRefSecretName (xe_config e) = buildK8sName ''j1'' (sample_guid (Suc (length l))) ''-model-ref''" "xe_secretData e = [(''api-key'', ''secret'')]"
proof -
  let ?r = "sample_k8s policy jobs state" and ?read = "StoreProviderRead ''p'' (Inr sample_provider)"
  obtain cfg where c: "buildJobConfig sample_env sample_evaluation sample_provider sample_bench 0 (Some sample_service_config) None (sample_guid (Suc (length l))) = Some (Inr cfg)"
    "jc_modelTargetURL cfg = ''http://m/v1''" "jc_modelAuthSecretRef cfg = ''cred''" "jc_adapterImage cfg = ''img''"
    "jc_namespace cfg = ''t1''" "jc_resourceGUID cfg = (sample_guid (Suc (length l)))" "jc_evalHubInstanceName cfg = ''''" "jc_gpuCount cfg = 0"
    "\<not> hasS3TestData cfg" "\<not> hasGitTestData cfg" "\<not> hasHFTestData cfg" "jc_jobID cfg = ''j1''"
    by (rule sample_job_config)
  let ?cfg1 = "cfg\<lparr>jc_testDataInitImage := '''', jc_mlflowCABundleConfigMap := ''''\<rparr>"
  have p: "provider_for ?r sample_evaluation sample_bench l = (Inr sample_provider, l @ [?read])"
    by (simp add: provider_for_def sample_k8s_fields WorkloadType_def ForJob_def IsInternalProviderID_def ProviderForBenchmark_def
        kcall_def Let_def sample_store_def ebind_def sample_eb_def)
  have f: "fetch_profile ?r sample_evaluation sample_bench l' = (Inr None, l')" for l'
    by (simp add: fetch_profile_def sample_pieces kreturn_def)
  have b: "built_config ?r sample_evaluation sample_provider sample_bench 0 None (l @ [?read]) = (Inr (cfg\<lparr>jc_testDataInitImage := ''''\<rparr>), l @ [?read])"
  proof -
    have "Option.bind (Some sample_service_config) cf_Service = cf_Service sample_service_config" by simp
    moreover obtain sv where "cf_Service sample_service_config = Some sv" "sv_EvalInitImage sv = ''''" by (simp add: sample_service_config_def)
    ultimately show ?thesis by (simp add: built_config_def sample_k8s_fields c)
  qed
  have m: "resolveMLFlowCABundleConfigMap ?r (cfg\<lparr>jc_testDataInitImage := ''''\<rparr>) l' = ('''', l')" for l'
    by (simp add: resolveMLFlowCABundleConfigMap_def c kreturn_def)
  obtain u where u: "rewriteModelURLForSidecar plain_url (jc_sidecarBaseURL cfg) ''http://m/v1'' = Inr u"
    by (simp add: rewriteModelURLForSidecar_def plain_url_def sample_parse_def)
  let ?cfg2 = "(with_model_url u ?cfg1)\<lparr>jc_modelInternalRefSecretName := buildK8sName ''j1'' (sample_guid (Suc (length l))) ''-model-ref''\<rparr>"
  have d: "redirect_model ?r sample_evaluation sample_bench ?cfg1 l' =
      (Inr (?cfg2, [(''api-key'', ''secret'')]), l' @ [SecretRead ''t1'' ''cred'' (Inr sample_secret)])" for l'
    by (simp add: redirect_model_def c sample_k8s_fields sample_env_def u Let_def with_model_url_def inspectModelSecret_def GetSecret_def
        required_def kbind_def kcall_def kreturn_def sample_client_def sample_secret_def isModelCredentialKey_def)
  obtain e where e: "build_objects ?r sample_evaluation sample_bench ?cfg2 [(''api-key'', ''secret'')] = Inr e"
    "jc_resourceGUID (xe_config e) = sample_guid (Suc (length l))"
    "jc_modelInternalRefSecretName (xe_config e) = buildK8sName ''j1'' (sample_guid (Suc (length l))) ''-model-ref''" "xe_secretData e = [(''api-key'', ''secret'')]"
  proof -
    let ?cfg3 = "?cfg2\<lparr>jc_sidecarConfig := sidecarForJobPod (Some sample_service_config) ?cfg2\<rparr>"
    have data: "hasS3TestData ?cfg3 = hasS3TestData cfg" "hasGitTestData ?cfg3 = hasGitTestData cfg" "hasHFTestData ?cfg3 = hasHFTestData cfg"
      by (simp_all add: with_model_url_def hasS3TestData_def hasGitTestData_def hasHFTestData_def)
    have port: "sd_Port (the (sidecarForJobPod (Some sample_service_config) ?cfg2)) = 0" "sidecarForJobPod (Some sample_service_config) ?cfg2 \<noteq> None"
      by (simp_all add: sidecarForJobPod_def with_model_url_def c sample_service_config_def empty_sidecar_def otelConfigForJobPod_def Let_def)
    obtain cm where cm: "buildConfigMap sample_k8s_codecs ?cfg3 = Inr cm"
      using sample_configMap by blast
    obtain res where "buildResources sample_env ?cfg3 = Inr res"
      using sample_resources[of ?cfg3] c(8) by (auto simp: with_model_url_def)
    moreover obtain init where "initContainerVolumesAndMounts sample_env ?cfg3 = Inr init"
      by (simp add: initContainerVolumesAndMounts_def init_step_def data c ebind_def)
    moreover have "probe_port ?cfg3 = Inr 8080" using port by (auto simp: probe_port_def split: option.splits)
    ultimately obtain job where job: "buildJob sample_env sample_k8s_codecs ?cfg3 (Some sample_service_config) = Inr job"
      using buildJob_total[of sample_env ?cfg3] c(4) by (fastforce simp: with_model_url_def)
    obtain np where np: "buildJobNetworkPolicy sample_k8s_codecs ?cfg3 = Inr np"
      using sample_policy[of ?cfg3] c(5,6) sample_guid_not_empty by (auto simp: with_model_url_def)
    have guid: "jc_resourceGUID (with_model_url u ?cfg1) = sample_guid (Suc (length l))" by (simp add: with_model_url_def c)
    show ?thesis
      by (rule that[of "\<lparr>xe_config = ?cfg3, xe_configMap = cm, xe_job = job, xe_policy = np, xe_secretData = [(''api-key'', ''secret'')]\<rparr>"])
        (simp_all add: build_objects_def Let_def sample_k8s_fields cm job np ebind_def ewrap_def guid)
  qed
  have "prepareExecution ?r sample_evaluation sample_bench 0 l = (Inr e, l @ [?read, SecretRead ''t1'' ''cred'' (Inr sample_secret)])"
    by (simp add: prepareExecution_def kchain_def kfail_def kbind_def kreturn_def p f b m d e)
  from that[OF this e(2,3,4)] show thesis .
qed

lemma sample_names:
  assumes "prepareExecution (sample_k8s policy jobs state) sample_evaluation sample_bench 0 l = (Inr e, l')"
  shows "jc_namespace (xe_config e) = ''t1''" "om_Namespace (cm_Meta (xe_configMap e)) = ''t1''" "om_Namespace (jb_Meta (xe_job e)) = ''t1''"
    "om_Namespace (np_Meta (xe_policy e)) = ''t1''" "om_Name (cm_Meta (xe_configMap e)) \<noteq> ''''" "om_Name (jb_Meta (xe_job e)) \<noteq> ''''"
    "om_Name (np_Meta (xe_policy e)) \<noteq> ''''"
proof -
  have "evaluation_namespace (sample_k8s policy jobs state) sample_evaluation = ''t1''"
    by (simp add: evaluation_namespace_def resolveNamespace_def sample_evaluation_def sample_defs)
  with prepareExecution_meta[OF assms] show "jc_namespace (xe_config e) = ''t1''" "om_Namespace (cm_Meta (xe_configMap e)) = ''t1''"
    "om_Namespace (jb_Meta (xe_job e)) = ''t1''" "om_Namespace (np_Meta (xe_policy e)) = ''t1''" "om_Name (cm_Meta (xe_configMap e)) \<noteq> ''''"
    "om_Name (jb_Meta (xe_job e)) \<noteq> ''''" "om_Name (np_Meta (xe_policy e)) \<noteq> ''''" by simp_all
qed

lemma sample_ref_secret:
  "\<exists>s. internalModelRefSecret up ns n [(''api-key'', ''secret'')] u labels = Inr s \<and> om_Name (se_Meta s) = n"
proof -
  have "\<not> HasSuffix ''api-key'' ''_url''" by code_simp
  then show ?thesis by (simp add: internalModelRefSecret_def isModelCredentialKey_def ebind_def object_meta_def gomap_put_def)
qed

lemmas sample_steps = createExecution_def buildInternalModelRefSecret_def create_config_map_def create_policy_and_job_def create_job_def
  own_objects_def policy_owner_failed_def roll_back_def cleanupModelRefSecret_def cleanupConfigMap_def own_secret_def
  CreateSecret_def CreateConfigMap_def CreateNetworkPolicy_def CreateJob_def SetNetworkPolicyOwner_def DeleteJob_def GetJob_def
  DeleteSecret_def DeleteConfigMap_def SetConfigMapOwner_def SetSecretOwner_def required_def kbind_def kcall_def kreturn_def Let_def

text \<open>The policy cannot be handed over to the Job: everything is undone.\<close>

lemma sample_failure:
  obtains e evs m where "createBenchmarkResources (sample_k8s no_policy jobs state) sample_evaluation sample_bench 0 l = (CreateFailed m, l @ evs)"
    "prepareExecution (sample_k8s no_policy jobs state) sample_evaluation sample_bench 0 l = (Inr e, l @ take 2 evs)"
    "JobCreateCalled (xe_job e) (Inr (xe_job e)) \<in> set evs" "JobDeleted ''t1'' (om_Name (jb_Meta (xe_job e))) None \<in> set evs"
    "ConfigMapDeleted ''t1'' (om_Name (cm_Meta (xe_configMap e))) None \<in> set evs"
proof -
  let ?r = "sample_k8s no_policy jobs state"
  obtain e where e: "prepareExecution ?r sample_evaluation sample_bench 0 l =
      (Inr e, l @ [StoreProviderRead ''p'' (Inr sample_provider), SecretRead ''t1'' ''cred'' (Inr sample_secret)])"
    "jc_resourceGUID (xe_config e) = sample_guid (Suc (length l))"
    "jc_modelInternalRefSecretName (xe_config e) = buildK8sName ''j1'' (sample_guid (Suc (length l))) ''-model-ref''" "xe_secretData e = [(''api-key'', ''secret'')]"
    by (rule sample_prepared)
  note n = sample_names[OF e(1)]
  have ref: "buildK8sName ''j1'' (sample_guid (Suc (length l))) ''-model-ref'' \<noteq> ''''" by (intro dns_label_not_empty names_valid) simp
  obtain s where s: "internalModelRefSecret (ke_url sample_env) ''t1'' (buildK8sName ''j1'' (sample_guid (Suc (length l))) ''-model-ref'') [(''api-key'', ''secret'')]
      (jc_sidecarBaseURL (xe_config e)) (jobLabels (xe_config e)) = Inr s" "om_Name (se_Meta s) = buildK8sName ''j1'' (sample_guid (Suc (length l))) ''-model-ref''"
    using sample_ref_secret by blast
  have w: "wait_deleted (xr_helper ?r) 3 ''t1'' (om_Name (jb_Meta (xe_job e))) l' =
      (None, l' @ [JobRead ''t1'' (om_Name (jb_Meta (xe_job e))) (Inl (NotFound ''no job''))])" for l'
    unfolding numeral_3_eq_3 wait_deleted.simps
    by (simp add: GetJob_def required_def kbind_def kcall_def kreturn_def Let_def n sample_k8s_fields sample_client_def IsNotFound_def)
  have o: "policy_owner_attempt (xr_helper ?r) ns np ow l' = (Some (OtherError ''timeout''), l' @ [PolicyRead ns np no_policy])" for ns np ow l'
    by (simp add: policy_owner_attempt_def kbind_def kcall_def kreturn_def Let_def sample_k8s_fields sample_client_def no_policy_def)
  have t: "retry_on_conflict k (policy_owner_attempt (xr_helper ?r) ns np ow) l' = (Some (OtherError ''timeout''), l' @ [PolicyRead ns np no_policy])"
    for k ns np ow l' by (cases k) (simp_all add: o kbind_def kreturn_def)
  have "\<exists>m evs. createExecution ?r (wrap sample_evaluation sample_bench) e l' = (CreateFailed m, l' @ evs) \<and>
      JobCreateCalled (xe_job e) (Inr (xe_job e)) \<in> set evs \<and> JobDeleted ''t1'' (om_Name (jb_Meta (xe_job e))) None \<in> set evs \<and>
      ConfigMapDeleted ''t1'' (om_Name (cm_Meta (xe_configMap e))) None \<in> set evs" for l'
    by (simp add: sample_steps e ref n s t w sample_k8s_fields sample_client_def owned_by_def real_error_def)
  then obtain m evs where c: "createExecution ?r (wrap sample_evaluation sample_bench) e
      (l @ [StoreProviderRead ''p'' (Inr sample_provider), SecretRead ''t1'' ''cred'' (Inr sample_secret)]) =
      (CreateFailed m, (l @ [StoreProviderRead ''p'' (Inr sample_provider), SecretRead ''t1'' ''cred'' (Inr sample_secret)]) @ evs)"
      "JobCreateCalled (xe_job e) (Inr (xe_job e)) \<in> set evs" "JobDeleted ''t1'' (om_Name (jb_Meta (xe_job e))) None \<in> set evs"
      "ConfigMapDeleted ''t1'' (om_Name (cm_Meta (xe_configMap e))) None \<in> set evs" by blast
  show thesis
    by (rule that[of m "[StoreProviderRead ''p'' (Inr sample_provider), SecretRead ''t1'' ''cred'' (Inr sample_secret)] @ evs" e])
      (use c e(1) in \<open>simp_all add: createBenchmarkResources_def kbind_def\<close>)
qed

section \<open>Sample runs of the routine\<close>

abbreviation "running \<equiv> \<lambda>l :: events. OverallStateRunning"
abbreviation "cancelled \<equiv> \<lambda>l :: events. OverallStateCancelled"

definition sample_listed :: Job where
  "sample_listed =
     \<lparr>jb_Meta = object_meta ''old'' ''t1'' [] [], jb_BackoffLimit = 0, jb_TTLSecondsAfterFinished = 0, jb_TemplateLabels = [],
      jb_TemplateAnnotations = [],
      jb_Pod = \<lparr>po_RestartPolicy = '''', po_NodeSelector = [], po_Tolerations = [], po_PriorityClassName = '''', po_ResourceClaims = [],
        po_InitContainers = [], po_Containers = [], po_Volumes = [], po_ServiceAccountName = '''', po_AutomountServiceAccountToken = None\<rparr>\<rparr>"

lemma sample_id: "r_ID (ej_Resource sample_evaluation) = ''j1''"
  by (simp add: sample_evaluation_def sample_defs)

definition sample_answer :: "OverallState \<Rightarrow> go_error + EvaluationJobResource option" where
  "sample_answer st = Inr (Some (sample_job ''j1'' (sample_config [] None) st))"

lemma sample_check:
  "checkCreateAbort (sample_k8s policy jobs (\<lambda>l. st)) ''j1'' l =
     ((if st = OverallStateCancelled then (CreateAbortAborted, ''evaluation job cancelled'') else (CreateAbortActive, '''')),
      l @ [StoreJobRead ''j1'' (sample_answer st)])"
  by (simp add: checkCreateAbort_def sample_k8s_fields sample_store_def sample_answer_def kbind_def kcall_def kreturn_def Let_def sample_defs)

lemma sample_active:
  "handleCreateAbortDecision (sample_k8s policy jobs running) sample_evaluation l =
     Some (False, l @ [StoreJobRead ''j1'' (sample_answer OverallStateRunning)])"
  by (simp add: handleCreateAbortDecision_def awaitCreateAbortStatus_def sample_id await_status.simps[of _ _ _ l] sample_check)

lemma sample_aborted:
  "handleCreateAbortDecision (sample_k8s policy jobs cancelled) sample_evaluation l =
     Some (True, snd (sweepEvaluationResourcesAfterAbort (sample_k8s policy jobs cancelled) sample_evaluation
       (l @ [StoreJobRead ''j1'' (sample_answer OverallStateCancelled)])))"
  by (simp add: handleCreateAbortDecision_def awaitCreateAbortStatus_def sample_id await_status.simps[of _ _ _ l] sample_check)

lemma sample_run:
  obtains evs and e :: execution where "run_in_background (sample_k8s no_policy jobs running) sample_evaluation [sample_bench] [] = Some (LoopFinished, evs)"
    "JobCreateCalled (xe_job e) (Inr (xe_job e)) \<in> set evs" "JobDeleted ''t1'' (om_Name (jb_Meta (xe_job e))) None \<in> set evs"
    "reports evs = [(''j1'', ''p'', ''b'', 0, StateFailed)]"
proof -
  let ?r = "sample_k8s no_policy jobs running" and ?read = "StoreJobRead ''j1'' (sample_answer OverallStateRunning)"
  obtain e :: execution and evs m where c: "createBenchmarkResources ?r sample_evaluation sample_bench 0 [?read] = (CreateFailed m, [?read] @ evs)"
    "JobCreateCalled (xe_job e) (Inr (xe_job e)) \<in> set evs" "JobDeleted ''t1'' (om_Name (jb_Meta (xe_job e))) None \<in> set evs"
    by (rule sample_failure[where jobs = jobs and state = running and l = "[?read]"])
  let ?l = "record_failure ?r sample_evaluation sample_bench 0 (CreateFailed m) (?read # evs @ [?read])"
  have "run_in_background ?r sample_evaluation [sample_bench] [] = Some (LoopFinished, ?l)"
    using c(1) by (simp add: run_in_background_def sample_active)
  moreover have "set evs \<subseteq> set ?l"
    by (auto simp: record_failure_def Let_def sample_k8s_fields)
  moreover have echo: "echoes_names (kh_client (xr_helper ?r))" by (simp add: sample_k8s_fields echoes_names_def sample_client_def)
  have "reports (?read # evs @ [?read]) = []"
    using create_reports[OF echo c(1)] by (simp add: reports_def report_of_def)
  then have "reports ?l = [(''j1'', ''p'', ''b'', 0, StateFailed)]"
    by (simp add: record_failure_def Let_def sample_k8s_fields sample_id buildBenchmarkFailureStatus_def sample_eb_def)
      (simp add: reports_def report_of_def)
  ultimately show thesis using c(2,3) by (intro that[of ?l e]) auto
qed

end
