(* ===== verification/K8s_Properties.thy ===== *)
theory K8s_Properties
  imports K8s_Samples
begin

text \<open>The properties of the Kubernetes runtime, each with a witness on the sample cluster.\<close>

section \<open>The objects of an execution\<close>



text \<open>
  C24: The executions of different identifiers do not interfere: their Jobs and ConfigMaps have different
  names, and the network policy of one does not select the pods of the other.
\<close>

theorem executions_do_not_interfere:
  assumes "prepareExecution r evaluation bench i l = (Inr e, l1)" "prepareExecution r' evaluation' bench' i' l' = (Inr e', l1')"
    and "uuid_text (jc_resourceGUID (xe_config e))" "uuid_text (jc_resourceGUID (xe_config e'))"
    and "jc_resourceGUID (xe_config e) \<noteq> jc_resourceGUID (xe_config e')"
  shows "om_Name (jb_Meta (xe_job e)) \<noteq> om_Name (jb_Meta (xe_job e')) \<and>
    om_Name (cm_Meta (xe_configMap e)) \<noteq> om_Name (cm_Meta (xe_configMap e')) \<and>
    \<not> selects (np_PodSelector (xe_policy e)) (jb_TemplateLabels (xe_job e'))"
proof -
  have job: "om_Name (jb_Meta (xe_job x)) = jobName (jc_jobID (xe_config x)) (jc_resourceGUID (xe_config x)) \<and>
      om_Name (cm_Meta (xe_configMap x)) = om_Name (jb_Meta (xe_job x)) @ specSuffix \<and>
      buildJobNetworkPolicy (xr_codecs s) (xe_config x) = Inr (xe_policy x)"
    if "prepareExecution s ev b j k = (Inr x, k')" for s ev b j k x k'
    using that
  proof (rule prepareExecutionE)
    assume "buildConfigMap (xr_codecs s) (xe_config x) = Inr (xe_configMap x)" "buildJobNetworkPolicy (xr_codecs s) (xe_config x) = Inr (xe_policy x)"
      and b: "buildJob (xr_env s) (xr_codecs s) (xe_config x) (xr_serviceConfig s) = Inr (xe_job x)"
    moreover from b have "om_Name (jb_Meta (xe_job x)) = jobName (jc_jobID (xe_config x)) (jc_resourceGUID (xe_config x))"
      by (rule buildJob_parts)
    ultimately show ?thesis using buildConfigMap_meta by (simp add: configMapName_spec)
  qed
  note e = job[OF assms(1)] and e' = job[OF assms(2)]
  have "jobName (jc_jobID (xe_config e)) (jc_resourceGUID (xe_config e)) \<noteq> jobName (jc_jobID (xe_config e')) (jc_resourceGUID (xe_config e'))"
    using buildK8sNameWithReserve_uuid[OF assms(3,4), of "[]" "len specSuffix"] assms(5) by (auto simp: jobName_def specSuffix_def len_def)
  moreover have "\<not> selects (np_PodSelector (xe_policy e)) (jobLabels (xe_config e'))"
    using policy_selects[OF _ assms(3,4), of "xr_codecs r" "xe_policy e"] e assms(5) by simp
  ultimately show ?thesis using e e' prepareExecution_meta(4)[OF assms(2)] by simp
qed

theorem executions_do_not_interfere_witness:
  "\<exists>e e' l1 l2. prepareExecution (sample_k8s no_policy [] running) sample_evaluation sample_bench 0 [] = (Inr e, l1) \<and>
     prepareExecution (sample_k8s no_policy [] running) sample_evaluation sample_bench 0 [Waited 0] = (Inr e', l2) \<and>
     om_Name (jb_Meta (xe_job e)) \<noteq> om_Name (jb_Meta (xe_job e')) \<and>
     \<not> selects (np_PodSelector (xe_policy e)) (jb_TemplateLabels (xe_job e'))"
proof -
  obtain e l1 where e: "prepareExecution (sample_k8s no_policy [] running) sample_evaluation sample_bench 0 [] = (Inr e, l1)"
    "jc_resourceGUID (xe_config e) = sample_guid 1"
    using sample_prepared[of no_policy "[]" running "[]"] by (metis One_nat_def list.size(3))
  obtain e' l2 where e': "prepareExecution (sample_k8s no_policy [] running) sample_evaluation sample_bench 0 [Waited 0] = (Inr e', l2)"
    "jc_resourceGUID (xe_config e') = sample_guid 2"
    using sample_prepared[of no_policy "[]" running "[Waited 0]"] by (metis length_Cons list.size(3) numeral_2_eq_2)
  have "uuid_text (sample_guid 1)" "uuid_text (sample_guid 2)" "sample_guid 1 \<noteq> sample_guid 2"
    by (simp_all add: sample_guid_def uuid_text_def bounded_by_def name_char_def alnum_def)
  with executions_do_not_interfere[OF e(1) e'(1)] e e' show ?thesis by metis
qed

section \<open>Credentials\<close>

text \<open>
  C25: The adapter, which runs code of the provider, is kept away from credentials: its container has no
  service account token, and of the secrets mounted into the pod it can read only the registry
  configuration of the export secret, the Hugging Face token and the certificate of the model secret,
  and the reference secret, which holds no credentials.
\<close>

theorem adapter_has_no_credentials:
  assumes "prepareExecution r evaluation bench i l = (Inr e, l')" "c \<in> set (po_Containers (jb_Pod (xe_job e)))"
  shows "\<not> container_has_token (jb_Pod (xe_job e)) c \<and>
    (\<forall>n k. container_reads (jb_Pod (xe_job e)) c n k \<longrightarrow>
       n = jc_ociCredentialsSecret (xe_config e) \<and> k = ''.dockerconfigjson'' \<or>
       n = jc_modelAuthSecretRef (xe_config e) \<and> k \<in> {''hf-token'', ''ca_cert''} \<or>
       n = jc_modelInternalRefSecretName (xe_config e) \<and> n \<noteq> '''')"
proof -
  from assms(1) obtain pvcs: "pvcs_ok (jc_postProcessorPVCs (xe_config e))" by (rule prepareExecution_config)
  from assms(1) obtain job: "buildJob (xr_env r) (xr_codecs r) (xe_config e) (xr_serviceConfig r) = Inr (xe_job e)"
    by (rule prepareExecutionE)
  show ?thesis using adapter_reads[OF job pvcs assms(2)] by blast
qed

theorem adapter_has_no_credentials_witness:
  "\<exists>e l' c. prepareExecution (sample_k8s no_policy [] running) sample_evaluation sample_bench 0 [] = (Inr e, l') \<and>
     c \<in> set (po_Containers (jb_Pod (xe_job e))) \<and> \<not> container_has_token (jb_Pod (xe_job e)) c"
proof -
  obtain e l' where e: "prepareExecution (sample_k8s no_policy [] running) sample_evaluation sample_bench 0 [] = (Inr e, l')"
    using sample_prepared[of no_policy "[]" running "[]"] by metis
  then obtain job: "buildJob (xr_env (sample_k8s no_policy [] running)) (xr_codecs (sample_k8s no_policy [] running)) (xe_config e)
      (xr_serviceConfig (sample_k8s no_policy [] running)) = Inr (xe_job e)" by (rule prepareExecutionE)
  then obtain c where "po_Containers (jb_Pod (xe_job e)) = [c]" by (rule buildJob_parts)
  with e adapter_has_no_credentials[OF e, of c] show ?thesis by auto
qed

text \<open>
  C26: The reference secret reveals nothing about the credentials: two model secrets with the same keys and
  the same URLs give the same reference secret, and each of its entries is the name of its key with a
  marker or the URL of the sidecar.
\<close>

theorem reference_secret_hides_credentials:
  assumes "map fst data = map fst data'"
    and "\<And>k v v'. ((k, v), (k, v')) \<in> set (zip data data') \<Longrightarrow> HasSuffix k ''_url'' \<Longrightarrow> v = v'"
  shows "internalModelRefSecret up ns n data proxyURL labels = internalModelRefSecret up ns n data' proxyURL labels \<and>
    (\<forall>s e. internalModelRefSecret up ns n data proxyURL labels = Inr s \<longrightarrow> e \<in> set (se_Data s) \<longrightarrow> ref_entry up proxyURL data e)"
proof
  have "(data = []) = (data' = [])" using assms(1) by (metis map_is_Nil_conv)
  then show "internalModelRefSecret up ns n data proxyURL labels = internalModelRefSecret up ns n data' proxyURL labels"
    using ref_data_independent[OF assms, where up = up and proxyURL = proxyURL and refData = "[]"] by (simp add: internalModelRefSecret_def)
  show "\<forall>s e. internalModelRefSecret up ns n data proxyURL labels = Inr s \<longrightarrow> e \<in> set (se_Data s) \<longrightarrow> ref_entry up proxyURL data e"
    by (auto simp: internalModelRefSecret_def ebind_Inr_iff split: if_splits dest: ref_data_entries)
qed

theorem reference_secret_hides_credentials_witness:
  "internalModelRefSecret plain_url ''t1'' ''ref'' [(''api-key'', ''one'')] ''http://s'' [] =
   internalModelRefSecret plain_url ''t1'' ''ref'' [(''api-key'', ''two'')] ''http://s'' []"
proof -
  have url: "\<not> HasSuffix ''api-key'' ''_url''" by code_simp
  have "map fst [(''api-key'', ''one'')] = map fst [(''api-key'', ''two'')]" by simp
  from conjunct1[OF reference_secret_hides_credentials[OF this]] url show ?thesis by simp
qed

section \<open>The cluster\<close>

text \<open>
  C17: At every point of the history of the background routine, whatever the cluster answers, a Job is
  requested only after a network policy for its pods, in its namespace, that admits no incoming
  connection, has been created.
\<close>

theorem jobs_run_under_their_policy:
  assumes "echoes_names (kh_client (xr_helper r))" "run_in_background r evaluation benchmarks l = Some (how, l')"
  shows "\<exists>evs. l' = l @ evs \<and>
    (\<forall>xs job a ys. evs = xs @ JobCreateCalled job a # ys \<longrightarrow> (\<exists>np b. PolicyCreated np (Inr b) \<in> set xs \<and> protects np job))"
proof -
  from assms obtain evs where "l' = l @ evs" "lawful (policy_first r evaluation) evs"
    unfolding run_in_background_def by (rule guarded.create_loop_lawful)
  then show ?thesis by (auto simp: policy_first_def dest!: lawful_at)
qed

lemma sample_echoes: "echoes_names (kh_client (xr_helper (sample_k8s policy jobs state)))"
  by (simp add: sample_k8s_fields echoes_names_def sample_client_def)

theorem jobs_run_under_their_policy_witness:
  "\<exists>evs job np b. run_in_background (sample_k8s no_policy [] running) sample_evaluation [sample_bench] [] = Some (LoopFinished, evs) \<and>
     JobCreateCalled job (Inr job) \<in> set evs \<and> PolicyCreated np (Inr b) \<in> set evs \<and> protects np job"
proof -
  obtain evs and e :: execution where
    run: "run_in_background (sample_k8s no_policy [] running) sample_evaluation [sample_bench] [] = Some (LoopFinished, evs)" and
    job: "JobCreateCalled (xe_job e) (Inr (xe_job e)) \<in> set evs"
    by (rule sample_run)
  from split_list[OF job] obtain xs ys where evs: "evs = xs @ JobCreateCalled (xe_job e) (Inr (xe_job e)) # ys" by blast
  from jobs_run_under_their_policy[OF sample_echoes run]
  have "evs = xs @ JobCreateCalled job a # ys \<longrightarrow> (\<exists>np b. PolicyCreated np (Inr b) \<in> set xs \<and> protects np job)" for job a by simp
  with evs obtain np b where "PolicyCreated np (Inr b) \<in> set xs" "protects np (xe_job e)" by blast
  then show ?thesis using run job evs by (intro exI[of _ evs] exI[of _ "xe_job e"] exI[of _ np] exI[of _ b]) simp
qed





text \<open>
  C19: When the routine stops because the evaluation was deleted or cancelled, its last acts are two sweeps
  over the namespace of the evaluation: each lists the Jobs under the selector of the evaluation and
  asks every one of them to go, and then the same with the secrets. Whatever the routine has created
  is found by that selector.
\<close>

theorem aborted_evaluation_is_swept:
  assumes "echoes_names (kh_client (xr_helper r))" "run_in_background r evaluation benchmarks l = Some (LoopStopped, l')"
    and "\<not> xr_shutdown r l'"
  shows "(\<exists>pre c s1 s2. l' = pre @ c @ s1 @ s2 \<and> checks (r_ID (ej_Resource evaluation)) CreateAbortAborted c \<and>
      swept (evaluation_namespace r evaluation) (job_selector (r_ID (ej_Resource evaluation))) s1 \<and>
      swept (evaluation_namespace r evaluation) (job_selector (r_ID (ej_Resource evaluation))) s2) \<and>
    (\<exists>evs. l' = l @ evs \<and> (\<forall>job a. JobCreateCalled job a \<in> set evs \<longrightarrow> sweepable r evaluation (jb_Meta job)) \<and>
       (\<forall>secret a. SecretCreated secret a \<in> set evs \<longrightarrow> sweepable r evaluation (se_Meta secret)))"
proof
  show "\<exists>pre c s1 s2. l' = pre @ c @ s1 @ s2 \<and> checks (r_ID (ej_Resource evaluation)) CreateAbortAborted c \<and>
      swept (evaluation_namespace r evaluation) (job_selector (r_ID (ej_Resource evaluation))) s1 \<and>
      swept (evaluation_namespace r evaluation) (job_selector (r_ID (ej_Resource evaluation))) s2"
    using assms(2,3) unfolding run_in_background_def by (rule create_loop_stopped)
  from assms(1,2) obtain evs where "l' = l @ evs" "lawful (labelled r evaluation) evs"
    unfolding run_in_background_def by (rule labelled.create_loop_lawful)
  then show "\<exists>evs. l' = l @ evs \<and> (\<forall>job a. JobCreateCalled job a \<in> set evs \<longrightarrow> sweepable r evaluation (jb_Meta job)) \<and>
      (\<forall>secret a. SecretCreated secret a \<in> set evs \<longrightarrow> sweepable r evaluation (se_Meta secret))"
    by (intro exI[of _ evs]) (auto simp: labelled_def dest!: split_list lawful_at)
qed

theorem aborted_evaluation_is_swept_witness:
  "\<exists>l' pre c s1 s2. run_in_background (sample_k8s no_policy [sample_listed] cancelled) sample_evaluation [sample_bench] [] = Some (LoopStopped, l') \<and>
     l' = pre @ c @ s1 @ s2 \<and> checks ''j1'' CreateAbortAborted c \<and> swept ''t1'' (job_selector ''j1'') s1 \<and> swept ''t1'' (job_selector ''j1'') s2"
proof -
  let ?r = "sample_k8s no_policy [sample_listed] cancelled"
  obtain l' where run: "run_in_background ?r sample_evaluation [sample_bench] [] = Some (LoopStopped, l')"
    by (simp add: run_in_background_def sample_aborted)
  have ns: "evaluation_namespace ?r sample_evaluation = ''t1''"
    by (simp add: evaluation_namespace_def resolveNamespace_def sample_evaluation_def sample_defs)
  have "\<not> xr_shutdown ?r l'" by (simp add: sample_k8s_fields)
  from conjunct1[OF aborted_evaluation_is_swept[OF sample_echoes run this]] show ?thesis using run unfolding ns sample_id by blast
qed

text \<open>
  C21: The routine comes to an end: if, from some point on, the store answers the question for the state of
  the evaluation or the runtime is being closed, the routine returns, whatever the cluster does.
\<close>

theorem routine_comes_to_an_end:
  assumes "responsive r (r_ID (ej_Resource evaluation)) n"
  shows "\<exists>how l'. run_in_background r evaluation benchmarks l = Some (how, l')"
  using create_loop_returns[OF assms, of 0 benchmarks l] by (auto simp: run_in_background_def)

theorem routine_comes_to_an_end_witness:
  "\<exists>how l'. run_in_background (sample_k8s no_policy [] (\<lambda>l. if length l < 7 then OverallStateRunning else OverallStateCancelled))
     sample_evaluation [sample_bench, sample_bench] [] = Some (how, l')"
  by (rule routine_comes_to_an_end[where n = 0]) (simp add: responsive_def settles_def sample_k8s_fields sample_store_def)

text \<open>
  C22: The routine reports failures of benchmarks only, of its own evaluation, each at most once, in the
  order of the benchmarks, with the index, the identifier and the provider of the benchmark.
\<close>

theorem failures_are_reported_in_order:
  assumes "echoes_names (kh_client (xr_helper r))" "run_in_background r evaluation benchmarks l = Some (how, l')"
  shows "\<exists>rs. reports l' = reports l @ rs \<and> subseq rs (all_failed (r_ID (ej_Resource evaluation)) 0 benchmarks)"
  using assms unfolding run_in_background_def by (rule create_loop_reports)

theorem failures_are_reported_in_order_witness:
  "\<exists>evs. run_in_background (sample_k8s no_policy [] running) sample_evaluation [sample_bench] [] = Some (LoopFinished, evs) \<and>
     reports evs = [(''j1'', ''p'', ''b'', 0, StateFailed)] \<and> subseq (reports evs) (all_failed ''j1'' 0 [sample_bench])"
proof -
  obtain evs where
    run: "run_in_background (sample_k8s no_policy [] running) sample_evaluation [sample_bench] [] = Some (LoopFinished, evs)" and
    rep: "reports evs = [(''j1'', ''p'', ''b'', 0, StateFailed)]"
    by (rule sample_run)
  from failures_are_reported_in_order[OF sample_echoes run] have "subseq (reports evs) (all_failed ''j1'' 0 [sample_bench])"
    by (simp only: sample_id) (auto simp: reports_def)
  with run rep show ?thesis by blast
qed

section \<open>Logs\<close>

text \<open>
  C27: Reading the last lines of a log file backwards in blocks, with all the arithmetic on offsets, gives
  exactly the last lines of the file: the lines of the whole file, without the empty line after a final
  line break, and of those the last n, or all when n is not positive.
\<close>

theorem log_tail_is_exact:
  "TailFileLines (Some data) n = Join (last_lines n (log_lines data)) [line_break]"
  by (rule TailFileLines_reference)

end
