(* ===== verification/Local_Runtime.thy ===== *)
theory Local_Runtime
  imports Runtime_Shared Requests K8s_Names
begin

text \<open>
  The local runtime (runtimes/local/local_runtime.go, local_runtime_logs.go, process_unix.go): adapters
  are processes of the host. Every benchmark of a job has a goroutine of its own, and a job may be deleted
  at any time; what they share is the tracker of process identifiers and the directory of the job. A
  goroutine is a stage of runBenchmark; a step from one stage to the next is one access to the shared
  state, with the answers of the operating system and of the store as an argument.
\<close>

section \<open>Files\<close>

text \<open>
  An absolute, clean path is the list of its names. filepath.Join cleans: empty names and dots go, two
  dots go up, and at the root they stay there.
\<close>

type_synonym path = "string list"

fun clean_onto :: "path \<Rightarrow> string list \<Rightarrow> path" where
  "clean_onto p [] = p"
| "clean_onto p (s # ss) =
     clean_onto (if s = '''' \<or> s = ''.'' then p else if s = ''..'' then butlast p else p @ [s]) ss"

definition filepath_Join :: "path \<Rightarrow> string list \<Rightarrow> path" where
  "filepath_Join base elems = clean_onto base (concat (map (Split (CHR ''/'')) elems))"

definition localJobsBaseDir :: path where
  "localJobsBaseDir = [''tmp'', ''evalhub-jobs'']"

definition job_root :: "string \<Rightarrow> path" where
  "job_root jobID = filepath_Join localJobsBaseDir [jobID]"

definition bench_dir :: "string \<Rightarrow> int \<Rightarrow> EvaluationBenchmarkConfig \<Rightarrow> path" where
  "bench_dir jobID benchmarkIndex bench =
     filepath_Join localJobsBaseDir [jobID, Itoa benchmarkIndex, eb_ProviderID bench, eb_ID bench]"

datatype node = Directory | File string

type_synonym files = "path \<Rightarrow> node option"

text \<open>
  What the host and the store answer to one step: the provider, an error of making a directory, of
  starting a process or of a removal, an error of a write (with what it leaves in the file), the paths that
  a failed call has made or left behind, the identifier of a new process, and the answer to a report.
\<close>

record answers =
  aw_provider :: "string \<Rightarrow> go_error + ProviderResource"
  aw_error :: "string option"
  aw_write_error :: "string option"
  aw_partial :: "string option"
  aw_left :: "path \<Rightarrow> bool"
  aw_pid :: int
  aw_report :: "go_error option"

definition is_file :: "files \<Rightarrow> path \<Rightarrow> bool" where
  "is_file fs q \<longleftrightarrow> (case fs q of Some (File c) \<Rightarrow> True | _ \<Rightarrow> False)"

definition MkdirAll :: "answers \<Rightarrow> path \<Rightarrow> files \<Rightarrow> string option \<times> files" where
  "MkdirAll a d fs =
     (if list_ex (is_file fs) (prefixes d) then (Some ''not a directory'', fs)
      else (aw_error a, \<lambda>q. if prefix q d \<and> fs q = None \<and> (aw_error a = None \<or> aw_left a q) then Some Directory else fs q))"

definition WriteFile :: "answers \<Rightarrow> path \<Rightarrow> string \<Rightarrow> string \<Rightarrow> files \<Rightarrow> string option \<times> files" where
  "WriteFile a d name content fs =
     (if fs d = None then (Some ''no such file or directory'', fs)
      else if is_file fs d then (Some ''not a directory'', fs)
      else if fs (d @ [name]) = Some Directory then (Some ''is a directory'', fs)
      else (case aw_write_error a of
              None \<Rightarrow> (None, fs(d @ [name] \<mapsto> File content))
            | Some e \<Rightarrow> (Some e, case aw_partial a of None \<Rightarrow> fs | Some c \<Rightarrow> fs(d @ [name] \<mapsto> File c))))"

definition RemoveAll :: "answers \<Rightarrow> path \<Rightarrow> files \<Rightarrow> string option \<times> files" where
  "RemoveAll a d fs =
     (aw_error a, \<lambda>q. if prefix d q \<and> (aw_error a = None \<or> \<not> aw_left a q) then None else fs q)"

section \<open>The runtime\<close>

record secret_url =
  su_Scheme :: string
  su_Host :: string
  su_Opaque :: string
  su_Path :: string
  su_OmitHost :: bool

text \<open>The fields of LocalRuntime, whether it has a context and a store, and the platform.\<close>

record local_runtime =
  lc_ctx :: bool
  lc_storage :: bool
  lc_callbackURL :: "string option"
  lc_mlflowTrackingURI :: string
  lc_otelEndpoint :: string
  lc_sidecarBaseURL :: string
  lc_sidecarModelDefaults :: "SidecarModelConfig option"
  lc_url :: url_package
  lc_ParseSecretRef :: "string \<Rightarrow> string + secret_url"
  lc_registry :: "Workload list"
  lc_wild_int :: "rat \<Rightarrow> int"
  lc_MarshalJobSpec :: "JobSpec \<Rightarrow> string + string"
  lc_MarshalJobInfo :: "SidecarModelConfig option \<Rightarrow> string + string"
  lc_environ :: "string list"
  lc_windows :: bool

definition buildCallbackURL :: "Config option \<Rightarrow> string option" where
  "buildCallbackURL serviceConfig =
     (case Option.bind serviceConfig cf_Service of
        None \<Rightarrow> None
      | Some sv \<Rightarrow>
          if sv_Port sv \<le> 0 then None
          else Some ((if TLSEnabled sv then ''https'' else ''http'') @ ''://'' @
                     (if sv_Host sv = '''' then ''localhost'' else sv_Host sv) @ '':'' @ Itoa (sv_Port sv)))"

definition otelEndpointFromConfig :: "Config option \<Rightarrow> string" where
  "otelEndpointFromConfig serviceConfig =
     (case Option.bind serviceConfig cf_OTEL of
        None \<Rightarrow> ''''
      | Some ot \<Rightarrow>
          if \<not> ot_Enabled ot then ''''
          else
            let ep = TrimSpace (ot_ExporterEndpoint ot)
            in if ep = '''' then ''''
               else if HasPrefix (ToLower ep) ''http://'' \<or> HasPrefix (ToLower ep) ''https://'' then ep
               else if ot_ExporterInsecure ot then ''http://'' @ ep else ''https://'' @ ep)"

text \<open>\<open>base\<close> holds the platform; WithContext and the caller supply context and store.\<close>

definition NewLocalRuntime :: "local_runtime \<Rightarrow> Config option \<Rightarrow> local_runtime" where
  "NewLocalRuntime base serviceConfig =
     (let sidecar = (case Option.bind serviceConfig cf_Sidecar of
                       None \<Rightarrow> None
                     | Some sd \<Rightarrow> if sd_LocalMode sd \<and> sd_BaseURL sd \<noteq> '''' then Some sd else None)
      in base\<lparr>lc_ctx := False,
              lc_callbackURL := buildCallbackURL serviceConfig,
              lc_mlflowTrackingURI := EffectiveTrackingURI (Option.bind serviceConfig cf_MLFlow),
              lc_otelEndpoint := otelEndpointFromConfig serviceConfig,
              lc_sidecarBaseURL := (case sidecar of None \<Rightarrow> '''' | Some sd \<Rightarrow> sd_BaseURL sd),
              lc_sidecarModelDefaults := Option.bind sidecar sd_Model\<rparr>)"

definition sidecarEnabled :: "local_runtime \<Rightarrow> bool" where
  "sidecarEnabled r \<longleftrightarrow> lc_sidecarBaseURL r \<noteq> ''''"

section \<open>The environment of an adapter\<close>

definition environmentVariableEntryMatches :: "bool \<Rightarrow> string \<Rightarrow> string \<Rightarrow> bool" where
  "environmentVariableEntryMatches windows item p =
     (if length item < length p then False
      else if windows then same_fold (take (length p) item) p
      else HasPrefix item p)"

definition replaceEnvironmentVariable :: "bool \<Rightarrow> string \<Rightarrow> string \<Rightarrow> string list \<Rightarrow> string list" where
  "replaceEnvironmentVariable windows name value env =
     filter (\<lambda>item. \<not> environmentVariableEntryMatches windows item (name @ ''='')) env @ [name @ ''='' @ value]"

text \<open>The variables that are set, in the order in which they are set.\<close>

definition service_settings :: "local_runtime \<Rightarrow> string \<Rightarrow> string \<Rightarrow> (string \<times> string) list" where
  "service_settings r tenant specPath =
     [(''EVALHUB_JOB_SPEC_PATH'', specPath), (''EVALHUB_MODE'', ''local'')] @
     (if tenant \<noteq> '''' then [(''EVALHUB_TENANT'', tenant)] else []) @
     (if lc_mlflowTrackingURI r \<noteq> '''' then [(''MLFLOW_TRACKING_URI'', lc_mlflowTrackingURI r)] else []) @
     (if lc_otelEndpoint r \<noteq> ''''
      then [(''OTEL_EXPORTER_OTLP_ENDPOINT'', lc_otelEndpoint r), (''OTEL_SERVICE_NAME'', ''evalhub-adapter'')] else [])"

definition provider_settings :: "EnvVar list \<Rightarrow> (string \<times> string) list" where
  "provider_settings vars = map (\<lambda>v. (ev_Name v, ev_Value v)) (filter (\<lambda>v. ev_Name v \<noteq> '''') vars)"

definition adapter_env :: "local_runtime \<Rightarrow> string \<Rightarrow> string \<Rightarrow> EnvVar list \<Rightarrow> string list" where
  "adapter_env r tenant specPath vars =
     fold (\<lambda>(n, v). replaceEnvironmentVariable (lc_windows r) n v) (service_settings r tenant specPath @ provider_settings vars)
       (lc_environ r)"

text \<open>An absolute path as the adapter gets it.\<close>

definition path_string :: "path \<Rightarrow> string" where
  "path_string p = ''/'' @ Join p ''/''"

section \<open>The host\<close>

datatype host_event =
    Launched string int int string "string list"
  | Killed int
  | Reported string BenchmarkStatusEvent "go_error option"
  | FailureMeasured string
  | Removed path "string option"

datatype stage =
    Resolving
  | Checking ProviderResource
  | Building ProviderResource
  | Writing ProviderResource JobSpec
  | Opening ProviderResource
  | Launching ProviderResource
  | Registering int
  | Waiting int
  | Finishing
  | Removing
  | Failing string
  | Ended "string option"

record routine =
  br_evaluation :: EvaluationJobResource
  br_bench :: EvaluationBenchmarkConfig
  br_index :: int
  br_callbackURL :: "string option"
  br_stage :: stage

datatype delete_stage = Cancelling | Clearing | Deleted "string option"

record host =
  ho_pids :: "int list gomap"
  ho_cancelled :: "bool gomap"
  ho_files :: files
  ho_running :: "int list"
  ho_routines :: "routine list"
  ho_deletes :: "(string \<times> delete_stage) list"
  ho_log :: "host_event list"

definition routine_job :: "routine \<Rightarrow> string" where
  "routine_job q = r_ID (ej_Resource (br_evaluation q))"

definition routine_dir :: "routine \<Rightarrow> path" where
  "routine_dir q = bench_dir (routine_job q) (br_index q) (br_bench q)"

text \<open>syscall.Kill with a negative identifier: the whole process group ends.\<close>

definition killProcessGroup :: "int \<Rightarrow> host \<Rightarrow> host" where
  "killProcessGroup pid h = h\<lparr>ho_running := removeAll pid (ho_running h), ho_log := ho_log h @ [Killed pid]\<rparr>"

section \<open>The tracker\<close>

definition registerJob :: "string \<Rightarrow> host \<Rightarrow> host" where
  "registerJob jobID h = h\<lparr>ho_pids := gomap_put jobID [] (ho_pids h)\<rparr>"

definition isCancelled :: "string \<Rightarrow> host \<Rightarrow> bool" where
  "isCancelled jobID h \<longleftrightarrow> gomap_get (ho_cancelled h) jobID = Some True"

definition tracked :: "string \<Rightarrow> host \<Rightarrow> int list" where
  "tracked jobID h = (case gomap_get (ho_pids h) jobID of None \<Rightarrow> [] | Some pids \<Rightarrow> pids)"

definition addPID :: "string \<Rightarrow> int \<Rightarrow> host \<Rightarrow> host" where
  "addPID jobID pid h =
     (if isCancelled jobID h then killProcessGroup pid h
      else h\<lparr>ho_pids := gomap_put jobID (tracked jobID h @ [pid]) (ho_pids h)\<rparr>)"

definition cancelJob :: "string \<Rightarrow> host \<Rightarrow> host" where
  "cancelJob jobID h =
     (let h' = (case gomap_get (ho_pids h) jobID of
                  None \<Rightarrow> h
                | Some pids \<Rightarrow> (fold killProcessGroup pids h)\<lparr>ho_pids := gomap_delete jobID (ho_pids h)\<rparr>)
      in h'\<lparr>ho_cancelled := gomap_put jobID True (ho_cancelled h')\<rparr>)"

section \<open>A benchmark\<close>

definition local_command :: "ProviderResource \<Rightarrow> LocalRuntime option" where
  "local_command provider =
     (case Option.bind (pv_Runtime (pr_Config provider)) rt_Local of
        None \<Rightarrow> None
      | Some lr \<Rightarrow> if lr_Command lr = '''' then None else Some lr)"

definition local_spec :: "local_runtime \<Rightarrow> routine \<Rightarrow> ProviderResource \<Rightarrow> string + JobSpec" where
  "local_spec r q provider =
     (case BuildJobSpec (lc_wild_int r) (br_evaluation q) (eb_ProviderID (br_bench q)) (Some (br_bench q)) (br_index q)
             (br_callbackURL q) (Some provider) of
        Inl e \<Rightarrow> Inl (''build job spec: '' @ e)
      | Inr spec \<Rightarrow>
          (case sp_Model spec of
             None \<Rightarrow> Inr spec
           | Some m \<Rightarrow>
               if sidecarEnabled r \<and> mr_URL m \<noteq> ''''
               then (case RewriteModelURLForLocalSidecar (lc_url r) (lc_sidecarBaseURL r) (routine_job q) (mr_URL m) of
                       Inl e \<Rightarrow> Inl (''rewrite model URL for sidecar: '' @ e)
                     | Inr url \<Rightarrow> Inr (spec\<lparr>sp_Model := Some (m\<lparr>mr_URL := url\<rparr>)\<rparr>))
               else Inr spec))"

definition write_spec :: "local_runtime \<Rightarrow> answers \<Rightarrow> routine \<Rightarrow> ProviderResource \<Rightarrow> JobSpec \<Rightarrow> host \<Rightarrow> stage \<times> host" where
  "write_spec r a q provider spec h =
     (case lc_MarshalJobSpec r spec of
        Inl e \<Rightarrow> (Failing (''marshal job spec: '' @ e), h)
      | Inr text \<Rightarrow>
          (case WriteFile a (routine_dir q @ [''meta'']) ''job.json'' text (ho_files h) of
             (Some e, fs) \<Rightarrow> (Failing (''write job spec: '' @ e), h\<lparr>ho_files := fs\<rparr>)
           | (None, fs) \<Rightarrow> (Opening provider, h\<lparr>ho_files := fs\<rparr>)))"

definition launch :: "local_runtime \<Rightarrow> answers \<Rightarrow> routine \<Rightarrow> ProviderResource \<Rightarrow> host \<Rightarrow> stage \<times> host" where
  "launch r a q provider h =
     (case aw_error a of
        Some e \<Rightarrow> (Failing (''start local process: '' @ e), h)
      | None \<Rightarrow>
          let lr = the (local_command provider);
              env = adapter_env r (r_Tenant (ej_Resource (br_evaluation q)))
                      (path_string (routine_dir q @ [''meta'', ''job.json''])) (lr_Env lr)
          in (Registering (aw_pid a),
              h\<lparr>ho_running := aw_pid a # ho_running h,
                ho_log := ho_log h @ [Launched (routine_job q) (br_index q) (aw_pid a) (lr_Command lr) env]\<rparr>))"

definition failure_event :: "EvaluationBenchmarkConfig \<Rightarrow> int \<Rightarrow> string \<Rightarrow> BenchmarkStatusEvent" where
  "failure_event bench benchmarkIndex errMsg =
     \<lparr>be_ProviderID = eb_ProviderID bench, be_ID = eb_ID bench, be_BenchmarkIndex = benchmarkIndex, be_Status = StateFailed,
      be_Phase = JobPhaseOther '''', be_Metrics = [], be_MetricsSchema = [], be_PrimaryScore = None, be_AdditionalInfo = [],
      be_Artifacts = [],
      be_ErrorMessage = WithMessageOrigin (Some \<lparr>mi_Message = errMsg, mi_MessageCode = ''evaluation_job_failed'',
                                                 mi_MessageOrigin = MessageOriginUnset\<rparr>) MessageOriginServer,
      be_WarningMessage = None, be_StartedAt = '''', be_CompletedAt = '''', be_MLFlowRunID = '''', be_LogsPath = '''',
      be_JobMeta = None\<rparr>"

definition failBenchmark :: "local_runtime \<Rightarrow> answers \<Rightarrow> routine \<Rightarrow> string \<Rightarrow> host \<Rightarrow> host" where
  "failBenchmark r a q errMsg h =
     (if lc_storage r
      then h\<lparr>ho_log := ho_log h @ [Reported (routine_job q) (failure_event (br_bench q) (br_index q) errMsg) (aw_report a)]\<rparr>
      else h)"

text \<open>
  The next step of runBenchmark and of the goroutine around it; \<open>None\<close> when it has ended or waits for its
  process.
\<close>

fun next_stage :: "local_runtime \<Rightarrow> answers \<Rightarrow> routine \<Rightarrow> stage \<Rightarrow> host \<Rightarrow> (stage \<times> host) option" where
  "next_stage r a q Resolving h =
     Some (case ProviderForBenchmark (lc_registry r) (br_evaluation q) (br_bench q)
                  (if lc_storage r then Some (aw_provider a) else None) of
             Inl e \<Rightarrow> (Failing (err_text e), h)
           | Inr provider \<Rightarrow>
               (case local_command provider of
                  None \<Rightarrow> (Failing (err_text (NewServiceError LocalRuntimeNotEnabled [''ProviderID'', eb_ProviderID (br_bench q)])), h)
                | Some lr \<Rightarrow> (Checking provider, h)))"
| "next_stage r a q (Checking provider) h =
     Some (if isCancelled (routine_job q) h then Ended None else Building provider, h)"
| "next_stage r a q (Building provider) h =
     Some (case local_spec r q provider of
             Inl e \<Rightarrow> (Failing e, h)
           | Inr spec \<Rightarrow>
               (case MkdirAll a (routine_dir q @ [''meta'']) (ho_files h) of
                  (Some e, fs) \<Rightarrow> (Failing (''create meta directory: '' @ e), h\<lparr>ho_files := fs\<rparr>)
                | (None, fs) \<Rightarrow> (Writing provider spec, h\<lparr>ho_files := fs\<rparr>)))"
| "next_stage r a q (Writing provider spec) h = Some (write_spec r a q provider spec h)"
| "next_stage r a q (Opening provider) h =
     Some (case WriteFile a (routine_dir q) ''jobrun.log'' '''' (ho_files h) of
             (Some e, fs) \<Rightarrow> (Failing (''create log file: '' @ e), h\<lparr>ho_files := fs\<rparr>)
           | (None, fs) \<Rightarrow> (Launching provider, h\<lparr>ho_files := fs\<rparr>))"
| "next_stage r a q (Launching provider) h = Some (launch r a q provider h)"
| "next_stage r a q (Registering pid) h = Some (Waiting pid, addPID (routine_job q) pid h)"
| "next_stage r a q (Waiting pid) h = (if pid \<in> set (ho_running h) then None else Some (Finishing, h))"
| "next_stage r a q Finishing h = Some (if isCancelled (routine_job q) h then Removing else Ended None, h)"
| "next_stage r a q Removing h =
     (case RemoveAll a (job_root (routine_job q)) (ho_files h) of
        (e, fs) \<Rightarrow> Some (Ended None, h\<lparr>ho_files := fs, ho_log := ho_log h @ [Removed (job_root (routine_job q)) e]\<rparr>))"
| "next_stage r a q (Failing err) h =
     Some (Ended (Some err),
           failBenchmark r a q err (h\<lparr>ho_log := ho_log h @ [FailureMeasured (r_Tenant (ej_Resource (br_evaluation q)))]\<rparr>))"
| "next_stage r a q (Ended e) h = None"

section \<open>Jobs\<close>

definition secret_ref_error :: "local_runtime \<Rightarrow> EvaluationJobResource \<Rightarrow> go_error option" where
  "secret_ref_error r evaluation =
     (case Option.bind (ec_Model (ej_Config evaluation)) mr_Auth of
        None \<Rightarrow> None
      | Some auth \<Rightarrow>
          if ma_SecretRef auth = '''' then None
          else (case lc_ParseSecretRef r (ma_SecretRef auth) of
                  Inl e \<Rightarrow> Some (NewServiceError InvalidSecretRefURIParse [''SecretRef'', ma_SecretRef auth, ''Detail'', e])
                | Inr u \<Rightarrow>
                    if su_Scheme u \<noteq> ''file'' \<or> su_Host u \<noteq> '''' \<or> su_Opaque u \<noteq> '''' \<or> su_Path u = '''' \<or> su_OmitHost u
                    then Some (NewServiceError InvalidSecretRefURI [''SecretRef'', ma_SecretRef auth]) else None))"

definition WriteSidecarJobInfo :: "local_runtime \<Rightarrow> answers \<Rightarrow> string \<Rightarrow> SidecarModelConfig option \<Rightarrow> host \<Rightarrow> string option \<times> host" where
  "WriteSidecarJobInfo r a jobID info h =
     (case MkdirAll a (job_root jobID) (ho_files h) of
        (Some e, fs) \<Rightarrow> (Some (''create job directory: '' @ e), h\<lparr>ho_files := fs\<rparr>)
      | (None, fs) \<Rightarrow>
          (case lc_MarshalJobInfo r info of
             Inl e \<Rightarrow> (Some (''marshal sidecar job info: '' @ e), h\<lparr>ho_files := fs\<rparr>)
           | Inr data \<Rightarrow>
               (case WriteFile a (job_root jobID) ''sidecar-job-info.json'' data fs of
                  (Some e, fs') \<Rightarrow> (Some (''write sidecar job info: '' @ e), h\<lparr>ho_files := fs'\<rparr>)
                | (None, fs') \<Rightarrow> (None, h\<lparr>ho_files := fs'\<rparr>))))"

definition sidecar_model_config :: "local_runtime \<Rightarrow> ModelRef \<Rightarrow> SidecarModelConfig option" where
  "sidecar_model_config r model =
     (let modelURL = TrimSpace (mr_URL model)
      in if modelURL = '''' then None
         else Some
           \<lparr>sl_URL = modelURL,
            sl_AuthSecretMountPath = (case mr_Auth model of None \<Rightarrow> '''' | Some auth \<Rightarrow> ma_SecretRef auth),
            sl_HTTPTimeout = (case lc_sidecarModelDefaults r of
                                Some d \<Rightarrow> if sl_HTTPTimeout d > 0 then sl_HTTPTimeout d else 300 * second
                              | None \<Rightarrow> 300 * second),
            sl_InsecureSkipVerify = (case lc_sidecarModelDefaults r of Some d \<Rightarrow> sl_InsecureSkipVerify d | None \<Rightarrow> False)\<rparr>)"

datatype run_result = RunStarted | RunRefused go_error | RunPanicked

definition em_dash :: string where
  "em_dash = [CHR 0xE2, CHR 0x80, CHR 0x94]"

fun spawn :: "EvaluationJobResource \<Rightarrow> string option \<Rightarrow> int \<Rightarrow> EvaluationBenchmarkConfig list \<Rightarrow> routine list" where
  "spawn evaluation callbackURL i [] = []"
| "spawn evaluation callbackURL i (bench # benches) =
     \<lparr>br_evaluation = evaluation, br_bench = bench, br_index = i, br_callbackURL = callbackURL, br_stage = Resolving\<rparr> #
     spawn evaluation callbackURL (i + 1) benches"

definition writeSidecarJobInfo :: "local_runtime \<Rightarrow> answers \<Rightarrow> EvaluationJobResource \<Rightarrow> host \<Rightarrow> run_result \<times> host" where
  "writeSidecarJobInfo r a evaluation h =
     (case ec_Model (ej_Config evaluation) of
        None \<Rightarrow> (RunPanicked, h)
      | Some model \<Rightarrow>
          (case WriteSidecarJobInfo r a (r_ID (ej_Resource evaluation)) (sidecar_model_config r model) h of
             (Some e, h') \<Rightarrow> (RunRefused (PlainErr (''write sidecar job info: '' @ e)), h')
           | (None, h') \<Rightarrow> (RunStarted, h')))"

definition prepare_sidecar :: "local_runtime \<Rightarrow> answers \<Rightarrow> EvaluationJobResource \<Rightarrow> host \<Rightarrow> run_result \<times> host" where
  "prepare_sidecar r a evaluation h =
     (if \<not> sidecarEnabled r then (RunStarted, h)
      else (case secret_ref_error r evaluation of
              Some e \<Rightarrow> (RunRefused e, h)
            | None \<Rightarrow> writeSidecarJobInfo r a evaluation h))"

definition RunEvaluationJob_local ::
  "local_runtime \<Rightarrow> answers \<Rightarrow> EvaluationJobResource \<Rightarrow> EvaluationBenchmarkConfig list \<Rightarrow> host \<Rightarrow> run_result \<times> host" where
  "RunEvaluationJob_local r a evaluation benchmarks h =
     (let jobID = r_ID (ej_Resource evaluation)
      in if \<not> lc_ctx r
         then (RunRefused (PlainErr (''local runtime: nil context '' @ em_dash @ '' WithContext must be called before RunEvaluationJob'')), h)
         else if benchmarks = [] then (RunRefused (NewServiceError EvaluationJobEmpty [''EvaluationJobID'', jobID]), h)
         else (case prepare_sidecar r a evaluation (registerJob jobID h) of
                 (RunStarted, h') \<Rightarrow>
                   let callbackURL = (if sidecarEnabled r then Some (lc_sidecarBaseURL r) else lc_callbackURL r)
                   in (RunStarted, h'\<lparr>ho_routines := ho_routines h' @ spawn evaluation callbackURL 0 benchmarks\<rparr>)
               | (x, h') \<Rightarrow> (x, h')))"

text \<open>DeleteEvaluationJobResources, in two steps: the tracker, then the directory.\<close>

fun delete_step :: "answers \<Rightarrow> string \<Rightarrow> delete_stage \<Rightarrow> host \<Rightarrow> (delete_stage \<times> host) option" where
  "delete_step a jobID Cancelling h = Some (Clearing, cancelJob jobID h)"
| "delete_step a jobID Clearing h =
     (case RemoveAll a (job_root jobID) (ho_files h) of
        (e, fs) \<Rightarrow> Some (Deleted e, h\<lparr>ho_files := fs, ho_log := ho_log h @ [Removed (job_root jobID) e]\<rparr>))"
| "delete_step a jobID (Deleted e) h = None"

section \<open>Logs\<close>

definition file_content :: "files \<Rightarrow> path \<Rightarrow> string option" where
  "file_content fs p = (case fs p of Some (File c) \<Rightarrow> Some c | _ \<Rightarrow> None)"

definition streamBenchmarkLogs_local :: "string \<Rightarrow> EvaluationBenchmarkConfig \<Rightarrow> int \<Rightarrow> EvaluationLogOptions \<Rightarrow> bool \<Rightarrow> files \<Rightarrow> string" where
  "streamBenchmarkLogs_local jobID bench benchmarkIndex opts includeHeader fs =
     (let content = file_content fs (bench_dir jobID benchmarkIndex bench @ [''jobrun.log''])
      in (if includeHeader
          then FormatLogSectionHeader (jobID @ ''-'' @ Itoa benchmarkIndex) ''local'' (eb_ID bench) @ [line_break] else []) @
         (if lo_TailLines opts = AllLogLines then StreamFileAll content
          else TailFileLines content (lo_TailLines opts)))"

fun stream_all_local :: "string \<Rightarrow> EvaluationLogOptions \<Rightarrow> int \<Rightarrow> EvaluationBenchmarkConfig list \<Rightarrow> files \<Rightarrow> string" where
  "stream_all_local jobID opts i [] fs = []"
| "stream_all_local jobID opts i (bench # benches) fs =
     (if i > 0 then [line_break] else []) @ streamBenchmarkLogs_local jobID bench i opts True fs @
     stream_all_local jobID opts (i + 1) benches fs"

text \<open>The writer accepts everything; an error of it ends the answer.\<close>

definition StreamEvaluationLogs_local ::
  "local_runtime \<Rightarrow> EvaluationJobResource \<Rightarrow> EvaluationBenchmarkConfig list \<Rightarrow> int option \<Rightarrow> EvaluationLogOptions \<Rightarrow> files \<Rightarrow>
   go_error + string" where
  "StreamEvaluationLogs_local r evaluation benchmarks benchmarkIndex opts fs =
     (let jobID = r_ID (ej_Resource evaluation)
      in if \<not> lc_ctx r
         then Inl (PlainErr (''local runtime: nil context '' @ em_dash @ '' WithContext must be called before StreamEvaluationLogs''))
         else if benchmarks = [] then Inl (NewServiceError EvaluationJobEmpty [''EvaluationJobID'', jobID])
         else (case benchmarkIndex of
                 Some i \<Rightarrow>
                   if i < 0 \<or> i \<ge> int (length benchmarks)
                   then Inl (NewServiceError ResourceNotFound [''Type'', ''benchmark'', ''ResourceId'', Itoa i])
                   else Inr (streamBenchmarkLogs_local jobID (benchmarks ! nat i) i opts False fs)
               | None \<Rightarrow> Inr (stream_all_local jobID opts 0 benchmarks fs)))"

section \<open>Schedules\<close>

text \<open>
  An action of the host: a job is started, a goroutine takes a step, a job is to be deleted, a deletion
  takes a step, or a process ends by itself. A job is started once, under an identifier that the service
  has drawn as a UUID; a job may be deleted before it is started. A new process has an identifier that no process that runs or has not been waited for has.
\<close>

definition plain :: "string \<Rightarrow> bool" where
  "plain s \<longleftrightarrow> s \<noteq> '''' \<and> s \<noteq> ''.'' \<and> s \<noteq> ''..'' \<and> CHR ''/'' \<notin> set s"

definition new_job :: "string \<Rightarrow> host \<Rightarrow> bool" where
  "new_job jobID h \<longleftrightarrow>
     plain jobID \<and> \<not> list_ex (\<lambda>q. routine_job q = jobID) (ho_routines h)"

fun held_pid :: "stage \<Rightarrow> int option" where
  "held_pid (Registering pid) = Some pid"
| "held_pid (Waiting pid) = Some pid"
| "held_pid _ = None"

definition fresh_pid :: "int \<Rightarrow> host \<Rightarrow> bool" where
  "fresh_pid pid h \<longleftrightarrow> pid \<notin> set (ho_running h) \<and> list_all (\<lambda>q. held_pid (br_stage q) \<noteq> Some pid) (ho_routines h)"

datatype host_action =
    StartJob EvaluationJobResource "EvaluationBenchmarkConfig list" answers
  | StepRoutine nat answers
  | DeleteJobCalled string
  | StepDelete nat answers
  | ProcessExits int

fun perform_action :: "local_runtime \<Rightarrow> host_action \<Rightarrow> host \<Rightarrow> host option" where
  "perform_action r (StartJob evaluation benchmarks a) h =
     (if new_job (r_ID (ej_Resource evaluation)) h then Some (snd (RunEvaluationJob_local r a evaluation benchmarks h)) else None)"
| "perform_action r (StepRoutine i a) h =
     (if i < length (ho_routines h) \<and> fresh_pid (aw_pid a) h
      then (case next_stage r a (ho_routines h ! i) (br_stage (ho_routines h ! i)) h of
              None \<Rightarrow> None
            | Some (st, h') \<Rightarrow> Some (h'\<lparr>ho_routines := (ho_routines h)[i := (ho_routines h ! i)\<lparr>br_stage := st\<rparr>]\<rparr>))
      else None)"
| "perform_action r (DeleteJobCalled jobID) h = Some (h\<lparr>ho_deletes := ho_deletes h @ [(jobID, Cancelling)]\<rparr>)"
| "perform_action r (StepDelete i a) h =
     (if i < length (ho_deletes h)
      then (case delete_step a (fst (ho_deletes h ! i)) (snd (ho_deletes h ! i)) h of
              None \<Rightarrow> None
            | Some (st, h') \<Rightarrow> Some (h'\<lparr>ho_deletes := (ho_deletes h)[i := (fst (ho_deletes h ! i), st)]\<rparr>))
      else None)"
| "perform_action r (ProcessExits pid) h = Some (h\<lparr>ho_running := removeAll pid (ho_running h)\<rparr>)"

fun perform_all :: "local_runtime \<Rightarrow> host_action list \<Rightarrow> host \<Rightarrow> host option" where
  "perform_all r [] h = Some h"
| "perform_all r (x # xs) h = Option.bind (perform_action r x h) (perform_all r xs)"

text \<open>Schedules in which no job is started after its deletion.\<close>

fun in_time :: "host_action \<Rightarrow> host \<Rightarrow> bool" where
  "in_time (StartJob evaluation benchmarks a) h = (\<not> list_ex (\<lambda>d. fst d = r_ID (ej_Resource evaluation)) (ho_deletes h))"
| "in_time _ h = True"

fun in_order :: "local_runtime \<Rightarrow> host_action list \<Rightarrow> host \<Rightarrow> bool" where
  "in_order r [] h = True"
| "in_order r (x # xs) h = (in_time x h \<and> (case perform_action r x h of None \<Rightarrow> True | Some h' \<Rightarrow> in_order r xs h'))"

definition idle_host :: "files \<Rightarrow> host" where
  "idle_host fs = \<lparr>ho_pids = [], ho_cancelled = [], ho_files = fs, ho_running = [], ho_routines = [], ho_deletes = [], ho_log = []\<rparr>"

end
