(* ===== verification/Local_Races.thy ===== *)
theory Local_Races
  imports Local_Runtime Job_Lifecycle
begin

text \<open>
  Every interleaving of the goroutines of the local runtime, of deletions and of processes that end by
  themselves: what holds of the host at every moment. The steps of a goroutine are summed up once
  (\<open>next_stage_effect\<close>, \<open>next_stage_files\<close>, \<open>next_stage_log\<close>); the invariants rest on these.
\<close>

section \<open>Schedules as steps\<close>

definition host_step :: "local_runtime \<Rightarrow> host \<Rightarrow> host \<Rightarrow> bool" where
  "host_step r h h' \<longleftrightarrow> (\<exists>x. perform_action r x h = Some h')"

lemma perform_all_steps: "perform_all r xs h = Some h' \<Longrightarrow> (host_step r)\<^sup>*\<^sup>* h h'"
proof (induction xs arbitrary: h)
  case (Cons x xs)
  then obtain g where "perform_action r x h = Some g" "perform_all r xs g = Some h'" by (auto simp: bind_eq_Some_conv)
  with Cons.IH show ?case by (auto simp: host_step_def intro: converse_rtranclp_into_rtranclp[of _ h g])
qed simp

definition orderly_step :: "local_runtime \<Rightarrow> host \<Rightarrow> host \<Rightarrow> bool" where
  "orderly_step r h h' \<longleftrightarrow> (\<exists>x. in_time x h \<and> perform_action r x h = Some h')"

lemma in_order_steps: "perform_all r xs h = Some h' \<Longrightarrow> in_order r xs h \<Longrightarrow> (orderly_step r)\<^sup>*\<^sup>* h h'"
proof (induction xs arbitrary: h)
  case (Cons x xs)
  then obtain g where "perform_action r x h = Some g" "perform_all r xs g = Some h'" by (auto simp: bind_eq_Some_conv)
  with Cons show ?case by (auto simp: orderly_step_def intro: converse_rtranclp_into_rtranclp[of _ h g])
qed simp

lemma routine_job_stage [simp]: "routine_job (q\<lparr>br_stage := st\<rparr>) = routine_job q"
  by (simp add: routine_job_def)

text \<open>What the tracker knows depends on its own two maps only.\<close>

lemma tracker_fields [simp]:
  "tracked j (h\<lparr>ho_running := x\<rparr>) = tracked j h" "tracked j (h\<lparr>ho_files := fs\<rparr>) = tracked j h"
  "tracked j (h\<lparr>ho_routines := qs\<rparr>) = tracked j h" "tracked j (h\<lparr>ho_deletes := ds\<rparr>) = tracked j h"
  "tracked j (h\<lparr>ho_log := l\<rparr>) = tracked j h" "tracked j (h\<lparr>ho_cancelled := c\<rparr>) = tracked j h"
  "isCancelled j (h\<lparr>ho_running := x\<rparr>) = isCancelled j h" "isCancelled j (h\<lparr>ho_files := fs\<rparr>) = isCancelled j h"
  "isCancelled j (h\<lparr>ho_routines := qs\<rparr>) = isCancelled j h" "isCancelled j (h\<lparr>ho_deletes := ds\<rparr>) = isCancelled j h"
  "isCancelled j (h\<lparr>ho_log := l\<rparr>) = isCancelled j h" "isCancelled j (h\<lparr>ho_pids := ps\<rparr>) = isCancelled j h"
  by (simp_all add: tracked_def isCancelled_def)

lemma isCancelled_cong: "ho_cancelled h' = ho_cancelled h \<Longrightarrow> isCancelled j h' = isCancelled j h"
  by (simp add: isCancelled_def)

text \<open>The cases of a step, with the stage of the goroutine or deletion that moves.\<close>

lemma perform_StepRoutine:
  assumes "perform_action r (StepRoutine i a) h = Some h'"
  obtains q st g where "i < length (ho_routines h)" "q = ho_routines h ! i" "fresh_pid (aw_pid a) h"
    "next_stage r a q (br_stage q) h = Some (st, g)"
    "h' = g\<lparr>ho_routines := (ho_routines h)[i := q\<lparr>br_stage := st\<rparr>]\<rparr>"
  using assms by (auto split: if_splits option.splits)

lemma perform_StepDelete:
  assumes "perform_action r (StepDelete i a) h = Some h'"
  obtains j d st g where "i < length (ho_deletes h)" "(j, d) = ho_deletes h ! i" "delete_step a j d h = Some (st, g)"
    "h' = g\<lparr>ho_deletes := (ho_deletes h)[i := (j, st)]\<rparr>"
  using assms by (cases "ho_deletes h ! i") (auto split: if_splits option.splits)

lemma next_stage_effect:
  assumes "next_stage r a q st h = Some (st', h')"
  shows "ho_deletes h' = ho_deletes h \<and> ho_routines h' = ho_routines h \<and> ho_cancelled h' = ho_cancelled h \<and>
    (\<forall>j. set (tracked j h) \<subseteq> set (tracked j h')) \<and> set (ho_running h') \<subseteq> insert (aw_pid a) (set (ho_running h))"
  using assms
  by (cases st)
     (auto simp: addPID_def killProcessGroup_def tracked_def write_spec_def launch_def failBenchmark_def RemoveAll_def Let_def
           split: sum.splits option.splits if_splits prod.splits)

lemma next_stage_waits:
  assumes "next_stage r a q st h = Some (Waiting p, h')"
  shows "st = Registering p \<and> (if isCancelled (routine_job q) h then p \<notin> set (ho_running h') else p \<in> set (tracked (routine_job q) h'))"
  using assms
  by (cases st)
     (auto simp: addPID_def killProcessGroup_def tracked_def write_spec_def launch_def Let_def isCancelled_def
           split: sum.splits option.splits if_splits prod.splits)

lemma kill_all:
  "fold killProcessGroup pids h =
   h\<lparr>ho_running := filter (\<lambda>p. p \<notin> set pids) (ho_running h), ho_log := ho_log h @ map Killed pids\<rparr>"
proof (induction pids arbitrary: h)
  case (Cons pid pids)
  have "filter (\<lambda>p. p \<notin> set pids) (removeAll pid xs) = filter (\<lambda>p. p \<notin> set (pid # pids)) xs" for xs
    by (induction xs) auto
  then show ?case by (simp add: Cons killProcessGroup_def[of pid h])
qed simp

lemma cancelJob_effect:
  "ho_running (cancelJob j h) = filter (\<lambda>p. p \<notin> set (tracked j h)) (ho_running h)"
  "tracked k (cancelJob j h) = (if k = j then [] else tracked k h)"
  "isCancelled k (cancelJob j h) \<longleftrightarrow> k = j \<or> isCancelled k h"
  "ho_routines (cancelJob j h) = ho_routines h" "ho_deletes (cancelJob j h) = ho_deletes h" "ho_files (cancelJob j h) = ho_files h"
  "set (ho_log (cancelJob j h)) = set (ho_log h) \<union> Killed ` set (tracked j h)"
  by (auto simp: cancelJob_def kill_all tracked_def isCancelled_def Let_def split: option.splits)

lemma start_effect:
  assumes "RunEvaluationJob_local r a evaluation benchmarks h = (x, h')"
  shows "ho_deletes h' = ho_deletes h \<and> ho_cancelled h' = ho_cancelled h \<and> ho_running h' = ho_running h \<and> ho_log h' = ho_log h \<and>
    (\<forall>j. j \<noteq> r_ID (ej_Resource evaluation) \<longrightarrow> tracked j h' = tracked j h) \<and>
    (ho_routines h' = ho_routines h \<or> (\<exists>url. ho_routines h' = ho_routines h @ spawn evaluation url 0 benchmarks))"
  using assms
  by (auto simp: RunEvaluationJob_local_def prepare_sidecar_def writeSidecarJobInfo_def WriteSidecarJobInfo_def registerJob_def
        tracked_def Let_def split: if_splits option.splits prod.splits run_result.splits sum.splits)

lemma spawn_routines:
  "q \<in> set (spawn evaluation url i benches) \<Longrightarrow>
   routine_job q = r_ID (ej_Resource evaluation) \<and> br_stage q = Resolving \<and> i \<le> br_index q"
  by (induction benches arbitrary: i) (fastforce simp: routine_job_def)+

section \<open>Processes\<close>

text \<open>
  A goroutine that waits for a process of a job waits for one that the tracker knows, or, when the job is
  cancelled, for one that no longer runs.
\<close>

definition processes_ok :: "host \<Rightarrow> bool" where
  "processes_ok h \<longleftrightarrow>
     (\<forall>q\<in>set (ho_routines h). \<forall>p. br_stage q = Waiting p \<longrightarrow>
        (if isCancelled (routine_job q) h then p \<notin> set (ho_running h) else p \<in> set (tracked (routine_job q) h)))"

lemma processes_ok_routine:
  assumes ok: "processes_ok h" and step: "perform_action r (StepRoutine i a) h = Some h'"
  shows "processes_ok h'"
  using step
proof (rule perform_StepRoutine)
  fix q st g
  assume i: "i < length (ho_routines h)" and q: "q = ho_routines h ! i" and fresh: "fresh_pid (aw_pid a) h"
    and ns: "next_stage r a q (br_stage q) h = Some (st, g)" and h': "h' = g\<lparr>ho_routines := (ho_routines h)[i := q\<lparr>br_stage := st\<rparr>]\<rparr>"
  note e = next_stage_effect[OF ns]
  have c: "isCancelled j h' = isCancelled j h" "tracked j h' = tracked j g" for j
    using e by (simp_all add: h' isCancelled_def)
  show ?thesis unfolding processes_ok_def c
  proof (intro ballI allI impI)
    fix q' p assume q': "q' \<in> set (ho_routines h')" and w: "br_stage q' = Waiting p"
    show "if isCancelled (routine_job q') h then p \<notin> set (ho_running h') else p \<in> set (tracked (routine_job q') g)"
    proof (cases "q' = q\<lparr>br_stage := st\<rparr>")
      case True
      with w ns next_stage_waits[of r a q "br_stage q" h p g] show ?thesis by (simp add: routine_job_def h' split: if_splits)
    next
      case False
      with q' have m: "q' \<in> set (ho_routines h)" by (auto simp: h' dest!: set_update_subset_insert[THEN subsetD])
      then have "p \<noteq> aw_pid a" using fresh w by (auto simp: fresh_pid_def list_all_iff)
      with ok m w e show ?thesis by (fastforce simp: processes_ok_def h' split: if_splits)
    qed
  qed
qed

lemma processes_ok_delete:
  assumes ok: "processes_ok h" and step: "perform_action r (StepDelete i a) h = Some h'"
  shows "processes_ok h'"
  using step
proof (rule perform_StepDelete)
  fix j d st g
  assume i: "i < length (ho_deletes h)" and ds: "delete_step a j d h = Some (st, g)" and h': "h' = g\<lparr>ho_deletes := (ho_deletes h)[i := (j, st)]\<rparr>"
  show ?thesis
  proof (cases d)
    case Cancelling
    with ds have g: "g = cancelJob j h" by simp
    show ?thesis using ok by (auto simp: processes_ok_def h' g cancelJob_effect split: if_splits)
  next
    case Clearing
    with ds ok show ?thesis by (auto simp: processes_ok_def h' RemoveAll_def)
  qed (use ds in simp)
qed

lemma processes_ok_step: "processes_ok h \<Longrightarrow> host_step r h h' \<Longrightarrow> processes_ok h'"
  unfolding host_step_def
proof (elim exE)
  fix x assume ok: "processes_ok h" and x: "perform_action r x h = Some h'"
  show "processes_ok h'"
  proof (cases x)
    case (StartJob evaluation benchmarks a)
    obtain y g where g: "RunEvaluationJob_local r a evaluation benchmarks h = (y, g)" by force
    from x StartJob g have new: "new_job (r_ID (ej_Resource evaluation)) h" and h': "h' = g" by (auto split: if_splits)
    note e = start_effect[OF g]
    have "routine_job q \<noteq> r_ID (ej_Resource evaluation)" if "q \<in> set (ho_routines h)" for q
      using new that by (auto simp: new_job_def list_ex_iff)
    with e ok show ?thesis
      by (auto simp: processes_ok_def h' isCancelled_cong[of g h] dest!: spawn_routines)
  next
    case (ProcessExits p)
    with x ok show ?thesis by (auto simp: processes_ok_def)
  next
    case (DeleteJobCalled j)
    with x ok show ?thesis by (auto simp: processes_ok_def)
  qed (use ok x processes_ok_routine processes_ok_delete in blast)+
qed

interpretation processes: transition_system "host_step r" processes_ok for r
  by unfold_locales (rule processes_ok_step)

text \<open>Every process that runs is one that a goroutine has started and not yet waited for.\<close>

definition owned_processes :: "host \<Rightarrow> bool" where
  "owned_processes h \<longleftrightarrow> (\<forall>p\<in>set (ho_running h). \<exists>q\<in>set (ho_routines h). held_pid (br_stage q) = Some p)"

lemma next_stage_owns:
  assumes "next_stage r a q st h = Some (st', h')" "p \<in> set (ho_running h')"
  shows "p \<in> set (ho_running h) \<and> (held_pid st = Some p \<longrightarrow> held_pid st' = Some p) \<or> held_pid st' = Some p"
  using assms
  by (cases st)
     (auto simp: addPID_def killProcessGroup_def write_spec_def launch_def failBenchmark_def RemoveAll_def Let_def
           split: sum.splits option.splits if_splits prod.splits)

lemma update_member: "x \<in> set xs \<Longrightarrow> i < length xs \<Longrightarrow> x = xs ! i \<or> x \<in> set (xs[i := y])"
  by (metis in_set_conv_nth length_list_update nth_list_update_neq)

lemma owned_processes_routine:
  assumes ok: "owned_processes h" and step: "perform_action r (StepRoutine i a) h = Some h'"
  shows "owned_processes h'"
  using step
proof (rule perform_StepRoutine)
  fix q st g
  assume i: "i < length (ho_routines h)" and q: "q = ho_routines h ! i"
    and ns: "next_stage r a q (br_stage q) h = Some (st, g)" and h': "h' = g\<lparr>ho_routines := (ho_routines h)[i := q\<lparr>br_stage := st\<rparr>]\<rparr>"
  have me: "q\<lparr>br_stage := st\<rparr> \<in> set (ho_routines h')" using i by (simp add: h' set_update_memI)
  show ?thesis unfolding owned_processes_def
  proof
    fix p assume p: "p \<in> set (ho_running h')"
    with next_stage_owns[OF ns] consider (mine) "held_pid st = Some p"
      | (old) "p \<in> set (ho_running h)" "held_pid (br_stage q) \<noteq> Some p" by (auto simp: h')
    then show "\<exists>q\<in>set (ho_routines h'). held_pid (br_stage q) = Some p"
    proof cases
      case mine
      then show ?thesis by (intro bexI[OF _ me]) simp
    next
      case old
      with ok obtain q' where "q' \<in> set (ho_routines h)" "held_pid (br_stage q') = Some p" by (auto simp: owned_processes_def)
      with old update_member[of q' "ho_routines h" i "q\<lparr>br_stage := st\<rparr>"] i q show ?thesis by (auto simp: h')
    qed
  qed
qed

lemma owned_processes_step: "owned_processes h \<Longrightarrow> host_step r h h' \<Longrightarrow> owned_processes h'"
  unfolding host_step_def
proof (elim exE)
  fix x assume ok: "owned_processes h" and x: "perform_action r x h = Some h'"
  show "owned_processes h'"
  proof (cases x)
    case (StartJob evaluation benchmarks a)
    obtain y g where g: "RunEvaluationJob_local r a evaluation benchmarks h = (y, g)" by force
    with x StartJob have "h' = g" by (auto split: if_splits)
    with start_effect[OF g] ok show ?thesis by (fastforce simp: owned_processes_def)
  next
    case (StepRoutine i a)
    from owned_processes_routine[OF ok x[unfolded StepRoutine]] show ?thesis .
  next
    case (StepDelete i a)
    with x obtain j d st g where "delete_step a j d h = Some (st, g)" "h' = g\<lparr>ho_deletes := (ho_deletes h)[i := (j, st)]\<rparr>"
      by (metis perform_StepDelete)
    with ok show ?thesis by (cases d) (auto simp: owned_processes_def cancelJob_effect RemoveAll_def)
  qed (use ok x in \<open>auto simp: owned_processes_def\<close>)
qed

interpretation owners: transition_system "host_step r" owned_processes for r
  by unfold_locales (rule owned_processes_step)

section \<open>Files\<close>

lemma Split_absent: "c \<notin> set s \<Longrightarrow> Split c s = [s]"
  by (induction s) auto

lemma clean_plain: "list_all plain ss \<Longrightarrow> clean_onto p ss = p @ ss"
  by (induction ss arbitrary: p) (auto simp: plain_def)

lemma filepath_Join_plain: "list_all plain ss \<Longrightarrow> filepath_Join p ss = p @ ss"
proof -
  assume plain: "list_all plain ss"
  then have "concat (map (Split (CHR ''/'')) ss) = ss" by (induction ss) (auto simp: plain_def Split_absent)
  with plain show ?thesis by (simp add: filepath_Join_def clean_plain)
qed

lemma digits_of_chars: "c \<in> set (digits_of n) \<Longrightarrow> 48 \<le> (of_char c :: nat) \<and> (of_char c :: nat) \<le> 57"
proof (induction n rule: digits_of.induct)
  case (1 n)
  have "of_char (char_of (48 + m) :: char) = 48 + m" if "m < 10" for m :: nat using that by simp
  with 1 show ?case by (subst (asm) digits_of.simps) (auto split: if_splits)
qed

lemma plain_Itoa: "plain (Itoa i)"
proof -
  have "digits_of n \<noteq> []" for n by (subst digits_of.simps) simp
  moreover have "CHR ''/'' \<notin> set (digits_of n)" "CHR ''.'' \<notin> set (digits_of n)" for n
    using digits_of_chars[of "CHR ''/''" n] digits_of_chars[of "CHR ''.''" n] by auto
  moreover from this have "digits_of n \<noteq> ''.''" "digits_of n \<noteq> ''..''" for n by (metis list.set_intros(1))+
  ultimately show ?thesis by (auto simp: Itoa_def plain_def)
qed

definition plain_ids :: "routine \<Rightarrow> bool" where
  "plain_ids q \<longleftrightarrow> plain (eb_ProviderID (br_bench q)) \<and> plain (eb_ID (br_bench q))"

lemma job_root_plain: "plain j \<Longrightarrow> job_root j = localJobsBaseDir @ [j]"
  by (simp add: job_root_def filepath_Join_plain)

lemma routine_dir_plain:
  "plain (routine_job q) \<Longrightarrow> plain_ids q \<Longrightarrow>
   routine_dir q = localJobsBaseDir @ [routine_job q, Itoa (br_index q), eb_ProviderID (br_bench q), eb_ID (br_bench q)]"
  by (simp add: routine_dir_def bench_dir_def plain_ids_def filepath_Join_plain plain_Itoa)

text \<open>What a goroutine creates lies in the directory of its job.\<close>

lemma own_directory:
  assumes "plain (routine_job q)" "plain_ids q" "plain j" "prefix (job_root j) p"
    and "prefix p (routine_dir q @ [''meta'']) \<or> prefix (routine_dir q) p"
  shows "routine_job q = j"
  using assms by (auto simp: job_root_plain routine_dir_plain prefix_def append_eq_append_conv2 Cons_eq_append_conv)

text \<open>The stages in which a goroutine may have files, and will remove them, or has failed.\<close>

fun may_hold :: "stage \<Rightarrow> bool" where
  "may_hold Resolving = False"
| "may_hold (Checking _) = False"
| "may_hold (Building _) = False"
| "may_hold (Ended None) = False"
| "may_hold _ = True"

definition leftover :: "string \<Rightarrow> host \<Rightarrow> bool" where
  "leftover j h \<longleftrightarrow>
     (\<exists>q\<in>set (ho_routines h). routine_job q = j \<and> may_hold (br_stage q)) \<or> (\<exists>e. Removed (job_root j) (Some e) \<in> set (ho_log h))"

lemma next_stage_files:
  assumes "next_stage r a q st h = Some (st', h')" "ho_files h' p \<noteq> None"
  shows "ho_files h p \<noteq> None \<or> may_hold st' \<and> (prefix p (routine_dir q @ [''meta'']) \<or> prefix (routine_dir q) p)"
  using assms
  by (cases st)
     (auto simp: addPID_def killProcessGroup_def write_spec_def launch_def failBenchmark_def RemoveAll_def WriteFile_def MkdirAll_def Let_def
           split: sum.splits option.splits if_splits prod.splits)

lemma next_stage_holds:
  assumes "next_stage r a q st h = Some (st', h')" "may_hold st"
  shows "may_hold st' \<or> st = Finishing \<and> \<not> isCancelled (routine_job q) h \<or> st = Removing"
  using assms by (cases st) (auto simp: write_spec_def launch_def Let_def split: sum.splits option.splits if_splits prod.splits)

lemma next_stage_removes:
  assumes "next_stage r a q Removing h = Some (st', h')" "prefix (job_root (routine_job q)) p" "ho_files h' p \<noteq> None"
  shows "\<exists>e. Removed (job_root (routine_job q)) (Some e) \<in> set (ho_log h')"
  using assms by (cases "aw_error a") (auto simp: RemoveAll_def split: if_splits)

lemma next_stage_log:
  assumes "next_stage r a q st h = Some (st', h')"
  shows "set (ho_log h) \<subseteq> set (ho_log h')"
  using assms
  by (cases st)
     (auto simp: addPID_def killProcessGroup_def write_spec_def launch_def failBenchmark_def RemoveAll_def Let_def
           split: sum.splits option.splits if_splits prod.splits)

lemma start_files:
  assumes "RunEvaluationJob_local r a evaluation benchmarks h = (x, h')" "ho_files h' p \<noteq> None"
  shows "ho_files h p \<noteq> None \<or> prefix p (job_root (r_ID (ej_Resource evaluation))) \<or> prefix (job_root (r_ID (ej_Resource evaluation))) p"
  using assms
  by (auto simp: RunEvaluationJob_local_def prepare_sidecar_def writeSidecarJobInfo_def WriteSidecarJobInfo_def registerJob_def
        WriteFile_def MkdirAll_def Let_def
        split: if_splits option.splits prod.splits run_result.splits sum.splits)

definition deletes_ok :: "host \<Rightarrow> bool" where
  "deletes_ok h \<longleftrightarrow>
     (\<forall>d\<in>set (ho_deletes h). snd d \<noteq> Cancelling \<longrightarrow> isCancelled (fst d) h) \<and> (\<forall>q\<in>set (ho_routines h). plain (routine_job q))"

text \<open>The files of a deleted job, if there are any, are those of a goroutine that will remove them or has failed.\<close>

definition files_ok :: "host \<Rightarrow> bool" where
  "files_ok h \<longleftrightarrow> deletes_ok h \<and>
     ((\<forall>q\<in>set (ho_routines h). plain_ids q) \<longrightarrow>
      (\<forall>j p. plain j \<longrightarrow> (j, Deleted None) \<in> set (ho_deletes h) \<longrightarrow> prefix (job_root j) p \<longrightarrow> ho_files h p \<noteq> None \<longrightarrow> leftover j h))"

lemma deletes_ok_step:
  assumes ok: "deletes_ok h" and step: "perform_action r x h = Some h'"
  shows "deletes_ok h'"
proof (cases x)
  case (StartJob evaluation benchmarks a)
  obtain y g where g: "RunEvaluationJob_local r a evaluation benchmarks h = (y, g)" by force
  with step StartJob have new: "plain (r_ID (ej_Resource evaluation))" and h': "h' = g" by (auto simp: new_job_def split: if_splits)
  with start_effect[OF g] ok show ?thesis
    by (auto simp: deletes_ok_def h' isCancelled_cong[of g h] dest!: spawn_routines)
next
  case (StepRoutine i a)
  with step obtain q st g where i: "i < length (ho_routines h)" "q = ho_routines h ! i"
    and ns: "next_stage r a q (br_stage q) h = Some (st, g)" and h': "h' = g\<lparr>ho_routines := (ho_routines h)[i := q\<lparr>br_stage := st\<rparr>]\<rparr>"
    by (metis perform_StepRoutine)
  have "plain (routine_job q')" if "q' \<in> set (ho_routines h')" for q'
    using that ok i by (auto simp: h' deletes_ok_def dest!: set_update_subset_insert[THEN subsetD])
  with next_stage_effect[OF ns] ok show ?thesis by (auto simp: deletes_ok_def h' isCancelled_cong[of g h])
next
  case (StepDelete i a)
  with step obtain j d st g where i: "i < length (ho_deletes h)" "(j, d) = ho_deletes h ! i"
    and ds: "delete_step a j d h = Some (st, g)" and h': "h' = g\<lparr>ho_deletes := (ho_deletes h)[i := (j, st)]\<rparr>"
    by (metis perform_StepDelete)
  have "(j, d) \<in> set (ho_deletes h)" using i by simp
  with ds ok have "isCancelled j g \<and> (\<forall>k. isCancelled k h \<longrightarrow> isCancelled k g) \<and> ho_routines g = ho_routines h"
    by (cases d) (auto simp: cancelJob_effect deletes_ok_def RemoveAll_def)
  with ok show ?thesis by (auto simp: deletes_ok_def h' dest!: set_update_subset_insert[THEN subsetD])
qed (use step ok in \<open>auto simp: deletes_ok_def\<close>)

interpretation deletions: transition_system "host_step r" deletes_ok for r
  by unfold_locales (auto simp: host_step_def intro: deletes_ok_step)

lemma leftover_mono:
  assumes "leftover j h" "set (ho_log h) \<subseteq> set (ho_log h')" "set (ho_routines h) \<subseteq> set (ho_routines h')"
  shows "leftover j h'"
  using assms by (auto simp: leftover_def)

lemma leftover_routine:
  assumes left: "leftover j h" and i: "i < length (ho_routines h)" "q = ho_routines h ! i" and log: "set (ho_log h) \<subseteq> set (ho_log h')"
    and routines: "ho_routines h' = (ho_routines h)[i := q\<lparr>br_stage := st\<rparr>]"
    and stays: "routine_job q = j \<Longrightarrow> may_hold (br_stage q) \<Longrightarrow> may_hold st"
  shows "leftover j h'"
proof -
  have me: "q\<lparr>br_stage := st\<rparr> \<in> set (ho_routines h')" using i routines by (simp add: set_update_memI)
  from left show ?thesis unfolding leftover_def
  proof (elim disjE bexE conjE)
    fix q' assume "q' \<in> set (ho_routines h)" "routine_job q' = j" "may_hold (br_stage q')"
    then have "\<exists>q\<in>set (ho_routines h'). routine_job q = j \<and> may_hold (br_stage q)"
      using update_member[of q' "ho_routines h" i] i routines stays bexI[OF _ me] by fastforce
    then show "(\<exists>q\<in>set (ho_routines h'). routine_job q = j \<and> may_hold (br_stage q)) \<or> (\<exists>e. Removed (job_root j) (Some e) \<in> set (ho_log h'))"
      by blast
  qed (use log in blast)
qed

lemma files_ok_routine:
  assumes ok: "files_ok h" and step: "perform_action r (StepRoutine i a) h = Some h'"
    and ids: "\<forall>q\<in>set (ho_routines h). plain_ids q"
    and j: "plain j" "(j, Deleted None) \<in> set (ho_deletes h')" "prefix (job_root j) p" "ho_files h' p \<noteq> None"
  shows "leftover j h'"
  using step
proof (rule perform_StepRoutine)
  fix q st g
  assume i: "i < length (ho_routines h)" and q: "q = ho_routines h ! i"
    and ns: "next_stage r a q (br_stage q) h = Some (st, g)" and h': "h' = g\<lparr>ho_routines := (ho_routines h)[i := q\<lparr>br_stage := st\<rparr>]\<rparr>"
  note e = next_stage_effect[OF ns] and log = next_stage_log[OF ns]
  from i q have mem: "q \<in> set (ho_routines h)" by simp
  with ok ids have plain: "plain (routine_job q)" "plain_ids q" by (auto simp: files_ok_def deletes_ok_def)
  from j(2) e have del: "(j, Deleted None) \<in> set (ho_deletes h)" by (simp add: h')
  with ok have cancelled: "isCancelled j h" by (auto simp: files_ok_def deletes_ok_def)
  have me: "q\<lparr>br_stage := st\<rparr> \<in> set (ho_routines h')" using i by (simp add: h' set_update_memI)
  from next_stage_files[OF ns, of p] j(4) consider (old) "ho_files h p \<noteq> None"
    | (new) "may_hold st" "prefix p (routine_dir q @ [''meta'']) \<or> prefix (routine_dir q) p" by (auto simp: h')
  then show ?thesis
  proof cases
    case new
    with own_directory[OF plain j(1,3)] me show ?thesis by (fastforce simp: leftover_def routine_job_def)
  next
    case old
    with ok ids j del have left: "leftover j h" by (auto simp: files_ok_def)
    show ?thesis
    proof (cases "routine_job q = j \<and> br_stage q = Removing")
      case True
      with next_stage_removes[of r a q h st g p] ns j show ?thesis by (auto simp: leftover_def h')
    next
      case False
      with next_stage_holds[OF ns] cancelled have "routine_job q = j \<Longrightarrow> may_hold (br_stage q) \<Longrightarrow> may_hold st" by auto
      with left i q log show ?thesis by (rule_tac leftover_routine[of j h i q h' st]) (simp_all add: h')
    qed
  qed
qed

lemma files_ok_delete:
  assumes ok: "files_ok h" and step: "perform_action r (StepDelete i a) h = Some h'"
    and ids: "\<forall>q\<in>set (ho_routines h). plain_ids q"
    and j: "plain j" "(j, Deleted None) \<in> set (ho_deletes h')" "prefix (job_root j) p" "ho_files h' p \<noteq> None"
  shows "leftover j h'"
  using step
proof (rule perform_StepDelete)
  fix k d st g
  assume ds: "delete_step a k d h = Some (st, g)" and h': "h' = g\<lparr>ho_deletes := (ho_deletes h)[i := (k, st)]\<rparr>"
  from ds have g: "ho_routines g = ho_routines h" "set (ho_log h) \<subseteq> set (ho_log g)" "ho_files g p \<noteq> None \<Longrightarrow> ho_files h p \<noteq> None"
    by (cases d; auto simp: cancelJob_effect RemoveAll_def split: if_splits)+
  show ?thesis
  proof (cases "(j, Deleted None) \<in> set (ho_deletes h)")
    case True
    with ok ids j g have "leftover j h" by (auto simp: files_ok_def h')
    then show ?thesis by (rule leftover_mono) (use g in \<open>simp_all add: h'\<close>)
  next
    case False
    with j(2) have "j = k" "st = Deleted None" by (auto simp: h' dest!: set_update_subset_insert[THEN subsetD])
    with ds j(3,4) show ?thesis by (cases d) (auto simp: RemoveAll_def h')
  qed
qed

lemma files_ok_start:
  assumes ok: "files_ok h" and step: "perform_action r (StartJob evaluation benchmarks a) h = Some h'"
    and time: "in_time (StartJob evaluation benchmarks a) h"
    and ids: "\<forall>q\<in>set (ho_routines h). plain_ids q"
    and j: "plain j" "(j, Deleted None) \<in> set (ho_deletes h')" "prefix (job_root j) p" "ho_files h' p \<noteq> None"
  shows "leftover j h'"
proof -
  let ?k = "r_ID (ej_Resource evaluation)"
  obtain y g where g: "RunEvaluationJob_local r a evaluation benchmarks h = (y, g)" by force
  with step have new: "new_job ?k h" and h': "h' = g" by (auto split: if_splits)
  note e = start_effect[OF g]
  from new time j(2) e have "j \<noteq> ?k" "plain ?k" by (auto simp: new_job_def h' list_ex_iff)
  with j(1,3) have "\<not> prefix p (job_root ?k) \<and> \<not> prefix (job_root ?k) p"
    by (auto simp: job_root_plain prefix_def append_eq_append_conv2 Cons_eq_append_conv)
  with start_files[OF g, of p] j(4) have "ho_files h p \<noteq> None" by (auto simp: h')
  with ok ids j e have "leftover j h" by (auto simp: files_ok_def h')
  then show ?thesis by (rule leftover_mono) (use e in \<open>auto simp: h'\<close>)
qed

text \<open>Goroutines are never forgotten, and keep their job and benchmark.\<close>

lemma routines_kept:
  assumes "perform_action r x h = Some h'" "q \<in> set (ho_routines h)"
  shows "\<exists>q'\<in>set (ho_routines h'). routine_job q' = routine_job q \<and> br_bench q' = br_bench q \<and> br_index q' = br_index q"
proof (cases x)
  case (StartJob evaluation benchmarks a)
  obtain y g where "RunEvaluationJob_local r a evaluation benchmarks h = (y, g)" by force
  with start_effect[OF this] StartJob assms show ?thesis by (auto split: if_splits)
next
  case (StepRoutine i a)
  with assms(1) obtain q0 st g where i: "i < length (ho_routines h)" "q0 = ho_routines h ! i"
    and h': "h' = g\<lparr>ho_routines := (ho_routines h)[i := q0\<lparr>br_stage := st\<rparr>]\<rparr>" by (metis perform_StepRoutine)
  then have me: "q0\<lparr>br_stage := st\<rparr> \<in> set (ho_routines h')" by (simp add: set_update_memI)
  from update_member[OF assms(2) i(1)] have "q = q0 \<or> q \<in> set (ho_routines h')" by (simp add: h' i)
  then show ?thesis
  proof
    assume "q = q0"
    then show ?thesis by (intro bexI[OF _ me]) simp
  qed blast
next
  case (StepDelete i a)
  with assms(1) obtain j d st g where "delete_step a j d h = Some (st, g)" "h' = g\<lparr>ho_deletes := (ho_deletes h)[i := (j, st)]\<rparr>"
    by (metis perform_StepDelete)
  then have "ho_routines h' = ho_routines h" by (cases d) (auto simp: cancelJob_effect RemoveAll_def)
  with assms(2) show ?thesis by auto
qed (use assms in auto)

lemma files_ok_step: "files_ok h \<Longrightarrow> orderly_step r h h' \<Longrightarrow> files_ok h'"
  unfolding orderly_step_def
proof (elim exE conjE)
  fix x assume ok: "files_ok h" and time: "in_time x h" and x: "perform_action r x h = Some h'"
  show "files_ok h'"
    unfolding files_ok_def
  proof (intro conjI impI allI)
    show "deletes_ok h'" using ok deletes_ok_step[OF _ x] by (simp add: files_ok_def)
  next
    fix j p assume ids': "\<forall>q\<in>set (ho_routines h'). plain_ids q"
      and j: "plain j" "(j, Deleted None) \<in> set (ho_deletes h')" "prefix (job_root j) p" "ho_files h' p \<noteq> None"
    have ids: "\<forall>q\<in>set (ho_routines h). plain_ids q"
      using ids' routines_kept[OF x] by (fastforce simp: plain_ids_def)
    show "leftover j h'"
    proof (cases x)
      case (DeleteJobCalled k)
      with x ok ids j have "leftover j h" "h' = h\<lparr>ho_deletes := ho_deletes h @ [(k, Cancelling)]\<rparr>" by (auto simp: files_ok_def)
      then show ?thesis by (simp add: leftover_def)
    next
      case (ProcessExits pid)
      with x ok ids j have "leftover j h" "h' = h\<lparr>ho_running := removeAll pid (ho_running h)\<rparr>" by (auto simp: files_ok_def)
      then show ?thesis by (simp add: leftover_def)
    next
      case (StartJob evaluation benchmarks a)
      from files_ok_start[OF ok x[unfolded StartJob] time[unfolded StartJob] ids j] show ?thesis .
    next
      case (StepRoutine i a)
      from files_ok_routine[OF ok x[unfolded StepRoutine] ids j] show ?thesis .
    next
      case (StepDelete i a)
      from files_ok_delete[OF ok x[unfolded StepDelete] ids j] show ?thesis .
    qed
  qed
qed

interpretation files: transition_system "orderly_step r" files_ok for r
  by unfold_locales (rule files_ok_step)

section \<open>Reports\<close>

definition routine_key :: "routine \<Rightarrow> string \<times> int" where
  "routine_key q = (routine_job q, br_index q)"

fun report_of :: "string \<times> int \<Rightarrow> host_event \<Rightarrow> BenchmarkStatusEvent list" where
  "report_of k (Reported j ev e) = (if k = (j, be_BenchmarkIndex ev) then [ev] else [])"
| "report_of k _ = []"

definition reports_of :: "string \<times> int \<Rightarrow> host_event list \<Rightarrow> BenchmarkStatusEvent list" where
  "reports_of k l = concat (map (report_of k) l)"

text \<open>What the store has been told about the benchmark of a goroutine.\<close>

definition expected_reports :: "local_runtime \<Rightarrow> routine \<Rightarrow> BenchmarkStatusEvent list" where
  "expected_reports r q =
     (case br_stage q of
        Ended (Some err) \<Rightarrow> if lc_storage r then [failure_event (br_bench q) (br_index q) err] else []
      | _ \<Rightarrow> [])"

definition reports_ok :: "local_runtime \<Rightarrow> host \<Rightarrow> bool" where
  "reports_ok r h \<longleftrightarrow>
     distinct (map routine_key (ho_routines h)) \<and>
     (\<forall>q\<in>set (ho_routines h). reports_of (routine_key q) (ho_log h) = expected_reports r q) \<and>
     (\<forall>k. k \<notin> routine_key ` set (ho_routines h) \<longrightarrow> reports_of k (ho_log h) = [])"

lemma routine_key_stage [simp]: "routine_key (q\<lparr>br_stage := st\<rparr>) = routine_key q"
  by (simp add: routine_key_def)

lemma reports_of_append [simp]: "reports_of k (xs @ ys) = reports_of k xs @ reports_of k ys"
  by (simp add: reports_of_def)

lemma reports_of_Killed [simp]: "reports_of k (map Killed pids) = []"
  by (induction pids) (auto simp: reports_of_def)

lemma cancelJob_log: "ho_log (cancelJob j h) = ho_log h @ map Killed (tracked j h)"
  by (auto simp: cancelJob_def kill_all tracked_def Let_def split: option.splits)

lemma next_stage_reports:
  assumes "next_stage r a q st h = Some (st', h')"
  shows "reports_of k (ho_log h') =
    reports_of k (ho_log h) @ (if k = routine_key q then expected_reports r (q\<lparr>br_stage := st'\<rparr>) else []) \<and> (\<forall>e. st \<noteq> Ended e)"
  using assms
  by (cases st)
     (auto simp: addPID_def killProcessGroup_def write_spec_def launch_def failBenchmark_def RemoveAll_def Let_def reports_of_def
           expected_reports_def routine_key_def failure_event_def split: sum.splits option.splits if_splits prod.splits)

lemma spawn_distinct: "distinct (map routine_key (spawn evaluation url i benches))"
  by (induction benches arbitrary: i) (force simp: routine_key_def dest: spawn_routines)+

lemma reports_ok_start:
  assumes ok: "reports_ok r h" and step: "perform_action r (StartJob evaluation benchmarks a) h = Some h'"
  shows "reports_ok r h'"
proof -
  let ?j = "r_ID (ej_Resource evaluation)"
  obtain y g where g: "RunEvaluationJob_local r a evaluation benchmarks h = (y, g)" by force
  with step have new: "new_job ?j h" and h': "h' = g" by (auto split: if_splits)
  have old: "(?j, n) \<notin> routine_key ` set (ho_routines h)" for n
    using new by (auto simp: new_job_def list_ex_iff routine_key_def)
  from start_effect[OF g] consider (same) "ho_routines h' = ho_routines h"
    | (more) url where "ho_routines h' = ho_routines h @ spawn evaluation url 0 benchmarks" by (auto simp: h')
  then show ?thesis
  proof cases
    case same
    with ok start_effect[OF g] show ?thesis by (simp add: reports_ok_def h')
  next
    case more
    let ?new = "spawn evaluation url 0 benchmarks"
    have fresh: "routine_key q = (?j, br_index q)" "expected_reports r q = []" if "q \<in> set ?new" for q
      using spawn_routines[OF that] by (simp_all add: routine_key_def expected_reports_def)
    show ?thesis unfolding reports_ok_def
    proof (intro conjI ballI allI impI)
      show "distinct (map routine_key (ho_routines h'))"
        using ok old more fresh spawn_distinct[of evaluation url 0 benchmarks] by (auto simp: reports_ok_def)
    next
      fix q assume "q \<in> set (ho_routines h')"
      with more have "q \<in> set (ho_routines h) \<or> q \<in> set ?new" by auto
      then show "reports_of (routine_key q) (ho_log h') = expected_reports r q"
        using ok old start_effect[OF g] fresh by (auto simp: reports_ok_def h')
    next
      fix k assume "k \<notin> routine_key ` set (ho_routines h')"
      with more have "k \<notin> routine_key ` set (ho_routines h)" by auto
      with ok show "reports_of k (ho_log h') = []" using start_effect[OF g] by (cases k) (simp add: reports_ok_def h')
    qed
  qed
qed

lemma reports_ok_routine:
  assumes ok: "reports_ok r h" and step: "perform_action r (StepRoutine i a) h = Some h'"
  shows "reports_ok r h'"
  using step
proof (rule perform_StepRoutine)
  fix q st g
  assume i: "i < length (ho_routines h)" and q: "q = ho_routines h ! i"
    and ns: "next_stage r a q (br_stage q) h = Some (st, g)" and h': "h' = g\<lparr>ho_routines := (ho_routines h)[i := q\<lparr>br_stage := st\<rparr>]\<rparr>"
  note n = next_stage_reports[OF ns]
  have keys: "map routine_key (ho_routines h') = map routine_key (ho_routines h)"
    using i q by (simp add: h' map_update list_update_same_conv)
  have none: "expected_reports r q = []" using n by (auto simp: expected_reports_def split: stage.splits)
  show ?thesis unfolding reports_ok_def keys
  proof (intro conjI ballI)
    show "distinct (map routine_key (ho_routines h))" using ok by (simp add: reports_ok_def)
    show "\<forall>k. k \<notin> routine_key ` set (ho_routines h') \<longrightarrow> reports_of k (ho_log h') = []"
      using ok n i q arg_cong[OF keys, of set] by (auto simp: reports_ok_def h')
  next
    fix q' assume "q' \<in> set (ho_routines h')"
    then obtain m where m: "m < length (ho_routines h)" "q' = (ho_routines h)[i := q\<lparr>br_stage := st\<rparr>] ! m"
      by (auto simp: h' in_set_conv_nth)
    show "reports_of (routine_key q') (ho_log h') = expected_reports r q'"
    proof (cases "m = i")
      case True
      with m i q n none ok show ?thesis by (simp add: reports_ok_def h')
    next
      case False
      with m have q': "q' = ho_routines h ! m" and mem: "q' \<in> set (ho_routines h)" by auto
      have "routine_key q' \<noteq> routine_key q"
        using ok False m i q q' by (auto simp: reports_ok_def distinct_conv_nth)
      with n ok mem show ?thesis by (simp add: reports_ok_def h')
    qed
  qed
qed

lemma reports_ok_step: "reports_ok r h \<Longrightarrow> host_step r h h' \<Longrightarrow> reports_ok r h'"
  unfolding host_step_def
proof (elim exE)
  fix x assume ok: "reports_ok r h" and x: "perform_action r x h = Some h'"
  show "reports_ok r h'"
  proof (cases x)
    case (StepDelete i a)
    with x obtain j d st g where "delete_step a j d h = Some (st, g)" "h' = g\<lparr>ho_deletes := (ho_deletes h)[i := (j, st)]\<rparr>"
      by (metis perform_StepDelete)
    with ok show ?thesis
      by (cases d) (auto simp: reports_ok_def cancelJob_effect cancelJob_log RemoveAll_def, auto simp: reports_of_def)
  next
    case (StartJob evaluation benchmarks a)
    from reports_ok_start[OF ok x[unfolded StartJob]] show ?thesis .
  next
    case (StepRoutine i a)
    from reports_ok_routine[OF ok x[unfolded StepRoutine]] show ?thesis .
  qed (use ok x in \<open>auto simp: reports_ok_def\<close>)
qed

interpretation reporting: transition_system "host_step r" "reports_ok r" for r
  by unfold_locales (rule reports_ok_step)

section \<open>Progress\<close>

text \<open>A goroutine takes at most eleven steps, and is held up by a running process only.\<close>

fun stage_rank :: "stage \<Rightarrow> nat" where
  "stage_rank Resolving = 11"
| "stage_rank (Checking _) = 10"
| "stage_rank (Building _) = 9"
| "stage_rank (Writing _ _) = 8"
| "stage_rank (Opening _) = 7"
| "stage_rank (Launching _) = 6"
| "stage_rank (Registering _) = 5"
| "stage_rank (Waiting _) = 4"
| "stage_rank Finishing = 3"
| "stage_rank Removing = 2"
| "stage_rank (Failing _) = 1"
| "stage_rank (Ended _) = 0"

lemma next_stage_rank:
  assumes "next_stage r a q st h = Some (st', h')" shows "stage_rank st' < stage_rank st"
  using assms by (cases st) (auto simp: write_spec_def launch_def Let_def split: sum.splits option.splits if_splits prod.splits)

lemma next_stage_blocked:
  "next_stage r a q st h = None \<longleftrightarrow> (\<exists>e. st = Ended e) \<or> (\<exists>p. st = Waiting p \<and> p \<in> set (ho_running h))"
  by (cases st) (auto split: prod.splits)

section \<open>The environment of an adapter\<close>

definition env_entries :: "string \<Rightarrow> string list \<Rightarrow> string list" where
  "env_entries n env = filter (\<lambda>item. HasPrefix item (n @ ''='')) env"

lemma before_first: "us @ c # xs = vs @ c # ys \<Longrightarrow> c \<notin> set us \<Longrightarrow> c \<notin> set vs \<Longrightarrow> us = vs"
proof (induction us arbitrary: vs)
  case Nil
  then show ?case by (cases vs) auto
next
  case (Cons u us)
  then show ?case by (cases vs) auto
qed

lemma same_variable:
  assumes "HasPrefix item (n @ ''='')" "HasPrefix item (m @ ''='')" "CHR ''='' \<notin> set n" "CHR ''='' \<notin> set m"
  shows "n = m"
  using assms before_first[of n "CHR ''=''" _ m] by (fastforce simp: HasPrefix_def prefix_def)

lemma env_entries_replace:
  assumes "CHR ''='' \<notin> set n" "CHR ''='' \<notin> set m"
  shows "env_entries n (replaceEnvironmentVariable False m v env) = (if n = m then [m @ ''='' @ v] else env_entries n env)"
proof -
  have match: "environmentVariableEntryMatches False item p = HasPrefix item p" for item p
    by (auto simp: environmentVariableEntryMatches_def HasPrefix_def dest: prefix_length_le)
  have self: "HasPrefix (m @ ''='' @ v) (m @ ''='')" by (simp add: HasPrefix_def)
  show ?thesis
  proof (cases "n = m")
    case True
    with self show ?thesis by (simp add: env_entries_def replaceEnvironmentVariable_def match filter_empty_conv)
  next
    case False
    with same_variable[OF _ _ assms] self
    have "\<not> HasPrefix (m @ ''='' @ v) (n @ ''='')" "\<And>item. HasPrefix item (n @ ''='') \<Longrightarrow> \<not> HasPrefix item (m @ ''='')" by blast+
    with False show ?thesis by (auto simp: env_entries_def replaceEnvironmentVariable_def match intro: filter_cong)
  qed
qed

lemma env_entries_fold:
  assumes "CHR ''='' \<notin> set n" "\<forall>s\<in>set settings. CHR ''='' \<notin> set (fst s)"
  shows "env_entries n (fold (\<lambda>(m, v). replaceEnvironmentVariable False m v) settings env) =
    (case map_of (rev settings) n of None \<Rightarrow> env_entries n env | Some v \<Rightarrow> [n @ ''='' @ v])"
  using assms(2)
proof (induction settings rule: rev_induct)
  case (snoc s settings)
  then show ?case by (cases s) (auto simp: env_entries_replace assms(1))
qed simp

end
