(* ===== verification/Local_Properties.thy ===== *)
theory Local_Properties
  imports Local_Races Store_Samples
begin

text \<open>
  What the local runtime guarantees, whatever the interleaving of its goroutines with deletions and with
  the end of processes: no process of a deleted job survives, a deleted job leaves no files, a benchmark
  that cannot be run is reported once, goroutines end, and adapters get a layered environment.
\<close>

section \<open>Counting steps\<close>

fun of_routine :: "nat \<Rightarrow> host_action \<Rightarrow> bool" where
  "of_routine i (StepRoutine k a) \<longleftrightarrow> k = i"
| "of_routine i _ \<longleftrightarrow> False"

definition rank_at :: "nat \<Rightarrow> host \<Rightarrow> nat" where
  "rank_at i h = (if i < length (ho_routines h) then stage_rank (br_stage (ho_routines h ! i)) else 11)"

lemma rank_le: "stage_rank st \<le> 11"
  by (cases st) auto

lemma delete_routines: "delete_step a j d h = Some (st, g) \<Longrightarrow> ho_routines g = ho_routines h"
  by (cases d) (auto simp: cancelJob_effect RemoveAll_def)

lemma rank_at_step:
  assumes "perform_action r x h = Some h'"
  shows "(if of_routine i x then 1 else 0) + rank_at i h' \<le> rank_at i h"
proof (cases x)
  case (StartJob evaluation benchmarks a)
  obtain y g where g: "RunEvaluationJob_local r a evaluation benchmarks h = (y, g)" by force
  with assms StartJob have "h' = g" by (auto split: if_splits)
  with start_effect[OF g] StartJob rank_le show ?thesis by (auto simp: rank_at_def nth_append)
next
  case (StepRoutine k a)
  with assms obtain q st g where "k < length (ho_routines h)" "q = ho_routines h ! k"
    and ns: "next_stage r a q (br_stage q) h = Some (st, g)" and "h' = g\<lparr>ho_routines := (ho_routines h)[k := q\<lparr>br_stage := st\<rparr>]\<rparr>"
    by (metis perform_StepRoutine)
  with next_stage_rank[OF ns] StepRoutine show ?thesis by (auto simp: rank_at_def nth_list_update)
next
  case (StepDelete k a)
  with assms obtain j d st g where "delete_step a j d h = Some (st, g)" "h' = g\<lparr>ho_deletes := (ho_deletes h)[k := (j, st)]\<rparr>"
    by (metis perform_StepDelete)
  with delete_routines StepDelete show ?thesis by (auto simp: rank_at_def)
qed (use assms in \<open>auto simp: rank_at_def\<close>)

lemma steps_bounded:
  "perform_all r acts h = Some h' \<Longrightarrow> length (filter (of_routine i) acts) + rank_at i h' \<le> rank_at i h"
proof (induction acts arbitrary: h)
  case (Cons x acts)
  then obtain g where g: "perform_action r x h = Some g" "perform_all r acts g = Some h'" by (auto simp: bind_eq_Some_conv)
  with Cons.IH rank_at_step[OF g(1), of i] show ?case by (fastforce split: if_splits)
qed simp

lemma perform_all_append: "perform_all r (xs @ ys) h = Option.bind (perform_all r xs h) (perform_all r ys)"
proof (induction xs arbitrary: h)
  case (Cons x xs)
  then show ?case by (cases "perform_action r x h") auto
qed simp


lemma idle_invariants:
  "processes_ok (idle_host fs)" "owned_processes (idle_host fs)" "deletes_ok (idle_host fs)" "files_ok (idle_host fs)"
  "reports_ok r (idle_host fs)"
  by (simp_all add: processes_ok_def owned_processes_def files_ok_def deletes_ok_def reports_ok_def reports_of_def idle_host_def)

section \<open>A deletion that meets a launch\<close>

text \<open>
  One benchmark; the deletion cancels the job between the start of the process and its registration, and
  clears the directory while the process is being waited for.
\<close>

definition adapter_provider :: ProviderResource where
  "adapter_provider =
     \<lparr>pr_Resource = sample_resource ''p'' ''t1'' ''u1'',
      pr_Config = \<lparr>pv_Name = ''p'', pv_Description = '''', pv_Title = '''', pv_Tags = [], pv_Benchmarks = [],
        pv_Runtime = Some \<lparr>rt_K8s = None, rt_Local = Some \<lparr>lr_Command = ''adapter'', lr_Env = []\<rparr>\<rparr>, pv_Agent = None\<rparr>\<rparr>"

definition sample_local :: local_runtime where
  "sample_local =
     \<lparr>lc_ctx = True, lc_storage = True, lc_callbackURL = None, lc_mlflowTrackingURI = '''', lc_otelEndpoint = '''', lc_sidecarBaseURL = '''',
      lc_sidecarModelDefaults = None, lc_url = \<lparr>up_Parse = (\<lambda>s. Inl s), up_String = u_Host, up_Hostname = u_Host, up_Port = u_Host\<rparr>,
      lc_ParseSecretRef = Inl, lc_registry = [], lc_wild_int = (\<lambda>x. 0), lc_MarshalJobSpec = (\<lambda>s. Inr ''{}''),
      lc_MarshalJobInfo = (\<lambda>s. Inr ''{}''), lc_environ = [''HOME=/'', ''EVALHUB_MODE=k8s''], lc_windows = False\<rparr>"

definition calm :: "(string \<Rightarrow> go_error + ProviderResource) \<Rightarrow> int \<Rightarrow> answers" where
  "calm get pid =
     \<lparr>aw_provider = get, aw_error = None, aw_write_error = None, aw_partial = None, aw_left = (\<lambda>p. False), aw_pid = pid,
      aw_report = None\<rparr>"

definition step0 :: host_action where
  "step0 = StepRoutine 0 (calm (\<lambda>i. Inr adapter_provider) 7)"

definition start1 :: host_action where
  "start1 = StartJob (direct_job OverallStateRunning) [sample_eb ''p'' ''b'' []] (calm (\<lambda>i. Inr adapter_provider) 7)"

definition clear :: host_action where
  "clear = StepDelete 0 (calm (\<lambda>i. Inr adapter_provider) 7)"

definition step1 :: host_action where
  "step1 = StepRoutine 0 (calm (\<lambda>i. Inr adapter_provider) 8)"

definition launching :: "host_action list" where
  "launching = [start1, step0, step0, step0, step0, step0, step0]"

definition raced :: "host_action list" where
  "raced = launching @ [DeleteJobCalled ''j1'', clear]"

definition clearing :: "host_action list" where
  "clearing = [step1, clear, step1, step1, step1]"

definition sample_routine :: "stage \<Rightarrow> routine" where
  "sample_routine st =
     \<lparr>br_evaluation = direct_job OverallStateRunning, br_bench = sample_eb ''p'' ''b'' [], br_index = 0, br_callbackURL = None, br_stage = st\<rparr>"

lemma sample_fields [simp]:
  "routine_job (sample_routine st) = ''j1''" "br_stage (sample_routine st) = st" "br_index (sample_routine st) = 0"
  "br_bench (sample_routine st) = sample_eb ''p'' ''b'' []" "br_evaluation (sample_routine st) = direct_job OverallStateRunning"
  "(sample_routine st)\<lparr>br_stage := st'\<rparr> = sample_routine st'"
  by (simp_all add: sample_routine_def routine_job_def direct_job_def sample_defs)

lemma Itoa_0: "Itoa 0 = ''0''"
  by code_simp

lemma sample_dirs [simp]:
  "job_root ''j1'' = [''tmp'', ''evalhub-jobs'', ''j1'']"
  "routine_dir (sample_routine st) = [''tmp'', ''evalhub-jobs'', ''j1'', ''0'', ''p'', ''b'']"
  by (simp_all add: job_root_plain routine_dir_plain plain_def plain_ids_def localJobsBaseDir_def sample_eb_def Itoa_0)

lemma sample_resolved:
  "next_stage sample_local (calm (\<lambda>i. Inr adapter_provider) 7) (sample_routine Resolving) Resolving h = Some (Checking adapter_provider, h)"
  by (simp add: ProviderForBenchmark_def WorkloadType_def ForJob_def IsInternalProviderID_def sample_local_def calm_def
      local_command_def adapter_provider_def)

lemma sample_spec: "\<exists>spec. local_spec sample_local (sample_routine st) adapter_provider = Inr spec"
  by (simp add: local_spec_def BuildJobSpec_def sample_local_def sidecarEnabled_def Let_def split: option.splits)

text \<open>A host with the one goroutine of the sample.\<close>

definition sample_host :: "int list gomap \<Rightarrow> bool gomap \<Rightarrow> files \<Rightarrow> int list \<Rightarrow> stage \<Rightarrow> (string \<times> delete_stage) list \<Rightarrow> host_event list \<Rightarrow> host" where
  "sample_host pids cancelled fs running st deletes l =
     \<lparr>ho_pids = pids, ho_cancelled = cancelled, ho_files = fs, ho_running = running, ho_routines = [sample_routine st],
      ho_deletes = deletes, ho_log = l\<rparr>"

lemma sample_step:
  assumes "next_stage sample_local (calm (\<lambda>i. Inr adapter_provider) 7) (sample_routine st) st (sample_host pids c fs running st ds l) =
      Some (st', sample_host pids' c' fs' running' st ds' l')"
    and "7 \<notin> set running" "held_pid st \<noteq> Some 7"
  shows "perform_action sample_local step0 (sample_host pids c fs running st ds l) = Some (sample_host pids' c' fs' running' st' ds' l')"
  using assms by (simp add: step0_def calm_def fresh_pid_def sample_host_def)

lemma sample_started:
  "perform_action sample_local start1 (idle_host fs) = Some (sample_host [(''j1'', [])] [] fs [] Resolving [] [])"
  by (simp add: start1_def new_job_def plain_def idle_host_def RunEvaluationJob_local_def sample_local_def prepare_sidecar_def
      sidecarEnabled_def registerJob_def gomap_put_def sample_host_def sample_routine_def direct_job_def sample_defs)

lemma sample_launched:
  "\<exists>fs l. perform_all sample_local launching (idle_host (\<lambda>p. None)) =
     Some (sample_host [(''j1'', [])] [] fs [7] (Registering 7) [] l) \<and> (\<forall>p e. Removed p e \<notin> set l)"
proof -
  let ?h = "\<lambda>fs running st l. sample_host [(''j1'', [])] [] fs running st [] l"
  let ?meta = "[''tmp'', ''evalhub-jobs'', ''j1'', ''0'', ''p'', ''b'', ''meta'']"
  obtain spec where spec: "local_spec sample_local (sample_routine (Building adapter_provider)) adapter_provider = Inr spec"
    using sample_spec by blast
  define fs1 where "fs1 = (\<lambda>q. if prefix q ?meta then Some Directory else None)"
  define fs2 where "fs2 = fs1(?meta @ [''job.json''] \<mapsto> File ''{}'')"
  define fs3 where "fs3 = fs2([''tmp'', ''evalhub-jobs'', ''j1'', ''0'', ''p'', ''b'', ''jobrun.log''] \<mapsto> File [])"
  have 1: "perform_action sample_local step0 (?h fs [] Resolving []) = Some (?h fs [] (Checking adapter_provider) [])" for fs
    by (rule sample_step) (simp_all add: sample_resolved del: next_stage.simps)
  have 2: "perform_action sample_local step0 (?h fs [] (Checking adapter_provider) []) = Some (?h fs [] (Building adapter_provider) [])" for fs
    by (rule sample_step) (simp_all add: isCancelled_def sample_host_def)
  have 3: "perform_action sample_local step0 (?h (\<lambda>p. None) [] (Building adapter_provider) []) = Some (?h fs1 [] (Writing adapter_provider spec) [])"
    by (rule sample_step) (simp_all add: spec MkdirAll_def fs1_def sample_host_def calm_def is_file_def list_ex_iff)
  have 4: "perform_action sample_local step0 (?h fs1 [] (Writing adapter_provider spec) []) = Some (?h fs2 [] (Opening adapter_provider) [])"
    by (rule sample_step) (simp_all add: write_spec_def WriteFile_def fs1_def fs2_def sample_host_def calm_def is_file_def sample_local_def)
  have 5: "perform_action sample_local step0 (?h fs2 [] (Opening adapter_provider) []) = Some (?h fs3 [] (Launching adapter_provider) [])"
    by (rule sample_step) (simp_all add: WriteFile_def fs1_def fs2_def fs3_def sample_host_def calm_def is_file_def)
  have 6: "\<exists>l. perform_action sample_local step0 (?h fs3 [] (Launching adapter_provider) []) = Some (?h fs3 [7] (Registering 7) l) \<and>
      (\<forall>p e. Removed p e \<notin> set l)"
    by (simp add: step0_def fresh_pid_def sample_host_def launch_def calm_def Let_def)
  then obtain l where "perform_action sample_local step0 (?h fs3 [] (Launching adapter_provider) []) = Some (?h fs3 [7] (Registering 7) l)"
      "\<forall>p e. Removed p e \<notin> set l" by blast
  with 1 2 3 4 5 show ?thesis by (intro exI[of _ fs3] exI[of _ l]) (simp add: launching_def sample_started)
qed

lemma sample_raced:
  "\<exists>fs l. perform_all sample_local raced (idle_host (\<lambda>p. None)) =
     Some (sample_host [] [(''j1'', True)] fs [7] (Registering 7) [(''j1'', Clearing)] l) \<and> (\<forall>p e. Removed p e \<notin> set l)"
proof -
  from sample_launched obtain fs l where "perform_all sample_local launching (idle_host (\<lambda>p. None)) =
     Some (sample_host [(''j1'', [])] [] fs [7] (Registering 7) [] l)" "\<forall>p e. Removed p e \<notin> set l" by blast
  then show ?thesis
    by (intro exI[of _ fs] exI[of _ l])
       (simp add: raced_def clear_def perform_all_append sample_host_def cancelJob_def gomap_get_def gomap_delete_def gomap_put_def Let_def)
qed

lemma sample_cleared:
  "\<exists>fs l. perform_all sample_local (raced @ clearing) (idle_host (\<lambda>p. None)) =
     Some (sample_host [] [(''j1'', True)] fs [] (Ended None) [(''j1'', Deleted None)] l) \<and> (\<forall>p e. Removed p (Some e) \<notin> set l)"
proof -
  from sample_raced obtain fs l where "perform_all sample_local raced (idle_host (\<lambda>p. None)) =
     Some (sample_host [] [(''j1'', True)] fs [7] (Registering 7) [(''j1'', Clearing)] l)" "\<forall>p e. Removed p e \<notin> set l" by blast
  then show ?thesis
    by (simp add: clearing_def perform_all_append step1_def clear_def sample_host_def calm_def fresh_pid_def addPID_def isCancelled_def
        gomap_get_def killProcessGroup_def RemoveAll_def)
qed

section \<open>Properties\<close>

text \<open>
  C28: Cancelling is safe against every interleaving: each process that runs is held by the goroutine that
  started it; once a deletion has cancelled a job, no goroutine of the job waits for a process that runs,
  and a goroutine that has just started one kills it in its next step, whatever else happens before.
\<close>

theorem cancelled_jobs_lose_their_processes:
  assumes run: "perform_all r acts (idle_host fs) = Some h"
  shows "(\<forall>p. p \<in> set (ho_running h) \<longrightarrow> (\<exists>q\<in>set (ho_routines h). held_pid (br_stage q) = Some p)) \<and>
    (\<forall>j d q. (j, d) \<in> set (ho_deletes h) \<and> d \<noteq> Cancelling \<and> q \<in> set (ho_routines h) \<and> routine_job q = j \<longrightarrow>
      (case br_stage q of
         Waiting p \<Rightarrow> p \<notin> set (ho_running h)
       | Registering p \<Rightarrow> (\<forall>a. \<exists>h'. next_stage r a q (br_stage q) h = Some (Waiting p, h') \<and> p \<notin> set (ho_running h'))
       | _ \<Rightarrow> True))"
proof -
  note steps = perform_all_steps[OF run]
  have "processes_ok h" "owned_processes h" "deletes_ok h"
    using processes.inv_steps[OF steps] owners.inv_steps[OF steps] deletions.inv_steps[OF steps] idle_invariants by blast+
  then show ?thesis
    by (fastforce simp: processes_ok_def owned_processes_def deletes_ok_def addPID_def killProcessGroup_def split: stage.split)
qed

theorem cancelled_jobs_lose_their_processes_witness:
  "\<exists>h. perform_all sample_local raced (idle_host (\<lambda>p. None)) = Some h \<and> ho_running h = [7] \<and> (''j1'', Clearing) \<in> set (ho_deletes h) \<and>
     sample_routine (Registering 7) \<in> set (ho_routines h) \<and>
     (\<forall>a. \<exists>h'. next_stage sample_local a (sample_routine (Registering 7)) (Registering 7) h = Some (Waiting 7, h') \<and> 7 \<notin> set (ho_running h'))"
proof -
  from sample_raced obtain fs l where run: "perform_all sample_local raced (idle_host (\<lambda>p. None)) =
     Some (sample_host [] [(''j1'', True)] fs [7] (Registering 7) [(''j1'', Clearing)] l)" by blast
  let ?h = "sample_host [] [(''j1'', True)] fs [7] (Registering 7) [(''j1'', Clearing)] l"
  have h: "ho_running ?h = [7]" "ho_deletes ?h = [(''j1'', Clearing)]" "ho_routines ?h = [sample_routine (Registering 7)]"
    by (simp_all add: sample_host_def)
  have "\<forall>a. \<exists>h'. next_stage sample_local a (sample_routine (Registering 7)) (br_stage (sample_routine (Registering 7))) ?h =
      Some (Waiting 7, h') \<and> 7 \<notin> set (ho_running h')"
    using conjunct2[OF cancelled_jobs_lose_their_processes[OF run], rule_format, of "''j1''" Clearing "sample_routine (Registering 7)"] h by simp
  with run h show ?thesis by (intro exI[of _ ?h]) (simp del: next_stage.simps)
qed



text \<open>
  C30: Whatever the interleaving, the store is told that a benchmark has failed exactly when its goroutine
  has ended in an error, exactly once, and with the text of that error; a goroutine that has launched
  its process, or that finds its job cancelled, reports nothing.
\<close>

theorem local_failures_are_reported_once:
  assumes run: "perform_all r acts (idle_host fs) = Some h" and q: "q \<in> set (ho_routines h)"
  shows "reports_of (routine_job q, br_index q) (ho_log h) =
    (case br_stage q of
       Ended (Some err) \<Rightarrow> if lc_storage r then [failure_event (br_bench q) (br_index q) err] else []
     | _ \<Rightarrow> [])"
proof -
  have "reports_ok r h" using reporting.inv_steps[OF perform_all_steps[OF run]] idle_invariants by blast
  with q show ?thesis by (auto simp: reports_ok_def routine_key_def expected_reports_def)
qed

definition lost_provider :: host_action where
  "lost_provider = StepRoutine 0 (calm (\<lambda>i. Inl (PlainErr ''gone'')) 7)"

theorem local_failures_are_reported_once_witness:
  "\<exists>h. perform_all sample_local [start1, lost_provider, step0] (idle_host (\<lambda>p. None)) = Some h \<and>
     reports_of (''j1'', 0) (ho_log h) = [failure_event (sample_eb ''p'' ''b'' []) 0 ''gone'']"
proof -
  have 1: "perform_action sample_local lost_provider (sample_host pids c fs [] Resolving ds l) =
      Some (sample_host pids c fs [] (Failing ''gone'') ds l)" for pids c fs ds l
    by (simp add: lost_provider_def fresh_pid_def calm_def sample_host_def ProviderForBenchmark_def WorkloadType_def ForJob_def
        IsInternalProviderID_def sample_local_def)
  have "\<exists>l. perform_action sample_local step0 (sample_host [(''j1'', [])] [] (\<lambda>p. None) [] (Failing ''gone'') [] []) =
      Some (sample_host [(''j1'', [])] [] (\<lambda>p. None) [] (Ended (Some ''gone'')) [] l)"
    by (simp add: step0_def fresh_pid_def calm_def sample_host_def failBenchmark_def)
  then obtain l where 2: "perform_action sample_local step0 (sample_host [(''j1'', [])] [] (\<lambda>p. None) [] (Failing ''gone'') [] []) =
      Some (sample_host [(''j1'', [])] [] (\<lambda>p. None) [] (Ended (Some ''gone'')) [] l)" (is "_ = Some ?h") by blast
  from 1 2 have run: "perform_all sample_local [start1, lost_provider, step0] (idle_host (\<lambda>p. None)) = Some ?h"
    by (simp add: sample_started)
  have "reports_of (''j1'', 0) (ho_log ?h) = [failure_event (sample_eb ''p'' ''b'' []) 0 ''gone'']"
    using local_failures_are_reported_once[OF run, of "sample_routine (Ended (Some ''gone''))"] by (simp add: sample_host_def sample_local_def)
  with run show ?thesis by blast
qed

text \<open>
  A goroutine takes at most eleven steps in any schedule, and it is never stuck: it can take its next
  step unless it has ended or waits for a process that still runs.
\<close>

theorem local_goroutines_end:
  assumes "perform_all r acts (idle_host fs) = Some h"
  shows "length (filter (of_routine i) acts) \<le> 11 \<and>
    (i < length (ho_routines h) \<and> fresh_pid (aw_pid a) h \<and> perform_action r (StepRoutine i a) h = None \<longrightarrow>
      (\<exists>e. br_stage (ho_routines h ! i) = Ended e) \<or> (\<exists>p. br_stage (ho_routines h ! i) = Waiting p \<and> p \<in> set (ho_running h)))"
proof -
  have "rank_at i (idle_host fs) = 11" by (simp add: rank_at_def idle_host_def)
  with steps_bounded[OF assms, of i] show ?thesis
    by (auto simp: next_stage_blocked simp del: next_stage.simps split: option.splits)
qed

theorem local_goroutines_end_witness: "length (filter (of_routine 0) (raced @ clearing)) = 10 \<and> 10 \<le> (11::nat)"
proof -
  from sample_cleared obtain h where "perform_all sample_local (raced @ clearing) (idle_host (\<lambda>p. None)) = Some h" by blast
  from local_goroutines_end[OF this, of 0] show ?thesis
    by (simp add: raced_def launching_def clearing_def start1_def step0_def step1_def clear_def)
qed

text \<open>
  Off Windows the environment of an adapter is layered: a variable that the provider sets has one entry,
  with the last value the provider gives; otherwise one that the service sets has one entry, with the
  service's value; otherwise the entries of the service's own environment are inherited as they are.
\<close>

theorem adapter_environment_is_layered:
  assumes unix: "\<not> lc_windows r" and n: "CHR ''='' \<notin> set n" and vars: "\<And>v. v \<in> set vars \<Longrightarrow> CHR ''='' \<notin> set (ev_Name v)"
  shows "env_entries n (adapter_env r tenant specPath vars) =
    (case map_of (rev (provider_settings vars)) n of
       Some v \<Rightarrow> [n @ ''='' @ v]
     | None \<Rightarrow>
         (case map_of (rev (service_settings r tenant specPath)) n of
            Some v \<Rightarrow> [n @ ''='' @ v]
          | None \<Rightarrow> env_entries n (lc_environ r)))"
proof -
  have "\<forall>s\<in>set (service_settings r tenant specPath @ provider_settings vars). CHR ''='' \<notin> set (fst s)"
    using vars by (auto simp: service_settings_def provider_settings_def)
  with env_entries_fold[OF n this, of "lc_environ r"] unix show ?thesis
    by (simp add: adapter_env_def map_add_def split: option.splits)
qed

theorem adapter_environment_is_layered_witness:
  "env_entries ''EVALHUB_MODE'' (adapter_env sample_local ''t1'' ''/spec'' [\<lparr>ev_Name = ''HOME'', ev_Value = ''/w''\<rparr>]) = [''EVALHUB_MODE=local''] \<and>
   env_entries ''HOME'' (adapter_env sample_local ''t1'' ''/spec'' [\<lparr>ev_Name = ''HOME'', ev_Value = ''/w''\<rparr>]) = [''HOME=/w'']"
proof -
  note layered = adapter_environment_is_layered[of sample_local _ "[\<lparr>ev_Name = ''HOME'', ev_Value = ''/w''\<rparr>]" "''t1''" "''/spec''"]
  show ?thesis
    using layered[of "''EVALHUB_MODE''"] layered[of "''HOME''"]
    by (simp add: sample_local_def provider_settings_def service_settings_def)
qed

end
