(* ===== verification/Spec2Isabelle.thy ===== *)
theory Spec2Isabelle
  imports Merge_Properties Store_Properties Result_Properties Driver_Properties Catalog_Properties
    Postprocessing_Roundtrip Listing_Properties Service_Properties K8s_Properties Local_Properties
begin

text \<open>
  Verification of eval-hub, the evaluation service (src/, Go).

  \<^bold>\<open>The program.\<close> eval-hub accepts evaluation jobs, each a list of benchmarks or a reference to a
  collection of benchmarks with overrides, stores them with their tenant, starts them on a runtime
  (Kubernetes or local processes), and updates them from the status events the adapters send. The
  state of a job is derived from the statuses of its benchmarks; its score is a weighted average of
  the benchmark scores; its results may be exported to an OCI registry. Collections and providers are
  stored in the same database. Post-processing computations are stored as evaluation jobs with one
  internal benchmark.

  \<^bold>\<open>The theories and the code they model.\<close>
  \<^item> \<open>Prelude\<close>: Go maps as association lists, strings.HasPrefix and the like, lists that are updated
    by key (\<open>upsert\<close>).
  \<^item> \<open>Float32\<close>: Go's float32 as rounded rationals with infinities and NaN; the locale \<open>rounding\<close>
    holds what the score needs of a rounding function and is interpreted on the rounding to 24 bits.
  \<^item> \<open>Errors\<close>: internal/eval_hub/messages, internal/eval_hub/serviceerrors, and the recognition of
    serialization failures and the backoff of storage/sql/serialization_failure.go.
  \<^item> \<open>Api\<close>: the data model of pkg/api; one record per struct, one datatype per enumeration.
  \<^item> \<open>Benchmarks\<close>: the effective benchmarks of a job and the checks of a request
    (handlers/helpers.go, handlers/evaluations.go, validation/validator.go).
  \<^item> \<open>Workloads\<close>, \<open>Postprocessing\<close>: workloads/workloads.go, postprocessing/mapping.go,
    pkg/api/post_processing.go with the JSON form of the operations.
  \<^item> \<open>Database\<close>: the three tables as lists of rows, the WHERE clauses of both dialects
    (storage/sql/sqlite and postgres), and storage computations: a computation takes a connection (the
    tables and the number of driver calls made so far) and returns an error or a value, and the new
    connection. runTransaction, retryOnSerializationFailure and withTransaction are
    storage/sql/transaction.go and serialization_failure.go. The environment is an argument: it says at
    which driver call which error is returned and what the clock shows, so every theorem holds for
    every pattern of failures.
  \<^item> \<open>Storage_Catalog\<close>, \<open>Storage_Jobs\<close>, \<open>Scoring\<close>: storage/sql/collections.go, providers.go,
    evaluations_crud.go, evaluations_status.go, evaluations_results.go, evaluations_oci.go,
    post_processing.go and the reading part of list.go. An operation is \<open>withTransaction\<close> around a
    body; each body is a definition of its own.
  \<^item> \<open>Sql_Filters\<close>, \<open>Sql_Meaning\<close>, \<open>Listing\<close>: storage/sql/shared/helper.go, the list and count
    statements of both dialects as texts with their arguments, the meaning of such a statement on rows,
    and list.go. \<open>System_Resources\<close>: storage/sql/system_resources.go.
  \<^item> \<open>Requests\<close>: the reading of requests in handlers/helpers.go, the checks of patches and
    serialization/json.go; net/url and strconv as far as they are used. \<open>Service_Config\<close>: the sections
    of internal/eval_hub/config with their effective values and checks. \<open>Sidecar_Urls\<close>:
    pkg/api/sidecar_url_rewrite.go and its use in the handlers.
  \<^item> \<open>Effects\<close>, \<open>Job_Handlers\<close>, \<open>Catalog_Handlers\<close>: the handlers. A handler is a function on a world:
    the connection, the log of all calls to the outside in their order (runtime, MLflow, metrics,
    exports), and the identifiers drawn. The runtime is reached through abstractions.Runtime only; what
    a started job does with its handle on the store is a tree (\<open>run_script\<close>), so a theorem about all
    trees covers every runtime.
  \<^item> \<open>Server\<close>: server/server.go, server/execution_context.go and the handlers without state: routes,
    methods, identity headers, body limit, and the status of an answer.
  \<^item> \<open>Runtime_Shared\<close>: internal/eval_hub/runtimes/shared: job specifications, the provider of a benchmark,
    the rewriting of model URLs, the reading of log files (WriteSidecarJobInfo is in \<open>Local_Runtime\<close>).
  \<^item> \<open>K8s_Names\<close>, \<open>K8s_Objects\<close>, \<open>K8s_Config\<close>, \<open>K8s_Builders\<close>: the pure part of
    internal/eval_hub/runtimes/k8s: names and labels (job_names.go), the fields of the Kubernetes objects
    the code sets, hardware profiles (hardware_profile.go), the configuration of a job (job_config.go),
    and the builders of environment, resources, volumes, Job, ConfigMap, network policy, reference secret
    and sidecar configuration (job_env_resources.go, job_volumes.go, job_builders.go, network_policy.go,
    secret_builder.go, sidecar_config_json.go). \<open>K8s_Pods\<close> and \<open>K8s_Guarantees\<close> say what a well formed
    pod is and what a container of it can read.
  \<^item> \<open>K8s_Cluster\<close>, \<open>K8s_Runtime\<close>, \<open>K8s_Operations\<close>: k8s_helper.go, k8s_runtime.go,
    k8s_runtime_lifecycle.go and k8s_runtime_logs.go. An operation is a function on a history: the list
    of all calls to the cluster and the store with their answers, in order. The cluster and the store
    are arguments that answer each call from the history so far, so a theorem holds for every cluster,
    including one that other clients change in between. createBenchmarkResources is \<open>prepareExecution\<close>
    (up to the objects) followed by \<open>createExecution\<close> (the writes, with confirmation and rollback);
    the goroutine of RunEvaluationJob is \<open>run_in_background\<close>.
  \<^item> \<open>K8s_Monitors\<close>, \<open>K8s_Protocol\<close>, \<open>K8s_Executions\<close>, \<open>K8s_Loop\<close>, \<open>K8s_Laws\<close>: what histories of the
    runtime look like. A monitor reads a history event by event and refuses a forbidden one; a law says
    which event may follow which history.
  \<^item> \<open>Local_Runtime\<close>, \<open>Local_Races\<close>: internal/eval_hub/runtimes/local. Every benchmark has a goroutine of its
    own, so this is the concurrent part of the program. The host (\<open>host\<close>) holds the tracker of process
    identifiers, the files, the running processes, the goroutines and the deletions under way. A goroutine
    is a stage of runBenchmark (\<open>next_stage\<close>), a deletion a stage of DeleteEvaluationJobResources
    (\<open>delete_step\<close>); a step is one access to the shared state, with the answers of the operating system
    and of the store as its argument. A schedule (\<open>perform_all\<close>) interleaves starts, steps, deletions and
    processes that end, so a theorem about all schedules covers every interleaving.

  \<^bold>\<open>Interfaces.\<close> The locale \<open>transaction\<close> (theory \<open>Transactions\<close>) is the contract between an
  operation and withTransaction: a body that changes nothing when it fails with an error that commits,
  and keeps the invariant of the tables, gives an operation that is all or nothing, whatever the retries
  do; it is interpreted on the body of every operation of the job store. \<open>db_relation\<close>
  (\<open>Catalog_Invariants\<close>) is the weaker contract of the catalog, whose bodies may commit with an
  error. \<open>keyed_update\<close> and \<open>overwriting_update\<close> (\<open>Keyed_Lists\<close>) are the contract of the lists of
  statuses and results. \<open>transition_system\<close> (\<open>Job_Lifecycle\<close>) is the store as a step relation, with
  reachability and invariants by induction on the steps; it is interpreted on the job store and on the
  host of the local runtime (\<open>Local_Races\<close>), with invariants on processes, files and reports. \<open>round_trip\<close> and \<open>codec\<close>
  (\<open>Postprocessing_Roundtrip\<close>) are the contracts of the JSON encoders. \<open>entity_list\<close>
  (\<open>Entity_Lists\<close>) and \<open>system_list\<close> (\<open>System_Reload\<close>) are the contracts of the list queries and of
  the paged reading of system resources. \<open>world_relation\<close>, \<open>handler_relation\<close> and \<open>service_relation\<close>
  (\<open>Handler_Logic\<close>, \<open>Service_Logic\<close>) carry a relation between worlds through every handler and every
  route; they are interpreted on the steps of the job store, on the rows of other tenants, on the jobs
  started, and on the identity of the tables. \<open>quiet_monitor\<close> (\<open>K8s_Monitors\<close>) is the contract between an
  operation of the helper and a monitor, interpreted on the monitor that allows reading only and on the
  protocol of an execution. \<open>history_law\<close> and \<open>loop_law\<close> (\<open>K8s_Loop\<close>, \<open>K8s_Laws\<close>) carry a law of histories
  through the background routine; they are interpreted on the order of policy and Job, on the Jobs that
  may be deleted, and on the labels of what is created.

  \<^bold>\<open>The properties.\<close> The service as a whole (C1, C2) and the requests that create and cancel a job
  (C15, C16), \<open>Service_Properties\<close>; merging of overrides (C3 to C5, \<open>Merge_Properties\<close>); the job store
  as a state machine: final states, consistency of reachable stores, atomicity, isolation of tenants,
  the effects of events, cancellation, creation, and completion of post-processing jobs (C6 to C14,
  \<open>Store_Properties\<close>); the Kubernetes runtime: network policies, rollback, sweeps, deletions, termination
  and reports of the background routine, the form of the objects, isolation of executions, credentials,
  and log files (C17 to C27, \<open>K8s_Properties\<close>); the local runtime under every interleaving: processes and
  files of deleted jobs, and reports of failures (C28 to C30, \<open>Local_Properties\<close>); OCI export, resolved
  commits, verdicts and scores (C31 to C34, \<open>Result_Properties\<close>); retries (C35, \<open>Driver_Properties\<close>); the
  catalog (C36, \<open>Catalog_Properties\<close>); post-processing (C37, \<open>Postprocessing_Roundtrip\<close>); list statements,
  lists and system resources (C38 to C40, \<open>Listing_Properties\<close>). The same theories hold further theorems
  that stand beside these: the cost of an event and the pauses between attempts, wrapped driver errors, the
  registry of workloads, run counts, system providers and curated collections, the metrics schema, reads
  of the catalog, the end of the paged reading of system resources (\<open>system_listing_terminates\<close>) and of
  the goroutines of the local runtime (\<open>local_goroutines_end\<close>), and the environment of local adapters.

  \<^bold>\<open>Bounds.\<close> The retry loop is bounded by the five attempts of the code
  (serializationFailureMaxAttempts). The loop over the pages of the system resources has fuel; one more
  than the number of full pages is enough (\<open>system_listing_terminates\<close>). The loop that rewrites URLs in a message is a partial
  function, proved to return (\<open>RewriteSidecarURLsInMessage_returns\<close>). The wait of the Kubernetes runtime
  for the state of an evaluation may go on forever in the code; it is a partial function, and C21 says
  when it returns. The number of polls for a deleted Job (\<open>xr_poll\<close>) and of retries on a conflict
  (\<open>kh_RetrySteps\<close>) are parameters, since the code bounds the first by time and takes the second from the
  client library; no theorem depends on their values. The reading of a log file backwards terminates by
  the offset. A goroutine of the local runtime takes at most eleven steps. Every other loop of the code is over a list. Integers are \<open>int\<close> where the code counts
  benchmarks or indices, which stay far below the width of a machine word; 64-bit words in the backoff,
  where the code shifts; and reduced to 64 bits in the links of a page, where offset and limit come from
  the client.

  \<^bold>\<open>What is not modelled.\<close> Logging, tracing and the exporters of metrics; TLS and the start of the
  server; the loader and the watcher of the configuration, which read files through viper and fsnotify;
  the construction of the Kubernetes clients; what an adapter started by the local runtime does itself, and
  the killing of processes on Windows; the sidecar and
  the init container, which are other programs and move bytes between sockets and files; the HTTP clients
  of MLflow and OCI, the client of pkg/evalhubclient, the MCP server and the evaluation cards. JSON
  decoders and encoders, validators, JSON patch (github.com/evanphx/json-patch), url.Parse and
  resource.ParseQuantity are arguments of the operations that use them. Transactions are serialised:
  interleaving inside a transaction is what the database's locks (FOR UPDATE, or the single SQLite
  connection) exclude; requests are served one after the other, and what a runtime does in the background
  comes back as a request. Cancellation of the context of a call to the cluster is an error answer.
\<close>

end
